(* ===== verification/Prelude.thy ===== *)
theory Prelude
  imports Main "HOL-Library.Word"
begin

text \<open>
  Shared vocabulary of the development: names for the C integer types, bit-level extensionality
  for words of the widths the code uses, little-endian byte splitting, buffers of sixteen bytes,
  and the error-and-state computations in which the drivers are written.  The C idiom
  "status = f(); if (status != 0) return status;" is \<open>bindE\<close>: a non-zero
  status ends the computation, keeps the device state reached so far, and is returned as
  \<open>Inl status\<close>.
\<close>

section \<open>Types and collections\<close>

type_synonym u8 = "8 word"
type_synonym u16 = "16 word"
type_synonym u32 = "32 word"
type_synonym u64 = "64 word"
type_synonym bytes = "u8 list"

named_theorems io_simps \<open>evaluation rules of the error-and-state computations\<close>
named_theorems pkt_defs \<open>definitions of packet fields and flags\<close>
named_theorems reg_defs \<open>definitions of register-level helper functions\<close>

text \<open>The error codes of libbladeRF.h.\<close>

abbreviation (input) BLADERF_ERR_UNEXPECTED :: int where "BLADERF_ERR_UNEXPECTED \<equiv> -1"
abbreviation (input) BLADERF_ERR_RANGE :: int where "BLADERF_ERR_RANGE \<equiv> -2"
abbreviation (input) BLADERF_ERR_INVAL :: int where "BLADERF_ERR_INVAL \<equiv> -3"
abbreviation (input) BLADERF_ERR_MEM :: int where "BLADERF_ERR_MEM \<equiv> -4"
abbreviation (input) BLADERF_ERR_IO :: int where "BLADERF_ERR_IO \<equiv> -5"
abbreviation (input) BLADERF_ERR_TIMEOUT :: int where "BLADERF_ERR_TIMEOUT \<equiv> -6"
abbreviation (input) BLADERF_ERR_NODEV :: int where "BLADERF_ERR_NODEV \<equiv> -7"
abbreviation (input) BLADERF_ERR_UNSUPPORTED :: int where "BLADERF_ERR_UNSUPPORTED \<equiv> -8"
abbreviation (input) BLADERF_ERR_MISALIGNED :: int where "BLADERF_ERR_MISALIGNED \<equiv> -9"
abbreviation (input) BLADERF_ERR_CHECKSUM :: int where "BLADERF_ERR_CHECKSUM \<equiv> -10"
abbreviation (input) BLADERF_ERR_NO_FILE :: int where "BLADERF_ERR_NO_FILE \<equiv> -11"
abbreviation (input) BLADERF_ERR_UPDATE_FPGA :: int where "BLADERF_ERR_UPDATE_FPGA \<equiv> -12"
abbreviation (input) BLADERF_ERR_FPGA_OP :: int where "BLADERF_ERR_FPGA_OP \<equiv> -16"
abbreviation (input) BLADERF_ERR_QUEUE_FULL :: int where "BLADERF_ERR_QUEUE_FULL \<equiv> -15"
abbreviation (input) BLADERF_ERR_PERMISSION :: int where "BLADERF_ERR_PERMISSION \<equiv> -17"

unbundle bit_operations_syntax

section \<open>Words\<close>

lemma word_eq_all: "(a :: 'a::len word) = b \<longleftrightarrow> (\<forall>n < LENGTH('a). bit a n = bit b n)"
  by (auto intro: bit_word_eqI)

lemma all_less_numeral:
  "(\<forall>n < numeral k. P n) \<longleftrightarrow> P (pred_numeral k) \<and> (\<forall>n < pred_numeral k. P n)"
  by (simp only: numeral_eq_Suc All_less_Suc)

lemma word8_eq_iff: "(a :: 8 word) = b \<longleftrightarrow>
   bit a 7 = bit b 7 \<and> bit a 6 = bit b 6 \<and> bit a 5 = bit b 5 \<and> bit a 4 = bit b 4 \<and>
   bit a 3 = bit b 3 \<and> bit a 2 = bit b 2 \<and> bit a 1 = bit b 1 \<and> bit a 0 = bit b 0"
  by (simp add: word_eq_all all_less_numeral)

lemma word16_eq_iff: "(a :: 16 word) = b \<longleftrightarrow>
   bit a 15 = bit b 15 \<and> bit a 14 = bit b 14 \<and> bit a 13 = bit b 13 \<and> bit a 12 = bit b 12 \<and>
   bit a 11 = bit b 11 \<and> bit a 10 = bit b 10 \<and> bit a 9 = bit b 9 \<and> bit a 8 = bit b 8 \<and>
   bit a 7 = bit b 7 \<and> bit a 6 = bit b 6 \<and> bit a 5 = bit b 5 \<and> bit a 4 = bit b 4 \<and>
   bit a 3 = bit b 3 \<and> bit a 2 = bit b 2 \<and> bit a 1 = bit b 1 \<and> bit a 0 = bit b 0"
  by (simp add: word_eq_all all_less_numeral)

lemma word32_eq_iff: "(a :: 32 word) = b \<longleftrightarrow>
   bit a 31 = bit b 31 \<and> bit a 30 = bit b 30 \<and> bit a 29 = bit b 29 \<and> bit a 28 = bit b 28 \<and>
   bit a 27 = bit b 27 \<and> bit a 26 = bit b 26 \<and> bit a 25 = bit b 25 \<and> bit a 24 = bit b 24 \<and>
   bit a 23 = bit b 23 \<and> bit a 22 = bit b 22 \<and> bit a 21 = bit b 21 \<and> bit a 20 = bit b 20 \<and>
   bit a 19 = bit b 19 \<and> bit a 18 = bit b 18 \<and> bit a 17 = bit b 17 \<and> bit a 16 = bit b 16 \<and>
   bit a 15 = bit b 15 \<and> bit a 14 = bit b 14 \<and> bit a 13 = bit b 13 \<and> bit a 12 = bit b 12 \<and>
   bit a 11 = bit b 11 \<and> bit a 10 = bit b 10 \<and> bit a 9 = bit b 9 \<and> bit a 8 = bit b 8 \<and>
   bit a 7 = bit b 7 \<and> bit a 6 = bit b 6 \<and> bit a 5 = bit b 5 \<and> bit a 4 = bit b 4 \<and>
   bit a 3 = bit b 3 \<and> bit a 2 = bit b 2 \<and> bit a 1 = bit b 1 \<and> bit a 0 = bit b 0"
  by (simp add: word_eq_all all_less_numeral)

lemma word64_eq_iff: "(a :: 64 word) = b \<longleftrightarrow>
   bit a 63 = bit b 63 \<and> bit a 62 = bit b 62 \<and> bit a 61 = bit b 61 \<and> bit a 60 = bit b 60 \<and>
   bit a 59 = bit b 59 \<and> bit a 58 = bit b 58 \<and> bit a 57 = bit b 57 \<and> bit a 56 = bit b 56 \<and>
   bit a 55 = bit b 55 \<and> bit a 54 = bit b 54 \<and> bit a 53 = bit b 53 \<and> bit a 52 = bit b 52 \<and>
   bit a 51 = bit b 51 \<and> bit a 50 = bit b 50 \<and> bit a 49 = bit b 49 \<and> bit a 48 = bit b 48 \<and>
   bit a 47 = bit b 47 \<and> bit a 46 = bit b 46 \<and> bit a 45 = bit b 45 \<and> bit a 44 = bit b 44 \<and>
   bit a 43 = bit b 43 \<and> bit a 42 = bit b 42 \<and> bit a 41 = bit b 41 \<and> bit a 40 = bit b 40 \<and>
   bit a 39 = bit b 39 \<and> bit a 38 = bit b 38 \<and> bit a 37 = bit b 37 \<and> bit a 36 = bit b 36 \<and>
   bit a 35 = bit b 35 \<and> bit a 34 = bit b 34 \<and> bit a 33 = bit b 33 \<and> bit a 32 = bit b 32 \<and>
   bit a 31 = bit b 31 \<and> bit a 30 = bit b 30 \<and> bit a 29 = bit b 29 \<and> bit a 28 = bit b 28 \<and>
   bit a 27 = bit b 27 \<and> bit a 26 = bit b 26 \<and> bit a 25 = bit b 25 \<and> bit a 24 = bit b 24 \<and>
   bit a 23 = bit b 23 \<and> bit a 22 = bit b 22 \<and> bit a 21 = bit b 21 \<and> bit a 20 = bit b 20 \<and>
   bit a 19 = bit b 19 \<and> bit a 18 = bit b 18 \<and> bit a 17 = bit b 17 \<and> bit a 16 = bit b 16 \<and>
   bit a 15 = bit b 15 \<and> bit a 14 = bit b 14 \<and> bit a 13 = bit b 13 \<and> bit a 12 = bit b 12 \<and>
   bit a 11 = bit b 11 \<and> bit a 10 = bit b 10 \<and> bit a 9 = bit b 9 \<and> bit a 8 = bit b 8 \<and>
   bit a 7 = bit b 7 \<and> bit a 6 = bit b 6 \<and> bit a 5 = bit b 5 \<and> bit a 4 = bit b 4 \<and>
   bit a 3 = bit b 3 \<and> bit a 2 = bit b 2 \<and> bit a 1 = bit b 1 \<and> bit a 0 = bit b 0"
  by (simp add: word_eq_all all_less_numeral)

lemma byte_mask_ucast [simp]: "(ucast ((w :: 'a::len word) AND 0xff) :: u8) = ucast w"
proof -
  have "w AND 0xff = take_bit 8 w"
    by (simp add: take_bit_eq_mask mask_eq_exp_minus_1)
  then show ?thesis
    by (auto intro!: bit_word_eqI simp add: bit_simps dest: bit_imp_le_length)
qed

lemma uint_word_of_int_small:
  "0 \<le> k \<Longrightarrow> k < 2 ^ LENGTH('a) \<Longrightarrow> uint (word_of_int k :: 'a::len word) = k"
  by (simp add: uint_word_of_int_eq take_bit_eq_mod)

lemma bit_word_high: "LENGTH('a) \<le> n \<Longrightarrow> \<not> bit (w :: 'a::len word) n"
  using bit_imp_le_length [of w n] by auto

lemma uint_and_1f: "uint ((w :: u8) AND 0x1f) = uint w mod 32"
proof -
  have "w AND 0x1f = take_bit 5 w"
    by (simp add: take_bit_eq_mask mask_eq_exp_minus_1)
  then show ?thesis
    by (simp add: take_bit_eq_mod uint_mod)
qed

lemma unat_ucast_up: "LENGTH('a) \<le> LENGTH('b) \<Longrightarrow> unat (ucast (w :: 'a::len word) :: 'b::len word) = unat w"
  by (simp add: unsigned_ucast_eq take_bit_nat_eq_self order.strict_trans2 [OF unsigned_less])

lemma unat_push_bit: "unat w * 2 ^ n < 2 ^ LENGTH('a) \<Longrightarrow> unat (push_bit n (w :: 'a::len word)) = unat w * 2 ^ n"
  by (simp only: unsigned_push_bit_eq) (simp add: push_bit_eq_mult take_bit_nat_eq_self)

lemma bytes_join16:
  "(ucast (ucast w :: u8) :: u16) OR push_bit 8 (ucast (ucast (drop_bit 8 w) :: u8)) = w"
  by (simp add: word16_eq_iff bit_simps)

lemma bytes_join32:
  "(ucast (ucast w :: u8) :: u32) OR push_bit 8 (ucast (ucast (drop_bit 8 w) :: u8))
     OR push_bit 16 (ucast (ucast (drop_bit 16 w) :: u8))
     OR push_bit 24 (ucast (ucast (drop_bit 24 w) :: u8)) = w"
  by (simp add: word32_eq_iff bit_simps)

lemma bytes_join64:
  "(ucast (ucast w :: u8) :: u64) OR push_bit 8 (ucast (ucast (drop_bit 8 w) :: u8))
     OR push_bit 16 (ucast (ucast (drop_bit 16 w) :: u8))
     OR push_bit 24 (ucast (ucast (drop_bit 24 w) :: u8))
     OR push_bit 32 (ucast (ucast (drop_bit 32 w) :: u8))
     OR push_bit 40 (ucast (ucast (drop_bit 40 w) :: u8))
     OR push_bit 48 (ucast (ucast (drop_bit 48 w) :: u8))
     OR push_bit 56 (ucast (ucast (drop_bit 56 w) :: u8)) = w"
  by (simp add: word64_eq_iff bit_simps)

lemmas bytes_join = bytes_join16 bytes_join32 bytes_join64

section \<open>Buffers of sixteen bytes\<close>

lemma length_16_iff:
  "length xs = 16 \<longleftrightarrow> (\<exists>a b c d e f g h i j k l m n p q. xs = [a,b,c,d,e,f,g,h,i,j,k,l,m,n,p,q])"
  by (simp only: length_Suc_conv numeral_eq_Suc pred_numeral_simps BitM.simps length_0_conv) auto

lemma length_16E:
  assumes "length xs = 16"
  obtains a b c d e f g h i j k l m n p q where "xs = [a,b,c,d,e,f,g,h,i,j,k,l,m,n,p,q]"
  using assms unfolding length_16_iff by blast

section \<open>Computations with a device state and an error status\<close>

type_synonym ('s, 'a) io = "'s \<Rightarrow> (int + 'a) \<times> 's"

definition returnE :: "'a \<Rightarrow> ('s, 'a) io" where
  "returnE x s = (Inr x, s)"

definition throwE :: "int \<Rightarrow> ('s, 'a) io" where
  "throwE e s = (Inl e, s)"

definition bindE :: "('s, 'a) io \<Rightarrow> ('a \<Rightarrow> ('s, 'b) io) \<Rightarrow> ('s, 'b) io" where
  "bindE m f s = (case m s of (Inl e, t) \<Rightarrow> (Inl e, t) | (Inr x, t) \<Rightarrow> f x t)"

abbreviation seqE :: "('s, 'a) io \<Rightarrow> ('s, 'b) io \<Rightarrow> ('s, 'b) io" where
  "seqE m k \<equiv> bindE m (\<lambda>_. k)"

text \<open>\<open>catchE\<close> is for the places where the code looks at the status of a call and goes on;
  \<open>statusE\<close> turns the status of a call into a value.\<close>

definition catchE :: "('s, 'a) io \<Rightarrow> (int \<Rightarrow> ('s, 'a) io) \<Rightarrow> ('s, 'a) io" where
  "catchE m h s = (case m s of (Inl e, t) \<Rightarrow> h e t | (Inr x, t) \<Rightarrow> (Inr x, t))"

definition statusE :: "('s, 'a) io \<Rightarrow> ('s, int) io" where
  "statusE m s = (case m s of (Inl e, t) \<Rightarrow> (Inr e, t) | (Inr x, t) \<Rightarrow> (Inr 0, t))"

definition whenE :: "bool \<Rightarrow> ('s, unit) io \<Rightarrow> ('s, unit) io" where
  "whenE b m = (if b then m else returnE ())"

fun eachE :: "('a \<Rightarrow> ('s, unit) io) \<Rightarrow> 'a list \<Rightarrow> ('s, unit) io" where
  "eachE f [] = returnE ()"
| "eachE f (x # xs) = seqE (f x) (eachE f xs)"

lemma returnE_apply [io_simps, simp]: "returnE x s = (Inr x, s)"
  by (simp add: returnE_def)

lemma throwE_apply [io_simps, simp]: "throwE e s = (Inl e, s)"
  by (simp add: throwE_def)

lemma bindE_Inr [io_simps]: "m s = (Inr x, t) \<Longrightarrow> bindE m f s = f x t"
  by (simp add: bindE_def)

lemma bindE_Inl [io_simps]: "m s = (Inl e, t) \<Longrightarrow> bindE m f s = (Inl e, t)"
  by (simp add: bindE_def)

lemma bindE_returnE [io_simps, simp]: "bindE (returnE x) f = f x"
  by (rule ext) (simp add: bindE_def)

lemma bindE_throwE [io_simps, simp]: "bindE (throwE e) f = throwE e"
  by (rule ext) (simp add: bindE_def)

lemma bindE_assoc: "bindE (bindE m f) g = bindE m (\<lambda>x. bindE (f x) g)"
  by (rule ext) (simp add: bindE_def split: prod.splits sum.splits)

lemma bindE_split:
  "bindE m f s = (r, t) \<longleftrightarrow>
     (\<exists>e. m s = (Inl e, t) \<and> r = Inl e) \<or> (\<exists>x u. m s = (Inr x, u) \<and> f x u = (r, t))"
  by (auto simp add: bindE_def split: prod.splits sum.splits)

lemma bindE_InrD:
  assumes "bindE m f s = (Inr y, t)"
  obtains x u where "m s = (Inr x, u)" "f x u = (Inr y, t)"
  using assms by (auto simp add: bindE_split)

lemma catchE_Inr [io_simps]: "m s = (Inr x, t) \<Longrightarrow> catchE m h s = (Inr x, t)"
  by (simp add: catchE_def)

lemma catchE_Inl [io_simps]: "m s = (Inl e, t) \<Longrightarrow> catchE m h s = h e t"
  by (simp add: catchE_def)

lemma whenE_simps [io_simps, simp]: "whenE True m = m" "whenE False m = returnE ()"
  by (simp_all add: whenE_def)

section \<open>Computations that cannot fail and computations that may not return\<close>

text \<open>The device functions of the firmware return nothing but their value: they are
  state transformers, composed with \<open>bindS\<close>.  A computation that may poll forever, or
  whose C code has undefined behaviour on some inputs, returns an option; None means that no
  result is ever produced.\<close>

type_synonym ('s, 'a) st = "'s \<Rightarrow> 'a \<times> 's"
type_synonym ('s, 'a) fw = "'s \<Rightarrow> ('a \<times> 's) option"

definition returnS :: "'a \<Rightarrow> ('s, 'a) st" where
  "returnS x s = (x, s)"

definition bindS :: "('s, 'a) st \<Rightarrow> ('a \<Rightarrow> ('s, 'b) st) \<Rightarrow> ('s, 'b) st" where
  "bindS m f s = (case m s of (x, t) \<Rightarrow> f x t)"

abbreviation seqS :: "('s, 'a) st \<Rightarrow> ('s, 'b) st \<Rightarrow> ('s, 'b) st" where
  "seqS m k \<equiv> bindS m (\<lambda>_. k)"

definition modifyS :: "('s \<Rightarrow> 's) \<Rightarrow> ('s, unit) st" where
  "modifyS f s = ((), f s)"

definition getS :: "('s \<Rightarrow> 'a) \<Rightarrow> ('s, 'a) st" where
  "getS f s = (f s, s)"

definition returnF :: "'a \<Rightarrow> ('s, 'a) fw" where
  "returnF x s = Some (x, s)"

definition bindF :: "('s, 'a) fw \<Rightarrow> ('a \<Rightarrow> ('s, 'b) fw) \<Rightarrow> ('s, 'b) fw" where
  "bindF m f s = (case m s of None \<Rightarrow> None | Some (x, t) \<Rightarrow> f x t)"

abbreviation seqF :: "('s, 'a) fw \<Rightarrow> ('s, 'b) fw \<Rightarrow> ('s, 'b) fw" where
  "seqF m k \<equiv> bindF m (\<lambda>_. k)"

definition liftF :: "('s, 'a) st \<Rightarrow> ('s, 'a) fw" where
  "liftF m s = Some (m s)"

definition undefinedF :: "('s, 'a) fw" where
  "undefinedF s = None"

lemma st_simps [simp]:
  "returnS x s = (x, s)" "modifyS f s = ((), f s)" "getS g s = (g s, s)"
  by (simp_all add: returnS_def modifyS_def getS_def)

lemma bindS_apply: "bindS m f s = f (fst (m s)) (snd (m s))"
  by (simp add: bindS_def split: prod.splits)

lemma fw_simps [simp]:
  "returnF x s = Some (x, s)" "liftF m s = Some (m s)" "undefinedF s = None"
  by (simp_all add: returnF_def liftF_def undefinedF_def)

lemma bindF_Some: "m s = Some (x, t) \<Longrightarrow> bindF m f s = f x t"
  by (simp add: bindF_def)

lemma bindF_None: "m s = None \<Longrightarrow> bindF m f s = None"
  by (simp add: bindF_def)

lemma bindF_liftF [simp]: "bindF (liftF m) f s = f (fst (m s)) (snd (m s))"
  by (simp add: bindF_def split: prod.splits)

lemma bindF_eq_Some:
  "bindF m f s = Some r \<longleftrightarrow> (\<exists>x t. m s = Some (x, t) \<and> f x t = Some r)"
  by (auto simp add: bindF_def split: option.splits)

end
