(* ===== verification/Nios_Pkt.thy ===== *)
theory Nios_Pkt
  imports Prelude
begin

text \<open>
  The packet formats of the host-to-FPGA control channel
  (fpga_common/include/nios_pkt_8x8.h, 8x16, 8x32, 8x64, 32x32, nios_pkt_retune.h).  A packet is
  a buffer of sixteen bytes; a pack function overwrites the buffer it is given and an unpack
  function returns the fields it would store through its output pointers (a NULL pointer in the
  C code is a component the caller ignores).  Index arithmetic, flag bits and shifts are those
  of the headers.  The lemmas \<open>*_bytes\<close> give the wire image of each packed packet, the
  \<open>*_unpack_pack\<close> lemmas the round trips, and the properties state them for requests and
  responses together.
\<close>

abbreviation (input) NIOS_PKT_LEN :: nat where "NIOS_PKT_LEN \<equiv> 16"

section \<open>8-bit addresses, 8-bit data\<close>

abbreviation (input) NIOS_PKT_8x8_MAGIC :: u8 where "NIOS_PKT_8x8_MAGIC \<equiv> 0x41"
abbreviation (input) NIOS_PKT_8x8_IDX_MAGIC :: nat where "NIOS_PKT_8x8_IDX_MAGIC \<equiv> 0"
abbreviation (input) NIOS_PKT_8x8_IDX_TARGET_ID :: nat where "NIOS_PKT_8x8_IDX_TARGET_ID \<equiv> 1"
abbreviation (input) NIOS_PKT_8x8_IDX_FLAGS :: nat where "NIOS_PKT_8x8_IDX_FLAGS \<equiv> 2"
abbreviation (input) NIOS_PKT_8x8_IDX_RESV1 :: nat where "NIOS_PKT_8x8_IDX_RESV1 \<equiv> 3"
abbreviation (input) NIOS_PKT_8x8_IDX_ADDR :: nat where "NIOS_PKT_8x8_IDX_ADDR \<equiv> 4"
abbreviation (input) NIOS_PKT_8x8_IDX_DATA :: nat where "NIOS_PKT_8x8_IDX_DATA \<equiv> 5"
abbreviation (input) NIOS_PKT_8x8_IDX_RESV2 :: nat where "NIOS_PKT_8x8_IDX_RESV2 \<equiv> 6"
abbreviation (input) NIOS_PKT_8x8_FLAG_WRITE :: u8 where "NIOS_PKT_8x8_FLAG_WRITE \<equiv> 1"
abbreviation (input) NIOS_PKT_8x8_FLAG_SUCCESS :: u8 where "NIOS_PKT_8x8_FLAG_SUCCESS \<equiv> 2"

definition nios_pkt_8x8_pack :: "bytes \<Rightarrow> u8 \<Rightarrow> bool \<Rightarrow> u8 \<Rightarrow> u8 \<Rightarrow> bytes" where
  "nios_pkt_8x8_pack buf target write addr data = buf
     [NIOS_PKT_8x8_IDX_MAGIC := NIOS_PKT_8x8_MAGIC,
      NIOS_PKT_8x8_IDX_TARGET_ID := target,
      NIOS_PKT_8x8_IDX_FLAGS := (if write then NIOS_PKT_8x8_FLAG_WRITE else 0x00),
      NIOS_PKT_8x8_IDX_RESV1 := 0x00,
      NIOS_PKT_8x8_IDX_ADDR := addr,
      NIOS_PKT_8x8_IDX_DATA := data,
      NIOS_PKT_8x8_IDX_RESV2 + 0 := 0x00,
      NIOS_PKT_8x8_IDX_RESV2 + 1 := 0x00,
      NIOS_PKT_8x8_IDX_RESV2 + 2 := 0x00,
      NIOS_PKT_8x8_IDX_RESV2 + 3 := 0x00,
      NIOS_PKT_8x8_IDX_RESV2 + 4 := 0x00,
      NIOS_PKT_8x8_IDX_RESV2 + 5 := 0x00,
      NIOS_PKT_8x8_IDX_RESV2 + 6 := 0x00,
      NIOS_PKT_8x8_IDX_RESV2 + 7 := 0x00,
      NIOS_PKT_8x8_IDX_RESV2 + 8 := 0x00,
      NIOS_PKT_8x8_IDX_RESV2 + 9 := 0x00]"

definition nios_pkt_8x8_unpack :: "bytes \<Rightarrow> u8 \<times> bool \<times> u8 \<times> u8" where
  "nios_pkt_8x8_unpack buf =
     (buf ! NIOS_PKT_8x8_IDX_TARGET_ID,
      buf ! NIOS_PKT_8x8_IDX_FLAGS AND NIOS_PKT_8x8_FLAG_WRITE \<noteq> 0,
      buf ! NIOS_PKT_8x8_IDX_ADDR,
      buf ! NIOS_PKT_8x8_IDX_DATA)"

definition nios_pkt_8x8_resp_pack :: "bytes \<Rightarrow> u8 \<Rightarrow> bool \<Rightarrow> u8 \<Rightarrow> u8 \<Rightarrow> bool \<Rightarrow> bytes" where
  "nios_pkt_8x8_resp_pack buf target write addr data success =
     (let buf' = nios_pkt_8x8_pack buf target write addr data in
      if success then buf'[NIOS_PKT_8x8_IDX_FLAGS := buf' ! NIOS_PKT_8x8_IDX_FLAGS OR NIOS_PKT_8x8_FLAG_SUCCESS]
      else buf')"

definition nios_pkt_8x8_resp_unpack :: "bytes \<Rightarrow> (u8 \<times> bool \<times> u8 \<times> u8) \<times> bool" where
  "nios_pkt_8x8_resp_unpack buf =
     (nios_pkt_8x8_unpack buf, buf ! NIOS_PKT_8x8_IDX_FLAGS AND NIOS_PKT_8x8_FLAG_SUCCESS \<noteq> 0)"

lemma nios_pkt_8x8_pack_bytes:
  assumes "length buf = 16"
  shows "nios_pkt_8x8_pack buf target write addr data =
    [0x41, target, (if write then 1 else 0), 0, addr, data, 0, 0, 0, 0, 0, 0, 0, 0, 0, 0]"
  using assms by (elim length_16E) (simp add: nios_pkt_8x8_pack_def)

lemma nios_pkt_8x8_resp_pack_bytes:
  assumes "length buf = 16"
  shows "nios_pkt_8x8_resp_pack buf target write addr data success =
    [0x41, target, (if write then if success then 3 else 1 else if success then 2 else 0), 0, addr, data, 0, 0, 0, 0, 0, 0, 0, 0, 0, 0]"
  using assms by (simp add: nios_pkt_8x8_resp_pack_def nios_pkt_8x8_pack_bytes)

lemma length_nios_pkt_8x8 [simp]:
  "length (nios_pkt_8x8_pack buf target write addr data) = length buf"
  "length (nios_pkt_8x8_resp_pack buf target write addr data success) = length buf"
  by (simp_all add: nios_pkt_8x8_pack_def nios_pkt_8x8_resp_pack_def Let_def)

lemma nios_pkt_8x8_unpack_pack [simp]:
  "length buf = 16 \<Longrightarrow> nios_pkt_8x8_unpack (nios_pkt_8x8_pack buf target write addr data) = (target, write, addr, data)"
  by (simp add: nios_pkt_8x8_pack_bytes nios_pkt_8x8_unpack_def bytes_join)

lemma nios_pkt_8x8_unpack_resp_pack [simp]:
  "length buf = 16 \<Longrightarrow>
   nios_pkt_8x8_unpack (nios_pkt_8x8_resp_pack buf target write addr data success) = (target, write, addr, data)"
  by (simp add: nios_pkt_8x8_resp_pack_bytes nios_pkt_8x8_unpack_def bytes_join)

lemma nios_pkt_8x8_resp_unpack_resp_pack [simp]:
  "length buf = 16 \<Longrightarrow>
   nios_pkt_8x8_resp_unpack (nios_pkt_8x8_resp_pack buf target write addr data success) = ((target, write, addr, data), success)"
  by (simp add: nios_pkt_8x8_resp_unpack_def) (simp add: nios_pkt_8x8_resp_pack_bytes)

lemma nios_pkt_8x8_magic [simp]:
  "length buf = 16 \<Longrightarrow> nios_pkt_8x8_pack buf target write addr data ! 0 = 0x41"
  by (simp add: nios_pkt_8x8_pack_bytes)

section \<open>8-bit addresses, 16-bit data\<close>

abbreviation (input) NIOS_PKT_8x16_MAGIC :: u8 where "NIOS_PKT_8x16_MAGIC \<equiv> 0x42"
abbreviation (input) NIOS_PKT_8x16_IDX_MAGIC :: nat where "NIOS_PKT_8x16_IDX_MAGIC \<equiv> 0"
abbreviation (input) NIOS_PKT_8x16_IDX_TARGET_ID :: nat where "NIOS_PKT_8x16_IDX_TARGET_ID \<equiv> 1"
abbreviation (input) NIOS_PKT_8x16_IDX_FLAGS :: nat where "NIOS_PKT_8x16_IDX_FLAGS \<equiv> 2"
abbreviation (input) NIOS_PKT_8x16_IDX_RESV1 :: nat where "NIOS_PKT_8x16_IDX_RESV1 \<equiv> 3"
abbreviation (input) NIOS_PKT_8x16_IDX_ADDR :: nat where "NIOS_PKT_8x16_IDX_ADDR \<equiv> 4"
abbreviation (input) NIOS_PKT_8x16_IDX_DATA :: nat where "NIOS_PKT_8x16_IDX_DATA \<equiv> 5"
abbreviation (input) NIOS_PKT_8x16_IDX_RESV2 :: nat where "NIOS_PKT_8x16_IDX_RESV2 \<equiv> 7"
abbreviation (input) NIOS_PKT_8x16_FLAG_WRITE :: u8 where "NIOS_PKT_8x16_FLAG_WRITE \<equiv> 1"
abbreviation (input) NIOS_PKT_8x16_FLAG_SUCCESS :: u8 where "NIOS_PKT_8x16_FLAG_SUCCESS \<equiv> 2"

definition nios_pkt_8x16_pack :: "bytes \<Rightarrow> u8 \<Rightarrow> bool \<Rightarrow> u8 \<Rightarrow> u16 \<Rightarrow> bytes" where
  "nios_pkt_8x16_pack buf target write addr data = buf
     [NIOS_PKT_8x16_IDX_MAGIC := NIOS_PKT_8x16_MAGIC,
      NIOS_PKT_8x16_IDX_TARGET_ID := target,
      NIOS_PKT_8x16_IDX_FLAGS := (if write then NIOS_PKT_8x16_FLAG_WRITE else 0x00),
      NIOS_PKT_8x16_IDX_RESV1 := 0x00,
      NIOS_PKT_8x16_IDX_ADDR := addr,
      NIOS_PKT_8x16_IDX_DATA := ucast (data AND 0xff),
      NIOS_PKT_8x16_IDX_DATA + 1 := ucast (drop_bit 8 data),
      NIOS_PKT_8x16_IDX_RESV2 + 0 := 0x00,
      NIOS_PKT_8x16_IDX_RESV2 + 1 := 0x00,
      NIOS_PKT_8x16_IDX_RESV2 + 2 := 0x00,
      NIOS_PKT_8x16_IDX_RESV2 + 3 := 0x00,
      NIOS_PKT_8x16_IDX_RESV2 + 4 := 0x00,
      NIOS_PKT_8x16_IDX_RESV2 + 5 := 0x00,
      NIOS_PKT_8x16_IDX_RESV2 + 6 := 0x00,
      NIOS_PKT_8x16_IDX_RESV2 + 7 := 0x00,
      NIOS_PKT_8x16_IDX_RESV2 + 8 := 0x00]"

definition nios_pkt_8x16_unpack :: "bytes \<Rightarrow> u8 \<times> bool \<times> u8 \<times> u16" where
  "nios_pkt_8x16_unpack buf =
     (buf ! NIOS_PKT_8x16_IDX_TARGET_ID,
      buf ! NIOS_PKT_8x16_IDX_FLAGS AND NIOS_PKT_8x16_FLAG_WRITE \<noteq> 0,
      buf ! NIOS_PKT_8x16_IDX_ADDR,
      (ucast (buf ! (NIOS_PKT_8x16_IDX_DATA + 0)) :: u16)
       OR push_bit 8 (ucast (buf ! (NIOS_PKT_8x16_IDX_DATA + 1))))"

definition nios_pkt_8x16_resp_pack :: "bytes \<Rightarrow> u8 \<Rightarrow> bool \<Rightarrow> u8 \<Rightarrow> u16 \<Rightarrow> bool \<Rightarrow> bytes" where
  "nios_pkt_8x16_resp_pack buf target write addr data success =
     (let buf' = nios_pkt_8x16_pack buf target write addr data in
      if success then buf'[NIOS_PKT_8x16_IDX_FLAGS := buf' ! NIOS_PKT_8x16_IDX_FLAGS OR NIOS_PKT_8x16_FLAG_SUCCESS]
      else buf')"

definition nios_pkt_8x16_resp_unpack :: "bytes \<Rightarrow> (u8 \<times> bool \<times> u8 \<times> u16) \<times> bool" where
  "nios_pkt_8x16_resp_unpack buf =
     (nios_pkt_8x16_unpack buf, buf ! NIOS_PKT_8x16_IDX_FLAGS AND NIOS_PKT_8x16_FLAG_SUCCESS \<noteq> 0)"

lemma nios_pkt_8x16_pack_bytes:
  assumes "length buf = 16"
  shows "nios_pkt_8x16_pack buf target write addr data =
    [0x42, target, (if write then 1 else 0), 0, addr, ucast data, ucast (drop_bit 8 data), 0, 0, 0, 0, 0, 0, 0, 0, 0]"
  using assms by (elim length_16E) (simp add: nios_pkt_8x16_pack_def)

lemma nios_pkt_8x16_resp_pack_bytes:
  assumes "length buf = 16"
  shows "nios_pkt_8x16_resp_pack buf target write addr data success =
    [0x42, target, (if write then if success then 3 else 1 else if success then 2 else 0), 0, addr, ucast data, ucast (drop_bit 8 data), 0, 0, 0, 0, 0, 0, 0, 0, 0]"
  using assms by (simp add: nios_pkt_8x16_resp_pack_def nios_pkt_8x16_pack_bytes)

lemma length_nios_pkt_8x16 [simp]:
  "length (nios_pkt_8x16_pack buf target write addr data) = length buf"
  "length (nios_pkt_8x16_resp_pack buf target write addr data success) = length buf"
  by (simp_all add: nios_pkt_8x16_pack_def nios_pkt_8x16_resp_pack_def Let_def)

lemma nios_pkt_8x16_unpack_pack [simp]:
  "length buf = 16 \<Longrightarrow> nios_pkt_8x16_unpack (nios_pkt_8x16_pack buf target write addr data) = (target, write, addr, data)"
  by (simp add: nios_pkt_8x16_pack_bytes nios_pkt_8x16_unpack_def bytes_join)

lemma nios_pkt_8x16_unpack_resp_pack [simp]:
  "length buf = 16 \<Longrightarrow>
   nios_pkt_8x16_unpack (nios_pkt_8x16_resp_pack buf target write addr data success) = (target, write, addr, data)"
  by (simp add: nios_pkt_8x16_resp_pack_bytes nios_pkt_8x16_unpack_def bytes_join)

lemma nios_pkt_8x16_resp_unpack_resp_pack [simp]:
  "length buf = 16 \<Longrightarrow>
   nios_pkt_8x16_resp_unpack (nios_pkt_8x16_resp_pack buf target write addr data success) = ((target, write, addr, data), success)"
  by (simp add: nios_pkt_8x16_resp_unpack_def) (simp add: nios_pkt_8x16_resp_pack_bytes)

lemma nios_pkt_8x16_magic [simp]:
  "length buf = 16 \<Longrightarrow> nios_pkt_8x16_pack buf target write addr data ! 0 = 0x42"
  by (simp add: nios_pkt_8x16_pack_bytes)

section \<open>8-bit addresses, 32-bit data\<close>

abbreviation (input) NIOS_PKT_8x32_MAGIC :: u8 where "NIOS_PKT_8x32_MAGIC \<equiv> 0x43"
abbreviation (input) NIOS_PKT_8x32_IDX_MAGIC :: nat where "NIOS_PKT_8x32_IDX_MAGIC \<equiv> 0"
abbreviation (input) NIOS_PKT_8x32_IDX_TARGET_ID :: nat where "NIOS_PKT_8x32_IDX_TARGET_ID \<equiv> 1"
abbreviation (input) NIOS_PKT_8x32_IDX_FLAGS :: nat where "NIOS_PKT_8x32_IDX_FLAGS \<equiv> 2"
abbreviation (input) NIOS_PKT_8x32_IDX_RESV1 :: nat where "NIOS_PKT_8x32_IDX_RESV1 \<equiv> 3"
abbreviation (input) NIOS_PKT_8x32_IDX_ADDR :: nat where "NIOS_PKT_8x32_IDX_ADDR \<equiv> 4"
abbreviation (input) NIOS_PKT_8x32_IDX_DATA :: nat where "NIOS_PKT_8x32_IDX_DATA \<equiv> 5"
abbreviation (input) NIOS_PKT_8x32_IDX_RESV2 :: nat where "NIOS_PKT_8x32_IDX_RESV2 \<equiv> 9"
abbreviation (input) NIOS_PKT_8x32_FLAG_WRITE :: u8 where "NIOS_PKT_8x32_FLAG_WRITE \<equiv> 1"
abbreviation (input) NIOS_PKT_8x32_FLAG_SUCCESS :: u8 where "NIOS_PKT_8x32_FLAG_SUCCESS \<equiv> 2"

definition nios_pkt_8x32_pack :: "bytes \<Rightarrow> u8 \<Rightarrow> bool \<Rightarrow> u8 \<Rightarrow> u32 \<Rightarrow> bytes" where
  "nios_pkt_8x32_pack buf target write addr data = buf
     [NIOS_PKT_8x32_IDX_MAGIC := NIOS_PKT_8x32_MAGIC,
      NIOS_PKT_8x32_IDX_TARGET_ID := target,
      NIOS_PKT_8x32_IDX_FLAGS := (if write then NIOS_PKT_8x32_FLAG_WRITE else 0x00),
      NIOS_PKT_8x32_IDX_RESV1 := 0x00,
      NIOS_PKT_8x32_IDX_ADDR := addr,
      NIOS_PKT_8x32_IDX_DATA + 0 := ucast (data AND 0xff),
      NIOS_PKT_8x32_IDX_DATA + 1 := ucast (drop_bit 8 data),
      NIOS_PKT_8x32_IDX_DATA + 2 := ucast (drop_bit 16 data),
      NIOS_PKT_8x32_IDX_DATA + 3 := ucast (drop_bit 24 data),
      NIOS_PKT_8x32_IDX_RESV2 + 0 := 0x00,
      NIOS_PKT_8x32_IDX_RESV2 + 1 := 0x00,
      NIOS_PKT_8x32_IDX_RESV2 + 2 := 0x00,
      NIOS_PKT_8x32_IDX_RESV2 + 3 := 0x00,
      NIOS_PKT_8x32_IDX_RESV2 + 4 := 0x00,
      NIOS_PKT_8x32_IDX_RESV2 + 5 := 0x00,
      NIOS_PKT_8x32_IDX_RESV2 + 6 := 0x00]"

definition nios_pkt_8x32_unpack :: "bytes \<Rightarrow> u8 \<times> bool \<times> u8 \<times> u32" where
  "nios_pkt_8x32_unpack buf =
     (buf ! NIOS_PKT_8x32_IDX_TARGET_ID,
      buf ! NIOS_PKT_8x32_IDX_FLAGS AND NIOS_PKT_8x32_FLAG_WRITE \<noteq> 0,
      buf ! NIOS_PKT_8x32_IDX_ADDR,
      (ucast (buf ! (NIOS_PKT_8x32_IDX_DATA + 0)) :: u32)
       OR push_bit 8 (ucast (buf ! (NIOS_PKT_8x32_IDX_DATA + 1)))
       OR push_bit 16 (ucast (buf ! (NIOS_PKT_8x32_IDX_DATA + 2)))
       OR push_bit 24 (ucast (buf ! (NIOS_PKT_8x32_IDX_DATA + 3))))"

definition nios_pkt_8x32_resp_pack :: "bytes \<Rightarrow> u8 \<Rightarrow> bool \<Rightarrow> u8 \<Rightarrow> u32 \<Rightarrow> bool \<Rightarrow> bytes" where
  "nios_pkt_8x32_resp_pack buf target write addr data success =
     (let buf' = nios_pkt_8x32_pack buf target write addr data in
      if success then buf'[NIOS_PKT_8x32_IDX_FLAGS := buf' ! NIOS_PKT_8x32_IDX_FLAGS OR NIOS_PKT_8x32_FLAG_SUCCESS]
      else buf')"

definition nios_pkt_8x32_resp_unpack :: "bytes \<Rightarrow> (u8 \<times> bool \<times> u8 \<times> u32) \<times> bool" where
  "nios_pkt_8x32_resp_unpack buf =
     (nios_pkt_8x32_unpack buf, buf ! NIOS_PKT_8x32_IDX_FLAGS AND NIOS_PKT_8x32_FLAG_SUCCESS \<noteq> 0)"

lemma nios_pkt_8x32_pack_bytes:
  assumes "length buf = 16"
  shows "nios_pkt_8x32_pack buf target write addr data =
    [0x43, target, (if write then 1 else 0), 0, addr, ucast data, ucast (drop_bit 8 data), ucast (drop_bit 16 data), ucast (drop_bit 24 data), 0, 0, 0, 0, 0, 0, 0]"
  using assms by (elim length_16E) (simp add: nios_pkt_8x32_pack_def)

lemma nios_pkt_8x32_resp_pack_bytes:
  assumes "length buf = 16"
  shows "nios_pkt_8x32_resp_pack buf target write addr data success =
    [0x43, target, (if write then if success then 3 else 1 else if success then 2 else 0), 0, addr, ucast data, ucast (drop_bit 8 data), ucast (drop_bit 16 data), ucast (drop_bit 24 data), 0, 0, 0, 0, 0, 0, 0]"
  using assms by (simp add: nios_pkt_8x32_resp_pack_def nios_pkt_8x32_pack_bytes)

lemma length_nios_pkt_8x32 [simp]:
  "length (nios_pkt_8x32_pack buf target write addr data) = length buf"
  "length (nios_pkt_8x32_resp_pack buf target write addr data success) = length buf"
  by (simp_all add: nios_pkt_8x32_pack_def nios_pkt_8x32_resp_pack_def Let_def)

lemma nios_pkt_8x32_unpack_pack [simp]:
  "length buf = 16 \<Longrightarrow> nios_pkt_8x32_unpack (nios_pkt_8x32_pack buf target write addr data) = (target, write, addr, data)"
  by (simp add: nios_pkt_8x32_pack_bytes nios_pkt_8x32_unpack_def bytes_join)

lemma nios_pkt_8x32_unpack_resp_pack [simp]:
  "length buf = 16 \<Longrightarrow>
   nios_pkt_8x32_unpack (nios_pkt_8x32_resp_pack buf target write addr data success) = (target, write, addr, data)"
  by (simp add: nios_pkt_8x32_resp_pack_bytes nios_pkt_8x32_unpack_def bytes_join)

lemma nios_pkt_8x32_resp_unpack_resp_pack [simp]:
  "length buf = 16 \<Longrightarrow>
   nios_pkt_8x32_resp_unpack (nios_pkt_8x32_resp_pack buf target write addr data success) = ((target, write, addr, data), success)"
  by (simp add: nios_pkt_8x32_resp_unpack_def) (simp add: nios_pkt_8x32_resp_pack_bytes)

lemma nios_pkt_8x32_magic [simp]:
  "length buf = 16 \<Longrightarrow> nios_pkt_8x32_pack buf target write addr data ! 0 = 0x43"
  by (simp add: nios_pkt_8x32_pack_bytes)

section \<open>8-bit addresses, 64-bit data\<close>

abbreviation (input) NIOS_PKT_8x64_MAGIC :: u8 where "NIOS_PKT_8x64_MAGIC \<equiv> 0x44"
abbreviation (input) NIOS_PKT_8x64_IDX_MAGIC :: nat where "NIOS_PKT_8x64_IDX_MAGIC \<equiv> 0"
abbreviation (input) NIOS_PKT_8x64_IDX_TARGET_ID :: nat where "NIOS_PKT_8x64_IDX_TARGET_ID \<equiv> 1"
abbreviation (input) NIOS_PKT_8x64_IDX_FLAGS :: nat where "NIOS_PKT_8x64_IDX_FLAGS \<equiv> 2"
abbreviation (input) NIOS_PKT_8x64_IDX_RESV1 :: nat where "NIOS_PKT_8x64_IDX_RESV1 \<equiv> 3"
abbreviation (input) NIOS_PKT_8x64_IDX_ADDR :: nat where "NIOS_PKT_8x64_IDX_ADDR \<equiv> 4"
abbreviation (input) NIOS_PKT_8x64_IDX_DATA :: nat where "NIOS_PKT_8x64_IDX_DATA \<equiv> 5"
abbreviation (input) NIOS_PKT_8x64_IDX_RESV2 :: nat where "NIOS_PKT_8x64_IDX_RESV2 \<equiv> 13"
abbreviation (input) NIOS_PKT_8x64_FLAG_WRITE :: u8 where "NIOS_PKT_8x64_FLAG_WRITE \<equiv> 1"
abbreviation (input) NIOS_PKT_8x64_FLAG_SUCCESS :: u8 where "NIOS_PKT_8x64_FLAG_SUCCESS \<equiv> 2"

definition nios_pkt_8x64_pack :: "bytes \<Rightarrow> u8 \<Rightarrow> bool \<Rightarrow> u8 \<Rightarrow> u64 \<Rightarrow> bytes" where
  "nios_pkt_8x64_pack buf target write addr data = buf
     [NIOS_PKT_8x64_IDX_MAGIC := NIOS_PKT_8x64_MAGIC,
      NIOS_PKT_8x64_IDX_TARGET_ID := target,
      NIOS_PKT_8x64_IDX_FLAGS := (if write then NIOS_PKT_8x64_FLAG_WRITE else 0x00),
      NIOS_PKT_8x64_IDX_RESV1 := 0x00,
      NIOS_PKT_8x64_IDX_ADDR := addr,
      NIOS_PKT_8x64_IDX_DATA + 0 := ucast (drop_bit 0 data AND 0xff),
      NIOS_PKT_8x64_IDX_DATA + 1 := ucast (drop_bit 8 data AND 0xff),
      NIOS_PKT_8x64_IDX_DATA + 2 := ucast (drop_bit 16 data AND 0xff),
      NIOS_PKT_8x64_IDX_DATA + 3 := ucast (drop_bit 24 data AND 0xff),
      NIOS_PKT_8x64_IDX_DATA + 4 := ucast (drop_bit 32 data AND 0xff),
      NIOS_PKT_8x64_IDX_DATA + 5 := ucast (drop_bit 40 data AND 0xff),
      NIOS_PKT_8x64_IDX_DATA + 6 := ucast (drop_bit 48 data AND 0xff),
      NIOS_PKT_8x64_IDX_DATA + 7 := ucast (drop_bit 56 data AND 0xff),
      NIOS_PKT_8x64_IDX_RESV2 + 0 := 0x00,
      NIOS_PKT_8x64_IDX_RESV2 + 1 := 0x00,
      NIOS_PKT_8x64_IDX_RESV2 + 2 := 0x00]"

definition nios_pkt_8x64_unpack :: "bytes \<Rightarrow> u8 \<times> bool \<times> u8 \<times> u64" where
  "nios_pkt_8x64_unpack buf =
     (buf ! NIOS_PKT_8x64_IDX_TARGET_ID,
      buf ! NIOS_PKT_8x64_IDX_FLAGS AND NIOS_PKT_8x64_FLAG_WRITE \<noteq> 0,
      buf ! NIOS_PKT_8x64_IDX_ADDR,
      (ucast (buf ! (NIOS_PKT_8x64_IDX_DATA + 0)) :: u64)
       OR push_bit 8 (ucast (buf ! (NIOS_PKT_8x64_IDX_DATA + 1)))
       OR push_bit 16 (ucast (buf ! (NIOS_PKT_8x64_IDX_DATA + 2)))
       OR push_bit 24 (ucast (buf ! (NIOS_PKT_8x64_IDX_DATA + 3)))
       OR push_bit 32 (ucast (buf ! (NIOS_PKT_8x64_IDX_DATA + 4)))
       OR push_bit 40 (ucast (buf ! (NIOS_PKT_8x64_IDX_DATA + 5)))
       OR push_bit 48 (ucast (buf ! (NIOS_PKT_8x64_IDX_DATA + 6)))
       OR push_bit 56 (ucast (buf ! (NIOS_PKT_8x64_IDX_DATA + 7))))"

definition nios_pkt_8x64_resp_pack :: "bytes \<Rightarrow> u8 \<Rightarrow> bool \<Rightarrow> u8 \<Rightarrow> u64 \<Rightarrow> bool \<Rightarrow> bytes" where
  "nios_pkt_8x64_resp_pack buf target write addr data success =
     (let buf' = nios_pkt_8x64_pack buf target write addr data in
      if success then buf'[NIOS_PKT_8x64_IDX_FLAGS := buf' ! NIOS_PKT_8x64_IDX_FLAGS OR NIOS_PKT_8x64_FLAG_SUCCESS]
      else buf')"

definition nios_pkt_8x64_resp_unpack :: "bytes \<Rightarrow> (u8 \<times> bool \<times> u8 \<times> u64) \<times> bool" where
  "nios_pkt_8x64_resp_unpack buf =
     (nios_pkt_8x64_unpack buf, buf ! NIOS_PKT_8x64_IDX_FLAGS AND NIOS_PKT_8x64_FLAG_SUCCESS \<noteq> 0)"

lemma nios_pkt_8x64_pack_bytes:
  assumes "length buf = 16"
  shows "nios_pkt_8x64_pack buf target write addr data =
    [0x44, target, (if write then 1 else 0), 0, addr, ucast data, ucast (drop_bit 8 data), ucast (drop_bit 16 data), ucast (drop_bit 24 data), ucast (drop_bit 32 data), ucast (drop_bit 40 data), ucast (drop_bit 48 data), ucast (drop_bit 56 data), 0, 0, 0]"
  using assms by (elim length_16E) (simp add: nios_pkt_8x64_pack_def)

lemma nios_pkt_8x64_resp_pack_bytes:
  assumes "length buf = 16"
  shows "nios_pkt_8x64_resp_pack buf target write addr data success =
    [0x44, target, (if write then if success then 3 else 1 else if success then 2 else 0), 0, addr, ucast data, ucast (drop_bit 8 data), ucast (drop_bit 16 data), ucast (drop_bit 24 data), ucast (drop_bit 32 data), ucast (drop_bit 40 data), ucast (drop_bit 48 data), ucast (drop_bit 56 data), 0, 0, 0]"
  using assms by (simp add: nios_pkt_8x64_resp_pack_def nios_pkt_8x64_pack_bytes)

lemma length_nios_pkt_8x64 [simp]:
  "length (nios_pkt_8x64_pack buf target write addr data) = length buf"
  "length (nios_pkt_8x64_resp_pack buf target write addr data success) = length buf"
  by (simp_all add: nios_pkt_8x64_pack_def nios_pkt_8x64_resp_pack_def Let_def)

lemma nios_pkt_8x64_unpack_pack [simp]:
  "length buf = 16 \<Longrightarrow> nios_pkt_8x64_unpack (nios_pkt_8x64_pack buf target write addr data) = (target, write, addr, data)"
  by (simp add: nios_pkt_8x64_pack_bytes nios_pkt_8x64_unpack_def bytes_join)

lemma nios_pkt_8x64_unpack_resp_pack [simp]:
  "length buf = 16 \<Longrightarrow>
   nios_pkt_8x64_unpack (nios_pkt_8x64_resp_pack buf target write addr data success) = (target, write, addr, data)"
  by (simp add: nios_pkt_8x64_resp_pack_bytes nios_pkt_8x64_unpack_def bytes_join)

lemma nios_pkt_8x64_resp_unpack_resp_pack [simp]:
  "length buf = 16 \<Longrightarrow>
   nios_pkt_8x64_resp_unpack (nios_pkt_8x64_resp_pack buf target write addr data success) = ((target, write, addr, data), success)"
  by (simp add: nios_pkt_8x64_resp_unpack_def) (simp add: nios_pkt_8x64_resp_pack_bytes)

lemma nios_pkt_8x64_magic [simp]:
  "length buf = 16 \<Longrightarrow> nios_pkt_8x64_pack buf target write addr data ! 0 = 0x44"
  by (simp add: nios_pkt_8x64_pack_bytes)

section \<open>32-bit addresses, 32-bit data\<close>

abbreviation (input) NIOS_PKT_32x32_MAGIC :: u8 where "NIOS_PKT_32x32_MAGIC \<equiv> 0x4B"
abbreviation (input) NIOS_PKT_32x32_IDX_MAGIC :: nat where "NIOS_PKT_32x32_IDX_MAGIC \<equiv> 0"
abbreviation (input) NIOS_PKT_32x32_IDX_TARGET_ID :: nat where "NIOS_PKT_32x32_IDX_TARGET_ID \<equiv> 1"
abbreviation (input) NIOS_PKT_32x32_IDX_FLAGS :: nat where "NIOS_PKT_32x32_IDX_FLAGS \<equiv> 2"
abbreviation (input) NIOS_PKT_32x32_IDX_RESV1 :: nat where "NIOS_PKT_32x32_IDX_RESV1 \<equiv> 3"
abbreviation (input) NIOS_PKT_32x32_IDX_ADDR :: nat where "NIOS_PKT_32x32_IDX_ADDR \<equiv> 4"
abbreviation (input) NIOS_PKT_32x32_IDX_DATA :: nat where "NIOS_PKT_32x32_IDX_DATA \<equiv> 8"
abbreviation (input) NIOS_PKT_32x32_IDX_RESV2 :: nat where "NIOS_PKT_32x32_IDX_RESV2 \<equiv> 12"
abbreviation (input) NIOS_PKT_32x32_FLAG_WRITE :: u8 where "NIOS_PKT_32x32_FLAG_WRITE \<equiv> 1"
abbreviation (input) NIOS_PKT_32x32_FLAG_SUCCESS :: u8 where "NIOS_PKT_32x32_FLAG_SUCCESS \<equiv> 2"

definition nios_pkt_32x32_pack :: "bytes \<Rightarrow> u8 \<Rightarrow> bool \<Rightarrow> u32 \<Rightarrow> u32 \<Rightarrow> bytes" where
  "nios_pkt_32x32_pack buf target write addr data = buf
     [NIOS_PKT_32x32_IDX_MAGIC := NIOS_PKT_32x32_MAGIC,
      NIOS_PKT_32x32_IDX_TARGET_ID := target,
      NIOS_PKT_32x32_IDX_FLAGS := (if write then NIOS_PKT_32x32_FLAG_WRITE else 0x00),
      NIOS_PKT_32x32_IDX_RESV1 := 0x00,
      NIOS_PKT_32x32_IDX_ADDR + 0 := ucast (drop_bit 0 addr),
      NIOS_PKT_32x32_IDX_ADDR + 1 := ucast (drop_bit 8 addr),
      NIOS_PKT_32x32_IDX_ADDR + 2 := ucast (drop_bit 16 addr),
      NIOS_PKT_32x32_IDX_ADDR + 3 := ucast (drop_bit 24 addr),
      NIOS_PKT_32x32_IDX_DATA + 0 := ucast (drop_bit 0 data),
      NIOS_PKT_32x32_IDX_DATA + 1 := ucast (drop_bit 8 data),
      NIOS_PKT_32x32_IDX_DATA + 2 := ucast (drop_bit 16 data),
      NIOS_PKT_32x32_IDX_DATA + 3 := ucast (drop_bit 24 data),
      NIOS_PKT_32x32_IDX_RESV2 + 0 := 0x00,
      NIOS_PKT_32x32_IDX_RESV2 + 1 := 0x00,
      NIOS_PKT_32x32_IDX_RESV2 + 2 := 0x00,
      NIOS_PKT_32x32_IDX_RESV2 + 3 := 0x00]"

definition nios_pkt_32x32_unpack :: "bytes \<Rightarrow> u8 \<times> bool \<times> u32 \<times> u32" where
  "nios_pkt_32x32_unpack buf =
     (buf ! NIOS_PKT_32x32_IDX_TARGET_ID,
      buf ! NIOS_PKT_32x32_IDX_FLAGS AND NIOS_PKT_32x32_FLAG_WRITE \<noteq> 0,
      (ucast (buf ! (NIOS_PKT_32x32_IDX_ADDR + 0)) :: u32)
       OR push_bit 8 (ucast (buf ! (NIOS_PKT_32x32_IDX_ADDR + 1)))
       OR push_bit 16 (ucast (buf ! (NIOS_PKT_32x32_IDX_ADDR + 2)))
       OR push_bit 24 (ucast (buf ! (NIOS_PKT_32x32_IDX_ADDR + 3))),
      (ucast (buf ! (NIOS_PKT_32x32_IDX_DATA + 0)) :: u32)
       OR push_bit 8 (ucast (buf ! (NIOS_PKT_32x32_IDX_DATA + 1)))
       OR push_bit 16 (ucast (buf ! (NIOS_PKT_32x32_IDX_DATA + 2)))
       OR push_bit 24 (ucast (buf ! (NIOS_PKT_32x32_IDX_DATA + 3))))"

definition nios_pkt_32x32_resp_pack :: "bytes \<Rightarrow> u8 \<Rightarrow> bool \<Rightarrow> u32 \<Rightarrow> u32 \<Rightarrow> bool \<Rightarrow> bytes" where
  "nios_pkt_32x32_resp_pack buf target write addr data success =
     (let buf' = nios_pkt_32x32_pack buf target write addr data in
      if success then buf'[NIOS_PKT_32x32_IDX_FLAGS := buf' ! NIOS_PKT_32x32_IDX_FLAGS OR NIOS_PKT_32x32_FLAG_SUCCESS]
      else buf')"

definition nios_pkt_32x32_resp_unpack :: "bytes \<Rightarrow> (u8 \<times> bool \<times> u32 \<times> u32) \<times> bool" where
  "nios_pkt_32x32_resp_unpack buf =
     (nios_pkt_32x32_unpack buf, buf ! NIOS_PKT_32x32_IDX_FLAGS AND NIOS_PKT_32x32_FLAG_SUCCESS \<noteq> 0)"

lemma nios_pkt_32x32_pack_bytes:
  assumes "length buf = 16"
  shows "nios_pkt_32x32_pack buf target write addr data =
    [0x4B, target, (if write then 1 else 0), 0, ucast addr, ucast (drop_bit 8 addr), ucast (drop_bit 16 addr), ucast (drop_bit 24 addr), ucast data, ucast (drop_bit 8 data), ucast (drop_bit 16 data), ucast (drop_bit 24 data), 0, 0, 0, 0]"
  using assms by (elim length_16E) (simp add: nios_pkt_32x32_pack_def)

lemma nios_pkt_32x32_resp_pack_bytes:
  assumes "length buf = 16"
  shows "nios_pkt_32x32_resp_pack buf target write addr data success =
    [0x4B, target, (if write then if success then 3 else 1 else if success then 2 else 0), 0, ucast addr, ucast (drop_bit 8 addr), ucast (drop_bit 16 addr), ucast (drop_bit 24 addr), ucast data, ucast (drop_bit 8 data), ucast (drop_bit 16 data), ucast (drop_bit 24 data), 0, 0, 0, 0]"
  using assms by (simp add: nios_pkt_32x32_resp_pack_def nios_pkt_32x32_pack_bytes)

lemma length_nios_pkt_32x32 [simp]:
  "length (nios_pkt_32x32_pack buf target write addr data) = length buf"
  "length (nios_pkt_32x32_resp_pack buf target write addr data success) = length buf"
  by (simp_all add: nios_pkt_32x32_pack_def nios_pkt_32x32_resp_pack_def Let_def)

lemma nios_pkt_32x32_unpack_pack [simp]:
  "length buf = 16 \<Longrightarrow> nios_pkt_32x32_unpack (nios_pkt_32x32_pack buf target write addr data) = (target, write, addr, data)"
  by (simp add: nios_pkt_32x32_pack_bytes nios_pkt_32x32_unpack_def bytes_join)

lemma nios_pkt_32x32_unpack_resp_pack [simp]:
  "length buf = 16 \<Longrightarrow>
   nios_pkt_32x32_unpack (nios_pkt_32x32_resp_pack buf target write addr data success) = (target, write, addr, data)"
  by (simp add: nios_pkt_32x32_resp_pack_bytes nios_pkt_32x32_unpack_def bytes_join)

lemma nios_pkt_32x32_resp_unpack_resp_pack [simp]:
  "length buf = 16 \<Longrightarrow>
   nios_pkt_32x32_resp_unpack (nios_pkt_32x32_resp_pack buf target write addr data success) = ((target, write, addr, data), success)"
  by (simp add: nios_pkt_32x32_resp_unpack_def) (simp add: nios_pkt_32x32_resp_pack_bytes)

lemma nios_pkt_32x32_magic [simp]:
  "length buf = 16 \<Longrightarrow> nios_pkt_32x32_pack buf target write addr data ! 0 = 0x4B"
  by (simp add: nios_pkt_32x32_pack_bytes)

section \<open>Retune requests and responses\<close>

datatype bladerf_module = BLADERF_MODULE_INVALID | BLADERF_MODULE_RX | BLADERF_MODULE_TX

abbreviation (input) NIOS_PKT_RETUNE_CLEAR_QUEUE :: u64 where "NIOS_PKT_RETUNE_CLEAR_QUEUE \<equiv> -1"
abbreviation (input) NIOS_PKT_RETUNE_NOW :: u64 where "NIOS_PKT_RETUNE_NOW \<equiv> 0"
abbreviation (input) NIOS_PKT_RETUNE_NO_HINT :: u8 where "NIOS_PKT_RETUNE_NO_HINT \<equiv> 0xff"
abbreviation (input) NIOS_PKT_RETUNE_IDX_MAGIC :: nat where "NIOS_PKT_RETUNE_IDX_MAGIC \<equiv> 0"
abbreviation (input) NIOS_PKT_RETUNE_IDX_TIME :: nat where "NIOS_PKT_RETUNE_IDX_TIME \<equiv> 1"
abbreviation (input) NIOS_PKT_RETUNE_IDX_INTFRAC :: nat where "NIOS_PKT_RETUNE_IDX_INTFRAC \<equiv> 9"
abbreviation (input) NIOS_PKT_RETUNE_IDX_FREQSEL :: nat where "NIOS_PKT_RETUNE_IDX_FREQSEL \<equiv> 13"
abbreviation (input) NIOS_PKT_RETUNE_IDX_BANDSEL :: nat where "NIOS_PKT_RETUNE_IDX_BANDSEL \<equiv> 14"
abbreviation (input) NIOS_PKT_RETUNE_IDX_RESV :: nat where "NIOS_PKT_RETUNE_IDX_RESV \<equiv> 15"
abbreviation (input) NIOS_PKT_RETUNE_MAGIC :: u8 where "NIOS_PKT_RETUNE_MAGIC \<equiv> 0x54"
abbreviation (input) FLAG_QUICK_TUNE :: u8 where "FLAG_QUICK_TUNE \<equiv> 0x40"
abbreviation (input) FLAG_RX :: u8 where "FLAG_RX \<equiv> 0x40"
abbreviation (input) FLAG_TX :: u8 where "FLAG_TX \<equiv> 0x80"
abbreviation (input) FLAG_LOW_BAND :: u8 where "FLAG_LOW_BAND \<equiv> 0x80"

text \<open>The byte at NIOS_PKT_RETUNE_IDX_FREQSEL after the switch on the module, and the byte at
  NIOS_PKT_RETUNE_IDX_BANDSEL.  The code ORs the VCOCAP hint in without a mask.\<close>

definition retune_freqsel_byte :: "bladerf_module \<Rightarrow> u8 \<Rightarrow> u8" where
  "retune_freqsel_byte module freqsel =
     (case module of
        BLADERF_MODULE_TX \<Rightarrow> (freqsel AND 0xff) OR FLAG_TX
      | BLADERF_MODULE_RX \<Rightarrow> (freqsel AND 0xff) OR FLAG_RX
      | BLADERF_MODULE_INVALID \<Rightarrow> freqsel AND 0xff)"

definition retune_bandsel_byte :: "bool \<Rightarrow> bool \<Rightarrow> u8 \<Rightarrow> u8" where
  "retune_bandsel_byte low_band quick_tune vcocap =
     (let b0 = (if low_band then FLAG_LOW_BAND else 0x00);
          b1 = (if quick_tune then b0 OR FLAG_QUICK_TUNE else b0)
      in b1 OR vcocap)"

definition nios_pkt_retune_pack ::
  "bytes \<Rightarrow> bladerf_module \<Rightarrow> u64 \<Rightarrow> u16 \<Rightarrow> u32 \<Rightarrow> u8 \<Rightarrow> u8 \<Rightarrow> bool \<Rightarrow> bool \<Rightarrow> bytes" where
  "nios_pkt_retune_pack buf module timestamp nint nfrac freqsel vcocap low_band quick_tune = buf
     [NIOS_PKT_RETUNE_IDX_MAGIC := NIOS_PKT_RETUNE_MAGIC,
      NIOS_PKT_RETUNE_IDX_TIME + 0 := ucast (timestamp AND 0xff),
      NIOS_PKT_RETUNE_IDX_TIME + 1 := ucast (drop_bit 8 timestamp AND 0xff),
      NIOS_PKT_RETUNE_IDX_TIME + 2 := ucast (drop_bit 16 timestamp AND 0xff),
      NIOS_PKT_RETUNE_IDX_TIME + 3 := ucast (drop_bit 24 timestamp AND 0xff),
      NIOS_PKT_RETUNE_IDX_TIME + 4 := ucast (drop_bit 32 timestamp AND 0xff),
      NIOS_PKT_RETUNE_IDX_TIME + 5 := ucast (drop_bit 40 timestamp AND 0xff),
      NIOS_PKT_RETUNE_IDX_TIME + 6 := ucast (drop_bit 48 timestamp AND 0xff),
      NIOS_PKT_RETUNE_IDX_TIME + 7 := ucast (drop_bit 56 timestamp AND 0xff),
      NIOS_PKT_RETUNE_IDX_INTFRAC + 0 := ucast (drop_bit 1 nint AND 0xff),
      NIOS_PKT_RETUNE_IDX_INTFRAC + 1 :=
        ucast (push_bit 7 (nint AND 0x1)) OR ucast (drop_bit 16 nfrac AND 0x7f),
      NIOS_PKT_RETUNE_IDX_INTFRAC + 2 := ucast (drop_bit 8 nfrac AND 0xff),
      NIOS_PKT_RETUNE_IDX_INTFRAC + 3 := ucast (nfrac AND 0xff),
      NIOS_PKT_RETUNE_IDX_FREQSEL := retune_freqsel_byte module freqsel,
      NIOS_PKT_RETUNE_IDX_BANDSEL := retune_bandsel_byte low_band quick_tune vcocap,
      NIOS_PKT_RETUNE_IDX_RESV := 0x00]"

record retune_request =
  rt_module :: bladerf_module
  rt_timestamp :: u64
  rt_nint :: u16
  rt_nfrac :: u32
  rt_freqsel :: u8
  rt_vcocap :: u8
  rt_low_band :: bool
  rt_quick_tune :: bool

definition nios_pkt_retune_unpack :: "bytes \<Rightarrow> retune_request" where
  "nios_pkt_retune_unpack buf =
    \<lparr> rt_module =
        (if buf ! NIOS_PKT_RETUNE_IDX_FREQSEL AND FLAG_TX \<noteq> 0 then BLADERF_MODULE_TX
         else if buf ! NIOS_PKT_RETUNE_IDX_FREQSEL AND FLAG_RX \<noteq> 0 then BLADERF_MODULE_RX
         else BLADERF_MODULE_INVALID),
      rt_timestamp =
        (ucast (buf ! (NIOS_PKT_RETUNE_IDX_TIME + 0)) :: u64)
        OR push_bit 8 (ucast (buf ! (NIOS_PKT_RETUNE_IDX_TIME + 1)))
        OR push_bit 16 (ucast (buf ! (NIOS_PKT_RETUNE_IDX_TIME + 2)))
        OR push_bit 24 (ucast (buf ! (NIOS_PKT_RETUNE_IDX_TIME + 3)))
        OR push_bit 32 (ucast (buf ! (NIOS_PKT_RETUNE_IDX_TIME + 4)))
        OR push_bit 40 (ucast (buf ! (NIOS_PKT_RETUNE_IDX_TIME + 5)))
        OR push_bit 48 (ucast (buf ! (NIOS_PKT_RETUNE_IDX_TIME + 6)))
        OR push_bit 56 (ucast (buf ! (NIOS_PKT_RETUNE_IDX_TIME + 7))),
      rt_nint =
        push_bit 1 (ucast (buf ! (NIOS_PKT_RETUNE_IDX_INTFRAC + 0)))
        OR drop_bit 7 (ucast (buf ! (NIOS_PKT_RETUNE_IDX_INTFRAC + 1))),
      rt_nfrac =
        push_bit 16 (ucast (buf ! (NIOS_PKT_RETUNE_IDX_INTFRAC + 1) AND 0x7f))
        OR push_bit 8 (ucast (buf ! (NIOS_PKT_RETUNE_IDX_INTFRAC + 2)))
        OR ucast (buf ! (NIOS_PKT_RETUNE_IDX_INTFRAC + 3)),
      rt_freqsel = buf ! NIOS_PKT_RETUNE_IDX_FREQSEL AND 0x3f,
      rt_vcocap = buf ! NIOS_PKT_RETUNE_IDX_BANDSEL AND 0x3f,
      rt_low_band = (buf ! NIOS_PKT_RETUNE_IDX_BANDSEL AND FLAG_LOW_BAND \<noteq> 0),
      rt_quick_tune = (buf ! NIOS_PKT_RETUNE_IDX_BANDSEL AND FLAG_QUICK_TUNE \<noteq> 0) \<rparr>"

abbreviation (input) NIOS_PKT_RETUNERESP_IDX_MAGIC :: nat where "NIOS_PKT_RETUNERESP_IDX_MAGIC \<equiv> 0"
abbreviation (input) NIOS_PKT_RETUNERESP_IDX_TIME :: nat where "NIOS_PKT_RETUNERESP_IDX_TIME \<equiv> 1"
abbreviation (input) NIOS_PKT_RETUNERESP_IDX_VCOCAP :: nat where "NIOS_PKT_RETUNERESP_IDX_VCOCAP \<equiv> 9"
abbreviation (input) NIOS_PKT_RETUNERESP_IDX_FLAGS :: nat where "NIOS_PKT_RETUNERESP_IDX_FLAGS \<equiv> 10"
abbreviation (input) NIOS_PKT_RETUNERESP_IDX_RESV :: nat where "NIOS_PKT_RETUNERESP_IDX_RESV \<equiv> 11"
abbreviation (input) NIOS_PKT_RETUNERESP_FLAG_TSVTUNE_VALID :: u8 where
  "NIOS_PKT_RETUNERESP_FLAG_TSVTUNE_VALID \<equiv> 1"
abbreviation (input) NIOS_PKT_RETUNERESP_FLAG_SUCCESS :: u8 where
  "NIOS_PKT_RETUNERESP_FLAG_SUCCESS \<equiv> 2"

definition nios_pkt_retune_resp_pack :: "bytes \<Rightarrow> u64 \<Rightarrow> u8 \<Rightarrow> u8 \<Rightarrow> bytes" where
  "nios_pkt_retune_resp_pack buf duration vcocap flags = buf
     [NIOS_PKT_RETUNERESP_IDX_MAGIC := NIOS_PKT_RETUNE_MAGIC,
      NIOS_PKT_RETUNERESP_IDX_TIME + 0 := ucast (duration AND 0xff),
      NIOS_PKT_RETUNERESP_IDX_TIME + 1 := ucast (drop_bit 8 duration AND 0xff),
      NIOS_PKT_RETUNERESP_IDX_TIME + 2 := ucast (drop_bit 16 duration AND 0xff),
      NIOS_PKT_RETUNERESP_IDX_TIME + 3 := ucast (drop_bit 24 duration AND 0xff),
      NIOS_PKT_RETUNERESP_IDX_TIME + 4 := ucast (drop_bit 32 duration AND 0xff),
      NIOS_PKT_RETUNERESP_IDX_TIME + 5 := ucast (drop_bit 40 duration AND 0xff),
      NIOS_PKT_RETUNERESP_IDX_TIME + 6 := ucast (drop_bit 48 duration AND 0xff),
      NIOS_PKT_RETUNERESP_IDX_TIME + 7 := ucast (drop_bit 56 duration AND 0xff),
      NIOS_PKT_RETUNERESP_IDX_VCOCAP := vcocap,
      NIOS_PKT_RETUNERESP_IDX_FLAGS := flags,
      NIOS_PKT_RETUNERESP_IDX_RESV + 0 := 0x00,
      NIOS_PKT_RETUNERESP_IDX_RESV + 1 := 0x00,
      NIOS_PKT_RETUNERESP_IDX_RESV + 2 := 0x00,
      NIOS_PKT_RETUNERESP_IDX_RESV + 3 := 0x00,
      NIOS_PKT_RETUNERESP_IDX_RESV + 4 := 0x00]"

definition nios_pkt_retune_resp_unpack :: "bytes \<Rightarrow> u64 \<times> u8 \<times> u8" where
  "nios_pkt_retune_resp_unpack buf =
     ((ucast (buf ! (NIOS_PKT_RETUNERESP_IDX_TIME + 0)) :: u64)
      OR push_bit 8 (ucast (buf ! (NIOS_PKT_RETUNERESP_IDX_TIME + 1)))
      OR push_bit 16 (ucast (buf ! (NIOS_PKT_RETUNERESP_IDX_TIME + 2)))
      OR push_bit 24 (ucast (buf ! (NIOS_PKT_RETUNERESP_IDX_TIME + 3)))
      OR push_bit 32 (ucast (buf ! (NIOS_PKT_RETUNERESP_IDX_TIME + 4)))
      OR push_bit 40 (ucast (buf ! (NIOS_PKT_RETUNERESP_IDX_TIME + 5)))
      OR push_bit 48 (ucast (buf ! (NIOS_PKT_RETUNERESP_IDX_TIME + 6)))
      OR push_bit 56 (ucast (buf ! (NIOS_PKT_RETUNERESP_IDX_TIME + 7))),
      buf ! NIOS_PKT_RETUNERESP_IDX_VCOCAP,
      buf ! NIOS_PKT_RETUNERESP_IDX_FLAGS)"

lemma nios_pkt_retune_pack_bytes:
  assumes "length buf = 16"
  shows "nios_pkt_retune_pack buf module timestamp nint nfrac freqsel vcocap low_band quick_tune =
    [0x54, ucast timestamp, ucast (drop_bit 8 timestamp), ucast (drop_bit 16 timestamp),
     ucast (drop_bit 24 timestamp), ucast (drop_bit 32 timestamp), ucast (drop_bit 40 timestamp),
     ucast (drop_bit 48 timestamp), ucast (drop_bit 56 timestamp), ucast (drop_bit 1 nint),
     ucast (push_bit 7 (nint AND 1)) OR ucast (drop_bit 16 nfrac AND 0x7f),
     ucast (drop_bit 8 nfrac), ucast nfrac, retune_freqsel_byte module freqsel,
     retune_bandsel_byte low_band quick_tune vcocap, 0]"
  using assms by (elim length_16E) (simp add: nios_pkt_retune_pack_def)

lemma length_nios_pkt_retune [simp]:
  "length (nios_pkt_retune_pack buf module timestamp nint nfrac freqsel vcocap low_band quick_tune)
     = length buf"
  "length (nios_pkt_retune_resp_pack buf duration vcocap flags) = length buf"
  by (simp_all add: nios_pkt_retune_pack_def nios_pkt_retune_resp_pack_def)

lemma nint_join:
  "push_bit (Suc 0) (ucast (ucast (drop_bit (Suc 0) nint) :: u8)) OR
   drop_bit 7 (ucast ((ucast (push_bit 7 nint AND 0x80) :: u8) OR ucast ((nf :: u32) AND 0x7f)))
     = (nint :: u16) AND 0x1ff"
  by (simp add: word16_eq_iff bit_simps numeral_eq_Suc del: push_bit_Suc)

lemma nfrac_join:
  "push_bit 16 (ucast (((ucast (push_bit 7 (nint :: u16) AND 0x80) :: u8) OR
                         ucast (drop_bit 16 nfrac AND 0x7f)) AND 0x7f))
   OR push_bit 8 (ucast (ucast (drop_bit 8 nfrac) :: u8))
   OR ucast (ucast nfrac :: u8) = (nfrac :: u32) AND 0x7fffff"
  by (simp add: word32_eq_iff bit_simps)

lemma u8_flag_iff:
  "(b :: u8) AND 0x80 = 0 \<longleftrightarrow> \<not> bit b 7"
  "b AND 0x40 = 0 \<longleftrightarrow> \<not> bit b 6"
  by (simp_all add: word8_eq_iff bit_simps)

lemma retune_bytes_bits:
  "bit (retune_bandsel_byte low_band quick_tune vcocap) 7 \<longleftrightarrow> low_band \<or> bit vcocap 7"
  "bit (retune_bandsel_byte low_band quick_tune vcocap) 6 \<longleftrightarrow> quick_tune \<or> bit vcocap 6"
  "retune_bandsel_byte low_band quick_tune vcocap AND 0x3f = vcocap AND 0x3f"
  "bit (retune_freqsel_byte module freqsel) 7 \<longleftrightarrow> module = BLADERF_MODULE_TX \<or> bit freqsel 7"
  "bit (retune_freqsel_byte module freqsel) 6 \<longleftrightarrow> module = BLADERF_MODULE_RX \<or> bit freqsel 6"
  "retune_freqsel_byte module freqsel AND 0x3f = freqsel AND 0x3f"
  by (cases module; auto simp add: retune_bandsel_byte_def retune_freqsel_byte_def Let_def
      bit_simps word8_eq_iff)+

lemma nios_pkt_retune_unpack_pack:
  assumes "length buf = 16"
  shows "nios_pkt_retune_unpack
      (nios_pkt_retune_pack buf module timestamp nint nfrac freqsel vcocap low_band quick_tune) =
    \<lparr> rt_module = (if module = BLADERF_MODULE_TX \<or> bit freqsel 7 then BLADERF_MODULE_TX
                   else if module = BLADERF_MODULE_RX \<or> bit freqsel 6 then BLADERF_MODULE_RX
                   else BLADERF_MODULE_INVALID),
      rt_timestamp = timestamp, rt_nint = nint AND 0x1ff, rt_nfrac = nfrac AND 0x7fffff,
      rt_freqsel = freqsel AND 0x3f, rt_vcocap = vcocap AND 0x3f,
      rt_low_band = (low_band \<or> bit vcocap 7), rt_quick_tune = (quick_tune \<or> bit vcocap 6) \<rparr>"
  unfolding nios_pkt_retune_pack_bytes [OF assms] nios_pkt_retune_unpack_def
  by (simp add: bytes_join nint_join nfrac_join u8_flag_iff
      retune_bytes_bits del: push_bit_Suc)

lemma nios_pkt_retune_resp_unpack_pack:
  assumes "length buf = 16"
  shows "nios_pkt_retune_resp_unpack (nios_pkt_retune_resp_pack buf duration vcocap flags) =
    (duration, vcocap, flags)"
proof -
  have "nios_pkt_retune_resp_pack buf duration vcocap flags =
    [0x54, ucast duration, ucast (drop_bit 8 duration), ucast (drop_bit 16 duration),
     ucast (drop_bit 24 duration), ucast (drop_bit 32 duration), ucast (drop_bit 40 duration),
     ucast (drop_bit 48 duration), ucast (drop_bit 56 duration), vcocap, flags, 0, 0, 0, 0, 0]"
    using assms by (elim length_16E) (simp add: nios_pkt_retune_resp_pack_def)
  then show ?thesis
    by (simp add: nios_pkt_retune_resp_unpack_def bytes_join)
qed

end
