(* ===== verification/Lms_Dev.thy ===== *)
theory Lms_Dev
  imports Nios_Pkt
begin

text \<open>
  The device handle through which lms.c and band_select.c reach the hardware: the operations
  behind LMS_READ, LMS_WRITE, CONFIG_GPIO_READ and CONFIG_GPIO_WRITE.  On the host they are USB
  transactions that can fail, in the firmware they are bus accesses that always return 0; the
  record abstracts from both, and every driver function of this development takes it as its
  first argument.  The locale \<open>lms_regs\<close> states what the driver relies on: on a good state,
  accesses succeed, a register that the chip does not change by itself reads back what was
  written to it last, and the configuration GPIO is a 32-bit register.
\<close>

record 's lms_dev =
  dev_lms_read :: "u8 \<Rightarrow> 's \<Rightarrow> (int \<times> u8) \<times> 's"
  dev_lms_write :: "u8 \<Rightarrow> u8 \<Rightarrow> 's \<Rightarrow> int \<times> 's"
  dev_gpio_read :: "'s \<Rightarrow> (int \<times> u32) \<times> 's"
  dev_gpio_write :: "u32 \<Rightarrow> 's \<Rightarrow> int \<times> 's"
  dev_atomic_pll :: bool
    \<comment> \<open>BLADERF_CAP_ATOMIC_NINT_NFRAC_WRITE on the host, always in the firmware build\<close>


definition LMS_READ :: "'s lms_dev \<Rightarrow> u8 \<Rightarrow> ('s, u8) io" where
  "LMS_READ dev addr s =
     (case dev_lms_read dev addr s of ((status, data), t) \<Rightarrow>
        (if status \<noteq> 0 then (Inl status, t) else (Inr data, t)))"

definition LMS_WRITE :: "'s lms_dev \<Rightarrow> u8 \<Rightarrow> u8 \<Rightarrow> ('s, unit) io" where
  "LMS_WRITE dev addr data s =
     (case dev_lms_write dev addr data s of (status, t) \<Rightarrow>
        (if status \<noteq> 0 then (Inl status, t) else (Inr (), t)))"

definition CONFIG_GPIO_READ :: "'s lms_dev \<Rightarrow> ('s, u32) io" where
  "CONFIG_GPIO_READ dev s =
     (case dev_gpio_read dev s of ((status, data), t) \<Rightarrow>
        (if status \<noteq> 0 then (Inl status, t) else (Inr data, t)))"

definition CONFIG_GPIO_WRITE :: "'s lms_dev \<Rightarrow> u32 \<Rightarrow> ('s, unit) io" where
  "CONFIG_GPIO_WRITE dev data s =
     (case dev_gpio_write dev data s of (status, t) \<Rightarrow>
        (if status \<noteq> 0 then (Inl status, t) else (Inr (), t)))"

definition lms_set :: "'s lms_dev \<Rightarrow> u8 \<Rightarrow> u8 \<Rightarrow> ('s, unit) io" where
  "lms_set dev addr mask_bits =
     bindE (LMS_READ dev addr) (\<lambda>regval.
     LMS_WRITE dev addr (regval OR mask_bits))"

definition lms_clear :: "'s lms_dev \<Rightarrow> u8 \<Rightarrow> u8 \<Rightarrow> ('s, unit) io" where
  "lms_clear dev addr mask_bits =
     bindE (LMS_READ dev addr) (\<lambda>regval.
     LMS_WRITE dev addr (regval AND NOT mask_bits))"

section \<open>What the driver relies on\<close>

text \<open>The registers the chip updates by itself: the DC calibration value and status registers of
  the four calibration blocks (base + 0 and base + 1) and the VTUNE comparators of the PLLs.\<close>

definition lms_volatile :: "u8 \<Rightarrow> bool" where
  "lms_volatile a \<longleftrightarrow> a \<in> {0x00, 0x01, 0x30, 0x31, 0x50, 0x51, 0x60, 0x61, 0x1a, 0x2a}"

text \<open>Register 0x05 holds the soft reset bit, active low.\<close>

definition lms_resets :: "u8 \<Rightarrow> u8 \<Rightarrow> bool" where
  "lms_resets a d \<longleftrightarrow> a = 0x05 \<and> \<not> bit d 5"

abbreviation lms_addr :: "u8 \<Rightarrow> bool" where
  "lms_addr a \<equiv> a < 0x80"

locale lms_regs =
  fixes dev :: "'s lms_dev"
    and reg :: "'s \<Rightarrow> u8 \<Rightarrow> u8"
    and gpio :: "'s \<Rightarrow> u32"
    and ok :: "'s \<Rightarrow> bool"
  assumes read_status: "ok s \<Longrightarrow> lms_addr a \<Longrightarrow> fst (fst (dev_lms_read dev a s)) = 0"
    and read_ok: "ok s \<Longrightarrow> lms_addr a \<Longrightarrow> ok (snd (dev_lms_read dev a s))"
    and read_value: "ok s \<Longrightarrow> lms_addr a \<Longrightarrow> \<not> lms_volatile a \<Longrightarrow>
          snd (fst (dev_lms_read dev a s)) = reg s a"
    and read_reg: "ok s \<Longrightarrow> lms_addr a \<Longrightarrow> lms_addr b \<Longrightarrow> \<not> lms_volatile b \<Longrightarrow>
          reg (snd (dev_lms_read dev a s)) b = reg s b"
    and read_gpio: "ok s \<Longrightarrow> lms_addr a \<Longrightarrow> gpio (snd (dev_lms_read dev a s)) = gpio s"
    and write_status: "ok s \<Longrightarrow> lms_addr a \<Longrightarrow> fst (dev_lms_write dev a d s) = 0"
    and write_ok: "ok s \<Longrightarrow> lms_addr a \<Longrightarrow> ok (snd (dev_lms_write dev a d s))"
    and write_reg: "ok s \<Longrightarrow> lms_addr a \<Longrightarrow> \<not> lms_resets a d \<Longrightarrow>
          lms_addr b \<Longrightarrow> \<not> lms_volatile b \<Longrightarrow>
          reg (snd (dev_lms_write dev a d s)) b = (if b = a then d else reg s b)"
    and write_gpio: "ok s \<Longrightarrow> lms_addr a \<Longrightarrow> gpio (snd (dev_lms_write dev a d s)) = gpio s"
    and gpio_read_value: "ok s \<Longrightarrow> fst (dev_gpio_read dev s) = (0, gpio s)"
    and gpio_read_ok: "ok s \<Longrightarrow> ok (snd (dev_gpio_read dev s))"
    and gpio_read_gpio: "ok s \<Longrightarrow> gpio (snd (dev_gpio_read dev s)) = gpio s"
    and gpio_read_reg: "ok s \<Longrightarrow> lms_addr b \<Longrightarrow> \<not> lms_volatile b \<Longrightarrow>
          reg (snd (dev_gpio_read dev s)) b = reg s b"
    and gpio_write_status: "ok s \<Longrightarrow> fst (dev_gpio_write dev g s) = 0"
    and gpio_write_ok: "ok s \<Longrightarrow> ok (snd (dev_gpio_write dev g s))"
    and gpio_write_gpio: "ok s \<Longrightarrow> bit g 7 = bit (gpio s) 7 \<Longrightarrow>
          gpio (snd (dev_gpio_write dev g s)) = g"
    and gpio_write_reg: "ok s \<Longrightarrow> lms_addr b \<Longrightarrow> \<not> lms_volatile b \<Longrightarrow>
          reg (snd (dev_gpio_write dev g s)) b = reg s b"
begin

lemma LMS_READ_apply:
  "ok s \<Longrightarrow> lms_addr a \<Longrightarrow>
   LMS_READ dev a s = (Inr (snd (fst (dev_lms_read dev a s))), snd (dev_lms_read dev a s))"
  using read_status [of s a] by (auto simp add: LMS_READ_def split: prod.splits)

lemma LMS_WRITE_apply:
  "ok s \<Longrightarrow> lms_addr a \<Longrightarrow> LMS_WRITE dev a d s = (Inr (), snd (dev_lms_write dev a d s))"
  using write_status [of s a d] by (auto simp add: LMS_WRITE_def split: prod.splits)

lemma CONFIG_GPIO_READ_apply:
  "ok s \<Longrightarrow> CONFIG_GPIO_READ dev s = (Inr (gpio s), snd (dev_gpio_read dev s))"
  using gpio_read_value [of s] by (auto simp add: CONFIG_GPIO_READ_def split: prod.splits)

lemma CONFIG_GPIO_WRITE_apply:
  "ok s \<Longrightarrow> CONFIG_GPIO_WRITE dev g s = (Inr (), snd (dev_gpio_write dev g s))"
  using gpio_write_status [of s g] by (auto simp add: CONFIG_GPIO_WRITE_def split: prod.splits)

lemma bind_LMS_READ:
  "ok s \<Longrightarrow> lms_addr a \<Longrightarrow>
   bindE (LMS_READ dev a) f s = f (snd (fst (dev_lms_read dev a s))) (snd (dev_lms_read dev a s))"
  by (simp add: bindE_def LMS_READ_apply)

lemma bind_LMS_WRITE:
  "ok s \<Longrightarrow> lms_addr a \<Longrightarrow> bindE (LMS_WRITE dev a d) f s = f () (snd (dev_lms_write dev a d s))"
  by (simp add: bindE_def LMS_WRITE_apply)

lemma bind_GPIO_READ:
  "ok s \<Longrightarrow> bindE (CONFIG_GPIO_READ dev) f s = f (gpio s) (snd (dev_gpio_read dev s))"
  by (simp add: bindE_def CONFIG_GPIO_READ_apply)

lemma bind_GPIO_WRITE:
  "ok s \<Longrightarrow> bindE (CONFIG_GPIO_WRITE dev g) f s = f () (snd (dev_gpio_write dev g s))"
  by (simp add: bindE_def CONFIG_GPIO_WRITE_apply)

text \<open>\<open>changes A s t\<close>: from \<open>s\<close> to \<open>t\<close> only the registers in \<open>A\<close> (and the volatile ones) change.\<close>

definition changes :: "u8 set \<Rightarrow> 's \<Rightarrow> 's \<Rightarrow> bool" where
  "changes A s t \<longleftrightarrow> ok t \<and> gpio t = gpio s \<and>
     (\<forall>b. lms_addr b \<longrightarrow> \<not> lms_volatile b \<longrightarrow> b \<notin> A \<longrightarrow> reg t b = reg s b)"

lemma changes_refl: "ok s \<Longrightarrow> changes A s s"
  by (simp add: changes_def)

lemma changes_trans: "changes A s t \<Longrightarrow> changes B t u \<Longrightarrow> changes (A \<union> B) s u"
  by (simp add: changes_def)

lemma changes_mono: "changes A s t \<Longrightarrow> A \<subseteq> B \<Longrightarrow> changes B s t"
  by (auto simp add: changes_def)

lemma changes_ok: "changes A s t \<Longrightarrow> ok t"
  by (simp add: changes_def)

lemma changes_gpio: "changes A s t \<Longrightarrow> gpio t = gpio s"
  by (simp add: changes_def)

lemma changes_reg:
  "changes A s t \<Longrightarrow> lms_addr b \<Longrightarrow> \<not> lms_volatile b \<Longrightarrow> b \<notin> A \<Longrightarrow> reg t b = reg s b"
  by (simp add: changes_def)

lemmas dev_laws =
  LMS_READ_apply LMS_WRITE_apply CONFIG_GPIO_READ_apply CONFIG_GPIO_WRITE_apply
  bind_LMS_READ bind_LMS_WRITE bind_GPIO_READ bind_GPIO_WRITE
  read_ok read_value read_reg read_gpio write_ok write_reg write_gpio
  gpio_read_ok gpio_read_gpio gpio_read_reg gpio_write_ok gpio_write_gpio gpio_write_reg

end

text \<open>The four PLL words are written through the base address with bit 7 set when the FPGA
  offers an atomic multi-register write, and one by one otherwise; in both cases the four
  registers hold the words once all four writes are done.  In between, nothing is promised.\<close>

definition write_pll_words :: "'s lms_dev \<Rightarrow> u8 \<Rightarrow> u8 \<Rightarrow> u8 \<Rightarrow> u8 \<Rightarrow> u8 \<Rightarrow> ('s, unit) io" where
  "write_pll_words dev a d0 d1 d2 d3 =
     seqE (LMS_WRITE dev (a + 0) d0)
     (seqE (LMS_WRITE dev (a + 1) d1)
     (seqE (LMS_WRITE dev (a + 2) d2)
     (LMS_WRITE dev (a + 3) d3)))"

locale lms_pll = lms_regs dev reg gpio ok
  for dev :: "'s lms_dev" and reg :: "'s \<Rightarrow> u8 \<Rightarrow> u8" and gpio :: "'s \<Rightarrow> u32" and ok :: "'s \<Rightarrow> bool" +
  assumes pll_words_written: "ok s \<Longrightarrow> b = 0x10 \<or> b = 0x20 \<Longrightarrow>
     \<exists>t. write_pll_words dev (if dev_atomic_pll dev then b OR 0x80 else b) d0 d1 d2 d3 s = (Inr (), t) \<and>
         changes {b, b + 1, b + 2, b + 3} s t \<and>
         reg t b = d0 \<and> reg t (b + 1) = d1 \<and> reg t (b + 2) = d2 \<and> reg t (b + 3) = d3"

section \<open>A plain register file\<close>

text \<open>The simplest device that keeps the laws: a register file and a GPIO register, where the
  volatile registers are answered by a function of the contents.  The environment function is
  part of the state and arbitrary, so statements about all states hold for every chip
  behaviour on those registers.\<close>

record regfile =
  rf_reg :: "u8 \<Rightarrow> u8"
  rf_gpio :: u32
  rf_time :: nat
  rf_env :: "nat \<Rightarrow> (u8 \<Rightarrow> u8) \<Rightarrow> u8 \<Rightarrow> u8"

definition rf_sense :: "regfile \<Rightarrow> u8 \<Rightarrow> u8" where
  "rf_sense s a = (if lms_volatile a then rf_env s (rf_time s) (rf_reg s) a else rf_reg s a)"

definition regfile_dev :: "regfile lms_dev" where
  "regfile_dev =
    \<lparr> dev_lms_read = (\<lambda>a s. ((0, rf_sense s a), s\<lparr>rf_time := Suc (rf_time s)\<rparr>)),
      dev_lms_write = (\<lambda>a d s. (0, s\<lparr>rf_reg := (rf_reg s)(a := d), rf_time := Suc (rf_time s)\<rparr>)),
      dev_gpio_read = (\<lambda>s. ((0, rf_gpio s), s)),
      dev_gpio_write = (\<lambda>g s. (0, s\<lparr>rf_gpio := g\<rparr>)),
      dev_atomic_pll = False \<rparr>"

lemma regfile_dev_simps [simp]:
  "dev_lms_read regfile_dev a s = ((0, rf_sense s a), s\<lparr>rf_time := Suc (rf_time s)\<rparr>)"
  "dev_lms_write regfile_dev a d s =
     (0, s\<lparr>rf_reg := (rf_reg s)(a := d), rf_time := Suc (rf_time s)\<rparr>)"
  "dev_gpio_read regfile_dev s = ((0, rf_gpio s), s)"
  "dev_gpio_write regfile_dev g s = (0, s\<lparr>rf_gpio := g\<rparr>)"
  "dev_atomic_pll regfile_dev = False"
  by (simp_all add: regfile_dev_def)

interpretation rfile: lms_regs regfile_dev rf_reg rf_gpio "\<lambda>_. True"
  by unfold_locales (simp_all add: rf_sense_def)

interpretation rfile_pll: lms_pll regfile_dev rf_reg rf_gpio "\<lambda>_. True"
proof
  fix s b d0 d1 d2 d3
  assume "b = (0x10 :: u8) \<or> b = 0x20"
  then show "\<exists>t. write_pll_words regfile_dev (if dev_atomic_pll regfile_dev then b OR 0x80 else b)
       d0 d1 d2 d3 s = (Inr (), t) \<and> rfile.changes {b, b + 1, b + 2, b + 3} s t \<and>
       rf_reg t b = d0 \<and> rf_reg t (b + 1) = d1 \<and> rf_reg t (b + 2) = d2 \<and> rf_reg t (b + 3) = d3"
    by (elim disjE)
      (simp_all add: write_pll_words_def LMS_WRITE_def bindE_def rfile.changes_def)
qed

end
