(* ===== verification/Lms_Config.thy ===== *)
theory Lms_Config
  imports Lms_Dev
begin

text \<open>
  The register-configuration part of fpga_common/src/lms.c: charge pumps, low-pass filters,
  bandwidth, dithering, LNA, VGA and PA selection, power and PLL enables, and the registers that
  form the loopback paths.  Each function is a sequence of reads and writes through the device
  handle; an early return of the C code is \<open>bindE\<close> stopping at the first non-zero status.  The
  lemmas in the context of \<open>lms_regs\<close> state what each pair of set and get functions does on any
  device that keeps the register laws.
\<close>

section \<open>Enumerations\<close>

datatype bladerf_lpf_mode = BLADERF_LPF_NORMAL | BLADERF_LPF_BYPASSED | BLADERF_LPF_DISABLED
  | BLADERF_LPF_OTHER \<comment> \<open>any other value of the C enumeration\<close>

datatype bladerf_lna_gain = BLADERF_LNA_GAIN_UNKNOWN | BLADERF_LNA_GAIN_BYPASS
  | BLADERF_LNA_GAIN_MID | BLADERF_LNA_GAIN_MAX

datatype bladerf_loopback = BLADERF_LB_FIRMWARE | BLADERF_LB_BB_TXLPF_RXVGA2
  | BLADERF_LB_BB_TXVGA1_RXVGA2 | BLADERF_LB_BB_TXLPF_RXLPF | BLADERF_LB_BB_TXVGA1_RXLPF
  | BLADERF_LB_RF_LNA1 | BLADERF_LB_RF_LNA2 | BLADERF_LB_RF_LNA3 | BLADERF_LB_NONE

datatype lms_bw = BW_28MHz | BW_20MHz | BW_14MHz | BW_12MHz | BW_10MHz | BW_8p75MHz | BW_7MHz
  | BW_6MHz | BW_5p5MHz | BW_5MHz | BW_3p84MHz | BW_3MHz | BW_2p75MHz | BW_2p5MHz | BW_1p75MHz
  | BW_1p5MHz

datatype lms_lna = LNA_NONE | LNA_1 | LNA_2 | LNA_3

datatype lms_pa = PA_AUX | PA_1 | PA_2 | PA_NONE

text \<open>The numbers C gives to the enumerators, and the casts back.\<close>

definition lms_bw_values :: "lms_bw list" where
  "lms_bw_values = [BW_28MHz, BW_20MHz, BW_14MHz, BW_12MHz, BW_10MHz, BW_8p75MHz, BW_7MHz,
     BW_6MHz, BW_5p5MHz, BW_5MHz, BW_3p84MHz, BW_3MHz, BW_2p75MHz, BW_2p5MHz, BW_1p75MHz,
     BW_1p5MHz]"

definition lms_bw_of :: "u8 \<Rightarrow> lms_bw" where
  "lms_bw_of data = lms_bw_values ! unat data"

fun lms_bw_code :: "lms_bw \<Rightarrow> u8" where
  "lms_bw_code BW_28MHz = 0"
| "lms_bw_code BW_20MHz = 1"
| "lms_bw_code BW_14MHz = 2"
| "lms_bw_code BW_12MHz = 3"
| "lms_bw_code BW_10MHz = 4"
| "lms_bw_code BW_8p75MHz = 5"
| "lms_bw_code BW_7MHz = 6"
| "lms_bw_code BW_6MHz = 7"
| "lms_bw_code BW_5p5MHz = 8"
| "lms_bw_code BW_5MHz = 9"
| "lms_bw_code BW_3p84MHz = 10"
| "lms_bw_code BW_3MHz = 11"
| "lms_bw_code BW_2p75MHz = 12"
| "lms_bw_code BW_2p5MHz = 13"
| "lms_bw_code BW_1p75MHz = 14"
| "lms_bw_code BW_1p5MHz = 15"

fun lna_gain_code :: "bladerf_lna_gain \<Rightarrow> u8" where
  "lna_gain_code BLADERF_LNA_GAIN_UNKNOWN = 0"
| "lna_gain_code BLADERF_LNA_GAIN_BYPASS = 1"
| "lna_gain_code BLADERF_LNA_GAIN_MID = 2"
| "lna_gain_code BLADERF_LNA_GAIN_MAX = 3"

definition lna_gain_of :: "u8 \<Rightarrow> bladerf_lna_gain" where
  "lna_gain_of data =
     [BLADERF_LNA_GAIN_UNKNOWN, BLADERF_LNA_GAIN_BYPASS, BLADERF_LNA_GAIN_MID,
      BLADERF_LNA_GAIN_MAX] ! unat data"

fun lms_lna_code :: "lms_lna \<Rightarrow> u8" where
  "lms_lna_code LNA_NONE = 0"
| "lms_lna_code LNA_1 = 1"
| "lms_lna_code LNA_2 = 2"
| "lms_lna_code LNA_3 = 3"

definition lms_lna_of :: "u8 \<Rightarrow> lms_lna" where
  "lms_lna_of data = [LNA_NONE, LNA_1, LNA_2, LNA_3] ! unat data"

section \<open>Tables\<close>

definition uint_bandwidths :: "u32 list" where
  "uint_bandwidths = [28000000, 20000000, 14000000, 12000000, 10000000, 8750000, 7000000,
     6000000, 5500000, 5000000, 3840000, 3000000, 2750000, 2500000, 1750000, 1500000]"

definition rxvga1_lut_code2val :: "u8 list" where
  "rxvga1_lut_code2val = [
     5,  5,  5,  5,  5,  5,  5,  5,  6,  6,  6,  6,  6,  6,  6,  6,  6,  6,  6,
     6,  6,  7,  7,  7,  7,  7,  7,  7,  7,  7,  7,  7,  8,  8,  8,  8,  8,  8,
     8,  8,  8,  8,  8,  9,  9,  9,  9,  9,  9,  9,  9,  9,  10, 10, 10, 10, 10,
     10, 10, 10, 11, 11, 11, 11, 11, 11, 11, 12, 12, 12, 12, 12, 12, 12, 13, 13,
     13, 13, 13, 13, 14, 14, 14, 14, 14, 15, 15, 15, 15, 15, 16, 16, 16, 16, 17,
     17, 17, 18, 18, 18, 18, 19, 19, 19, 20, 20, 21, 21, 22, 22, 22, 23, 24, 24,
     25, 25, 26, 27, 28, 29, 30]"

definition rxvga1_lut_val2code :: "u8 list" where
  "rxvga1_lut_val2code = [
     2,  2,  2,  2,   2,   2,   14,  26,  37,  47,  56,  63,  70,  76,  82,  87,
     91, 95, 99, 102, 104, 107, 109, 111, 113, 114, 116, 117, 118, 119, 120]"

definition lms_reg_dumpset :: "u8 list" where
  "lms_reg_dumpset = [
    0x00, 0x01, 0x02, 0x03, 0x04, 0x05, 0x06, 0x07, 0x08, 0x09, 0x0A, 0x0B,
    0x0E, 0x0F,
    0x10, 0x11, 0x12, 0x13, 0x14, 0x15, 0x16, 0x17, 0x18, 0x19, 0x1A, 0x1B,
    0x1C, 0x1D, 0x1E, 0x1F,
    0x20, 0x21, 0x22, 0x23, 0x24, 0x25, 0x26, 0x27, 0x28, 0x29, 0x2A, 0x2B,
    0x2C, 0x2D, 0x2E, 0x2F,
    0x30, 0x31, 0x32, 0x33, 0x34, 0x35, 0x36,
    0x40, 0x41, 0x42, 0x43, 0x44, 0x45, 0x46, 0x47, 0x48, 0x49, 0x4A, 0x4B,
    0x4C, 0x4D, 0x4E, 0x4F,
    0x50, 0x51, 0x52, 0x53, 0x54, 0x55, 0x56, 0x57, 0x58, 0x59, 0x5A, 0x5B,
    0x5C, 0x5D, 0x5E, 0x5F,
    0x60, 0x61, 0x62, 0x63, 0x64, 0x65, 0x66, 0x67, 0x68,
    0x70, 0x71, 0x72, 0x73, 0x74, 0x75, 0x76, 0x77, 0x78, 0x79, 0x7A, 0x7B, 0x7C]"

section \<open>Charge pumps and low-pass filters\<close>

definition lms_config_charge_pumps :: "'s lms_dev \<Rightarrow> bladerf_module \<Rightarrow> ('s, unit) io" where
  "lms_config_charge_pumps dev module =
     (let base = (if module = BLADERF_MODULE_RX then 0x20 else 0x10) in
      bindE (LMS_READ dev (base + 6)) (\<lambda>data.
      seqE (LMS_WRITE dev (base + 6) ((data AND NOT 0x1f) OR 0x0c))
      (bindE (LMS_READ dev (base + 7)) (\<lambda>data.
      seqE (LMS_WRITE dev (base + 7) ((data AND NOT 0x1f) OR 3))
      (bindE (LMS_READ dev (base + 8)) (\<lambda>data.
      LMS_WRITE dev (base + 8) ((data AND NOT 0x1f) OR 3)))))))"

definition lms_lpf_enable :: "'s lms_dev \<Rightarrow> bladerf_module \<Rightarrow> bool \<Rightarrow> ('s, unit) io" where
  "lms_lpf_enable dev module enable =
     (let reg = (if module = BLADERF_MODULE_RX then 0x54 else 0x34) in
      bindE (LMS_READ dev reg) (\<lambda>data.
      seqE (LMS_WRITE dev reg (if enable then data OR 0x02 else data AND NOT 0x02))
      (bindE (LMS_READ dev (reg + 1)) (\<lambda>data.
      if data AND 0x40 \<noteq> 0 then LMS_WRITE dev (reg + 1) (data AND NOT 0x40)
      else returnE ()))))"

definition lms_lpf_get_mode :: "'s lms_dev \<Rightarrow> bladerf_module \<Rightarrow> ('s, bladerf_lpf_mode) io" where
  "lms_lpf_get_mode dev module =
     (let reg = (if module = BLADERF_MODULE_RX then 0x54 else 0x34) in
      bindE (LMS_READ dev reg) (\<lambda>data_l.
      bindE (LMS_READ dev (reg + 1)) (\<lambda>data_h.
      let lpf_enabled = (data_l AND 0x02 \<noteq> 0); lpf_bypassed = (data_h AND 0x40 \<noteq> 0) in
      if lpf_enabled \<and> \<not> lpf_bypassed then returnE BLADERF_LPF_NORMAL
      else if \<not> lpf_enabled \<and> lpf_bypassed then returnE BLADERF_LPF_BYPASSED
      else if \<not> lpf_enabled \<and> \<not> lpf_bypassed then returnE BLADERF_LPF_DISABLED
      else throwE BLADERF_ERR_INVAL)))"

definition lms_lpf_set_mode ::
  "'s lms_dev \<Rightarrow> bladerf_module \<Rightarrow> bladerf_lpf_mode \<Rightarrow> ('s, unit) io" where
  "lms_lpf_set_mode dev module mode =
     (let reg = (if module = BLADERF_MODULE_RX then 0x54 else 0x34) in
      bindE (LMS_READ dev reg) (\<lambda>data_l.
      bindE (LMS_READ dev (reg + 1)) (\<lambda>data_h.
      case mode of
        BLADERF_LPF_NORMAL \<Rightarrow>
          seqE (LMS_WRITE dev reg (data_l OR 0x02)) (LMS_WRITE dev (reg + 1) (data_h AND NOT 0x40))
      | BLADERF_LPF_BYPASSED \<Rightarrow>
          seqE (LMS_WRITE dev reg (data_l AND NOT 0x02)) (LMS_WRITE dev (reg + 1) (data_h OR 0x40))
      | BLADERF_LPF_DISABLED \<Rightarrow>
          seqE (LMS_WRITE dev reg (data_l AND NOT 0x02))
               (LMS_WRITE dev (reg + 1) (data_h AND NOT 0x40))
      | BLADERF_LPF_OTHER \<Rightarrow> throwE BLADERF_ERR_INVAL)))"

definition lms_set_bandwidth :: "'s lms_dev \<Rightarrow> bladerf_module \<Rightarrow> lms_bw \<Rightarrow> ('s, unit) io" where
  "lms_set_bandwidth dev module bw =
     (let reg = (if module = BLADERF_MODULE_RX then 0x54 else 0x34) in
      bindE (LMS_READ dev reg) (\<lambda>data.
      LMS_WRITE dev reg ((data AND NOT 0x3c) OR push_bit 2 (lms_bw_code bw))))"

definition lms_get_bandwidth :: "'s lms_dev \<Rightarrow> bladerf_module \<Rightarrow> ('s, lms_bw) io" where
  "lms_get_bandwidth dev module =
     (let reg = (if module = BLADERF_MODULE_RX then 0x54 else 0x34) in
      bindE (LMS_READ dev reg) (\<lambda>data.
      returnE (lms_bw_of (drop_bit 2 data AND 0xf))))"

definition lms_uint2bw :: "u32 \<Rightarrow> lms_bw" where
  "lms_uint2bw req =
     (if req \<le> 1500000 then BW_1p5MHz
      else if req \<le> 1750000 then BW_1p75MHz
      else if req \<le> 2500000 then BW_2p5MHz
      else if req \<le> 2750000 then BW_2p75MHz
      else if req \<le> 3000000 then BW_3MHz
      else if req \<le> 3840000 then BW_3p84MHz
      else if req \<le> 5000000 then BW_5MHz
      else if req \<le> 5500000 then BW_5p5MHz
      else if req \<le> 6000000 then BW_6MHz
      else if req \<le> 7000000 then BW_7MHz
      else if req \<le> 8750000 then BW_8p75MHz
      else if req \<le> 10000000 then BW_10MHz
      else if req \<le> 12000000 then BW_12MHz
      else if req \<le> 14000000 then BW_14MHz
      else if req \<le> 20000000 then BW_20MHz
      else BW_28MHz)"

definition lms_bw2uint :: "lms_bw \<Rightarrow> u32" where
  "lms_bw2uint bw = uint_bandwidths ! unat (lms_bw_code bw AND 0xf)"

definition lms_dither_enable ::
  "'s lms_dev \<Rightarrow> bladerf_module \<Rightarrow> u8 \<Rightarrow> bool \<Rightarrow> ('s, unit) io" where
  "lms_dither_enable dev module nbits enable =
     (let reg = (if module = BLADERF_MODULE_RX then 0x24 else 0x14) in
      if nbits < 1 \<or> nbits > 8 then throwE BLADERF_ERR_INVAL
      else
        bindE (LMS_READ dev reg) (\<lambda>data.
        LMS_WRITE dev reg
          (if enable then ((data OR 0x80) AND NOT 0x70) OR push_bit 4 ((nbits - 1) AND 7)
           else data AND NOT 0x80)))"

definition lms_soft_reset :: "'s lms_dev \<Rightarrow> ('s, unit) io" where
  "lms_soft_reset dev = seqE (LMS_WRITE dev 0x05 0x12) (LMS_WRITE dev 0x05 0x32)"

section \<open>Gains, LNA and PA selection\<close>

definition lms_lna_set_gain :: "'s lms_dev \<Rightarrow> bladerf_lna_gain \<Rightarrow> ('s, unit) io" where
  "lms_lna_set_gain dev gain =
     (if gain = BLADERF_LNA_GAIN_BYPASS \<or> gain = BLADERF_LNA_GAIN_MID \<or>
         gain = BLADERF_LNA_GAIN_MAX
      then
        bindE (LMS_READ dev 0x75) (\<lambda>data.
        LMS_WRITE dev 0x75 ((data AND NOT 0xc0) OR push_bit 6 (lna_gain_code gain AND 3)))
      else throwE BLADERF_ERR_INVAL)"

definition lms_lna_get_gain :: "'s lms_dev \<Rightarrow> ('s, bladerf_lna_gain) io" where
  "lms_lna_get_gain dev =
     bindE (LMS_READ dev 0x75) (\<lambda>data.
     let gain = lna_gain_of (drop_bit 6 data AND 3) in
     if gain = BLADERF_LNA_GAIN_UNKNOWN then throwE BLADERF_ERR_INVAL else returnE gain)"

definition lms_select_lna :: "'s lms_dev \<Rightarrow> lms_lna \<Rightarrow> ('s, unit) io" where
  "lms_select_lna dev lna =
     bindE (LMS_READ dev 0x75) (\<lambda>data.
     LMS_WRITE dev 0x75 ((data AND NOT 0x30) OR push_bit 4 (lms_lna_code lna AND 3)))"

definition lms_get_lna :: "'s lms_dev \<Rightarrow> ('s, lms_lna) io" where
  "lms_get_lna dev =
     bindE (LMS_READ dev 0x75) (\<lambda>data. returnE (lms_lna_of (drop_bit 4 data AND 3)))"

definition lms_rxvga1_enable :: "'s lms_dev \<Rightarrow> bool \<Rightarrow> ('s, unit) io" where
  "lms_rxvga1_enable dev enable =
     bindE (LMS_READ dev 0x7d) (\<lambda>data.
     LMS_WRITE dev 0x7d (if enable then data AND NOT 0x08 else data OR 0x08))"

definition lms_rxvga1_set_gain :: "'s lms_dev \<Rightarrow> int \<Rightarrow> ('s, unit) io" where
  "lms_rxvga1_set_gain dev gain =
     (let gain = (if gain > 30 then 30 else if gain < 5 then 5 else gain) in
      LMS_WRITE dev 0x76 (rxvga1_lut_val2code ! nat gain))"

definition lms_rxvga1_get_gain :: "'s lms_dev \<Rightarrow> ('s, int) io" where
  "lms_rxvga1_get_gain dev =
     bindE (LMS_READ dev 0x76) (\<lambda>data.
     let data = data AND 0x7f; data = (if data > 120 then 120 else data) in
     returnE (uint (rxvga1_lut_code2val ! unat data)))"

definition lms_rxvga2_enable :: "'s lms_dev \<Rightarrow> bool \<Rightarrow> ('s, unit) io" where
  "lms_rxvga2_enable dev enable =
     bindE (LMS_READ dev 0x64) (\<lambda>data.
     LMS_WRITE dev 0x64 (if enable then data OR 0x02 else data AND NOT 0x02))"

definition lms_rxvga2_set_gain :: "'s lms_dev \<Rightarrow> int \<Rightarrow> ('s, unit) io" where
  "lms_rxvga2_set_gain dev gain =
     (let gain = (if gain > 30 then 30 else if gain < 0 then 0 else gain) in
      LMS_WRITE dev 0x65 (word_of_int (gain div 3)))"

definition lms_rxvga2_get_gain :: "'s lms_dev \<Rightarrow> ('s, int) io" where
  "lms_rxvga2_get_gain dev =
     bindE (LMS_READ dev 0x65) (\<lambda>data. returnE (uint (data * 3)))"

definition lms_select_pa :: "'s lms_dev \<Rightarrow> lms_pa \<Rightarrow> ('s, unit) io" where
  "lms_select_pa dev pa =
     bindE (LMS_READ dev 0x44) (\<lambda>data.
     let data = (data AND NOT 0x1c) OR 0x02 in
     LMS_WRITE dev 0x44
       (case pa of
          PA_AUX \<Rightarrow> data AND NOT 0x02
        | PA_1 \<Rightarrow> data OR 0x08
        | PA_2 \<Rightarrow> data OR 0x10
        | PA_NONE \<Rightarrow> data))"

definition lms_peakdetect_enable :: "'s lms_dev \<Rightarrow> bool \<Rightarrow> ('s, unit) io" where
  "lms_peakdetect_enable dev enable =
     bindE (LMS_READ dev 0x44) (\<lambda>data.
     LMS_WRITE dev 0x44 (if enable then data AND NOT 0x01 else data OR 0x01))"

definition lms_enable_rffe :: "'s lms_dev \<Rightarrow> bladerf_module \<Rightarrow> bool \<Rightarrow> ('s, unit) io" where
  "lms_enable_rffe dev module enable =
     (let addr = (if module = BLADERF_MODULE_TX then 0x40 else 0x70) in
      bindE (LMS_READ dev addr) (\<lambda>data.
      LMS_WRITE dev addr
        (if module = BLADERF_MODULE_TX then
           if enable then data OR 0x02 else data AND NOT 0x02
         else if enable then data OR 0x01 else data AND NOT 0x01)))"

definition lms_txvga2_set_gain :: "'s lms_dev \<Rightarrow> int \<Rightarrow> ('s, unit) io" where
  "lms_txvga2_set_gain dev gain_int =
     (let gain = (if gain_int > 25 then 25 else if gain_int < 0 then 0 else gain_int) in
      bindE (LMS_READ dev 0x45) (\<lambda>data.
      LMS_WRITE dev 0x45 ((data AND NOT 0xf8) OR push_bit 3 (word_of_int gain AND 0x1f))))"

definition lms_txvga2_get_gain :: "'s lms_dev \<Rightarrow> ('s, int) io" where
  "lms_txvga2_get_gain dev =
     bindE (LMS_READ dev 0x45) (\<lambda>data.
     let gain = uint (drop_bit 3 data AND 0x1f) in
     returnE (if gain > 25 then 25 else gain))"

definition lms_txvga1_set_gain :: "'s lms_dev \<Rightarrow> int \<Rightarrow> ('s, unit) io" where
  "lms_txvga1_set_gain dev gain_int =
     (let gain = (if gain_int < -35 then -35 else if gain_int > -4 then -4 else gain_int) in
      LMS_WRITE dev 0x41 (word_of_int (gain + 35)))"

definition lms_txvga1_get_gain :: "'s lms_dev \<Rightarrow> ('s, int) io" where
  "lms_txvga1_get_gain dev =
     bindE (LMS_READ dev 0x41) (\<lambda>data. returnE (uint (data AND 0x1f) - 35))"

section \<open>Loopback paths and power\<close>

definition enable_lna_power :: "'s lms_dev \<Rightarrow> bool \<Rightarrow> ('s, unit) io" where
  "enable_lna_power dev enable =
     bindE (LMS_READ dev 0x7d) (\<lambda>regval.
     seqE (LMS_WRITE dev 0x7d (if enable then regval AND NOT 0x01 else regval OR 0x01))
     (bindE (LMS_READ dev 0x70) (\<lambda>regval.
     LMS_WRITE dev 0x70 (if enable then regval AND NOT 0x02 else regval OR 0x02))))"

definition enable_rf_loopback_switch :: "'s lms_dev \<Rightarrow> bool \<Rightarrow> ('s, unit) io" where
  "enable_rf_loopback_switch dev enable =
     bindE (LMS_READ dev 0x0b) (\<lambda>regval.
     LMS_WRITE dev 0x0b (if enable then regval OR 0x01 else regval AND NOT 0x01))"

abbreviation (input) LBEN_VGA2IN :: u8 where "LBEN_VGA2IN \<equiv> 0x20"
abbreviation (input) LBEN_LPFIN :: u8 where "LBEN_LPFIN \<equiv> 0x40"
abbreviation (input) LBEN_MASK :: u8 where "LBEN_MASK \<equiv> 0x70"
abbreviation (input) LBRFEN_LNA1 :: u8 where "LBRFEN_LNA1 \<equiv> 1"
abbreviation (input) LBRFEN_LNA2 :: u8 where "LBRFEN_LNA2 \<equiv> 2"
abbreviation (input) LBRFEN_LNA3 :: u8 where "LBRFEN_LNA3 \<equiv> 3"
abbreviation (input) LOOPBBEN_TXLPF :: u8 where "LOOPBBEN_TXLPF \<equiv> 0x04"
abbreviation (input) LOOPBBEN_TXVGA :: u8 where "LOOPBBEN_TXVGA \<equiv> 0x08"
abbreviation (input) LOOBBBEN_MASK :: u8 where "LOOBBBEN_MASK \<equiv> 0x0c"

definition loopback_path :: "'s lms_dev \<Rightarrow> bladerf_loopback \<Rightarrow> ('s, unit) io" where
  "loopback_path dev mode =
     bindE (LMS_READ dev 0x46) (\<lambda>loopbben.
     bindE (LMS_READ dev 0x08) (\<lambda>lben_lbrf.
     let loopbben = loopbben AND NOT LOOBBBEN_MASK;
         lben_lbrf = lben_lbrf AND NOT (0x0f OR LBEN_MASK);
         write = (\<lambda>loopbben lben_lbrf.
           seqE (LMS_WRITE dev 0x46 loopbben) (LMS_WRITE dev 0x08 lben_lbrf)) in
     case mode of
       BLADERF_LB_BB_TXLPF_RXVGA2 \<Rightarrow> write (loopbben OR LOOPBBEN_TXLPF) (lben_lbrf OR LBEN_VGA2IN)
     | BLADERF_LB_BB_TXLPF_RXLPF \<Rightarrow> write (loopbben OR LOOPBBEN_TXLPF) (lben_lbrf OR LBEN_LPFIN)
     | BLADERF_LB_BB_TXVGA1_RXVGA2 \<Rightarrow> write (loopbben OR LOOPBBEN_TXVGA) (lben_lbrf OR LBEN_VGA2IN)
     | BLADERF_LB_BB_TXVGA1_RXLPF \<Rightarrow> write (loopbben OR LOOPBBEN_TXVGA) (lben_lbrf OR LBEN_LPFIN)
     | BLADERF_LB_RF_LNA1 \<Rightarrow> write loopbben (lben_lbrf OR LBRFEN_LNA1)
     | BLADERF_LB_RF_LNA2 \<Rightarrow> write loopbben (lben_lbrf OR LBRFEN_LNA2)
     | BLADERF_LB_RF_LNA3 \<Rightarrow> write loopbben (lben_lbrf OR LBRFEN_LNA3)
     | BLADERF_LB_NONE \<Rightarrow> write loopbben lben_lbrf
     | BLADERF_LB_FIRMWARE \<Rightarrow> throwE BLADERF_ERR_INVAL))"

definition loopback_of_regs :: "u8 \<Rightarrow> u8 \<Rightarrow> bladerf_loopback" where
  "loopback_of_regs lben_lbrfen loopbben =
     (if lben_lbrfen AND 0x7 = LBRFEN_LNA1 then BLADERF_LB_RF_LNA1
      else if lben_lbrfen AND 0x7 = LBRFEN_LNA2 then BLADERF_LB_RF_LNA2
      else if lben_lbrfen AND 0x7 = LBRFEN_LNA3 then BLADERF_LB_RF_LNA3
      else if lben_lbrfen AND LBEN_MASK = LBEN_VGA2IN then
        if loopbben AND LOOPBBEN_TXLPF \<noteq> 0 then BLADERF_LB_BB_TXLPF_RXVGA2
        else if loopbben AND LOOPBBEN_TXVGA \<noteq> 0 then BLADERF_LB_BB_TXVGA1_RXVGA2
        else BLADERF_LB_NONE
      else if lben_lbrfen AND LBEN_MASK = LBEN_LPFIN then
        if loopbben AND LOOPBBEN_TXLPF \<noteq> 0 then BLADERF_LB_BB_TXLPF_RXLPF
        else if loopbben AND LOOPBBEN_TXVGA \<noteq> 0 then BLADERF_LB_BB_TXVGA1_RXLPF
        else BLADERF_LB_NONE
      else BLADERF_LB_NONE)"

definition lms_get_loopback_mode :: "'s lms_dev \<Rightarrow> ('s, bladerf_loopback) io" where
  "lms_get_loopback_mode dev =
     bindE (LMS_READ dev 0x08) (\<lambda>lben_lbrfen.
     bindE (LMS_READ dev 0x46) (\<lambda>loopbben.
     returnE (loopback_of_regs lben_lbrfen loopbben)))"

text \<open>The C function returns its status and its truth value through the same integer, which its
  callers compare with 0; the result here is that integer.\<close>

definition is_loopback_enabled :: "'s lms_dev \<Rightarrow> ('s, int) io" where
  "is_loopback_enabled dev =
     catchE
       (bindE (lms_get_loopback_mode dev) (\<lambda>loopback.
        returnE (if loopback \<noteq> BLADERF_LB_NONE then 1 else 0)))
       (\<lambda>status. returnE status)"

definition lms_power_down :: "'s lms_dev \<Rightarrow> ('s, unit) io" where
  "lms_power_down dev =
     bindE (LMS_READ dev 0x05) (\<lambda>data. LMS_WRITE dev 0x05 (data AND NOT 0x10))"

definition lms_pll_enable :: "'s lms_dev \<Rightarrow> bladerf_module \<Rightarrow> bool \<Rightarrow> ('s, unit) io" where
  "lms_pll_enable dev module enable =
     (let reg = (if module = BLADERF_MODULE_RX then 0x24 else 0x14) in
      bindE (LMS_READ dev reg) (\<lambda>data.
      LMS_WRITE dev reg (if enable then data OR 0x08 else data AND NOT 0x08)))"

definition lms_rx_enable :: "'s lms_dev \<Rightarrow> bool \<Rightarrow> ('s, unit) io" where
  "lms_rx_enable dev enable =
     bindE (LMS_READ dev 0x05) (\<lambda>data.
     LMS_WRITE dev 0x05 (if enable then data OR 0x04 else data AND NOT 0x04))"

definition lms_tx_enable :: "'s lms_dev \<Rightarrow> bool \<Rightarrow> ('s, unit) io" where
  "lms_tx_enable dev enable =
     bindE (LMS_READ dev 0x05) (\<lambda>data.
     LMS_WRITE dev 0x05 (if enable then data OR 0x08 else data AND NOT 0x08))"

definition lms_select_band :: "'s lms_dev \<Rightarrow> bladerf_module \<Rightarrow> bool \<Rightarrow> ('s, unit) io" where
  "lms_select_band dev module low_band =
     bindE (is_loopback_enabled dev) (\<lambda>status.
     if status < 0 then throwE status
     else if status > 0 then returnE ()
     else if module = BLADERF_MODULE_TX then lms_select_pa dev (if low_band then PA_1 else PA_2)
     else lms_select_lna dev (if low_band then LNA_1 else LNA_2))"

definition write_pll_config ::
  "'s lms_dev \<Rightarrow> bladerf_module \<Rightarrow> u8 \<Rightarrow> bool \<Rightarrow> ('s, unit) io" where
  "write_pll_config dev module freqsel low_band =
     (let addr = (if module = BLADERF_MODULE_TX then 0x15 else 0x25) in
      bindE (LMS_READ dev addr) (\<lambda>regval.
      bindE (is_loopback_enabled dev) (\<lambda>status.
      if status < 0 then throwE status
      else if status = 0 then
        LMS_WRITE dev addr (push_bit 2 freqsel OR (if low_band then 1 else 2))
      else LMS_WRITE dev addr ((regval AND NOT 0xfc) OR push_bit 2 freqsel))))"

definition lms_dump_registers :: "'s lms_dev \<Rightarrow> ('s, unit) io" where
  "lms_dump_registers dev =
     eachE (\<lambda>addr. bindE (LMS_READ dev addr) (\<lambda>data. returnE ())) lms_reg_dumpset"

section \<open>What the configuration functions do to the registers\<close>

lemma lms_volatile_simps [simp]:
  "lms_volatile a \<longleftrightarrow> a = 0x00 \<or> a = 0x01 \<or> a = 0x30 \<or> a = 0x31 \<or> a = 0x50 \<or> a = 0x51
     \<or> a = 0x60 \<or> a = 0x61 \<or> a = 0x1a \<or> a = 0x2a"
  by (simp add: lms_volatile_def)

lemma lms_resets_simps [simp]: "lms_resets a d \<longleftrightarrow> a = 0x05 \<and> \<not> bit d 5"
  by (simp add: lms_resets_def)

text \<open>What the getters of the VGAs make of the fields that the setters write.\<close>

lemma rxvga1_field:
  "uint (rxvga1_lut_code2val ! unat (min 120 (rxvga1_lut_val2code ! nat (max 5 (min 30 gain)) AND 0x7f)))
     = max 5 (min 30 gain)"
proof -
  define n where "n = nat (max 5 (min 30 gain)) - 5"
  have n: "n < 26" "max 5 (min 30 gain) = int n + 5" "nat (max 5 (min 30 gain)) = n + 5"
    unfolding n_def by auto
  have "\<forall>k < 26. uint (rxvga1_lut_code2val ! unat (min 120 (rxvga1_lut_val2code ! (k + 5) AND 0x7f)))
      = int k + 5"
    by (simp add: all_less_numeral rxvga1_lut_code2val_def rxvga1_lut_val2code_def)
  then show ?thesis using n by simp
qed

lemma rxvga2_field: "uint (word_of_int (max 0 (min 30 gain) div 3) * 3 :: u8) = 3 * (max 0 (min 30 gain) div 3)"
proof -
  define g where "g = max 0 (min 30 gain) div 3"
  have "0 \<le> g" "g \<le> 10" unfolding g_def by auto
  then show ?thesis unfolding g_def [symmetric]
    by (simp add: uint_word_arith_bintrs take_bit_eq_mod uint_word_of_int_small)
qed

lemma txvga2_field:
  "min 25 (uint (drop_bit 3 ((w AND NOT 0xf8) OR push_bit 3 (word_of_int (max 0 (min 25 gain)) AND 0x1f))
     AND 0x1f :: u8)) = max 0 (min 25 gain)"
proof -
  define g where "g = max 0 (min 25 gain)"
  have g: "0 \<le> g" "g \<le> 25" unfolding g_def by auto
  have field: "drop_bit 3 ((w AND NOT 0xf8) OR push_bit 3 (v AND 0x1f)) AND 0x1f = (v :: u8) AND 0x1f"
    for w v by (simp add: word8_eq_iff bit_simps)
  have "uint ((word_of_int g :: u8) AND 0x1f) = g"
    using g by (simp add: uint_and_1f uint_word_of_int_small)
  then show ?thesis unfolding field g_def [symmetric] using g by simp
qed

lemma txvga1_field:
  "uint (word_of_int (max (-35) (min (-4) gain) + 35) AND 0x1f :: u8) - 35 = max (-35) (min (-4) gain)"
proof -
  define g where "g = max (-35) (min (-4) gain) + 35"
  have g: "0 \<le> g" "g \<le> 31" "max (-35) (min (-4) gain) = g - 35" unfolding g_def by auto
  then show ?thesis by (simp add: uint_and_1f uint_word_of_int_small)
qed

context lms_regs begin

lemma lms_lpf_set_mode_runs:
  assumes "ok s" "mode \<noteq> BLADERF_LPF_OTHER"
  shows "\<exists>t. lms_lpf_set_mode dev module mode s = (Inr (), t) \<and>
    changes (if module = BLADERF_MODULE_RX then {0x54, 0x55} else {0x34, 0x35}) s t \<and>
    (let r = if module = BLADERF_MODULE_RX then 0x54 else 0x34 in
     reg t r = (if mode = BLADERF_LPF_NORMAL then reg s r OR 0x02 else reg s r AND NOT 0x02) \<and>
     reg t (r + 1) = (if mode = BLADERF_LPF_BYPASSED then reg s (r + 1) OR 0x40
                      else reg s (r + 1) AND NOT 0x40))"
  using assms
  by (cases mode; cases "module = BLADERF_MODULE_RX")
    (simp_all add: lms_lpf_set_mode_def Let_def dev_laws changes_def)

lemma lms_lpf_get_mode_runs:
  assumes "ok s"
  shows "\<exists>t. lms_lpf_get_mode dev module s =
      ((let r = if module = BLADERF_MODULE_RX then 0x54 else 0x34;
            e = bit (reg s r) 1; b = bit (reg s (r + 1)) 6 in
        if e \<and> b then Inl BLADERF_ERR_INVAL
        else Inr (if e then BLADERF_LPF_NORMAL else if b then BLADERF_LPF_BYPASSED
                  else BLADERF_LPF_DISABLED)), t) \<and> changes {} s t"
proof -
  have "(w :: u8) AND 0x02 = 0 \<longleftrightarrow> \<not> bit w 1" "w AND 0x40 = 0 \<longleftrightarrow> \<not> bit w 6" for w
    by (simp_all add: word8_eq_iff bit_simps)
  then show ?thesis
    using assms by (simp add: lms_lpf_get_mode_def Let_def dev_laws changes_def)
qed

lemma bandwidth_field:
  "drop_bit 2 ((w AND NOT 0x3c) OR push_bit 2 (lms_bw_code bw)) AND 0xf = lms_bw_code bw"
  by (cases bw; simp add: word8_eq_iff bit_simps)

lemma lms_bw_of_code: "lms_bw_of (lms_bw_code bw) = bw"
  by (cases bw; simp add: lms_bw_of_def lms_bw_values_def)

lemma lms_set_bandwidth_runs:
  assumes "ok s"
  shows "\<exists>t. lms_set_bandwidth dev module bw s = (Inr (), t) \<and>
    changes {if module = BLADERF_MODULE_RX then 0x54 else 0x34} s t \<and>
    (let r = if module = BLADERF_MODULE_RX then 0x54 else 0x34 in
     reg t r = (reg s r AND NOT 0x3c) OR push_bit 2 (lms_bw_code bw))"
  using assms by (simp add: lms_set_bandwidth_def Let_def dev_laws changes_def)

lemma lms_get_bandwidth_runs:
  assumes "ok s"
  shows "\<exists>t. lms_get_bandwidth dev module s =
     (Inr (lms_bw_of (drop_bit 2 (reg s (if module = BLADERF_MODULE_RX then 0x54 else 0x34)) AND 0xf)), t)
     \<and> changes {} s t"
  using assms by (simp add: lms_get_bandwidth_def Let_def dev_laws changes_def)

lemma lms_lna_set_gain_runs:
  assumes "ok s" "gain \<noteq> BLADERF_LNA_GAIN_UNKNOWN"
  shows "\<exists>t. lms_lna_set_gain dev gain s = (Inr (), t) \<and> changes {0x75} s t \<and>
     reg t 0x75 = (reg s 0x75 AND NOT 0xc0) OR push_bit 6 (lna_gain_code gain AND 3)"
  using assms by (cases gain) (simp_all add: lms_lna_set_gain_def dev_laws changes_def)

lemma lms_select_lna_runs:
  assumes "ok s"
  shows "\<exists>t. lms_select_lna dev lna s = (Inr (), t) \<and> changes {0x75} s t \<and>
     reg t 0x75 = (reg s 0x75 AND NOT 0x30) OR push_bit 4 (lms_lna_code lna AND 3)"
  using assms by (simp add: lms_select_lna_def dev_laws changes_def)

lemma lms_lna_get_gain_runs:
  assumes "ok s"
  shows "\<exists>t. lms_lna_get_gain dev s =
     (let gain = lna_gain_of (drop_bit 6 (reg s 0x75) AND 3) in
      if gain = BLADERF_LNA_GAIN_UNKNOWN then Inl BLADERF_ERR_INVAL else Inr gain, t) \<and>
     changes {} s t"
  using assms by (simp add: lms_lna_get_gain_def Let_def dev_laws changes_def)

lemma lms_get_lna_runs:
  assumes "ok s"
  shows "\<exists>t. lms_get_lna dev s = (Inr (lms_lna_of (drop_bit 4 (reg s 0x75) AND 3)), t) \<and>
     changes {} s t"
  using assms by (simp add: lms_get_lna_def dev_laws changes_def)

lemma lms_rxvga1_enable_runs:
  assumes "ok s"
  shows "\<exists>t. lms_rxvga1_enable dev enable s = (Inr (), t) \<and> changes {0x7d} s t \<and>
     reg t 0x7d = (if enable then reg s 0x7d AND NOT 0x08 else reg s 0x7d OR 0x08)"
  using assms by (simp add: lms_rxvga1_enable_def dev_laws changes_def)

lemma lms_rxvga2_enable_runs:
  assumes "ok s"
  shows "\<exists>t. lms_rxvga2_enable dev enable s = (Inr (), t) \<and> changes {0x64} s t \<and>
     reg t 0x64 = (if enable then reg s 0x64 OR 0x02 else reg s 0x64 AND NOT 0x02)"
  using assms by (simp add: lms_rxvga2_enable_def dev_laws changes_def)

lemma lms_rxvga1_set_gain_runs:
  assumes "ok s"
  shows "\<exists>t. lms_rxvga1_set_gain dev gain s = (Inr (), t) \<and> changes {0x76} s t \<and>
     reg t 0x76 = rxvga1_lut_val2code ! nat (max 5 (min 30 gain))"
  using assms by (simp add: lms_rxvga1_set_gain_def Let_def dev_laws changes_def max_def min_def)

lemma lms_rxvga1_get_gain_runs:
  assumes "ok s"
  shows "\<exists>t. lms_rxvga1_get_gain dev s =
     (Inr (uint (rxvga1_lut_code2val ! unat (min 120 (reg s 0x76 AND 0x7f)))), t) \<and> changes {} s t"
  using assms linear [of "reg s 0x76 AND 0x7f" 120]
  by (auto simp add: lms_rxvga1_get_gain_def Let_def dev_laws changes_def min_def)

lemma lms_rxvga2_set_gain_runs:
  assumes "ok s"
  shows "\<exists>t. lms_rxvga2_set_gain dev gain s = (Inr (), t) \<and> changes {0x65} s t \<and>
     reg t 0x65 = word_of_int (max 0 (min 30 gain) div 3)"
  using assms by (simp add: lms_rxvga2_set_gain_def Let_def dev_laws changes_def max_def min_def)

lemma lms_rxvga2_get_gain_runs:
  assumes "ok s"
  shows "\<exists>t. lms_rxvga2_get_gain dev s = (Inr (uint (reg s 0x65 * 3)), t) \<and> changes {} s t"
  using assms by (simp add: lms_rxvga2_get_gain_def dev_laws changes_def)

lemma lms_select_pa_runs:
  assumes "ok s"
  shows "\<exists>t. lms_select_pa dev pa s = (Inr (), t) \<and> changes {0x44} s t \<and>
     reg t 0x44 = (let data = (reg s 0x44 AND NOT 0x1c) OR 0x02 in
       case pa of PA_AUX \<Rightarrow> data AND NOT 0x02 | PA_1 \<Rightarrow> data OR 0x08 | PA_2 \<Rightarrow> data OR 0x10
       | PA_NONE \<Rightarrow> data)"
  using assms by (cases pa) (simp_all add: lms_select_pa_def Let_def dev_laws changes_def)

lemma lms_txvga2_set_gain_runs:
  assumes "ok s"
  shows "\<exists>t. lms_txvga2_set_gain dev gain s = (Inr (), t) \<and> changes {0x45} s t \<and>
     reg t 0x45 = (reg s 0x45 AND NOT 0xf8) OR
       push_bit 3 (word_of_int (max 0 (min 25 gain)) AND 0x1f)"
  using assms
  by (simp add: lms_txvga2_set_gain_def Let_def dev_laws changes_def max_def min_def)

lemma lms_txvga2_get_gain_runs:
  assumes "ok s"
  shows "\<exists>t. lms_txvga2_get_gain dev s =
     (Inr (min 25 (uint (drop_bit 3 (reg s 0x45) AND 0x1f))), t) \<and> changes {} s t"
  using assms by (simp add: lms_txvga2_get_gain_def Let_def dev_laws changes_def min_def)

lemma lms_txvga1_set_gain_runs:
  assumes "ok s"
  shows "\<exists>t. lms_txvga1_set_gain dev gain s = (Inr (), t) \<and> changes {0x41} s t \<and>
     reg t 0x41 = word_of_int (max (-35) (min (-4) gain) + 35)"
  using assms
  by (simp add: lms_txvga1_set_gain_def Let_def dev_laws changes_def max_def min_def)

lemma lms_txvga1_get_gain_runs:
  assumes "ok s"
  shows "\<exists>t. lms_txvga1_get_gain dev s = (Inr (uint (reg s 0x41 AND 0x1f) - 35), t) \<and>
     changes {} s t"
  using assms by (simp add: lms_txvga1_get_gain_def dev_laws changes_def)

lemma enable_lna_power_runs:
  assumes "ok s"
  shows "\<exists>t. enable_lna_power dev enable s = (Inr (), t) \<and> changes {0x7d, 0x70} s t \<and>
     reg t 0x7d = (if enable then reg s 0x7d AND NOT 0x01 else reg s 0x7d OR 0x01) \<and>
     reg t 0x70 = (if enable then reg s 0x70 AND NOT 0x02 else reg s 0x70 OR 0x02)"
  using assms by (simp add: enable_lna_power_def dev_laws changes_def)

lemma enable_rf_loopback_switch_runs:
  assumes "ok s"
  shows "\<exists>t. enable_rf_loopback_switch dev enable s = (Inr (), t) \<and> changes {0x0b} s t \<and>
     reg t 0x0b = (if enable then reg s 0x0b OR 0x01 else reg s 0x0b AND NOT 0x01)"
  using assms by (simp add: enable_rf_loopback_switch_def dev_laws changes_def)

lemma lms_get_loopback_mode_runs:
  assumes "ok s"
  shows "\<exists>t. lms_get_loopback_mode dev s =
     (Inr (loopback_of_regs (reg s 0x08) (reg s 0x46)), t) \<and> changes {} s t"
  using assms by (simp add: lms_get_loopback_mode_def dev_laws changes_def)

lemma is_loopback_enabled_runs:
  assumes "ok s"
  shows "\<exists>t. is_loopback_enabled dev s =
     (Inr (if loopback_of_regs (reg s 0x08) (reg s 0x46) = BLADERF_LB_NONE then 0 else 1), t) \<and>
     changes {} s t"
  using assms
  by (simp add: is_loopback_enabled_def lms_get_loopback_mode_def bindE_assoc catchE_def dev_laws
      changes_def)

lemma loopback_fields:
  "((w AND 0x80) OR c) AND 0x07 = (c :: u8) AND 0x07"
  "((w AND 0x80) OR c) AND 0x70 = c AND 0x70"
  "((w AND 0xf3) OR c) AND 0x04 = c AND 0x04"
  "((w AND 0xf3) OR c) AND 0x08 = c AND 0x08"
  "(w AND 0x80) AND 0x07 = 0" "(w AND 0x80) AND 0x70 = 0"
  by (simp_all add: word8_eq_iff bit_simps)

lemma loopback_masks: "- 128 = (0x80 :: u8)" "- 13 = (0xf3 :: u8)"
  by simp_all

lemma loopback_path_runs:
  assumes "ok s" "mode \<noteq> BLADERF_LB_FIRMWARE"
  shows "\<exists>t. loopback_path dev mode s = (Inr (), t) \<and> changes {0x46, 0x08} s t \<and>
     loopback_of_regs (reg t 0x08) (reg t 0x46) = mode"
  using assms
  by (cases mode) (simp_all add: loopback_path_def Let_def dev_laws changes_def loopback_masks
      loopback_of_regs_def loopback_fields)

lemma lms_select_band_runs:
  assumes "ok s"
  defines "enabled \<equiv> loopback_of_regs (reg s 0x08) (reg s 0x46) \<noteq> BLADERF_LB_NONE"
  shows "\<exists>t. lms_select_band dev module low_band s = (Inr (), t) \<and>
     changes (if enabled then {} else if module = BLADERF_MODULE_TX then {0x44} else {0x75}) s t \<and>
     (\<not> enabled \<longrightarrow> module = BLADERF_MODULE_TX \<longrightarrow>
        reg t 0x44 AND 0x1e = (if low_band then 0x0a else 0x12)) \<and>
     (\<not> enabled \<longrightarrow> module \<noteq> BLADERF_MODULE_TX \<longrightarrow>
        lms_lna_of (drop_bit 4 (reg t 0x75) AND 3) = (if low_band then LNA_1 else LNA_2))"
proof -
  obtain t where t: "is_loopback_enabled dev s = (Inr (if enabled then 1 else 0), t)"
      "changes {} s t"
    using is_loopback_enabled_runs [OF assms(1)] unfolding enabled_def by auto
  have "ok t" by (rule changes_ok [OF t(2)])
  have pa: "(((w AND NOT 0x1c) OR 0x02) OR 0x08) AND 0x1e = (0x0a :: u8)"
    "(((w AND NOT 0x1c) OR 0x02) OR 0x10) AND 0x1e = (0x12 :: u8)" for w
    by (simp_all add: word8_eq_iff bit_simps)
  have lna: "lms_lna_of (drop_bit 4 ((w AND NOT 0x30) OR push_bit 4 (lms_lna_code l AND 3)) AND 3) = l"
    for w l
  proof -
    have "drop_bit 4 ((w AND NOT 0x30) OR push_bit 4 (lms_lna_code l AND 3)) AND 3 = lms_lna_code l"
      by (cases l; simp add: word8_eq_iff bit_simps)
    then show ?thesis by (cases l; simp add: lms_lna_of_def)
  qed
  have step: "changes A t u \<Longrightarrow> changes A s u" for A u
    using changes_trans [OF t(2), of A u] by simp
  obtain u where u: "lms_select_pa dev (if low_band then PA_1 else PA_2) t = (Inr (), u)"
      "changes {0x44} t u" "reg u 0x44 AND 0x1e = (if low_band then 0x0a else 0x12)"
    using lms_select_pa_runs [OF \<open>ok t\<close>, of "if low_band then PA_1 else PA_2"] pa
    by (auto simp add: Let_def split: if_splits)
  obtain v where v: "lms_select_lna dev (if low_band then LNA_1 else LNA_2) t = (Inr (), v)"
      "changes {0x75} t v"
      "reg v 0x75 = (reg t 0x75 AND NOT 0x30)
         OR push_bit 4 (lms_lna_code (if low_band then LNA_1 else LNA_2) AND 3)"
    using lms_select_lna_runs [OF \<open>ok t\<close>] by blast
  have v4: "lms_lna_of (drop_bit 4 (reg v 0x75) AND 3) = (if low_band then LNA_1 else LNA_2)"
    unfolding v(3) by (rule lna)
  have run: "lms_select_band dev module low_band s =
     (if enabled then (Inr (), t)
      else if module = BLADERF_MODULE_TX then lms_select_pa dev (if low_band then PA_1 else PA_2) t
      else lms_select_lna dev (if low_band then LNA_1 else LNA_2) t)"
    by (simp add: lms_select_band_def
        bindE_Inr [where m = "is_loopback_enabled dev" and s = s, OF t(1)])
  consider "enabled" | "\<not> enabled" "module = BLADERF_MODULE_TX"
    | "\<not> enabled" "module \<noteq> BLADERF_MODULE_TX" by blast
  then show ?thesis
  proof cases
    case 1 then show ?thesis by (simp add: run t(2))
  next
    case 2
    then have "lms_select_band dev module low_band s = (Inr (), u)"
      using run u(1) by (simp split del: if_split)
    then show ?thesis using 2 u(3) step [OF u(2)] by (intro exI [of _ u]) simp
  next
    case 3
    then have "lms_select_band dev module low_band s = (Inr (), v)"
      using run v(1) by (simp split del: if_split)
    then show ?thesis using 3 v4 step [OF v(2)] by (intro exI [of _ v]) simp
  qed
qed

lemma write_pll_config_runs:
  assumes "ok s" and addr_def: "addr = (if module = BLADERF_MODULE_TX then 0x15 else 0x25)"
  shows "\<exists>t. write_pll_config dev module freqsel low_band s = (Inr (), t) \<and> changes {addr} s t \<and>
     reg t addr =
       (if loopback_of_regs (reg s 0x08) (reg s 0x46) = BLADERF_LB_NONE
        then push_bit 2 freqsel OR (if low_band then 1 else 2)
        else (reg s addr AND NOT 0xfc) OR push_bit 2 freqsel)"
proof -
  let ?u = "snd (dev_lms_read dev addr s)"
  have addr: "lms_addr addr" "\<not> lms_volatile addr" "addr \<noteq> 0x08" "addr \<noteq> 0x46" "addr \<noteq> 0x05"
    by (simp_all add: addr_def)
  have u: "ok ?u" "changes {} s ?u" using assms(1) addr(1) by (simp_all add: dev_laws changes_def)
  have "reg ?u 0x08 = reg s 0x08" "reg ?u 0x46 = reg s 0x46"
    using u(2) by (simp_all add: changes_def)
  then obtain t where t: "is_loopback_enabled dev ?u =
       (Inr (if loopback_of_regs (reg s 0x08) (reg s 0x46) = BLADERF_LB_NONE then 0 else 1), t)"
      "changes {} ?u t"
    using is_loopback_enabled_runs [OF u(1)] by auto
  have t': "ok t" "changes {} s t"
    using changes_trans [OF u(2) t(2)] changes_ok [OF t(2)] by simp_all
  have w: "\<exists>v. LMS_WRITE dev addr d t = (Inr (), v) \<and> changes {addr} s v \<and> reg v addr = d" for d
    using t' addr by (simp add: dev_laws changes_def)
  have "write_pll_config dev module freqsel low_band s =
    (if loopback_of_regs (reg s 0x08) (reg s 0x46) = BLADERF_LB_NONE
     then LMS_WRITE dev addr (push_bit 2 freqsel OR (if low_band then 1 else 2)) t
     else LMS_WRITE dev addr ((reg s addr AND NOT 0xfc) OR push_bit 2 freqsel) t)"
    using assms(1) addr
    by (simp add: write_pll_config_def addr_def [symmetric] bind_LMS_READ read_value
        bindE_Inr [where m = "is_loopback_enabled dev" and s = ?u, OF t(1)])
  then show ?thesis using w by presburger
qed

lemma lpf_mode_set_get_runs:
  assumes "ok s" "mode \<noteq> BLADERF_LPF_OTHER"
  shows "\<exists>t. seqE (lms_lpf_set_mode dev module mode) (lms_lpf_get_mode dev module) s = (Inr mode, t)"
proof -
  let ?r = "if module = BLADERF_MODULE_RX then 0x54 else 0x34 :: u8"
  obtain t where t: "lms_lpf_set_mode dev module mode s = (Inr (), t)" "ok t"
      "bit (reg t ?r) 1 \<longleftrightarrow> mode = BLADERF_LPF_NORMAL"
      "bit (reg t (?r + 1)) 6 \<longleftrightarrow> mode = BLADERF_LPF_BYPASSED"
    using lms_lpf_set_mode_runs [OF assms, of module]
    by (auto simp add: Let_def bit_simps changes_ok split: if_splits)
  have "seqE (lms_lpf_set_mode dev module mode) (lms_lpf_get_mode dev module) s =
      lms_lpf_get_mode dev module t"
    by (simp add: bindE_def t(1))
  then show ?thesis
    using lms_lpf_get_mode_runs [OF t(2), of module] t(3,4) assms(2)
    by (cases mode) (auto simp add: Let_def)
qed

lemma bandwidth_set_get_runs:
  assumes "ok s"
  shows "\<exists>t. seqE (lms_set_bandwidth dev module bw) (lms_get_bandwidth dev module) s = (Inr bw, t)"
proof -
  obtain t where t: "lms_set_bandwidth dev module bw s = (Inr (), t)" "ok t"
      "reg t (if module = BLADERF_MODULE_RX then 0x54 else 0x34) =
         (reg s (if module = BLADERF_MODULE_RX then 0x54 else 0x34) AND NOT 0x3c)
         OR push_bit 2 (lms_bw_code bw)"
    using lms_set_bandwidth_runs [OF assms, of module bw] unfolding Let_def using changes_ok by blast
  show ?thesis
    using lms_get_bandwidth_runs [OF t(2), of module]
    unfolding t(3) bandwidth_field lms_bw_of_code by (auto simp add: bindE_def t(1))
qed

lemma rxvga1_set_get_runs:
  assumes "ok s"
  shows "\<exists>t. seqE (lms_rxvga1_set_gain dev gain) (lms_rxvga1_get_gain dev) s =
    (Inr (max 5 (min 30 gain)), t)"
proof -
  obtain t where t: "lms_rxvga1_set_gain dev gain s = (Inr (), t)" "ok t"
      "reg t 0x76 = rxvga1_lut_val2code ! nat (max 5 (min 30 gain))"
    using lms_rxvga1_set_gain_runs [OF assms, of gain] changes_ok by blast
  then show ?thesis
    using lms_rxvga1_get_gain_runs [OF t(2)] by (auto simp add: bindE_def rxvga1_field)
qed

lemma rxvga2_set_get_runs:
  assumes "ok s"
  shows "\<exists>t. seqE (lms_rxvga2_set_gain dev gain) (lms_rxvga2_get_gain dev) s =
    (Inr (3 * (max 0 (min 30 gain) div 3)), t)"
proof -
  obtain t where t: "lms_rxvga2_set_gain dev gain s = (Inr (), t)" "ok t"
      "reg t 0x65 = word_of_int (max 0 (min 30 gain) div 3)"
    using lms_rxvga2_set_gain_runs [OF assms, of gain] changes_ok by blast
  then show ?thesis
    using lms_rxvga2_get_gain_runs [OF t(2)] by (auto simp add: bindE_def rxvga2_field)
qed

lemma txvga2_set_get_runs:
  assumes "ok s"
  shows "\<exists>t. seqE (lms_txvga2_set_gain dev gain) (lms_txvga2_get_gain dev) s =
    (Inr (max 0 (min 25 gain)), t)"
proof -
  obtain t where t: "lms_txvga2_set_gain dev gain s = (Inr (), t)" "ok t"
      "reg t 0x45 = (reg s 0x45 AND NOT 0xf8) OR push_bit 3 (word_of_int (max 0 (min 25 gain)) AND 0x1f)"
    using lms_txvga2_set_gain_runs [OF assms, of gain] changes_ok by blast
  show ?thesis
    using lms_txvga2_get_gain_runs [OF t(2)] unfolding t(3) txvga2_field by (auto simp add: bindE_def t(1))
qed

lemma txvga1_set_get_runs:
  assumes "ok s"
  shows "\<exists>t. seqE (lms_txvga1_set_gain dev gain) (lms_txvga1_get_gain dev) s =
    (Inr (max (-35) (min (-4) gain)), t)"
proof -
  obtain t where t: "lms_txvga1_set_gain dev gain s = (Inr (), t)" "ok t"
      "reg t 0x41 = word_of_int (max (-35) (min (-4) gain) + 35)"
    using lms_txvga1_set_gain_runs [OF assms, of gain] changes_ok by blast
  show ?thesis
    using lms_txvga1_get_gain_runs [OF t(2)] unfolding t(3) txvga1_field by (auto simp add: bindE_def t(1))
qed

end

section \<open>Bandwidth selection\<close>

lemma set_uint_bandwidths:
  "set uint_bandwidths = {1500000, 1750000, 2500000, 2750000, 3000000, 3840000, 5000000, 5500000,
     6000000, 7000000, 8750000, 10000000, 12000000, 14000000, 20000000, 28000000}"
  by (auto simp add: uint_bandwidths_def)

lemma lms_bw2uint_simps:
  "lms_bw2uint BW_28MHz = 28000000" "lms_bw2uint BW_20MHz = 20000000"
  "lms_bw2uint BW_14MHz = 14000000" "lms_bw2uint BW_12MHz = 12000000"
  "lms_bw2uint BW_10MHz = 10000000" "lms_bw2uint BW_8p75MHz = 8750000"
  "lms_bw2uint BW_7MHz = 7000000" "lms_bw2uint BW_6MHz = 6000000"
  "lms_bw2uint BW_5p5MHz = 5500000" "lms_bw2uint BW_5MHz = 5000000"
  "lms_bw2uint BW_3p84MHz = 3840000" "lms_bw2uint BW_3MHz = 3000000"
  "lms_bw2uint BW_2p75MHz = 2750000" "lms_bw2uint BW_2p5MHz = 2500000"
  "lms_bw2uint BW_1p75MHz = 1750000" "lms_bw2uint BW_1p5MHz = 1500000"
  by (simp_all add: lms_bw2uint_def uint_bandwidths_def)

lemma lms_uint2bw_covers: "req \<le> 28000000 \<Longrightarrow> req \<le> lms_bw2uint (lms_uint2bw req)"
  by (simp add: lms_uint2bw_def lms_bw2uint_simps)

lemma lms_uint2bw_in_table: "lms_bw2uint (lms_uint2bw req) \<in> set uint_bandwidths"
  by (simp add: lms_uint2bw_def lms_bw2uint_simps set_uint_bandwidths)

lemma lms_uint2bw_least:
  assumes "w \<in> set uint_bandwidths" "req \<le> w"
  shows "lms_bw2uint (lms_uint2bw req) \<le> w"
proof -
  have w: "w \<in> {1500000, 1750000, 2500000, 2750000, 3000000, 3840000, 5000000, 5500000,
     6000000, 7000000, 8750000, 10000000, 12000000, 14000000, 20000000, 28000000}"
    using assms(1) by (simp only: set_uint_bandwidths)
  from w assms(2) show ?thesis
    by (elim insertE emptyE) (auto simp add: lms_uint2bw_def lms_bw2uint_simps)
qed

lemma lms_uint2bw_value:
  "lms_bw2uint (lms_uint2bw req) =
     (if req \<le> 28000000 then Min {w \<in> set uint_bandwidths. req \<le> w} else 28000000)"
proof (cases "req \<le> 28000000")
  case True
  then have "Min {w \<in> set uint_bandwidths. req \<le> w} = lms_bw2uint (lms_uint2bw req)"
    using lms_uint2bw_covers lms_uint2bw_in_table lms_uint2bw_least by (intro Min_eqI) auto
  with True show ?thesis by simp
next
  case False
  then have "req > 28000000" by simp
  then have "\<not> req \<le> c" if "c \<in> {1500000, 1750000, 2500000, 2750000, 3000000, 3840000, 5000000,
      5500000, 6000000, 7000000, 8750000, 10000000, 12000000, 14000000, 20000000}" for c
    using that by (auto simp add: not_le intro: le_less_trans [rotated])
  with False show ?thesis by (simp add: lms_uint2bw_def lms_bw2uint_simps)
qed

section \<open>Properties\<close>

text \<open>A register file with all registers 0, on which the properties are exercised.\<close>

definition rf_blank :: regfile where
  "rf_blank = \<lparr> rf_reg = (\<lambda>_. 0), rf_gpio = 0, rf_time = 0, rf_env = (\<lambda>_ _ _. 0) \<rparr>"

text \<open>After lms_lpf_set_mode succeeds for one of the three LPF modes, lms_lpf_get_mode on the
  same module returns that mode, on every device that keeps the register laws.\<close>

lemma lpf_mode_set_get:
  assumes "lms_regs dev reg gpio ok" "ok s" "mode \<noteq> BLADERF_LPF_OTHER"
  shows "\<exists>t. seqE (lms_lpf_set_mode dev module mode) (lms_lpf_get_mode dev module) s = (Inr mode, t)"
  by (rule lms_regs.lpf_mode_set_get_runs [OF assms])

theorem lpf_mode_set_get_witness:
  "\<exists>t. seqE (lms_lpf_set_mode regfile_dev BLADERF_MODULE_RX BLADERF_LPF_BYPASSED)
          (lms_lpf_get_mode regfile_dev BLADERF_MODULE_RX) rf_blank = (Inr BLADERF_LPF_BYPASSED, t)"
  by (rule lpf_mode_set_get [OF rfile.lms_regs_axioms]) simp_all

text \<open>C10: Setting the bandwidth that lms_uint2bw chooses for a requested value and reading it back
  gives the smallest bandwidth of the LMS6002D table that is at least the request, and the largest
  one, 28 MHz, when the request exceeds the table.\<close>

theorem bandwidth_request_rounds_up:
  assumes "lms_regs dev reg gpio ok" "ok s"
  shows "\<exists>bw t. seqE (lms_set_bandwidth dev module (lms_uint2bw req)) (lms_get_bandwidth dev module) s
       = (Inr bw, t) \<and>
     lms_bw2uint bw =
       (if req \<le> 28000000 then Min {w \<in> set uint_bandwidths. req \<le> w} else 28000000)"
  using lms_regs.bandwidth_set_get_runs [OF assms] lms_uint2bw_value by blast

theorem bandwidth_request_rounds_up_witness:
  "\<exists>bw t. seqE (lms_set_bandwidth regfile_dev BLADERF_MODULE_TX (lms_uint2bw 5100000))
        (lms_get_bandwidth regfile_dev BLADERF_MODULE_TX) rf_blank = (Inr bw, t) \<and>
     lms_bw2uint bw =
       (if (5100000 :: u32) \<le> 28000000 then Min {w \<in> set uint_bandwidths. 5100000 \<le> w}
        else 28000000)"
  by (rule bandwidth_request_rounds_up [OF rfile.lms_regs_axioms]) simp

text \<open>C11: Each VGA gain set and read back is the requested gain clamped to the range of the stage,
  and, for RXVGA2, rounded down to a multiple of its 3 dB step.\<close>

theorem vga_gains_set_get:
  assumes "lms_regs dev reg gpio ok" "ok s"
  shows "(\<exists>t. seqE (lms_rxvga1_set_gain dev gain) (lms_rxvga1_get_gain dev) s =
            (Inr (max 5 (min 30 gain)), t)) \<and>
         (\<exists>t. seqE (lms_rxvga2_set_gain dev gain) (lms_rxvga2_get_gain dev) s =
            (Inr (3 * (max 0 (min 30 gain) div 3)), t)) \<and>
         (\<exists>t. seqE (lms_txvga1_set_gain dev gain) (lms_txvga1_get_gain dev) s =
            (Inr (max (-35) (min (-4) gain)), t)) \<and>
         (\<exists>t. seqE (lms_txvga2_set_gain dev gain) (lms_txvga2_get_gain dev) s =
            (Inr (max 0 (min 25 gain)), t))"
  using lms_regs.rxvga1_set_get_runs [OF assms] lms_regs.rxvga2_set_get_runs [OF assms]
    lms_regs.txvga1_set_get_runs [OF assms] lms_regs.txvga2_set_get_runs [OF assms] by blast

theorem vga_gains_set_get_witness:
  "(\<exists>t. seqE (lms_rxvga1_set_gain regfile_dev 17) (lms_rxvga1_get_gain regfile_dev) rf_blank =
            (Inr (max 5 (min 30 17)), t)) \<and>
   (\<exists>t. seqE (lms_rxvga2_set_gain regfile_dev 17) (lms_rxvga2_get_gain regfile_dev) rf_blank =
            (Inr (3 * (max 0 (min 30 17) div 3)), t)) \<and>
   (\<exists>t. seqE (lms_txvga1_set_gain regfile_dev 17) (lms_txvga1_get_gain regfile_dev) rf_blank =
            (Inr (max (-35) (min (-4) 17)), t)) \<and>
   (\<exists>t. seqE (lms_txvga2_set_gain regfile_dev 17) (lms_txvga2_get_gain regfile_dev) rf_blank =
            (Inr (max 0 (min 25 17)), t))"
  by (rule vga_gains_set_get [OF rfile.lms_regs_axioms]) simp

end
