(* ===== verification/Nios_Devices.thy ===== *)
theory Nios_Devices
  imports Lms_Dev
begin

text \<open>
  The device layer of the FPGA's soft processor: bladeRF_nios/src/devices.c, devices_inline.h and
  the macros of libbladeRF_nios_compat.h.  The cores behind the Avalon bus are the record
  \<open>bus\<close>: one operation for each access macro of the Altera headers, on a hardware state
  of any type.  The firmware state is that hardware state with the globals of devices.c and the
  interrupt table; the other firmware files extend the record with their own statics.  Polling
  loops are \<open>partial_function\<close>s: a core that never answers gives None.
\<close>

unbundle bit_operations_syntax

section \<open>The bus\<close>

datatype avalon_base =
  CONTROL_BASE | XB_GPIO_BASE | XB_GPIO_DIR_BASE
| IQ_CORR_RX_PHASE_GAIN_BASE | IQ_CORR_TX_PHASE_GAIN_BASE
| COMMAND_UART_BASE | LMS_SPI_BASE | OPENCORES_I2C_BASE
| RX_TAMER_BASE | TX_TAMER_BASE | VCTCXO_TAMER_0_BASE

text \<open>alt_avalon_spi_command(PERIPHERAL_SPI_BASE, slave, write_length, write_data, read_length,
  read_data, flags): the bytes written are the list, the flag is ALT_AVALON_SPI_COMMAND_MERGE, and
  the bytes read are a function of their index.\<close>

record 'h bus =
  bus_read8 :: "avalon_base \<Rightarrow> u8 \<Rightarrow> 'h \<Rightarrow> u8 \<times> 'h"
  bus_write8 :: "avalon_base \<Rightarrow> u8 \<Rightarrow> u8 \<Rightarrow> 'h \<Rightarrow> 'h"
  bus_write16 :: "avalon_base \<Rightarrow> u8 \<Rightarrow> u16 \<Rightarrow> 'h \<Rightarrow> 'h"
  bus_read32 :: "avalon_base \<Rightarrow> u8 \<Rightarrow> 'h \<Rightarrow> u32 \<times> 'h"
  bus_write32 :: "avalon_base \<Rightarrow> u8 \<Rightarrow> u32 \<Rightarrow> 'h \<Rightarrow> 'h"
  bus_spi :: "u32 \<Rightarrow> u8 list \<Rightarrow> nat \<Rightarrow> bool \<Rightarrow> 'h \<Rightarrow> (nat \<Rightarrow> u8) \<times> 'h"

datatype irq = COMMAND_UART_IRQ | VCTCXO_TAMER_0_IRQ | RX_TAMER_IRQ | TX_TAMER_IRQ
datatype isr = ISR_command_uart | ISR_vctcxo_tamer | ISR_retune_rx | ISR_retune_tx

record 'h nios_dev =
  nios_hw :: 'h
  nios_isr :: "irq \<Rightarrow> isr option"
  nios_irq_enabled :: "irq \<Rightarrow> bool"
  vctcxo_trim_dac_value :: u16
  vctcxo_tamer_ctrl_reg :: u8

definition on_hw :: "('h \<Rightarrow> 'a \<times> 'h) \<Rightarrow> (('h, 'z) nios_dev_scheme, 'a) st" where
  "on_hw f s = (case f (nios_hw s) of (x, h) \<Rightarrow> (x, s\<lparr>nios_hw := h\<rparr>))"

definition IORD_8DIRECT :: "'h bus \<Rightarrow> avalon_base \<Rightarrow> u8 \<Rightarrow> (('h, 'z) nios_dev_scheme, u8) st" where
  "IORD_8DIRECT bus base off = on_hw (bus_read8 bus base off)"

definition IOWR_8DIRECT :: "'h bus \<Rightarrow> avalon_base \<Rightarrow> u8 \<Rightarrow> u8 \<Rightarrow> (('h, 'z) nios_dev_scheme, unit) st" where
  "IOWR_8DIRECT bus base off data = on_hw (\<lambda>h. ((), bus_write8 bus base off data h))"

definition IOWR_16DIRECT :: "'h bus \<Rightarrow> avalon_base \<Rightarrow> u8 \<Rightarrow> u16 \<Rightarrow> (('h, 'z) nios_dev_scheme, unit) st" where
  "IOWR_16DIRECT bus base off data = on_hw (\<lambda>h. ((), bus_write16 bus base off data h))"

definition IORD_32DIRECT :: "'h bus \<Rightarrow> avalon_base \<Rightarrow> u8 \<Rightarrow> (('h, 'z) nios_dev_scheme, u32) st" where
  "IORD_32DIRECT bus base off = on_hw (bus_read32 bus base off)"

definition IOWR_32DIRECT :: "'h bus \<Rightarrow> avalon_base \<Rightarrow> u8 \<Rightarrow> u32 \<Rightarrow> (('h, 'z) nios_dev_scheme, unit) st" where
  "IOWR_32DIRECT bus base off data = on_hw (\<lambda>h. ((), bus_write32 bus base off data h))"

text \<open>The data register of a parallel port is its first word.\<close>

definition IORD_PIO_DATA :: "'h bus \<Rightarrow> avalon_base \<Rightarrow> (('h, 'z) nios_dev_scheme, u32) st" where
  "IORD_PIO_DATA bus base = IORD_32DIRECT bus base 0"

definition IOWR_PIO_DATA :: "'h bus \<Rightarrow> avalon_base \<Rightarrow> u32 \<Rightarrow> (('h, 'z) nios_dev_scheme, unit) st" where
  "IOWR_PIO_DATA bus base data = IOWR_32DIRECT bus base 0 data"

definition alt_avalon_spi_command ::
  "'h bus \<Rightarrow> u32 \<Rightarrow> u8 list \<Rightarrow> nat \<Rightarrow> bool \<Rightarrow> (('h, 'z) nios_dev_scheme, nat \<Rightarrow> u8) st" where
  "alt_avalon_spi_command bus slave out n merge = on_hw (bus_spi bus slave out n merge)"

definition alt_ic_isr_register :: "irq \<Rightarrow> isr \<Rightarrow> (('h, 'z) nios_dev_scheme, unit) st" where
  "alt_ic_isr_register i f = modifyS (\<lambda>s. s\<lparr>nios_isr := (nios_isr s)(i \<mapsto> f)\<rparr>)"

definition alt_ic_irq_enable :: "irq \<Rightarrow> (('h, 'z) nios_dev_scheme, unit) st" where
  "alt_ic_irq_enable i = modifyS (\<lambda>s. s\<lparr>nios_irq_enabled := (nios_irq_enabled s)(i := True)\<rparr>)"

section \<open>Parallel ports\<close>

definition control_reg_read :: "'h bus \<Rightarrow> (('h, 'z) nios_dev_scheme, u32) st" where
  "control_reg_read bus = IORD_PIO_DATA bus CONTROL_BASE"

definition control_reg_write :: "'h bus \<Rightarrow> u32 \<Rightarrow> (('h, 'z) nios_dev_scheme, unit) st" where
  "control_reg_write bus val = IOWR_PIO_DATA bus CONTROL_BASE val"

definition expansion_port_read :: "'h bus \<Rightarrow> (('h, 'z) nios_dev_scheme, u32) st" where
  "expansion_port_read bus = IORD_PIO_DATA bus XB_GPIO_BASE"

definition expansion_port_write :: "'h bus \<Rightarrow> u32 \<Rightarrow> (('h, 'z) nios_dev_scheme, unit) st" where
  "expansion_port_write bus val = IOWR_PIO_DATA bus XB_GPIO_BASE val"

definition expansion_port_get_direction :: "'h bus \<Rightarrow> (('h, 'z) nios_dev_scheme, u32) st" where
  "expansion_port_get_direction bus = IORD_PIO_DATA bus XB_GPIO_DIR_BASE"

definition expansion_port_set_direction :: "'h bus \<Rightarrow> u32 \<Rightarrow> (('h, 'z) nios_dev_scheme, unit) st" where
  "expansion_port_set_direction bus dir = IOWR_PIO_DATA bus XB_GPIO_DIR_BASE dir"

section \<open>The command UART\<close>

definition command_uart_enable_isr :: "'h bus \<Rightarrow> bool \<Rightarrow> (('h, 'z) nios_dev_scheme, unit) st" where
  "command_uart_enable_isr bus enable =
     IOWR_32DIRECT bus COMMAND_UART_BASE 16 (if enable then 1 else 0)"

definition uart_word_bytes :: "u32 \<Rightarrow> bytes" where
  "uart_word_bytes val = [ucast (val AND 0xff), ucast (drop_bit 8 val AND 0xff),
     ucast (drop_bit 8 (drop_bit 8 val) AND 0xff),
     ucast (drop_bit 8 (drop_bit 8 (drop_bit 8 val)) AND 0xff)]"

definition command_uart_read_request :: "'h bus \<Rightarrow> (('h, 'z) nios_dev_scheme, bytes) st" where
  "command_uart_read_request bus =
     bindS (IORD_32DIRECT bus COMMAND_UART_BASE 0) (\<lambda>v0.
     bindS (IORD_32DIRECT bus COMMAND_UART_BASE 4) (\<lambda>v1.
     bindS (IORD_32DIRECT bus COMMAND_UART_BASE 8) (\<lambda>v2.
     bindS (IORD_32DIRECT bus COMMAND_UART_BASE 12) (\<lambda>v3.
     returnS (uart_word_bytes v0 @ uart_word_bytes v1 @ uart_word_bytes v2 @ uart_word_bytes v3)))))"

definition uart_word :: "bytes \<Rightarrow> nat \<Rightarrow> u32" where
  "uart_word resp i = ucast (resp ! (i + 0)) OR push_bit 8 (ucast (resp ! (i + 1)))
     OR push_bit 16 (ucast (resp ! (i + 2))) OR push_bit 24 (ucast (resp ! (i + 3)))"

definition command_uart_write_response :: "'h bus \<Rightarrow> bytes \<Rightarrow> (('h, 'z) nios_dev_scheme, unit) st" where
  "command_uart_write_response bus resp =
     seqS (IOWR_32DIRECT bus COMMAND_UART_BASE 0 (uart_word resp 0))
     (seqS (IOWR_32DIRECT bus COMMAND_UART_BASE 4 (uart_word resp 4))
     (seqS (IOWR_32DIRECT bus COMMAND_UART_BASE 8 (uart_word resp 8))
     (IOWR_32DIRECT bus COMMAND_UART_BASE 12 (uart_word resp 12))))"

section \<open>The VCTCXO tamer\<close>

abbreviation (input) VT_CTRL_ADDR :: u8 where "VT_CTRL_ADDR \<equiv> 0x00"
abbreviation (input) VT_STAT_ADDR :: u8 where "VT_STAT_ADDR \<equiv> 0x01"
abbreviation (input) VT_ERR_1S_ADDR :: u8 where "VT_ERR_1S_ADDR \<equiv> 0x04"
abbreviation (input) VT_ERR_10S_ADDR :: u8 where "VT_ERR_10S_ADDR \<equiv> 0x0C"
abbreviation (input) VT_ERR_100S_ADDR :: u8 where "VT_ERR_100S_ADDR \<equiv> 0x14"
abbreviation (input) VT_CTRL_RESET :: u8 where "VT_CTRL_RESET \<equiv> 0x01"
abbreviation (input) VT_CTRL_IRQ_EN :: u8 where "VT_CTRL_IRQ_EN \<equiv> 0x10"
abbreviation (input) VT_CTRL_IRQ_CLR :: u8 where "VT_CTRL_IRQ_CLR \<equiv> 0x20"
abbreviation (input) VT_CTRL_TUNE_MODE :: u8 where "VT_CTRL_TUNE_MODE \<equiv> 0xC0"
abbreviation (input) VT_STAT_ERR_1S :: u8 where "VT_STAT_ERR_1S \<equiv> 0x01"
abbreviation (input) VT_STAT_ERR_10S :: u8 where "VT_STAT_ERR_10S \<equiv> 0x02"
abbreviation (input) VT_STAT_ERR_100S :: u8 where "VT_STAT_ERR_100S \<equiv> 0x04"

definition vctcxo_tamer_read :: "'h bus \<Rightarrow> u8 \<Rightarrow> (('h, 'z) nios_dev_scheme, u8) st" where
  "vctcxo_tamer_read bus addr = IORD_8DIRECT bus VCTCXO_TAMER_0_BASE addr"

definition vctcxo_tamer_write :: "'h bus \<Rightarrow> u8 \<Rightarrow> u8 \<Rightarrow> (('h, 'z) nios_dev_scheme, unit) st" where
  "vctcxo_tamer_write bus addr data = IOWR_8DIRECT bus VCTCXO_TAMER_0_BASE addr data"

text \<open>The cached control register is changed first and then written out.\<close>

definition tamer_ctrl :: "'h bus \<Rightarrow> (u8 \<Rightarrow> u8) \<Rightarrow> (('h, 'z) nios_dev_scheme, unit) st" where
  "tamer_ctrl bus f =
     seqS (modifyS (\<lambda>s. s\<lparr>vctcxo_tamer_ctrl_reg := f (vctcxo_tamer_ctrl_reg s)\<rparr>))
     (bindS (getS vctcxo_tamer_ctrl_reg) (\<lambda>r. vctcxo_tamer_write bus VT_CTRL_ADDR r))"

definition vctcxo_tamer_enable_isr :: "'h bus \<Rightarrow> bool \<Rightarrow> (('h, 'z) nios_dev_scheme, unit) st" where
  "vctcxo_tamer_enable_isr bus enable =
     tamer_ctrl bus (\<lambda>r. if enable then r OR VT_CTRL_IRQ_EN else r AND NOT VT_CTRL_IRQ_EN)"

definition vctcxo_tamer_clear_isr :: "'h bus \<Rightarrow> (('h, 'z) nios_dev_scheme, unit) st" where
  "vctcxo_tamer_clear_isr bus =
     bindS (getS vctcxo_tamer_ctrl_reg) (\<lambda>r. vctcxo_tamer_write bus VT_CTRL_ADDR (r OR VT_CTRL_IRQ_CLR))"

definition vctcxo_tamer_reset_counters :: "'h bus \<Rightarrow> bool \<Rightarrow> (('h, 'z) nios_dev_scheme, unit) st" where
  "vctcxo_tamer_reset_counters bus reset =
     tamer_ctrl bus (\<lambda>r. if reset then r OR VT_CTRL_RESET else r AND NOT VT_CTRL_RESET)"

text \<open>bladerf_vctcxo_tamer_mode is an enum that the host fills in from a byte: an int.\<close>

abbreviation (input) BLADERF_VCTCXO_TAMER_INVALID :: int where "BLADERF_VCTCXO_TAMER_INVALID \<equiv> -1"
abbreviation (input) BLADERF_VCTCXO_TAMER_DISABLED :: int where "BLADERF_VCTCXO_TAMER_DISABLED \<equiv> 0"
abbreviation (input) BLADERF_VCTCXO_TAMER_1_PPS :: int where "BLADERF_VCTCXO_TAMER_1_PPS \<equiv> 1"
abbreviation (input) BLADERF_VCTCXO_TAMER_10_MHZ :: int where "BLADERF_VCTCXO_TAMER_10_MHZ \<equiv> 2"

definition vctcxo_tamer_set_tune_mode :: "'h bus \<Rightarrow> int \<Rightarrow> (('h, 'z) nios_dev_scheme, unit) st" where
  "vctcxo_tamer_set_tune_mode bus mode =
     (if mode \<in> {BLADERF_VCTCXO_TAMER_DISABLED, BLADERF_VCTCXO_TAMER_1_PPS, BLADERF_VCTCXO_TAMER_10_MHZ}
      then
        seqS (vctcxo_tamer_enable_isr bus False)
        (seqS (tamer_ctrl bus (\<lambda>r. (r AND NOT VT_CTRL_TUNE_MODE) OR push_bit 6 (word_of_int mode)))
        (seqS (vctcxo_tamer_reset_counters bus True)
        (seqS (if mode \<noteq> 0x00 then vctcxo_tamer_reset_counters bus False else returnS ())
        (if mode \<in> {BLADERF_VCTCXO_TAMER_1_PPS, BLADERF_VCTCXO_TAMER_10_MHZ}
         then vctcxo_tamer_enable_isr bus True else returnS ()))))
      else returnS ())"

definition vctcxo_tamer_get_tune_mode :: "'h bus \<Rightarrow> (('h, 'z) nios_dev_scheme, int) st" where
  "vctcxo_tamer_get_tune_mode bus =
     bindS (vctcxo_tamer_read bus VT_CTRL_ADDR) (\<lambda>tmp.
     let tmp = uint (drop_bit 6 (tmp AND VT_CTRL_TUNE_MODE)) in
     returnS (if tmp \<in> {BLADERF_VCTCXO_TAMER_DISABLED, BLADERF_VCTCXO_TAMER_1_PPS, BLADERF_VCTCXO_TAMER_10_MHZ}
              then tmp else BLADERF_VCTCXO_TAMER_INVALID))"

definition vctcxo_tamer_read_count :: "'h bus \<Rightarrow> u8 \<Rightarrow> (('h, 'z) nios_dev_scheme, u32) st" where
  "vctcxo_tamer_read_count bus addr =
     bindS (IORD_8DIRECT bus VCTCXO_TAMER_0_BASE addr) (\<lambda>b0.
     bindS (IORD_8DIRECT bus VCTCXO_TAMER_0_BASE (addr + 1)) (\<lambda>b1.
     bindS (IORD_8DIRECT bus VCTCXO_TAMER_0_BASE (addr + 2)) (\<lambda>b2.
     bindS (IORD_8DIRECT bus VCTCXO_TAMER_0_BASE (addr + 3)) (\<lambda>b3.
     returnS (ucast b0 OR push_bit 8 (ucast b1) OR push_bit 16 (ucast b2) OR push_bit 24 (ucast b3))))))"

section \<open>The time tamers\<close>

definition tamer_base :: "bladerf_module \<Rightarrow> avalon_base" where
  "tamer_base m = (if m = BLADERF_MODULE_RX then RX_TAMER_BASE else TX_TAMER_BASE)"

text \<open>The last byte is taken from bit 54 on, as in the source.\<close>

definition tamer_schedule :: "'h bus \<Rightarrow> bladerf_module \<Rightarrow> u64 \<Rightarrow> (('h, 'z) nios_dev_scheme, unit) st" where
  "tamer_schedule bus m time =
     (let base = tamer_base m in
      seqS (IOWR_8DIRECT bus base 0 (ucast (drop_bit 0 time AND 0xff)))
      (seqS (IOWR_8DIRECT bus base 1 (ucast (drop_bit 8 time AND 0xff)))
      (seqS (IOWR_8DIRECT bus base 2 (ucast (drop_bit 16 time AND 0xff)))
      (seqS (IOWR_8DIRECT bus base 3 (ucast (drop_bit 24 time AND 0xff)))
      (seqS (IOWR_8DIRECT bus base 4 (ucast (drop_bit 32 time AND 0xff)))
      (seqS (IOWR_8DIRECT bus base 5 (ucast (drop_bit 40 time AND 0xff)))
      (seqS (IOWR_8DIRECT bus base 6 (ucast (drop_bit 48 time AND 0xff)))
      (seqS (IOWR_8DIRECT bus base 7 (ucast (drop_bit 54 time AND 0xff)))
      (IOWR_8DIRECT bus base 8 0)))))))))"

definition time_tamer_read :: "'h bus \<Rightarrow> bladerf_module \<Rightarrow> (('h, 'z) nios_dev_scheme, u64) st" where
  "time_tamer_read bus m =
     (let base = tamer_base m in
      bindS (IORD_8DIRECT bus base 0) (\<lambda>b0.
      bindS (IORD_8DIRECT bus base 1) (\<lambda>b1.
      bindS (IORD_8DIRECT bus base 2) (\<lambda>b2.
      bindS (IORD_8DIRECT bus base 3) (\<lambda>b3.
      bindS (IORD_8DIRECT bus base 4) (\<lambda>b4.
      bindS (IORD_8DIRECT bus base 5) (\<lambda>b5.
      bindS (IORD_8DIRECT bus base 6) (\<lambda>b6.
      bindS (IORD_8DIRECT bus base 7) (\<lambda>b7.
      returnS (ucast b0 OR push_bit 8 (ucast b1) OR push_bit 16 (ucast b2) OR push_bit 24 (ucast b3)
        OR push_bit 32 (ucast b4) OR push_bit 40 (ucast b5) OR push_bit 48 (ucast b6)
        OR push_bit 56 (ucast b7)))))))))))"

definition time_tamer_reset :: "'h bus \<Rightarrow> bladerf_module \<Rightarrow> (('h, 'z) nios_dev_scheme, unit) st" where
  "time_tamer_reset bus m = IOWR_8DIRECT bus (tamer_base m) 0 0"

definition timer_tamer_clear_interrupt :: "'h bus \<Rightarrow> bladerf_module \<Rightarrow> (('h, 'z) nios_dev_scheme, unit) st" where
  "timer_tamer_clear_interrupt bus m = IOWR_8DIRECT bus (tamer_base m) 8 1"

section \<open>The RF chip\<close>

definition lms6_read :: "'h bus \<Rightarrow> u8 \<Rightarrow> (('h, 'z) nios_dev_scheme, u8) st" where
  "lms6_read bus addr = IORD_8DIRECT bus LMS_SPI_BASE addr"

definition lms6_write :: "'h bus \<Rightarrow> u8 \<Rightarrow> u8 \<Rightarrow> (('h, 'z) nios_dev_scheme, unit) st" where
  "lms6_write bus addr data = IOWR_8DIRECT bus LMS_SPI_BASE addr data"

text \<open>LMS_READ, LMS_WRITE, CONFIG_GPIO_READ and CONFIG_GPIO_WRITE of the firmware build: the
  status is always 0, and the multi-register write is always used.\<close>

definition nios_lms :: "'h bus \<Rightarrow> ('h, 'z) nios_dev_scheme lms_dev" where
  "nios_lms bus =
    \<lparr> dev_lms_read = (\<lambda>addr s. case lms6_read bus addr s of (data, t) \<Rightarrow> ((0, data), t)),
      dev_lms_write = (\<lambda>addr data s. case lms6_write bus addr data s of (_, t) \<Rightarrow> (0, t)),
      dev_gpio_read = (\<lambda>s. case control_reg_read bus s of (data, t) \<Rightarrow> ((0, data), t)),
      dev_gpio_write = (\<lambda>data s. case control_reg_write bus data s of (_, t) \<Rightarrow> (0, t)),
      dev_atomic_pll = True \<rparr>"

section \<open>The clock generator\<close>

abbreviation (input) OC_I2C_PRESCALER :: u8 where "OC_I2C_PRESCALER \<equiv> 0"
abbreviation (input) OC_I2C_CTRL :: u8 where "OC_I2C_CTRL \<equiv> 2"
abbreviation (input) OC_I2C_DATA :: u8 where "OC_I2C_DATA \<equiv> 3"
abbreviation (input) OC_I2C_CMD_STATUS :: u8 where "OC_I2C_CMD_STATUS \<equiv> 4"
abbreviation (input) SI5338_I2C :: u8 where "SI5338_I2C \<equiv> 0xE0"
abbreviation (input) OC_I2C_ENABLE :: u8 where "OC_I2C_ENABLE \<equiv> 0x80"
abbreviation (input) OC_I2C_STA :: u8 where "OC_I2C_STA \<equiv> 0x80"
abbreviation (input) OC_I2C_STO :: u8 where "OC_I2C_STO \<equiv> 0x40"
abbreviation (input) OC_I2C_WR :: u8 where "OC_I2C_WR \<equiv> 0x10"
abbreviation (input) OC_I2C_RD :: u8 where "OC_I2C_RD \<equiv> 0x20"
abbreviation (input) OC_I2C_TIP :: u8 where "OC_I2C_TIP \<equiv> 0x02"
abbreviation (input) OC_I2C_RXACK :: u8 where "OC_I2C_RXACK \<equiv> 0x80"
abbreviation (input) OC_I2C_NACK :: u8 where "OC_I2C_NACK \<equiv> 0x08"

partial_function (option) poll_while :: "('s, bool) st \<Rightarrow> ('s, unit) fw" where
  "poll_while c s = (case c s of (b, t) \<Rightarrow> if b then poll_while c t else Some ((), t))"

definition i2c_status :: "'h bus \<Rightarrow> (u8 \<Rightarrow> bool) \<Rightarrow> (('h, 'z) nios_dev_scheme, bool) st" where
  "i2c_status bus p =
     bindS (IORD_8DIRECT bus OPENCORES_I2C_BASE OC_I2C_CMD_STATUS) (\<lambda>v. returnS (p v))"

definition si5338_complete_transfer :: "'h bus \<Rightarrow> bool \<Rightarrow> (('h, 'z) nios_dev_scheme, unit) fw" where
  "si5338_complete_transfer bus check_rxack =
     bindF (liftF (i2c_status bus (\<lambda>v. v AND OC_I2C_TIP = 0))) (\<lambda>idle.
     seqF (if idle then poll_while (i2c_status bus (\<lambda>v. v AND OC_I2C_TIP = 0)) else returnF ())
     (seqF (poll_while (i2c_status bus (\<lambda>v. v AND OC_I2C_TIP \<noteq> 0)))
     (if check_rxack then poll_while (i2c_status bus (\<lambda>v. v AND OC_I2C_RXACK \<noteq> 0)) else returnF ())))"

definition i2c_write :: "'h bus \<Rightarrow> u8 \<Rightarrow> u8 \<Rightarrow> (('h, 'z) nios_dev_scheme, unit) fw" where
  "i2c_write bus off data = liftF (IOWR_8DIRECT bus OPENCORES_I2C_BASE off data)"

definition si5338_read :: "'h bus \<Rightarrow> u8 \<Rightarrow> (('h, 'z) nios_dev_scheme, u8) fw" where
  "si5338_read bus addr =
     seqF (i2c_write bus OC_I2C_DATA SI5338_I2C)
     (seqF (i2c_write bus OC_I2C_CMD_STATUS (OC_I2C_STA OR OC_I2C_WR))
     (seqF (si5338_complete_transfer bus True)
     (seqF (i2c_write bus OC_I2C_DATA addr)
     (seqF (i2c_write bus OC_I2C_CMD_STATUS (OC_I2C_WR OR OC_I2C_STO))
     (seqF (si5338_complete_transfer bus True)
     (seqF (i2c_write bus OC_I2C_DATA (SI5338_I2C OR 1))
     (seqF (i2c_write bus OC_I2C_CMD_STATUS (OC_I2C_STA OR OC_I2C_WR))
     (seqF (si5338_complete_transfer bus True)
     (seqF (i2c_write bus OC_I2C_CMD_STATUS (OC_I2C_RD OR OC_I2C_NACK OR OC_I2C_STO))
     (seqF (si5338_complete_transfer bus False)
     (liftF (IORD_8DIRECT bus OPENCORES_I2C_BASE OC_I2C_DATA))))))))))))"

text \<open>The command of the second byte ORs the offset of the command register into the command, as in
  the source.\<close>

definition si5338_write :: "'h bus \<Rightarrow> u8 \<Rightarrow> u8 \<Rightarrow> (('h, 'z) nios_dev_scheme, unit) fw" where
  "si5338_write bus addr data =
     seqF (i2c_write bus OC_I2C_DATA SI5338_I2C)
     (seqF (i2c_write bus OC_I2C_CMD_STATUS (OC_I2C_STA OR OC_I2C_WR))
     (seqF (si5338_complete_transfer bus True)
     (seqF (i2c_write bus OC_I2C_DATA addr)
     (seqF (i2c_write bus OC_I2C_CMD_STATUS (OC_I2C_CMD_STATUS OR OC_I2C_WR))
     (seqF (si5338_complete_transfer bus True)
     (seqF (i2c_write bus OC_I2C_DATA data)
     (seqF (i2c_write bus OC_I2C_CMD_STATUS (OC_I2C_WR OR OC_I2C_STO))
     (si5338_complete_transfer bus False))))))))"

section \<open>The trim DAC and the synthesizer\<close>

definition vctcxo_trim_dac_write :: "'h bus \<Rightarrow> u8 \<Rightarrow> u16 \<Rightarrow> (('h, 'z) nios_dev_scheme, unit) st" where
  "vctcxo_trim_dac_write bus cmd val =
     seqS (modifyS (\<lambda>s. s\<lparr>vctcxo_trim_dac_value := val\<rparr>))
     (bindS (alt_avalon_spi_command bus 0
               [cmd, ucast (drop_bit 8 val AND 0xff), ucast (val AND 0xff)] 0 False)
        (\<lambda>_. returnS ()))"

definition vctcxo_trim_dac_read :: "'h bus \<Rightarrow> u8 \<Rightarrow> (('h, 'z) nios_dev_scheme, u16) st" where
  "vctcxo_trim_dac_read bus cmd =
     seqS (alt_avalon_spi_command bus 0 [cmd] 0 True)
     (bindS (alt_avalon_spi_command bus 0 [] 2 False) (\<lambda>data.
      returnS (push_bit 8 (ucast (data 0)) OR ucast (data 1))))"

text \<open>The processor is little-endian; the bytes of the word are swapped before they are sent.\<close>

definition adf4351_write :: "'h bus \<Rightarrow> u32 \<Rightarrow> (('h, 'z) nios_dev_scheme, unit) st" where
  "adf4351_write bus val =
     (let sval = [ucast val :: u8, ucast (drop_bit 8 val), ucast (drop_bit 16 val), ucast (drop_bit 24 val)];
          sval = sval[0 := sval ! 3, 3 := sval ! 0];
          sval = sval[1 := sval ! 2, 2 := sval ! 1] in
      bindS (alt_avalon_spi_command bus 1 sval 0 False) (\<lambda>_. returnS ()))"

section \<open>IQ correction\<close>

definition module_to_iqcorr_base :: "bladerf_module \<Rightarrow> avalon_base" where
  "module_to_iqcorr_base m =
     (if m = BLADERF_MODULE_RX then IQ_CORR_RX_PHASE_GAIN_BASE else IQ_CORR_TX_PHASE_GAIN_BASE)"

definition iqbal_get_gain :: "'h bus \<Rightarrow> bladerf_module \<Rightarrow> (('h, 'z) nios_dev_scheme, u16) st" where
  "iqbal_get_gain bus m =
     bindS (IORD_PIO_DATA bus (module_to_iqcorr_base m)) (\<lambda>regval. returnS (ucast regval))"

definition iqbal_set_gain :: "'h bus \<Rightarrow> bladerf_module \<Rightarrow> u16 \<Rightarrow> (('h, 'z) nios_dev_scheme, unit) st" where
  "iqbal_set_gain bus m val =
     bindS (IORD_PIO_DATA bus (module_to_iqcorr_base m)) (\<lambda>regval.
     IOWR_PIO_DATA bus (module_to_iqcorr_base m) ((regval AND 0xffff0000) OR ucast val))"

definition iqbal_get_phase :: "'h bus \<Rightarrow> bladerf_module \<Rightarrow> (('h, 'z) nios_dev_scheme, u16) st" where
  "iqbal_get_phase bus m =
     bindS (if m = BLADERF_MODULE_RX then IORD_PIO_DATA bus IQ_CORR_RX_PHASE_GAIN_BASE
            else IORD_PIO_DATA bus IQ_CORR_TX_PHASE_GAIN_BASE) (\<lambda>regval.
     returnS (ucast (drop_bit 16 regval)))"

definition iqbal_set_phase :: "'h bus \<Rightarrow> bladerf_module \<Rightarrow> u16 \<Rightarrow> (('h, 'z) nios_dev_scheme, unit) st" where
  "iqbal_set_phase bus m val =
     bindS (IORD_PIO_DATA bus (module_to_iqcorr_base m)) (\<lambda>regval.
     IOWR_PIO_DATA bus (module_to_iqcorr_base m) ((regval AND 0x0000ffff) OR push_bit 16 (ucast val)))"

section \<open>Initialisation\<close>

abbreviation (input) DEFAULT_CORRECTION :: u32 where "DEFAULT_CORRECTION \<equiv> 0x1000"

definition bladerf_nios_init :: "'h bus \<Rightarrow> (('h, 'z) nios_dev_scheme, unit) st" where
  "bladerf_nios_init bus =
     seqS (IOWR_16DIRECT bus OPENCORES_I2C_BASE OC_I2C_PRESCALER 39)
     (seqS (IOWR_8DIRECT bus OPENCORES_I2C_BASE OC_I2C_CTRL OC_I2C_ENABLE)
     (seqS (IOWR_PIO_DATA bus IQ_CORR_RX_PHASE_GAIN_BASE DEFAULT_CORRECTION)
     (seqS (IOWR_PIO_DATA bus IQ_CORR_TX_PHASE_GAIN_BASE DEFAULT_CORRECTION)
     (seqS (alt_ic_isr_register COMMAND_UART_IRQ ISR_command_uart)
     (seqS (alt_ic_isr_register VCTCXO_TAMER_0_IRQ ISR_vctcxo_tamer)
     (seqS (vctcxo_tamer_set_tune_mode bus BLADERF_VCTCXO_TAMER_DISABLED)
     (seqS (command_uart_enable_isr bus True)
     (seqS (alt_ic_irq_enable COMMAND_UART_IRQ)
     (alt_ic_irq_enable VCTCXO_TAMER_0_IRQ)))))))))"

text \<open>The result of an interrupt of the VCTCXO tamer.\<close>

record vctcxo_tamer_pkt_buf =
  vt_ready :: bool
  vt_pps_1s_error :: u32
  vt_pps_1s_error_flag :: bool
  vt_pps_10s_error :: u32
  vt_pps_10s_error_flag :: bool
  vt_pps_100s_error :: u32
  vt_pps_100s_error_flag :: bool

definition vctcxo_tamer_isr ::
  "'h bus \<Rightarrow> (('h, 'z) nios_dev_scheme, vctcxo_tamer_pkt_buf) st" where
  "vctcxo_tamer_isr bus =
     seqS (vctcxo_tamer_enable_isr bus False)
     (seqS (vctcxo_tamer_reset_counters bus True)
     (bindS (vctcxo_tamer_read_count bus VT_ERR_1S_ADDR) (\<lambda>e1.
      bindS (vctcxo_tamer_read_count bus VT_ERR_10S_ADDR) (\<lambda>e10.
      bindS (vctcxo_tamer_read_count bus VT_ERR_100S_ADDR) (\<lambda>e100.
      bindS (vctcxo_tamer_read bus VT_STAT_ADDR) (\<lambda>error_status.
      seqS (vctcxo_tamer_clear_isr bus)
      (returnS \<lparr> vt_ready = True,
         vt_pps_1s_error = e1, vt_pps_1s_error_flag = (error_status AND VT_STAT_ERR_1S \<noteq> 0),
         vt_pps_10s_error = e10, vt_pps_10s_error_flag = (error_status AND VT_STAT_ERR_10S \<noteq> 0),
         vt_pps_100s_error = e100, vt_pps_100s_error_flag = (error_status AND VT_STAT_ERR_100S \<noteq> 0) \<rparr>)))))))"

end
