(* ===== verification/Nios_Board.thy ===== *)
theory Nios_Board
  imports Nios_Devices
begin

text \<open>
  A board for the firmware to run on, at the level of bus transactions.  The LMS6 SPI controller
  and the time tamer follow the VHDL of hdl/fpga/ip/nuand (lms6_spi_controller.vhd, time_tamer.vhd);
  the parallel ports are registers; the RF chip is a register file whose status registers and
  whose reset values are arbitrary functions in its state; the I2C core and the VCTCXO counters,
  whose code is not in the repository or runs in other clock domains, answer from functions of
  time.  The firmware's device handle on this board keeps the laws of \<open>lms_regs\<close> and
  \<open>lms_pll\<close>: writes to the multi-write addresses 0x90 to 0x93 and 0xA0 to 0xA3 are
  collected and sent together with the last of them.
\<close>

unbundle bit_operations_syntax

section \<open>The RF chip behind its SPI port\<close>

record lms_chip =
  chip_reg :: "u8 \<Rightarrow> u8"
  chip_default :: "u8 \<Rightarrow> u8"
  chip_sense :: "(u8 \<Rightarrow> u8) \<Rightarrow> nat \<Rightarrow> u8 \<Rightarrow> u8"
  chip_time :: nat

definition chip_read :: "u8 \<Rightarrow> lms_chip \<Rightarrow> u8 \<times> lms_chip" where
  "chip_read a c =
     (if lms_volatile a then chip_sense c (chip_reg c) (chip_time c) a else chip_reg c a,
      c\<lparr>chip_time := Suc (chip_time c)\<rparr>)"

definition chip_write :: "u8 \<Rightarrow> u8 \<Rightarrow> lms_chip \<Rightarrow> lms_chip" where
  "chip_write a d c =
     c\<lparr>chip_reg := (if lms_resets a d then chip_default c else chip_reg c)(a := d),
       chip_time := Suc (chip_time c)\<rparr>"

text \<open>A message: write flag, seven address bits, data.\<close>

type_synonym spi_msg = "bool \<times> u8 \<times> u8"

definition chip_msg :: "spi_msg \<Rightarrow> u8 \<times> lms_chip \<Rightarrow> u8 \<times> lms_chip" where
  "chip_msg msg ic = (case msg of (w, a, d) \<Rightarrow>
     (if w then (0, chip_write a d (snd ic)) else chip_read a (snd ic)))"

section \<open>The SPI controller\<close>

text \<open>shift_out_reg holds up to four messages, the latest at the front; shift_in_reg the last byte
  received.\<close>

record spi_controller =
  shift_out_reg :: "spi_msg list"
  shift_in_reg :: u8
  spi_chip :: lms_chip

definition spi_queued :: "u8 \<Rightarrow> bool" where
  "spi_queued a \<longleftrightarrow> a \<in> {0x90, 0x91, 0x92, 0xA0, 0xA1, 0xA2}"

definition spi_burst :: "u8 \<Rightarrow> bool" where
  "spi_burst a \<longleftrightarrow> a \<in> {0x93, 0xA3}"

definition NUM_PLL_REGS :: nat where
  "NUM_PLL_REGS = 4"

definition spi_shift :: "nat \<Rightarrow> spi_controller \<Rightarrow> spi_controller" where
  "spi_shift n c =
     (case fold chip_msg (take n (shift_out_reg c)) (shift_in_reg c, spi_chip c) of (d, chip) \<Rightarrow>
        c\<lparr>shift_out_reg := drop n (shift_out_reg c) @ replicate n (False, 0, 0),
          shift_in_reg := d, spi_chip := chip\<rparr>)"

definition spi_access :: "bool \<Rightarrow> u8 \<Rightarrow> u8 \<Rightarrow> spi_controller \<Rightarrow> spi_controller" where
  "spi_access write addr din c =
     (let c = c\<lparr>shift_out_reg := (write, addr AND 0x7f, din) # take (NUM_PLL_REGS - 1) (shift_out_reg c)\<rparr> in
      if spi_queued addr then c
      else spi_shift (if spi_burst addr then NUM_PLL_REGS else 1) c)"

section \<open>The time tamer\<close>

text \<open>The compare process and the interrupt process together: not armed, waiting for the latched
  compare time, and interrupt pending.  The handshakes between the two clock domains are taken as
  done.\<close>

datatype tamer_fsm = WAIT_FOR_ARM | WAIT_FOR_COMPARE u64 | WAIT_FOR_INTR_CLEAR

record time_tamer =
  tt_timestamp :: u64
  tt_snap_time :: u64
  tt_hold_time :: u64
  tt_fsm :: tamer_fsm
  tt_status_past :: bool

definition set_byte :: "nat \<Rightarrow> u8 \<Rightarrow> u64 \<Rightarrow> u64" where
  "set_byte i d w = (w AND NOT (push_bit (8 * i) 0xff)) OR push_bit (8 * i) (ucast d)"

definition get_byte :: "nat \<Rightarrow> u64 \<Rightarrow> u8" where
  "get_byte i w = ucast (drop_bit (8 * i) w)"

definition tamer_mm_read :: "u8 \<Rightarrow> time_tamer \<Rightarrow> u8 \<times> time_tamer" where
  "tamer_mm_read off t =
     (let t = (if off = 0 then t\<lparr>tt_snap_time := tt_timestamp t\<rparr> else t) in
      (if off < 8 then get_byte (unat off) (tt_snap_time t)
       else if off = 9 then (if tt_status_past t then 1 else 0) else 0x13, t))"

text \<open>Arming has an effect only when nothing is armed or pending.\<close>

definition tamer_mm_write :: "u8 \<Rightarrow> u8 \<Rightarrow> time_tamer \<Rightarrow> time_tamer" where
  "tamer_mm_write off d t =
     (if off < 8 then t\<lparr>tt_hold_time := set_byte (unat off) d (tt_hold_time t)\<rparr>
      else if off = 8 \<and> d = 0 \<and> tt_fsm t = WAIT_FOR_ARM then
        t\<lparr>tt_fsm := (if tt_hold_time t < tt_timestamp t then WAIT_FOR_INTR_CLEAR
                      else WAIT_FOR_COMPARE (tt_hold_time t)),
          tt_status_past := (tt_hold_time t < tt_timestamp t)\<rparr>
      else if off = 8 \<and> d = 1 \<and> tt_fsm t = WAIT_FOR_INTR_CLEAR
      then t\<lparr>tt_fsm := WAIT_FOR_ARM, tt_status_past := False\<rparr>
      else t)"

definition tamer_tick :: "time_tamer \<Rightarrow> time_tamer" where
  "tamer_tick t =
     (case tt_fsm t of
        WAIT_FOR_COMPARE c \<Rightarrow>
          t\<lparr>tt_timestamp := tt_timestamp t + 1,
            tt_fsm := (if c \<le> tt_timestamp t + 1 then WAIT_FOR_INTR_CLEAR else WAIT_FOR_COMPARE c)\<rparr>
      | _ \<Rightarrow> t\<lparr>tt_timestamp := tt_timestamp t + 1\<rparr>)"

definition tamer_intr :: "time_tamer \<Rightarrow> bool" where
  "tamer_intr t \<longleftrightarrow> tt_fsm t = WAIT_FOR_INTR_CLEAR"

section \<open>The board\<close>

record board =
  bd_pio :: "avalon_base \<Rightarrow> u32"
  bd_lms :: spi_controller
  bd_rx_tamer :: time_tamer
  bd_tx_tamer :: time_tamer
  bd_uart_req :: "u8 \<Rightarrow> u32"
  bd_uart_resp :: "u8 \<Rightarrow> u32"
  bd_vctcxo_ctrl :: u8
  bd_vctcxo_regs :: "nat \<Rightarrow> u8 \<Rightarrow> u8"
  bd_i2c :: "nat \<Rightarrow> u8 \<Rightarrow> u8"
  bd_i2c_log :: "(u8 \<times> u16) list"
  bd_spi_log :: "(u32 \<times> bytes) list"
  bd_dac :: "nat \<Rightarrow> u8"
  bd_time :: nat

definition board_read8 :: "avalon_base \<Rightarrow> u8 \<Rightarrow> board \<Rightarrow> u8 \<times> board" where
  "board_read8 base off b =
     (case base of
        LMS_SPI_BASE \<Rightarrow>
          (let c = spi_access False off 0 (bd_lms b) in (shift_in_reg c, b\<lparr>bd_lms := c\<rparr>))
      | RX_TAMER_BASE \<Rightarrow> (case tamer_mm_read off (bd_rx_tamer b) of (d, t) \<Rightarrow> (d, b\<lparr>bd_rx_tamer := t\<rparr>))
      | TX_TAMER_BASE \<Rightarrow> (case tamer_mm_read off (bd_tx_tamer b) of (d, t) \<Rightarrow> (d, b\<lparr>bd_tx_tamer := t\<rparr>))
      | VCTCXO_TAMER_0_BASE \<Rightarrow>
          (if off = 0 then bd_vctcxo_ctrl b else bd_vctcxo_regs b (bd_time b) off,
           b\<lparr>bd_time := Suc (bd_time b)\<rparr>)
      | OPENCORES_I2C_BASE \<Rightarrow> (bd_i2c b (bd_time b) off, b\<lparr>bd_time := Suc (bd_time b)\<rparr>)
      | _ \<Rightarrow> (ucast (bd_pio b base), b))"

definition board_write8 :: "avalon_base \<Rightarrow> u8 \<Rightarrow> u8 \<Rightarrow> board \<Rightarrow> board" where
  "board_write8 base off d b =
     (case base of
        LMS_SPI_BASE \<Rightarrow> b\<lparr>bd_lms := spi_access True off d (bd_lms b)\<rparr>
      | RX_TAMER_BASE \<Rightarrow> b\<lparr>bd_rx_tamer := tamer_mm_write off d (bd_rx_tamer b)\<rparr>
      | TX_TAMER_BASE \<Rightarrow> b\<lparr>bd_tx_tamer := tamer_mm_write off d (bd_tx_tamer b)\<rparr>
      | VCTCXO_TAMER_0_BASE \<Rightarrow> (if off = 0 then b\<lparr>bd_vctcxo_ctrl := d\<rparr> else b)
      | OPENCORES_I2C_BASE \<Rightarrow> b\<lparr>bd_i2c_log := bd_i2c_log b @ [(off, ucast d)], bd_time := Suc (bd_time b)\<rparr>
      | _ \<Rightarrow> b)"

definition board_write16 :: "avalon_base \<Rightarrow> u8 \<Rightarrow> u16 \<Rightarrow> board \<Rightarrow> board" where
  "board_write16 base off d b =
     (if base = OPENCORES_I2C_BASE
      then b\<lparr>bd_i2c_log := bd_i2c_log b @ [(off, d)], bd_time := Suc (bd_time b)\<rparr> else b)"

definition board_read32 :: "avalon_base \<Rightarrow> u8 \<Rightarrow> board \<Rightarrow> u32 \<times> board" where
  "board_read32 base off b =
     (if base = COMMAND_UART_BASE then bd_uart_req b off else bd_pio b base, b)"

definition board_write32 :: "avalon_base \<Rightarrow> u8 \<Rightarrow> u32 \<Rightarrow> board \<Rightarrow> board" where
  "board_write32 base off d b =
     (if base = COMMAND_UART_BASE then b\<lparr>bd_uart_resp := (bd_uart_resp b)(off := d)\<rparr>
      else b\<lparr>bd_pio := (bd_pio b)(base := d)\<rparr>)"

definition board_spi :: "u32 \<Rightarrow> bytes \<Rightarrow> nat \<Rightarrow> bool \<Rightarrow> board \<Rightarrow> (nat \<Rightarrow> u8) \<times> board" where
  "board_spi slave out n merge b = (bd_dac b, b\<lparr>bd_spi_log := bd_spi_log b @ [(slave, out)]\<rparr>)"

definition board_bus :: "board bus" where
  "board_bus = \<lparr> bus_read8 = board_read8, bus_write8 = board_write8, bus_write16 = board_write16,
     bus_read32 = board_read32, bus_write32 = board_write32, bus_spi = board_spi \<rparr>"

lemma board_bus_simps [simp]:
  "bus_read8 board_bus = board_read8" "bus_write8 board_bus = board_write8"
  "bus_write16 board_bus = board_write16" "bus_read32 board_bus = board_read32"
  "bus_write32 board_bus = board_write32" "bus_spi board_bus = board_spi"
  by (simp_all add: board_bus_def)

section \<open>The board keeps the laws of the drivers\<close>

definition board_reg :: "(board, 'z) nios_dev_scheme \<Rightarrow> u8 \<Rightarrow> u8" where
  "board_reg s = chip_reg (spi_chip (bd_lms (nios_hw s)))"

definition board_gpio :: "(board, 'z) nios_dev_scheme \<Rightarrow> u32" where
  "board_gpio s = bd_pio (nios_hw s) CONTROL_BASE"

definition board_ok :: "(board, 'z) nios_dev_scheme \<Rightarrow> bool" where
  "board_ok s \<longleftrightarrow> length (shift_out_reg (bd_lms (nios_hw s))) = NUM_PLL_REGS"

lemma lms_addr_mask: "lms_addr a \<Longrightarrow> a AND 0x7f = a"
  using less_mask_eq [of a 7] by (simp add: mask_numeral)

lemma lms_addr_single: "lms_addr a \<Longrightarrow> \<not> spi_queued a \<and> \<not> spi_burst a"
  by (auto simp add: spi_queued_def spi_burst_def)

lemma spi_access_single:
  assumes "lms_addr a" "length (shift_out_reg c) = NUM_PLL_REGS"
  shows "spi_chip (spi_access w a d c) = snd (chip_msg (w, a, d) (shift_in_reg c, spi_chip c))"
    "shift_in_reg (spi_access w a d c) = fst (chip_msg (w, a, d) (shift_in_reg c, spi_chip c))"
    "length (shift_out_reg (spi_access w a d c)) = NUM_PLL_REGS"
  using assms lms_addr_single [OF assms(1)]
  by (simp_all add: spi_access_def spi_shift_def lms_addr_mask NUM_PLL_REGS_def split: prod.splits)

lemma nios_lms_simps:
  "dev_lms_read (nios_lms bus) a s = ((0, fst (lms6_read bus a s)), snd (lms6_read bus a s))"
  "dev_lms_write (nios_lms bus) a d s = (0, snd (lms6_write bus a d s))"
  "dev_gpio_read (nios_lms bus) s = ((0, fst (control_reg_read bus s)), snd (control_reg_read bus s))"
  "dev_gpio_write (nios_lms bus) g s = (0, snd (control_reg_write bus g s))"
  "dev_atomic_pll (nios_lms bus)"
  by (simp_all add: nios_lms_def split: prod.splits)

lemma board_lms6_read:
  "lms6_read board_bus a s =
     (shift_in_reg (spi_access False a 0 (bd_lms (nios_hw s))),
      s\<lparr>nios_hw := (nios_hw s)\<lparr>bd_lms := spi_access False a 0 (bd_lms (nios_hw s))\<rparr>\<rparr>)"
  by (simp add: lms6_read_def IORD_8DIRECT_def on_hw_def board_read8_def Let_def)

lemma board_lms6_write:
  "lms6_write board_bus a d s =
     ((), s\<lparr>nios_hw := (nios_hw s)\<lparr>bd_lms := spi_access True a d (bd_lms (nios_hw s))\<rparr>\<rparr>)"
  by (simp add: lms6_write_def IOWR_8DIRECT_def on_hw_def board_write8_def)

lemma board_control_reg:
  "control_reg_read board_bus s = (board_gpio s, s)"
  "control_reg_write board_bus g s =
     ((), s\<lparr>nios_hw := (nios_hw s)\<lparr>bd_pio := (bd_pio (nios_hw s))(CONTROL_BASE := g)\<rparr>\<rparr>)"
  by (simp_all add: control_reg_read_def control_reg_write_def IORD_PIO_DATA_def IOWR_PIO_DATA_def
      IORD_32DIRECT_def IOWR_32DIRECT_def on_hw_def board_read32_def board_write32_def board_gpio_def)

lemmas board_lms = nios_lms_simps board_lms6_read board_lms6_write board_control_reg
  board_reg_def board_gpio_def board_ok_def spi_access_single chip_msg_def chip_read_def chip_write_def

interpretation nios: lms_regs "nios_lms board_bus" board_reg board_gpio board_ok
  by unfold_locales (auto simp add: board_lms)

lemma length_4_iff: "length xs = 4 \<longleftrightarrow> (\<exists>a b c d. xs = [a, b, c, d])"
  by (simp add: numeral_eq_Suc length_Suc_conv) blast

text \<open>Four accesses to the multi-write addresses reach the chip in one burst.\<close>

lemma spi_access_queued: "spi_queued a \<Longrightarrow> spi_access w a d c =
    c\<lparr>shift_out_reg := (w, a AND 0x7f, d) # take 3 (shift_out_reg c)\<rparr>"
  by (simp add: spi_access_def NUM_PLL_REGS_def)

lemma spi_access_burst: "spi_burst a \<Longrightarrow> spi_access w a d c =
    spi_shift 4 (c\<lparr>shift_out_reg := (w, a AND 0x7f, d) # take 3 (shift_out_reg c)\<rparr>)"
  by (auto simp add: spi_access_def NUM_PLL_REGS_def spi_queued_def spi_burst_def)

lemma spi_burst_words:
  assumes "b = 0x90 \<or> b = 0xA0" "length (shift_out_reg c) = 4"
    and c': "c' = spi_access True (b + 3) d3 (spi_access True (b + 2) d2
    (spi_access True (b + 1) d1 (spi_access True b d0 c)))"
  shows "length (shift_out_reg c') = 4"
    "chip_reg (spi_chip c') = (chip_reg (spi_chip c))(b AND 0x7f := d0, (b AND 0x7f) + 1 := d1,
       (b AND 0x7f) + 2 := d2, (b AND 0x7f) + 3 := d3)"
proof -
  obtain x0 x1 x2 x3 where x: "shift_out_reg c = [x0, x1, x2, x3]"
    using assms(2) by (auto simp add: length_4_iff)
  have nr: "lms_resets a d = False" if "a \<in> {0x10, 0x11, 0x12, 0x13, 0x20, 0x21, 0x22, 0x23}" for a d
    using that by (auto simp add: lms_resets_def)
  show "length (shift_out_reg c') = 4"
    "chip_reg (spi_chip c') = (chip_reg (spi_chip c))(b AND 0x7f := d0, (b AND 0x7f) + 1 := d1,
       (b AND 0x7f) + 2 := d2, (b AND 0x7f) + 3 := d3)"
    using assms(1) unfolding c'
    by (auto simp add: x spi_access_queued spi_access_burst spi_queued_def spi_burst_def spi_shift_def
        chip_msg_def chip_write_def nr fun_upd_twist)
qed

lemma board_LMS_WRITE:
  "LMS_WRITE (nios_lms board_bus) a d s =
     (Inr (), s\<lparr>nios_hw := (nios_hw s)\<lparr>bd_lms := spi_access True a d (bd_lms (nios_hw s))\<rparr>\<rparr>)"
  by (simp add: LMS_WRITE_def board_lms)

lemma pll_multi_base: "b = 0x10 \<or> b = (0x20 :: u8) \<Longrightarrow>
    (b OR 0x80 = 0x90 \<or> b OR 0x80 = 0xA0) \<and> (b OR 0x80) AND 0x7f = b"
  by auto

interpretation nios_pll: lms_pll "nios_lms board_bus" board_reg board_gpio board_ok
proof
  fix s :: "(board, 'z) nios_dev_scheme" and b d0 d1 d2 d3
  assume s: "board_ok s" and b: "b = (0x10 :: u8) \<or> b = 0x20"
  define a where "a = b OR 0x80"
  note a = pll_multi_base [OF b, folded a_def]
  have l: "length (shift_out_reg (bd_lms (nios_hw s))) = 4"
    using s by (simp add: board_ok_def NUM_PLL_REGS_def)
  note w = spi_burst_words [OF conjunct1 [OF a] l refl, of d3 d2 d1 d0]
  let ?t = "s\<lparr>nios_hw := (nios_hw s)\<lparr>bd_lms := spi_access True (a + 3) d3 (spi_access True (a + 2) d2
    (spi_access True (a + 1) d1 (spi_access True a d0 (bd_lms (nios_hw s)))))\<rparr>\<rparr>"
  have run: "write_pll_words (nios_lms board_bus)
      (if dev_atomic_pll (nios_lms board_bus) then b OR 0x80 else b) d0 d1 d2 d3 s = (Inr (), ?t)"
    by (simp add: write_pll_words_def bindE_def board_LMS_WRITE nios_lms_simps a_def [symmetric])
  have r: "board_reg ?t = (board_reg s)(b := d0, b + 1 := d1, b + 2 := d2, b + 3 := d3)"
    using w(2) a by (simp add: board_reg_def)
  have ok: "board_ok ?t" using w(1) by (simp add: board_ok_def NUM_PLL_REGS_def)
  have g: "board_gpio ?t = board_gpio s" by (simp add: board_gpio_def)
  show "\<exists>t. write_pll_words (nios_lms board_bus)
       (if dev_atomic_pll (nios_lms board_bus) then b OR 0x80 else b) d0 d1 d2 d3 s = (Inr (), t) \<and>
     nios.changes {b, b + 1, b + 2, b + 3} s t \<and>
     board_reg t b = d0 \<and> board_reg t (b + 1) = d1 \<and> board_reg t (b + 2) = d2 \<and> board_reg t (b + 3) = d3"
    using run ok g b by (intro exI [of _ ?t]) (auto simp add: nios.changes_def r)
qed

end
