(* ===== verification/Lms_Freq.thy ===== *)
theory Lms_Freq
  imports Lms_Dev Complex_Main "HOL-Library.Log_Nat"
begin

text \<open>
  Frequency arithmetic of fpga_common/src/lms.c: the band table, the estimate of VCOCAP in
  single-precision floating point, the calculation of the PLL words for a frequency and the
  conversion of PLL words back to a frequency.  Integers are words of the C widths.  A float is a
  rational number, and a float operation is the exact operation followed by rounding to 24
  significant bits, ties to even; the magnitudes here are far from the limits of the exponent.
  The additions of 0.5 and 15 are done in double precision by the C code, where they are exact
  for these values.
\<close>

section \<open>The frequency structure and the band table\<close>

record lms_freq =
  lf_freqsel :: u8
  lf_vcocap :: u8
  lf_nint :: u16
  lf_nfrac :: u32
  lf_flags :: u8
  lf_x :: u8
  lf_vcocap_result :: u8

abbreviation (input) LMS_FREQ_FLAGS_LOW_BAND :: u8 where "LMS_FREQ_FLAGS_LOW_BAND \<equiv> 0x01"
abbreviation (input) LMS_FREQ_FLAGS_FORCE_VCOCAP :: u8 where "LMS_FREQ_FLAGS_FORCE_VCOCAP \<equiv> 0x02"

abbreviation (input) LMS_REFERENCE_HZ :: u64 where "LMS_REFERENCE_HZ \<equiv> 38400000"
abbreviation (input) BLADERF_FREQUENCY_MIN :: u32 where "BLADERF_FREQUENCY_MIN \<equiv> 237500000"
abbreviation (input) BLADERF_FREQUENCY_MAX :: u32 where "BLADERF_FREQUENCY_MAX \<equiv> 3800000000"
abbreviation (input) BLADERF_BAND_HIGH :: u32 where "BLADERF_BAND_HIGH \<equiv> 1500000000"

abbreviation (input) VCO4_LOW :: nat where "VCO4_LOW \<equiv> 3800000000"
abbreviation (input) VCO4_HIGH :: nat where "VCO4_HIGH \<equiv> 4535000000"
abbreviation (input) VCO3_LOW :: nat where "VCO3_LOW \<equiv> VCO4_HIGH"
abbreviation (input) VCO3_HIGH :: nat where "VCO3_HIGH \<equiv> 5408000000"
abbreviation (input) VCO2_LOW :: nat where "VCO2_LOW \<equiv> VCO3_HIGH"
abbreviation (input) VCO2_HIGH :: nat where "VCO2_HIGH \<equiv> 6480000000"
abbreviation (input) VCO1_LOW :: nat where "VCO1_LOW \<equiv> VCO2_HIGH"
abbreviation (input) VCO1_HIGH :: nat where "VCO1_HIGH \<equiv> 7600000000"
abbreviation (input) VCO4 :: u8 where "VCO4 \<equiv> 0x20"
abbreviation (input) VCO3 :: u8 where "VCO3 \<equiv> 0x28"
abbreviation (input) VCO2 :: u8 where "VCO2 \<equiv> 0x30"
abbreviation (input) VCO1 :: u8 where "VCO1 \<equiv> 0x38"
abbreviation (input) DIV2 :: u8 where "DIV2 \<equiv> 0x4"
abbreviation (input) DIV4 :: u8 where "DIV4 \<equiv> 0x5"
abbreviation (input) DIV8 :: u8 where "DIV8 \<equiv> 0x6"
abbreviation (input) DIV16 :: u8 where "DIV16 \<equiv> 0x7"

record freq_range =
  fr_low :: u32
  fr_high :: u32
  fr_value :: u8

definition FREQ_RANGE :: "u32 \<Rightarrow> u32 \<Rightarrow> u8 \<Rightarrow> freq_range" where
  "FREQ_RANGE low high value = \<lparr> fr_low = low, fr_high = high, fr_value = value \<rparr>"

definition bands :: "freq_range list" where
  "bands = [
    FREQ_RANGE BLADERF_FREQUENCY_MIN (of_nat (VCO4_HIGH div 16)) (VCO4 OR DIV16),
    FREQ_RANGE (of_nat (VCO3_LOW div 16)) (of_nat (VCO3_HIGH div 16)) (VCO3 OR DIV16),
    FREQ_RANGE (of_nat (VCO2_LOW div 16)) (of_nat (VCO2_HIGH div 16)) (VCO2 OR DIV16),
    FREQ_RANGE (of_nat (VCO1_LOW div 16)) (of_nat (VCO1_HIGH div 16)) (VCO1 OR DIV16),
    FREQ_RANGE (of_nat (VCO4_LOW div 8)) (of_nat (VCO4_HIGH div 8)) (VCO4 OR DIV8),
    FREQ_RANGE (of_nat (VCO3_LOW div 8)) (of_nat (VCO3_HIGH div 8)) (VCO3 OR DIV8),
    FREQ_RANGE (of_nat (VCO2_LOW div 8)) (of_nat (VCO2_HIGH div 8)) (VCO2 OR DIV8),
    FREQ_RANGE (of_nat (VCO1_LOW div 8)) (of_nat (VCO1_HIGH div 8)) (VCO1 OR DIV8),
    FREQ_RANGE (of_nat (VCO4_LOW div 4)) (of_nat (VCO4_HIGH div 4)) (VCO4 OR DIV4),
    FREQ_RANGE (of_nat (VCO3_LOW div 4)) (of_nat (VCO3_HIGH div 4)) (VCO3 OR DIV4),
    FREQ_RANGE (of_nat (VCO2_LOW div 4)) (of_nat (VCO2_HIGH div 4)) (VCO2 OR DIV4),
    FREQ_RANGE (of_nat (VCO1_LOW div 4)) (of_nat (VCO1_HIGH div 4)) (VCO1 OR DIV4),
    FREQ_RANGE (of_nat (VCO4_LOW div 2)) (of_nat (VCO4_HIGH div 2)) (VCO4 OR DIV2),
    FREQ_RANGE (of_nat (VCO3_LOW div 2)) (of_nat (VCO3_HIGH div 2)) (VCO3 OR DIV2),
    FREQ_RANGE (of_nat (VCO2_LOW div 2)) (of_nat (VCO2_HIGH div 2)) (VCO2 OR DIV2),
    FREQ_RANGE (of_nat (VCO1_LOW div 2)) BLADERF_FREQUENCY_MAX (VCO1 OR DIV2)]"

section \<open>Single-precision rounding and the VCOCAP estimate\<close>

definition round_half_even :: "rat \<Rightarrow> int" where
  "round_half_even m =
     (let f = \<lfloor>m\<rfloor>; r = m - of_int f in
      if r < 1/2 then f else if r > 1/2 then f + 1 else if even f then f else f + 1)"

text \<open>The exponent of the last of 24 significant bits of a positive number.\<close>

definition f32_exponent :: "rat \<Rightarrow> int" where
  "f32_exponent q =
     (case quotient_of q of (n, d) \<Rightarrow>
        (let e = bitlen n - bitlen d - 24 in
         if q / 2 powi e < 2 ^ 24 then e else e + 1))"

definition f32_round :: "rat \<Rightarrow> rat" where
  "f32_round q =
     (if q \<le> 0 then 0
      else let e = f32_exponent q in of_int (round_half_even (q / 2 powi e)) * 2 powi e)"

definition estimate_vcocap :: "u32 \<Rightarrow> u32 \<Rightarrow> u32 \<Rightarrow> u8" where
  "estimate_vcocap f_target f_low f_high =
     (let denom = f32_round (of_int (uint (f_high - f_low)));
          num = 40;
          f_diff = f32_round (of_int (uint (f_target - f_low)));
          vcocap = (of_int \<lfloor>f32_round (f32_round (num / denom) * f_diff) + 1/2 + 15\<rfloor> :: u32)
      in if vcocap > 0x3f then 0x3f else ucast vcocap)"

section \<open>PLL words\<close>

text \<open>The while loop over the table: the first range that contains the frequency.\<close>

fun find_band :: "u32 \<Rightarrow> freq_range list \<Rightarrow> freq_range option" where
  "find_band freq [] = None"
| "find_band freq (b # bs) =
     (if freq \<ge> fr_low b \<and> freq \<le> fr_high b then Some b else find_band freq bs)"

definition clamp_frequency :: "u32 \<Rightarrow> u32" where
  "clamp_frequency freq =
     (if freq < BLADERF_FREQUENCY_MIN then BLADERF_FREQUENCY_MIN
      else if freq > BLADERF_FREQUENCY_MAX then BLADERF_FREQUENCY_MAX else freq)"

text \<open>The result is the status and the structure behind the pointer argument; on an error the
  structure is unchanged.\<close>

definition lms_calculate_tuning_params :: "u32 \<Rightarrow> lms_freq \<Rightarrow> int \<times> lms_freq" where
  "lms_calculate_tuning_params freq0 f =
     (let freq = clamp_frequency freq0 in
      case find_band freq bands of
        None \<Rightarrow> (BLADERF_ERR_UNEXPECTED, f)
      | Some b \<Rightarrow>
          (let freqsel = fr_value b;
               vcocap = estimate_vcocap freq (fr_low b) (fr_high b);
               vco_x = (push_bit (unat (freqsel AND 7) - 3) 1 :: u64);
               nint = (ucast (vco_x * ucast freq div LMS_REFERENCE_HZ) :: u16);
               temp = push_bit 23 1 * (vco_x * ucast freq - ucast nint * LMS_REFERENCE_HZ);
               temp = (temp + LMS_REFERENCE_HZ div 2) div LMS_REFERENCE_HZ;
               nfrac = (ucast temp :: u32)
           in (0, f\<lparr> lf_vcocap := vcocap, lf_x := ucast vco_x, lf_nint := nint, lf_nfrac := nfrac,
                     lf_freqsel := freqsel,
                     lf_flags := (if freq < BLADERF_BAND_HIGH then LMS_FREQ_FLAGS_LOW_BAND else 0) \<rparr>)))"

definition lms_frequency_to_hz :: "lms_freq \<Rightarrow> u32" where
  "lms_frequency_to_hz f =
     (let pll_coeff = push_bit 23 (ucast (lf_nint f) :: u64) + ucast (lf_nfrac f);
          divisor = (push_bit 23 (ucast (lf_x f)) :: u32)
      in ucast ((LMS_REFERENCE_HZ * pll_coeff + ucast (drop_bit 1 divisor)) div ucast divisor))"

section \<open>Every frequency has a band\<close>

lemma bands_eq:
  "bands = [
    \<lparr>fr_low = 237500000, fr_high = 283437500, fr_value = 0x27\<rparr>,
    \<lparr>fr_low = 283437500, fr_high = 338000000, fr_value = 0x2f\<rparr>,
    \<lparr>fr_low = 338000000, fr_high = 405000000, fr_value = 0x37\<rparr>,
    \<lparr>fr_low = 405000000, fr_high = 475000000, fr_value = 0x3f\<rparr>,
    \<lparr>fr_low = 475000000, fr_high = 566875000, fr_value = 0x26\<rparr>,
    \<lparr>fr_low = 566875000, fr_high = 676000000, fr_value = 0x2e\<rparr>,
    \<lparr>fr_low = 676000000, fr_high = 810000000, fr_value = 0x36\<rparr>,
    \<lparr>fr_low = 810000000, fr_high = 950000000, fr_value = 0x3e\<rparr>,
    \<lparr>fr_low = 950000000, fr_high = 1133750000, fr_value = 0x25\<rparr>,
    \<lparr>fr_low = 1133750000, fr_high = 1352000000, fr_value = 0x2d\<rparr>,
    \<lparr>fr_low = 1352000000, fr_high = 1620000000, fr_value = 0x35\<rparr>,
    \<lparr>fr_low = 1620000000, fr_high = 1900000000, fr_value = 0x3d\<rparr>,
    \<lparr>fr_low = 1900000000, fr_high = 2267500000, fr_value = 0x24\<rparr>,
    \<lparr>fr_low = 2267500000, fr_high = 2704000000, fr_value = 0x2c\<rparr>,
    \<lparr>fr_low = 2704000000, fr_high = 3240000000, fr_value = 0x34\<rparr>,
    \<lparr>fr_low = 3240000000, fr_high = 3800000000, fr_value = 0x3c\<rparr>]"
  by (simp add: bands_def FREQ_RANGE_def)

fun contiguous :: "freq_range list \<Rightarrow> bool" where
  "contiguous (b # c # bs) \<longleftrightarrow> fr_low c \<le> fr_high b \<and> contiguous (c # bs)"
| "contiguous _ \<longleftrightarrow> True"

lemma find_band_contiguous:
  "contiguous (b # bs) \<Longrightarrow> fr_low b \<le> freq \<Longrightarrow> freq \<le> fr_high (last (b # bs)) \<Longrightarrow>
   find_band freq (b # bs) \<noteq> None"
proof (induction bs arbitrary: b)
  case (Cons c bs)
  show ?case
  proof (cases "freq \<le> fr_high b")
    case False
    with Cons.prems have "fr_low c \<le> freq" by auto
    with Cons.prems Cons.IH [of c] False show ?thesis by simp
  qed (use Cons.prems in simp)
qed simp

lemma find_band_SomeD:
  "find_band freq bs = Some b \<Longrightarrow> b \<in> set bs \<and> fr_low b \<le> freq \<and> freq \<le> fr_high b"
  by (induction bs) (auto split: if_splits)

lemma clamp_frequency_range: "237500000 \<le> clamp_frequency freq" "clamp_frequency freq \<le> 3800000000"
  by (auto simp add: clamp_frequency_def not_less)

lemma find_band_clamped:
  obtains b where "find_band (clamp_frequency freq) bands = Some b"
proof -
  have "find_band (clamp_frequency freq) bands \<noteq> None"
    unfolding bands_eq
    by (rule find_band_contiguous) (simp_all add: clamp_frequency_range)
  then show thesis using that by blast
qed

text \<open>In every band the VCO runs between 3.8 and 7.6 GHz, at 2, 4, 8 or 16 times the frequency.\<close>

lemma band_vco:
  assumes "b \<in> set bands" "fr_low b \<le> freq" "freq \<le> fr_high b"
  obtains k where "unat (fr_value b AND 7) - 3 = k" "k \<in> {1, 2, 3, 4}"
    "3800000000 \<le> 2 ^ k * unat freq" "2 ^ k * unat freq \<le> 7600000000"
proof -
  have "\<exists>k. unat (fr_value b AND 7) - 3 = k \<and> k \<in> {1, 2, 3, 4} \<and>
      3800000000 \<le> 2 ^ k * unat freq \<and> 2 ^ k * unat freq \<le> 7600000000"
    using assms unfolding bands_eq word_le_nat_alt
    by (auto simp add: word_le_nat_alt)
  then show thesis using that by blast
qed

section \<open>The PLL words of a frequency\<close>

text \<open>The words in natural-number arithmetic, where \<open>v\<close> is the VCO frequency: no step of the
  64-bit computation wraps.\<close>

lemma pll_words:
  fixes freq :: u32 and k :: nat
  assumes v: "v = 2 ^ k * unat freq" "v \<le> 7600000000" and k: "k \<le> 4"
  defines "nint \<equiv> (ucast ((push_bit k 1 :: u64) * ucast freq div 38400000) :: u16)"
  defines "temp \<equiv> push_bit 23 1 * ((push_bit k 1 :: u64) * ucast freq - ucast nint * 38400000)"
  shows "unat nint = v div 38400000"
    and "unat (ucast ((temp + 38400000 div 2) div 38400000) :: u32)
           = (8388608 * (v mod 38400000) + 19200000) div 38400000"
proof -
  have "k = 0 \<or> k = 1 \<or> k = 2 \<or> k = 3 \<or> k = 4" using k by auto
  then have pb: "unat (push_bit k 1 :: u64) = 2 ^ k"
    by auto
  have uf: "unat (ucast freq :: u64) = unat freq"
    using unsigned_less [of freq, where ?'a = nat] by (simp add: unsigned_ucast_eq take_bit_nat_eq_self)
  define x where "x = (push_bit k 1 :: u64) * ucast freq"
  have x: "unat x = v"
    unfolding x_def
    using v pb uf unat_mult_lem [of "push_bit k 1 :: u64" "ucast freq"]
    by simp
  have nle: "v div 38400000 \<le> 197" using v by simp
  have n: "unat nint = v div 38400000"
    unfolding nint_def x_def [symmetric] using nle
    by (simp add: unsigned_ucast_eq unat_div x take_bit_nat_eq_self)
  then show "unat nint = v div 38400000" .
  have m: "unat ((ucast nint :: u64) * 38400000) = v div 38400000 * 38400000"
    using unat_mult_lem [of "ucast nint :: u64" 38400000] nle
    by (simp add: unsigned_ucast_eq n take_bit_nat_eq_self)
  have r: "unat (x - ucast nint * 38400000) = v mod 38400000"
    by (subst unat_sub) (simp_all add: word_le_nat_alt m x minus_div_mult_eq_mod)
  define y where "y = x - ucast nint * 38400000"
  define r where "r = v mod 38400000"
  have rl: "r < 38400000" by (simp add: r_def)
  have t: "unat temp = 8388608 * r"
    unfolding temp_def x_def [symmetric] y_def [symmetric]
    using unat_mult_lem [of "push_bit 23 1 :: u64" y] r rl
    by (simp add: y_def [symmetric] r_def [symmetric])
  have t2: "unat (temp + 38400000 div 2) = 8388608 * r + 19200000"
    using unat_add_lem [of temp "38400000 div 2"] t rl by simp
  have "(8388608 * r + 19200000) div 38400000 \<le> 8388608" using rl by simp
  then show "unat (ucast ((temp + 38400000 div 2) div 38400000) :: u32)
           = (8388608 * (v mod 38400000) + 19200000) div 38400000"
    using t2 by (simp add: unsigned_ucast_eq unat_div take_bit_nat_eq_self r_def)
qed
text \<open>Rounding to the fraction and back: at most 1 Hz, none below 950 MHz; and when the fraction
  does not fit its 23 bits.\<close>

lemma hz_arith:
  fixes F v k :: nat
  assumes v: "v = 2 ^ k * F" and k: "k \<in> {1, 2, 3, 4}" 
  defines "nf \<equiv> (8388608 * (v mod 38400000) + 19200000) div 38400000"
  defines "c \<equiv> 8388608 * (v div 38400000) + nf"
  defines "hz \<equiv> (38400000 * c + 2 ^ (22 + k)) div 2 ^ (23 + k)"
  shows "hz \<le> F + 1" "F \<le> hz + 1" "3 \<le> k \<Longrightarrow> hz = F" "nf \<le> 8388608"
proof -
  define q where "q = v div 38400000"
  define r where "r = v mod 38400000"
  have vq: "v = 38400000 * q + r" and r: "r < 38400000" by (simp_all add: q_def r_def)
  have nf: "38400000 * nf \<le> 8388608 * r + 19200000" "8388608 * r + 19200000 < 38400000 * nf + 38400000"
    unfolding nf_def r_def [symmetric] by linarith+
  show "nf \<le> 8388608" using nf r by linarith
  have cq: "38400000 * c = 322122547200000 * q + 38400000 * nf"
    unfolding c_def q_def [symmetric] by simp
  have vq8: "8388608 * v = 322122547200000 * q + 8388608 * r"
    using vq by simp
  have c: "38400000 * c \<le> 8388608 * v + 19200000" "8388608 * v < 38400000 * c + 19200000"
    using nf cq vq8 by linarith+
  have "k = 1 \<or> k = 2 \<or> k = 3 \<or> k = 4" using k by auto
  then show "hz \<le> F + 1" "F \<le> hz + 1" "3 \<le> k \<Longrightarrow> hz = F"
    using c v unfolding hz_def by (elim disjE; simp; linarith)+
qed

lemma nfrac_arith:
  fixes F v k :: nat
  assumes v: "v = 2 ^ k * F" and k: "k \<in> {1, 2, 3, 4}"
  shows "(8388608 * (v mod 38400000) + 19200000) div 38400000 < 8388608 \<longleftrightarrow>
    \<not> (k = 1 \<and> (F + 1) mod 19200000 = 0)"
proof -
  define r where "r = v mod 38400000"
  have r: "r < 38400000" by (simp add: r_def)
  have *: "(8388608 * r + 19200000) div 38400000 < 8388608 \<longleftrightarrow> r + 2 < 38400000"
    using r by (simp add: div_less_iff_less_mult) linarith
  show ?thesis
  proof (cases "k = 1")
    case True
    then have "v = 2 * F" using v by simp
    then have "r = 2 * (F mod 19200000)" by (simp add: r_def mult_mod_right)
    moreover have "(F + 1) mod 19200000 = 0 \<longleftrightarrow> F mod 19200000 = 19199999"
      by (simp add: mod_Suc)
    moreover have "F mod 19200000 < 19200000" by simp
    ultimately have "r + 2 < 38400000 \<longleftrightarrow> (F + 1) mod 19200000 \<noteq> 0" by linarith
    then show ?thesis using True * by (simp add: r_def)
  next
    case False
    then have "4 dvd v" using v k by auto
    then have "4 dvd r" unfolding r_def by (simp add: dvd_mod)
    then obtain m where "r = 4 * m" by blast
    moreover from this have "m < 9600000" using r by linarith
    ultimately have "r + 2 < 38400000" by linarith
    then show ?thesis using * False by (simp add: r_def)
  qed
qed
lemma push_bit_u64: "k \<in> {1, 2, 3, 4 :: nat} \<Longrightarrow> unat (ucast (push_bit k 1 :: u64) :: u8) = 2 ^ k"
  by auto

definition tuned :: "u32 \<Rightarrow> freq_range \<Rightarrow> lms_freq \<Rightarrow> lms_freq \<Rightarrow> nat \<Rightarrow> bool" where
  "tuned freq b f g k \<longleftrightarrow> b \<in> set bands \<and> fr_low b \<le> freq \<and> freq \<le> fr_high b \<and>
     unat (fr_value b AND 7) - 3 = k \<and> k \<in> {1, 2, 3, 4} \<and>
     3800000000 \<le> 2 ^ k * unat freq \<and> 2 ^ k * unat freq \<le> 7600000000 \<and>
     lf_freqsel g = fr_value b \<and> unat (lf_x g) = 2 ^ k \<and>
     unat (lf_nint g) = 2 ^ k * unat freq div 38400000 \<and>
     unat (lf_nfrac g) = (8388608 * (2 ^ k * unat freq mod 38400000) + 19200000) div 38400000 \<and>
     lf_vcocap g = estimate_vcocap freq (fr_low b) (fr_high b) \<and>
     lf_flags g = (if freq < BLADERF_BAND_HIGH then LMS_FREQ_FLAGS_LOW_BAND else 0) \<and>
     lf_vcocap_result g = lf_vcocap_result f"

lemma lms_calculate_tuning_params_runs:
  obtains b g k where "lms_calculate_tuning_params freq f = (0, g)"
    "tuned (clamp_frequency freq) b f g k"
proof -
  let ?c = "clamp_frequency freq"
  obtain b where b: "find_band ?c bands = Some b" by (rule find_band_clamped)
  note bD = find_band_SomeD [OF b]
  obtain k where k: "unat (fr_value b AND 7) - 3 = k" "k \<in> {1, 2, 3, 4}"
      "3800000000 \<le> 2 ^ k * unat ?c" "2 ^ k * unat ?c \<le> 7600000000"
    using band_vco bD by blast
  have k4: "k \<le> 4" using k(2) by auto
  define g where "g = snd (lms_calculate_tuning_params freq f)"
  have "lms_calculate_tuning_params freq f = (0, g)"
    by (simp add: g_def lms_calculate_tuning_params_def b Let_def)
  moreover have "tuned ?c b f g k"
    using bD k pll_words [OF refl k(4) k4] push_bit_u64 [OF k(2)]
    by (simp add: tuned_def g_def lms_calculate_tuning_params_def b Let_def)
  ultimately show thesis using that by blast
qed

lemma lms_frequency_to_hz_nat:
  assumes "unat (lf_nint g) \<le> 511" "unat (lf_nfrac g) \<le> 8388608" "unat (lf_x g) = 2 ^ k" "k \<in> {1, 2, 3, 4}"
  defines "c \<equiv> 8388608 * unat (lf_nint g) + unat (lf_nfrac g)"
  defines "hz \<equiv> (38400000 * c + 2 ^ (22 + k)) div 2 ^ (23 + k)"
  assumes "hz < 2 ^ 32"
  shows "unat (lms_frequency_to_hz g) = hz"
proof -
  define p where "p = push_bit 23 (ucast (lf_nint g) :: u64) + ucast (lf_nfrac g)"
  define d where "d = (push_bit 23 (ucast (lf_x g)) :: u32)"
  have k: "k = 1 \<or> k = 2 \<or> k = 3 \<or> k = 4" using assms(4) by auto
  have n: "unat (push_bit 23 (ucast (lf_nint g) :: u64)) = 8388608 * unat (lf_nint g)"
    using assms(1) by (simp add: unat_push_bit unat_ucast_up)
  have p: "unat p = c"
    unfolding p_def c_def
    using unat_add_lem [of "push_bit 23 (ucast (lf_nint g) :: u64)" "ucast (lf_nfrac g)"] n assms(1,2)
    by (simp add: unat_ucast_up)
  have cl: "c \<le> 4294967296" using assms(1,2) unfolding c_def by linarith
  have d: "unat d = 2 ^ (23 + k)"
    unfolding d_def using assms(3) k by (elim disjE) (simp_all add: unat_push_bit unat_ucast_up)
  have d1: "unat (ucast (drop_bit 1 d) :: u64) = 2 ^ (22 + k)"
    using d k by (elim disjE) (simp_all add: unat_ucast_up drop_bit_eq_div unat_div)
  have m: "unat (38400000 * p) = 38400000 * c"
    using unat_mult_lem [of "38400000 :: u64" p] p cl by simp
  have s: "unat (38400000 * p + ucast (drop_bit 1 d)) = 38400000 * c + 2 ^ (22 + k)"
    using unat_add_lem [of "38400000 * p" "ucast (drop_bit 1 d)"] m d1 cl k
    by (elim disjE) simp_all
  have "unat ((38400000 * p + ucast (drop_bit 1 d)) div ucast d) = hz"
    unfolding hz_def unat_div s by (simp add: d unat_ucast_up)
  then show ?thesis
    using assms(7) unfolding lms_frequency_to_hz_def p_def [symmetric] d_def [symmetric] Let_def
    by (simp add: unsigned_ucast_eq take_bit_nat_eq_self)
qed

lemma tuned_hz:
  assumes "tuned freq b f g k"
  shows "unat (lms_frequency_to_hz g) \<le> unat freq + 1" "unat freq \<le> unat (lms_frequency_to_hz g) + 1"
    "3 \<le> k \<Longrightarrow> lms_frequency_to_hz g = freq" "unat (lf_nint g) < 512" "unat (lf_nfrac g) \<le> 8388608"
    "unat (lf_nfrac g) < 8388608 \<longleftrightarrow> \<not> (k = 1 \<and> (unat freq + 1) mod 19200000 = 0)"
proof -
  note t = assms [unfolded tuned_def]
  have k: "k \<in> {1, 2, 3, 4}" using t by blast
  note ar = hz_arith [OF refl k, of "unat freq"]
  have "2 ^ k * unat freq \<le> 7600000000" using t by blast
  then have "2 ^ k * unat freq div 38400000 < 512" by (simp add: div_less_iff_less_mult)
  have e: "unat (lf_nint g) = 2 ^ k * unat freq div 38400000"
    "unat (lf_nfrac g) = (8388608 * (2 ^ k * unat freq mod 38400000) + 19200000) div 38400000"
    "unat (lf_x g) = 2 ^ k"
    using t by blast+
  show n: "unat (lf_nint g) < 512" unfolding e(1) by fact
  show nf: "unat (lf_nfrac g) \<le> 8388608" unfolding e(2) by (rule ar(4))
  show "unat (lf_nfrac g) < 8388608 \<longleftrightarrow> \<not> (k = 1 \<and> (unat freq + 1) mod 19200000 = 0)"
    unfolding e(2) by (rule nfrac_arith [OF refl k])
  let ?hz = "(38400000 * (8388608 * unat (lf_nint g) + unat (lf_nfrac g)) + 2 ^ (22 + k)) div 2 ^ (23 + k)"
  have hz: "?hz \<le> unat freq + 1" "unat freq \<le> ?hz + 1" "3 \<le> k \<Longrightarrow> ?hz = unat freq"
    unfolding e(1,2) by (fact ar(1-3))+
  have "2 ^ k * unat freq \<le> 7600000000" using t by blast
  moreover have "2 * unat freq \<le> 2 ^ k * unat freq" using k by auto
  ultimately have "unat freq \<le> 3800000000" by linarith
  then have "?hz < 2 ^ 32" by (intro le_less_trans [OF hz(1)]) simp
  then have *: "unat (lms_frequency_to_hz g) = ?hz"
    by (intro lms_frequency_to_hz_nat nf e(3) k) (use n in simp_all)
  show "unat (lms_frequency_to_hz g) \<le> unat freq + 1" "unat freq \<le> unat (lms_frequency_to_hz g) + 1"
    using hz(1,2) * by simp_all
  show "lms_frequency_to_hz g = freq" if "3 \<le> k"
    using hz(3) [OF that] * by (simp add: word_unat_eq_iff)
qed
section \<open>The estimate stays in its range\<close>

lemma round_half_even_error: "\<bar>of_int (round_half_even m) - m\<bar> \<le> 1/2"
proof -
  have "of_int \<lfloor>m\<rfloor> \<le> m" "m < of_int \<lfloor>m\<rfloor> + 1" by linarith+
  then show ?thesis
    by (auto simp add: round_half_even_def Let_def abs_le_iff; linarith)
qed

lemma f32_exponent_normal:
  assumes "0 < q"
  shows "2 ^ 23 \<le> q / 2 powi f32_exponent q"
proof -
  obtain n d where nd: "quotient_of q = (n, d)" by (cases "quotient_of q")
  have d: "0 < d" using quotient_of_denom_pos [OF nd] .
  have q: "q = of_int n / of_int d" using quotient_of_div [OF nd] .
  have n: "0 < n" using assms d unfolding q by (simp add: zero_less_divide_iff)
  define e where "e = bitlen n - bitlen d - 24"
  have bn: "2 ^ nat (bitlen n - 1) \<le> n" "0 < bitlen n"
    using bitlen_bounds [OF n] n bitlen_nonneg [of n] by (auto simp add: less_le)
  have bd: "d \<le> 2 ^ nat (bitlen d)" "0 \<le> bitlen d"
    using bitlen_bounds [OF d] by (simp_all add: bitlen_nonneg)
  have pw: "(2 :: rat) powi k = of_int (2 ^ nat k)" if "0 \<le> k" for k
    using that by (simp add: power_int_def)
  have "(2 :: rat) powi (bitlen n - 1) \<le> of_int n"
    using bn by (subst pw) (simp, simp only: of_int_le_iff)
  moreover have "of_int d \<le> (2 :: rat) powi bitlen d"
    using bd by (subst pw) (simp, simp only: of_int_le_iff)
  ultimately have "2 powi (bitlen n - 1) / 2 powi bitlen d \<le> q"
    unfolding q using d n by (intro frac_le) simp_all
  moreover have "(2 :: rat) powi (23 + e) = 2 powi (bitlen n - 1) / 2 powi bitlen d"
  proof -
    have "23 + e = bitlen n - 1 - bitlen d" by (simp add: e_def)
    then show ?thesis by (simp only:) (rule power_int_diff, simp)
  qed
  ultimately have "(2 :: rat) powi (23 + e) \<le> q" by simp
  then have *: "2 ^ 23 \<le> q / 2 powi e"
    by (simp add: power_int_add field_simps)
  have "f32_exponent q = (if q / 2 powi e < 2 ^ 24 then e else e + 1)"
    by (simp add: f32_exponent_def nd e_def Let_def)
  then show ?thesis
    using * by (auto simp add: power_int_add field_simps)
qed

lemma f32_round_error:
  assumes "0 < q"
  shows "f32_round q \<le> q * (1 + 1 / 2 ^ 24)" "q * (1 - 1 / 2 ^ 24) \<le> f32_round q"
proof -
  define p where "p = (2 :: rat) powi f32_exponent q"
  define m where "m = q / p"
  have p: "0 < p" by (simp add: p_def)
  have m: "2 ^ 23 \<le> m" unfolding m_def p_def by (rule f32_exponent_normal [OF assms])
  have r: "f32_round q = of_int (round_half_even m) * p"
    using assms by (simp add: f32_round_def p_def m_def Let_def)
  have q: "q = m * p" using p by (simp add: m_def)
  have "of_int (round_half_even m) \<le> m + 1/2" "m - 1/2 \<le> of_int (round_half_even m)"
    using round_half_even_error [of m] by linarith+
  then have "of_int (round_half_even m) \<le> m * (1 + 1 / 2 ^ 24)"
    "m * (1 - 1 / 2 ^ 24) \<le> of_int (round_half_even m)"
    using m by simp_all
  then have "of_int (round_half_even m) * p \<le> m * (1 + 1 / 2 ^ 24) * p"
    "m * (1 - 1 / 2 ^ 24) * p \<le> of_int (round_half_even m) * p"
    using p by (simp_all only: mult_le_cancel_right_pos)
  then show "f32_round q \<le> q * (1 + 1 / 2 ^ 24)" "q * (1 - 1 / 2 ^ 24) \<le> f32_round q"
    unfolding r unfolding q by (simp_all only: mult_ac)
qed

lemma f32_round_nonneg: "0 \<le> f32_round q"
proof (cases "0 < q")
  case True
  have "0 \<le> q * (1 - 1 / 2 ^ 24)" using True by simp
  also have "\<dots> \<le> f32_round q" by (rule f32_round_error [OF True])
  finally show ?thesis .
qed (simp add: f32_round_def)

lemma f32_round_upper: "0 \<le> q \<Longrightarrow> f32_round q \<le> q * (1 + 1 / 2 ^ 24)"
  using f32_round_error(1) [of q] by (cases "q = 0") (auto simp add: f32_round_def)

lemma interpolation_bound:
  assumes "0 \<le> t" "t \<le> d" "0 < (d :: rat)"
  shows "f32_round (f32_round (40 / f32_round d) * f32_round t) < 81/2"
proof -
  define u where "u = (1 + 1 / 2 ^ 24 :: rat)"
  define l where "l = (1 - 1 / 2 ^ 24 :: rat)"
  define fd where "fd = f32_round d"
  have fd: "d * l \<le> fd" unfolding fd_def l_def by (rule f32_round_error [OF assms(3)])
  have l: "0 < l" and u: "1 \<le> u" by (simp_all add: l_def u_def)
  have fd0: "0 < fd" using fd assms(3) l by (meson less_le_trans mult_pos_pos)
  have a: "f32_round (40 / fd) \<le> 40 / fd * u" unfolding u_def using fd0 by (intro f32_round_upper) simp
  have b: "f32_round t \<le> d * u"
    using f32_round_upper [OF assms(1)] assms(2) u unfolding u_def [symmetric]
    by (meson mult_right_mono order.trans zero_le_one)
  have "f32_round (40 / fd) * f32_round t \<le> (40 / fd * u) * (d * u)"
    using a b fd0 u assms by (intro mult_mono) (simp_all add: f32_round_nonneg)
  also have "\<dots> = 40 * u * u * (d / fd)" by simp
  also have "\<dots> \<le> 40 * u * u * (1 / l)"
    using fd fd0 l u by (intro mult_left_mono) (simp_all add: field_simps)
  finally have "f32_round (40 / fd) * f32_round t \<le> 40 * u * u * (1 / l)" .
  then have "f32_round (f32_round (40 / fd) * f32_round t) \<le> 40 * u * u * (1 / l) * u"
    using f32_round_upper [of "f32_round (40 / fd) * f32_round t"] u
    unfolding u_def [symmetric] 
    by (meson f32_round_nonneg mult_nonneg_nonneg mult_right_mono order.trans zero_le_one)
  also have "\<dots> < 81/2" by (simp add: u_def l_def)
  finally show ?thesis unfolding fd_def .
qed

lemma estimate_vcocap_range:
  assumes "f_low \<le> f_target" "f_target \<le> f_high" "f_low < f_high"
  shows "15 \<le> estimate_vcocap f_target f_low f_high" "estimate_vcocap f_target f_low f_high \<le> 55"
proof -
  define d where "d = (of_int (uint (f_high - f_low)) :: rat)"
  define t where "t = (of_int (uint (f_target - f_low)) :: rat)"
  have "uint (f_high - f_low) = uint f_high - uint f_low"
    "uint (f_target - f_low) = uint f_target - uint f_low"
    using assms by (simp_all add: uint_sub_if' word_le_def word_less_def)
  then have "uint (f_target - f_low) \<le> uint (f_high - f_low)" "0 < uint (f_high - f_low)"
    using assms by (simp_all add: word_le_def word_less_def)
  then have "0 \<le> t" "t \<le> d" "0 < d"
    unfolding d_def t_def by (simp_all only: of_int_le_iff of_int_0_less_iff of_int_0_le_iff uint_ge_0)
  note b = interpolation_bound [OF this]
  define y where "y = f32_round (f32_round (40 / f32_round d) * f32_round t)"
  have y: "0 \<le> y" "y < 81/2" using b by (simp_all add: y_def f32_round_nonneg)
  define n where "n = \<lfloor>y + 1/2 + 15\<rfloor>"
  have n: "15 \<le> n" "n \<le> 55" using y unfolding n_def by linarith+
  have un: "uint (of_int n :: u32) = n" using n by (simp add: uint_word_of_int_small)
  have "\<not> (of_int n :: u32) > 0x3f" using n un by (simp add: word_less_def)
  then have e: "estimate_vcocap f_target f_low f_high = ucast (of_int n :: u32)"
    unfolding estimate_vcocap_def Let_def d_def [symmetric] t_def [symmetric] y_def [symmetric]
      n_def [symmetric] by (simp only: if_False)
  have "uint (ucast (of_int n :: u32) :: u8) = n"
    using n un by (simp add: unsigned_ucast_eq take_bit_int_eq_self)
  then show "15 \<le> estimate_vcocap f_target f_low f_high"
    "estimate_vcocap f_target f_low f_high \<le> 55"
    using n unfolding e by (simp_all add: word_le_def)
qed
section \<open>Properties\<close>

lemma bands_nonempty_ranges: "b \<in> set bands \<Longrightarrow> fr_low b < fr_high b"
  unfolding bands_eq by auto

lemma tuned_vcocap:
  assumes "tuned freq b f g k"
  shows "15 \<le> lf_vcocap g" "lf_vcocap g \<le> 55"
  using assms estimate_vcocap_range [of "fr_low b" freq "fr_high b"] bands_nonempty_ranges
  by (simp_all only: tuned_def)

lemma tuned_divider:
  assumes "tuned freq b f g k"
  shows "freq < 950000000 \<Longrightarrow> 3 \<le> k" "1900000000 < freq \<Longrightarrow> k = 1"
    "k = 1 \<Longrightarrow> 1900000000 \<le> freq"
proof -
  have k: "k = 1 \<or> k = 2 \<or> k = 3 \<or> k = 4"
    and lo: "3800000000 \<le> 2 ^ k * unat freq" and hi: "2 ^ k * unat freq \<le> 7600000000"
    using assms by (auto simp only: tuned_def)
  show "freq < 950000000 \<Longrightarrow> 3 \<le> k"
    using k lo by (elim disjE) (simp_all add: word_less_nat_alt)
  show "1900000000 < freq \<Longrightarrow> k = 1"
    using k hi by (elim disjE) (simp_all add: word_less_nat_alt)
  show "k = 1 \<Longrightarrow> 1900000000 \<le> freq"
    using lo by (simp add: word_le_nat_alt)
qed


text \<open>C16: The fraction fits the 23 bits that the PLL registers give it except for the frequencies
  above 1.9 GHz that are 1 Hz below a multiple of 19.2 MHz, where rounding carries it to
  2^23.\<close>

theorem nfrac_fits_iff:
  "lf_nfrac (snd (lms_calculate_tuning_params freq f)) < 0x800000 \<longleftrightarrow>
     \<not> (1900000000 < clamp_frequency freq \<and> (unat (clamp_frequency freq) + 1) mod 19200000 = 0)"
proof -
  obtain b g k where g: "lms_calculate_tuning_params freq f = (0, g)"
      "tuned (clamp_frequency freq) b f g k"
    by (rule lms_calculate_tuning_params_runs)
  have "k = 1 \<and> (unat (clamp_frequency freq) + 1) mod 19200000 = 0 \<longleftrightarrow>
      1900000000 < clamp_frequency freq \<and> (unat (clamp_frequency freq) + 1) mod 19200000 = 0"
    using tuned_divider(2,3) [OF g(2)] by (auto simp add: le_less)
  then show ?thesis
    using tuned_hz(6) [OF g(2)] g(1) by (simp add: word_less_nat_alt)
qed

end
