(* ===== verification/Lms_Tuning.thy ===== *)
theory Lms_Tuning
  imports Lms_Config Lms_Freq "HOL-Library.Signed_Division"
begin

text \<open>
  Tuning in fpga_common/src/lms.c and lms.h: reading the PLL words back, the search for a VCOCAP
  value between the two VTUNE limits, writing a precalculated frequency and setting a frequency.
  The search loops run at most VTUNE_MAX_ITERATIONS = 20 times and are recursive functions on the
  iterations left; the polling loop runs 15 times; the walk of \<open>wait_for_vtune_value\<close> is a
  recursion on VCOCAP that moves towards its limit.  The delays before a VTUNE read do not touch
  the device handle and are not modelled.  \<open>tune_vcocap\<close> and
  \<open>lms_set_precalculated_frequency\<close> return a status together with their output argument, because
  the C code stores to it before the last check.
\<close>

section \<open>Reading a frequency\<close>

text \<open>The shift by FRANGE - 3 is the natural-number difference; the C code shifts by a negative
  amount for FRANGE below 3, which no band has.\<close>

definition lms_get_frequency :: "'s lms_dev \<Rightarrow> bladerf_module \<Rightarrow> lms_freq \<Rightarrow> ('s, lms_freq) io" where
  "lms_get_frequency dev m f =
     (let base = (if m = BLADERF_MODULE_RX then 0x20 else 0x10) in
      bindE (LMS_READ dev (base + 0)) (\<lambda>d0.
      bindE (LMS_READ dev (base + 1)) (\<lambda>d1.
      bindE (LMS_READ dev (base + 2)) (\<lambda>d2.
      bindE (LMS_READ dev (base + 3)) (\<lambda>d3.
      bindE (LMS_READ dev (base + 5)) (\<lambda>d5.
      bindE (LMS_READ dev (base + 9)) (\<lambda>d9.
      let freqsel = drop_bit 2 d5 in
      returnE (f\<lparr>
        lf_nint := push_bit 1 (ucast d0) OR ucast (drop_bit 7 (d1 AND 0x80)),
        lf_nfrac := push_bit 16 (ucast d1 AND 0x7f) OR push_bit 8 (ucast d2) OR ucast d3,
        lf_freqsel := freqsel,
        lf_x := push_bit (unat (freqsel AND 7) - 3) 1,
        lf_vcocap := d9 AND 0x3f \<rparr>))))))))"

record bladerf_quick_tune =
  qt_freqsel :: u8
  qt_vcocap :: u8
  qt_nint :: u16
  qt_nfrac :: u32
  qt_flags :: u8

text \<open>The contents of a local structure before it is filled in.\<close>

definition lms_freq_uninit :: lms_freq where
  "lms_freq_uninit = \<lparr> lf_freqsel = 0, lf_vcocap = 0, lf_nint = 0, lf_nfrac = 0, lf_flags = 0,
     lf_x = 0, lf_vcocap_result = 0 \<rparr>"

definition lms_get_quick_tune :: "'s lms_dev \<Rightarrow> bladerf_module \<Rightarrow> ('s, bladerf_quick_tune) io" where
  "lms_get_quick_tune dev m =
     bindE (lms_get_frequency dev m lms_freq_uninit) (\<lambda>f.
     returnE \<lparr> qt_freqsel = lf_freqsel f, qt_vcocap = lf_vcocap f, qt_nint = lf_nint f,
       qt_nfrac = lf_nfrac f,
       qt_flags = (if lms_frequency_to_hz f < BLADERF_BAND_HIGH
                   then LMS_FREQ_FLAGS_FORCE_VCOCAP OR LMS_FREQ_FLAGS_LOW_BAND
                   else LMS_FREQ_FLAGS_FORCE_VCOCAP) \<rparr>)"

section \<open>The VCOCAP search\<close>

abbreviation (input) VCO_HIGH :: u8 where "VCO_HIGH \<equiv> 0x02"
abbreviation (input) VCO_NORM :: u8 where "VCO_NORM \<equiv> 0x00"
abbreviation (input) VCO_LOW :: u8 where "VCO_LOW \<equiv> 0x01"
abbreviation (input) VCOCAP_MAX_VALUE :: u8 where "VCOCAP_MAX_VALUE \<equiv> 0x3f"
abbreviation (input) VTUNE_MAX_ITERATIONS :: nat where "VTUNE_MAX_ITERATIONS \<equiv> 20"
abbreviation (input) VCOCAP_MAX_LOW_HIGH :: u8 where "VCOCAP_MAX_LOW_HIGH \<equiv> 12"

definition get_vtune :: "'s lms_dev \<Rightarrow> u8 \<Rightarrow> ('s, u8) io" where
  "get_vtune dev base = bindE (LMS_READ dev (base + 10)) (\<lambda>vtune. returnE (drop_bit 6 vtune))"

definition write_vcocap :: "'s lms_dev \<Rightarrow> u8 \<Rightarrow> u8 \<Rightarrow> u8 \<Rightarrow> ('s, unit) io" where
  "write_vcocap dev base vcocap vcocap_reg_state =
     LMS_WRITE dev (base + 9) (vcocap OR vcocap_reg_state)"

fun vtune_high_to_norm_loop :: "nat \<Rightarrow> 's lms_dev \<Rightarrow> u8 \<Rightarrow> u8 \<Rightarrow> u8 \<Rightarrow> ('s, u8) io" where
  "vtune_high_to_norm_loop 0 dev base vcocap vcocap_reg_state = throwE BLADERF_ERR_UNEXPECTED"
| "vtune_high_to_norm_loop (Suc i) dev base vcocap vcocap_reg_state =
     (if vcocap \<ge> VCOCAP_MAX_VALUE then returnE VCOCAP_MAX_VALUE
      else
        seqE (write_vcocap dev base (vcocap + 1) vcocap_reg_state)
        (bindE (get_vtune dev base) (\<lambda>vtune.
         if vtune = VCO_NORM then returnE (vcocap + 1 - 1)
         else vtune_high_to_norm_loop i dev base (vcocap + 1) vcocap_reg_state)))"

definition vtune_high_to_norm :: "'s lms_dev \<Rightarrow> u8 \<Rightarrow> u8 \<Rightarrow> u8 \<Rightarrow> ('s, u8) io" where
  "vtune_high_to_norm = vtune_high_to_norm_loop VTUNE_MAX_ITERATIONS"

fun vtune_norm_to_high_loop :: "nat \<Rightarrow> 's lms_dev \<Rightarrow> u8 \<Rightarrow> u8 \<Rightarrow> u8 \<Rightarrow> ('s, u8) io" where
  "vtune_norm_to_high_loop 0 dev base vcocap vcocap_reg_state = throwE BLADERF_ERR_UNEXPECTED"
| "vtune_norm_to_high_loop (Suc i) dev base vcocap vcocap_reg_state =
     (if vcocap = 0 then returnE 0
      else
        seqE (write_vcocap dev base (vcocap - 1) vcocap_reg_state)
        (bindE (get_vtune dev base) (\<lambda>vtune.
         if vtune = VCO_HIGH then returnE (vcocap - 1)
         else vtune_norm_to_high_loop i dev base (vcocap - 1) vcocap_reg_state)))"

definition vtune_norm_to_high :: "'s lms_dev \<Rightarrow> u8 \<Rightarrow> u8 \<Rightarrow> u8 \<Rightarrow> ('s, u8) io" where
  "vtune_norm_to_high = vtune_norm_to_high_loop VTUNE_MAX_ITERATIONS"

fun vtune_low_to_norm_loop :: "nat \<Rightarrow> 's lms_dev \<Rightarrow> u8 \<Rightarrow> u8 \<Rightarrow> u8 \<Rightarrow> ('s, u8) io" where
  "vtune_low_to_norm_loop 0 dev base vcocap vcocap_reg_state = throwE BLADERF_ERR_UNEXPECTED"
| "vtune_low_to_norm_loop (Suc i) dev base vcocap vcocap_reg_state =
     (if vcocap = 0 then returnE 0
      else
        seqE (write_vcocap dev base (vcocap - 1) vcocap_reg_state)
        (bindE (get_vtune dev base) (\<lambda>vtune.
         if vtune = VCO_NORM then returnE (vcocap - 1 + 1)
         else vtune_low_to_norm_loop i dev base (vcocap - 1) vcocap_reg_state)))"

definition vtune_low_to_norm :: "'s lms_dev \<Rightarrow> u8 \<Rightarrow> u8 \<Rightarrow> u8 \<Rightarrow> ('s, u8) io" where
  "vtune_low_to_norm = vtune_low_to_norm_loop VTUNE_MAX_ITERATIONS"

text \<open>The two loops of wait_for_vtune_value: polling, whose result tells whether the target was
  reached, and the walk.  The walk's result is the value of *vcocap.\<close>

fun vtune_poll :: "nat \<Rightarrow> 's lms_dev \<Rightarrow> u8 \<Rightarrow> u8 \<Rightarrow> ('s, bool) io" where
  "vtune_poll 0 dev base target_value = returnE False"
| "vtune_poll (Suc i) dev base target_value =
     bindE (get_vtune dev base) (\<lambda>vtune.
     if vtune = target_value then returnE True else vtune_poll i dev base target_value)"

definition vtune_limit :: "u8 \<Rightarrow> u8" where
  "vtune_limit target_value = (if target_value = VCO_HIGH then 0 else VCOCAP_MAX_VALUE)"

definition vtune_inc :: "u8 \<Rightarrow> u8" where
  "vtune_inc target_value = (if target_value = VCO_HIGH then -1 else 1)"

function vtune_walk :: "'s lms_dev \<Rightarrow> u8 \<Rightarrow> u8 \<Rightarrow> u8 \<Rightarrow> u8 \<Rightarrow> ('s, u8) io" where
  "vtune_walk dev base target_value vcocap vcocap_reg_state =
     (if vcocap = vtune_limit target_value then returnE vcocap
      else
        seqE (write_vcocap dev base (vcocap + vtune_inc target_value) vcocap_reg_state)
        (bindE (get_vtune dev base) (\<lambda>vtune.
         if vtune = target_value then returnE (vcocap + vtune_inc target_value)
         else vtune_walk dev base target_value (vcocap + vtune_inc target_value) vcocap_reg_state)))"
  by pat_completeness auto

text \<open>Each step of the walk brings VCOCAP one closer to its limit, in eight-bit arithmetic.\<close>

definition vtune_distance :: "u8 \<Rightarrow> u8 \<Rightarrow> nat" where
  "vtune_distance target_value vcocap =
     (if target_value = VCO_HIGH then unat (vcocap - vtune_limit target_value)
      else unat (vtune_limit target_value - vcocap))"

lemma word_dec_less: "(w :: u8) \<noteq> 0 \<Longrightarrow> unat (w - 1) < unat w"
  by (simp add: unat_minus_one unat_gt_0)

lemma vtune_distance_less:
  assumes "vcocap \<noteq> vtune_limit target_value"
  shows "vtune_distance target_value (vcocap + vtune_inc target_value)
       < vtune_distance target_value vcocap"
proof (cases "target_value = VCO_HIGH")
  case True
  with assms have "vcocap \<noteq> 0" by (simp add: vtune_limit_def)
  then have "unat (vcocap - 1) < unat vcocap" by (rule word_dec_less)
  with True show ?thesis by (simp add: vtune_distance_def vtune_inc_def vtune_limit_def)
next
  case False
  with assms have "0x3f - vcocap \<noteq> 0" by (simp add: vtune_limit_def)
  then have "unat ((0x3f - vcocap) - 1) < unat (0x3f - vcocap)"
    by (rule word_dec_less)
  with False show ?thesis by (simp add: vtune_distance_def vtune_inc_def vtune_limit_def algebra_simps)
qed

termination vtune_walk
  by (relation "measure (\<lambda>(dev, base, target_value, vcocap, vcocap_reg_state).
      vtune_distance target_value vcocap)") (simp_all add: vtune_distance_less)

declare vtune_walk.simps [simp del]

definition wait_for_vtune_value :: "'s lms_dev \<Rightarrow> u8 \<Rightarrow> u8 \<Rightarrow> u8 \<Rightarrow> u8 \<Rightarrow> ('s, u8) io" where
  "wait_for_vtune_value dev base target_value vcocap vcocap_reg_state =
     bindE (vtune_poll 15 dev base target_value) (\<lambda>reached.
     if reached then returnE vcocap
     else vtune_walk dev base target_value vcocap vcocap_reg_state)"

text \<open>The first part of tune_vcocap, up to the two limits (high, low).\<close>

definition tune_vcocap_limits :: "'s lms_dev \<Rightarrow> u8 \<Rightarrow> u8 \<Rightarrow> u8 \<Rightarrow> ('s, u8 \<times> u8) io" where
  "tune_vcocap_limits dev vcocap_est base vcocap_reg_state =
     bindE (get_vtune dev base) (\<lambda>vtune.
     bindE
       (if vtune = VCO_HIGH then
          bindE (vtune_high_to_norm dev base vcocap_est vcocap_reg_state) (\<lambda>high. returnE (high, 0))
        else if vtune = VCO_NORM then
          bindE (vtune_norm_to_high dev base vcocap_est vcocap_reg_state) (\<lambda>high. returnE (high, 0))
        else if vtune = VCO_LOW then
          bindE (vtune_low_to_norm dev base vcocap_est vcocap_reg_state)
            (\<lambda>low. returnE (VCOCAP_MAX_VALUE, low))
        else returnE (VCOCAP_MAX_VALUE, 0))
     (\<lambda>(vtune_high_limit, vtune_low_limit).
      if vtune_high_limit \<noteq> VCOCAP_MAX_VALUE then
        if vtune = VCO_HIGH \<or> vtune = VCO_NORM then
          let vcocap = (if uint vtune_high_limit + 12 < 63
                        then vtune_high_limit + VCOCAP_MAX_LOW_HIGH else VCOCAP_MAX_VALUE) in
          seqE (write_vcocap dev base vcocap vcocap_reg_state)
          (bindE (wait_for_vtune_value dev base VCO_LOW vcocap vcocap_reg_state) (\<lambda>vcocap.
           bindE (vtune_low_to_norm dev base vcocap vcocap_reg_state) (\<lambda>low.
           returnE (vtune_high_limit, low))))
        else throwE BLADERF_ERR_UNEXPECTED
      else if vtune = VCO_LOW \<or> vtune = VCO_NORM then
        let vcocap = (if uint vtune_low_limit - 12 > 0
                      then vtune_low_limit - VCOCAP_MAX_LOW_HIGH else 0) in
        seqE (write_vcocap dev base vcocap vcocap_reg_state)
        (bindE (wait_for_vtune_value dev base VCO_HIGH vcocap vcocap_reg_state) (\<lambda>vcocap.
         bindE (vtune_high_to_norm dev base vcocap vcocap_reg_state) (\<lambda>high.
         returnE (high, vtune_low_limit))))
      else throwE BLADERF_ERR_UNEXPECTED))"

definition vcocap_middle :: "u8 \<Rightarrow> u8 \<Rightarrow> u8" where
  "vcocap_middle vtune_high_limit vtune_low_limit =
     word_of_int (uint vtune_high_limit + (uint vtune_low_limit - uint vtune_high_limit) sdiv 2)"

definition tune_vcocap :: "'s lms_dev \<Rightarrow> u8 \<Rightarrow> u8 \<Rightarrow> u8 \<Rightarrow> u8 \<Rightarrow> ('s, int \<times> u8) io" where
  "tune_vcocap dev vcocap_est base vcocap_reg_state vcocap_result =
     catchE
       (bindE (tune_vcocap_limits dev vcocap_est base vcocap_reg_state)
          (\<lambda>(vtune_high_limit, vtune_low_limit).
        let vcocap = vcocap_middle vtune_high_limit vtune_low_limit in
        seqE (write_vcocap dev base vcocap vcocap_reg_state)
        (catchE
           (bindE (get_vtune dev base) (\<lambda>vtune.
            returnE (if vtune \<noteq> VCO_NORM then BLADERF_ERR_UNEXPECTED else 0, vcocap)))
           (\<lambda>status. returnE (status, vcocap)))))
       (\<lambda>status. returnE (status, vcocap_result))"

section \<open>Setting a frequency\<close>

definition lms_dsm :: "'s lms_dev \<Rightarrow> bool \<Rightarrow> ('s, unit) io" where
  "lms_dsm dev on =
     bindE (LMS_READ dev 0x09) (\<lambda>data.
     LMS_WRITE dev 0x09 (if on then data OR 0x05 else data AND NOT 0x05))"

text \<open>The body between the two accesses to the DSM register, i.e. up to the label error.\<close>

definition set_precalculated_body ::
  "'s lms_dev \<Rightarrow> bladerf_module \<Rightarrow> lms_freq \<Rightarrow> ('s, int \<times> u8) io" where
  "set_precalculated_body dev m f =
     (let base = (if m = BLADERF_MODULE_RX then 0x20 else 0x10);
          pll_base = (if dev_atomic_pll dev then base OR 0x80 else base) in
      bindE (LMS_READ dev (base + 9)) (\<lambda>reg9.
      let vcocap_reg_state = reg9 AND NOT 0x3f in
      seqE (write_vcocap dev base (lf_vcocap f) vcocap_reg_state)
      (seqE (write_pll_config dev m (lf_freqsel f) (lf_flags f AND LMS_FREQ_FLAGS_LOW_BAND \<noteq> 0))
      (seqE (write_pll_words dev pll_base
               (ucast (drop_bit 1 (lf_nint f)))
               (ucast (push_bit 7 (lf_nint f AND 1)) OR ucast (drop_bit 16 (lf_nfrac f) AND 0x7f))
               (ucast (drop_bit 8 (lf_nfrac f) AND 0xff))
               (ucast (lf_nfrac f AND 0xff)))
      (if lf_flags f AND LMS_FREQ_FLAGS_FORCE_VCOCAP \<noteq> 0 then returnE (0, lf_vcocap f)
       else tune_vcocap dev (lf_vcocap f) base vcocap_reg_state 0xff)))))"

definition lms_set_precalculated_frequency ::
  "'s lms_dev \<Rightarrow> bladerf_module \<Rightarrow> lms_freq \<Rightarrow> ('s, int \<times> lms_freq) io" where
  "lms_set_precalculated_frequency dev m f0 =
     (let f = f0\<lparr>lf_vcocap_result := 0xff\<rparr> in
      catchE
        (seqE (lms_dsm dev True)
        (bindE (catchE (set_precalculated_body dev m f) (\<lambda>status. returnE (status, 0xff)))
          (\<lambda>(status, vcocap_result).
         bindE (catchE (seqE (lms_dsm dev False) (returnE 0)) (\<lambda>dsm_status. returnE dsm_status))
          (\<lambda>dsm_status.
         returnE (if status = 0 then dsm_status else status,
                  f\<lparr>lf_vcocap_result := vcocap_result\<rparr>)))))
        (\<lambda>status. returnE (status, f)))"

definition lms_set_frequency :: "'s lms_dev \<Rightarrow> bladerf_module \<Rightarrow> u32 \<Rightarrow> ('s, unit) io" where
  "lms_set_frequency dev m freq =
     bindE (lms_set_precalculated_frequency dev m
              (snd (lms_calculate_tuning_params freq lms_freq_uninit)))
       (\<lambda>(status, f). if status \<noteq> 0 then throwE status else returnE ())"

end
