(* ===== verification/Lms_Vco.thy ===== *)
theory Lms_Vco
  imports Lms_Tuning
begin

text \<open>
  The VCOCAP search and the loading of a PLL.  With arbitrary comparator answers the search ends
  with status 0 or BLADERF_ERR_UNEXPECTED, changes nothing but the VCOCAP field and reports
  success only after reading NORM with its result in place (\<open>tune_vcocap_safe\<close>).  When the
  comparators are those of a locking loop (\<open>vco_locks\<close>: HIGH below hi, NORM from hi to
  lo, LOW above) and the estimate is within the reach of the 20 iterations, the search returns the
  middle of [hi, lo] (\<open>tune_vcocap_finds\<close>).  \<open>lms_set_precalculated_frequency\<close> loads
  the words, which read back but for the truncations to 9, 23 and 6 bits.
\<close>

unbundle bit_operations_syntax

section \<open>Safety of the search\<close>

lemma u8_le_3f:
  assumes "(v :: u8) \<le> 0x3f"
  shows "\<not> bit v 6" "\<not> bit v 7"
proof -
  have "take_bit 6 (uint v) = uint v"
    using assms by (intro take_bit_int_eq_self) (simp_all add: word_le_def)
  then have n: "n < 6" if "bit (uint v) n" for n
    using that by (metis bit_take_bit_iff)
  show "\<not> bit v 6" "\<not> bit v 7"
    using n [of 6] n [of 7] by (auto simp add: bit_simps)
qed

lemma u8_inc_le: "(v :: u8) < k \<Longrightarrow> v + 1 \<le> k"
  by (simp add: word_le_nat_alt word_less_nat_alt unat_word_ariths)

lemma u8_dec_le: "(v :: u8) \<noteq> 0 \<Longrightarrow> v \<le> k \<Longrightarrow> v - 1 \<le> k"
  using word_dec_less [of v] unfolding word_le_nat_alt by linarith

context lms_regs begin

text \<open>Whatever the comparators say, the search only writes the VCOCAP register, keeps its upper bits,
  and never writes a value above 63.\<close>

definition vcocap_only :: "u8 \<Rightarrow> u8 \<Rightarrow> 's \<Rightarrow> 's \<Rightarrow> bool" where
  "vcocap_only base st s t \<longleftrightarrow> changes {base + 9} s t \<and> reg t (base + 9) AND 0xc0 = st"

definition keeps :: "u8 \<Rightarrow> u8 \<Rightarrow> ('s, 'a) io \<Rightarrow> ('a \<Rightarrow> bool) \<Rightarrow> bool" where
  "keeps base st m Q \<longleftrightarrow>
     (\<forall>s r t. ok s \<longrightarrow> reg s (base + 9) AND 0xc0 = st \<longrightarrow> m s = (r, t) \<longrightarrow>
        vcocap_only base st s t \<and> (r = Inl BLADERF_ERR_UNEXPECTED \<or> (\<exists>x. r = Inr x \<and> Q x)))"

lemma keeps_returnE: "Q x \<Longrightarrow> keeps base st (returnE x) Q"
  by (auto simp add: keeps_def vcocap_only_def changes_refl)

lemma keeps_throwE: "keeps base st (throwE BLADERF_ERR_UNEXPECTED) Q"
  by (auto simp add: keeps_def vcocap_only_def changes_refl)

lemma keeps_bindE:
  assumes "keeps base st m P" "\<And>x. P x \<Longrightarrow> keeps base st (f x) Q"
  shows "keeps base st (bindE m f) Q"
  unfolding keeps_def
proof (intro allI impI)
  fix s r t
  assume s: "ok s" "reg s (base + 9) AND 0xc0 = st" and run: "bindE m f s = (r, t)"
  obtain r1 u where m: "m s = (r1, u)" by (cases "m s")
  have u: "vcocap_only base st s u" "r1 = Inl BLADERF_ERR_UNEXPECTED \<or> (\<exists>x. r1 = Inr x \<and> P x)"
    using assms(1) s m unfolding keeps_def by blast+
  have u': "ok u" "reg u (base + 9) AND 0xc0 = st"
    using u(1) by (auto simp add: vcocap_only_def changes_ok)
  show "vcocap_only base st s t \<and> (r = Inl BLADERF_ERR_UNEXPECTED \<or> (\<exists>x. r = Inr x \<and> Q x))"
  proof (cases "r1 = Inl BLADERF_ERR_UNEXPECTED")
    case True
    then have "r = Inl BLADERF_ERR_UNEXPECTED" "t = u" using run m by (simp_all add: bindE_def)
    then show ?thesis using u(1) by simp
  next
    case False
    then obtain x where x: "r1 = Inr x" "P x" using u(2) by blast
    then have "f x u = (r, t)" using run m by (simp add: bindE_def)
    then have "vcocap_only base st u t" "r = Inl BLADERF_ERR_UNEXPECTED \<or> (\<exists>x. r = Inr x \<and> Q x)"
      using assms(2) [OF x(2)] u' unfolding keeps_def by blast+
    then show ?thesis
      using changes_trans [of "{base + 9}" s u "{base + 9}" t] u(1)
      by (auto simp add: vcocap_only_def)
  qed
qed

lemma keeps_get_vtune:
  assumes "base = 0x10 \<or> base = 0x20"
  shows "keeps base st (get_vtune dev base) (\<lambda>v. True)"
  using assms by (auto simp add: keeps_def vcocap_only_def get_vtune_def dev_laws changes_def)

lemma keeps_write_vcocap:
  assumes "base = 0x10 \<or> base = 0x20" "v \<le> 0x3f" "st AND 0xc0 = st"
  shows "keeps base st (write_vcocap dev base v st) (\<lambda>v. True)"
proof -
  have "(v OR st) AND 0xc0 = st"
  proof -
    have "v AND 0xc0 = 0" using u8_le_3f [OF assms(2)] by (simp add: word8_eq_iff bit_simps)
    then show ?thesis using assms(3) by (simp add: bit.conj_disj_distrib2)
  qed
  then show ?thesis
    using assms(1) by (auto simp add: keeps_def vcocap_only_def write_vcocap_def dev_laws changes_def)
qed

lemma keeps_high_to_norm:
  assumes "base = 0x10 \<or> base = 0x20" "st AND 0xc0 = st" "v \<le> 0x3f"
  shows "keeps base st (vtune_high_to_norm_loop n dev base v st) (\<lambda>v. v \<le> 0x3f)"
  using assms(3)
proof (induction n arbitrary: v)
  case 0 show ?case by (simp add: keeps_throwE del: throwE_apply)
next
  case (Suc n)
  show ?case
  proof (cases "v \<ge> 0x3f")
    case True then show ?thesis by (simp add: keeps_returnE del: returnE_apply)
  next
    case False
    then have v1: "v + 1 \<le> 0x3f" by (intro u8_inc_le) simp
    show ?thesis
      using False Suc.prems Suc.IH [OF v1]
      by (auto simp del: returnE_apply throwE_apply intro!: keeps_bindE [OF keeps_write_vcocap [OF assms(1) v1 assms(2)]]
          keeps_bindE [OF keeps_get_vtune [OF assms(1)]] keeps_returnE)
  qed
qed

lemma keeps_norm_to_high:
  assumes "base = 0x10 \<or> base = 0x20" "st AND 0xc0 = st" "v \<le> 0x3f"
  shows "keeps base st (vtune_norm_to_high_loop n dev base v st) (\<lambda>v. v \<le> 0x3f)"
  using assms(3)
proof (induction n arbitrary: v)
  case 0 show ?case by (simp add: keeps_throwE del: throwE_apply)
next
  case (Suc n)
  show ?case
  proof (cases "v = 0")
    case True then show ?thesis by (simp add: keeps_returnE del: returnE_apply)
  next
    case False
    then have v1: "v - 1 \<le> 0x3f" using Suc.prems by (rule u8_dec_le)
    show ?thesis
      using False Suc.prems Suc.IH [OF v1] v1
      by (auto simp del: returnE_apply throwE_apply intro!: keeps_bindE [OF keeps_write_vcocap [OF assms(1) v1 assms(2)]]
          keeps_bindE [OF keeps_get_vtune [OF assms(1)]] keeps_returnE)
  qed
qed

lemma keeps_low_to_norm:
  assumes "base = 0x10 \<or> base = 0x20" "st AND 0xc0 = st" "v \<le> 0x3f"
  shows "keeps base st (vtune_low_to_norm_loop n dev base v st) (\<lambda>v. v \<le> 0x3f)"
  using assms(3)
proof (induction n arbitrary: v)
  case 0 show ?case by (simp add: keeps_throwE del: throwE_apply)
next
  case (Suc n)
  show ?case
  proof (cases "v = 0")
    case True then show ?thesis by (simp add: keeps_returnE del: returnE_apply)
  next
    case False
    then have v1: "v - 1 \<le> 0x3f" using Suc.prems by (rule u8_dec_le)
    show ?thesis
      using False Suc.prems Suc.IH [OF v1] v1
      by (auto simp del: returnE_apply throwE_apply intro!: keeps_bindE [OF keeps_write_vcocap [OF assms(1) v1 assms(2)]]
          keeps_bindE [OF keeps_get_vtune [OF assms(1)]] keeps_returnE)
  qed
qed

lemma keeps_poll:
  assumes "base = 0x10 \<or> base = 0x20"
  shows "keeps base st (vtune_poll n dev base w) (\<lambda>_. True)"
  by (induction n) (auto simp del: returnE_apply throwE_apply intro!: keeps_returnE keeps_bindE [OF keeps_get_vtune [OF assms]])

lemma keeps_walk:
  assumes "base = 0x10 \<or> base = 0x20" "st AND 0xc0 = st" "v \<le> 0x3f"
  shows "keeps base st (vtune_walk dev base w v st) (\<lambda>v. v \<le> 0x3f)"
  using assms(3)
proof (induction "vtune_distance w v" arbitrary: v rule: less_induct)
  case less
  show ?case
  proof (cases "v = vtune_limit w")
    case True then show ?thesis using less.prems by (simp add: vtune_walk.simps keeps_returnE del: returnE_apply)
  next
    case False
    have v1: "v + vtune_inc w \<le> 0x3f"
    proof (cases "w = 2")
      case True
      then show ?thesis using False less.prems u8_dec_le [of v] by (simp add: vtune_inc_def vtune_limit_def)
    next
      case w: False
      then have "v < 0x3f" using False less.prems by (simp add: vtune_limit_def)
      then show ?thesis using w u8_inc_le by (simp add: vtune_inc_def)
    qed
    note IH = less.hyps [OF vtune_distance_less [OF False] v1]
    show ?thesis
      unfolding vtune_walk.simps [of dev base w v st] using False IH v1
      by (auto simp del: returnE_apply throwE_apply intro!: keeps_bindE [OF keeps_write_vcocap [OF assms(1) v1 assms(2)]]
          keeps_bindE [OF keeps_get_vtune [OF assms(1)]] keeps_returnE)
  qed
qed

lemma keeps_wait:
  assumes "base = 0x10 \<or> base = 0x20" "st AND 0xc0 = st" "v \<le> 0x3f"
  shows "keeps base st (wait_for_vtune_value dev base w v st) (\<lambda>v. v \<le> 0x3f)"
  unfolding wait_for_vtune_value_def using assms
  by (auto simp del: returnE_apply throwE_apply intro!: keeps_bindE [OF keeps_poll [OF assms(1)]] keeps_returnE keeps_walk)

lemma keeps_limits:
  assumes "base = 0x10 \<or> base = 0x20" "st AND 0xc0 = st" "v \<le> 0x3f"
  shows "keeps base st (tune_vcocap_limits dev v base st) (\<lambda>(h, l). h \<le> 0x3f \<and> l \<le> 0x3f)"
proof -
  note loops = keeps_high_to_norm [OF assms(1,2)] keeps_norm_to_high [OF assms(1,2)]
    keeps_low_to_norm [OF assms(1,2)] keeps_wait [OF assms(1,2)]
  have hi: "uint h + 12 < 63 \<Longrightarrow> h + 12 \<le> 0x3f" for h :: u8
    by (simp add: word_le_def uint_word_arith_bintrs take_bit_eq_mod)
  have lo: "l - 12 \<le> 0x3f" if "l \<le> 0x3f" "uint l - 12 > 0" for l :: u8
    using that uint_sub_if' [of l 12] by (simp add: word_le_def)
  show ?thesis
    unfolding tune_vcocap_limits_def vtune_high_to_norm_def vtune_norm_to_high_def
      vtune_low_to_norm_def Let_def
    by (auto simp del: returnE_apply throwE_apply intro!: keeps_bindE [OF keeps_get_vtune [OF assms(1)]]
        keeps_bindE [where P = "\<lambda>(h, l). h \<le> 0x3f \<and> l \<le> 0x3f"] keeps_returnE keeps_throwE
        keeps_bindE [where P = "\<lambda>v. v \<le> 0x3f"]
        keeps_bindE [OF keeps_write_vcocap [OF assms(1) _ assms(2)]]
        loops assms(3) hi lo split: if_splits)
qed

end

definition vco_comparator :: "nat \<Rightarrow> nat \<Rightarrow> nat \<Rightarrow> u8" where
  "vco_comparator hi lo n = (if n < hi then VCO_HIGH else if n \<le> lo then VCO_NORM else VCO_LOW)"

lemma vcocap_field:
  assumes "n \<le> 63" "(st :: u8) AND 0xc0 = st"
  shows "unat ((of_nat n OR st) AND 0x3f) = n"
proof -
  have u: "unat (of_nat n :: u8) = n" using assms(1) by (simp add: unat_of_nat)
  then have "(of_nat n :: u8) \<le> 0x3f" using assms(1) by (simp add: word_le_nat_alt)
  then have b: "\<not> bit (of_nat n :: u8) 6" "\<not> bit (of_nat n :: u8) 7" by (rule u8_le_3f)+
  have "(of_nat n OR st) AND 0x3f = (of_nat n :: u8)"
    using b by (subst assms(2) [symmetric]) (simp add: word8_eq_iff bit_simps)
  with u show ?thesis by simp
qed

lemma u8_of_nat_le: "n \<le> 63 \<Longrightarrow> unat (of_nat n :: u8) = n"
  by (simp add: unat_of_nat)

context lms_regs begin

definition vco_settled :: "u8 \<Rightarrow> u8 \<Rightarrow> nat \<Rightarrow> nat \<Rightarrow> 's \<Rightarrow> bool" where
  "vco_settled base st hi lo s \<longleftrightarrow>
     (base = 0x10 \<or> base = 0x20) \<and> st AND 0xc0 = st \<and> ok s \<and> reg s (base + 9) AND 0xc0 = st \<and>
     1 \<le> hi \<and> hi \<le> lo \<and> lo \<le> 62 \<and>
     (\<forall>u. changes {base + 9} s u \<longrightarrow>
        drop_bit 6 (snd (fst (dev_lms_read dev (base + 10) u)))
          = vco_comparator hi lo (unat (reg u (base + 9) AND 0x3f)))"

definition at_vcocap :: "u8 \<Rightarrow> u8 \<Rightarrow> 's \<Rightarrow> nat \<Rightarrow> 's \<Rightarrow> bool" where
  "at_vcocap base st s n u \<longleftrightarrow> changes {base + 9} s u \<and> reg u (base + 9) = of_nat n OR st \<and> n \<le> 63"

lemma write_vcocap_at:
  assumes "vco_settled base st hi lo s" "changes {base + 9} s u" "n \<le> 63"
  obtains v where "write_vcocap dev base (of_nat n) st u = (Inr (), v)" "at_vcocap base st s n v"
proof -
  have "base = 0x10 \<or> base = 0x20" using assms(1) by (simp add: vco_settled_def)
  then have "write_vcocap dev base (of_nat n) st u =
      (Inr (), snd (dev_lms_write dev (base + 9) (of_nat n OR st) u))"
    "at_vcocap base st s n (snd (dev_lms_write dev (base + 9) (of_nat n OR st) u))"
    using assms(2,3) by (auto simp add: write_vcocap_def dev_laws changes_def at_vcocap_def)
  then show thesis by (rule that)
qed

lemma get_vtune_at:
  assumes "vco_settled base st hi lo s" "at_vcocap base st s n u"
  obtains v where "get_vtune dev base u = (Inr (vco_comparator hi lo n), v)" "at_vcocap base st s n v"
proof -
  have base: "base = 0x10 \<or> base = 0x20" and st: "st AND 0xc0 = st"
    using assms(1) by (simp_all add: vco_settled_def)
  have u: "changes {base + 9} s u" "reg u (base + 9) = of_nat n OR st" "n \<le> 63"
    using assms(2) by (simp_all add: at_vcocap_def)
  have "drop_bit 6 (snd (fst (dev_lms_read dev (base + 10) u)))
      = vco_comparator hi lo (unat (reg u (base + 9) AND 0x3f))"
    using assms(1) u(1) by (simp only: vco_settled_def)
  also have "\<dots> = vco_comparator hi lo n" by (simp only: u(2) vcocap_field [OF u(3) st])
  finally have c: "drop_bit 6 (snd (fst (dev_lms_read dev (base + 10) u))) = vco_comparator hi lo n" .
  have "ok u" using u(1) by (rule changes_ok)
  then have "get_vtune dev base u = (Inr (vco_comparator hi lo n), snd (dev_lms_read dev (base + 10) u))"
    using base c by (auto simp add: get_vtune_def dev_laws)
  moreover have "at_vcocap base st s n (snd (dev_lms_read dev (base + 10) u))"
    using base u \<open>ok u\<close> by (auto simp add: at_vcocap_def dev_laws changes_def)
  ultimately show thesis by (rule that)
qed

lemma at_changes: "at_vcocap base st s n u \<Longrightarrow> changes {base + 9} s u"
  by (simp add: at_vcocap_def)

text \<open>One round of the loops: write \<open>n\<close>, read the comparator.\<close>

lemma vcocap_round:
  assumes "vco_settled base st hi lo s" "changes {base + 9} s u" "n \<le> 63"
  obtains v where "\<forall>k :: u8 \<Rightarrow> ('s, u8) io. seqE (write_vcocap dev base (of_nat n) st) (bindE (get_vtune dev base) k) u
      = k (vco_comparator hi lo n) v" "at_vcocap base st s n v"
proof -
  obtain w where w: "write_vcocap dev base (of_nat n) st u = (Inr (), w)" "at_vcocap base st s n w"
    by (rule write_vcocap_at [OF assms])
  obtain v where v: "get_vtune dev base w = (Inr (vco_comparator hi lo n), v)" "at_vcocap base st s n v"
    by (rule get_vtune_at [OF assms(1) w(2)])
  show thesis by (rule that [OF _ v(2)]) (simp add: bindE_def w(1) v(1))
qed

lemma high_to_norm_finds:
  assumes "vco_settled base st hi lo s" "n < hi" "hi - n \<le> i" "at_vcocap base st s n u"
  shows "\<exists>v. vtune_high_to_norm_loop i dev base (of_nat n) st u = (Inr (of_nat (hi - 1)), v) \<and>
    at_vcocap base st s hi v"
  using assms(2-4)
proof (induction i arbitrary: n u)
  case (Suc i)
  have hi: "hi \<le> 62" "hi \<le> lo" using assms(1) by (auto simp add: vco_settled_def)
  then have n: "n < 62" using Suc.prems by simp
  then have n1: "Suc n \<le> 63" by simp
  obtain v where v: "\<forall>k :: u8 \<Rightarrow> ('s, u8) io. seqE (write_vcocap dev base (of_nat (Suc n)) st) (bindE (get_vtune dev base) k) u
      = k (vco_comparator hi lo (Suc n)) v" "at_vcocap base st s (Suc n) v"
    by (rule vcocap_round [OF assms(1) at_changes [OF Suc.prems(3)] n1])
  have lt: "\<not> (of_nat n :: u8) \<ge> 0x3f"
    using n by (simp add: word_le_nat_alt u8_of_nat_le)
  have s: "(of_nat n :: u8) + 1 = of_nat (Suc n)" by simp
  show ?case
  proof (cases "Suc n = hi")
    case True
    then have "vco_comparator hi lo (Suc n) = VCO_NORM" using hi by (simp add: vco_comparator_def)
    then show ?thesis
      using v lt True by (auto simp add: s simp del: of_nat_Suc) (simp add: True [symmetric])
  next
    case False
    then have "Suc n < hi" using Suc.prems by simp
    moreover from this have "vco_comparator hi lo (Suc n) = VCO_HIGH" by (simp add: vco_comparator_def)
    ultimately show ?thesis
      using v lt Suc.IH [of "Suc n" v] Suc.prems by (simp add: s del: of_nat_Suc)
  qed
qed simp

lemma norm_to_high_finds:
  assumes "vco_settled base st hi lo s" "hi \<le> n" "n \<le> lo" "n + 1 - hi \<le> i" "at_vcocap base st s n u"
  shows "\<exists>v. vtune_norm_to_high_loop i dev base (of_nat n) st u = (Inr (of_nat (hi - 1)), v) \<and>
    at_vcocap base st s (hi - 1) v"
  using assms(2-5)
proof (induction i arbitrary: n u)
  case (Suc i)
  have hi: "1 \<le> hi" "hi \<le> lo" "lo \<le> 62" using assms(1) by (auto simp add: vco_settled_def)
  obtain m where m: "n = Suc m" using hi Suc.prems by (cases n) auto
  then have n1: "m \<le> 63" using hi Suc.prems by simp
  obtain v where v: "\<forall>k :: u8 \<Rightarrow> ('s, u8) io.
      seqE (write_vcocap dev base (of_nat m) st) (bindE (get_vtune dev base) k) u
      = k (vco_comparator hi lo m) v" "at_vcocap base st s m v"
    by (rule vcocap_round [OF assms(1) at_changes [OF Suc.prems(4)] n1])
  have nz: "(of_nat n :: u8) \<noteq> 0"
    using u8_of_nat_le [of n] Suc.prems hi m by auto
  have s: "(of_nat (Suc m) :: u8) - 1 = of_nat m" by simp
  show ?case
  proof (cases "m < hi")
    case True
    then have "vco_comparator hi lo m = VCO_HIGH" "hi = Suc m"
      using Suc.prems m by (auto simp add: vco_comparator_def)
    then show ?thesis using v nz by (auto simp add: s m simp del: of_nat_Suc)
  next
    case False
    then have "vco_comparator hi lo m = VCO_NORM" using Suc.prems m by (simp add: vco_comparator_def)
    then show ?thesis
      using v nz Suc.IH [of m v] Suc.prems False m by (simp add: s del: of_nat_Suc)
  qed
qed simp

lemma low_to_norm_finds:
  assumes "vco_settled base st hi lo s" "lo < n" "n - lo \<le> i" "at_vcocap base st s n u"
  shows "\<exists>v. vtune_low_to_norm_loop i dev base (of_nat n) st u = (Inr (of_nat (lo + 1)), v) \<and>
    at_vcocap base st s lo v"
  using assms(2-4)
proof (induction i arbitrary: n u)
  case (Suc i)
  have hi: "1 \<le> hi" "hi \<le> lo" "lo \<le> 62" using assms(1) by (auto simp add: vco_settled_def)
  have n63: "n \<le> 63" using Suc.prems by (simp add: at_vcocap_def)
  obtain m where m: "n = Suc m" using hi Suc.prems by (cases n) auto
  then have n1: "m \<le> 63" using n63 by simp
  obtain v where v: "\<forall>k :: u8 \<Rightarrow> ('s, u8) io.
      seqE (write_vcocap dev base (of_nat m) st) (bindE (get_vtune dev base) k) u
      = k (vco_comparator hi lo m) v" "at_vcocap base st s m v"
    by (rule vcocap_round [OF assms(1) at_changes [OF Suc.prems(3)] n1])
  have nz: "(of_nat n :: u8) \<noteq> 0" using u8_of_nat_le [OF n63] m by auto
  have s: "(of_nat (Suc m) :: u8) - 1 = of_nat m" by simp
  show ?case
  proof (cases "m = lo")
    case True
    then have "vco_comparator hi lo m = VCO_NORM" using hi by (simp add: vco_comparator_def)
    then show ?thesis using v nz True by (auto simp add: s m add.commute simp del: of_nat_Suc) simp
  next
    case False
    then have "vco_comparator hi lo m = VCO_LOW"
      using Suc.prems m hi by (simp add: vco_comparator_def)
    then show ?thesis
      using v nz Suc.IH [of m v] Suc.prems False m by (simp add: s del: of_nat_Suc)
  qed
qed simp

lemma poll_at:
  assumes "vco_settled base st hi lo s" "at_vcocap base st s n u"
  shows "\<exists>v. vtune_poll (Suc i) dev base w u = (Inr (vco_comparator hi lo n = w), v) \<and>
    at_vcocap base st s n v"
  using assms(2)
proof (induction i arbitrary: u)
  case (0 u)
  obtain v where v: "get_vtune dev base u = (Inr (vco_comparator hi lo n), v)" "at_vcocap base st s n v"
    by (rule get_vtune_at [OF assms(1) 0])
  then show ?case by (simp add: bindE_def)
next
  case (Suc i u)
  obtain v where v: "get_vtune dev base u = (Inr (vco_comparator hi lo n), v)" "at_vcocap base st s n v"
    by (rule get_vtune_at [OF assms(1) Suc.prems])
  have "vtune_poll (Suc (Suc i)) dev base w u =
    (if vco_comparator hi lo n = w then (Inr True, v) else vtune_poll (Suc i) dev base w v)"
    unfolding vtune_poll.simps(2) [of "Suc i"] by (simp add: bindE_def v(1))
  then show ?case
    using Suc.IH [OF v(2)] v(2) by (simp split del: if_split) (simp split: if_splits)
qed

lemma walk_low:
  assumes "vco_settled base st hi lo s" "n \<le> lo" "at_vcocap base st s n u"
  shows "\<exists>v. vtune_walk dev base VCO_LOW (of_nat n) st u = (Inr (of_nat (lo + 1)), v) \<and>
    at_vcocap base st s (lo + 1) v"
  using assms(2,3)
proof (induction "lo - n" arbitrary: n u rule: less_induct)
  case less
  have hi: "1 \<le> hi" "hi \<le> lo" "lo \<le> 62" using assms(1) by (auto simp add: vco_settled_def)
  have n1: "Suc n \<le> 63" using less.prems hi by simp
  obtain v where v: "\<forall>k :: u8 \<Rightarrow> ('s, u8) io.
      seqE (write_vcocap dev base (of_nat (Suc n)) st) (bindE (get_vtune dev base) k) u
      = k (vco_comparator hi lo (Suc n)) v" "at_vcocap base st s (Suc n) v"
    by (rule vcocap_round [OF assms(1) at_changes [OF less.prems(2)] n1])
  have ne: "(of_nat n :: u8) \<noteq> vtune_limit VCO_LOW"
    using u8_of_nat_le [of n] n1 by (auto simp add: vtune_limit_def)
  have s: "(of_nat n :: u8) + vtune_inc VCO_LOW = of_nat (Suc n)" by (simp add: vtune_inc_def)
  have run: "vtune_walk dev base VCO_LOW (of_nat n) st u =
     (if vco_comparator hi lo (Suc n) = VCO_LOW then (Inr (of_nat (Suc n)), v)
      else vtune_walk dev base VCO_LOW (of_nat (Suc n)) st v)"
    unfolding vtune_walk.simps [of dev base VCO_LOW "of_nat n" st] s using ne v(1)
    by (simp del: of_nat_Suc)
  show ?case
  proof (cases "n = lo")
    case True
    then have "vco_comparator hi lo (Suc n) = VCO_LOW" using hi by (simp add: vco_comparator_def)
    then show ?thesis using run v(2) True by simp
  next
    case False
    then have "vco_comparator hi lo (Suc n) \<noteq> VCO_LOW"
      using less.prems by (simp add: vco_comparator_def)
    then show ?thesis
      using run v(2) less.hyps [of "Suc n" v] less.prems False by (simp del: of_nat_Suc)
  qed
qed

lemma walk_high:
  assumes "vco_settled base st hi lo s" "hi \<le> n" "at_vcocap base st s n u"
  shows "\<exists>v. vtune_walk dev base VCO_HIGH (of_nat n) st u = (Inr (of_nat (hi - 1)), v) \<and>
    at_vcocap base st s (hi - 1) v"
  using assms(2,3)
proof (induction n arbitrary: u)
  case 0
  then show ?case using assms(1) by (simp add: vco_settled_def)
next
  case (Suc n)
  have hi: "1 \<le> hi" "hi \<le> lo" "lo \<le> 62" using assms(1) by (auto simp add: vco_settled_def)
  have n1: "Suc n \<le> 63" using Suc.prems by (simp add: at_vcocap_def)
  then have n2: "n \<le> 63" by simp
  obtain v where v: "\<forall>k :: u8 \<Rightarrow> ('s, u8) io.
      seqE (write_vcocap dev base (of_nat n) st) (bindE (get_vtune dev base) k) u
      = k (vco_comparator hi lo n) v" "at_vcocap base st s n v"
    by (rule vcocap_round [OF assms(1) at_changes [OF Suc.prems(2)] n2])
  have ne: "(of_nat (Suc n) :: u8) \<noteq> vtune_limit VCO_HIGH"
    using u8_of_nat_le [OF n1] by (auto simp add: vtune_limit_def)
  have s: "(of_nat (Suc n) :: u8) + vtune_inc VCO_HIGH = of_nat n" by (simp add: vtune_inc_def)
  have run: "vtune_walk dev base VCO_HIGH (of_nat (Suc n)) st u =
     (if vco_comparator hi lo n = VCO_HIGH then (Inr (of_nat n), v)
      else vtune_walk dev base VCO_HIGH (of_nat n) st v)"
    unfolding vtune_walk.simps [of dev base VCO_HIGH "of_nat (Suc n)" st] s using ne v(1)
    by (simp del: of_nat_Suc)
  show ?case
  proof (cases "n < hi")
    case True
    then have "vco_comparator hi lo n = VCO_HIGH" "hi = Suc n"
      using Suc.prems by (simp_all add: vco_comparator_def)
    then show ?thesis using run v(2) by simp
  next
    case False
    then have "vco_comparator hi lo n \<noteq> VCO_HIGH" by (simp add: vco_comparator_def)
    then show ?thesis using run v(2) Suc.IH [of v] False by (simp del: of_nat_Suc)
  qed
qed

lemma wait_low:
  assumes "vco_settled base st hi lo s" "at_vcocap base st s n u"
  shows "\<exists>v. wait_for_vtune_value dev base VCO_LOW (of_nat n) st u = (Inr (of_nat (max n (lo + 1))), v)
    \<and> at_vcocap base st s (max n (lo + 1)) v"
proof -
  obtain v where v: "vtune_poll 15 dev base VCO_LOW u = (Inr (vco_comparator hi lo n = VCO_LOW), v)"
      "at_vcocap base st s n v"
    using poll_at [OF assms, of 14 VCO_LOW] by auto
  have hi: "hi \<le> lo" using assms(1) by (simp add: vco_settled_def)
  show ?thesis
  proof (cases "lo < n")
    case True
    then have "vco_comparator hi lo n = VCO_LOW" "max n (lo + 1) = n"
      using hi by (simp_all add: vco_comparator_def)
    then show ?thesis using v by (simp add: wait_for_vtune_value_def bindE_def)
  next
    case False
    then have "vco_comparator hi lo n \<noteq> VCO_LOW" by (simp add: vco_comparator_def)
    then show ?thesis
      using v(1) walk_low [OF assms(1) _ v(2)] False
      by (simp add: wait_for_vtune_value_def bindE_def max_def)
  qed
qed

lemma wait_high:
  assumes "vco_settled base st hi lo s" "at_vcocap base st s n u"
  shows "\<exists>v. wait_for_vtune_value dev base VCO_HIGH (of_nat n) st u = (Inr (of_nat (min n (hi - 1))), v)
    \<and> at_vcocap base st s (min n (hi - 1)) v"
proof -
  obtain v where v: "vtune_poll 15 dev base VCO_HIGH u = (Inr (vco_comparator hi lo n = VCO_HIGH), v)"
      "at_vcocap base st s n v"
    using poll_at [OF assms, of 14 VCO_HIGH] by auto
  show ?thesis
  proof (cases "n < hi")
    case True
    then have "vco_comparator hi lo n = VCO_HIGH" "min n (hi - 1) = n"
      by (simp_all add: vco_comparator_def)
    then show ?thesis using v by (simp add: wait_for_vtune_value_def bindE_def)
  next
    case False
    then have "vco_comparator hi lo n \<noteq> VCO_HIGH" "min n (hi - 1) = hi - 1"
      by (simp_all add: vco_comparator_def)
    then show ?thesis
      using v(1) walk_high [OF assms(1) _ v(2)] False
      by (simp add: wait_for_vtune_value_def bindE_def)
  qed
qed

lemma limits_from_high:
  assumes "vco_settled base st hi lo s" "h = hi - 1" "changes {base + 9} s u"
  shows "\<exists>v. seqE (write_vcocap dev base (of_nat (min 63 (h + 12))) st)
     (bindE (wait_for_vtune_value dev base VCO_LOW (of_nat (min 63 (h + 12))) st) (\<lambda>vcocap.
      bindE (vtune_low_to_norm dev base vcocap st) (\<lambda>low. returnE (of_nat h :: u8, low)))) u
    = (Inr (of_nat h, of_nat (lo + 1)), v) \<and> at_vcocap base st s lo v"
proof -
  have hi: "1 \<le> hi" "hi \<le> lo" "lo \<le> 62" using assms(1) by (auto simp add: vco_settled_def)
  let ?n = "min 63 (h + 12)"
  obtain a where a: "write_vcocap dev base (of_nat ?n) st u = (Inr (), a)" "at_vcocap base st s ?n a"
    by (rule write_vcocap_at [OF assms(1,3), of ?n]) auto
  obtain b m where b: "wait_for_vtune_value dev base VCO_LOW (of_nat ?n) st a = (Inr (of_nat m), b)"
      "at_vcocap base st s m b" and m: "m = max ?n (lo + 1)"
    using wait_low [OF assms(1) a(2)] by blast
  have d: "lo < m" "m - lo \<le> 20" using hi assms(2) m by auto
  obtain c where c: "vtune_low_to_norm dev base (of_nat m) st b = (Inr (of_nat (lo + 1)), c)"
      "at_vcocap base st s lo c"
    using low_to_norm_finds [OF assms(1) d b(2)] unfolding vtune_low_to_norm_def by blast
  show ?thesis using c(2) by (simp add: bindE_def a(1) b(1) c(1) del: of_nat_Suc of_nat_add)
qed

lemma limits_from_low:
  assumes "vco_settled base st hi lo s" "changes {base + 9} s u"
  shows "\<exists>v. seqE (write_vcocap dev base (of_nat (lo - 11)) st)
     (bindE (wait_for_vtune_value dev base VCO_HIGH (of_nat (lo - 11)) st) (\<lambda>vcocap.
      bindE (vtune_high_to_norm dev base vcocap st) (\<lambda>high. returnE (high, of_nat (lo + 1) :: u8)))) u
    = (Inr (of_nat (hi - 1), of_nat (lo + 1)), v) \<and> at_vcocap base st s hi v"
proof -
  have hi: "1 \<le> hi" "hi \<le> lo" "lo \<le> 62" using assms(1) by (auto simp add: vco_settled_def)
  let ?n = "lo - 11"
  obtain a where a: "write_vcocap dev base (of_nat ?n) st u = (Inr (), a)" "at_vcocap base st s ?n a"
    by (rule write_vcocap_at [OF assms, of ?n]) (use hi in auto)
  obtain b m where b: "wait_for_vtune_value dev base VCO_HIGH (of_nat ?n) st a = (Inr (of_nat m), b)"
      "at_vcocap base st s m b" and m: "m = min ?n (hi - 1)"
    using wait_high [OF assms(1) a(2)] by blast
  have d: "m < hi" "hi - m \<le> 20" using hi m by auto
  obtain c where c: "vtune_high_to_norm dev base (of_nat m) st b = (Inr (of_nat (hi - 1)), c)"
      "at_vcocap base st s hi c"
    using high_to_norm_finds [OF assms(1) d b(2)] unfolding vtune_high_to_norm_def by blast
  show ?thesis using c(2) by (simp add: bindE_def a(1) b(1) c(1) del: of_nat_Suc of_nat_add of_nat_diff)
qed

lemma limits_found:
  assumes "vco_settled base st hi lo s" "at_vcocap base st s est s"
    "hi \<le> est + 20" "est < hi + 20" "est \<le> lo + 20"
  shows "\<exists>v. tune_vcocap_limits dev (of_nat est) base st s = (Inr (of_nat (hi - 1), of_nat (lo + 1)), v)
    \<and> changes {base + 9} s v"
proof -
  have hi: "1 \<le> hi" "hi \<le> lo" "lo \<le> 62" using assms(1) by (auto simp add: vco_settled_def)
  obtain a where a: "get_vtune dev base s = (Inr (vco_comparator hi lo est), a)"
      "at_vcocap base st s est a"
    by (rule get_vtune_at [OF assms(1,2)])
  define h where "h = hi - 1"
  have h: "h \<le> 61" using hi by (simp add: h_def)
  have uh: "uint (of_nat h :: u8) = int h" using h by (simp add: uint_nat u8_of_nat_le)
  have hne: "(of_nat h :: u8) \<noteq> 0x3f" using h u8_of_nat_le [of h] by auto
  have start: "(if uint (of_nat h :: u8) + 12 < 63 then of_nat h + VCOCAP_MAX_LOW_HIGH
      else VCOCAP_MAX_VALUE) = (of_nat (min 63 (h + 12)) :: u8)"
    unfolding uh by (simp add: min_def)
  have up: "\<exists>v. seqE (write_vcocap dev base (of_nat (min 63 (h + 12))) st)
     (bindE (wait_for_vtune_value dev base VCO_LOW (of_nat (min 63 (h + 12))) st) (\<lambda>vcocap.
      bindE (vtune_low_to_norm dev base vcocap st) (\<lambda>low. returnE (of_nat h :: u8, low)))) u
    = (Inr (of_nat h, of_nat (lo + 1)), v) \<and> changes {base + 9} s v"
    if "at_vcocap base st s n u" for n u
    using limits_from_high [OF assms(1) h_def at_changes [OF that]] at_changes by blast
  consider "est < hi" | "hi \<le> est" "est \<le> lo" | "lo < est" by linarith
  then show ?thesis
  proof cases
    case 1
    then have v: "vco_comparator hi lo est = VCO_HIGH" by (simp add: vco_comparator_def)
    have d: "hi - est \<le> 20" using assms(3) by linarith
    obtain b where b: "vtune_high_to_norm dev base (of_nat est) st a = (Inr (of_nat h), b)"
        "at_vcocap base st s hi b"
      using high_to_norm_finds [OF assms(1) 1 d a(2)]
      unfolding vtune_high_to_norm_def h_def by blast
    show ?thesis
      using up [OF b(2)] unfolding h_def [symmetric]
      by (cases "h < 51") (simp_all add: tune_vcocap_limits_def bindE_def [of "get_vtune dev base"]
          a(1) v bindE_def [of "vtune_high_to_norm dev base (of_nat est) st"] b(1) hne uh
          Let_def bindE_assoc min_def)
  next
    case 2
    then have v: "vco_comparator hi lo est = VCO_NORM" by (simp add: vco_comparator_def)
    have d: "est + 1 - hi \<le> 20" using assms(4) by linarith
    obtain b where b: "vtune_norm_to_high dev base (of_nat est) st a = (Inr (of_nat h), b)"
        "at_vcocap base st s h b"
      using norm_to_high_finds [OF assms(1) 2 d a(2)]
      unfolding vtune_norm_to_high_def h_def by blast
    show ?thesis
      using up [OF b(2)] unfolding h_def [symmetric]
      by (cases "h < 51") (simp_all add: tune_vcocap_limits_def bindE_def [of "get_vtune dev base"]
          a(1) v bindE_def [of "vtune_norm_to_high dev base (of_nat est) st"] b(1) hne uh
          Let_def bindE_assoc min_def)
  next
    case 3
    then have v: "vco_comparator hi lo est = VCO_LOW" using hi by (simp add: vco_comparator_def)
    have d: "est - lo \<le> 20" using assms(5) by linarith
    obtain b where b: "vtune_low_to_norm dev base (of_nat est) st a = (Inr (of_nat (lo + 1)), b)"
        "at_vcocap base st s lo b"
      using low_to_norm_finds [OF assms(1) 3 d a(2)]
      unfolding vtune_low_to_norm_def by blast
    have ul: "uint (of_nat (Suc lo) :: u8) = int (Suc lo)"
      using hi u8_of_nat_le [of "Suc lo"] by (simp only: uint_nat)
    have e: "12 \<le> lo \<Longrightarrow> (of_nat (Suc lo) :: u8) - 12 = of_nat (lo - 11)"
      by (simp add: of_nat_diff)
    obtain c where "seqE (write_vcocap dev base (of_nat (lo - 11)) st)
     (bindE (wait_for_vtune_value dev base VCO_HIGH (of_nat (lo - 11)) st) (\<lambda>vcocap.
      bindE (vtune_high_to_norm dev base vcocap st) (\<lambda>high. returnE (high, of_nat (lo + 1) :: u8)))) b
      = (Inr (of_nat (hi - 1), of_nat (lo + 1)), c)" "changes {base + 9} s c"
      using limits_from_low [OF assms(1) at_changes [OF b(2)]] at_changes by blast
    then show ?thesis
      by (cases "12 \<le> lo") (simp_all add: tune_vcocap_limits_def bindE_def [of "get_vtune dev base"]
          a(1) v bindE_def [of "vtune_low_to_norm dev base (of_nat est) st"] b(1) ul e Let_def
          bindE_assoc del: of_nat_Suc of_nat_diff)
  qed
qed

end

lemma vcocap_middle_value:
  assumes "1 \<le> hi" "hi \<le> lo" "lo \<le> 62"
  shows "vcocap_middle (of_nat (hi - 1)) (of_nat (lo + 1)) = of_nat ((hi + lo) div 2)"
proof -
  have u: "uint (of_nat (hi - 1) :: u8) = int hi - 1" "uint (of_nat (lo + 1) :: u8) = int lo + 1"
    using assms u8_of_nat_le [of "hi - 1"] u8_of_nat_le [of "lo + 1"]
    by (simp_all add: uint_nat of_nat_diff del: of_nat_add of_nat_Suc)
  have "int hi - 1 + (int lo + 1 - (int hi - 1)) sdiv 2 = int ((hi + lo) div 2)"
    using assms by (simp add: signed_divide_int_def sgn_if zdiv_int)
  then show ?thesis
    unfolding vcocap_middle_def u by simp
qed

lemma vcocap_middle_le:
  assumes "h \<le> 0x3f" "l \<le> 0x3f"
  shows "vcocap_middle h l \<le> 0x3f"
proof -
  define x where "x = uint h"
  define y where "y = uint l"
  have xy: "0 \<le> x" "x \<le> 63" "0 \<le> y" "y \<le> 63"
    using assms by (simp_all add: x_def y_def word_le_def)
  define z where "z = x + (y - x) sdiv 2"
  have z: "0 \<le> z" "z \<le> 63"
    using xy unfolding z_def signed_divide_int_def by (auto simp add: sgn_if)
  have "vcocap_middle h l = word_of_int z"
    by (simp add: vcocap_middle_def z_def x_def y_def)
  then show ?thesis using z by (simp add: word_le_def uint_word_of_int_small)
qed

context lms_regs begin

lemma tune_vcocap_finds:
  assumes "vco_settled base st hi lo s" "at_vcocap base st s est s"
    "hi \<le> est + 20" "est < hi + 20" "est \<le> lo + 20"
  shows "\<exists>t. tune_vcocap dev (of_nat est) base st r s = (Inr (0, of_nat ((hi + lo) div 2)), t) \<and>
    at_vcocap base st s ((hi + lo) div 2) t"
proof -
  have hi: "1 \<le> hi" "hi \<le> lo" "lo \<le> 62" using assms(1) by (auto simp add: vco_settled_def)
  define c where "c = (hi + lo) div 2"
  obtain h l a where a: "tune_vcocap_limits dev (of_nat est) base st s = (Inr (h, l), a)"
      "changes {base + 9} s a" and mid: "vcocap_middle h l = of_nat c"
    using limits_found [OF assms] vcocap_middle_value [OF hi, folded c_def] by blast
  have c: "hi \<le> c" "c \<le> lo" "c \<le> 63" using hi unfolding c_def by auto
  obtain b where b: "write_vcocap dev base (of_nat c) st a = (Inr (), b)" "at_vcocap base st s c b"
    by (rule write_vcocap_at [OF assms(1) a(2) c(3)])
  obtain t where t: "get_vtune dev base b = (Inr (vco_comparator hi lo c), t)" "at_vcocap base st s c t"
    by (rule get_vtune_at [OF assms(1) b(2)])
  have n: "vco_comparator hi lo c = VCO_NORM" using c by (simp add: vco_comparator_def)
  have "tune_vcocap dev (of_nat est) base st r s = (Inr (0, of_nat c), t)"
    unfolding tune_vcocap_def
    by (simp add: catchE_def bindE_def a(1) mid b(1) t(1) n Let_def)
  then show ?thesis using t(2) unfolding c_def by blast
qed

text \<open>With comparators that answer anything: the search ends with status 0 or
  BLADERF_ERR_UNEXPECTED, and with status 0 only if the last comparator reading was NORM with the
  result in the register.\<close>

lemma tune_vcocap_safe:
  assumes "base = 0x10 \<or> base = 0x20" "st AND 0xc0 = st" "est \<le> 0x3f"
    "ok s" "reg s (base + 9) AND 0xc0 = st"
  shows "\<exists>status v t. tune_vcocap dev est base st r s = (Inr (status, v), t) \<and>
    (status = 0 \<or> status = BLADERF_ERR_UNEXPECTED) \<and> vcocap_only base st s t \<and>
    (status = 0 \<longrightarrow> v \<le> 0x3f \<and> reg t (base + 9) = v OR st \<and>
      (\<exists>u. get_vtune dev base u = (Inr VCO_NORM, t) \<and> reg u (base + 9) = v OR st))"
proof -
  obtain q a where a: "tune_vcocap_limits dev est base st s = (q, a)"
    by (cases "tune_vcocap_limits dev est base st s")
  have k: "vcocap_only base st s a"
      "q = Inl BLADERF_ERR_UNEXPECTED \<or> (\<exists>h l. q = Inr (h, l) \<and> h \<le> 0x3f \<and> l \<le> 0x3f)"
    using keeps_limits [OF assms(1-3)] assms(4,5) a unfolding keeps_def by auto
  show ?thesis
  proof (cases "q = Inl BLADERF_ERR_UNEXPECTED")
    case True
    then show ?thesis using k(1) by (simp add: tune_vcocap_def catchE_def bindE_def a)
  next
    case False
    then obtain h l where q: "q = Inr (h, l)" "h \<le> 0x3f" "l \<le> 0x3f" using k(2) by blast
    define v where "v = vcocap_middle h l"
    have v: "v \<le> 0x3f" unfolding v_def by (rule vcocap_middle_le [OF q(2,3)])
    obtain b where b: "write_vcocap dev base v st a = (Inr (), b)" "changes {base + 9} s b"
        "reg b (base + 9) = v OR st"
    proof
      show "write_vcocap dev base v st a = (Inr (), snd (dev_lms_write dev (base + 9) (v OR st) a))"
        "changes {base + 9} s (snd (dev_lms_write dev (base + 9) (v OR st) a))"
        "reg (snd (dev_lms_write dev (base + 9) (v OR st) a)) (base + 9) = v OR st"
        using assms(1) k(1) by (auto simp add: write_vcocap_def dev_laws changes_def vcocap_only_def)
    qed
    have "ok b" using b(2) by (rule changes_ok)
    obtain w t where t: "get_vtune dev base b = (Inr w, t)" "changes {base + 9} s t"
        "reg t (base + 9) = v OR st"
    proof
      show "get_vtune dev base b = (Inr (drop_bit 6 (snd (fst (dev_lms_read dev (base + 10) b)))),
          snd (dev_lms_read dev (base + 10) b))"
        "changes {base + 9} s (snd (dev_lms_read dev (base + 10) b))"
        "reg (snd (dev_lms_read dev (base + 10) b)) (base + 9) = v OR st"
        using assms(1) b \<open>ok b\<close> by (auto simp add: get_vtune_def dev_laws changes_def)
    qed
    have run: "tune_vcocap dev est base st r s
        = (Inr (if w \<noteq> VCO_NORM then BLADERF_ERR_UNEXPECTED else 0, v), t)"
      by (simp add: tune_vcocap_def catchE_def bindE_def a q(1) v_def [symmetric] b(1) t(1) Let_def)
    have "(v OR st) AND 0xc0 = st"
    proof -
      have "v AND 0xc0 = 0" using u8_le_3f [OF v] by (simp add: word8_eq_iff bit_simps)
      then show ?thesis using assms(2) by (simp add: bit.conj_disj_distrib2)
    qed
    then have "vcocap_only base st s t" using t by (simp add: vcocap_only_def)
    then show ?thesis
    proof (cases "w = VCO_NORM")
      case True
      then show ?thesis using run v t b(3) \<open>vcocap_only base st s t\<close> by auto
    next
      case False
      then show ?thesis using run \<open>vcocap_only base st s t\<close> by auto
    qed
  qed
qed

end

section \<open>Loading the PLL\<close>

definition pll_base :: "bladerf_module \<Rightarrow> u8" where
  "pll_base m = (if m = BLADERF_MODULE_RX then 0x20 else 0x10)"

text \<open>The registers of a PLL that hold the words, the configuration and VCOCAP.\<close>

definition pll_regs :: "u8 \<Rightarrow> u8 set" where
  "pll_regs base = {base, base + 1, base + 2, base + 3, base + 5, base + 9}"

definition pll_loaded :: "u8 \<Rightarrow> lms_freq \<Rightarrow> (u8 \<Rightarrow> u8) \<Rightarrow> bool" where
  "pll_loaded base f r \<longleftrightarrow>
     r base = ucast (drop_bit 1 (lf_nint f)) \<and>
     r (base + 1) = ucast (push_bit 7 (lf_nint f AND 1)) OR ucast (drop_bit 16 (lf_nfrac f) AND 0x7f) \<and>
     r (base + 2) = ucast (drop_bit 8 (lf_nfrac f) AND 0xff) \<and>
     r (base + 3) = ucast (lf_nfrac f AND 0xff) \<and>
     drop_bit 2 (r (base + 5)) = lf_freqsel f AND 0x3f"

lemma pll_word_fields:
  "push_bit 1 (ucast (ucast (drop_bit 1 nint) :: u8)) OR
     ucast (drop_bit 7 (((ucast (push_bit 7 (nint AND 1)) :: u8) OR ucast (drop_bit 16 (nfrac :: u32) AND 0x7f)) AND 0x80))
     = (nint :: u16) AND 0x1ff"
  "push_bit 16 (ucast ((ucast (push_bit 7 (nint AND 1)) :: u8) OR ucast (drop_bit 16 nfrac AND 0x7f)) AND 0x7f)
     OR push_bit 8 (ucast (ucast (drop_bit 8 nfrac AND 0xff) :: u8)) OR ucast (ucast (nfrac AND 0xff) :: u8)
     = nfrac AND 0x7fffff"
  by (simp_all only: word16_eq_iff word32_eq_iff) (simp_all add: bit_simps numeral_eq_Suc del: push_bit_Suc)

context lms_pll begin

lemma pll_loaded_changes:
  assumes "changes A t u" "pll_loaded base f (reg t)" "A \<subseteq> {base + 9, 0x09}" "base = 0x10 \<or> base = 0x20"
  shows "pll_loaded base f (reg u)"
proof -
  have "reg u b = reg t b" if "b \<in> {base, base + 1, base + 2, base + 3, base + 5}" for b
    using changes_reg [OF changes_mono [OF assms(1,3)], of b] that assms(4) by auto
  then show ?thesis using assms(2) by (simp add: pll_loaded_def)
qed

lemma freqsel_field:
  "drop_bit 2 (push_bit 2 (freqsel :: u8) OR (if low then 1 else 2)) = freqsel AND 0x3f"
  "drop_bit 2 ((w AND NOT 0xfc) OR push_bit 2 (freqsel :: u8)) = freqsel AND 0x3f"
  by (cases low; simp add: word8_eq_iff bit_simps) (simp add: word8_eq_iff bit_simps)

lemma set_precalculated_body_runs:
  assumes s: "ok s" and m: "m \<noteq> BLADERF_MODULE_INVALID" and base: "base = pll_base m"
  defines "st \<equiv> reg s (base + 9) AND NOT 0x3f"
  shows "\<exists>t. set_precalculated_body dev m f s =
      (if lf_flags f AND LMS_FREQ_FLAGS_FORCE_VCOCAP \<noteq> 0 then (Inr (0, lf_vcocap f), t)
       else tune_vcocap dev (lf_vcocap f) base st 0xff t) \<and>
    changes (pll_regs base) s t \<and> pll_loaded base f (reg t) \<and> reg t (base + 9) = lf_vcocap f OR st"
proof -
  have b: "base = 0x10 \<or> base = 0x20" using base by (simp add: pll_base_def)
  obtain s1 where s1: "LMS_READ dev (base + 9) s = (Inr (reg s (base + 9)), s1)" "changes {} s s1"
    using s b by (auto simp add: dev_laws changes_def)
  obtain s2 where s2: "write_vcocap dev base (lf_vcocap f) st s1 = (Inr (), s2)"
      "changes {base + 9} s s2" "reg s2 (base + 9) = lf_vcocap f OR st"
  proof
    let ?u = "snd (dev_lms_write dev (base + 9) (lf_vcocap f OR st) s1)"
    show "write_vcocap dev base (lf_vcocap f) st s1 = (Inr (), ?u)" "changes {base + 9} s ?u"
      "reg ?u (base + 9) = lf_vcocap f OR st"
      using b s1(2) by (auto simp add: write_vcocap_def dev_laws changes_def)
  qed
  let ?low = "lf_flags f AND LMS_FREQ_FLAGS_LOW_BAND \<noteq> 0"
  have a5: "base + 5 = (if m = BLADERF_MODULE_TX then 0x15 else 0x25)"
    using m by (cases m) (simp_all add: base pll_base_def)
  obtain s3 where s3: "write_pll_config dev m (lf_freqsel f) ?low s2 = (Inr (), s3)"
      "changes {base + 5} s2 s3" "drop_bit 2 (reg s3 (base + 5)) = lf_freqsel f AND 0x3f"
    using write_pll_config_runs [OF changes_ok [OF s2(2)] a5, of "lf_freqsel f" ?low] freqsel_field
    by metis
  obtain t where t: "write_pll_words dev (if dev_atomic_pll dev then base OR 0x80 else base)
         (ucast (drop_bit 1 (lf_nint f)))
         (ucast (push_bit 7 (lf_nint f AND 1)) OR ucast (drop_bit 16 (lf_nfrac f) AND 0x7f))
         (ucast (drop_bit 8 (lf_nfrac f) AND 0xff)) (ucast (lf_nfrac f AND 0xff)) s3 = (Inr (), t)"
      "changes {base, base + 1, base + 2, base + 3} s3 t"
      "reg t base = ucast (drop_bit 1 (lf_nint f))"
      "reg t (base + 1) = ucast (push_bit 7 (lf_nint f AND 1)) OR ucast (drop_bit 16 (lf_nfrac f) AND 0x7f)"
      "reg t (base + 2) = ucast (drop_bit 8 (lf_nfrac f) AND 0xff)"
      "reg t (base + 3) = ucast (lf_nfrac f AND 0xff)"
    using pll_words_written [OF changes_ok [OF s3(2)] b] by blast
  have "changes (pll_regs base) s t"
    using changes_trans [OF changes_trans [OF s2(2) s3(2)] t(2)]
    by (rule changes_mono) (auto simp add: pll_regs_def)
  moreover have "reg t (base + 5) = reg s3 (base + 5)" "reg t (base + 9) = lf_vcocap f OR st"
    using changes_reg [OF t(2), of "base + 5"] changes_reg [OF t(2), of "base + 9"]
      changes_reg [OF s3(2), of "base + 9"] s2(3) b by auto
  moreover have "set_precalculated_body dev m f s =
      (if lf_flags f AND LMS_FREQ_FLAGS_FORCE_VCOCAP \<noteq> 0 then (Inr (0, lf_vcocap f), t)
       else tune_vcocap dev (lf_vcocap f) base st 0xff t)"
    unfolding set_precalculated_body_def Let_def base [unfolded pll_base_def, symmetric]
    unfolding st_def [symmetric]
    by (cases "lf_flags f AND LMS_FREQ_FLAGS_FORCE_VCOCAP \<noteq> 0")
      (simp_all only: bindE_def s1(1) st_def [symmetric] s2(1) s3(1) t(1) prod.case sum.case
        returnE_apply if_True if_False simp_thms)
  moreover have "pll_loaded base f (reg t)"
    using t(3-) s3(3) \<open>reg t (base + 5) = reg s3 (base + 5)\<close> by (simp add: pll_loaded_def)
  ultimately show ?thesis by blast
qed

end

context lms_pll begin

lemma lms_dsm_runs:
  assumes "ok s"
  obtains t where "lms_dsm dev on s = (Inr (), t)" "changes {0x09} s t"
    "reg t 0x09 = (if on then reg s 0x09 OR 0x05 else reg s 0x09 AND NOT 0x05)"
proof
  let ?a = "snd (dev_lms_read dev 0x09 s)"
  let ?d = "if on then reg s 0x09 OR 0x05 else reg s 0x09 AND NOT 0x05"
  let ?t = "snd (dev_lms_write dev 0x09 ?d ?a)"
  have a: "LMS_READ dev 0x09 s = (Inr (reg s 0x09), ?a)" "ok ?a"
    using assms by (simp_all add: dev_laws lms_volatile_def)
  show "lms_dsm dev on s = (Inr (), ?t)"
    by (simp add: lms_dsm_def bindE_def a LMS_WRITE_apply)
  show "changes {0x09} s ?t"
    using assms a by (auto simp add: changes_def dev_laws lms_resets_def)
  show "reg ?t 0x09 = ?d"
    using a by (simp add: dev_laws lms_resets_def lms_volatile_def)
qed

lemma word_0xc0: "((w :: u8) AND NOT 0x3f) = w AND 0xc0"
  by (simp add: word8_eq_iff bit_simps)

lemma pll_base_cases: "pll_base m = 0x10 \<or> pll_base m = 0x20"
  by (simp add: pll_base_def)

text \<open>Setting a precalculated frequency: nothing but the PLL's own registers and the DSM
  register changes, the words are loaded and the modulators end up off whatever the search
  says; the status is that of the search.\<close>

lemma lms_set_precalculated_frequency_runs:
  assumes s: "ok s" and m: "m \<noteq> BLADERF_MODULE_INVALID" and v: "lf_vcocap f \<le> 0x3f"
  shows "\<exists>status r t. lms_set_precalculated_frequency dev m f s = (Inr (status, f\<lparr>lf_vcocap_result := r\<rparr>), t) \<and>
    changes (insert 0x09 (pll_regs (pll_base m))) s t \<and> pll_loaded (pll_base m) f (reg t) \<and>
    reg t 0x09 = reg s 0x09 AND NOT 0x05 \<and>
    (status = 0 \<or> status = BLADERF_ERR_UNEXPECTED) \<and>
    (status = 0 \<longrightarrow> reg t (pll_base m + 9) = r OR (reg s (pll_base m + 9) AND 0xc0) \<and> r \<le> 0x3f) \<and>
    (lf_flags f AND LMS_FREQ_FLAGS_FORCE_VCOCAP \<noteq> 0 \<longrightarrow> status = 0 \<and> r = lf_vcocap f)"
proof -
  define base where "base = pll_base m"
  have b: "base = 0x10 \<or> base = 0x20" unfolding base_def by (rule pll_base_cases)
  define f1 where "f1 = f\<lparr>lf_vcocap_result := 0xff\<rparr>"
  have f1: "lf_flags f1 = lf_flags f" "lf_vcocap f1 = lf_vcocap f"
    "pll_loaded base f1 = pll_loaded base f"
    by (simp_all add: f1_def pll_loaded_def fun_eq_iff)
  obtain s1 where s1: "lms_dsm dev True s = (Inr (), s1)" "changes {0x09} s s1"
      "reg s1 0x09 = reg s 0x09 OR 0x05"
    using lms_dsm_runs [OF s, of True] by auto
  have r9: "reg s1 (base + 9) = reg s (base + 9)"
    using b changes_reg [OF s1(2), of "base + 9"] by (auto simp add: lms_volatile_def)
  define st where "st = reg s (base + 9) AND 0xc0"
  have st: "st AND 0xc0 = st" by (simp add: st_def)
  obtain t where t: "set_precalculated_body dev m f1 s1 =
      (if lf_flags f AND LMS_FREQ_FLAGS_FORCE_VCOCAP \<noteq> 0 then (Inr (0, lf_vcocap f), t)
       else tune_vcocap dev (lf_vcocap f) base st 0xff t)"
      "changes (pll_regs base) s1 t" "pll_loaded base f (reg t)" "reg t (base + 9) = lf_vcocap f OR st"
    using set_precalculated_body_runs [OF changes_ok [OF s1(2)] m base_def, of f1]
    unfolding word_0xc0 r9 f1 st_def [symmetric] by blast
  have ov: "(v OR st) AND 0xc0 = st" if "v \<le> 0x3f" for v
  proof -
    have "v AND 0xc0 = 0" using u8_le_3f [OF that] by (simp add: word8_eq_iff bit_simps)
    then show ?thesis by (simp add: bit.conj_disj_distrib2 st)
  qed
  have "\<exists>status r u. set_precalculated_body dev m f1 s1 = (Inr (status, r), u) \<and>
      changes {base + 9} t u \<and> (status = 0 \<or> status = BLADERF_ERR_UNEXPECTED) \<and>
      (status = 0 \<longrightarrow> reg u (base + 9) = r OR st \<and> r \<le> 0x3f) \<and>
      (lf_flags f AND LMS_FREQ_FLAGS_FORCE_VCOCAP \<noteq> 0 \<longrightarrow> status = 0 \<and> r = lf_vcocap f)"
  proof (cases "lf_flags f AND LMS_FREQ_FLAGS_FORCE_VCOCAP \<noteq> 0")
    case True
    then show ?thesis using t(1,4) v changes_refl [OF changes_ok [OF t(2)]] by auto
  next
    case False
    have "reg t (base + 9) AND 0xc0 = st" by (simp add: t(4) ov [OF v])
    then show ?thesis
      using False t(1) tune_vcocap_safe [where r = "0xff", OF b st v changes_ok [OF t(2)]]
      by (auto simp add: vcocap_only_def)
  qed
  then obtain status r u where u: "set_precalculated_body dev m f1 s1 = (Inr (status, r), u)"
      "changes {base + 9} t u" "status = 0 \<or> status = BLADERF_ERR_UNEXPECTED"
      "status = 0 \<longrightarrow> reg u (base + 9) = r OR st \<and> r \<le> 0x3f"
      "lf_flags f AND LMS_FREQ_FLAGS_FORCE_VCOCAP \<noteq> 0 \<longrightarrow> status = 0 \<and> r = lf_vcocap f"
    by blast
  have u09: "reg u 0x09 = reg s 0x09 OR 0x05"
    using changes_reg [OF u(2), of "0x09"] changes_reg [OF t(2), of "0x09"] s1(3) b
    by (auto simp add: lms_volatile_def pll_regs_def)
  obtain w where w: "lms_dsm dev False u = (Inr (), w)" "changes {0x09} u w"
      "reg w 0x09 = reg u 0x09 AND NOT 0x05"
    using lms_dsm_runs [OF changes_ok [OF u(2)], of False] by auto
  have run: "lms_set_precalculated_frequency dev m f s = (Inr (status, f\<lparr>lf_vcocap_result := r\<rparr>), w)"
    unfolding lms_set_precalculated_frequency_def f1_def [symmetric] Let_def
    by (simp add: catchE_def bindE_def s1(1) u(1) w(1)) (simp add: f1_def)
  have "changes (insert 0x09 (pll_regs base)) s w"
    by (rule changes_mono [OF changes_trans [OF s1(2) changes_trans [OF t(2) changes_trans [OF u(2) w(2)]]]])
      (auto simp add: pll_regs_def)
  moreover have "pll_loaded base f (reg w)"
    by (rule pll_loaded_changes [OF changes_trans [OF u(2) w(2)] t(3) _ b]) simp
  moreover have "reg w 0x09 = reg s 0x09 AND NOT 0x05"
    by (simp add: w(3) u09 word8_eq_iff bit_simps)
  moreover have "reg w (base + 9) = reg u (base + 9)"
    using changes_reg [OF w(2), of "base + 9"] b by (auto simp add: lms_volatile_def)
  ultimately show ?thesis
    using run u(3-) unfolding base_def [symmetric] st_def [symmetric]
    by (intro exI [of _ status] exI [of _ r] exI [of _ w] conjI) (simp_all only: simp_thms)
qed

lemma lms_get_frequency_runs:
  assumes s: "ok s" and m: "base = pll_base m"
  shows "\<exists>t. lms_get_frequency dev m f s =
    (Inr (f\<lparr> lf_nint := push_bit 1 (ucast (reg s base)) OR ucast (drop_bit 7 (reg s (base + 1) AND 0x80)),
       lf_nfrac := push_bit 16 (ucast (reg s (base + 1)) AND 0x7f) OR push_bit 8 (ucast (reg s (base + 2)))
         OR ucast (reg s (base + 3)),
       lf_freqsel := drop_bit 2 (reg s (base + 5)),
       lf_x := push_bit (unat (drop_bit 2 (reg s (base + 5)) AND 7) - 3) 1,
       lf_vcocap := reg s (base + 9) AND 0x3f \<rparr>), t) \<and> changes {} s t"
proof -
  have "base = 0x10 \<or> base = 0x20" unfolding m by (rule pll_base_cases)
  then show ?thesis
    unfolding lms_get_frequency_def Let_def m [unfolded pll_base_def, symmetric]
    using s by (elim disjE) (auto simp add: dev_laws lms_volatile_def changes_def)
qed

lemma get_after_set:
  assumes s: "ok s" and l: "pll_loaded (pll_base m) g (reg s)"
  shows "\<exists>t f'. lms_get_frequency dev m f s = (Inr f', t) \<and> changes {} s t \<and>
    lf_nint f' = lf_nint g AND 0x1ff \<and> lf_nfrac f' = lf_nfrac g AND 0x7fffff \<and>
    lf_freqsel f' = lf_freqsel g AND 0x3f \<and>
    lf_x f' = push_bit (unat (lf_freqsel g AND 7) - 3) 1 \<and>
    lf_vcocap f' = reg s (pll_base m + 9) AND 0x3f"
proof -
  have "(lf_freqsel g AND 0x3f) AND 7 = lf_freqsel g AND 7"
    by (simp add: word8_eq_iff bit_simps)
  moreover obtain t where t: "lms_get_frequency dev m f s =
    (Inr (f\<lparr> lf_nint := lf_nint g AND 0x1ff, lf_nfrac := lf_nfrac g AND 0x7fffff,
       lf_freqsel := lf_freqsel g AND 0x3f,
       lf_x := push_bit (unat ((lf_freqsel g AND 0x3f) AND 7) - 3) 1,
       lf_vcocap := reg s (pll_base m + 9) AND 0x3f \<rparr>), t)" "changes {} s t"
    using lms_get_frequency_runs [OF s refl, of m f]
    unfolding l [unfolded pll_loaded_def, THEN conjunct1]
      l [unfolded pll_loaded_def, THEN conjunct2, THEN conjunct1]
      l [unfolded pll_loaded_def, THEN conjunct2, THEN conjunct2, THEN conjunct1]
      l [unfolded pll_loaded_def, THEN conjunct2, THEN conjunct2, THEN conjunct2, THEN conjunct1]
      l [unfolded pll_loaded_def, THEN conjunct2, THEN conjunct2, THEN conjunct2, THEN conjunct2]
      pll_word_fields by blast
  ultimately show ?thesis by simp
qed

end

lemma tuning_params_runs_vcocap:
  obtains b g k where "lms_calculate_tuning_params freq f = (0, g)"
    "tuned (clamp_frequency freq) b f g k" "lf_vcocap g \<le> 0x3f"
    "lf_flags g AND LMS_FREQ_FLAGS_FORCE_VCOCAP = 0"
proof -
  obtain b g k where g: "lms_calculate_tuning_params freq f = (0, g)"
      "tuned (clamp_frequency freq) b f g k"
    by (rule lms_calculate_tuning_params_runs)
  have "lf_flags g = (if clamp_frequency freq < BLADERF_BAND_HIGH then LMS_FREQ_FLAGS_LOW_BAND else 0)"
    using g(2) by (simp only: tuned_def)
  then have "lf_flags g AND LMS_FREQ_FLAGS_FORCE_VCOCAP = 0" by simp
  moreover have "lf_vcocap g \<le> 0x3f" using tuned_vcocap(2) [OF g(2)] by (rule order_trans) simp
  ultimately show thesis using that g by blast
qed

text \<open>Words that fit their fields read back as themselves.\<close>

lemma word_field_9: "w < 512 \<Longrightarrow> (w :: u16) AND 0x1ff = w"
  using and_mask_less' [of 9 w] less_mask_eq [of w 9] by (simp add: mask_eq_exp_minus_1)

lemma word_field_23: "w < 0x800000 \<Longrightarrow> (w :: u32) AND 0x7fffff = w"
  using less_mask_eq [of w 23] by (simp add: mask_eq_exp_minus_1)

lemma band_freqsel: "b \<in> set bands \<Longrightarrow> fr_value b AND 0x3f = fr_value b"
  unfolding bands_eq by auto

lemma lms_frequency_to_hz_cong:
  "lf_nint f = lf_nint g \<Longrightarrow> lf_nfrac f = lf_nfrac g \<Longrightarrow> lf_x f = lf_x g \<Longrightarrow>
   lms_frequency_to_hz f = lms_frequency_to_hz g"
  by (simp add: lms_frequency_to_hz_def)

lemma tuned_read_back:
  assumes "tuned freq b f g k"
  shows "lf_nint g AND 0x1ff = lf_nint g" "lf_freqsel g AND 0x3f = lf_freqsel g"
    "push_bit (unat (lf_freqsel g AND 7) - 3) 1 = lf_x g"
    "lf_nfrac g < 0x800000 \<Longrightarrow> lf_nfrac g AND 0x7fffff = lf_nfrac g"
proof -
  show "lf_nint g AND 0x1ff = lf_nint g"
    using tuned_hz(4) [OF assms] by (intro word_field_9) (simp add: word_less_nat_alt)
  have b: "b \<in> set bands" "lf_freqsel g = fr_value b" "unat (fr_value b AND 7) - 3 = k"
    "k \<in> {1, 2, 3, 4}" "unat (lf_x g) = 2 ^ k"
    using assms by (simp_all only: tuned_def)
  show "lf_freqsel g AND 0x3f = lf_freqsel g" by (simp add: b(2) band_freqsel [OF b(1)])
  have "unat (push_bit k 1 :: u8) = unat (lf_x g)"
    unfolding b(5) using b(4) by (auto simp add: unat_push_bit)
  then show "push_bit (unat (lf_freqsel g AND 7) - 3) 1 = lf_x g"
    unfolding b(2) b(3) by (simp only: word_unat_eq_iff)
  show "lf_nfrac g < 0x800000 \<Longrightarrow> lf_nfrac g AND 0x7fffff = lf_nfrac g" by (rule word_field_23)
qed

context lms_pll begin

text \<open>The loop answers as an ideal comparator once the words of \<open>f\<close> are loaded: HIGH below
  \<open>hi\<close>, NORM from \<open>hi\<close> to \<open>lo\<close>, LOW above.\<close>

definition vco_locks :: "u8 \<Rightarrow> lms_freq \<Rightarrow> nat \<Rightarrow> nat \<Rightarrow> bool" where
  "vco_locks base f hi lo \<longleftrightarrow> 1 \<le> hi \<and> hi \<le> lo \<and> lo \<le> 62 \<and>
     (\<forall>u. ok u \<longrightarrow> pll_loaded base f (reg u) \<longrightarrow>
        drop_bit 6 (snd (fst (dev_lms_read dev (base + 10) u)))
          = vco_comparator hi lo (unat (reg u (base + 9) AND 0x3f)))"

lemma vco_locks_settled:
  assumes "vco_locks base f hi lo" "ok s" "pll_loaded base f (reg s)" "base = 0x10 \<or> base = 0x20"
    "st = reg s (base + 9) AND 0xc0"
  shows "vco_settled base st hi lo s"
proof -
  have "pll_loaded base f (reg u)" "ok u" if "changes {base + 9} s u" for u
    using pll_loaded_changes [OF that assms(3) _ assms(4)] changes_ok [OF that] by simp_all
  then show ?thesis using assms by (simp add: vco_locks_def vco_settled_def)
qed

lemma lms_set_precalculated_frequency_locks:
  assumes s: "ok s" and m: "m \<noteq> BLADERF_MODULE_INVALID"
    and flags: "lf_flags f AND LMS_FREQ_FLAGS_FORCE_VCOCAP = 0"
    and est: "lf_vcocap f = of_nat est" "est \<le> 63"
    and lock: "vco_locks (pll_base m) f hi lo"
    and near: "hi \<le> est + 20" "est < hi + 20" "est \<le> lo + 20"
  shows "\<exists>t. lms_set_precalculated_frequency dev m f s
      = (Inr (0, f\<lparr>lf_vcocap_result := of_nat ((hi + lo) div 2)\<rparr>), t) \<and> ok t \<and>
    pll_loaded (pll_base m) f (reg t) \<and>
    reg t (pll_base m + 9) = of_nat ((hi + lo) div 2) OR (reg s (pll_base m + 9) AND 0xc0)"
proof -
  define base where "base = pll_base m"
  have b: "base = 0x10 \<or> base = 0x20" unfolding base_def by (rule pll_base_cases)
  have lock': "vco_locks base f hi lo" using lock by (simp add: base_def)
  then have hi: "1 \<le> hi" "hi \<le> lo" "lo \<le> 62" by (simp_all add: vco_locks_def)
  define f1 where "f1 = f\<lparr>lf_vcocap_result := 0xff\<rparr>"
  have f1: "lf_flags f1 = lf_flags f" "lf_vcocap f1 = lf_vcocap f"
    "pll_loaded base f1 = pll_loaded base f"
    by (simp_all add: f1_def pll_loaded_def fun_eq_iff)
  obtain s1 where s1: "lms_dsm dev True s = (Inr (), s1)" "changes {0x09} s s1"
    using lms_dsm_runs [OF s, of True] by auto
  have r9: "reg s1 (base + 9) = reg s (base + 9)"
    using b changes_reg [OF s1(2), of "base + 9"] by (auto simp add: lms_volatile_def)
  define st where "st = reg s (base + 9) AND 0xc0"
  have e: "lf_vcocap f \<le> 0x3f" using est by (simp add: word_le_nat_alt u8_of_nat_le)
  obtain t where t: "set_precalculated_body dev m f1 s1 = tune_vcocap dev (lf_vcocap f) base st 0xff t"
      "changes (pll_regs base) s1 t" "pll_loaded base f (reg t)" "reg t (base + 9) = lf_vcocap f OR st"
    using set_precalculated_body_runs [OF changes_ok [OF s1(2)] m base_def, of f1] flags
    unfolding word_0xc0 r9 f1 st_def [symmetric] by auto
  have st9: "st = reg t (base + 9) AND 0xc0"
  proof -
    have "lf_vcocap f AND 0xc0 = 0" using u8_le_3f [OF e] by (simp add: word8_eq_iff bit_simps)
    then show ?thesis by (simp add: t(4) bit.conj_disj_distrib2) (simp add: st_def)
  qed
  have settled: "vco_settled base st hi lo t"
    by (rule vco_locks_settled [OF lock' changes_ok [OF t(2)] t(3) b st9])
  have at: "at_vcocap base st t est t"
    using changes_refl [OF changes_ok [OF t(2)]] t(4) est by (simp add: at_vcocap_def)
  obtain u where u: "tune_vcocap dev (lf_vcocap f) base st 0xff t = (Inr (0, of_nat ((hi + lo) div 2)), u)"
      "at_vcocap base st t ((hi + lo) div 2) u"
    using tune_vcocap_finds [OF settled at near] unfolding est(1) by blast
  obtain w where w: "lms_dsm dev False u = (Inr (), w)" "changes {0x09} u w"
    using lms_dsm_runs [OF changes_ok [OF at_changes [OF u(2)]], of False] by auto
  have run: "lms_set_precalculated_frequency dev m f s
      = (Inr (0, f\<lparr>lf_vcocap_result := of_nat ((hi + lo) div 2)\<rparr>), w)"
    unfolding lms_set_precalculated_frequency_def f1_def [symmetric] Let_def
    by (simp add: catchE_def bindE_def s1(1) t(1) u(1) w(1)) (simp add: f1_def)
  have "pll_loaded base f (reg w)"
    by (rule pll_loaded_changes [OF changes_trans [OF at_changes [OF u(2)] w(2)] t(3) _ b]) simp
  moreover have "reg w (base + 9) = reg u (base + 9)"
    using changes_reg [OF w(2), of "base + 9"] b by (auto simp add: lms_volatile_def)
  moreover have "reg u (base + 9) = of_nat ((hi + lo) div 2) OR st"
    using u(2) by (simp add: at_vcocap_def)
  ultimately show ?thesis
    using run changes_ok [OF w(2)] unfolding base_def [symmetric] st_def [symmetric]
    by (intro exI [of _ w] conjI) (simp_all only: simp_thms)
qed

text \<open>Setting a frequency and reading it back: the words agree but for the two truncations.\<close>

lemma set_then_get:
  assumes s: "ok s" and t: "pll_loaded (pll_base m) g (reg s)" and g: "tuned c b f0 g k"
  obtains u f' where "lms_get_frequency dev m f s = (Inr f', u)" "lf_nint f' = lf_nint g"
    "lf_nfrac f' = lf_nfrac g AND 0x7fffff" "lf_x f' = lf_x g"
    "lf_vcocap f' = reg s (pll_base m + 9) AND 0x3f"
  using get_after_set [OF s t, of f] tuned_read_back [OF g] that by auto

end

end
