(* ===== verification/Band_Select.thy ===== *)
theory Band_Select
  imports Lms_Config
begin

text \<open>
  fpga_common/src/band_select.c: choosing the RF path of a module for the low or the high band, on
  the RF chip (\<open>lms_select_band\<close>) and on the band switches behind the configuration GPIO.
\<close>

unbundle bit_operations_syntax

definition band_select :: "'s lms_dev \<Rightarrow> bladerf_module \<Rightarrow> bool \<Rightarrow> ('s, unit) io" where
  "band_select dev m low_band =
     (let band = (if low_band then 2 else 1) in
      seqE (lms_select_band dev m low_band)
      (bindE (CONFIG_GPIO_READ dev) (\<lambda>gpio.
       let gpio = gpio AND NOT (if m = BLADERF_MODULE_TX then push_bit 3 3 else push_bit 5 3);
           gpio = gpio OR (if m = BLADERF_MODULE_TX then push_bit 3 band else push_bit 5 band) in
       CONFIG_GPIO_WRITE dev gpio)))"

section \<open>What it leaves\<close>

abbreviation band_mask :: "bladerf_module \<Rightarrow> u32" where
  "band_mask m \<equiv> (if m = BLADERF_MODULE_TX then push_bit 3 3 else push_bit 5 3)"

abbreviation band_bits :: "bladerf_module \<Rightarrow> bool \<Rightarrow> u32" where
  "band_bits m low \<equiv> (if m = BLADERF_MODULE_TX then push_bit 3 (if low then 2 else 1)
     else push_bit 5 (if low then 2 else 1))"

context lms_regs begin

lemma band_select_runs:
  assumes "ok s"
  shows "\<exists>t. band_select dev m low s = (Inr (), t) \<and> ok t \<and>
    gpio t = (gpio s AND NOT (band_mask m)) OR band_bits m low \<and>
    (\<forall>b. lms_addr b \<longrightarrow> \<not> lms_volatile b \<longrightarrow> b \<noteq> 0x44 \<longrightarrow> b \<noteq> 0x75 \<longrightarrow> reg t b = reg s b)"
proof -
  obtain t A where t: "lms_select_band dev m low s = (Inr (), t)" "changes A s t" "A \<subseteq> {0x44, 0x75}"
    using lms_select_band_runs [OF assms, of m low] by (auto split: if_splits)
  have ok: "ok t" "gpio t = gpio s" using changes_ok [OF t(2)] changes_gpio [OF t(2)] by auto
  let ?u = "snd (dev_gpio_read dev t)"
  let ?g = "(gpio s AND NOT (band_mask m)) OR band_bits m low"
  let ?v = "snd (dev_gpio_write dev ?g ?u)"
  have "band_select dev m low s = (Inr (), ?v)"
    using ok by (simp add: band_select_def Let_def bindE_def t(1) dev_laws)
  moreover have "bit ?g 7 = bit (gpio s) 7"
    by (cases "m = BLADERF_MODULE_TX"; cases low) (simp_all add: bit_simps)
  then have "ok ?v" "gpio ?v = ?g" using ok by (simp_all add: dev_laws)
  moreover have "reg ?v b = reg s b" if "lms_addr b" "\<not> lms_volatile b" "b \<noteq> 0x44" "b \<noteq> 0x75" for b
    using ok that t(3) changes_reg [OF t(2) that(1,2)] by (auto simp add: dev_laws)
  ultimately show ?thesis by blast
qed

end

end
