(* ===== verification/Nios_Retune.thy ===== *)
theory Nios_Retune
  imports Nios_Board Lms_Vco Band_Select
begin

text \<open>
  Scheduled retunes: bladeRF_nios/src/pkt_retune.c.  A request to retune now is carried out by the
  handler; a request with a timestamp goes into the queue of its module, whose head is handed to
  the time tamer by \<open>perform_work\<close>, marked ready by the tamer's interrupt, and carried out by
  the next \<open>perform_work\<close>.  The queues are rings of sixteen entries with a count and two
  indices, as in the C code; \<open>queue_items\<close> is the list they stand for.
\<close>

unbundle bit_operations_syntax

section \<open>The queues\<close>

abbreviation (input) RETUNE_QUEUE_MAX :: u8 where "RETUNE_QUEUE_MAX \<equiv> 16"
abbreviation (input) QUEUE_FULL :: u8 where "QUEUE_FULL \<equiv> 0xff"
abbreviation (input) QUEUE_EMPTY :: u8 where "QUEUE_EMPTY \<equiv> 0xfe"

datatype entry_state =
  ENTRY_STATE_INVALID | ENTRY_STATE_NEW | ENTRY_STATE_SCHEDULED | ENTRY_STATE_READY

record queue_entry =
  qe_state :: entry_state
  qe_freq :: lms_freq
  qe_timestamp :: u64

record retune_queue =
  q_count :: u8
  q_ins_idx :: u8
  q_rem_idx :: u8
  q_entries :: "queue_entry list"

definition set_entry :: "u8 \<Rightarrow> (queue_entry \<Rightarrow> queue_entry) \<Rightarrow> retune_queue \<Rightarrow> retune_queue" where
  "set_entry i f q = q\<lparr>q_entries := (q_entries q)[unat i := f (q_entries q ! unat i)]\<rparr>"

definition enqueue_retune :: "retune_queue \<Rightarrow> lms_freq \<Rightarrow> u64 \<Rightarrow> u8 \<times> retune_queue" where
  "enqueue_retune q f timestamp =
     (if q_count q \<ge> RETUNE_QUEUE_MAX then (QUEUE_FULL, q)
      else
        let q = set_entry (q_ins_idx q) (\<lambda>e. e\<lparr>qe_freq := f\<rparr>) q;
            q = set_entry (q_ins_idx q) (\<lambda>e. e\<lparr>qe_state := ENTRY_STATE_NEW\<rparr>) q;
            q = set_entry (q_ins_idx q) (\<lambda>e. e\<lparr>qe_timestamp := timestamp\<rparr>) q;
            q = q\<lparr>q_ins_idx := (q_ins_idx q + 1) AND (RETUNE_QUEUE_MAX - 1)\<rparr>;
            q = q\<lparr>q_count := q_count q + 1\<rparr>
        in (q_count q, q))"

text \<open>Every call passes NULL for the second argument, which is the case modelled.\<close>

definition dequeue_retune :: "retune_queue \<Rightarrow> u8 \<times> retune_queue" where
  "dequeue_retune q =
     (if q_count q = 0 then (QUEUE_EMPTY, q)
      else
        let q = q\<lparr>q_rem_idx := (q_rem_idx q + 1) AND (RETUNE_QUEUE_MAX - 1)\<rparr>;
            q = q\<lparr>q_count := q_count q - 1\<rparr>
        in (q_count q, q))"

text \<open>A pointer to an entry is its index.\<close>

definition peek_next_retune :: "retune_queue \<Rightarrow> u8 option" where
  "peek_next_retune q = (if q_count q = 0 then None else Some (q_rem_idx q))"

definition reset_queue :: "retune_queue \<Rightarrow> retune_queue" where
  "reset_queue q =
     (let q = q\<lparr>q_count := 0\<rparr>;
          q = fold (\<lambda>i. set_entry (of_nat i) (\<lambda>e. e\<lparr>qe_state := ENTRY_STATE_INVALID\<rparr>)) [0..<16] q
      in q\<lparr>q_ins_idx := 0, q_rem_idx := 0\<rparr>)"

definition retune_isr :: "retune_queue \<Rightarrow> retune_queue" where
  "retune_isr q =
     (case peek_next_retune q of
        None \<Rightarrow> q
      | Some i \<Rightarrow>
          (if qe_state (q_entries q ! unat i) = ENTRY_STATE_SCHEDULED
           then set_entry i (\<lambda>e. e\<lparr>qe_state := ENTRY_STATE_READY\<rparr>) q else q))"

section \<open>The statics of pkt\_retune.c\<close>

record 'h retune_state = "'h nios_dev" +
  rx_queue :: retune_queue
  tx_queue :: retune_queue

text \<open>The queue that belongs to a module; the interrupt handlers and \<open>pkt_retune_work\<close> pair them
  in the same way.\<close>

definition get_queue :: "bladerf_module \<Rightarrow> ('h, 'z) retune_state_scheme \<Rightarrow> retune_queue" where
  "get_queue m s = (if m = BLADERF_MODULE_RX then rx_queue s else tx_queue s)"

definition put_queue ::
  "bladerf_module \<Rightarrow> retune_queue \<Rightarrow> ('h, 'z) retune_state_scheme \<Rightarrow> ('h, 'z) retune_state_scheme" where
  "put_queue m q s = (if m = BLADERF_MODULE_RX then s\<lparr>rx_queue := q\<rparr> else s\<lparr>tx_queue := q\<rparr>)"

definition retune_rx :: "'h bus \<Rightarrow> (('h, 'z) retune_state_scheme, unit) st" where
  "retune_rx bus =
     seqS (modifyS (\<lambda>s. s\<lparr>rx_queue := retune_isr (rx_queue s)\<rparr>))
     (timer_tamer_clear_interrupt bus BLADERF_MODULE_RX)"

definition retune_tx :: "'h bus \<Rightarrow> (('h, 'z) retune_state_scheme, unit) st" where
  "retune_tx bus =
     seqS (modifyS (\<lambda>s. s\<lparr>tx_queue := retune_isr (tx_queue s)\<rparr>))
     (timer_tamer_clear_interrupt bus BLADERF_MODULE_TX)"

definition pkt_retune_init :: "(('h, 'z) retune_state_scheme, unit) st" where
  "pkt_retune_init =
     seqS (modifyS (\<lambda>s. s\<lparr>rx_queue := reset_queue (rx_queue s)\<rparr>))
     (seqS (modifyS (\<lambda>s. s\<lparr>tx_queue := reset_queue (tx_queue s)\<rparr>))
     (seqS (alt_ic_isr_register RX_TAMER_IRQ ISR_retune_rx)
     (alt_ic_isr_register TX_TAMER_IRQ ISR_retune_tx)))"

section \<open>Carrying out a retune\<close>

text \<open>The status of a driver call: 0, or the error it returned.\<close>

definition io_status :: "('s, unit) io \<Rightarrow> ('s, int) st" where
  "io_status m s = (case m s of (Inl e, t) \<Rightarrow> (e, t) | (Inr _, t) \<Rightarrow> (0, t))"

definition set_precalculated ::
  "'h bus \<Rightarrow> bladerf_module \<Rightarrow> lms_freq \<Rightarrow> (('h, 'z) nios_dev_scheme, int \<times> lms_freq) st" where
  "set_precalculated bus m f s =
     (case lms_set_precalculated_frequency (nios_lms bus) m f s of
        (Inl e, t) \<Rightarrow> ((e, f), t) | (Inr r, t) \<Rightarrow> (r, t))"

definition perform_work :: "'h bus \<Rightarrow> bladerf_module \<Rightarrow> (('h, 'z) retune_state_scheme, unit) st" where
  "perform_work bus m =
     bindS (getS (get_queue m)) (\<lambda>q.
     case peek_next_retune q of
       None \<Rightarrow> returnS ()
     | Some i \<Rightarrow>
         (case qe_state (q_entries q ! unat i) of
            ENTRY_STATE_NEW \<Rightarrow>
              seqS (modifyS (\<lambda>s. put_queue m
                      (set_entry i (\<lambda>e. e\<lparr>qe_state := ENTRY_STATE_SCHEDULED\<rparr>) (get_queue m s)) s))
              (tamer_schedule bus m (qe_timestamp (q_entries q ! unat i)))
          | ENTRY_STATE_SCHEDULED \<Rightarrow> returnS ()
          | ENTRY_STATE_READY \<Rightarrow>
              bindS (set_precalculated bus m (qe_freq (q_entries q ! unat i))) (\<lambda>(status, f).
              seqS (modifyS (\<lambda>s. put_queue m (set_entry i (\<lambda>e. e\<lparr>qe_freq := f\<rparr>) (get_queue m s)) s))
              (bindS (if status \<noteq> 0 then returnS 0
                      else io_status (band_select (nios_lms bus) m
                             (lf_flags f AND LMS_FREQ_FLAGS_LOW_BAND \<noteq> 0)))
                (\<lambda>_. modifyS (\<lambda>s. put_queue m (snd (dequeue_retune (get_queue m s))) s))))
          | ENTRY_STATE_INVALID \<Rightarrow> returnS ()))"

definition pkt_retune_work :: "'h bus \<Rightarrow> (('h, 'z) retune_state_scheme, unit) st" where
  "pkt_retune_work bus =
     seqS (perform_work bus BLADERF_MODULE_RX) (perform_work bus BLADERF_MODULE_TX)"

section \<open>Requests\<close>

text \<open>The local structure f of pkt_retune, filled in from the request.\<close>

definition retune_freq :: "retune_request \<Rightarrow> lms_freq" where
  "retune_freq r =
    \<lparr> lf_freqsel = rt_freqsel r, lf_vcocap = rt_vcocap r, lf_nint = rt_nint r, lf_nfrac = rt_nfrac r,
      lf_flags = (if rt_low_band r then LMS_FREQ_FLAGS_LOW_BAND else 0)
        OR (if rt_quick_tune r then LMS_FREQ_FLAGS_FORCE_VCOCAP else 0),
      lf_x = 0, lf_vcocap_result = 0xff \<rparr>"

text \<open>The three branches yield the status, the flags and f; on \<open>True\<close> the handler goes to the
  label out.\<close>

definition retune_now :: "'h bus \<Rightarrow> retune_request \<Rightarrow> lms_freq \<Rightarrow> u8 \<Rightarrow>
    (('h, 'z) retune_state_scheme, bool \<times> int \<times> u8 \<times> lms_freq) st" where
  "retune_now bus r f flags =
     (if rt_module r \<noteq> BLADERF_MODULE_INVALID then
        bindS (set_precalculated bus (rt_module r) f) (\<lambda>(status, f).
        if status \<noteq> 0 then returnS (True, status, flags, f)
        else
          let flags = flags OR NIOS_PKT_RETUNERESP_FLAG_TSVTUNE_VALID in
          bindS (io_status (band_select (nios_lms bus) (rt_module r) (rt_low_band r))) (\<lambda>status.
          if status \<noteq> 0 then returnS (True, status, flags, f)
          else returnS (False, 0, flags, f)))
      else returnS (False, -1, flags, f))"

definition retune_clear ::
  "bladerf_module \<Rightarrow> (('h, 'z) retune_state_scheme, int) st" where
  "retune_clear m =
     (if m \<noteq> BLADERF_MODULE_INVALID then
        seqS (modifyS (\<lambda>s. put_queue m (reset_queue (get_queue m s)) s)) (returnS 0)
      else returnS (-1))"

definition retune_schedule ::
  "bladerf_module \<Rightarrow> lms_freq \<Rightarrow> u64 \<Rightarrow> (('h, 'z) retune_state_scheme, int) st" where
  "retune_schedule m f timestamp =
     bindS (if m \<noteq> BLADERF_MODULE_INVALID then
              bindS (getS (\<lambda>s. enqueue_retune (get_queue m s) f timestamp)) (\<lambda>(queue_size, q).
              seqS (modifyS (put_queue m q)) (returnS queue_size))
            else returnS QUEUE_FULL)
       (\<lambda>queue_size. returnS (if queue_size = QUEUE_FULL then -1 else 0))"

definition pkt_retune :: "'h bus \<Rightarrow> bytes \<Rightarrow> bytes \<Rightarrow> (('h, 'z) retune_state_scheme, bytes) st" where
  "pkt_retune bus req resp =
     (let r = nios_pkt_retune_unpack req; m = rt_module r; f = retune_freq r;
          flags = NIOS_PKT_RETUNERESP_FLAG_SUCCESS in
      bindS (time_tamer_read bus m) (\<lambda>start_time.
      bindS (if rt_timestamp r = NIOS_PKT_RETUNE_NOW then retune_now bus r f flags
             else if rt_timestamp r = NIOS_PKT_RETUNE_CLEAR_QUEUE then
               bindS (retune_clear m) (\<lambda>status. returnS (False, status, flags, f))
             else
               bindS (retune_schedule m f (rt_timestamp r)) (\<lambda>status. returnS (False, status, flags, f)))
        (\<lambda>(out, status, flags, f).
      bindS (if out then returnS 0
             else bindS (time_tamer_read bus m) (\<lambda>end_time. returnS (end_time - start_time)))
        (\<lambda>duration.
      let flags = (if status \<noteq> 0 then flags AND NOT NIOS_PKT_RETUNERESP_FLAG_SUCCESS else flags) in
      returnS (nios_pkt_retune_resp_pack resp duration (lf_vcocap_result f) flags)))))"

end
