(* ===== verification/Nios_Handlers.thy ===== *)
theory Nios_Handlers
  imports Nios_Board
begin

text \<open>
  The packet handlers pkt_8x8.c, pkt_8x16.c, pkt_8x32.c, pkt_8x64.c and pkt_32x32.c of the
  firmware: each unpacks the request buffer, performs the access on the addressed target, and packs
  the response over the response buffer.  A handler takes the request and the old contents of the
  response buffer and returns the new ones.  \<open>data\<close> behind a pointer argument is threaded
  through: a target that does not set it leaves the value of the request.
\<close>

unbundle bit_operations_syntax

section \<open>pkt\_8x8.c\<close>

abbreviation (input) NIOS_PKT_8x8_TARGET_LMS6 :: u8 where "NIOS_PKT_8x8_TARGET_LMS6 \<equiv> 0x00"
abbreviation (input) NIOS_PKT_8x8_TARGET_SI5338 :: u8 where "NIOS_PKT_8x8_TARGET_SI5338 \<equiv> 0x01"
abbreviation (input) NIOS_PKT_8x8_TARGET_VCTCXO_TAMER :: u8 where "NIOS_PKT_8x8_TARGET_VCTCXO_TAMER \<equiv> 0x02"

definition perform_read_8x8 :: "'h bus \<Rightarrow> u8 \<Rightarrow> u8 \<Rightarrow> (('h, 'z) nios_dev_scheme, bool \<times> u8) fw" where
  "perform_read_8x8 bus target addr =
     (if target = NIOS_PKT_8x8_TARGET_LMS6 then
        bindF (liftF (lms6_read bus addr)) (\<lambda>data. returnF (True, data))
      else if target = NIOS_PKT_8x8_TARGET_SI5338 then
        bindF (si5338_read bus addr) (\<lambda>data. returnF (True, data))
      else if target = NIOS_PKT_8x8_TARGET_VCTCXO_TAMER then
        (if addr = 0xff then
           bindF (liftF (vctcxo_tamer_get_tune_mode bus)) (\<lambda>mode. returnF (True, word_of_int mode))
         else returnF (True, 0x00))
      else returnF (False, 0xff))"

definition perform_write_8x8 :: "'h bus \<Rightarrow> u8 \<Rightarrow> u8 \<Rightarrow> u8 \<Rightarrow> (('h, 'z) nios_dev_scheme, bool) fw" where
  "perform_write_8x8 bus target addr data =
     (if target = NIOS_PKT_8x8_TARGET_LMS6 then
        seqF (liftF (lms6_write bus addr data)) (returnF True)
      else if target = NIOS_PKT_8x8_TARGET_SI5338 then
        seqF (si5338_write bus addr data) (returnF True)
      else if target = NIOS_PKT_8x8_TARGET_VCTCXO_TAMER then
        (if addr = 0xff then
           seqF (liftF (vctcxo_tamer_set_tune_mode bus (uint data))) (returnF True)
         else returnF True)
      else returnF False)"

definition pkt_8x8 :: "'h bus \<Rightarrow> bytes \<Rightarrow> bytes \<Rightarrow> (('h, 'z) nios_dev_scheme, bytes) fw" where
  "pkt_8x8 bus req resp =
     (case nios_pkt_8x8_unpack req of (target, is_write, addr, data) \<Rightarrow>
        bindF (if is_write
               then bindF (perform_write_8x8 bus target addr data) (\<lambda>success. returnF (success, data))
               else perform_read_8x8 bus target addr)
          (\<lambda>(success, data). returnF (nios_pkt_8x8_resp_pack resp target is_write addr data success)))"

section \<open>pkt\_8x16.c\<close>

abbreviation (input) NIOS_PKT_8x16_TARGET_VCTCXO_DAC :: u8 where "NIOS_PKT_8x16_TARGET_VCTCXO_DAC \<equiv> 0x00"
abbreviation (input) NIOS_PKT_8x16_TARGET_IQ_CORR :: u8 where "NIOS_PKT_8x16_TARGET_IQ_CORR \<equiv> 0x01"
abbreviation (input) NIOS_PKT_8x16_ADDR_IQ_CORR_RX_GAIN :: u8 where "NIOS_PKT_8x16_ADDR_IQ_CORR_RX_GAIN \<equiv> 0x00"
abbreviation (input) NIOS_PKT_8x16_ADDR_IQ_CORR_RX_PHASE :: u8 where "NIOS_PKT_8x16_ADDR_IQ_CORR_RX_PHASE \<equiv> 0x01"
abbreviation (input) NIOS_PKT_8x16_ADDR_IQ_CORR_TX_GAIN :: u8 where "NIOS_PKT_8x16_ADDR_IQ_CORR_TX_GAIN \<equiv> 0x02"
abbreviation (input) NIOS_PKT_8x16_ADDR_IQ_CORR_TX_PHASE :: u8 where "NIOS_PKT_8x16_ADDR_IQ_CORR_TX_PHASE \<equiv> 0x03"

definition iq_corr_read :: "'h bus \<Rightarrow> u8 \<Rightarrow> u16 \<Rightarrow> (('h, 'z) nios_dev_scheme, bool \<times> u16) st" where
  "iq_corr_read bus addr data =
     (if addr = NIOS_PKT_8x16_ADDR_IQ_CORR_RX_GAIN then
        bindS (iqbal_get_gain bus BLADERF_MODULE_RX) (\<lambda>d. returnS (True, d))
      else if addr = NIOS_PKT_8x16_ADDR_IQ_CORR_RX_PHASE then
        bindS (iqbal_get_phase bus BLADERF_MODULE_RX) (\<lambda>d. returnS (True, d))
      else if addr = NIOS_PKT_8x16_ADDR_IQ_CORR_TX_GAIN then
        bindS (iqbal_get_gain bus BLADERF_MODULE_TX) (\<lambda>d. returnS (True, d))
      else if addr = NIOS_PKT_8x16_ADDR_IQ_CORR_TX_PHASE then
        bindS (iqbal_get_phase bus BLADERF_MODULE_TX) (\<lambda>d. returnS (True, d))
      else returnS (False, data))"

definition iq_corr_write :: "'h bus \<Rightarrow> u8 \<Rightarrow> u16 \<Rightarrow> (('h, 'z) nios_dev_scheme, bool) st" where
  "iq_corr_write bus addr data =
     (if addr = NIOS_PKT_8x16_ADDR_IQ_CORR_RX_GAIN then
        seqS (iqbal_set_gain bus BLADERF_MODULE_RX data) (returnS True)
      else if addr = NIOS_PKT_8x16_ADDR_IQ_CORR_RX_PHASE then
        seqS (iqbal_set_phase bus BLADERF_MODULE_RX data) (returnS True)
      else if addr = NIOS_PKT_8x16_ADDR_IQ_CORR_TX_GAIN then
        seqS (iqbal_set_gain bus BLADERF_MODULE_TX data) (returnS True)
      else if addr = NIOS_PKT_8x16_ADDR_IQ_CORR_TX_PHASE then
        seqS (iqbal_set_phase bus BLADERF_MODULE_TX data) (returnS True)
      else returnS False)"

text \<open>The results of iq_corr_read and iq_corr_write are dropped by their callers.\<close>

definition perform_read_8x16 ::
  "'h bus \<Rightarrow> u8 \<Rightarrow> u8 \<Rightarrow> u16 \<Rightarrow> (('h, 'z) nios_dev_scheme, bool \<times> u16) st" where
  "perform_read_8x16 bus target addr data =
     (if target = NIOS_PKT_8x16_TARGET_VCTCXO_DAC then
        bindS (vctcxo_trim_dac_read bus addr) (\<lambda>d. returnS (True, d))
      else if target = NIOS_PKT_8x16_TARGET_IQ_CORR then
        bindS (iq_corr_read bus addr data) (\<lambda>(_, d). returnS (True, d))
      else returnS (False, data))"

definition perform_write_8x16 :: "'h bus \<Rightarrow> u8 \<Rightarrow> u8 \<Rightarrow> u16 \<Rightarrow> (('h, 'z) nios_dev_scheme, bool) st" where
  "perform_write_8x16 bus target addr data =
     (if target = NIOS_PKT_8x16_TARGET_VCTCXO_DAC then
        seqS (vctcxo_trim_dac_write bus addr data) (returnS True)
      else if target = NIOS_PKT_8x16_TARGET_IQ_CORR then
        seqS (iq_corr_write bus addr data) (returnS True)
      else returnS False)"

definition pkt_8x16 :: "'h bus \<Rightarrow> bytes \<Rightarrow> bytes \<Rightarrow> (('h, 'z) nios_dev_scheme, bytes) st" where
  "pkt_8x16 bus req resp =
     (case nios_pkt_8x16_unpack req of (target, is_write, addr, data) \<Rightarrow>
        bindS (if is_write
               then bindS (perform_write_8x16 bus target addr data) (\<lambda>success. returnS (success, data))
               else perform_read_8x16 bus target addr data)
          (\<lambda>(success, data). returnS (nios_pkt_8x16_resp_pack resp target is_write addr data success)))"

section \<open>pkt\_8x32.c\<close>

abbreviation (input) NIOS_PKT_8x32_TARGET_VERSION :: u8 where "NIOS_PKT_8x32_TARGET_VERSION \<equiv> 0x00"
abbreviation (input) NIOS_PKT_8x32_TARGET_CONTROL :: u8 where "NIOS_PKT_8x32_TARGET_CONTROL \<equiv> 0x01"
abbreviation (input) NIOS_PKT_8x32_TARGET_ADF4351 :: u8 where "NIOS_PKT_8x32_TARGET_ADF4351 \<equiv> 0x02"

definition fpga_version :: u32 where
  "fpga_version = 0 OR push_bit 8 5 OR push_bit 16 0"

definition perform_read_8x32 :: "'h bus \<Rightarrow> u8 \<Rightarrow> (('h, 'z) nios_dev_scheme, bool \<times> u32) st" where
  "perform_read_8x32 bus target =
     (if target = NIOS_PKT_8x32_TARGET_VERSION then returnS (True, fpga_version)
      else if target = NIOS_PKT_8x32_TARGET_CONTROL then
        bindS (control_reg_read bus) (\<lambda>d. returnS (True, d))
      else if target = NIOS_PKT_8x32_TARGET_ADF4351 then returnS (False, 0x00)
      else returnS (False, 0x00))"

definition perform_write_8x32 :: "'h bus \<Rightarrow> u8 \<Rightarrow> u32 \<Rightarrow> (('h, 'z) nios_dev_scheme, bool) st" where
  "perform_write_8x32 bus target data =
     (if target = NIOS_PKT_8x32_TARGET_VERSION then returnS False
      else if target = NIOS_PKT_8x32_TARGET_CONTROL then
        seqS (control_reg_write bus data) (returnS True)
      else if target = NIOS_PKT_8x32_TARGET_ADF4351 then
        seqS (adf4351_write bus data) (returnS True)
      else returnS False)"

definition pkt_8x32 :: "'h bus \<Rightarrow> bytes \<Rightarrow> bytes \<Rightarrow> (('h, 'z) nios_dev_scheme, bytes) st" where
  "pkt_8x32 bus req resp =
     (case nios_pkt_8x32_unpack req of (target, is_write, addr, data) \<Rightarrow>
        bindS (if is_write
               then bindS (perform_write_8x32 bus target data) (\<lambda>success. returnS (success, data))
               else perform_read_8x32 bus target)
          (\<lambda>(success, data). returnS (nios_pkt_8x32_resp_pack resp target is_write addr data success)))"

section \<open>pkt\_8x64.c\<close>

abbreviation (input) NIOS_PKT_8x64_TARGET_TIMESTAMP :: u8 where "NIOS_PKT_8x64_TARGET_TIMESTAMP \<equiv> 0x00"
abbreviation (input) NIOS_PKT_8x64_TIMESTAMP_RX :: u8 where "NIOS_PKT_8x64_TIMESTAMP_RX \<equiv> 0x00"
abbreviation (input) NIOS_PKT_8x64_TIMESTAMP_TX :: u8 where "NIOS_PKT_8x64_TIMESTAMP_TX \<equiv> 0x01"

definition perform_write_8x64 :: "u8 \<Rightarrow> u8 \<Rightarrow> u64 \<Rightarrow> (('h, 'z) nios_dev_scheme, bool) st" where
  "perform_write_8x64 target addr data =
     (if target = NIOS_PKT_8x64_TARGET_TIMESTAMP then returnS False else returnS False)"

definition read_timestamp :: "'h bus \<Rightarrow> u8 \<Rightarrow> u64 \<Rightarrow> (('h, 'z) nios_dev_scheme, bool \<times> u64) st" where
  "read_timestamp bus addr data =
     (if addr = NIOS_PKT_8x64_TIMESTAMP_RX then
        bindS (time_tamer_read bus BLADERF_MODULE_RX) (\<lambda>d. returnS (True, d))
      else if addr = NIOS_PKT_8x64_TIMESTAMP_TX then
        bindS (time_tamer_read bus BLADERF_MODULE_TX) (\<lambda>d. returnS (True, d))
      else returnS (False, data))"

definition perform_read_8x64 ::
  "'h bus \<Rightarrow> u8 \<Rightarrow> u8 \<Rightarrow> u64 \<Rightarrow> (('h, 'z) nios_dev_scheme, bool \<times> u64) st" where
  "perform_read_8x64 bus target addr data =
     (if target = NIOS_PKT_8x64_TARGET_TIMESTAMP then read_timestamp bus addr data
      else returnS (False, data))"

definition pkt_8x64 :: "'h bus \<Rightarrow> bytes \<Rightarrow> bytes \<Rightarrow> (('h, 'z) nios_dev_scheme, bytes) st" where
  "pkt_8x64 bus req resp =
     (case nios_pkt_8x64_unpack req of (target, is_write, addr, data) \<Rightarrow>
        bindS (if is_write
               then bindS (perform_write_8x64 target addr data) (\<lambda>success. returnS (success, data))
               else perform_read_8x64 bus target addr data)
          (\<lambda>(success, data). returnS (nios_pkt_8x64_resp_pack resp target is_write addr data success)))"

section \<open>pkt\_32x32.c\<close>

abbreviation (input) NIOS_PKT_32x32_TARGET_EXP :: u8 where "NIOS_PKT_32x32_TARGET_EXP \<equiv> 0x00"
abbreviation (input) NIOS_PKT_32x32_TARGET_EXP_DIR :: u8 where "NIOS_PKT_32x32_TARGET_EXP_DIR \<equiv> 0x01"

definition perform_write_32x32 :: "'h bus \<Rightarrow> u8 \<Rightarrow> u32 \<Rightarrow> u32 \<Rightarrow> (('h, 'z) nios_dev_scheme, bool) st" where
  "perform_write_32x32 bus target addr data =
     (if target = NIOS_PKT_32x32_TARGET_EXP then
        seqS (if addr \<noteq> 0xffffffff then
                bindS (expansion_port_read bus) (\<lambda>tmp.
                expansion_port_write bus ((tmp AND NOT addr) OR (data AND addr)))
              else expansion_port_write bus data)
        (returnS True)
      else if target = NIOS_PKT_32x32_TARGET_EXP_DIR then
        seqS (if addr \<noteq> 0xffffffff then
                bindS (expansion_port_get_direction bus) (\<lambda>tmp.
                expansion_port_set_direction bus ((tmp AND NOT addr) OR (data AND addr)))
              else expansion_port_set_direction bus data)
        (returnS True)
      else returnS False)"

definition perform_read_32x32 ::
  "'h bus \<Rightarrow> u8 \<Rightarrow> u32 \<Rightarrow> u32 \<Rightarrow> (('h, 'z) nios_dev_scheme, bool \<times> u32) st" where
  "perform_read_32x32 bus target addr data =
     (if target = NIOS_PKT_32x32_TARGET_EXP then
        bindS (expansion_port_read bus) (\<lambda>d. returnS (True, d AND addr))
      else if target = NIOS_PKT_32x32_TARGET_EXP_DIR then
        bindS (expansion_port_get_direction bus) (\<lambda>d. returnS (True, d AND addr))
      else returnS (False, data))"

definition pkt_32x32 :: "'h bus \<Rightarrow> bytes \<Rightarrow> bytes \<Rightarrow> (('h, 'z) nios_dev_scheme, bytes) st" where
  "pkt_32x32 bus req resp =
     (case nios_pkt_32x32_unpack req of (target, is_write, addr, data) \<Rightarrow>
        bindS (if is_write
               then bindS (perform_write_32x32 bus target addr data) (\<lambda>success. returnS (success, data))
               else perform_read_32x32 bus target addr data)
          (\<lambda>(success, data). returnS (nios_pkt_32x32_resp_pack resp target is_write addr data success)))"

end
