(* ===== verification/Nios_Legacy.thy ===== *)
theory Nios_Legacy
  imports Nios_Retune Nios_Handlers
begin

text \<open>
  The legacy packet format: bladeRF_nios/src/pkt_legacy.c.  The host reads and writes a parameter one
  (address, data) pair or a few pairs at a time; the firmware collects the bytes of a write and hands
  out the bytes of a read in static variables, which are fields of the state here.  \<open>param\<close> is
  static in the C code but is set on entry, so it is a local.
\<close>

unbundle bit_operations_syntax

abbreviation (input) PAYLOAD_IDX :: nat where "PAYLOAD_IDX \<equiv> 2"
abbreviation (input) ADDR_IDX :: nat where "ADDR_IDX \<equiv> PAYLOAD_IDX"
abbreviation (input) DATA_IDX :: nat where "DATA_IDX \<equiv> ADDR_IDX + 1"
abbreviation (input) PKT_MAGIC_IDX :: nat where "PKT_MAGIC_IDX \<equiv> 0"
abbreviation (input) PKT_CFG_IDX :: nat where "PKT_CFG_IDX \<equiv> 1"
abbreviation (input) NIOS_PKT_LEGACY_MAGIC :: u8 where "NIOS_PKT_LEGACY_MAGIC \<equiv> 0x4E"
abbreviation (input) NIOS_PKT_LEGACY_MODE_CNT_MASK :: u8 where "NIOS_PKT_LEGACY_MODE_CNT_MASK \<equiv> 0x07"
abbreviation (input) NIOS_PKT_LEGACY_MODE_DEV_MASK :: u8 where "NIOS_PKT_LEGACY_MODE_DEV_MASK \<equiv> 0x30"
abbreviation (input) NIOS_PKT_LEGACY_DEV_CONFIG :: u8 where "NIOS_PKT_LEGACY_DEV_CONFIG \<equiv> 0x00"
abbreviation (input) NIOS_PKT_LEGACY_DEV_LMS :: u8 where "NIOS_PKT_LEGACY_DEV_LMS \<equiv> 0x10"
abbreviation (input) NIOS_PKT_LEGACY_DEV_SI5338 :: u8 where "NIOS_PKT_LEGACY_DEV_SI5338 \<equiv> 0x30"
abbreviation (input) NIOS_PKT_LEGACY_MODE_DIR_READ :: u8 where "NIOS_PKT_LEGACY_MODE_DIR_READ \<equiv> 0x80"
abbreviation (input) NIOS_PKT_LEGACY_MODE_DIR_WRITE :: u8 where "NIOS_PKT_LEGACY_MODE_DIR_WRITE \<equiv> 0x40"

section \<open>The parameters\<close>

datatype config_param =
  CONFIG_CONTROL_REG
| CONFIG_IQ_CORR_RX_GAIN | CONFIG_IQ_CORR_RX_PHASE | CONFIG_IQ_CORR_TX_GAIN | CONFIG_IQ_CORR_TX_PHASE
| CONFIG_FPGA_VERSION
| CONFIG_RX_TIMESTAMP | CONFIG_TX_TIMESTAMP
| CONFIG_VCTXCO
| CONFIG_XB200_SYNTH
| CONFIG_EXPANSION | CONFIG_EXPANSION_DIR
| CONFIG_UNKNOWN

record config_param_info =
  cp_start :: u8
  cp_len :: u8

text \<open>The table, with the index of each entry written out.\<close>

definition config_params :: "(config_param \<times> config_param_info) list" where
  "config_params =
    [(CONFIG_CONTROL_REG, \<lparr> cp_start = 0, cp_len = 4 \<rparr>),
     (CONFIG_IQ_CORR_RX_GAIN, \<lparr> cp_start = 4, cp_len = 2 \<rparr>),
     (CONFIG_IQ_CORR_RX_PHASE, \<lparr> cp_start = 6, cp_len = 2 \<rparr>),
     (CONFIG_IQ_CORR_TX_GAIN, \<lparr> cp_start = 8, cp_len = 2 \<rparr>),
     (CONFIG_IQ_CORR_TX_PHASE, \<lparr> cp_start = 10, cp_len = 2 \<rparr>),
     (CONFIG_FPGA_VERSION, \<lparr> cp_start = 12, cp_len = 4 \<rparr>),
     (CONFIG_RX_TIMESTAMP, \<lparr> cp_start = 16, cp_len = 8 \<rparr>),
     (CONFIG_TX_TIMESTAMP, \<lparr> cp_start = 24, cp_len = 8 \<rparr>),
     (CONFIG_VCTXCO, \<lparr> cp_start = 34, cp_len = 2 \<rparr>),
     (CONFIG_XB200_SYNTH, \<lparr> cp_start = 36, cp_len = 4 \<rparr>),
     (CONFIG_EXPANSION, \<lparr> cp_start = 40, cp_len = 4 \<rparr>),
     (CONFIG_EXPANSION_DIR, \<lparr> cp_start = 44, cp_len = 4 \<rparr>),
     (CONFIG_UNKNOWN, \<lparr> cp_start = 255, cp_len = 0 \<rparr>)]"

definition config_info :: "config_param \<Rightarrow> config_param_info" where
  "config_info p = the (map_of config_params p)"

fun lookup_param_from :: "(config_param \<times> config_param_info) list \<Rightarrow> u8 \<Rightarrow> config_param" where
  "lookup_param_from [] addr = CONFIG_UNKNOWN"
| "lookup_param_from ((p, i) # ps) addr =
     (if uint (cp_start i) \<le> uint addr \<and> uint (cp_start i) + uint (cp_len i) > uint addr then p
      else lookup_param_from ps addr)"

definition lookup_param :: "u8 \<Rightarrow> config_param" where
  "lookup_param addr = lookup_param_from config_params addr"

section \<open>Statics\<close>

record 'h legacy_state = "'h retune_state" +
  rd_n :: u8
  rd_payload :: u64
  rd_last_param :: config_param
  wr_payload :: u64
  wr_n :: u8
  wr_last_param :: config_param

section \<open>Reads\<close>

definition perform_config_read :: "'h bus \<Rightarrow> config_param \<Rightarrow> (('h, 'z) nios_dev_scheme, u64) st" where
  "perform_config_read bus param =
     (case param of
        CONFIG_CONTROL_REG \<Rightarrow> bindS (control_reg_read bus) (\<lambda>v. returnS (ucast v))
      | CONFIG_IQ_CORR_RX_GAIN \<Rightarrow> bindS (iqbal_get_gain bus BLADERF_MODULE_RX) (\<lambda>v. returnS (ucast v))
      | CONFIG_IQ_CORR_RX_PHASE \<Rightarrow> bindS (iqbal_get_phase bus BLADERF_MODULE_RX) (\<lambda>v. returnS (ucast v))
      | CONFIG_IQ_CORR_TX_GAIN \<Rightarrow> bindS (iqbal_get_gain bus BLADERF_MODULE_TX) (\<lambda>v. returnS (ucast v))
      | CONFIG_IQ_CORR_TX_PHASE \<Rightarrow> bindS (iqbal_get_phase bus BLADERF_MODULE_TX) (\<lambda>v. returnS (ucast v))
      | CONFIG_FPGA_VERSION \<Rightarrow> returnS (ucast fpga_version)
      | CONFIG_RX_TIMESTAMP \<Rightarrow> time_tamer_read bus BLADERF_MODULE_RX
      | CONFIG_TX_TIMESTAMP \<Rightarrow> time_tamer_read bus BLADERF_MODULE_TX
      | CONFIG_VCTXCO \<Rightarrow> returnS 0x00
      | CONFIG_XB200_SYNTH \<Rightarrow> returnS 0x00
      | CONFIG_EXPANSION \<Rightarrow> bindS (expansion_port_read bus) (\<lambda>v. returnS (ucast v))
      | CONFIG_EXPANSION_DIR \<Rightarrow> bindS (expansion_port_get_direction bus) (\<lambda>v. returnS (ucast v))
      | CONFIG_UNKNOWN \<Rightarrow> returnS (-1))"

text \<open>The loop over the pairs, on the number left and the index of the pair.\<close>

fun legacy_read_loop ::
  "'h bus \<Rightarrow> config_param \<Rightarrow> bytes \<Rightarrow> nat \<Rightarrow> nat \<Rightarrow> bytes \<Rightarrow> (('h, 'z) legacy_state_scheme, bytes) st" where
  "legacy_read_loop bus param req 0 i resp = returnS resp"
| "legacy_read_loop bus param req (Suc left) i resp =
     seqS (bindS (getS (\<lambda>s. rd_n s = 0 \<or> param \<noteq> rd_last_param s)) (\<lambda>reset.
           if reset then
             seqS (modifyS (\<lambda>s. s\<lparr>rd_n := 0\<rparr>))
             (bindS (perform_config_read bus param) (\<lambda>payload.
              modifyS (\<lambda>s. s\<lparr>rd_payload := payload, rd_last_param := param\<rparr>)))
           else returnS ()))
     (bindS (getS (\<lambda>s. ucast (drop_bit (unat (rd_n s) * 8) (rd_payload s)) :: u8)) (\<lambda>data.
      let resp = resp[PAYLOAD_IDX + 2 * i := req ! (PAYLOAD_IDX + 2 * i) - cp_start (config_info param)];
          resp = resp[PAYLOAD_IDX + 2 * i + 1 := data] in
      seqS (modifyS (\<lambda>s. s\<lparr>rd_n := rd_n s + 1\<rparr>))
      (bindS (getS (\<lambda>s. rd_n s \<ge> cp_len (config_info param))) (\<lambda>finished.
       if finished then seqS (modifyS (\<lambda>s. s\<lparr>rd_n := 0\<rparr>)) (returnS resp)
       else legacy_read_loop bus param req left (Suc i) resp))))"

definition legacy_config_read ::
  "'h bus \<Rightarrow> u8 \<Rightarrow> bytes \<Rightarrow> bytes \<Rightarrow> (('h, 'z) legacy_state_scheme, bytes) st" where
  "legacy_config_read bus count req resp =
     legacy_read_loop bus (lookup_param (req ! PAYLOAD_IDX)) req (unat count) 0 resp"

definition legacy_pkt_read ::
  "'h bus \<Rightarrow> u8 \<Rightarrow> u8 \<Rightarrow> bytes \<Rightarrow> bytes \<Rightarrow> (('h, 'z) legacy_state_scheme, bytes) fw" where
  "legacy_pkt_read bus dev_id count req resp =
     (if dev_id = NIOS_PKT_LEGACY_DEV_LMS then
        bindF (liftF (lms6_read bus (req ! ADDR_IDX))) (\<lambda>data.
        returnF (resp[ADDR_IDX := req ! ADDR_IDX, DATA_IDX := data]))
      else if dev_id = NIOS_PKT_LEGACY_DEV_SI5338 then
        bindF (si5338_read bus (req ! ADDR_IDX)) (\<lambda>data.
        returnF (resp[ADDR_IDX := req ! ADDR_IDX, DATA_IDX := data]))
      else if dev_id = NIOS_PKT_LEGACY_DEV_CONFIG then liftF (legacy_config_read bus count req resp)
      else returnF resp)"

section \<open>Writes\<close>

definition perform_config_write :: "'h bus \<Rightarrow> config_param \<Rightarrow> u64 \<Rightarrow> (('h, 'z) nios_dev_scheme, unit) st" where
  "perform_config_write bus p payload =
     (case p of
        CONFIG_CONTROL_REG \<Rightarrow> control_reg_write bus (ucast payload)
      | CONFIG_IQ_CORR_RX_GAIN \<Rightarrow> iqbal_set_gain bus BLADERF_MODULE_RX (ucast payload)
      | CONFIG_IQ_CORR_RX_PHASE \<Rightarrow> iqbal_set_phase bus BLADERF_MODULE_RX (ucast payload)
      | CONFIG_IQ_CORR_TX_GAIN \<Rightarrow> iqbal_set_gain bus BLADERF_MODULE_TX (ucast payload)
      | CONFIG_IQ_CORR_TX_PHASE \<Rightarrow> iqbal_set_phase bus BLADERF_MODULE_TX (ucast payload)
      | CONFIG_FPGA_VERSION \<Rightarrow> returnS ()
      | CONFIG_RX_TIMESTAMP \<Rightarrow> time_tamer_reset bus BLADERF_MODULE_RX
      | CONFIG_TX_TIMESTAMP \<Rightarrow> time_tamer_reset bus BLADERF_MODULE_TX
      | CONFIG_VCTXCO \<Rightarrow>
          seqS (vctcxo_trim_dac_write bus 0x28 0) (vctcxo_trim_dac_write bus 0x08 (ucast payload))
      | CONFIG_XB200_SYNTH \<Rightarrow> adf4351_write bus (ucast payload)
      | CONFIG_EXPANSION \<Rightarrow> expansion_port_write bus (ucast payload)
      | CONFIG_EXPANSION_DIR \<Rightarrow> expansion_port_set_direction bus (ucast payload)
      | CONFIG_UNKNOWN \<Rightarrow> returnS ())"

text \<open>(*req_data) << (n * 8) is computed as a signed 32-bit int and sign-extended when it meets the
  64-bit payload.  From n = 4 on, which only the timestamps reach, the shift is undefined in C; the
  processor takes the amount modulo 32, and the payload of a timestamp is not used.\<close>

definition legacy_shifted :: "u8 \<Rightarrow> u8 \<Rightarrow> u64" where
  "legacy_shifted data n = scast (push_bit (unat n * 8 mod 32) (ucast data :: u32))"

fun legacy_write_loop ::
  "config_param \<Rightarrow> bytes \<Rightarrow> nat \<Rightarrow> nat \<Rightarrow> bytes \<Rightarrow> (('h, 'z) legacy_state_scheme, bytes) st" where
  "legacy_write_loop param req 0 i resp = returnS resp"
| "legacy_write_loop param req (Suc left) i resp =
     bindS (getS (\<lambda>s. wr_n s < cp_len (config_info param))) (\<lambda>more.
     if more then
       let resp = resp[PAYLOAD_IDX + 2 * i := req ! (PAYLOAD_IDX + 2 * i) - cp_start (config_info param)];
           resp = resp[PAYLOAD_IDX + 2 * i + 1 := 0] in
       seqS (modifyS (\<lambda>s. s\<lparr>wr_payload := wr_payload s OR
               legacy_shifted (req ! (PAYLOAD_IDX + 2 * i + 1)) (wr_n s)\<rparr>))
       (seqS (modifyS (\<lambda>s. s\<lparr>wr_n := wr_n s + 1\<rparr>))
       (legacy_write_loop param req left (Suc i) resp))
     else returnS resp)"

definition legacy_config_write ::
  "'h bus \<Rightarrow> u8 \<Rightarrow> bytes \<Rightarrow> bytes \<Rightarrow> (('h, 'z) legacy_state_scheme, bytes) st" where
  "legacy_config_write bus count req resp =
     (let param = lookup_param (req ! PAYLOAD_IDX) in
      seqS (modifyS (\<lambda>s. if wr_n s = 0 \<or> param \<noteq> wr_last_param s
              then s\<lparr>wr_payload := 0, wr_n := 0\<rparr> else s))
      (bindS (legacy_write_loop param req (unat count) 0 resp) (\<lambda>resp.
       bindS (getS (\<lambda>s. wr_n s \<ge> cp_len (config_info param))) (\<lambda>complete.
       if complete then
         bindS (getS wr_payload) (\<lambda>payload.
         seqS (perform_config_write bus param payload)
         (seqS (modifyS (\<lambda>s. s\<lparr>wr_n := 0, wr_last_param := CONFIG_UNKNOWN\<rparr>))
         (returnS resp)))
       else seqS (modifyS (\<lambda>s. s\<lparr>wr_last_param := param\<rparr>)) (returnS resp)))))"

definition legacy_pkt_write ::
  "'h bus \<Rightarrow> u8 \<Rightarrow> u8 \<Rightarrow> bytes \<Rightarrow> bytes \<Rightarrow> (('h, 'z) legacy_state_scheme, bytes) fw" where
  "legacy_pkt_write bus dev_id count req resp =
     (if dev_id = NIOS_PKT_LEGACY_DEV_LMS then
        seqF (liftF (lms6_write bus (req ! ADDR_IDX) (req ! DATA_IDX)))
        (returnF (resp[ADDR_IDX := req ! ADDR_IDX, DATA_IDX := 0]))
      else if dev_id = NIOS_PKT_LEGACY_DEV_SI5338 then
        seqF (si5338_write bus (req ! ADDR_IDX) (req ! DATA_IDX))
        (returnF (resp[ADDR_IDX := req ! ADDR_IDX, DATA_IDX := 0]))
      else if dev_id = NIOS_PKT_LEGACY_DEV_CONFIG then liftF (legacy_config_write bus count req resp)
      else returnF resp)"

definition pkt_legacy :: "'h bus \<Rightarrow> bytes \<Rightarrow> bytes \<Rightarrow> (('h, 'z) legacy_state_scheme, bytes) fw" where
  "pkt_legacy bus req resp =
     (let cfg = req ! PKT_CFG_IDX;
          is_read = (cfg AND NIOS_PKT_LEGACY_MODE_DIR_READ \<noteq> 0);
          is_write = (cfg AND NIOS_PKT_LEGACY_MODE_DIR_WRITE \<noteq> 0);
          dev_id = cfg AND NIOS_PKT_LEGACY_MODE_DEV_MASK;
          count = cfg AND NIOS_PKT_LEGACY_MODE_CNT_MASK;
          resp = resp[PKT_MAGIC_IDX := req ! PKT_MAGIC_IDX, PKT_CFG_IDX := req ! PKT_CFG_IDX] in
      if is_read then legacy_pkt_read bus dev_id count req resp
      else if is_write then legacy_pkt_write bus dev_id count req resp
      else returnF resp)"

end
