(* ===== verification/Nios_Main.thy ===== *)
theory Nios_Main
  imports Nios_Legacy Nios_Handlers "HOL-Library.Signed_Division"
begin

text \<open>
  The main program of the firmware: bladeRF_nios/src/bladeRF_nios.c, with the two interrupt
  handlers of devices.c that fill its buffers.  \<open>main_step\<close> is one turn of the loop: a pending
  request is dispatched on its magic byte and answered; otherwise one step of the VCTCXO
  calibration is taken when its counters have reported, and deferred retunes are worked on.
  Interrupts change the state between turns.  None is a turn that does not end: a clock generator
  that never answers, or the division by zero of the calibration.
\<close>

unbundle bit_operations_syntax

section \<open>The state of main\<close>

datatype tune_state_t =
  COARSE_TUNE_MIN | COARSE_TUNE_MAX | COARSE_TUNE_DONE | FINE_TUNE | DO_NOTHING

record trimdac_line =
  point0_x :: u32
  point0_y :: u16
  point1_x :: u32
  point1_y :: u16
  line_slope :: u32
  line_y_intercept :: u16

record 'h nios = "'h legacy_state" +
  pkt_req :: bytes
  pkt_resp :: bytes
  pkt_ready :: bool
  vctcxo_tamer_pkt :: vctcxo_tamer_pkt_buf
  tune_state :: tune_state_t
  trimdac_cal_line :: trimdac_line

section \<open>Interrupts\<close>

definition command_uart_isr :: "'h bus \<Rightarrow> (('h, 'z) nios_scheme, unit) st" where
  "command_uart_isr bus =
     bindS (command_uart_read_request bus) (\<lambda>req.
     modifyS (\<lambda>s. s\<lparr>pkt_req := req, pkt_ready := True\<rparr>))"

definition vctcxo_tamer_interrupt :: "'h bus \<Rightarrow> (('h, 'z) nios_scheme, unit) st" where
  "vctcxo_tamer_interrupt bus =
     bindS (vctcxo_tamer_isr bus) (\<lambda>p. modifyS (\<lambda>s. s\<lparr>vctcxo_tamer_pkt := p\<rparr>))"

definition run_isr :: "'h bus \<Rightarrow> isr \<Rightarrow> (('h, 'z) nios_scheme, unit) st" where
  "run_isr bus i =
     (case i of
        ISR_command_uart \<Rightarrow> command_uart_isr bus
      | ISR_vctcxo_tamer \<Rightarrow> vctcxo_tamer_interrupt bus
      | ISR_retune_rx \<Rightarrow> retune_rx bus
      | ISR_retune_tx \<Rightarrow> retune_tx bus)"

section \<open>Packet handlers\<close>

datatype pkt_handler = PKT_RETUNE | PKT_8x8 | PKT_8x16 | PKT_8x32 | PKT_8x64 | PKT_32x32 | PKT_LEGACY

definition pkt_handlers :: "pkt_handler list" where
  "pkt_handlers = [PKT_RETUNE, PKT_8x8, PKT_8x16, PKT_8x32, PKT_8x64, PKT_32x32, PKT_LEGACY]"

definition handler_magic :: "pkt_handler \<Rightarrow> u8" where
  "handler_magic h =
     (case h of
        PKT_RETUNE \<Rightarrow> NIOS_PKT_RETUNE_MAGIC
      | PKT_8x8 \<Rightarrow> NIOS_PKT_8x8_MAGIC
      | PKT_8x16 \<Rightarrow> NIOS_PKT_8x16_MAGIC
      | PKT_8x32 \<Rightarrow> NIOS_PKT_8x32_MAGIC
      | PKT_8x64 \<Rightarrow> NIOS_PKT_8x64_MAGIC
      | PKT_32x32 \<Rightarrow> NIOS_PKT_32x32_MAGIC
      | PKT_LEGACY \<Rightarrow> NIOS_PKT_LEGACY_MAGIC)"

definition handler_exec :: "'h bus \<Rightarrow> pkt_handler \<Rightarrow> bytes \<Rightarrow> bytes \<Rightarrow> (('h, 'z) legacy_state_scheme, bytes) fw" where
  "handler_exec bus h req resp =
     (case h of
        PKT_RETUNE \<Rightarrow> liftF (pkt_retune bus req resp)
      | PKT_8x8 \<Rightarrow> pkt_8x8 bus req resp
      | PKT_8x16 \<Rightarrow> liftF (pkt_8x16 bus req resp)
      | PKT_8x32 \<Rightarrow> liftF (pkt_8x32 bus req resp)
      | PKT_8x64 \<Rightarrow> liftF (pkt_8x64 bus req resp)
      | PKT_32x32 \<Rightarrow> liftF (pkt_32x32 bus req resp)
      | PKT_LEGACY \<Rightarrow> pkt_legacy bus req resp)"

definition handler_init :: "pkt_handler \<Rightarrow> (('h, 'z) retune_state_scheme, unit) st" where
  "handler_init h = (if h = PKT_RETUNE then pkt_retune_init else returnS ())"

definition handler_do_work :: "'h bus \<Rightarrow> pkt_handler \<Rightarrow> (('h, 'z) retune_state_scheme, unit) st" where
  "handler_do_work bus h = (if h = PKT_RETUNE then pkt_retune_work bus else returnS ())"

text \<open>The search goes on after a match, so the last handler with the magic would win.\<close>

definition find_handler :: "u8 \<Rightarrow> pkt_handler option" where
  "find_handler magic =
     fold (\<lambda>h found. if handler_magic h = magic then Some h else found) pkt_handlers None"

fun eachS :: "('a \<Rightarrow> ('s, unit) st) \<Rightarrow> 'a list \<Rightarrow> ('s, unit) st" where
  "eachS f [] = returnS ()"
| "eachS f (x # xs) = seqS (f x) (eachS f xs)"

section \<open>Calibration of the VCTCXO\<close>

abbreviation (input) trimdac_min :: u16 where "trimdac_min \<equiv> 0x28F5"
abbreviation (input) trimdac_max :: u16 where "trimdac_max \<equiv> 0xF5C3"

text \<open>Division of C ints, which truncates.\<close>

definition s32_div :: "u32 \<Rightarrow> u32 \<Rightarrow> u32" where
  "s32_div a b = word_of_int (sint a sdiv sint b)"

text \<open>slope and y_intercept of the line through the two points, in int arithmetic; None for equal
  errors, where the C code divides by zero.\<close>

definition line_fit :: "trimdac_line \<Rightarrow> trimdac_line option" where
  "line_fit l =
     (if point1_x l - point0_x l = 0 then None
      else
        let slope = s32_div (ucast (point1_y l) - ucast (point0_y l)) (point1_x l - point0_x l) in
        Some (l\<lparr>line_slope := slope,
                line_y_intercept := ucast (ucast (point0_y l) - slope * point0_x l)\<rparr>))"

text \<open>The next value of the DAC in fine tuning, from an error and the length of its interval.\<close>

definition fine_value :: "u16 \<Rightarrow> u32 \<Rightarrow> u32 \<Rightarrow> u32 \<Rightarrow> u16" where
  "fine_value dac err slope interval = ucast (ucast dac - s32_div (err * slope) interval)"

definition vctcxo_tune :: "'h bus \<Rightarrow> (('h, 'z) nios_scheme, unit) fw" where
  "vctcxo_tune bus =
     bindF (liftF (getS (\<lambda>s. (tune_state s, vctcxo_tamer_pkt s)))) (\<lambda>(st, p).
     case st of
       COARSE_TUNE_MIN \<Rightarrow>
         seqF (liftF (vctcxo_trim_dac_write bus 0x08 trimdac_min))
         (liftF (modifyS (\<lambda>s. s\<lparr>tune_state := COARSE_TUNE_MAX\<rparr>)))
     | COARSE_TUNE_MAX \<Rightarrow>
         seqF (liftF (modifyS (\<lambda>s. s\<lparr>trimdac_cal_line := (trimdac_cal_line s)\<lparr>point0_x := vt_pps_1s_error p\<rparr>\<rparr>)))
         (seqF (liftF (vctcxo_trim_dac_write bus 0x08 trimdac_max))
         (liftF (modifyS (\<lambda>s. s\<lparr>tune_state := COARSE_TUNE_DONE\<rparr>))))
     | COARSE_TUNE_DONE \<Rightarrow>
         seqF (liftF (modifyS (\<lambda>s. s\<lparr>trimdac_cal_line := (trimdac_cal_line s)\<lparr>point1_x := vt_pps_1s_error p\<rparr>\<rparr>)))
         (bindF (liftF (getS trimdac_cal_line)) (\<lambda>l.
          case line_fit l of
            None \<Rightarrow> undefinedF
          | Some l \<Rightarrow>
              seqF (liftF (modifyS (\<lambda>s. s\<lparr>trimdac_cal_line := l\<rparr>)))
              (seqF (liftF (vctcxo_trim_dac_write bus 0x08 (line_y_intercept l)))
              (liftF (modifyS (\<lambda>s. s\<lparr>tune_state := FINE_TUNE\<rparr>))))))
     | FINE_TUNE \<Rightarrow>
         bindF (liftF (getS (\<lambda>s. (vctcxo_trim_dac_value s, line_slope (trimdac_cal_line s))))) (\<lambda>(dac, slope).
         if vt_pps_1s_error_flag p then
           liftF (vctcxo_trim_dac_write bus 0x08 (fine_value dac (vt_pps_1s_error p) slope 1))
         else if vt_pps_10s_error_flag p then
           liftF (vctcxo_trim_dac_write bus 0x08 (fine_value dac (vt_pps_10s_error p) slope 10))
         else if vt_pps_100s_error_flag p then
           liftF (vctcxo_trim_dac_write bus 0x08 (fine_value dac (vt_pps_100s_error p) slope 100))
         else returnF ())
     | DO_NOTHING \<Rightarrow> returnF ())"

section \<open>The loop\<close>

definition main_init :: "'h bus \<Rightarrow> (('h, 'z) nios_scheme, unit) st" where
  "main_init bus =
     seqS (modifyS (\<lambda>s. s\<lparr>tune_state := COARSE_TUNE_MIN,
       trimdac_cal_line := \<lparr> point0_x = 0, point0_y = trimdac_min, point1_x = 0, point1_y = trimdac_max,
         line_slope = 0, line_y_intercept = 0 \<rparr>,
       pkt_req := replicate 16 0, pkt_resp := replicate 16 0, pkt_ready := False\<rparr>))
     (seqS (bladerf_nios_init bus)
     (eachS handler_init pkt_handlers))"

definition main_request :: "'h bus \<Rightarrow> (('h, 'z) nios_scheme, unit) fw" where
  "main_request bus =
     seqF (liftF (modifyS (\<lambda>s. s\<lparr>pkt_ready := False\<rparr>)))
     (bindF (liftF (getS (\<lambda>s. (pkt_req s, pkt_resp s)))) (\<lambda>(req, resp).
      case find_handler (req ! PKT_MAGIC_IDX) of
        None \<Rightarrow> returnF ()
      | Some h \<Rightarrow>
          bindF (handler_exec bus h req resp) (\<lambda>resp.
          seqF (liftF (modifyS (\<lambda>s. s\<lparr>pkt_resp := resp\<rparr>)))
          (liftF (command_uart_write_response bus resp)))))"

definition main_idle :: "'h bus \<Rightarrow> (('h, 'z) nios_scheme, unit) fw" where
  "main_idle bus =
     bindF (liftF (getS (\<lambda>s. vt_ready (vctcxo_tamer_pkt s)))) (\<lambda>ready.
     seqF (if ready then
             seqF (liftF (modifyS (\<lambda>s. s\<lparr>vctcxo_tamer_pkt := (vctcxo_tamer_pkt s)\<lparr>vt_ready := False\<rparr>\<rparr>)))
             (seqF (vctcxo_tune bus)
             (seqF (liftF (vctcxo_tamer_reset_counters bus False))
             (liftF (vctcxo_tamer_enable_isr bus True))))
           else returnF ())
     (liftF (eachS (handler_do_work bus) pkt_handlers)))"

definition main_step :: "'h bus \<Rightarrow> (('h, 'z) nios_scheme, unit) fw" where
  "main_step bus =
     bindF (liftF (getS pkt_ready)) (\<lambda>have_request.
     if have_request then main_request bus else main_idle bus)"

end
