(* ===== verification/Nios_Host.thy ===== *)
theory Nios_Host
  imports Nios_Main
begin

text \<open>
  The host's side of the packet formats: libbladeRF's backend/usb/nios_access.c, with the capability
  masks of capabilities.c.  The USB backend is the record \<open>usb\<close>: the two bulk transfers, each
  with the status it returns.  Output arguments are results; they are meaningful when the call
  succeeds, which is when the callers look at them.  The buffer of a request is on the stack and
  uninitialised in C; the pack functions overwrite all of it.
\<close>

unbundle bit_operations_syntax

section \<open>Capabilities\<close>

record bladerf_version =
  ver_major :: u16
  ver_minor :: u16
  ver_patch :: u16

definition version_greater_or_equal :: "bladerf_version \<Rightarrow> nat \<Rightarrow> nat \<Rightarrow> nat \<Rightarrow> bool" where
  "version_greater_or_equal v major minor patch =
     (if unat (ver_major v) > major then True
      else if unat (ver_major v) = major \<and> unat (ver_minor v) > minor then True
      else if unat (ver_major v) = major \<and> unat (ver_minor v) = minor \<and> unat (ver_patch v) \<ge> patch
      then True else False)"

abbreviation (input) BLADERF_CAP_UPDATED_DAC_ADDR :: u64 where "BLADERF_CAP_UPDATED_DAC_ADDR \<equiv> 0x01"
abbreviation (input) BLADERF_CAP_XB200 :: u64 where "BLADERF_CAP_XB200 \<equiv> 0x02"
abbreviation (input) BLADERF_CAP_TIMESTAMPS :: u64 where "BLADERF_CAP_TIMESTAMPS \<equiv> 0x04"
abbreviation (input) BLADERF_CAP_FPGA_TUNING :: u64 where "BLADERF_CAP_FPGA_TUNING \<equiv> 0x08"
abbreviation (input) BLADERF_CAP_SCHEDULED_RETUNE :: u64 where "BLADERF_CAP_SCHEDULED_RETUNE \<equiv> 0x08"
abbreviation (input) BLADERF_CAP_PKT_HANDLER_FMT :: u64 where "BLADERF_CAP_PKT_HANDLER_FMT \<equiv> 0x10"
abbreviation (input) BLADERF_CAP_VCTCXO_TRIMDAC_READ :: u64 where "BLADERF_CAP_VCTCXO_TRIMDAC_READ \<equiv> 0x20"
abbreviation (input) BLADERF_CAP_ATOMIC_NINT_NFRAC_WRITE :: u64 where
  "BLADERF_CAP_ATOMIC_NINT_NFRAC_WRITE \<equiv> 0x40"
abbreviation (input) BLADERF_CAP_MASKED_XBIO_WRITE :: u64 where "BLADERF_CAP_MASKED_XBIO_WRITE \<equiv> 0x80"
abbreviation (input) BLADERF_CAP_VCTCXO_TAMING_MODE :: u64 where "BLADERF_CAP_VCTCXO_TAMING_MODE \<equiv> 0x100"
abbreviation (input) BLADERF_CAP_FW_LOOPBACK :: u64 where "BLADERF_CAP_FW_LOOPBACK \<equiv> 0x100000000"
abbreviation (input) BLADERF_CAP_QUERY_DEVICE_READY :: u64 where "BLADERF_CAP_QUERY_DEVICE_READY \<equiv> 0x200000000"
abbreviation (input) BLADERF_CAP_READ_FW_LOG_ENTRY :: u64 where "BLADERF_CAP_READ_FW_LOG_ENTRY \<equiv> 0x400000000"

definition have_cap :: "u64 \<Rightarrow> u64 \<Rightarrow> bool" where
  "have_cap capabilities capability \<longleftrightarrow> capabilities AND capability \<noteq> 0"

definition capabilities_init_pre_fpga_load :: "bladerf_version \<Rightarrow> u64" where
  "capabilities_init_pre_fpga_load v =
     (let c = 0;
          c = (if version_greater_or_equal v 1 7 1 then c OR BLADERF_CAP_FW_LOOPBACK else c);
          c = (if version_greater_or_equal v 1 8 0 then c OR BLADERF_CAP_QUERY_DEVICE_READY else c);
          c = (if version_greater_or_equal v 1 9 0 then c OR BLADERF_CAP_READ_FW_LOG_ENTRY else c)
      in c)"

definition capabilities_init_post_fpga_load :: "bladerf_version \<Rightarrow> u64 \<Rightarrow> u64" where
  "capabilities_init_post_fpga_load v c =
     (let c = (if version_greater_or_equal v 0 0 4 then c OR BLADERF_CAP_UPDATED_DAC_ADDR else c);
          c = (if version_greater_or_equal v 0 0 5 then c OR BLADERF_CAP_XB200 else c);
          c = (if version_greater_or_equal v 0 1 0 then c OR BLADERF_CAP_TIMESTAMPS else c);
          c = (if version_greater_or_equal v 0 2 0
               then (c OR BLADERF_CAP_FPGA_TUNING) OR BLADERF_CAP_SCHEDULED_RETUNE else c);
          c = (if version_greater_or_equal v 0 3 0 then c OR BLADERF_CAP_PKT_HANDLER_FMT else c);
          c = (if version_greater_or_equal v 0 3 2 then c OR BLADERF_CAP_VCTCXO_TRIMDAC_READ else c);
          c = (if version_greater_or_equal v 0 4 0 then c OR BLADERF_CAP_ATOMIC_NINT_NFRAC_WRITE else c);
          c = (if version_greater_or_equal v 0 4 1 then c OR BLADERF_CAP_MASKED_XBIO_WRITE else c);
          c = (if version_greater_or_equal v 0 5 0 then c OR BLADERF_CAP_VCTCXO_TAMING_MODE else c)
      in c)"

section \<open>Transfers\<close>

record 's usb =
  usb_out :: "bytes \<Rightarrow> 's \<Rightarrow> int \<times> 's"
  usb_in :: "bytes \<Rightarrow> 's \<Rightarrow> (int \<times> bytes) \<times> 's"

definition usb_send :: "'s usb \<Rightarrow> bytes \<Rightarrow> ('s, unit) io" where
  "usb_send u buf s =
     (case usb_out u buf s of (status, t) \<Rightarrow> (if status \<noteq> 0 then (Inl status, t) else (Inr (), t)))"

definition usb_receive :: "'s usb \<Rightarrow> bytes \<Rightarrow> ('s, bytes) io" where
  "usb_receive u buf s =
     (case usb_in u buf s of ((status, r), t) \<Rightarrow> (if status \<noteq> 0 then (Inl status, t) else (Inr r, t)))"

definition nios_access :: "'s usb \<Rightarrow> bytes \<Rightarrow> ('s, bytes) io" where
  "nios_access u buf = seqE (usb_send u buf) (usb_receive u buf)"

definition stack_buf :: bytes where
  "stack_buf = replicate 16 0"

section \<open>One function per format and direction\<close>

definition nios_8x8_read :: "'s usb \<Rightarrow> u8 \<Rightarrow> u8 \<Rightarrow> ('s, u8) io" where
  "nios_8x8_read u target addr =
     bindE (nios_access u (nios_pkt_8x8_pack stack_buf target False addr 0)) (\<lambda>buf.
     case nios_pkt_8x8_resp_unpack buf of ((_, _, _, data), success) \<Rightarrow>
       if success then returnE data else throwE BLADERF_ERR_FPGA_OP)"

definition nios_8x8_write :: "'s usb \<Rightarrow> u8 \<Rightarrow> u8 \<Rightarrow> u8 \<Rightarrow> ('s, unit) io" where
  "nios_8x8_write u target addr data =
     bindE (nios_access u (nios_pkt_8x8_pack stack_buf target True addr data)) (\<lambda>buf.
     case nios_pkt_8x8_resp_unpack buf of (_, success) \<Rightarrow>
       if success then returnE () else throwE BLADERF_ERR_FPGA_OP)"

definition nios_8x16_read :: "'s usb \<Rightarrow> u8 \<Rightarrow> u8 \<Rightarrow> ('s, u16) io" where
  "nios_8x16_read u target addr =
     bindE (nios_access u (nios_pkt_8x16_pack stack_buf target False addr 0)) (\<lambda>buf.
     case nios_pkt_8x16_resp_unpack buf of ((_, _, _, tmp), success) \<Rightarrow>
       if success then returnE tmp else throwE BLADERF_ERR_FPGA_OP)"

definition nios_8x16_write :: "'s usb \<Rightarrow> u8 \<Rightarrow> u8 \<Rightarrow> u16 \<Rightarrow> ('s, unit) io" where
  "nios_8x16_write u target addr data =
     bindE (nios_access u (nios_pkt_8x16_pack stack_buf target True addr data)) (\<lambda>buf.
     case nios_pkt_8x16_resp_unpack buf of (_, success) \<Rightarrow>
       if success then returnE () else throwE BLADERF_ERR_FPGA_OP)"

text \<open>The address is packed as 0 whatever the argument is, as in the source.\<close>

definition nios_8x32_read :: "'s usb \<Rightarrow> u8 \<Rightarrow> u8 \<Rightarrow> ('s, u32) io" where
  "nios_8x32_read u target addr =
     bindE (nios_access u (nios_pkt_8x32_pack stack_buf target False 0 0)) (\<lambda>buf.
     case nios_pkt_8x32_resp_unpack buf of ((_, _, _, data), success) \<Rightarrow>
       if success then returnE data else throwE BLADERF_ERR_FPGA_OP)"

definition nios_8x32_write :: "'s usb \<Rightarrow> u8 \<Rightarrow> u8 \<Rightarrow> u32 \<Rightarrow> ('s, unit) io" where
  "nios_8x32_write u target addr data =
     bindE (nios_access u (nios_pkt_8x32_pack stack_buf target True addr data)) (\<lambda>buf.
     case nios_pkt_8x32_resp_unpack buf of (_, success) \<Rightarrow>
       if success then returnE () else throwE BLADERF_ERR_FPGA_OP)"

definition nios_32x32_masked_read :: "'s usb \<Rightarrow> u8 \<Rightarrow> u32 \<Rightarrow> ('s, u32) io" where
  "nios_32x32_masked_read u target bits =
     bindE (nios_access u (nios_pkt_32x32_pack stack_buf target False bits 0)) (\<lambda>buf.
     case nios_pkt_32x32_resp_unpack buf of ((_, _, _, val), success) \<Rightarrow>
       if success then returnE val else throwE BLADERF_ERR_FPGA_OP)"

definition nios_32x32_masked_write :: "'s usb \<Rightarrow> u8 \<Rightarrow> u32 \<Rightarrow> u32 \<Rightarrow> ('s, unit) io" where
  "nios_32x32_masked_write u target bits val =
     bindE (nios_access u (nios_pkt_32x32_pack stack_buf target True bits val)) (\<lambda>buf.
     case nios_pkt_32x32_resp_unpack buf of (_, success) \<Rightarrow>
       if success then returnE () else throwE BLADERF_ERR_FPGA_OP)"

section \<open>Device functions\<close>

definition nios_config_read :: "'s usb \<Rightarrow> ('s, u32) io" where
  "nios_config_read u = nios_8x32_read u NIOS_PKT_8x32_TARGET_CONTROL 0"

definition nios_config_write :: "'s usb \<Rightarrow> u32 \<Rightarrow> ('s, unit) io" where
  "nios_config_write u val = nios_8x32_write u NIOS_PKT_8x32_TARGET_CONTROL 0 val"

text \<open>The host is little-endian, so LE16_TO_HOST is the identity.\<close>

definition nios_get_fpga_version :: "'s usb \<Rightarrow> ('s, bladerf_version) io" where
  "nios_get_fpga_version u =
     bindE (nios_8x32_read u NIOS_PKT_8x32_TARGET_VERSION 0) (\<lambda>regval.
     returnE \<lparr> ver_major = ucast (drop_bit 24 regval AND 0xff),
       ver_minor = ucast (drop_bit 16 regval AND 0xff),
       ver_patch = ucast (regval AND 0xffff) \<rparr>)"

definition nios_get_timestamp :: "'s usb \<Rightarrow> bladerf_module \<Rightarrow> ('s, u64) io" where
  "nios_get_timestamp u m =
     (case (case m of
              BLADERF_MODULE_RX \<Rightarrow> Some NIOS_PKT_8x64_TIMESTAMP_RX
            | BLADERF_MODULE_TX \<Rightarrow> Some NIOS_PKT_8x64_TIMESTAMP_TX
            | BLADERF_MODULE_INVALID \<Rightarrow> None) of
        None \<Rightarrow> throwE BLADERF_ERR_INVAL
      | Some addr \<Rightarrow>
          bindE (nios_access u
            (nios_pkt_8x64_pack stack_buf NIOS_PKT_8x64_TARGET_TIMESTAMP False addr 0)) (\<lambda>buf.
          case nios_pkt_8x64_resp_unpack buf of ((_, _, _, timestamp), success) \<Rightarrow>
            if success then returnE timestamp else throwE BLADERF_ERR_FPGA_OP))"

definition nios_si5338_read :: "'s usb \<Rightarrow> u8 \<Rightarrow> ('s, u8) io" where
  "nios_si5338_read u addr = nios_8x8_read u NIOS_PKT_8x8_TARGET_SI5338 addr"

definition nios_si5338_write :: "'s usb \<Rightarrow> u8 \<Rightarrow> u8 \<Rightarrow> ('s, unit) io" where
  "nios_si5338_write u addr data = nios_8x8_write u NIOS_PKT_8x8_TARGET_SI5338 addr data"

definition nios_lms6_read :: "'s usb \<Rightarrow> u8 \<Rightarrow> ('s, u8) io" where
  "nios_lms6_read u addr = nios_8x8_read u NIOS_PKT_8x8_TARGET_LMS6 addr"

definition nios_lms6_write :: "'s usb \<Rightarrow> u8 \<Rightarrow> u8 \<Rightarrow> ('s, unit) io" where
  "nios_lms6_write u addr data = nios_8x8_write u NIOS_PKT_8x8_TARGET_LMS6 addr data"

definition nios_vctcxo_trim_dac_write :: "'s usb \<Rightarrow> u16 \<Rightarrow> ('s, unit) io" where
  "nios_vctcxo_trim_dac_write u val =
     seqE (nios_8x16_write u NIOS_PKT_8x16_TARGET_VCTCXO_DAC 0x28 0)
     (nios_8x16_write u NIOS_PKT_8x16_TARGET_VCTCXO_DAC 0x08 val)"

definition nios_vctcxo_trim_dac_read :: "'s usb \<Rightarrow> u64 \<Rightarrow> ('s, u16) io" where
  "nios_vctcxo_trim_dac_read u caps =
     (if \<not> have_cap caps BLADERF_CAP_VCTCXO_TRIMDAC_READ then throwE BLADERF_ERR_UNSUPPORTED
      else nios_8x16_read u NIOS_PKT_8x16_TARGET_VCTCXO_DAC 0x98)"

definition nios_set_vctcxo_tamer_mode :: "'s usb \<Rightarrow> u64 \<Rightarrow> int \<Rightarrow> ('s, unit) io" where
  "nios_set_vctcxo_tamer_mode u caps mode =
     (if \<not> have_cap caps BLADERF_CAP_VCTCXO_TAMING_MODE then throwE BLADERF_ERR_UNSUPPORTED
      else nios_8x8_write u NIOS_PKT_8x8_TARGET_VCTCXO_TAMER 0xff (word_of_int mode))"

definition nios_get_vctcxo_tamer_mode :: "'s usb \<Rightarrow> u64 \<Rightarrow> ('s, int) io" where
  "nios_get_vctcxo_tamer_mode u caps =
     (if \<not> have_cap caps BLADERF_CAP_VCTCXO_TAMING_MODE then throwE BLADERF_ERR_UNSUPPORTED
      else
        bindE (nios_8x8_read u NIOS_PKT_8x8_TARGET_VCTCXO_TAMER 0xff) (\<lambda>tmp.
        if uint tmp \<in> {BLADERF_VCTCXO_TAMER_DISABLED, BLADERF_VCTCXO_TAMER_1_PPS, BLADERF_VCTCXO_TAMER_10_MHZ}
        then returnE (uint tmp) else throwE BLADERF_ERR_UNEXPECTED))"

text \<open>The corrections are int16_t values.\<close>

definition nios_get_iq_gain_correction :: "'s usb \<Rightarrow> bladerf_module \<Rightarrow> ('s, int) io" where
  "nios_get_iq_gain_correction u m =
     (case m of
        BLADERF_MODULE_RX \<Rightarrow>
          bindE (nios_8x16_read u NIOS_PKT_8x16_TARGET_IQ_CORR NIOS_PKT_8x16_ADDR_IQ_CORR_RX_GAIN)
            (\<lambda>tmp. returnE (sint tmp))
      | BLADERF_MODULE_TX \<Rightarrow>
          bindE (nios_8x16_read u NIOS_PKT_8x16_TARGET_IQ_CORR NIOS_PKT_8x16_ADDR_IQ_CORR_TX_GAIN)
            (\<lambda>tmp. returnE (sint tmp))
      | BLADERF_MODULE_INVALID \<Rightarrow> throwE BLADERF_ERR_INVAL)"

definition nios_get_iq_phase_correction :: "'s usb \<Rightarrow> bladerf_module \<Rightarrow> ('s, int) io" where
  "nios_get_iq_phase_correction u m =
     (case m of
        BLADERF_MODULE_RX \<Rightarrow>
          bindE (nios_8x16_read u NIOS_PKT_8x16_TARGET_IQ_CORR NIOS_PKT_8x16_ADDR_IQ_CORR_RX_PHASE)
            (\<lambda>tmp. returnE (sint tmp))
      | BLADERF_MODULE_TX \<Rightarrow>
          bindE (nios_8x16_read u NIOS_PKT_8x16_TARGET_IQ_CORR NIOS_PKT_8x16_ADDR_IQ_CORR_TX_PHASE)
            (\<lambda>tmp. returnE (sint tmp))
      | BLADERF_MODULE_INVALID \<Rightarrow> throwE BLADERF_ERR_INVAL)"

definition nios_set_iq_gain_correction :: "'s usb \<Rightarrow> bladerf_module \<Rightarrow> int \<Rightarrow> ('s, unit) io" where
  "nios_set_iq_gain_correction u m val =
     (case m of
        BLADERF_MODULE_RX \<Rightarrow> nios_8x16_write u NIOS_PKT_8x16_TARGET_IQ_CORR
          NIOS_PKT_8x16_ADDR_IQ_CORR_RX_GAIN (word_of_int val)
      | BLADERF_MODULE_TX \<Rightarrow> nios_8x16_write u NIOS_PKT_8x16_TARGET_IQ_CORR
          NIOS_PKT_8x16_ADDR_IQ_CORR_TX_GAIN (word_of_int val)
      | BLADERF_MODULE_INVALID \<Rightarrow> throwE BLADERF_ERR_INVAL)"

definition nios_set_iq_phase_correction :: "'s usb \<Rightarrow> bladerf_module \<Rightarrow> int \<Rightarrow> ('s, unit) io" where
  "nios_set_iq_phase_correction u m val =
     (case m of
        BLADERF_MODULE_RX \<Rightarrow> nios_8x16_write u NIOS_PKT_8x16_TARGET_IQ_CORR
          NIOS_PKT_8x16_ADDR_IQ_CORR_RX_PHASE (word_of_int val)
      | BLADERF_MODULE_TX \<Rightarrow> nios_8x16_write u NIOS_PKT_8x16_TARGET_IQ_CORR
          NIOS_PKT_8x16_ADDR_IQ_CORR_TX_PHASE (word_of_int val)
      | BLADERF_MODULE_INVALID \<Rightarrow> throwE BLADERF_ERR_INVAL)"

definition nios_xb200_synth_write :: "'s usb \<Rightarrow> u32 \<Rightarrow> ('s, unit) io" where
  "nios_xb200_synth_write u val = nios_8x32_write u NIOS_PKT_8x32_TARGET_ADF4351 0 val"

definition nios_expansion_gpio_read :: "'s usb \<Rightarrow> ('s, u32) io" where
  "nios_expansion_gpio_read u = nios_32x32_masked_read u NIOS_PKT_32x32_TARGET_EXP 0xffffffff"

definition nios_expansion_gpio_write :: "'s usb \<Rightarrow> u32 \<Rightarrow> u32 \<Rightarrow> ('s, unit) io" where
  "nios_expansion_gpio_write u bits val = nios_32x32_masked_write u NIOS_PKT_32x32_TARGET_EXP bits val"

definition nios_expansion_gpio_dir_read :: "'s usb \<Rightarrow> ('s, u32) io" where
  "nios_expansion_gpio_dir_read u = nios_32x32_masked_read u NIOS_PKT_32x32_TARGET_EXP_DIR 0xffffffff"

definition nios_expansion_gpio_dir_write :: "'s usb \<Rightarrow> u32 \<Rightarrow> u32 \<Rightarrow> ('s, unit) io" where
  "nios_expansion_gpio_dir_write u bits val = nios_32x32_masked_write u NIOS_PKT_32x32_TARGET_EXP_DIR bits val"

definition nios_retune :: "'s usb \<Rightarrow> retune_request \<Rightarrow> ('s, unit) io" where
  "nios_retune u r =
     bindE (nios_access u (nios_pkt_retune_pack stack_buf (rt_module r) (rt_timestamp r) (rt_nint r)
              (rt_nfrac r) (rt_freqsel r) (rt_vcocap r) (rt_low_band r) (rt_quick_tune r))) (\<lambda>buf.
     case nios_pkt_retune_resp_unpack buf of (duration, vcocap, resp_flags) \<Rightarrow>
       if resp_flags AND NIOS_PKT_RETUNERESP_FLAG_SUCCESS = 0 then
         if rt_timestamp r = NIOS_PKT_RETUNE_NOW then throwE BLADERF_ERR_UNEXPECTED
         else throwE BLADERF_ERR_QUEUE_FULL
       else returnE ())"

section \<open>The device handle of the host\<close>

text \<open>LMS_READ, LMS_WRITE, CONFIG_GPIO_READ and CONFIG_GPIO_WRITE of the host build, on the packet
  formats of an FPGA with BLADERF_CAP_PKT_HANDLER_FMT.  CONFIG_GPIO_WRITE is config_gpio_write of
  bladerf_priv.c, which makes bit 7, the size of the DMA transfers, follow the USB speed.\<close>

datatype bladerf_dev_speed = BLADERF_DEVICE_SPEED_UNKNOWN | BLADERF_DEVICE_SPEED_HIGH
  | BLADERF_DEVICE_SPEED_SUPER

abbreviation (input) BLADERF_GPIO_FEATURE_SMALL_DMA_XFER :: u32 where
  "BLADERF_GPIO_FEATURE_SMALL_DMA_XFER \<equiv> 0x80"

definition config_gpio_write :: "'s usb \<Rightarrow> bladerf_dev_speed \<Rightarrow> u32 \<Rightarrow> ('s, unit) io" where
  "config_gpio_write u speed val =
     (case speed of
        BLADERF_DEVICE_SPEED_HIGH \<Rightarrow> nios_config_write u (val OR BLADERF_GPIO_FEATURE_SMALL_DMA_XFER)
      | BLADERF_DEVICE_SPEED_SUPER \<Rightarrow> nios_config_write u (val AND NOT BLADERF_GPIO_FEATURE_SMALL_DMA_XFER)
      | BLADERF_DEVICE_SPEED_UNKNOWN \<Rightarrow> throwE BLADERF_ERR_UNEXPECTED)"

definition io_result :: "'a \<Rightarrow> ('s, 'a) io \<Rightarrow> 's \<Rightarrow> (int \<times> 'a) \<times> 's" where
  "io_result x m s = (case m s of (Inl e, t) \<Rightarrow> ((e, x), t) | (Inr y, t) \<Rightarrow> ((0, y), t))"

definition host_lms :: "'s usb \<Rightarrow> bladerf_dev_speed \<Rightarrow> u64 \<Rightarrow> 's lms_dev" where
  "host_lms u speed caps =
    \<lparr> dev_lms_read = (\<lambda>addr. io_result 0 (nios_lms6_read u addr)),
      dev_lms_write = (\<lambda>addr data s. io_status (nios_lms6_write u addr data) s),
      dev_gpio_read = io_result 0 (nios_config_read u),
      dev_gpio_write = (\<lambda>data s. io_status (config_gpio_write u speed data) s),
      dev_atomic_pll = have_cap caps BLADERF_CAP_ATOMIC_NINT_NFRAC_WRITE \<rparr>"

end
