(* ===== verification/Nios_Link.thy ===== *)
theory Nios_Link
  imports Nios_Host
begin

text \<open>
  Host and firmware together.  \<open>fpga_usb\<close> is the USB backend that ends at the firmware: the
  sixteen bytes of a request arrive in the command UART and raise its interrupt, one turn of the main
  loop answers them, and the sixteen bytes of the response are what the host receives.  A turn that
  never ends is a transfer that times out.
\<close>

unbundle bit_operations_syntax


type_synonym 'z link = "(board, 'z) nios_scheme"

definition uart_receive :: "bytes \<Rightarrow> board \<Rightarrow> board" where
  "uart_receive req b = b\<lparr>bd_uart_req := (\<lambda>off. uart_word req (unat off))\<rparr>"

definition uart_sent :: "board \<Rightarrow> bytes" where
  "uart_sent b = uart_word_bytes (bd_uart_resp b 0) @ uart_word_bytes (bd_uart_resp b 4)
     @ uart_word_bytes (bd_uart_resp b 8) @ uart_word_bytes (bd_uart_resp b 12)"

definition fpga_usb :: "'z link usb" where
  "fpga_usb =
    \<lparr> usb_out = (\<lambda>buf s. (0, snd (command_uart_isr board_bus (s\<lparr>nios_hw := uart_receive buf (nios_hw s)\<rparr>)))),
      usb_in = (\<lambda>buf s. (case main_step board_bus s of
         None \<Rightarrow> ((BLADERF_ERR_TIMEOUT, buf), s)
       | Some (_, t) \<Rightarrow> ((0, uart_sent (nios_hw t)), t))) \<rparr>"

text \<open>The state in which a handler runs, and the state once its response is out.\<close>

definition asked :: "bytes \<Rightarrow> 'z link \<Rightarrow> 'z link" where
  "asked req s = s\<lparr>nios_hw := uart_receive req (nios_hw s), pkt_req := req, pkt_ready := False\<rparr>"

definition answered :: "bytes \<Rightarrow> 'z link \<Rightarrow> 'z link" where
  "answered resp s = snd (command_uart_write_response board_bus resp (s\<lparr>pkt_resp := resp\<rparr>))"

lemma uart_word_bytes_word:
  "uart_word_bytes (uart_word resp i) = [resp ! i, resp ! (i + 1), resp ! (i + 2), resp ! (i + 3)]"
  unfolding uart_word_bytes_def uart_word_def
  by (simp add: word8_eq_iff bit_simps bit_word_high)

lemma bytes_16: "length xs = 16 \<Longrightarrow> [xs ! 0, xs ! 1, xs ! 2, xs ! 3] @ [xs ! 4, xs ! 5, xs ! 6, xs ! 7]
    @ [xs ! 8, xs ! 9, xs ! 10, xs ! 11] @ [xs ! 12, xs ! 13, xs ! 14, xs ! 15] = xs"
  by (elim length_16E) simp

lemma uart_request:
  assumes "length req = 16"
  shows "snd (command_uart_isr board_bus (s\<lparr>nios_hw := uart_receive req (nios_hw s)\<rparr>))
    = s\<lparr>nios_hw := uart_receive req (nios_hw s), pkt_req := req, pkt_ready := True\<rparr>"
  using bytes_16 [OF assms]
  by (simp add: command_uart_isr_def command_uart_read_request_def bindS_apply IORD_32DIRECT_def on_hw_def
      board_read32_def uart_receive_def uart_word_bytes_word) (simp add: numeral_2_eq_2)

lemma uart_response:
  assumes "length resp = 16"
  shows "uart_sent (nios_hw (answered resp s)) = resp"
  using bytes_16 [OF assms]
  by (simp add: answered_def command_uart_write_response_def bindS_apply IOWR_32DIRECT_def on_hw_def
      board_write32_def uart_sent_def uart_word_bytes_word) (simp add: numeral_2_eq_2)

lemma nios_access_fpga:
  assumes "length req = 16" "find_handler (req ! PKT_MAGIC_IDX) = Some h"
    and "handler_exec board_bus h req (pkt_resp s) (asked req s) = Some (resp, t)" "length resp = 16"
  shows "nios_access fpga_usb req s = (Inr resp, answered resp t)"
proof -
  let ?a = "s\<lparr>nios_hw := uart_receive req (nios_hw s), pkt_req := req, pkt_ready := True\<rparr>"
  have "main_step board_bus ?a = Some ((), answered resp t)"
    using assms(2,3) by (simp add: main_step_def main_request_def bindF_Some asked_def answered_def prod_eq_iff)
  then show ?thesis
    by (simp add: nios_access_def bindE_def usb_send_def usb_receive_def fpga_usb_def uart_request [OF assms(1)]
        uart_response [OF assms(4)])
qed

lemma answered_frame [simp]:
  "board_reg (answered resp s) = board_reg s" "board_ok (answered resp s) = board_ok s"
  "bd_pio (nios_hw (answered resp s)) = bd_pio (nios_hw s)"
  "bd_lms (nios_hw (answered resp s)) = bd_lms (nios_hw s)"
  "board_gpio (answered resp s) = board_gpio s" "pkt_resp (answered resp s) = resp"
  "bd_rx_tamer (nios_hw (answered resp s)) = bd_rx_tamer (nios_hw s)"
  "bd_tx_tamer (nios_hw (answered resp s)) = bd_tx_tamer (nios_hw s)"
  "get_queue m (answered resp s) = get_queue m s"
  by (simp_all add: answered_def command_uart_write_response_def bindS_apply IOWR_32DIRECT_def on_hw_def
      board_write32_def board_reg_def board_ok_def board_gpio_def get_queue_def)

lemma asked_frame [simp]:
  "board_reg (asked req s) = board_reg s" "board_ok (asked req s) = board_ok s"
  "bd_pio (nios_hw (asked req s)) = bd_pio (nios_hw s)"
  "bd_lms (nios_hw (asked req s)) = bd_lms (nios_hw s)"
  "board_gpio (asked req s) = board_gpio s" "pkt_resp (asked req s) = pkt_resp s"
  "bd_rx_tamer (nios_hw (asked req s)) = bd_rx_tamer (nios_hw s)"
  "bd_tx_tamer (nios_hw (asked req s)) = bd_tx_tamer (nios_hw s)"
  "get_queue m (asked req s) = get_queue m s"
  by (simp_all add: asked_def uart_receive_def board_reg_def board_ok_def board_gpio_def get_queue_def)

end
