(* ===== verification/Retune_Queue.thy ===== *)
theory Retune_Queue
  imports Nios_Retune
begin

text \<open>
  The retune queue of pkt_retune.c as a bounded list: \<open>queue_items\<close> reads the ring from the
  removal index, \<open>queue_wf\<close> is the relation between the two indices and the count, and every
  operation of the ring is an operation on the list.
\<close>

unbundle bit_operations_syntax

section \<open>The ring as a bounded list\<close>

definition queue_wf :: "retune_queue \<Rightarrow> bool" where
  "queue_wf q \<longleftrightarrow> length (q_entries q) = 16 \<and> q_count q \<le> 16 \<and> q_rem_idx q < 16 \<and>
     unat (q_ins_idx q) = (unat (q_rem_idx q) + unat (q_count q)) mod 16"

definition queue_items :: "retune_queue \<Rightarrow> queue_entry list" where
  "queue_items q = map (\<lambda>i. q_entries q ! ((unat (q_rem_idx q) + i) mod 16)) [0..<unat (q_count q)]"

lemma unat_and_15: "unat ((w :: u8) AND 15) = unat w mod 16"
proof -
  have "w AND 15 = take_bit 4 w" by (simp add: take_bit_eq_mask mask_numeral)
  then show ?thesis by (simp only: unsigned_take_bit_eq) (simp add: take_bit_eq_mod)
qed

lemma ring_succ: "w < 16 \<Longrightarrow> unat ((w + 1) AND (RETUNE_QUEUE_MAX - 1)) = (unat w + 1) mod 16"
  by (simp add: unat_and_15 unat_word_ariths word_less_nat_alt)

lemma queue_items_length [simp]: "length (queue_items q) = unat (q_count q)"
  by (simp add: queue_items_def)

lemma queue_items_Nil: "queue_items q = [] \<longleftrightarrow> q_count q = 0"
  by (metis length_0_conv queue_items_length unat_eq_zero)

lemma peek_items:
  assumes "queue_wf q"
  shows "peek_next_retune q = None \<longleftrightarrow> queue_items q = []"
    "queue_items q = e # es \<Longrightarrow> peek_next_retune q = Some (q_rem_idx q) \<and> q_entries q ! unat (q_rem_idx q) = e"
proof -
  show "peek_next_retune q = None \<longleftrightarrow> queue_items q = []"
    by (simp add: peek_next_retune_def queue_items_Nil)
  assume e: "queue_items q = e # es"
  then have "q_count q \<noteq> 0" using queue_items_Nil [of q] by auto
  then have n: "0 < unat (q_count q)" by (simp add: unat_gt_0)
  have "queue_items q ! 0 = q_entries q ! (unat (q_rem_idx q) mod 16)"
    using n by (simp add: queue_items_def)
  then have "q_entries q ! unat (q_rem_idx q) = e"
    using assms e by (simp add: queue_wf_def word_less_nat_alt)
  then show "peek_next_retune q = Some (q_rem_idx q) \<and> q_entries q ! unat (q_rem_idx q) = e"
    using \<open>q_count q \<noteq> 0\<close> by (simp add: peek_next_retune_def)
qed

lemma set_entry_simps [simp]:
  "q_count (set_entry i f q) = q_count q" "q_ins_idx (set_entry i f q) = q_ins_idx q"
  "q_rem_idx (set_entry i f q) = q_rem_idx q"
  "length (q_entries (set_entry i f q)) = length (q_entries q)"
  by (simp_all add: set_entry_def)

lemma set_entry_wf [simp]: "queue_wf (set_entry i f q) = queue_wf q"
  by (simp add: queue_wf_def)

lemma ring_mod: "(n :: nat) < 32 \<Longrightarrow> n mod 16 = (if n < 16 then n else n - 16)"
  by (simp add: mod_if)

lemma ring_index_inj: "r < 16 \<Longrightarrow> i < 16 \<Longrightarrow> j < 16 \<Longrightarrow> (r + i) mod 16 = (r + j) mod (16::nat) \<longleftrightarrow> i = j"
  using ring_mod [of "r + i"] ring_mod [of "r + j"] by (auto split: if_splits)

lemma queue_items_nth:
  "i < unat (q_count q) \<Longrightarrow> queue_items q ! i = q_entries q ! ((unat (q_rem_idx q) + i) mod 16)"
  by (simp add: queue_items_def)

lemma entry_filled: "e\<lparr>qe_freq := f, qe_state := st, qe_timestamp := ts\<rparr> =
    \<lparr> qe_state = st, qe_freq = f, qe_timestamp = ts \<rparr>"
  by (cases e) simp

lemma set_entry_head:
  assumes "queue_wf q" "queue_items q = e # es"
  shows "queue_items (set_entry (q_rem_idx q) f q) = f e # es"
proof (rule nth_equalityI)
  show "length (queue_items (set_entry (q_rem_idx q) f q)) = length (f e # es)"
    using assms(2) by (metis length_Cons queue_items_length set_entry_simps(1))
  fix i
  assume "i < length (queue_items (set_entry (q_rem_idx q) f q))"
  then have i: "i < unat (q_count q)" by simp
  have q: "length (q_entries q) = 16" "unat (q_count q) \<le> 16" "unat (q_rem_idx q) < 16"
    using assms(1) by (simp_all add: queue_wf_def word_le_nat_alt word_less_nat_alt)
  have e: "q_entries q ! unat (q_rem_idx q) = e" using peek_items(2) [OF assms] by simp
  have "queue_items (set_entry (q_rem_idx q) f q) ! i =
      (if i = 0 then f e else queue_items q ! i)"
    using i q ring_index_inj [of "unat (q_rem_idx q)" i 0] e
    by (auto simp add: queue_items_nth set_entry_def nth_list_update)
  then show "queue_items (set_entry (q_rem_idx q) f q) ! i = (f e # es) ! i"
    by (cases i) (simp_all add: assms(2))
qed

lemma enqueue_items:
  assumes "queue_wf q"
  shows "length (queue_items q) = 16 \<Longrightarrow> enqueue_retune q f ts = (QUEUE_FULL, q)"
    "length (queue_items q) < 16 \<Longrightarrow> \<exists>q'. enqueue_retune q f ts = (of_nat (length (queue_items q) + 1), q') \<and>
       queue_wf q' \<and>
       queue_items q' = queue_items q @ [\<lparr> qe_state = ENTRY_STATE_NEW, qe_freq = f, qe_timestamp = ts \<rparr>]"
proof -
  show "enqueue_retune q f ts = (QUEUE_FULL, q)" if "length (queue_items q) = 16"
    using that by (simp add: enqueue_retune_def word_le_nat_alt)
  assume "length (queue_items q) < 16"
  then have n: "unat (q_count q) < 16" by simp
  define e where "e = \<lparr> qe_state = ENTRY_STATE_NEW, qe_freq = f, qe_timestamp = ts \<rparr>"
  have q: "length (q_entries q) = 16" "unat (q_rem_idx q) < 16"
    and ins: "unat (q_ins_idx q) = (unat (q_rem_idx q) + unat (q_count q)) mod 16"
    using assms by (simp_all add: queue_wf_def word_less_nat_alt)
  define q' where "q' = snd (enqueue_retune q f ts)"
  have run: "enqueue_retune q f ts = (q_count q + 1, q')"
    and q': "q_count q' = q_count q + 1" "q_rem_idx q' = q_rem_idx q"
      "q_ins_idx q' = (q_ins_idx q + 1) AND (RETUNE_QUEUE_MAX - 1)"
      "q_entries q' = (q_entries q)[unat (q_ins_idx q) := e]"
    using n ins q(1)
    by (simp_all add: q'_def enqueue_retune_def word_le_nat_alt set_entry_def e_def entry_filled)
  have c: "unat (q_count q + 1) = unat (q_count q) + 1" using n by (simp add: unat_word_ariths)
  have i16: "q_ins_idx q < 16" using ins by (simp add: word_less_nat_alt)
  have wf: "queue_wf q'"
    using q n ins by (simp add: queue_wf_def q' ring_succ [OF i16, simplified] c word_le_nat_alt
        word_less_nat_alt) presburger
  have old: "q_entries q' ! ((unat (q_rem_idx q) + i) mod 16) = q_entries q ! ((unat (q_rem_idx q) + i) mod 16)"
    if "i < unat (q_count q)" for i
    using that n q ring_index_inj [of "unat (q_rem_idx q)" i "unat (q_count q)"]
    by (simp add: q'(4) ins nth_list_update)
  have new: "q_entries q' ! ((unat (q_rem_idx q) + unat (q_count q)) mod 16) = e"
    using q by (simp add: q'(4) ins)
  have "queue_items q' = queue_items q @ [e]"
    by (simp add: queue_items_def q'(1,2) c old new)
  moreover have "q_count q + 1 = of_nat (length (queue_items q) + 1)" by simp
  ultimately show "\<exists>q'. enqueue_retune q f ts = (of_nat (length (queue_items q) + 1), q') \<and> queue_wf q' \<and>
      queue_items q' = queue_items q @ [\<lparr> qe_state = ENTRY_STATE_NEW, qe_freq = f, qe_timestamp = ts \<rparr>]"
    using run wf unfolding e_def by metis
qed

lemma dequeue_items:
  assumes "queue_wf q"
  shows "queue_items q = [] \<Longrightarrow> dequeue_retune q = (QUEUE_EMPTY, q)"
    "queue_items q = e # es \<Longrightarrow> \<exists>q'. dequeue_retune q = (of_nat (length es), q') \<and> queue_wf q' \<and> queue_items q' = es"
proof -
  show "dequeue_retune q = (QUEUE_EMPTY, q)" if "queue_items q = []"
    using that by (simp add: dequeue_retune_def queue_items_Nil)
  assume e: "queue_items q = e # es"
  then have nz: "q_count q \<noteq> 0" using queue_items_Nil [of q] by auto
  have len: "unat (q_count q) = length es + 1" using e by (metis length_Cons Suc_eq_plus1 queue_items_length)
  have q: "length (q_entries q) = 16" "unat (q_count q) \<le> 16" "q_rem_idx q < 16" "unat (q_rem_idx q) < 16"
    and ins: "unat (q_ins_idx q) = (unat (q_rem_idx q) + unat (q_count q)) mod 16"
    using assms by (simp_all add: queue_wf_def word_le_nat_alt word_less_nat_alt)
  define q' where "q' = snd (dequeue_retune q)"
  have run: "dequeue_retune q = (q_count q - 1, q')"
    and q': "q_count q' = q_count q - 1" "q_rem_idx q' = (q_rem_idx q + 1) AND (RETUNE_QUEUE_MAX - 1)"
      "q_ins_idx q' = q_ins_idx q" "q_entries q' = q_entries q"
    using nz by (simp_all add: q'_def dequeue_retune_def)
  have c: "unat (q_count q - 1) = length es"
    using len nz by (simp add: unat_minus_one)
  then have "queue_wf q'"
    using q ins len by (simp add: queue_wf_def q' ring_succ [OF q(3), simplified] word_le_nat_alt
        word_less_nat_alt) presburger
  moreover have "queue_items q' = es"
  proof (rule nth_equalityI)
    show "length (queue_items q') = length es" by (simp add: q' c)
    fix i
    assume "i < length (queue_items q')"
    then have i: "i < length es" by (simp add: q' c)
    have "queue_items q' ! i = q_entries q ! ((unat (q_rem_idx q) + Suc i) mod 16)"
      using i by (simp add: queue_items_nth q' c ring_succ [OF q(3), simplified] mod_simps)
    also have "\<dots> = queue_items q ! Suc i" using i len by (simp only: queue_items_nth)
    also have "\<dots> = es ! i" by (simp add: e)
    finally show "queue_items q' ! i = es ! i" .
  qed
  moreover have "q_count q - 1 = of_nat (length es)" by (simp add: c [symmetric])
  ultimately show "\<exists>q'. dequeue_retune q = (of_nat (length es), q') \<and> queue_wf q' \<and> queue_items q' = es"
    using run by metis
qed

lemma reset_items:
  assumes "length (q_entries q) = 16"
  shows "queue_wf (reset_queue q)" "queue_items (reset_queue q) = []"
proof -
  have "length (q_entries (fold (\<lambda>i. set_entry (of_nat i) g) xs p)) = length (q_entries p)"
    "q_count (fold (\<lambda>i. set_entry (of_nat i) g) xs p) = q_count p" for g xs p
    by (induction xs arbitrary: p) simp_all
  then show "queue_wf (reset_queue q)" "queue_items (reset_queue q) = []"
    using assms by (simp_all add: reset_queue_def queue_wf_def queue_items_def Let_def)
qed

lemma isr_items:
  assumes "queue_wf q"
  shows "queue_wf (retune_isr q)"
    "queue_items (retune_isr q) = (case queue_items q of [] \<Rightarrow> [] | e # es \<Rightarrow>
       (if qe_state e = ENTRY_STATE_SCHEDULED then e\<lparr>qe_state := ENTRY_STATE_READY\<rparr> else e) # es)"
proof -
  show "queue_wf (retune_isr q)"
    using assms by (simp add: retune_isr_def split: option.splits)
  show "queue_items (retune_isr q) = (case queue_items q of [] \<Rightarrow> [] | e # es \<Rightarrow>
       (if qe_state e = ENTRY_STATE_SCHEDULED then e\<lparr>qe_state := ENTRY_STATE_READY\<rparr> else e) # es)"
    using peek_items [OF assms] set_entry_head [OF assms]
    by (cases "queue_items q") (simp_all add: retune_isr_def)
qed

section \<open>Properties\<close>

text \<open>C9: The retune queue is a bounded FIFO of sixteen entries: on a well-formed ring, enqueue_retune
  appends a NEW entry and returns the new length, or returns QUEUE_FULL and leaves the ring alone
  when there are sixteen; dequeue_retune drops the oldest entry and returns how many are left, or
  QUEUE_EMPTY; both keep the ring well-formed.\<close>

theorem retune_queue_fifo:
  assumes "queue_wf q"
  shows "(let (n, q') = enqueue_retune q f ts in queue_wf q' \<and>
      (if length (queue_items q) = 16 then n = QUEUE_FULL \<and> q' = q
       else unat n = length (queue_items q) + 1 \<and> queue_items q' = queue_items q @
         [\<lparr> qe_state = ENTRY_STATE_NEW, qe_freq = f, qe_timestamp = ts \<rparr>])) \<and>
    (let (n, q') = dequeue_retune q in queue_wf q' \<and> queue_items q' = tl (queue_items q) \<and>
      (if queue_items q = [] then n = QUEUE_EMPTY else unat n = length (queue_items q) - 1))"
    (is "?enq \<and> ?deq")
proof
  have le: "length (queue_items q) \<le> 16" using assms by (simp add: queue_wf_def word_le_nat_alt)
  then consider "length (queue_items q) = 16" | "length (queue_items q) < 16" by linarith
  then show ?enq
  proof cases
    case 1
    with assms show ?thesis by (simp add: enqueue_items(1))
  next
    case 2
    then have "unat (of_nat (length (queue_items q) + 1) :: u8) = length (queue_items q) + 1"
      by (simp add: unat_of_nat del: of_nat_Suc of_nat_add queue_items_length)
    then show ?thesis using enqueue_items(2) [OF assms 2, of f ts] 2
      by (auto simp del: of_nat_Suc of_nat_add queue_items_length)
  qed
  show ?deq
  proof (cases "queue_items q")
    case Nil
    with assms show ?thesis by (simp add: dequeue_items(1))
  next
    case (Cons e es)
    then have "length es \<le> 16" using le by simp
    then have "unat (of_nat (length es) :: u8) = length es" by (simp add: unat_of_nat)
    then show ?thesis using dequeue_items(2) [OF assms Cons] Cons by auto
  qed
qed

definition empty_ring :: retune_queue where
  "empty_ring = \<lparr> q_count = 0, q_ins_idx = 0, q_rem_idx = 0, q_entries = replicate 16
     \<lparr> qe_state = ENTRY_STATE_INVALID, qe_freq = lms_freq_uninit, qe_timestamp = 0 \<rparr> \<rparr>"

lemma empty_ring_wf: "queue_wf empty_ring" "queue_items empty_ring = []"
  by (simp_all add: queue_wf_def empty_ring_def queue_items_def)

theorem retune_queue_fifo_witness:
  "unat (fst (enqueue_retune empty_ring lms_freq_uninit 7)) = 1 \<and> fst (dequeue_retune empty_ring) = QUEUE_EMPTY"
  using retune_queue_fifo [OF empty_ring_wf(1), of lms_freq_uninit 7] by (auto simp add: empty_ring_wf(2))

end
