(* ===== verification/Lms_Frame.thy ===== *)
theory Lms_Frame
  imports Lms_Vco Band_Select
begin

text \<open>
  Framing: what tuning and band selection cannot touch.  \<open>lms_frame\<close> is the interface: a
  relation on states that is reflexive, transitive and kept by the four operations of the device
  handle is kept by every driver function, whatever the accesses return.  The firmware uses it with
  the relation "only the RF chip and the parallel ports change".
\<close>

unbundle bit_operations_syntax

locale lms_frame =
  fixes dev :: "'s lms_dev" and R :: "'s \<Rightarrow> 's \<Rightarrow> bool"
  assumes frame_refl: "R s s"
    and frame_trans: "R s t \<Longrightarrow> R t u \<Longrightarrow> R s u"
    and frame_read: "R s (snd (dev_lms_read dev a s))"
    and frame_write: "R s (snd (dev_lms_write dev a d s))"
    and frame_gpio_read: "R s (snd (dev_gpio_read dev s))"
    and frame_gpio_write: "R s (snd (dev_gpio_write dev g s))"
begin

definition framed :: "('s, 'a) io \<Rightarrow> bool" where
  "framed m \<longleftrightarrow> (\<forall>s. R s (snd (m s)))"

lemma framed_returnE: "framed (returnE x)"
  by (simp add: framed_def frame_refl)

lemma framed_throwE: "framed (throwE e)"
  by (simp add: framed_def frame_refl)

lemma framed_bindE:
  assumes "framed m" "\<And>x. framed (f x)"
  shows "framed (bindE m f)"
proof -
  have "R s (snd (bindE m f s))" for s
  proof (cases "m s")
    case (Pair r t)
    then have "R s t" using assms(1) by (metis framed_def snd_conv)
    then show ?thesis
      using assms(2) Pair by (cases r) (auto simp add: bindE_def framed_def intro: frame_trans)
  qed
  then show ?thesis by (simp add: framed_def)
qed

lemma framed_catchE:
  assumes "framed m" "\<And>e. framed (h e)"
  shows "framed (catchE m h)"
proof -
  have "R s (snd (catchE m h s))" for s
  proof (cases "m s")
    case (Pair r t)
    then have "R s t" using assms(1) by (metis framed_def snd_conv)
    then show ?thesis
      using assms(2) Pair by (cases r) (auto simp add: catchE_def framed_def intro: frame_trans)
  qed
  then show ?thesis by (simp add: framed_def)
qed

lemma framed_if: "(b \<Longrightarrow> framed m) \<Longrightarrow> (\<not> b \<Longrightarrow> framed k) \<Longrightarrow> framed (if b then m else k)"
  by simp

lemma framed_split: "(\<And>x y. p = (x, y) \<Longrightarrow> framed (f x y)) \<Longrightarrow> framed (case p of (x, y) \<Rightarrow> f x y)"
  by (cases p) simp

lemma framed_READ: "framed (LMS_READ dev a)"
proof -
  have "R s (snd (LMS_READ dev a s))" for s
    using frame_read [of s a] by (auto simp add: LMS_READ_def split: prod.splits)
  then show ?thesis by (simp add: framed_def)
qed

lemma framed_WRITE: "framed (LMS_WRITE dev a d)"
proof -
  have "R s (snd (LMS_WRITE dev a d s))" for s
    using frame_write [of s a d] by (auto simp add: LMS_WRITE_def split: prod.splits)
  then show ?thesis by (simp add: framed_def)
qed

lemma framed_GPIO_READ: "framed (CONFIG_GPIO_READ dev)"
proof -
  have "R s (snd (CONFIG_GPIO_READ dev s))" for s
    using frame_gpio_read [of s] by (auto simp add: CONFIG_GPIO_READ_def split: prod.splits)
  then show ?thesis by (simp add: framed_def)
qed

lemma framed_GPIO_WRITE: "framed (CONFIG_GPIO_WRITE dev g)"
proof -
  have "R s (snd (CONFIG_GPIO_WRITE dev g s))" for s
    using frame_gpio_write [of s g] by (auto simp add: CONFIG_GPIO_WRITE_def split: prod.splits)
  then show ?thesis by (simp add: framed_def)
qed

lemmas framed_intros = framed_returnE framed_throwE framed_catchE framed_if framed_split
  framed_READ framed_WRITE framed_GPIO_READ framed_GPIO_WRITE framed_bindE

lemma framed_vtune:
  "framed (get_vtune dev base)" "framed (write_vcocap dev base v st)"
  unfolding get_vtune_def write_vcocap_def by (intro framed_intros)+

lemma framed_vtune_loops:
  "framed (vtune_high_to_norm_loop n dev base v st)" "framed (vtune_norm_to_high_loop n dev base v st)"
  "framed (vtune_low_to_norm_loop n dev base v st)" "framed (vtune_poll n dev base w)"
  by (induction n arbitrary: v) (auto simp del: returnE_apply throwE_apply intro!: framed_intros framed_vtune)

lemma framed_vtune_walk: "framed (vtune_walk dev base w v st)"
proof (induction "vtune_distance w v" arbitrary: v rule: less_induct)
  case less
  have "framed (vtune_walk dev base w (v + vtune_inc w) st)" if "v \<noteq> vtune_limit w"
    using less [OF vtune_distance_less [OF that]] .
  then show ?case
    by (subst vtune_walk.simps) (intro framed_intros framed_vtune)
qed

lemma framed_tune_vcocap: "framed (tune_vcocap dev est base st r)"
  unfolding tune_vcocap_def tune_vcocap_limits_def vtune_high_to_norm_def vtune_norm_to_high_def
    vtune_low_to_norm_def wait_for_vtune_value_def Let_def
  by (intro framed_intros framed_vtune framed_vtune_loops framed_vtune_walk)

lemma framed_loopback: "framed (lms_get_loopback_mode dev)" "framed (is_loopback_enabled dev)"
  unfolding is_loopback_enabled_def lms_get_loopback_mode_def Let_def by (intro framed_intros)+

lemma framed_set_precalculated: "framed (lms_set_precalculated_frequency dev m f)"
  unfolding lms_set_precalculated_frequency_def set_precalculated_body_def lms_dsm_def Let_def
    write_pll_config_def write_pll_words_def
  by (intro framed_intros framed_vtune framed_tune_vcocap framed_loopback)

lemma framed_band_select: "framed (band_select dev m low)"
  unfolding band_select_def lms_select_band_def lms_select_pa_def lms_select_lna_def Let_def
  by (intro framed_intros framed_loopback)

end

end
