(* ===== verification/Retune_Sched.thy ===== *)
theory Retune_Sched
  imports Retune_Queue Lms_Frame
begin

text \<open>
  The schedule of retunes on the board: the queues of pkt_retune.c together with the time tamers.
  \<open>retune_step\<close> is the step relation of time, interrupts, deferred work and requests;
  \<open>sched_inv\<close> is the agreement between the states of the entries and the state of the tamer
  that every step but a clear request keeps.  With a clear request it breaks
  (\<open>clear_leaves_tamer_armed\<close>).
\<close>

unbundle bit_operations_syntax

section \<open>The firmware on the board\<close>

definition only_rf :: "(board, 'z) nios_dev_scheme \<Rightarrow> (board, 'z) nios_dev_scheme \<Rightarrow> bool" where
  "only_rf s t \<longleftrightarrow> (\<exists>l p. t = s\<lparr>nios_hw := (nios_hw s)\<lparr>bd_lms := l, bd_pio := p\<rparr>\<rparr>)"

interpretation board_frame: lms_frame "nios_lms board_bus" only_rf
proof
  show "only_rf s s" for s :: "(board, 'z) nios_dev_scheme"
    unfolding only_rf_def by (intro exI [of _ "bd_lms (nios_hw s)"] exI [of _ "bd_pio (nios_hw s)"]) simp
  show "only_rf s t \<Longrightarrow> only_rf t u \<Longrightarrow> only_rf s u" for s t u :: "(board, 'z) nios_dev_scheme"
    unfolding only_rf_def by fastforce
  fix s :: "(board, 'z) nios_dev_scheme"
  have lms: "only_rf s (s\<lparr>nios_hw := (nios_hw s)\<lparr>bd_lms := l\<rparr>\<rparr>)" for l
    unfolding only_rf_def by (intro exI [of _ l] exI [of _ "bd_pio (nios_hw s)"]) simp
  have pio: "only_rf s (s\<lparr>nios_hw := (nios_hw s)\<lparr>bd_pio := p\<rparr>\<rparr>)" for p
    unfolding only_rf_def by (intro exI [of _ "bd_lms (nios_hw s)"] exI [of _ p]) simp
  have refl: "only_rf s s"
    unfolding only_rf_def by (intro exI [of _ "bd_lms (nios_hw s)"] exI [of _ "bd_pio (nios_hw s)"]) simp
  show "only_rf s (snd (dev_lms_read (nios_lms board_bus) a s))"
    "only_rf s (snd (dev_lms_write (nios_lms board_bus) a d s))"
    "only_rf s (snd (dev_gpio_read (nios_lms board_bus) s))"
    "only_rf s (snd (dev_gpio_write (nios_lms board_bus) g s))" for a d g
    by (simp_all add: nios_lms_simps board_lms6_read board_lms6_write board_control_reg lms pio refl)
qed

definition board_tamer :: "bladerf_module \<Rightarrow> (board, 'z) nios_dev_scheme \<Rightarrow> time_tamer" where
  "board_tamer m s = (if m = BLADERF_MODULE_RX then bd_rx_tamer (nios_hw s) else bd_tx_tamer (nios_hw s))"

definition upd_tamer ::
  "bladerf_module \<Rightarrow> (time_tamer \<Rightarrow> time_tamer) \<Rightarrow> (board, 'z) nios_dev_scheme \<Rightarrow> (board, 'z) nios_dev_scheme" where
  "upd_tamer m f s = s\<lparr>nios_hw :=
     (if m = BLADERF_MODULE_RX then (nios_hw s)\<lparr>bd_rx_tamer := f (bd_rx_tamer (nios_hw s))\<rparr>
      else (nios_hw s)\<lparr>bd_tx_tamer := f (bd_tx_tamer (nios_hw s))\<rparr>)\<rparr>"

lemma upd_tamer_upd_tamer: "upd_tamer m f (upd_tamer m g s) = upd_tamer m (f \<circ> g) s"
  by (simp add: upd_tamer_def)

lemma board_tamer_upd: "board_tamer m (upd_tamer m f s) = f (board_tamer m s)"
  by (simp add: board_tamer_def upd_tamer_def)

definition same_port :: "bladerf_module \<Rightarrow> bladerf_module \<Rightarrow> bool" where
  "same_port m n \<longleftrightarrow> (m = BLADERF_MODULE_RX) = (n = BLADERF_MODULE_RX)"

lemma board_tamer_other: "\<not> same_port m n \<Longrightarrow> board_tamer n (upd_tamer m f s) = board_tamer n s"
  by (auto simp add: board_tamer_def upd_tamer_def same_port_def)

lemma tamer_write8: "IOWR_8DIRECT board_bus (tamer_base m) off d s = ((), upd_tamer m (tamer_mm_write off d) s)"
  by (simp add: IOWR_8DIRECT_def on_hw_def tamer_base_def board_write8_def upd_tamer_def)

lemma tamer_read8: "IORD_8DIRECT board_bus (tamer_base m) off s =
    (fst (tamer_mm_read off (board_tamer m s)), upd_tamer m (snd \<circ> tamer_mm_read off) s)"
  by (simp add: IORD_8DIRECT_def on_hw_def tamer_base_def board_read8_def upd_tamer_def board_tamer_def
      split: prod.splits)

text \<open>The time the eight bytes written by \<open>tamer_schedule\<close> make up.\<close>

definition sched_time :: "u64 \<Rightarrow> u64" where
  "sched_time ts = (ts AND 0x00ffffffffffffff) OR push_bit 56 (ucast (ucast (drop_bit 54 ts) :: u8))"

lemma set_bytes_join:
  "set_byte 7 b7 (set_byte 6 (ucast (drop_bit 48 ts)) (set_byte 5 (ucast (drop_bit 40 ts))
    (set_byte 4 (ucast (drop_bit 32 ts)) (set_byte 3 (ucast (drop_bit 24 ts)) (set_byte 2 (ucast (drop_bit 16 ts))
    (set_byte 1 (ucast (drop_bit 8 ts)) (set_byte 0 (ucast ts) w)))))))
   = (ts AND 0x00ffffffffffffff) OR push_bit 56 (ucast b7)"
  unfolding set_byte_def by (simp only: word64_eq_iff) (simp add: bit_simps)

definition with_hold :: "u64 \<Rightarrow> time_tamer \<Rightarrow> time_tamer" where
  "with_hold h t = t\<lparr>tt_hold_time := h\<rparr>"

definition arm :: "u64 \<Rightarrow> time_tamer \<Rightarrow> time_tamer" where
  "arm c t = tamer_mm_write 8 0 (with_hold c t)"

lemma tamer_hold_byte:
  "off < 8 \<Longrightarrow> tamer_mm_write off d (with_hold h t) = with_hold (set_byte (unat off) d h) t"
  by (simp add: tamer_mm_write_def with_hold_def)

lemma tamer_hold_bytes:
  "tamer_mm_write 7 b7 (tamer_mm_write 6 (ucast (drop_bit 48 ts)) (tamer_mm_write 5 (ucast (drop_bit 40 ts))
    (tamer_mm_write 4 (ucast (drop_bit 32 ts)) (tamer_mm_write 3 (ucast (drop_bit 24 ts))
    (tamer_mm_write 2 (ucast (drop_bit 16 ts)) (tamer_mm_write 1 (ucast (drop_bit 8 ts))
    (tamer_mm_write 0 (ucast ts) t))))))) =
   with_hold ((ts AND 0x00ffffffffffffff) OR push_bit 56 (ucast b7)) t"
proof -
  have u: "unat (7 :: u8) = 7" "unat (6 :: u8) = 6" "unat (5 :: u8) = 5" "unat (4 :: u8) = 4"
    "unat (3 :: u8) = 3" "unat (2 :: u8) = 2" "unat (1 :: u8) = 1" "unat (0 :: u8) = 0" by simp_all
  have l: "(7 :: u8) < 8" "(6 :: u8) < 8" "(5 :: u8) < 8" "(4 :: u8) < 8"
    "(3 :: u8) < 8" "(2 :: u8) < 8" "(1 :: u8) < 8" "(0 :: u8) < 8" by simp_all
  have t: "tamer_mm_write 0 d t = tamer_mm_write 0 d (with_hold (tt_hold_time t) t)" for d
    by (simp add: with_hold_def)
  show ?thesis
    unfolding t l [THEN tamer_hold_byte] u set_bytes_join ..
qed

lemma tamer_schedule_board:
  "tamer_schedule board_bus m ts s = ((), upd_tamer m (arm (sched_time ts)) s)"
  unfolding tamer_schedule_def Let_def bindS_apply tamer_write8 snd_conv upd_tamer_upd_tamer comp_def
    byte_mask_ucast drop_bit_0 id_apply tamer_hold_bytes arm_def sched_time_def ..

lemma get_byte_join:
  "ucast (get_byte 0 w) OR push_bit 8 (ucast (get_byte 1 w)) OR push_bit 16 (ucast (get_byte 2 w))
   OR push_bit 24 (ucast (get_byte 3 w)) OR push_bit 32 (ucast (get_byte 4 w))
   OR push_bit 40 (ucast (get_byte 5 w)) OR push_bit 48 (ucast (get_byte 6 w))
   OR push_bit 56 (ucast (get_byte 7 w)) = w"
  using bytes_join64 [of w] by (simp add: get_byte_def)

definition snap :: "time_tamer \<Rightarrow> time_tamer" where
  "snap t = t\<lparr>tt_snap_time := tt_timestamp t\<rparr>"

lemma tamer_mm_read_simps:
  "tamer_mm_read 0 t = (get_byte 0 (tt_timestamp t), snap t)"
  "off \<noteq> 0 \<Longrightarrow> off < 8 \<Longrightarrow> tamer_mm_read off t = (get_byte (unat off) (tt_snap_time t), t)"
  by (simp_all add: tamer_mm_read_def snap_def)

lemma time_tamer_read_board:
  "time_tamer_read board_bus m s = (tt_timestamp (board_tamer m s), upd_tamer m snap s)"
proof -
  have t: "tamer_mm_read 1 t = (get_byte 1 (tt_snap_time t), t)"
    "tamer_mm_read 2 t = (get_byte 2 (tt_snap_time t), t)" "tamer_mm_read 3 t = (get_byte 3 (tt_snap_time t), t)"
    "tamer_mm_read 4 t = (get_byte 4 (tt_snap_time t), t)" "tamer_mm_read 5 t = (get_byte 5 (tt_snap_time t), t)"
    "tamer_mm_read 6 t = (get_byte 6 (tt_snap_time t), t)" "tamer_mm_read 7 t = (get_byte 7 (tt_snap_time t), t)" for t
    by (simp_all add: tamer_mm_read_simps(2))
  have s: "tt_snap_time (snap t) = tt_timestamp t" for t by (simp add: snap_def)
  show ?thesis
    unfolding time_tamer_read_def Let_def bindS_apply tamer_read8 snd_conv fst_conv upd_tamer_upd_tamer
      comp_def t tamer_mm_read_simps(1) board_tamer_upd s returnS_def get_byte_join ..
qed

lemma sched_time_small: "ts < 2 ^ 54 \<Longrightarrow> sched_time ts = ts"
proof -
  assume "ts < 2 ^ 54"
  then have "take_bit 54 ts = ts" using less_mask_eq [of ts 54] by (simp add: take_bit_eq_mask)
  then have b: "\<not> bit ts n" if "54 \<le> n" for n
    using that by (metis bit_take_bit_iff not_le)
  have "\<not> bit ts 54" "\<not> bit ts 55" "\<not> bit ts 56" "\<not> bit ts 57" "\<not> bit ts 58" "\<not> bit ts 59"
    "\<not> bit ts 60" "\<not> bit ts 61" "\<not> bit ts 62" "\<not> bit ts 63" by (rule b, simp)+
  then show ?thesis
    unfolding sched_time_def by (simp only: word64_eq_iff) (simp add: bit_simps)
qed

lemma queue_frame [simp]:
  "get_queue n (upd_tamer m f s) = get_queue n s"
  "board_tamer n (put_queue m q s) = board_tamer n s"
  by (simp_all add: get_queue_def upd_tamer_def board_tamer_def put_queue_def)

lemma put_queue_nios_hw: "nios_hw (put_queue m q s) = nios_hw s"
  by (simp add: put_queue_def)

lemma get_put_queue:
  "get_queue n (put_queue m q s) = (if same_port m n then q else get_queue n s)"
  by (simp add: get_queue_def put_queue_def same_port_def)

lemma same_port_refl [simp]: "same_port m m"
  by (simp add: same_port_def)

text \<open>What the scheduling of retunes sees of a state: the queues, and the tamers up to the value
  latched for reading.\<close>

definition same_tamers :: "(board, 'z) nios_dev_scheme \<Rightarrow> (board, 'z) nios_dev_scheme \<Rightarrow> bool" where
  "same_tamers s t \<longleftrightarrow> (\<forall>n. tt_fsm (board_tamer n t) = tt_fsm (board_tamer n s) \<and>
     tt_timestamp (board_tamer n t) = tt_timestamp (board_tamer n s))"

lemma same_tamers_refl: "same_tamers s s"
  by (simp add: same_tamers_def)

lemma same_tamers_trans: "same_tamers s t \<Longrightarrow> same_tamers t u \<Longrightarrow> same_tamers s u"
  by (simp add: same_tamers_def)

lemma same_tamers_snap: "same_tamers s (upd_tamer m snap s)"
  by (auto simp add: same_tamers_def board_tamer_def upd_tamer_def snap_def)

lemma only_rf_refl [simp]: "only_rf s s"
  by (rule board_frame.frame_refl)

lemma only_rf_frame:
  assumes "only_rf s t"
  shows "board_tamer n t = board_tamer n s" "get_queue n t = get_queue n s" "same_tamers s t"
  using assms by (auto simp add: only_rf_def board_tamer_def get_queue_def same_tamers_def)

lemma same_tamers_put [simp]:
  "same_tamers s (put_queue m q t) = same_tamers s t" "same_tamers (put_queue m q s) t = same_tamers s t"
  by (simp_all add: same_tamers_def)

lemma set_precalculated_rf: "only_rf s (snd (set_precalculated board_bus m f s))"
  using board_frame.framed_set_precalculated [of m f]
  by (auto simp add: board_frame.framed_def set_precalculated_def split: prod.splits sum.splits
      dest!: spec [of _ s])

lemma band_select_rf: "only_rf s (snd (io_status (band_select (nios_lms board_bus) m low) s))"
  using board_frame.framed_band_select [of m low]
  by (auto simp add: board_frame.framed_def io_status_def split: prod.splits sum.splits
      dest!: spec [of _ s])

section \<open>The steps of the scheduler\<close>

lemma perform_work_board:
  fixes s :: "(board, 'z) retune_state_scheme"
  assumes "queue_wf (get_queue m s)"
  shows "queue_items (get_queue m s) = [] \<Longrightarrow> perform_work board_bus m s = ((), s)"
    "queue_items (get_queue m s) = e # es \<Longrightarrow> qe_state e = ENTRY_STATE_SCHEDULED \<Longrightarrow>
       perform_work board_bus m s = ((), s)"
    "queue_items (get_queue m s) = e # es \<Longrightarrow> qe_state e = ENTRY_STATE_NEW \<Longrightarrow>
       perform_work board_bus m s = ((), upd_tamer m (arm (sched_time (qe_timestamp e)))
         (put_queue m (set_entry (q_rem_idx (get_queue m s)) (\<lambda>e. e\<lparr>qe_state := ENTRY_STATE_SCHEDULED\<rparr>)
            (get_queue m s)) s))"
    "queue_items (get_queue m s) = e # es \<Longrightarrow> qe_state e = ENTRY_STATE_READY \<Longrightarrow>
       \<exists>q t. snd (perform_work board_bus m s) = put_queue m q t \<and> only_rf s t \<and>
         queue_wf q \<and> queue_items q = es"
proof -
  define q where "q = get_queue m s"
  have wf: "queue_wf q" using assms by (simp add: q_def)
  show "perform_work board_bus m s = ((), s)" if "queue_items (get_queue m s) = []"
    using that peek_items(1) [OF wf] by (simp add: perform_work_def bindS_apply q_def)
  assume e: "queue_items (get_queue m s) = e # es"
  then have e': "queue_items q = e # es" by (simp add: q_def)
  note peek = peek_items(2) [OF wf e']
  show "perform_work board_bus m s = ((), s)" if "qe_state e = ENTRY_STATE_SCHEDULED"
    using that peek by (simp add: perform_work_def bindS_apply q_def)
  show "perform_work board_bus m s = ((), upd_tamer m (arm (sched_time (qe_timestamp e)))
         (put_queue m (set_entry (q_rem_idx (get_queue m s)) (\<lambda>e. e\<lparr>qe_state := ENTRY_STATE_SCHEDULED\<rparr>)
            (get_queue m s)) s))" if "qe_state e = ENTRY_STATE_NEW"
    using that peek by (simp add: perform_work_def bindS_apply q_def tamer_schedule_board)
  assume ready: "qe_state e = ENTRY_STATE_READY"
  obtain status f t1 where t1: "set_precalculated board_bus m (qe_freq e) s = ((status, f), t1)"
    by (cases "set_precalculated board_bus m (qe_freq e) s") auto
  have rf1: "only_rf s t1" using set_precalculated_rf [of s m "qe_freq e"] t1 by simp
  have g1: "get_queue m t1 = q" using only_rf_frame(2) [OF rf1] by (simp add: q_def)
  define q1 where "q1 = set_entry (q_rem_idx q) (\<lambda>e. e\<lparr>qe_freq := f\<rparr>) q"
  have q1: "queue_wf q1" "queue_items q1 = e\<lparr>qe_freq := f\<rparr> # es"
    using wf set_entry_head [OF wf e'] by (simp_all add: q1_def)
  define t2 where "t2 = (if status \<noteq> 0 then put_queue m q1 t1
     else snd (io_status (band_select (nios_lms board_bus) m (lf_flags f AND LMS_FREQ_FLAGS_LOW_BAND \<noteq> 0))
            (put_queue m q1 t1)))"
  have rf2: "only_rf (put_queue m q1 t1) t2"
    using band_select_rf [of "put_queue m q1 t1" m] by (simp add: t2_def)
  have g2: "get_queue m t2 = q1" using only_rf_frame(2) [OF rf2, of m] by (simp add: get_put_queue)
  obtain q' where q': "dequeue_retune q1 = (of_nat (length es), q')" "queue_wf q'" "queue_items q' = es"
    using dequeue_items(2) [OF q1] by blast
  have "snd (perform_work board_bus m s) = put_queue m (snd (dequeue_retune (get_queue m t2))) t2"
    using peek ready t1 g1
    by (simp add: perform_work_def bindS_apply q_def [symmetric] q1_def t2_def)
  then have run: "snd (perform_work board_bus m s) = put_queue m q' t2"
    by (simp add: g2 q'(1))
  obtain l p where t2: "t2 = put_queue m q1 t1\<lparr>nios_hw := (nios_hw t1)\<lparr>bd_lms := l, bd_pio := p\<rparr>\<rparr>"
    using rf2 unfolding only_rf_def by (auto simp add: put_queue_nios_hw)
  have "put_queue m q' t2 = put_queue m q' (t1\<lparr>nios_hw := (nios_hw t1)\<lparr>bd_lms := l, bd_pio := p\<rparr>\<rparr>)"
    by (simp add: t2 put_queue_def)
  moreover have "only_rf s (t1\<lparr>nios_hw := (nios_hw t1)\<lparr>bd_lms := l, bd_pio := p\<rparr>\<rparr>)"
    using rf1 unfolding only_rf_def by (elim exE, intro exI [of _ l] exI [of _ p]) simp
  ultimately show "\<exists>q t. snd (perform_work board_bus m s) = put_queue m q t \<and> only_rf s t \<and>
         queue_wf q \<and> queue_items q = es"
    using run q'(2,3) by metis
qed

text \<open>What a request does: a retune now leaves the queues alone, a clear empties one, and any other
  is appended to the queue of its module when there is room.\<close>

lemma time_tamer_read_same:
  "same_tamers s (snd (time_tamer_read board_bus m s))" "get_queue n (snd (time_tamer_read board_bus m s)) = get_queue n s"
  by (simp_all add: time_tamer_read_board same_tamers_snap)

lemma retune_now_rf: "only_rf s (snd (retune_now board_bus r f flags s))"
proof (cases "rt_module r = BLADERF_MODULE_INVALID")
  case True
  then show ?thesis by (simp add: retune_now_def)
next
  case False
  obtain status g t where t: "set_precalculated board_bus (rt_module r) f s = ((status, g), t)"
    by (cases "set_precalculated board_bus (rt_module r) f s") auto
  have "only_rf s t" using set_precalculated_rf [of s "rt_module r" f] t by simp
  moreover have "only_rf t (snd (io_status (band_select (nios_lms board_bus) (rt_module r) (rt_low_band r)) t))"
    by (rule band_select_rf)
  ultimately show ?thesis
    using False t by (auto simp add: retune_now_def bindS_apply Let_def intro: board_frame.frame_trans)
qed

definition enqueued :: "lms_freq \<Rightarrow> u64 \<Rightarrow> retune_queue \<Rightarrow> retune_queue" where
  "enqueued f ts q = snd (enqueue_retune q f ts)"

lemma pkt_retune_board:
  fixes s :: "(board, 'z) retune_state_scheme"
  defines "t \<equiv> \<lambda>req resp. snd (pkt_retune board_bus req resp s)"
    and "r \<equiv> \<lambda>req. nios_pkt_retune_unpack req"
  shows "same_tamers s (t req resp)"
    "get_queue n (t req resp) =
       (if rt_timestamp (r req) = NIOS_PKT_RETUNE_NOW \<or> rt_module (r req) = BLADERF_MODULE_INVALID
           \<or> \<not> same_port (rt_module (r req)) n
        then get_queue n s
        else if rt_timestamp (r req) = NIOS_PKT_RETUNE_CLEAR_QUEUE then reset_queue (get_queue n s)
        else enqueued (retune_freq (r req)) (rt_timestamp (r req)) (get_queue n s))"
proof -
  define m where "m = rt_module (r req)"
  define s1 where "s1 = snd (time_tamer_read board_bus m s)"
  have s1: "same_tamers s s1" "get_queue k s1 = get_queue k s" for k
    unfolding s1_def by (rule time_tamer_read_same)+
  define f where "f = retune_freq (r req)"
  define mid :: "((board, 'z) retune_state_scheme, bool \<times> int \<times> u8 \<times> lms_freq) st"
    where "mid = (if rt_timestamp (r req) = NIOS_PKT_RETUNE_NOW
      then retune_now board_bus (r req) f NIOS_PKT_RETUNERESP_FLAG_SUCCESS
      else if rt_timestamp (r req) = NIOS_PKT_RETUNE_CLEAR_QUEUE then
        bindS (retune_clear m) (\<lambda>status. returnS (False, status, NIOS_PKT_RETUNERESP_FLAG_SUCCESS, f))
      else bindS (retune_schedule m f (rt_timestamp (r req)))
        (\<lambda>status. returnS (False, status, NIOS_PKT_RETUNERESP_FLAG_SUCCESS, f)))"
  define s2 where "s2 = snd (mid s1)"
  have q: "same_port m n \<Longrightarrow> get_queue m s = get_queue n s" by (simp add: get_queue_def same_port_def)
  have s2: "same_tamers s1 s2 \<and> get_queue n s2 =
       (if rt_timestamp (r req) = NIOS_PKT_RETUNE_NOW \<or> m = BLADERF_MODULE_INVALID \<or> \<not> same_port m n
        then get_queue n s
        else if rt_timestamp (r req) = NIOS_PKT_RETUNE_CLEAR_QUEUE then reset_queue (get_queue n s)
        else enqueued f (rt_timestamp (r req)) (get_queue n s))"
  proof (cases "rt_timestamp (r req) = NIOS_PKT_RETUNE_NOW")
    case True
    then have "only_rf s1 s2" by (simp add: s2_def mid_def retune_now_rf)
    then show ?thesis using only_rf_frame [of s1 s2] True by (simp add: s1(2))
  next
    case False
    then show ?thesis
      by (auto simp add: s2_def mid_def retune_clear_def retune_schedule_def bindS_apply same_tamers_refl
          get_put_queue s1(2) enqueued_def q split: prod.splits)
  qed
  have run: "t req resp = s2 \<or> t req resp = snd (time_tamer_read board_bus m s2)"
    unfolding t_def pkt_retune_def Let_def r_def [symmetric] m_def [symmetric] f_def [symmetric]
      mid_def [symmetric]
    by (simp add: bindS_apply s1_def [symmetric] s2_def [symmetric] split: prod.splits)
  have "same_tamers s s2" using same_tamers_trans [OF s1(1)] s2 by blast
  then show "same_tamers s (t req resp)"
    using run same_tamers_trans time_tamer_read_same(1) by metis
  have "get_queue n (t req resp) = get_queue n s2" using run time_tamer_read_same(2) by metis
  then show "get_queue n (t req resp) =
       (if rt_timestamp (r req) = NIOS_PKT_RETUNE_NOW \<or> rt_module (r req) = BLADERF_MODULE_INVALID
           \<or> \<not> same_port (rt_module (r req)) n
        then get_queue n s
        else if rt_timestamp (r req) = NIOS_PKT_RETUNE_CLEAR_QUEUE then reset_queue (get_queue n s)
        else enqueued (retune_freq (r req)) (rt_timestamp (r req)) (get_queue n s))"
    using s2 by (simp add: m_def f_def)
qed

text \<open>The agreement between a queue and its tamer: only the head is ever handed to the tamer; while
  it is scheduled the tamer waits for its time or has reached it, and once it is ready its time has
  come.\<close>

fun sched_inv :: "queue_entry list \<Rightarrow> time_tamer \<Rightarrow> bool" where
  "sched_inv [] t \<longleftrightarrow> tt_fsm t = WAIT_FOR_ARM"
| "sched_inv (e # es) t \<longleftrightarrow> (\<forall>x \<in> set es. qe_state x = ENTRY_STATE_NEW) \<and>
     (case qe_state e of
        ENTRY_STATE_INVALID \<Rightarrow> False
      | ENTRY_STATE_NEW \<Rightarrow> tt_fsm t = WAIT_FOR_ARM
      | ENTRY_STATE_SCHEDULED \<Rightarrow> tt_fsm t = WAIT_FOR_COMPARE (sched_time (qe_timestamp e)) \<or>
          tt_fsm t = WAIT_FOR_INTR_CLEAR \<and> sched_time (qe_timestamp e) \<le> tt_timestamp t
      | ENTRY_STATE_READY \<Rightarrow> tt_fsm t = WAIT_FOR_ARM \<and> sched_time (qe_timestamp e) \<le> tt_timestamp t)"

definition retune_irq :: "bladerf_module \<Rightarrow> (board, 'z) retune_state_scheme \<Rightarrow> (board, 'z) retune_state_scheme" where
  "retune_irq m s = snd ((if m = BLADERF_MODULE_RX then retune_rx board_bus else retune_tx board_bus) s)"

text \<open>The steps: time advances, a pending interrupt is taken, deferred work is done for one module, a
  request other than a clear is handled.  Interrupts are taken between these.\<close>

inductive retune_step ::
  "(board, 'z) retune_state_scheme \<Rightarrow> (board, 'z) retune_state_scheme \<Rightarrow> bool" where
  tick: "tt_timestamp (board_tamer m s) < -1 \<Longrightarrow> retune_step s (upd_tamer m tamer_tick s)"
| irq: "m \<noteq> BLADERF_MODULE_INVALID \<Longrightarrow> tamer_intr (board_tamer m s) \<Longrightarrow> retune_step s (retune_irq m s)"
| work: "m \<noteq> BLADERF_MODULE_INVALID \<Longrightarrow> retune_step s (snd (perform_work board_bus m s))"
| request: "rt_timestamp (nios_pkt_retune_unpack req) \<noteq> NIOS_PKT_RETUNE_CLEAR_QUEUE \<Longrightarrow>
    retune_step s (snd (pkt_retune board_bus req resp s))"

inductive_cases retune_stepE: "retune_step s t"

definition retune_ok :: "(board, 'z) retune_state_scheme \<Rightarrow> bool" where
  "retune_ok s \<longleftrightarrow> (\<forall>m. queue_wf (get_queue m s) \<and> sched_inv (queue_items (get_queue m s)) (board_tamer m s))"

lemma same_port_sym: "same_port m n = same_port n m"
  by (auto simp add: same_port_def)

lemma same_port_eq:
  assumes "same_port m n"
  shows "get_queue m s = get_queue n s" "board_tamer m s' = board_tamer n s'"
    "upd_tamer m f s' = upd_tamer n f s'"
  using assms by (simp_all add: same_port_def get_queue_def board_tamer_def upd_tamer_def)

lemma sched_inv_cong:
  "tt_fsm t' = tt_fsm t \<Longrightarrow> tt_timestamp t' = tt_timestamp t \<Longrightarrow> sched_inv es t' = sched_inv es t"
  by (cases es) (simp_all split: entry_state.split)

lemma word_le_succ:
  assumes "(w :: u64) < -1"
  shows "w \<le> w + 1"
proof -
  have "1 + w \<noteq> 0"
  proof
    assume "1 + w = 0"
    then have "w = -1" by (simp add: eq_neg_iff_add_eq_0 add.commute)
    with assms show False by simp
  qed
  from unatSuc [OF this] show ?thesis by (simp add: word_le_nat_alt add.commute)
qed

lemma sched_inv_tick:
  assumes "sched_inv es t" "tt_timestamp t < -1"
  shows "sched_inv es (tamer_tick t)"
proof -
  note t = word_le_succ [OF assms(2)]
  show ?thesis
    using assms(1) by (cases es)
      (auto simp add: tamer_tick_def split: tamer_fsm.splits entry_state.splits intro: order_trans [OF _ t])
qed

lemma retune_irq_board:
  "board_tamer n (retune_irq m s) = (if same_port m n then tamer_mm_write 8 1 (board_tamer n s) else board_tamer n s)"
  "get_queue n (retune_irq m s) = (if same_port m n then retune_isr (get_queue n s) else get_queue n s)"
  by (auto simp add: retune_irq_def retune_rx_def retune_tx_def bindS_apply timer_tamer_clear_interrupt_def
      tamer_write8 board_tamer_def upd_tamer_def get_queue_def same_port_def)

lemma sched_inv_irq:
  assumes "queue_wf q" "sched_inv (queue_items q) t" "tamer_intr t"
  shows "sched_inv (queue_items (retune_isr q)) (tamer_mm_write 8 1 t)"
  using assms(2,3) by (cases "queue_items q")
    (auto simp add: isr_items [OF assms(1)] tamer_intr_def tamer_mm_write_def split: entry_state.splits)

lemma sched_inv_arm:
  assumes "sched_inv (e # es) t" "qe_state e = ENTRY_STATE_NEW"
  shows "sched_inv (e\<lparr>qe_state := ENTRY_STATE_SCHEDULED\<rparr> # es) (arm (sched_time (qe_timestamp e)) t)"
  using assms by (auto simp add: arm_def with_hold_def tamer_mm_write_def)

lemma sched_inv_enqueue:
  assumes "queue_wf q" "sched_inv (queue_items q) t"
  shows "queue_wf (enqueued f ts q) \<and> sched_inv (queue_items (enqueued f ts q)) t"
proof -
  have "length (queue_items q) \<le> 16" using assms(1) by (simp add: queue_wf_def word_le_nat_alt)
  then consider "length (queue_items q) = 16" | "length (queue_items q) < 16" by linarith
  then show ?thesis
  proof cases
    case 1
    with assms show ?thesis by (simp add: enqueued_def enqueue_items(1))
  next
    case 2
    obtain q' where q': "enqueue_retune q f ts = (of_nat (length (queue_items q) + 1), q')" "queue_wf q'"
        "queue_items q' = queue_items q @ [\<lparr> qe_state = ENTRY_STATE_NEW, qe_freq = f, qe_timestamp = ts \<rparr>]"
      using enqueue_items(2) [OF assms(1) 2, of f ts] by blast
    with assms(2) show ?thesis
      by (cases "queue_items q") (simp_all add: enqueued_def)
  qed
qed

lemma sched_inv_tl:
  "sched_inv (e # es) t \<Longrightarrow> qe_state e = ENTRY_STATE_READY \<Longrightarrow> sched_inv es t"
  by (cases es) (auto simp add: split: entry_state.splits)

lemma work_ok:
  assumes ok: "retune_ok s" and m: "m \<noteq> BLADERF_MODULE_INVALID"
  shows "retune_ok (snd (perform_work board_bus m s))"
proof -
  have wf: "queue_wf (get_queue k s)" and inv: "sched_inv (queue_items (get_queue k s)) (board_tamer k s)" for k
    using ok by (simp_all add: retune_ok_def)
  have other: "queue_wf (get_queue n t) \<and> sched_inv (queue_items (get_queue n t)) (board_tamer n t)"
    if "get_queue n t = get_queue n s" "board_tamer n t = board_tamer n s"
    for n and t :: "(board, 'a) retune_state_scheme"
    using that wf inv by simp
  show ?thesis
  proof (cases "queue_items (get_queue m s)")
    case Nil
    then show ?thesis using perform_work_board(1) [OF wf] ok by simp
  next
    case (Cons e es)
    note work = perform_work_board [OF wf]
    consider "qe_state e = ENTRY_STATE_NEW" | "qe_state e = ENTRY_STATE_SCHEDULED" | "qe_state e = ENTRY_STATE_READY"
      using inv [of m] Cons by (cases "qe_state e") auto
    then show ?thesis
    proof cases
      case 1
      define q' where "q' = set_entry (q_rem_idx (get_queue m s)) (\<lambda>e. e\<lparr>qe_state := ENTRY_STATE_SCHEDULED\<rparr>)
            (get_queue m s)"
      define t where "t = upd_tamer m (arm (sched_time (qe_timestamp e))) (put_queue m q' s)"
      have run: "perform_work board_bus m s = ((), t)"
        using work(3) [OF Cons 1] by (simp only: t_def q'_def)
      have q': "queue_wf q'" "queue_items q' = e\<lparr>qe_state := ENTRY_STATE_SCHEDULED\<rparr> # es"
        using wf set_entry_head [OF wf Cons] by (simp_all add: q'_def)
      have "queue_wf (get_queue n t) \<and> sched_inv (queue_items (get_queue n t)) (board_tamer n t)" for n
      proof (cases "same_port m n")
        case True
        have "board_tamer n t = arm (sched_time (qe_timestamp e)) (board_tamer n s)"
          by (simp add: t_def same_port_eq(3) [OF True] board_tamer_upd)
        moreover have "sched_inv (e # es) (board_tamer n s)"
          using inv [of n] Cons by (simp only: same_port_eq(1) [OF True])
        ultimately show ?thesis
          using sched_inv_arm [OF _ 1] q' True by (simp add: t_def get_put_queue)
      next
        case False
        then show ?thesis
          by (intro other) (simp_all add: t_def get_put_queue board_tamer_other)
      qed
      then show ?thesis by (simp add: run retune_ok_def)
    next
      case 2
      then show ?thesis using work(2) [OF Cons] ok by simp
    next
      case 3
      obtain q t where t: "snd (perform_work board_bus m s) = put_queue m q t" "only_rf s t"
          "queue_wf q" "queue_items q = es"
        using work(4) [OF Cons 3] by blast
      have "queue_wf (get_queue n (put_queue m q t)) \<and>
          sched_inv (queue_items (get_queue n (put_queue m q t))) (board_tamer n (put_queue m q t))" for n
      proof (cases "same_port m n")
        case True
        have "sched_inv (e # es) (board_tamer n s)"
          using inv [of n] Cons by (simp only: same_port_eq(1) [OF True])
        then show ?thesis
          using sched_inv_tl [OF _ 3] t(3,4) True only_rf_frame(1) [OF t(2)] by (simp add: get_put_queue)
      next
        case False
        then show ?thesis
          by (intro other) (simp_all add: get_put_queue only_rf_frame [OF t(2)])
      qed
      then show ?thesis by (simp add: t(1) retune_ok_def)
    qed
  qed
qed

lemma retune_step_ok:
  assumes "retune_step s t" "retune_ok s"
  shows "retune_ok t"
  using assms
proof (cases rule: retune_step.cases)
  case (tick m)
  have "sched_inv (queue_items (get_queue n s)) (board_tamer n (upd_tamer m tamer_tick s))" for n
  proof (cases "same_port m n")
    case True
    then show ?thesis
      using assms(2) tick(2) sched_inv_tick
      by (simp add: retune_ok_def same_port_eq [OF True] board_tamer_upd)
  next
    case False
    then show ?thesis using assms(2) by (simp add: retune_ok_def board_tamer_other)
  qed
  then show ?thesis using assms(2) tick by (simp add: retune_ok_def)
next
  case (irq m)
  have "sched_inv (queue_items (get_queue n (retune_irq m s))) (board_tamer n (retune_irq m s))
      \<and> queue_wf (get_queue n (retune_irq m s))" for n
  proof (cases "same_port m n")
    case True
    have "tamer_intr (board_tamer n s)" using irq(3) by (simp only: same_port_eq(2) [OF True])
    with True assms(2) show ?thesis
      by (simp add: retune_irq_board retune_ok_def sched_inv_irq isr_items(1))
  next
    case False
    with assms(2) show ?thesis by (simp add: retune_irq_board retune_ok_def)
  qed
  then show ?thesis using irq by (simp add: retune_ok_def)
next
  case (work m)
  then show ?thesis using work_ok assms(2) by simp
next
  case (request req resp)
  note r = pkt_retune_board [where s = s and req = req and resp = resp]
  have "sched_inv (queue_items (get_queue n t)) (board_tamer n t) \<and> queue_wf (get_queue n t)" for n
  proof -
    have "sched_inv es (board_tamer n t) = sched_inv es (board_tamer n s)" for es
      using r(1) request(1) by (intro sched_inv_cong) (simp_all add: same_tamers_def)
    moreover have wf: "queue_wf (get_queue n s)" and inv: "sched_inv (queue_items (get_queue n s)) (board_tamer n s)"
      using assms(2) by (simp_all add: retune_ok_def)
    moreover note sched_inv_enqueue [OF wf inv]
    ultimately show ?thesis using request by (simp add: r(2))
  qed
  then show ?thesis by (simp add: retune_ok_def)
qed

text \<open>The state in which \<open>pkt_retune_init\<close> leaves the firmware when the tamers are idle.\<close>

definition retune_start :: "(board, 'z) retune_state_scheme \<Rightarrow> bool" where
  "retune_start s \<longleftrightarrow> (\<exists>s0. s = snd (pkt_retune_init s0) \<and>
     (\<forall>m. length (q_entries (get_queue m s0)) = 16 \<and> tt_fsm (board_tamer m s0) = WAIT_FOR_ARM))"

lemma retune_start_ok: "retune_start s \<Longrightarrow> retune_ok s"
  by (auto simp add: retune_start_def retune_ok_def pkt_retune_init_def bindS_apply alt_ic_isr_register_def
      get_queue_def board_tamer_def reset_items split: if_splits)

lemma retune_reachable_ok: "retune_step\<^sup>*\<^sup>* s t \<Longrightarrow> retune_start s \<Longrightarrow> retune_ok t"
  by (induction rule: rtranclp_induct) (auto intro: retune_start_ok retune_step_ok)

section \<open>Properties\<close>

text \<open>C4: Without clear requests, a scheduled retune is never carried out early.  In every state
  that the firmware and its time tamers reach from initialisation, by time advancing,
  interrupts, deferred work and requests in any order, an entry is ready (and so carried out by the next
  deferred work) only if it is the oldest of its queue and its timestamp, below 2^54, has been
  reached by the module's counter.\<close>

theorem scheduled_retunes_wait:
  assumes "retune_start s" "retune_step\<^sup>*\<^sup>* s t"
    and "e \<in> set (queue_items (get_queue m t))" "qe_state e = ENTRY_STATE_READY" "qe_timestamp e < 2 ^ 54"
  shows "e = hd (queue_items (get_queue m t)) \<and> qe_timestamp e \<le> tt_timestamp (board_tamer m t)"
proof -
  have inv: "sched_inv (queue_items (get_queue m t)) (board_tamer m t)"
    using retune_reachable_ok [OF assms(2,1)] by (simp add: retune_ok_def)
  show ?thesis
  proof (cases "queue_items (get_queue m t)")
    case Nil
    with assms(3) show ?thesis by simp
  next
    case (Cons x xs)
    have "e = x" using inv Cons assms(3,4) by auto
    then show ?thesis using inv Cons assms(4) sched_time_small [OF assms(5)] by simp
  qed
qed

text \<open>A board just initialised whose counters read 5, and a request to retune RX at time 1.\<close>

definition idle_tamer :: "u64 \<Rightarrow> time_tamer" where
  "idle_tamer now = \<lparr> tt_timestamp = now, tt_snap_time = 0, tt_hold_time = 0, tt_fsm = WAIT_FOR_ARM,
    tt_status_past = False \<rparr>"

definition quiet_chip :: lms_chip where
  "quiet_chip = \<lparr> chip_reg = (\<lambda>_. 0), chip_default = (\<lambda>_. 0), chip_sense = (\<lambda>_ _ _. 0), chip_time = 0 \<rparr>"

definition quiet_board :: "u64 \<Rightarrow> board" where
  "quiet_board now = \<lparr> bd_pio = (\<lambda>_. 0),
     bd_lms = \<lparr> shift_out_reg = replicate 4 (False, 0, 0), shift_in_reg = 0, spi_chip = quiet_chip \<rparr>,
     bd_rx_tamer = idle_tamer now, bd_tx_tamer = idle_tamer now,
     bd_uart_req = (\<lambda>_. 0), bd_uart_resp = (\<lambda>_. 0), bd_vctcxo_ctrl = 0, bd_vctcxo_regs = (\<lambda>_ _. 0),
     bd_i2c = (\<lambda>_ _. 0), bd_i2c_log = [], bd_spi_log = [], bd_dac = (\<lambda>_. 0), bd_time = 0 \<rparr>"

definition quiet_nios :: "u64 \<Rightarrow> board retune_state" where
  "quiet_nios now = \<lparr> nios_hw = quiet_board now, nios_isr = (\<lambda>_. None), nios_irq_enabled = (\<lambda>_. False),
     vctcxo_trim_dac_value = 0, vctcxo_tamer_ctrl_reg = 0, rx_queue = empty_ring, tx_queue = empty_ring \<rparr>"

definition ready_state :: "u64 \<Rightarrow> board retune_state" where
  "ready_state now = snd (pkt_retune_init (quiet_nios now))"

lemma quiet_start: "retune_start (ready_state now)"
  unfolding retune_start_def ready_state_def
  by (intro exI [of _ "quiet_nios now"])
    (simp add: quiet_nios_def quiet_board_def idle_tamer_def get_queue_def board_tamer_def empty_ring_def)

lemma ready_state_tamer: "board_tamer m (ready_state now) = idle_tamer now"
  by (simp add: ready_state_def pkt_retune_init_def bindS_apply alt_ic_isr_register_def board_tamer_def
      quiet_nios_def quiet_board_def)

lemma ready_state_queue: "queue_wf (get_queue m (ready_state now))" "queue_items (get_queue m (ready_state now)) = []"
  using reset_items [of empty_ring]
  by (simp_all add: ready_state_def pkt_retune_init_def bindS_apply alt_ic_isr_register_def get_queue_def
      quiet_nios_def empty_ring_def)

text \<open>Scheduling into an empty queue and doing the deferred work hands the entry to the tamer.\<close>

lemma schedule_then_work:
  fixes s :: "(board, 'z) retune_state_scheme" and req resp :: bytes
  assumes q: "queue_wf (get_queue m s)" "queue_items (get_queue m s) = []"
    and r: "nios_pkt_retune_unpack req = r" "rt_module r = m" "m \<noteq> BLADERF_MODULE_INVALID"
      "rt_timestamp r \<noteq> NIOS_PKT_RETUNE_NOW" "rt_timestamp r \<noteq> NIOS_PKT_RETUNE_CLEAR_QUEUE"
  defines "u \<equiv> snd (perform_work board_bus m (snd (pkt_retune board_bus req resp s)))"
  shows "queue_wf (get_queue m u)"
    "queue_items (get_queue m u) = [\<lparr> qe_state = ENTRY_STATE_SCHEDULED, qe_freq = retune_freq r,
        qe_timestamp = rt_timestamp r \<rparr>]"
    "tt_timestamp (board_tamer m u) = tt_timestamp (board_tamer m s)"
    "tt_fsm (board_tamer m u) = (if tt_fsm (board_tamer m s) = WAIT_FOR_ARM
       then (if sched_time (rt_timestamp r) < tt_timestamp (board_tamer m s) then WAIT_FOR_INTR_CLEAR
             else WAIT_FOR_COMPARE (sched_time (rt_timestamp r))) else tt_fsm (board_tamer m s))"
proof -
  define t where "t = snd (pkt_retune board_bus req resp s)"
  note pr = pkt_retune_board [where s = s and req = req and resp = resp, folded t_def]
  define e where "e = \<lparr> qe_state = ENTRY_STATE_NEW, qe_freq = retune_freq r, qe_timestamp = rt_timestamp r \<rparr>"
  have qt: "queue_wf (get_queue m t)" "queue_items (get_queue m t) = [e]"
    using enqueue_items(2) [OF q(1), of "retune_freq r" "rt_timestamp r"] q(2) r
    by (auto simp add: pr(2) enqueued_def e_def simp del: queue_items_length)
  have st: "qe_state e = ENTRY_STATE_NEW" by (simp add: e_def)
  have run: "u = upd_tamer m (arm (sched_time (rt_timestamp r)))
       (put_queue m (set_entry (q_rem_idx (get_queue m t)) (\<lambda>e. e\<lparr>qe_state := ENTRY_STATE_SCHEDULED\<rparr>)
            (get_queue m t)) t)"
    using perform_work_board(3) [OF qt st] by (simp add: u_def t_def [symmetric]) (simp add: e_def)
  show "queue_wf (get_queue m u)" "queue_items (get_queue m u) = [\<lparr> qe_state = ENTRY_STATE_SCHEDULED,
      qe_freq = retune_freq r, qe_timestamp = rt_timestamp r \<rparr>]"
    using qt(1) set_entry_head [OF qt] by (simp_all add: run get_put_queue) (simp add: e_def)
  have b: "board_tamer m u = arm (sched_time (rt_timestamp r)) (board_tamer m t)"
    by (simp add: run board_tamer_upd)
  have tm: "tt_fsm (board_tamer m t) = tt_fsm (board_tamer m s)"
    "tt_timestamp (board_tamer m t) = tt_timestamp (board_tamer m s)"
    using pr(1) by (simp_all add: same_tamers_def)
  show "tt_timestamp (board_tamer m u) = tt_timestamp (board_tamer m s)"
    "tt_fsm (board_tamer m u) = (if tt_fsm (board_tamer m s) = WAIT_FOR_ARM
       then (if sched_time (rt_timestamp r) < tt_timestamp (board_tamer m s) then WAIT_FOR_INTR_CLEAR
             else WAIT_FOR_COMPARE (sched_time (rt_timestamp r))) else tt_fsm (board_tamer m s))"
    by (simp_all add: b arm_def with_hold_def tamer_mm_write_def tm)
qed

definition rx_request :: "u64 \<Rightarrow> bytes" where
  "rx_request ts = nios_pkt_retune_pack (replicate 16 0) BLADERF_MODULE_RX ts 0 0 0 0 False False"

lemma rx_request_unpack:
  "rt_module (nios_pkt_retune_unpack (rx_request ts)) = BLADERF_MODULE_RX"
  "rt_timestamp (nios_pkt_retune_unpack (rx_request ts)) = ts"
  by (simp_all add: rx_request_def nios_pkt_retune_unpack_pack)

theorem scheduled_retunes_wait_witness:
  "\<exists>s t e :: queue_entry. (s :: board retune_state) = ready_state 5 \<and> retune_step\<^sup>*\<^sup>* s t \<and>
     queue_items (get_queue BLADERF_MODULE_RX t) = [e] \<and> qe_state e = ENTRY_STATE_READY \<and>
     qe_timestamp e = 1 \<and> qe_timestamp e \<le> tt_timestamp (board_tamer BLADERF_MODULE_RX t)"
proof -
  let ?s = "ready_state 5" and ?m = BLADERF_MODULE_RX
  define a where "a = snd (pkt_retune board_bus (rx_request 1) [] ?s)"
  define u where "u = snd (perform_work board_bus ?m a)"
  define t where "t = retune_irq ?m u"
  have r: "rt_timestamp (nios_pkt_retune_unpack (rx_request 1)) \<noteq> NIOS_PKT_RETUNE_NOW"
    "rt_timestamp (nios_pkt_retune_unpack (rx_request 1)) \<noteq> NIOS_PKT_RETUNE_CLEAR_QUEUE"
    by (simp_all add: rx_request_unpack)
  note sw = schedule_then_work [OF ready_state_queue refl rx_request_unpack(1) bladerf_module.distinct(2)
      r, of "[]" 5, folded a_def, folded u_def]
  have fsm: "tt_fsm (board_tamer ?m u) = WAIT_FOR_INTR_CLEAR" "tt_timestamp (board_tamer ?m u) = 5"
    using sw(3,4) sched_time_small [of 1] by (simp_all add: ready_state_tamer idle_tamer_def rx_request_unpack)
  have "retune_step ?s a" unfolding a_def by (rule retune_step.request) (rule r)
  moreover have "retune_step a u" unfolding u_def by (rule retune_step.work) simp
  moreover have "retune_step u t"
    unfolding t_def by (rule retune_step.irq) (simp_all add: tamer_intr_def fsm)
  ultimately have steps: "retune_step\<^sup>*\<^sup>* ?s t" by simp
  obtain e where e: "queue_items (get_queue ?m t) = [e]" "qe_state e = ENTRY_STATE_READY" "qe_timestamp e = 1"
    using isr_items(2) [OF sw(1)] sw(2) by (simp add: t_def retune_irq_board rx_request_unpack)
  have "e = hd (queue_items (get_queue ?m t)) \<and> qe_timestamp e \<le> tt_timestamp (board_tamer ?m t)"
    by (rule scheduled_retunes_wait [OF quiet_start steps _ e(2)]) (simp_all add: e)
  then show ?thesis using steps e by blast
qed

text \<open>C5: Clearing the queue does not disarm the time tamer.  If the oldest entry of a module has been
  handed to its tamer, to fire at time c, then after a clear request and a request for any other time
  ts, deferred work leaves the tamer waiting for c and marks the new entry as scheduled; when the counter
  reaches c the interrupt makes the new entry ready, so that it is carried out at c whatever ts is.\<close>

theorem clear_leaves_tamer_armed:
  fixes s :: "(board, 'z) retune_state_scheme" and req1 req2 resp1 resp2 :: bytes
  assumes "queue_wf (get_queue m s)" "m \<noteq> BLADERF_MODULE_INVALID"
    and armed: "tt_fsm (board_tamer m s) = WAIT_FOR_COMPARE c" "tt_timestamp (board_tamer m s) + 1 = c"
    and clear: "nios_pkt_retune_unpack req1 = r1" "rt_module r1 = m" "rt_timestamp r1 = NIOS_PKT_RETUNE_CLEAR_QUEUE"
    and again: "nios_pkt_retune_unpack req2 = r2" "rt_module r2 = m"
      "rt_timestamp r2 \<noteq> NIOS_PKT_RETUNE_NOW" "rt_timestamp r2 \<noteq> NIOS_PKT_RETUNE_CLEAR_QUEUE"
  defines "t \<equiv> snd (pkt_retune board_bus req1 resp1 s)"
  defines "u \<equiv> snd (perform_work board_bus m (snd (pkt_retune board_bus req2 resp2 t)))"
  defines "w \<equiv> retune_irq m (upd_tamer m tamer_tick u)"
  shows "tamer_intr (board_tamer m (upd_tamer m tamer_tick u)) \<and>
    queue_items (get_queue m w) = [\<lparr> qe_state = ENTRY_STATE_READY, qe_freq = retune_freq r2,
      qe_timestamp = rt_timestamp r2 \<rparr>] \<and> tt_timestamp (board_tamer m w) = c"
proof -
  note pr = pkt_retune_board [where s = s and req = req1 and resp = resp1, folded t_def]
  have qt: "queue_wf (get_queue m t)" "queue_items (get_queue m t) = []"
    using reset_items [of "get_queue m s"] assms(1,2) clear by (simp_all add: pr(2) queue_wf_def)
  have tm: "tt_fsm (board_tamer m t) = WAIT_FOR_COMPARE c" "tt_timestamp (board_tamer m t) + 1 = c"
    using pr(1) armed by (simp_all add: same_tamers_def)
  note sw = schedule_then_work [OF qt again(1,2) assms(2) again(3,4), of resp2, folded u_def]
  have tick: "board_tamer m (upd_tamer m tamer_tick u) =
      (board_tamer m u)\<lparr>tt_timestamp := c, tt_fsm := WAIT_FOR_INTR_CLEAR\<rparr>"
    using sw(3,4) tm by (simp add: board_tamer_upd tamer_tick_def)
  have wf: "queue_wf (get_queue m (upd_tamer m tamer_tick u))" using sw(1) by simp
  show ?thesis
    using isr_items(2) [OF wf] sw(2)
    by (simp add: tamer_intr_def tick w_def retune_irq_board tamer_mm_write_def)
qed

text \<open>With a retune due at 6 cleared at 5 and another asked for at one million, the latter is ready at
  6.\<close>

theorem clear_leaves_tamer_armed_witness:
  "\<exists>s w :: board retune_state. (\<exists>e. queue_items (get_queue BLADERF_MODULE_RX w) = [e] \<and>
     qe_state e = ENTRY_STATE_READY \<and> qe_timestamp e = 1000000) \<and>
     tt_timestamp (board_tamer BLADERF_MODULE_RX w) = 6"
proof -
  let ?m = BLADERF_MODULE_RX
  have r: "rt_timestamp (nios_pkt_retune_unpack (rx_request 6)) \<noteq> NIOS_PKT_RETUNE_NOW"
    "rt_timestamp (nios_pkt_retune_unpack (rx_request 6)) \<noteq> NIOS_PKT_RETUNE_CLEAR_QUEUE"
    "rt_timestamp (nios_pkt_retune_unpack (rx_request 1000000)) \<noteq> NIOS_PKT_RETUNE_NOW"
    "rt_timestamp (nios_pkt_retune_unpack (rx_request 1000000)) \<noteq> NIOS_PKT_RETUNE_CLEAR_QUEUE"
    by (simp_all add: rx_request_unpack)
  define s where "s = snd (perform_work board_bus ?m (snd (pkt_retune board_bus (rx_request 6) [] (ready_state 5))))"
  note sw = schedule_then_work [OF ready_state_queue refl rx_request_unpack(1) bladerf_module.distinct(2)
      r(1,2), of "[]" 5, folded s_def]
  have armed: "tt_fsm (board_tamer ?m s) = WAIT_FOR_COMPARE 6" "tt_timestamp (board_tamer ?m s) + 1 = 6"
    using sw(3,4) sched_time_small [of 6] by (simp_all add: ready_state_tamer idle_tamer_def rx_request_unpack)
  note c = clear_leaves_tamer_armed [OF sw(1) bladerf_module.distinct(2) armed refl
      rx_request_unpack(1) rx_request_unpack(2) [of "-1"] refl rx_request_unpack(1) r(3,4)]
  show ?thesis using c [of "[]" "[]"] by (auto simp add: rx_request_unpack intro!: exI)
qed

end
