(* ===== verification/Lms_Cal.thy ===== *)
theory Lms_Cal
  imports Lms_Config
begin

text \<open>
  The DC calibration procedures of fpga_common/src/lms.c (lms_calibrate_dc and its helpers): the
  register back-up, the set-up of the block to calibrate, the polling loop of the LMS6002D
  calibration flow chart, the retries with smaller gains, and the clean-up that runs on every path.
  The polling loop has a bound of 25 in the code and is a recursion on the polls left.  The retry
  loop has no bound in the code: it is a recursion that terminates because each retry lowers a gain.
\<close>

unbundle bit_operations_syntax

datatype bladerf_cal_module = BLADERF_DC_CAL_INVALID | BLADERF_DC_CAL_LPF_TUNING
  | BLADERF_DC_CAL_TX_LPF | BLADERF_DC_CAL_RX_LPF | BLADERF_DC_CAL_RXVGA2

record dc_cal_state =
  cs_clk_en :: u8
  cs_reg0x72 :: u8
  cs_lna_gain :: bladerf_lna_gain
  cs_rxvga1_gain :: int
  cs_rxvga2_gain :: int
  cs_base_addr :: u8
  cs_num_submodules :: nat
  cs_rxvga1_curr_gain :: int
  cs_rxvga2_curr_gain :: int

abbreviation (input) BLADERF_RXVGA1_GAIN_MIN :: int where "BLADERF_RXVGA1_GAIN_MIN \<equiv> 5"
abbreviation (input) BLADERF_RXVGA1_GAIN_MAX :: int where "BLADERF_RXVGA1_GAIN_MAX \<equiv> 30"
abbreviation (input) BLADERF_RXVGA2_GAIN_MIN :: int where "BLADERF_RXVGA2_GAIN_MIN \<equiv> 0"
abbreviation (input) BLADERF_RXVGA2_GAIN_MAX :: int where "BLADERF_RXVGA2_GAIN_MAX \<equiv> 30"

text \<open>The loop "for (i = 0; i < max_cal_count && !done; i++)" with the reads it makes.\<close>

fun dc_cal_poll :: "nat \<Rightarrow> 's lms_dev \<Rightarrow> u8 \<Rightarrow> ('s, u8) io" where
  "dc_cal_poll 0 dev base = throwE BLADERF_ERR_UNEXPECTED"
| "dc_cal_poll (Suc i) dev base =
     bindE (LMS_READ dev (base + 0x01)) (\<lambda>val.
     if drop_bit 1 val AND 1 = 0 then
       bindE (LMS_READ dev base) (\<lambda>dc_regval. returnE (dc_regval AND 0x3f))
     else dc_cal_poll i dev base)"

definition lms_dc_cal_loop :: "'s lms_dev \<Rightarrow> u8 \<Rightarrow> u8 \<Rightarrow> u8 \<Rightarrow> ('s, u8) io" where
  "lms_dc_cal_loop dev base cal_address dc_cntval =
     bindE (LMS_READ dev (base + 0x03)) (\<lambda>val.
     let val = (val AND NOT 0x07) OR (cal_address AND 0x07) in
     seqE (LMS_WRITE dev (base + 0x03) val)
     (seqE (LMS_WRITE dev (base + 0x02) dc_cntval)
     (let val = val OR 0x10 in
      seqE (LMS_WRITE dev (base + 0x03) val)
     (let val = val AND NOT 0x10 in
      seqE (LMS_WRITE dev (base + 0x03) val)
     (let val = val OR 0x20 in
      seqE (LMS_WRITE dev (base + 0x03) val)
     (let val = val AND NOT 0x20 in
      seqE (LMS_WRITE dev (base + 0x03) val)
      (dc_cal_poll 25 dev base)))))))"

definition dc_cal_state_zero :: dc_cal_state where
  "dc_cal_state_zero =
    \<lparr> cs_clk_en = 0, cs_reg0x72 = 0, cs_lna_gain = BLADERF_LNA_GAIN_UNKNOWN, cs_rxvga1_gain = 0,
      cs_rxvga2_gain = 0, cs_base_addr = 0, cs_num_submodules = 0, cs_rxvga1_curr_gain = 0,
      cs_rxvga2_curr_gain = 0 \<rparr>"

definition dc_cal_backup :: "'s lms_dev \<Rightarrow> bladerf_cal_module \<Rightarrow> ('s, dc_cal_state) io" where
  "dc_cal_backup dev module =
     bindE (LMS_READ dev 0x09) (\<lambda>clk_en.
     let state = dc_cal_state_zero\<lparr>cs_clk_en := clk_en\<rparr> in
     if module = BLADERF_DC_CAL_RX_LPF \<or> module = BLADERF_DC_CAL_RXVGA2 then
       bindE (LMS_READ dev 0x72) (\<lambda>reg0x72.
       bindE (lms_lna_get_gain dev) (\<lambda>lna_gain.
       bindE (lms_rxvga1_get_gain dev) (\<lambda>rxvga1_gain.
       bindE (lms_rxvga2_get_gain dev) (\<lambda>rxvga2_gain.
       returnE (state\<lparr>cs_reg0x72 := reg0x72, cs_lna_gain := lna_gain,
         cs_rxvga1_gain := rxvga1_gain, cs_rxvga2_gain := rxvga2_gain\<rparr>)))))
     else returnE state)"

text \<open>The first switch: the clock to enable, the base address and the number of submodules.\<close>

definition dc_cal_params :: "bladerf_cal_module \<Rightarrow> (u8 \<times> u8 \<times> nat) option" where
  "dc_cal_params module =
     (case module of
        BLADERF_DC_CAL_LPF_TUNING \<Rightarrow> Some (0x20, 0x00, 1)
      | BLADERF_DC_CAL_TX_LPF \<Rightarrow> Some (0x02, 0x30, 2)
      | BLADERF_DC_CAL_RX_LPF \<Rightarrow> Some (0x08, 0x50, 2)
      | BLADERF_DC_CAL_RXVGA2 \<Rightarrow> Some (0x10, 0x60, 5)
      | BLADERF_DC_CAL_INVALID \<Rightarrow> None)"

text \<open>The common part of the two RX cases of the second switch: open the LNA switch and go to
  the largest gains.\<close>

definition dc_cal_rx_gains :: "'s lms_dev \<Rightarrow> dc_cal_state \<Rightarrow> ('s, dc_cal_state) io" where
  "dc_cal_rx_gains dev state =
     seqE (LMS_WRITE dev 0x72 (cs_reg0x72 state AND NOT 0x80))
     (seqE (lms_lna_set_gain dev BLADERF_LNA_GAIN_MAX)
     (let state = state\<lparr>cs_rxvga1_curr_gain := BLADERF_RXVGA1_GAIN_MAX\<rparr> in
      seqE (lms_rxvga1_set_gain dev (cs_rxvga1_curr_gain state))
     (let state = state\<lparr>cs_rxvga2_curr_gain := BLADERF_RXVGA2_GAIN_MAX\<rparr> in
      seqE (lms_rxvga2_set_gain dev (cs_rxvga2_curr_gain state))
      (returnE state))))"

definition dc_cal_module_init ::
  "'s lms_dev \<Rightarrow> bladerf_cal_module \<Rightarrow> dc_cal_state \<Rightarrow> ('s, dc_cal_state) io" where
  "dc_cal_module_init dev module state =
     (case dc_cal_params module of
        None \<Rightarrow> throwE BLADERF_ERR_INVAL
      | Some (cal_clock, base, num) \<Rightarrow>
        let state = state\<lparr>cs_base_addr := base, cs_num_submodules := num\<rparr> in
        seqE (LMS_WRITE dev 0x09 (cs_clk_en state OR cal_clock))
        (case module of
           BLADERF_DC_CAL_RX_LPF \<Rightarrow> seqE (lms_clear dev 0x5f 0x80) (dc_cal_rx_gains dev state)
         | BLADERF_DC_CAL_RXVGA2 \<Rightarrow> seqE (lms_clear dev 0x6e 0xc0) (dc_cal_rx_gains dev state)
         | BLADERF_DC_CAL_TX_LPF \<Rightarrow>
             seqE (lms_set dev 0x36 0x80) (seqE (lms_clear dev 0x3f 0x80) (returnE state))
         | _ \<Rightarrow> returnE state))"

text \<open>The switch on the submodule of RXVGA2.\<close>

definition dc_cal_rxvga2_setup :: "'s lms_dev \<Rightarrow> nat \<Rightarrow> ('s, unit) io" where
  "dc_cal_rxvga2_setup dev submodule =
     (if submodule = 0 then seqE (lms_clear dev 0x64 0x01) (LMS_WRITE dev 0x68 0x01)
      else if submodule = 1 then seqE (lms_set dev 0x64 0x01) (LMS_WRITE dev 0x68 0x06)
      else if submodule = 2 then returnE ()
      else if submodule = 3 then LMS_WRITE dev 0x68 0x60
      else if submodule = 4 then returnE ()
      else throwE BLADERF_ERR_UNEXPECTED)"

text \<open>The two calls of the calibration loop; None is a bad DC_REGVAL, not converged.\<close>

definition dc_cal_regval :: "'s lms_dev \<Rightarrow> u8 \<Rightarrow> nat \<Rightarrow> ('s, u8 option) io" where
  "dc_cal_regval dev base submodule =
     bindE (lms_dc_cal_loop dev base (of_nat submodule) 31) (\<lambda>dc_regval.
     if dc_regval = 31 then
       bindE (lms_dc_cal_loop dev base (of_nat submodule) 0) (\<lambda>dc_regval.
       returnE (if dc_regval = 0 then None else Some dc_regval))
     else returnE (Some dc_regval))"

definition dc_cal_submodule ::
  "'s lms_dev \<Rightarrow> bladerf_cal_module \<Rightarrow> nat \<Rightarrow> dc_cal_state \<Rightarrow> ('s, bool) io" where
  "dc_cal_submodule dev module submodule state =
     seqE (whenE (module = BLADERF_DC_CAL_RXVGA2) (dc_cal_rxvga2_setup dev submodule))
     (bindE (dc_cal_regval dev (cs_base_addr state) submodule) (\<lambda>result.
      case result of
        None \<Rightarrow> returnE False
      | Some dc_regval \<Rightarrow>
        if module = BLADERF_DC_CAL_LPF_TUNING then
          bindE (LMS_READ dev 0x35) (\<lambda>val.
          seqE (LMS_WRITE dev 0x35 ((val AND NOT 0x3f) OR dc_regval))
          (bindE (LMS_READ dev 0x55) (\<lambda>val.
          seqE (LMS_WRITE dev 0x55 ((val AND NOT 0x3f) OR dc_regval))
          (returnE True))))
        else returnE True))"

text \<open>The second component of the result is *limit_reached.\<close>

definition dc_cal_retry_adjustment ::
  "'s lms_dev \<Rightarrow> bladerf_cal_module \<Rightarrow> dc_cal_state \<Rightarrow> ('s, dc_cal_state \<times> bool) io" where
  "dc_cal_retry_adjustment dev module state =
     (case module of
        BLADERF_DC_CAL_LPF_TUNING \<Rightarrow> returnE (state, True)
      | BLADERF_DC_CAL_TX_LPF \<Rightarrow> returnE (state, True)
      | BLADERF_DC_CAL_RX_LPF \<Rightarrow>
          if cs_rxvga1_curr_gain state > BLADERF_RXVGA1_GAIN_MIN then
            let state = state\<lparr>cs_rxvga1_curr_gain := cs_rxvga1_curr_gain state - 1\<rparr> in
            seqE (lms_rxvga1_set_gain dev (cs_rxvga1_curr_gain state)) (returnE (state, False))
          else returnE (state, True)
      | BLADERF_DC_CAL_RXVGA2 \<Rightarrow>
          if cs_rxvga1_curr_gain state > BLADERF_RXVGA1_GAIN_MIN then
            let state = state\<lparr>cs_rxvga1_curr_gain := cs_rxvga1_curr_gain state - 1\<rparr> in
            seqE (lms_rxvga1_set_gain dev (cs_rxvga1_curr_gain state)) (returnE (state, False))
          else if cs_rxvga2_curr_gain state > BLADERF_RXVGA2_GAIN_MIN then
            let state = state\<lparr>cs_rxvga2_curr_gain := cs_rxvga2_curr_gain state - 3\<rparr> in
            seqE (lms_rxvga2_set_gain dev (cs_rxvga2_curr_gain state)) (returnE (state, False))
          else returnE (state, True)
      | BLADERF_DC_CAL_INVALID \<Rightarrow> throwE BLADERF_ERR_UNEXPECTED)"

definition dc_cal_module_deinit :: "'s lms_dev \<Rightarrow> bladerf_cal_module \<Rightarrow> ('s, unit) io" where
  "dc_cal_module_deinit dev module =
     (case module of
        BLADERF_DC_CAL_LPF_TUNING \<Rightarrow> returnE ()
      | BLADERF_DC_CAL_RX_LPF \<Rightarrow> lms_set dev 0x5f 0x80
      | BLADERF_DC_CAL_RXVGA2 \<Rightarrow>
          seqE (LMS_WRITE dev 0x68 0x01)
          (seqE (lms_clear dev 0x64 0x01)
          (lms_set dev 0x6e 0xc0))
      | BLADERF_DC_CAL_TX_LPF \<Rightarrow> seqE (lms_set dev 0x3f 0x80) (lms_clear dev 0x36 0x80)
      | BLADERF_DC_CAL_INVALID \<Rightarrow> throwE BLADERF_ERR_INVAL)"

text \<open>Every step of the restoration runs; the status is that of the first step that fails,
  except that a failure of the last step replaces it.\<close>

definition dc_cal_restore ::
  "'s lms_dev \<Rightarrow> bladerf_cal_module \<Rightarrow> dc_cal_state \<Rightarrow> ('s, int) io" where
  "dc_cal_restore dev module state =
     bindE (statusE (LMS_WRITE dev 0x09 (cs_clk_en state))) (\<lambda>status.
     let ret = status in
     if module = BLADERF_DC_CAL_RX_LPF \<or> module = BLADERF_DC_CAL_RXVGA2 then
       bindE (statusE (LMS_WRITE dev 0x72 (cs_reg0x72 state))) (\<lambda>status.
       let ret = (if status \<noteq> 0 \<and> ret = 0 then status else ret) in
       bindE (statusE (lms_lna_set_gain dev (cs_lna_gain state))) (\<lambda>status.
       let ret = (if status \<noteq> 0 \<and> ret = 0 then status else ret) in
       bindE (statusE (lms_rxvga1_set_gain dev (cs_rxvga1_gain state))) (\<lambda>status.
       let ret = (if status \<noteq> 0 \<and> ret = 0 then status else ret) in
       bindE (statusE (lms_rxvga2_set_gain dev (cs_rxvga2_gain state))) (\<lambda>status.
       returnE (if status \<noteq> 0 then status else ret)))))
     else returnE ret)"

text \<open>The loop over the submodules from the i-th on, which stops at the first one that does
  not converge.\<close>

fun dc_cal_submodules ::
  "nat list \<Rightarrow> 's lms_dev \<Rightarrow> bladerf_cal_module \<Rightarrow> dc_cal_state \<Rightarrow> ('s, bool) io" where
  "dc_cal_submodules [] dev module state = returnE True"
| "dc_cal_submodules (i # is) dev module state =
     bindE (dc_cal_submodule dev module i state) (\<lambda>converged.
     if converged then dc_cal_submodules is dev module state else returnE False)"

definition dc_cal_module :: "'s lms_dev \<Rightarrow> bladerf_cal_module \<Rightarrow> dc_cal_state \<Rightarrow> ('s, bool) io" where
  "dc_cal_module dev module state = dc_cal_submodules [0..<cs_num_submodules state] dev module state"

text \<open>The loop "while (!converged && !limit_reached && status == 0)" of lms_calibrate_dc with the
  check after it.\<close>

function dc_cal_attempts ::
  "'s lms_dev \<Rightarrow> bladerf_cal_module \<Rightarrow> dc_cal_state \<Rightarrow> ('s, unit) io" where
  "dc_cal_attempts dev module state s =
     (case dc_cal_module dev module state s of
        (Inl status, t) \<Rightarrow> (Inl status, t)
      | (Inr True, t) \<Rightarrow> (Inr (), t)
      | (Inr False, t) \<Rightarrow>
          (case dc_cal_retry_adjustment dev module state t of
             (Inl status, u) \<Rightarrow> (Inl status, u)
           | (Inr (state', limit_reached), u) \<Rightarrow>
               if limit_reached then (Inl BLADERF_ERR_UNEXPECTED, u)
               else dc_cal_attempts dev module state' u))"
  by pat_completeness auto

text \<open>The number of retries that the current gains leave.\<close>

definition retries_left :: "dc_cal_state \<Rightarrow> nat" where
  "retries_left state =
     nat (cs_rxvga1_curr_gain state - 5) + nat ((cs_rxvga2_curr_gain state + 2) div 3)"

lemma dc_cal_retry_adjustment_less:
  assumes "dc_cal_retry_adjustment dev module state t = (Inr (state', False), u)"
  shows "retries_left state' < retries_left state"
  using assms
  by (auto simp add: dc_cal_retry_adjustment_def retries_left_def Let_def bindE_split
      split: bladerf_cal_module.splits if_splits)

termination dc_cal_attempts
  by (relation "measure (\<lambda>(dev, module, state, s). retries_left state)")
    (auto dest: dc_cal_retry_adjustment_less [OF sym])

declare dc_cal_attempts.simps [simp del]

definition lms_calibrate_dc :: "'s lms_dev \<Rightarrow> bladerf_cal_module \<Rightarrow> ('s, unit) io" where
  "lms_calibrate_dc dev module =
     bindE (dc_cal_backup dev module) (\<lambda>state.
     bindE (statusE (bindE (dc_cal_module_init dev module state) (dc_cal_attempts dev module)))
       (\<lambda>status.
     bindE (statusE (dc_cal_module_deinit dev module)) (\<lambda>tmp_status.
     let status = (if status \<noteq> 0 then status else tmp_status) in
     bindE (dc_cal_restore dev module state) (\<lambda>tmp_status.
     let status = (if status \<noteq> 0 then status else tmp_status) in
     if status \<noteq> 0 then throwE status else returnE ()))))"

end
