(* ===== verification/Lms_Confine.thy ===== *)
theory Lms_Confine
  imports Lms_Cal
begin

text \<open>
  A frame logic for driver functions: \<open>confined A E m\<close> says that \<open>m\<close>, from every good state and
  whatever the chip answers, changes no register outside \<open>A\<close> and returns no status outside \<open>E\<close>.
  It is closed under the ways the driver composes its accesses.
\<close>

unbundle bit_operations_syntax

context lms_regs begin

definition confined :: "u8 set \<Rightarrow> int set \<Rightarrow> ('s, 'a) io \<Rightarrow> bool" where
  "confined A E m \<longleftrightarrow> (\<forall>s. ok s \<longrightarrow> changes A s (snd (m s)) \<and> (\<forall>e. fst (m s) = Inl e \<longrightarrow> e \<in> E))"

lemma confinedI:
  "(\<And>s. ok s \<Longrightarrow> \<exists>r t. m s = (r, t) \<and> changes A s t \<and> (\<forall>e. r = Inl e \<longrightarrow> e \<in> E)) \<Longrightarrow> confined A E m"
  by (fastforce simp add: confined_def)

lemma confinedE:
  assumes "confined A E m" "ok s"
  obtains e t where "m s = (Inl e, t)" "e \<in> E" "changes A s t"
    | x t where "m s = (Inr x, t)" "changes A s t"
  using assms unfolding confined_def by (cases "m s"; cases "fst (m s)") fastforce+

lemma confined_mono: "confined A E m \<Longrightarrow> A \<subseteq> B \<Longrightarrow> E \<subseteq> F \<Longrightarrow> confined B F m"
  unfolding confined_def by (blast intro: changes_mono)

lemma confined_returnE: "confined A E (returnE x)"
  by (simp add: confined_def changes_refl)

lemma confined_throwE: "e \<in> E \<Longrightarrow> confined A E (throwE e)"
  by (simp add: confined_def changes_refl)

lemma confined_READ: "lms_addr a \<Longrightarrow> confined A E (LMS_READ dev a)"
  by (simp add: confined_def changes_def dev_laws)

lemma confined_WRITE:
  "lms_addr a \<Longrightarrow> a \<in> A \<Longrightarrow> a \<noteq> 0x05 \<Longrightarrow> confined A E (LMS_WRITE dev a d)"
  by (auto simp add: confined_def changes_def dev_laws lms_resets_def)

lemma confined_bindE:
  assumes "confined A E m" "\<And>x. confined A E (f x)"
  shows "confined A E (bindE m f)"
proof (rule confinedI)
  fix s assume "ok s"
  from assms(1) this show "\<exists>r t. bindE m f s = (r, t) \<and> changes A s t \<and> (\<forall>e. r = Inl e \<longrightarrow> e \<in> E)"
  proof (cases rule: confinedE)
    case (1 e t)
    then show ?thesis by (simp add: bindE_Inl)
  next
    case (2 x t)
    from assms(2) changes_ok [OF 2(2)] show ?thesis
      by (cases rule: confinedE [where m = "f x"])
        (use changes_trans [OF 2(2)] in \<open>fastforce simp add: bindE_Inr [where m = m and s = s, OF 2(1)]\<close>)+
  qed
qed

lemma confined_if: "(b \<Longrightarrow> confined A E m) \<Longrightarrow> (\<not> b \<Longrightarrow> confined A E k) \<Longrightarrow> confined A E (if b then m else k)"
  by simp

lemma confined_whenE: "(b \<Longrightarrow> confined A E m) \<Longrightarrow> confined A E (whenE b m)"
  by (simp add: whenE_def confined_returnE)

lemma confined_option:
  "(x = None \<Longrightarrow> confined A E m) \<Longrightarrow> (\<And>y. x = Some y \<Longrightarrow> confined A E (f y)) \<Longrightarrow>
   confined A E (case x of None \<Rightarrow> m | Some y \<Rightarrow> f y)"
  by (cases x) simp_all

lemma confined_set_clear:
  assumes "lms_addr a" "a \<in> A" "a \<noteq> 0x05"
  shows "confined A E (lms_set dev a k)" "confined A E (lms_clear dev a k)"
  unfolding lms_set_def lms_clear_def using assms
  by (auto intro!: confined_bindE confined_READ confined_WRITE)

lemma confined_gains:
  "0x75 \<in> A \<Longrightarrow> BLADERF_ERR_INVAL \<in> E \<Longrightarrow> confined A E (lms_lna_set_gain dev g)"
  "0x76 \<in> A \<Longrightarrow> confined A E (lms_rxvga1_set_gain dev v)"
  "0x65 \<in> A \<Longrightarrow> confined A E (lms_rxvga2_set_gain dev v)"
  unfolding lms_lna_set_gain_def lms_rxvga1_set_gain_def lms_rxvga2_set_gain_def Let_def
  by (auto simp del: throwE_apply intro!: confined_bindE confined_READ confined_WRITE confined_throwE)

lemmas confined_intros = confined_bindE confined_returnE confined_throwE confined_READ
  confined_WRITE confined_if confined_whenE confined_option confined_set_clear confined_gains

end

text \<open>The registers each calibration may leave changed.\<close>

definition cal_base :: "bladerf_cal_module \<Rightarrow> u8" where
  "cal_base module = (case dc_cal_params module of None \<Rightarrow> 0 | Some (c, b, n) \<Rightarrow> b)"

fun cal_regs :: "bladerf_cal_module \<Rightarrow> u8 set" where
  "cal_regs BLADERF_DC_CAL_INVALID = {}"
| "cal_regs BLADERF_DC_CAL_LPF_TUNING = {0x02, 0x03, 0x35, 0x55}"
| "cal_regs BLADERF_DC_CAL_TX_LPF = {0x32, 0x33}"
| "cal_regs BLADERF_DC_CAL_RX_LPF = {0x52, 0x53, 0x76, 0x65}"
| "cal_regs BLADERF_DC_CAL_RXVGA2 = {0x62, 0x63, 0x64, 0x68, 0x76, 0x65}"

context lms_regs begin

lemma confined_dc_cal_poll:
  "base \<in> {0x00, 0x30, 0x50, 0x60} \<Longrightarrow> BLADERF_ERR_UNEXPECTED \<in> E \<Longrightarrow> confined A E (dc_cal_poll n dev base)"
  by (induction n) (auto simp del: throwE_apply returnE_apply intro!: confined_intros)

lemma confined_dc_cal_loop:
  "base \<in> {0x00, 0x30, 0x50, 0x60} \<Longrightarrow> base + 2 \<in> A \<Longrightarrow> base + 3 \<in> A \<Longrightarrow> BLADERF_ERR_UNEXPECTED \<in> E \<Longrightarrow>
   confined A E (lms_dc_cal_loop dev base a c)"
  unfolding lms_dc_cal_loop_def Let_def
  by (intro confined_intros confined_dc_cal_poll) auto

lemma confined_submodule:
  assumes "cs_base_addr state = cal_base module" "module \<noteq> BLADERF_DC_CAL_INVALID"
  shows "confined (cal_regs module) {BLADERF_ERR_UNEXPECTED} (dc_cal_submodule dev module i state)"
  using assms unfolding dc_cal_submodule_def dc_cal_rxvga2_setup_def dc_cal_regval_def
  by (cases module)
    (auto simp del: throwE_apply returnE_apply simp add: cal_base_def dc_cal_params_def
      intro!: confined_intros confined_dc_cal_loop)

lemma adjustment_keeps:
  assumes "ok s" "module \<noteq> BLADERF_DC_CAL_INVALID"
  shows "\<exists>state' l t. dc_cal_retry_adjustment dev module state s = (Inr (state', l), t) \<and>
    changes (cal_regs module) s t \<and> cs_base_addr state' = cs_base_addr state"
  using assms(2) lms_rxvga1_set_gain_runs [OF assms(1), of "cs_rxvga1_curr_gain state - 1"]
    lms_rxvga2_set_gain_runs [OF assms(1), of "cs_rxvga2_curr_gain state - 3"] changes_refl [OF assms(1)]
  by (cases module)
    (auto simp add: dc_cal_retry_adjustment_def Let_def bindE_def intro: changes_mono)

lemma confined_module:
  assumes "cs_base_addr state = cal_base module" "module \<noteq> BLADERF_DC_CAL_INVALID"
  shows "confined (cal_regs module) {BLADERF_ERR_UNEXPECTED} (dc_cal_module dev module state)"
proof -
  have "confined (cal_regs module) {BLADERF_ERR_UNEXPECTED} (dc_cal_submodules is dev module state)" for "is"
    by (induction "is") (auto simp del: returnE_apply intro!: confined_intros confined_submodule [OF assms])
  then show ?thesis by (simp add: dc_cal_module_def)
qed

lemma confined_attempts:
  assumes "module \<noteq> BLADERF_DC_CAL_INVALID"
  shows "ok s \<Longrightarrow> cs_base_addr state = cal_base module \<Longrightarrow>
    \<exists>r t. dc_cal_attempts dev module state s = (r, t) \<and> changes (cal_regs module) s t \<and>
      (\<forall>e. r = Inl e \<longrightarrow> e = BLADERF_ERR_UNEXPECTED)"
proof (induction "retries_left state" arbitrary: state s rule: less_induct)
  case less
  have step: "changes (cal_regs module) s t \<Longrightarrow> changes (cal_regs module) t u \<Longrightarrow> changes (cal_regs module) s u"
    for t u using changes_trans [of "cal_regs module" s t "cal_regs module" u] by simp
  from confined_module [OF less.prems(2) assms] less.prems(1) show ?case
  proof (cases rule: confinedE)
    case (1 e t)
    then show ?thesis by (subst dc_cal_attempts.simps) simp
  next
    case (2 converged t)
    obtain state' l u where u: "dc_cal_retry_adjustment dev module state t = (Inr (state', l), u)"
        "changes (cal_regs module) t u" "cs_base_addr state' = cs_base_addr state"
      using adjustment_keeps [OF changes_ok [OF 2(2)] assms] by blast
    show ?thesis
    proof (cases "converged \<or> l")
      case True
      then show ?thesis using 2 u step by (subst dc_cal_attempts.simps) (cases converged; simp)
    next
      case False
      have "dc_cal_retry_adjustment dev module state t = (Inr (state', False), u)"
        using u(1) False by simp
      from less.hyps [OF dc_cal_retry_adjustment_less [OF this] changes_ok [OF u(2)]] u(3) less.prems(2)
      obtain r v where v: "dc_cal_attempts dev module state' u = (r, v)" "changes (cal_regs module) u v"
          "\<forall>e. r = Inl e \<longrightarrow> e = BLADERF_ERR_UNEXPECTED"
        by auto
      have "dc_cal_attempts dev module state s = (r, v)"
        using 2(1) u(1) False v(1) by (subst dc_cal_attempts.simps) simp
      then show ?thesis using step [OF step [OF 2(2) u(2)] v(2)] v(3) by blast
    qed
  qed
qed

end

section \<open>The calibration restores what it saved\<close>

abbreviation cal_rx :: "bladerf_cal_module \<Rightarrow> bool" where
  "cal_rx module \<equiv> module = BLADERF_DC_CAL_RX_LPF \<or> module = BLADERF_DC_CAL_RXVGA2"

definition lna_known :: "u8 \<Rightarrow> bool" where
  "lna_known w \<longleftrightarrow> drop_bit 6 w AND 3 \<noteq> 0"

lemma u8_2bits: "drop_bit 6 (w :: u8) AND 3 \<in> {0, 1, 2, 3}"
proof -
  have "bit w 7 \<or> \<not> bit w 7" "bit w 6 \<or> \<not> bit w 6" by simp_all
  then show ?thesis by (auto simp add: word8_eq_iff bit_simps)
qed

lemma lna_gain_field:
  assumes "lna_known w"
  shows "lna_gain_of (drop_bit 6 w AND 3) \<noteq> BLADERF_LNA_GAIN_UNKNOWN"
    "push_bit 6 (lna_gain_code (lna_gain_of (drop_bit 6 w AND 3)) AND 3) = w AND 0xc0"
proof -
  have c: "drop_bit 6 w AND 3 = 1 \<or> drop_bit 6 w AND 3 = 2 \<or> drop_bit 6 w AND 3 = 3"
    using u8_2bits [of w] assms by (auto simp add: lna_known_def)
  then show "lna_gain_of (drop_bit 6 w AND 3) \<noteq> BLADERF_LNA_GAIN_UNKNOWN"
    by (auto simp add: lna_gain_of_def)
  have "lna_gain_code (lna_gain_of (drop_bit 6 w AND 3)) = drop_bit 6 w AND 3"
    using c by (auto simp add: lna_gain_of_def)
  then show "push_bit 6 (lna_gain_code (lna_gain_of (drop_bit 6 w AND 3)) AND 3) = w AND 0xc0"
    by (simp add: word8_eq_iff bit_simps)
qed

lemma lna_gain_unknown: "\<not> lna_known w \<Longrightarrow> lna_gain_of (drop_bit 6 w AND 3) = BLADERF_LNA_GAIN_UNKNOWN"
  by (simp add: lna_known_def lna_gain_of_def)

context lms_regs begin

definition saved :: "bladerf_cal_module \<Rightarrow> 's \<Rightarrow> dc_cal_state" where
  "saved module s = (if cal_rx module then
     dc_cal_state_zero\<lparr>cs_clk_en := reg s 0x09, cs_reg0x72 := reg s 0x72,
       cs_lna_gain := lna_gain_of (drop_bit 6 (reg s 0x75) AND 3),
       cs_rxvga1_gain := uint (rxvga1_lut_code2val ! unat (min 120 (reg s 0x76 AND 0x7f))),
       cs_rxvga2_gain := uint (reg s 0x65 * 3)\<rparr>
     else dc_cal_state_zero\<lparr>cs_clk_en := reg s 0x09\<rparr>)"

lemma dc_cal_backup_runs:
  assumes "ok s"
  shows "\<exists>t. dc_cal_backup dev module s =
      (if cal_rx module \<and> \<not> lna_known (reg s 0x75) then Inl BLADERF_ERR_INVAL else Inr (saved module s), t) \<and>
    changes {} s t"
proof (cases "cal_rx module")
  case False
  then show ?thesis using assms by (simp add: dc_cal_backup_def saved_def dev_laws changes_def)
next
  case True
  obtain s1 where s1: "LMS_READ dev 0x09 s = (Inr (reg s 0x09), s1)" "changes {} s s1"
    using assms by (simp add: dev_laws changes_def)
  note c1 = changes_ok [OF s1(2)]
  obtain s2 where s2: "LMS_READ dev 0x72 s1 = (Inr (reg s 0x72), s2)" "changes {} s1 s2"
    using c1 changes_reg [OF s1(2), of "0x72"] by (simp add: dev_laws changes_def)
  have c: "changes {} s s2" using changes_trans [OF s1(2) s2(2)] by simp
  obtain s3 where s3: "lms_lna_get_gain dev s2 =
      (let gain = lna_gain_of (drop_bit 6 (reg s 0x75) AND 3) in
       if gain = BLADERF_LNA_GAIN_UNKNOWN then Inl BLADERF_ERR_INVAL else Inr gain, s3)" "changes {} s s3"
    using lms_lna_get_gain_runs [OF changes_ok [OF c]] changes_trans [OF c] changes_reg [OF c, of "0x75"]
    by fastforce
  obtain s4 where s4: "lms_rxvga1_get_gain dev s3 =
      (Inr (uint (rxvga1_lut_code2val ! unat (min 120 (reg s 0x76 AND 0x7f)))), s4)" "changes {} s s4"
    using lms_rxvga1_get_gain_runs [OF changes_ok [OF s3(2)]] changes_trans [OF s3(2)]
      changes_reg [OF s3(2), of "0x76"] by fastforce
  obtain s5 where s5: "lms_rxvga2_get_gain dev s4 = (Inr (uint (reg s 0x65 * 3)), s5)" "changes {} s s5"
    using lms_rxvga2_get_gain_runs [OF changes_ok [OF s4(2)]] changes_trans [OF s4(2)]
      changes_reg [OF s4(2), of "0x65"] by fastforce
  show ?thesis
  proof (cases "lna_known (reg s 0x75)")
    case True
    then show ?thesis using \<open>cal_rx module\<close> s1 s2 s3 s4 s5 lna_gain_field(1) [OF True]
      by (simp add: dc_cal_backup_def saved_def bindE_def)
  next
    case False
    then show ?thesis using \<open>cal_rx module\<close> s1 s2 s3 lna_gain_unknown [OF False]
      by (simp add: dc_cal_backup_def saved_def bindE_def)
  qed
qed

end

fun cal_switches :: "bladerf_cal_module \<Rightarrow> u8 set" where
  "cal_switches BLADERF_DC_CAL_TX_LPF = {0x36, 0x3f}"
| "cal_switches BLADERF_DC_CAL_RX_LPF = {0x5f}"
| "cal_switches BLADERF_DC_CAL_RXVGA2 = {0x6e}"
| "cal_switches _ = {}"

text \<open>The state the switches of a block are left in: comparators powered down, DACs on, RXVGA2 at its
  default gains.\<close>

fun cal_parked :: "bladerf_cal_module \<Rightarrow> (u8 \<Rightarrow> u8) \<Rightarrow> (u8 \<Rightarrow> u8) \<Rightarrow> bool" where
  "cal_parked BLADERF_DC_CAL_TX_LPF r r' \<longleftrightarrow>
     r' 0x36 = r 0x36 AND NOT 0x80 \<and> r' 0x3f = r 0x3f OR 0x80"
| "cal_parked BLADERF_DC_CAL_RX_LPF r r' \<longleftrightarrow> r' 0x5f = r 0x5f OR 0x80"
| "cal_parked BLADERF_DC_CAL_RXVGA2 r r' \<longleftrightarrow>
     r' 0x6e = r 0x6e OR 0xc0 \<and> r' 0x68 = 0x01 \<and> \<not> bit (r' 0x64) 0"
| "cal_parked _ r r' \<longleftrightarrow> True"

context lms_regs begin

lemma dc_cal_rx_gains_runs:
  assumes "ok s"
  shows "\<exists>st' t. dc_cal_rx_gains dev st s = (Inr st', t) \<and> cs_base_addr st' = cs_base_addr st \<and>
    changes {0x72, 0x75, 0x76, 0x65} s t \<and> reg t 0x75 AND 0x3f = reg s 0x75 AND 0x3f"
proof -
  have w: "((w AND NOT 0xc0) OR push_bit 6 (3 AND 3)) AND 0x3f = (w :: u8) AND 0x3f" for w
    by (simp add: word8_eq_iff bit_simps)
  obtain s1 where s1: "LMS_WRITE dev 0x72 (cs_reg0x72 st AND NOT 0x80) s = (Inr (), s1)" "changes {0x72} s s1"
    using assms by (simp add: dev_laws changes_def)
  obtain s2 where s2: "lms_lna_set_gain dev BLADERF_LNA_GAIN_MAX s1 = (Inr (), s2)" "changes {0x75} s1 s2"
      "reg s2 0x75 = (reg s1 0x75 AND NOT 0xc0) OR push_bit 6 (3 AND 3)"
    using lms_lna_set_gain_runs [OF changes_ok [OF s1(2)], of BLADERF_LNA_GAIN_MAX]
    by (simp only: bladerf_lna_gain.distinct lna_gain_code.simps) blast
  obtain s3 where s3: "lms_rxvga1_set_gain dev 30 s2 = (Inr (), s3)" "changes {0x76} s2 s3"
    using lms_rxvga1_set_gain_runs [OF changes_ok [OF s2(2)]] by blast
  obtain s4 where s4: "lms_rxvga2_set_gain dev 30 s3 = (Inr (), s4)" "changes {0x65} s3 s4"
    using lms_rxvga2_set_gain_runs [OF changes_ok [OF s3(2)]] by blast
  have "changes {0x72, 0x75, 0x76, 0x65} s s4"
    using changes_trans [OF changes_trans [OF changes_trans [OF s1(2) s2(2)] s3(2)] s4(2)]
    by (rule changes_mono) auto
  moreover have "reg s4 0x75 AND 0x3f = reg s 0x75 AND 0x3f"
    using changes_reg [OF s4(2), of "0x75"] changes_reg [OF s3(2), of "0x75"] changes_reg [OF s1(2), of "0x75"]
      s2(3) w by simp
  ultimately show ?thesis using s1(1) s2(1) s3(1) s4(1) by (simp add: dc_cal_rx_gains_def bindE_def)
qed

lemma lms_set_runs:
  "ok s \<Longrightarrow> lms_addr a \<Longrightarrow> \<not> lms_volatile a \<Longrightarrow> a \<noteq> 0x05 \<Longrightarrow>
   \<exists>t. lms_set dev a k s = (Inr (), t) \<and> changes {a} s t \<and> reg t a = reg s a OR k"
  by (simp add: lms_set_def dev_laws changes_def del: lms_volatile_simps)

lemma lms_clear_runs:
  "ok s \<Longrightarrow> lms_addr a \<Longrightarrow> \<not> lms_volatile a \<Longrightarrow> a \<noteq> 0x05 \<Longrightarrow>
   \<exists>t. lms_clear dev a k s = (Inr (), t) \<and> changes {a} s t \<and> reg t a = reg s a AND NOT k"
  by (simp add: lms_clear_def dev_laws changes_def del: lms_volatile_simps)

lemma dc_cal_rx_init:
  assumes "ok s" "lms_addr a" "\<not> lms_volatile a" "a \<notin> {0x05, 0x72, 0x75, 0x76, 0x65, 0x09}"
  shows "\<exists>st' t. seqE (LMS_WRITE dev 0x09 k) (seqE (lms_clear dev a c) (dc_cal_rx_gains dev st)) s =
      (Inr st', t) \<and> cs_base_addr st' = cs_base_addr st \<and>
    changes {0x09, a, 0x72, 0x75, 0x76, 0x65} s t \<and> reg t a = reg s a AND NOT c \<and>
    reg t 0x75 AND 0x3f = reg s 0x75 AND 0x3f"
proof -
  obtain s1 where s1: "LMS_WRITE dev 0x09 k s = (Inr (), s1)" "changes {0x09} s s1"
    using assms by (simp add: dev_laws changes_def)
  obtain s2 where s2: "lms_clear dev a c s1 = (Inr (), s2)" "changes {a} s1 s2" "reg s2 a = reg s1 a AND NOT c"
    using lms_clear_runs [OF changes_ok [OF s1(2)] assms(2,3)] assms(4) by blast
  obtain st' t where t: "dc_cal_rx_gains dev st s2 = (Inr st', t)" "cs_base_addr st' = cs_base_addr st"
      "changes {0x72, 0x75, 0x76, 0x65} s2 t" "reg t 0x75 AND 0x3f = reg s2 0x75 AND 0x3f"
    using dc_cal_rx_gains_runs [OF changes_ok [OF s2(2)]] by blast
  have "changes {0x09, a, 0x72, 0x75, 0x76, 0x65} s t"
    using changes_trans [OF changes_trans [OF s1(2) s2(2)] t(3)] by (rule changes_mono) auto
  moreover have "reg t a = reg s a AND NOT c"
    using changes_reg [OF t(3) assms(2,3)] changes_reg [OF s1(2) assms(2,3)] s2(3) assms(4) by simp
  moreover have "reg t 0x75 AND 0x3f = reg s 0x75 AND 0x3f"
    using t(4) changes_reg [OF s2(2), of "0x75"] changes_reg [OF s1(2), of "0x75"] assms(4) by simp
  ultimately show ?thesis using s1(1) s2(1) t(1,2) by (simp add: bindE_def)
qed

lemma dc_cal_module_init_runs:
  assumes "ok s" "module \<noteq> BLADERF_DC_CAL_INVALID"
  shows "\<exists>st' t. dc_cal_module_init dev module st s = (Inr st', t) \<and> cs_base_addr st' = cal_base module \<and>
    changes (cal_regs module \<union> cal_switches module \<union> (if cal_rx module then {0x09, 0x72, 0x75} else {0x09})) s t \<and>
    (cal_rx module \<longrightarrow> reg t 0x75 AND 0x3f = reg s 0x75 AND 0x3f) \<and>
    (module = BLADERF_DC_CAL_RX_LPF \<longrightarrow> reg t 0x5f = reg s 0x5f AND NOT 0x80) \<and>
    (module = BLADERF_DC_CAL_RXVGA2 \<longrightarrow> reg t 0x6e = reg s 0x6e AND NOT 0xc0) \<and>
    (module = BLADERF_DC_CAL_TX_LPF \<longrightarrow> reg t 0x36 = reg s 0x36 OR 0x80 \<and> reg t 0x3f = reg s 0x3f AND NOT 0x80)"
proof (cases module)
  case BLADERF_DC_CAL_RX_LPF
  from dc_cal_rx_init [OF assms(1), of "0x5f" "cs_clk_en st OR 0x08" "0x80"
      "st\<lparr>cs_base_addr := 0x50, cs_num_submodules := 2\<rparr>"]
  obtain st' t where "dc_cal_module_init dev module st s = (Inr st', t)" "cs_base_addr st' = 0x50"
    "changes {0x09, 0x5f, 0x72, 0x75, 0x76, 0x65} s t"
    "reg t 0x5f = reg s 0x5f AND NOT 0x80" "reg t 0x75 AND 0x3f = reg s 0x75 AND 0x3f"
    using BLADERF_DC_CAL_RX_LPF by (auto simp add: dc_cal_module_init_def dc_cal_params_def)
  then show ?thesis using BLADERF_DC_CAL_RX_LPF
    by (auto simp add: cal_base_def dc_cal_params_def elim: changes_mono)
next
  case BLADERF_DC_CAL_RXVGA2
  from dc_cal_rx_init [OF assms(1), of "0x6e" "cs_clk_en st OR 0x10" "0xc0"
      "st\<lparr>cs_base_addr := 0x60, cs_num_submodules := 5\<rparr>"]
  obtain st' t where "dc_cal_module_init dev module st s = (Inr st', t)" "cs_base_addr st' = 0x60"
    "changes {0x09, 0x6e, 0x72, 0x75, 0x76, 0x65} s t"
    "reg t 0x6e = reg s 0x6e AND NOT 0xc0" "reg t 0x75 AND 0x3f = reg s 0x75 AND 0x3f"
    using BLADERF_DC_CAL_RXVGA2 by (auto simp add: dc_cal_module_init_def dc_cal_params_def)
  then show ?thesis using BLADERF_DC_CAL_RXVGA2
    by (auto simp add: cal_base_def dc_cal_params_def elim: changes_mono)
next
  case BLADERF_DC_CAL_TX_LPF
  then show ?thesis using assms(1)
    by (simp add: dc_cal_module_init_def dc_cal_params_def cal_base_def lms_set_def lms_clear_def
        bindE_assoc dev_laws changes_def)
next
  case BLADERF_DC_CAL_LPF_TUNING
  then show ?thesis using assms(1)
    by (simp add: dc_cal_module_init_def dc_cal_params_def cal_base_def dev_laws changes_def)
next
  case BLADERF_DC_CAL_INVALID
  then show ?thesis using assms(2) by contradiction
qed

lemma dc_cal_module_deinit_runs:
  assumes "ok s" "module \<noteq> BLADERF_DC_CAL_INVALID"
  shows "\<exists>t. dc_cal_module_deinit dev module s = (Inr (), t) \<and>
    changes (cal_switches module \<union> (if module = BLADERF_DC_CAL_RXVGA2 then {0x64, 0x68} else {})) s t \<and>
    cal_parked module (reg s) (reg t)"
  using assms
  by (cases module)
    (simp_all add: dc_cal_module_deinit_def lms_set_def lms_clear_def bindE_assoc dev_laws changes_def bit_simps)

lemma dc_cal_restore_runs:
  assumes "ok s" and "cal_rx module \<Longrightarrow> cs_lna_gain st \<noteq> BLADERF_LNA_GAIN_UNKNOWN"
  shows "\<exists>t. dc_cal_restore dev module st s = (Inr 0, t) \<and>
    changes (if cal_rx module then {0x09, 0x72, 0x75, 0x76, 0x65} else {0x09}) s t \<and>
    reg t 0x09 = cs_clk_en st \<and>
    (cal_rx module \<longrightarrow> reg t 0x72 = cs_reg0x72 st \<and>
       reg t 0x75 = (reg s 0x75 AND NOT 0xc0) OR push_bit 6 (lna_gain_code (cs_lna_gain st) AND 3) \<and>
       reg t 0x76 = rxvga1_lut_val2code ! nat (max 5 (min 30 (cs_rxvga1_gain st))) \<and>
       reg t 0x65 = word_of_int (max 0 (min 30 (cs_rxvga2_gain st)) div 3))"
proof -
  obtain s1 where s1: "LMS_WRITE dev 0x09 (cs_clk_en st) s = (Inr (), s1)" "changes {0x09} s s1"
      "reg s1 0x09 = cs_clk_en st"
    using assms by (simp add: dev_laws changes_def)
  show ?thesis
  proof (cases "cal_rx module")
    case False
    then show ?thesis using s1 by (simp add: dc_cal_restore_def bindE_def statusE_def s1(1))
  next
    case True
    obtain s2 where s2: "LMS_WRITE dev 0x72 (cs_reg0x72 st) s1 = (Inr (), s2)" "changes {0x72} s1 s2"
        "reg s2 0x72 = cs_reg0x72 st"
      using changes_ok [OF s1(2)] by (simp add: dev_laws changes_def)
    obtain s3 where s3: "lms_lna_set_gain dev (cs_lna_gain st) s2 = (Inr (), s3)" "changes {0x75} s2 s3"
      "reg s3 0x75 = (reg s2 0x75 AND NOT 0xc0) OR push_bit 6 (lna_gain_code (cs_lna_gain st) AND 3)"
      using lms_lna_set_gain_runs [OF changes_ok [OF s2(2)] assms(2) [OF True]] by blast
    obtain s4 where s4: "lms_rxvga1_set_gain dev (cs_rxvga1_gain st) s3 = (Inr (), s4)" "changes {0x76} s3 s4"
      "reg s4 0x76 = rxvga1_lut_val2code ! nat (max 5 (min 30 (cs_rxvga1_gain st)))"
      using lms_rxvga1_set_gain_runs [OF changes_ok [OF s3(2)]] by blast
    obtain s5 where s5: "lms_rxvga2_set_gain dev (cs_rxvga2_gain st) s4 = (Inr (), s5)" "changes {0x65} s4 s5"
      "reg s5 0x65 = word_of_int (max 0 (min 30 (cs_rxvga2_gain st)) div 3)"
      using lms_rxvga2_set_gain_runs [OF changes_ok [OF s4(2)]] by blast
    have "changes {0x09, 0x72, 0x75, 0x76, 0x65} s s5"
      using changes_trans [OF changes_trans [OF changes_trans [OF changes_trans [OF s1(2) s2(2)] s3(2)] s4(2)] s5(2)]
      by (rule changes_mono) auto
    moreover have "dc_cal_restore dev module st s = (Inr 0, s5)"
      using True by (simp add: dc_cal_restore_def bindE_def statusE_def s1(1) statusE_def s2(1)
          statusE_def s3(1) statusE_def s4(1) statusE_def s5(1))
    moreover have "reg s5 b = reg s3 b" if "b \<in> {0x09, 0x72, 0x75}" for b
      using that changes_reg [OF s5(2), of b] changes_reg [OF s4(2), of b] by auto
    moreover have "reg s3 0x09 = reg s1 0x09" "reg s3 0x72 = reg s2 0x72" "reg s2 0x75 = reg s 0x75"
      using changes_reg [OF s3(2), of "0x09"] changes_reg [OF s2(2), of "0x09"] changes_reg [OF s3(2), of "0x72"]
        changes_reg [OF s2(2), of "0x75"] changes_reg [OF s1(2), of "0x75"] by simp_all
    moreover have "reg s5 0x76 = reg s4 0x76" using changes_reg [OF s5(2), of "0x76"] by simp
    ultimately show ?thesis using True s1(3) s2(3) s3(3) s4(3) s5(3)
      by (intro exI [of _ s5]) simp
  qed
qed

end

context lms_regs begin

text \<open>Everything but a failed back-up: the registers saved are restored whatever happened.\<close>

lemma lms_calibrate_dc_restores:
  assumes "ok s" "module \<noteq> BLADERF_DC_CAL_INVALID" "cal_rx module \<Longrightarrow> lna_known (reg s 0x75)"
  shows "\<exists>r t. lms_calibrate_dc dev module s = (r, t) \<and> (r = Inr () \<or> r = Inl BLADERF_ERR_UNEXPECTED) \<and>
    changes (cal_regs module \<union> cal_switches module) s t \<and> cal_parked module (reg s) (reg t) \<and>
    (cal_rx module \<longrightarrow>
       reg t 0x76 = rxvga1_lut_val2code ! nat (max 5 (min 30 (uint (rxvga1_lut_code2val ! unat (min 120 (reg s 0x76 AND 0x7f)))))) \<and>
       reg t 0x65 = word_of_int (max 0 (min 30 (uint (reg s 0x65 * 3))) div 3))"
proof -
  have known: "\<not> (cal_rx module \<and> \<not> lna_known (reg s 0x75))" using assms(3) by blast
  obtain s1 where s1: "dc_cal_backup dev module s = (Inr (saved module s), s1)" "changes {} s s1"
    using dc_cal_backup_runs [OF assms(1), of module] unfolding if_not_P [OF known] by blast
  have r1: "reg s1 b = reg s b" if "lms_addr b" "\<not> lms_volatile b" for b
    using changes_reg [OF s1(2) that] by simp
  obtain st2 s2 where s2: "dc_cal_module_init dev module (saved module s) s1 = (Inr st2, s2)"
      "cs_base_addr st2 = cal_base module"
      "changes (cal_regs module \<union> cal_switches module \<union> (if cal_rx module then {0x09, 0x72, 0x75} else {0x09})) s1 s2"
      "cal_rx module \<longrightarrow> reg s2 0x75 AND 0x3f = reg s1 0x75 AND 0x3f"
      "module = BLADERF_DC_CAL_RX_LPF \<longrightarrow> reg s2 0x5f = reg s1 0x5f AND NOT 0x80"
      "module = BLADERF_DC_CAL_RXVGA2 \<longrightarrow> reg s2 0x6e = reg s1 0x6e AND NOT 0xc0"
      "module = BLADERF_DC_CAL_TX_LPF \<longrightarrow> reg s2 0x36 = reg s1 0x36 OR 0x80 \<and> reg s2 0x3f = reg s1 0x3f AND NOT 0x80"
    using dc_cal_module_init_runs [OF changes_ok [OF s1(2)] assms(2), of "saved module s"] by blast
  obtain r3 s3 where s3: "dc_cal_attempts dev module st2 s2 = (r3, s3)" "changes (cal_regs module) s2 s3"
      "\<forall>e. r3 = Inl e \<longrightarrow> e = BLADERF_ERR_UNEXPECTED"
    using confined_attempts [OF assms(2) changes_ok [OF s2(3)] s2(2)] by blast
  obtain s4 where s4: "dc_cal_module_deinit dev module s3 = (Inr (), s4)"
      "changes (cal_switches module \<union> (if module = BLADERF_DC_CAL_RXVGA2 then {0x64, 0x68} else {})) s3 s4"
      "cal_parked module (reg s3) (reg s4)"
    using dc_cal_module_deinit_runs [OF changes_ok [OF s3(2)] assms(2)] by blast
  have g: "cal_rx module \<Longrightarrow> cs_lna_gain (saved module s) \<noteq> BLADERF_LNA_GAIN_UNKNOWN"
    using lna_gain_field(1) [OF assms(3)] by (simp add: saved_def)
  obtain t where t: "dc_cal_restore dev module (saved module s) s4 = (Inr 0, t)"
      "changes (if cal_rx module then {0x09, 0x72, 0x75, 0x76, 0x65} else {0x09}) s4 t"
      "reg t 0x09 = cs_clk_en (saved module s)"
      "cal_rx module \<longrightarrow> reg t 0x72 = cs_reg0x72 (saved module s) \<and>
       reg t 0x75 = (reg s4 0x75 AND NOT 0xc0) OR push_bit 6 (lna_gain_code (cs_lna_gain (saved module s)) AND 3) \<and>
       reg t 0x76 = rxvga1_lut_val2code ! nat (max 5 (min 30 (cs_rxvga1_gain (saved module s)))) \<and>
       reg t 0x65 = word_of_int (max 0 (min 30 (cs_rxvga2_gain (saved module s))) div 3)"
    using dc_cal_restore_runs [OF changes_ok [OF s4(2)], of module "saved module s"] g by blast
  let ?s = "case r3 of Inl e \<Rightarrow> e | Inr x \<Rightarrow> 0"
  have run: "lms_calibrate_dc dev module s = (if ?s \<noteq> 0 then Inl ?s else Inr (), t)"
    using s1(1) s2(1) s3(1) s4(1) t(1)
    by (cases r3) (simp_all add: lms_calibrate_dc_def bindE_def statusE_def)
  have w: "((w AND - 193) OR (v AND 0xc0)) = v" if "(w :: u8) AND 0x3f = v AND 0x3f" for v w
    using that by (simp add: word8_eq_iff bit_simps)
  have e75: "reg t 0x75 = reg s 0x75" if rx: "cal_rx module"
  proof -
    have "reg s4 0x75 AND 0x3f = reg s 0x75 AND 0x3f"
      using changes_reg [OF s4(2), of "0x75"] changes_reg [OF s3(2), of "0x75"] s2(4) r1 [of "0x75"] rx
      by auto
    then show ?thesis
      using t(4) rx lna_gain_field(2) [OF assms(3)] by (simp add: saved_def w)
  qed
  have e: "reg t 0x09 = reg s 0x09" "cal_rx module \<Longrightarrow> reg t 0x72 = reg s 0x72"
    using t(3,4) by (auto simp add: saved_def)
  have fr: "reg t b = reg s b"
    if b: "lms_addr b" "\<not> lms_volatile b" "b \<notin> cal_regs module" "b \<notin> cal_switches module" for b
  proof (cases "b \<in> (if cal_rx module then {0x09, 0x72, 0x75} else {0x09})")
    case True
    then show ?thesis using e e75 by (auto split: if_splits)
  next
    case False
    then have o: "b \<notin> (if cal_rx module then {0x09, 0x72, 0x75, 0x76, 0x65} else {0x09})"
      "b \<notin> (if module = BLADERF_DC_CAL_RXVGA2 then {0x64, 0x68} else {})"
      using b(3) by auto
    have n: "b \<notin> cal_switches module \<union> (if module = BLADERF_DC_CAL_RXVGA2 then {0x64, 0x68} else {})"
        "b \<notin> cal_regs module \<union> cal_switches module \<union> (if cal_rx module then {0x09, 0x72, 0x75} else {0x09})"
      using False o(2) b(3,4) by blast+
    have "reg t b = reg s4 b" by (rule changes_reg [OF t(2) b(1,2) o(1)])
    also have "\<dots> = reg s3 b" by (rule changes_reg [OF s4(2) b(1,2) n(1)])
    also have "\<dots> = reg s2 b" by (rule changes_reg [OF s3(2) b(1-3)])
    also have "\<dots> = reg s1 b" by (rule changes_reg [OF s2(3) b(1,2) n(2)])
    also have "\<dots> = reg s b" by (rule r1 [OF b(1,2)])
    finally show ?thesis .
  qed
  have "gpio t = gpio s"
    using changes_gpio [OF t(2)] changes_gpio [OF s4(2)] changes_gpio [OF s3(2)] changes_gpio [OF s2(3)]
      changes_gpio [OF s1(2)] by simp
  then have c: "changes (cal_regs module \<union> cal_switches module) s t"
    using changes_ok [OF t(2)] fr by (auto simp add: changes_def)
  have "cal_parked module (reg s) (reg t)"
  proof -
    have m: "(w AND NOT 0x80) OR 0x80 = w OR 0x80" "(w AND NOT 0xc0) OR 0xc0 = w OR 0xc0"
      "(w OR 0x80) AND NOT 0x80 = (w :: u8) AND NOT 0x80" for w
      by (simp_all add: word8_eq_iff bit_simps)
    note tr = changes_reg [OF t(2)] and tr3 = changes_reg [OF s3(2)]
    show ?thesis
      using s4(3) s2(5-7) assms(2) m
      by (cases module)
        (simp_all add: tr [of "0x36"] tr [of "0x3f"] tr [of "0x5f"] tr [of "0x6e"] tr [of "0x68"] tr [of "0x64"]
          tr3 [of "0x36"] tr3 [of "0x3f"] tr3 [of "0x5f"] tr3 [of "0x6e"] r1 [of "0x36"] r1 [of "0x3f"]
          r1 [of "0x5f"] r1 [of "0x6e"])
  qed
  then show ?thesis using run s3(3) c t(4)
    by (cases r3) (simp_all add: saved_def)
qed

end

end
