(* ===== verification/Lms_Loopback.thy ===== *)
theory Lms_Loopback
  imports Lms_Confine Lms_Vco
begin

text \<open>
  Entering and leaving the loopback modes (fpga_common/src/lms.c, lms_set_loopback_mode): the amplifiers
  are switched off and the paths disconnected, then the RX and the TX side are configured, then the
  switches of the path are closed.  Leaving a mode tunes both modules to their frequencies again,
  which brings back the amplifiers of the band.
\<close>

unbundle bit_operations_syntax

definition loopback_tx :: "'s lms_dev \<Rightarrow> bladerf_loopback \<Rightarrow> ('s, unit) io" where
  "loopback_tx dev mode =
     (case mode of
        BLADERF_LB_BB_TXLPF_RXVGA2 \<Rightarrow> returnE ()
      | BLADERF_LB_BB_TXLPF_RXLPF \<Rightarrow> returnE ()
      | BLADERF_LB_BB_TXVGA1_RXVGA2 \<Rightarrow> returnE ()
      | BLADERF_LB_BB_TXVGA1_RXLPF \<Rightarrow> returnE ()
      | BLADERF_LB_RF_LNA1 \<Rightarrow> lms_select_pa dev PA_AUX
      | BLADERF_LB_RF_LNA2 \<Rightarrow> lms_select_pa dev PA_AUX
      | BLADERF_LB_RF_LNA3 \<Rightarrow> lms_select_pa dev PA_AUX
      | BLADERF_LB_NONE \<Rightarrow>
          bindE (lms_get_frequency dev BLADERF_MODULE_TX lms_freq_uninit) (\<lambda>f.
          seqE (lms_set_frequency dev BLADERF_MODULE_TX (lms_frequency_to_hz f))
          (lms_select_band dev BLADERF_MODULE_TX (lms_frequency_to_hz f < BLADERF_BAND_HIGH)))
      | BLADERF_LB_FIRMWARE \<Rightarrow> throwE BLADERF_ERR_INVAL)"

text \<open>"lna = mode - BLADERF_LB_RF_LNA1 + 1".\<close>

fun loopback_lna :: "bladerf_loopback \<Rightarrow> lms_lna" where
  "loopback_lna BLADERF_LB_RF_LNA1 = LNA_1"
| "loopback_lna BLADERF_LB_RF_LNA2 = LNA_2"
| "loopback_lna BLADERF_LB_RF_LNA3 = LNA_3"
| "loopback_lna _ = LNA_NONE"

text \<open>The RX side of the RF loopback modes.\<close>

definition loopback_rx_rf :: "'s lms_dev \<Rightarrow> lms_lna \<Rightarrow> bladerf_lpf_mode \<Rightarrow> ('s, unit) io" where
  "loopback_rx_rf dev lna lpf_mode =
     seqE (enable_lna_power dev False)
     (seqE (lms_rxvga1_enable dev True)
     (seqE (whenE (lpf_mode = BLADERF_LPF_DISABLED)
              (lms_lpf_set_mode dev BLADERF_MODULE_RX BLADERF_LPF_NORMAL))
     (seqE (lms_rxvga2_enable dev True)
     (bindE (LMS_READ dev 0x25) (\<lambda>regval.
      seqE (LMS_WRITE dev 0x25 ((regval AND NOT 0x03) OR lms_lna_code lna))
     (seqE (lms_select_lna dev lna)
     (enable_rf_loopback_switch dev True)))))))"

text \<open>The RX side when loopback is left.\<close>

definition loopback_rx_none :: "'s lms_dev \<Rightarrow> bladerf_lpf_mode \<Rightarrow> ('s, unit) io" where
  "loopback_rx_none dev lpf_mode =
     seqE (lms_rxvga1_enable dev True)
     (seqE (whenE (lpf_mode = BLADERF_LPF_DISABLED)
              (lms_lpf_set_mode dev BLADERF_MODULE_RX BLADERF_LPF_NORMAL))
     (seqE (lms_rxvga2_enable dev True)
     (seqE (enable_rf_loopback_switch dev False)
     (seqE (enable_lna_power dev True)
     (bindE (lms_get_frequency dev BLADERF_MODULE_RX lms_freq_uninit) (\<lambda>f.
      seqE (lms_set_frequency dev BLADERF_MODULE_RX (lms_frequency_to_hz f))
      (lms_select_band dev BLADERF_MODULE_RX (lms_frequency_to_hz f < BLADERF_BAND_HIGH))))))))"

definition loopback_rx :: "'s lms_dev \<Rightarrow> bladerf_loopback \<Rightarrow> ('s, unit) io" where
  "loopback_rx dev mode =
     bindE (lms_lpf_get_mode dev BLADERF_MODULE_RX) (\<lambda>lpf_mode.
     if mode = BLADERF_LB_BB_TXLPF_RXVGA2 \<or> mode = BLADERF_LB_BB_TXVGA1_RXVGA2 then
       seqE (lms_rxvga2_enable dev True)
       (lms_lpf_set_mode dev BLADERF_MODULE_RX BLADERF_LPF_DISABLED)
     else if mode = BLADERF_LB_BB_TXLPF_RXLPF \<or> mode = BLADERF_LB_BB_TXVGA1_RXLPF then
       seqE (lms_rxvga1_enable dev False)
       (seqE (whenE (lpf_mode = BLADERF_LPF_DISABLED)
                (lms_lpf_set_mode dev BLADERF_MODULE_RX BLADERF_LPF_NORMAL))
       (lms_rxvga2_enable dev True))
     else if mode = BLADERF_LB_RF_LNA1 \<or> mode = BLADERF_LB_RF_LNA2 \<or> mode = BLADERF_LB_RF_LNA3 then
       loopback_rx_rf dev (loopback_lna mode) lpf_mode
     else if mode = BLADERF_LB_NONE then loopback_rx_none dev lpf_mode
     else throwE BLADERF_ERR_INVAL)"

definition lms_set_loopback_mode :: "'s lms_dev \<Rightarrow> bladerf_loopback \<Rightarrow> ('s, unit) io" where
  "lms_set_loopback_mode dev mode =
     (if mode = BLADERF_LB_FIRMWARE then throwE BLADERF_ERR_INVAL
      else
        seqE (lms_select_pa dev PA_NONE)
        (seqE (lms_select_lna dev LNA_NONE)
        (seqE (loopback_path dev BLADERF_LB_NONE)
        (seqE (loopback_rx dev mode)
        (seqE (loopback_tx dev mode)
        (loopback_path dev mode))))))"

section \<open>Steps\<close>

context lms_regs begin

text \<open>\<open>does m A P\<close>: from a good state \<open>m\<close> succeeds, changes registers of \<open>A\<close> only, and relates the
  registers before and after by \<open>P\<close>.  Sequences of such steps are chained by \<open>does_seq\<close>.\<close>

definition does :: "('s, unit) io \<Rightarrow> u8 set \<Rightarrow> ((u8 \<Rightarrow> u8) \<Rightarrow> (u8 \<Rightarrow> u8) \<Rightarrow> bool) \<Rightarrow> bool" where
  "does m A P \<longleftrightarrow> (\<forall>s. ok s \<longrightarrow> (\<exists>t. m s = (Inr (), t) \<and> changes A s t \<and> P (reg s) (reg t)))"

text \<open>Registers agree outside a set, as far as they are not volatile.\<close>

definition agree :: "u8 set \<Rightarrow> (u8 \<Rightarrow> u8) \<Rightarrow> (u8 \<Rightarrow> u8) \<Rightarrow> bool" where
  "agree A r r' \<longleftrightarrow> (\<forall>b. lms_addr b \<longrightarrow> \<not> lms_volatile b \<longrightarrow> b \<notin> A \<longrightarrow> r' b = r b)"

lemma agreeD: "agree A r r' \<Longrightarrow> lms_addr b \<Longrightarrow> \<not> lms_volatile b \<Longrightarrow> b \<notin> A \<Longrightarrow> r' b = r b"
  by (simp add: agree_def)

lemma changes_agree: "changes A s t \<Longrightarrow> agree A (reg s) (reg t)"
  by (simp add: changes_def agree_def)

lemma doesI: "(\<And>s. ok s \<Longrightarrow> \<exists>t. m s = (Inr (), t) \<and> changes A s t \<and> P (reg s) (reg t)) \<Longrightarrow> does m A P"
  by (simp add: does_def)

lemma doesE:
  assumes "does m A P" "ok s"
  obtains t where "m s = (Inr (), t)" "changes A s t" "P (reg s) (reg t)"
  using assms by (auto simp add: does_def)

lemma does_seq:
  assumes "does m A P" "does k B Q"
    and "\<And>r r' r''. agree A r r' \<Longrightarrow> P r r' \<Longrightarrow> agree B r' r'' \<Longrightarrow> Q r' r'' \<Longrightarrow> R r r''"
    and "A \<union> B \<subseteq> C"
  shows "does (seqE m k) C R"
proof (rule doesI)
  fix s assume "ok s"
  obtain t where t: "m s = (Inr (), t)" "changes A s t" "P (reg s) (reg t)"
    by (rule doesE [OF assms(1) \<open>ok s\<close>])
  obtain u where u: "k t = (Inr (), u)" "changes B t u" "Q (reg t) (reg u)"
    by (rule doesE [OF assms(2) changes_ok [OF t(2)]])
  have "R (reg s) (reg u)"
    using assms(3) [OF changes_agree [OF t(2)] t(3) changes_agree [OF u(2)] u(3)] .
  moreover have "changes C s u" using changes_trans [OF t(2) u(2)] assms(4) by (rule changes_mono)
  ultimately show "\<exists>t. seqE m k s = (Inr (), t) \<and> changes C s t \<and> R (reg s) (reg t)"
    using t(1) u(1) by (auto simp add: bindE_def)
qed

lemma does_mono:
  "does m A P \<Longrightarrow> A \<subseteq> B \<Longrightarrow> (\<And>r r'. agree A r r' \<Longrightarrow> P r r' \<Longrightarrow> Q r r') \<Longrightarrow> does m B Q"
  unfolding does_def by (blast intro: changes_mono changes_agree)

lemma does_steps:
  "does (lms_select_pa dev pa) {0x44} (\<lambda>r r'. r' 0x44 = (let data = (r 0x44 AND NOT 0x1c) OR 0x02 in
       case pa of PA_AUX \<Rightarrow> data AND NOT 0x02 | PA_1 \<Rightarrow> data OR 0x08 | PA_2 \<Rightarrow> data OR 0x10 | PA_NONE \<Rightarrow> data))"
  "does (lms_select_lna dev lna) {0x75} (\<lambda>r r'. r' 0x75 = (r 0x75 AND NOT 0x30) OR push_bit 4 (lms_lna_code lna AND 3))"
  "mode \<noteq> BLADERF_LB_FIRMWARE \<Longrightarrow>
   does (loopback_path dev mode) {0x46, 0x08} (\<lambda>r r'. loopback_of_regs (r' 0x08) (r' 0x46) = mode)"
  "does (lms_rxvga1_enable dev e) {0x7d} (\<lambda>r r'. r' 0x7d = (if e then r 0x7d AND NOT 0x08 else r 0x7d OR 0x08))"
  "does (lms_rxvga2_enable dev e) {0x64} (\<lambda>r r'. r' 0x64 = (if e then r 0x64 OR 0x02 else r 0x64 AND NOT 0x02))"
  "does (enable_lna_power dev e) {0x7d, 0x70} (\<lambda>r r'.
     r' 0x7d = (if e then r 0x7d AND NOT 0x01 else r 0x7d OR 0x01) \<and>
     r' 0x70 = (if e then r 0x70 AND NOT 0x02 else r 0x70 OR 0x02))"
  "does (enable_rf_loopback_switch dev e) {0x0b} (\<lambda>r r'.
     r' 0x0b = (if e then r 0x0b OR 0x01 else r 0x0b AND NOT 0x01))"
  using lms_select_pa_runs lms_select_lna_runs loopback_path_runs lms_rxvga1_enable_runs
    lms_rxvga2_enable_runs enable_lna_power_runs enable_rf_loopback_switch_runs
  unfolding does_def by blast+

lemma does_lpf:
  "does (lms_lpf_set_mode dev BLADERF_MODULE_RX BLADERF_LPF_NORMAL) {0x54, 0x55} (\<lambda>r r'.
     r' 0x54 = r 0x54 OR 0x02 \<and> r' 0x55 = r 0x55 AND NOT 0x40)"
  "does (lms_lpf_set_mode dev BLADERF_MODULE_RX BLADERF_LPF_DISABLED) {0x54, 0x55} (\<lambda>r r'.
     r' 0x54 = r 0x54 AND NOT 0x02 \<and> r' 0x55 = r 0x55 AND NOT 0x40)"
  by (rule doesI, simp add: lms_lpf_set_mode_def dev_laws changes_def)+

lemma does_pll_buffer:
  "does (bindE (LMS_READ dev 0x25) (\<lambda>regval. LMS_WRITE dev 0x25 ((regval AND NOT 0x03) OR c))) {0x25}
     (\<lambda>r r'. r' 0x25 = (r 0x25 AND NOT 0x03) OR c)"
  by (rule doesI) (simp add: dev_laws changes_def)

end

text \<open>The state of the RX side that each mode needs.\<close>

definition lpf_passes :: "(u8 \<Rightarrow> u8) \<Rightarrow> bool" where
  "lpf_passes r \<longleftrightarrow> bit (r 0x54) 1 \<or> bit (r 0x55) 6"

definition rx_ready :: "bladerf_loopback \<Rightarrow> (u8 \<Rightarrow> u8) \<Rightarrow> bool" where
  "rx_ready mode r \<longleftrightarrow> bit (r 0x64) 1 \<and>
     (mode \<in> {BLADERF_LB_BB_TXLPF_RXVGA2, BLADERF_LB_BB_TXVGA1_RXVGA2} \<longrightarrow> \<not> lpf_passes r) \<and>
     (mode \<in> {BLADERF_LB_BB_TXLPF_RXLPF, BLADERF_LB_BB_TXVGA1_RXLPF} \<longrightarrow> bit (r 0x7d) 3 \<and> lpf_passes r) \<and>
     (loopback_lna mode \<noteq> LNA_NONE \<longrightarrow> bit (r 0x7d) 0 \<and> bit (r 0x70) 1 \<and> \<not> bit (r 0x7d) 3 \<and> lpf_passes r \<and>
        r 0x25 AND 0x03 = lms_lna_code (loopback_lna mode) \<and>
        drop_bit 4 (r 0x75) AND 0x03 = lms_lna_code (loopback_lna mode) \<and> bit (r 0x0b) 0)"

definition loopback_rx_regs :: "bladerf_loopback \<Rightarrow> u8 set" where
  "loopback_rx_regs mode =
     (if loopback_lna mode \<noteq> LNA_NONE then {0x54, 0x55, 0x64, 0x7d, 0x70, 0x25, 0x75, 0x0b}
      else {0x54, 0x55, 0x64, 0x7d})"

context lms_regs begin

lemma agree_map:
  "agree A r r' \<Longrightarrow> list_all (\<lambda>b. lms_addr b \<and> \<not> lms_volatile b \<and> b \<notin> A) bs \<Longrightarrow> map r' bs = map r bs"
  by (induction bs) (auto simp add: agree_def)

lemma does_lpf_if:
  "does (whenE c (lms_lpf_set_mode dev BLADERF_MODULE_RX BLADERF_LPF_NORMAL)) {0x54, 0x55} (\<lambda>r r'.
     if c then r' 0x54 = r 0x54 OR 0x02 \<and> r' 0x55 = r 0x55 AND NOT 0x40
     else r' 0x54 = r 0x54 \<and> r' 0x55 = r 0x55)"
proof (cases c)
  case True
  then show ?thesis using does_lpf(1) by simp
next
  case False
  then show ?thesis by (auto simp add: does_def changes_def)
qed

lemma does_lpf_vga2:
  "does (seqE (whenE c (lms_lpf_set_mode dev BLADERF_MODULE_RX BLADERF_LPF_NORMAL))
       (lms_rxvga2_enable dev True)) {0x54, 0x55, 0x64}
     (\<lambda>r r'. bit (r' 0x64) 1 \<and> (c \<or> lpf_passes r \<longrightarrow> lpf_passes r'))"
proof (rule does_seq [OF does_lpf_if does_steps(5)], goal_cases)
  case (1 r r' r'')
  then show ?case
    using agree_map [OF 1(3), of "[0x54, 0x55]"]
    by (auto simp add: lpf_passes_def bit_simps split: if_splits)
qed auto

lemma does_vga2_lpf_off:
  "does (seqE (lms_rxvga2_enable dev True) (lms_lpf_set_mode dev BLADERF_MODULE_RX BLADERF_LPF_DISABLED))
     {0x54, 0x55, 0x64} (\<lambda>r r'. bit (r' 0x64) 1 \<and> \<not> lpf_passes r')"
proof (rule does_seq [OF does_steps(5) does_lpf(2)], goal_cases)
  case (1 r r' r'')
  then show ?case
    using agree_map [OF 1(3), of "[0x64]"]
    by (simp add: lpf_passes_def bit_simps)
qed auto

lemma does_rxlpf:
  "does (seqE (lms_rxvga1_enable dev False)
       (seqE (whenE c (lms_lpf_set_mode dev BLADERF_MODULE_RX BLADERF_LPF_NORMAL))
       (lms_rxvga2_enable dev True)))
     {0x54, 0x55, 0x64, 0x7d} (\<lambda>r r'. bit (r' 0x64) 1 \<and> bit (r' 0x7d) 3 \<and> (c \<or> lpf_passes r \<longrightarrow> lpf_passes r'))"
proof (rule does_seq [OF does_steps(4) does_lpf_vga2], goal_cases)
  case (1 r r' r'')
  then show ?case
    using agree_map [OF 1(1), of "[0x54, 0x55]"] agree_map [OF 1(3), of "[0x7d]"]
    by (simp add: lpf_passes_def bit_simps)
qed auto


lemma does_lna_buffer:
  assumes "lna \<noteq> LNA_NONE"
  shows "does (bindE (LMS_READ dev 0x25) (\<lambda>regval.
       seqE (LMS_WRITE dev 0x25 ((regval AND NOT 0x03) OR lms_lna_code lna))
       (seqE (lms_select_lna dev lna) (enable_rf_loopback_switch dev True)))) {0x25, 0x75, 0x0b}
     (\<lambda>r r'. r' 0x25 AND 0x03 = lms_lna_code lna \<and> drop_bit 4 (r' 0x75) AND 0x03 = lms_lna_code lna \<and>
        bit (r' 0x0b) 0)"
proof -
  have f: "((w AND NOT 0x03) OR lms_lna_code lna) AND 0x03 = lms_lna_code lna"
    "drop_bit 4 ((w AND NOT 0x30) OR push_bit 4 (lms_lna_code lna AND 3)) AND 0x03 = lms_lna_code lna"
    for w :: u8
    using assms by (cases lna; simp add: word8_eq_iff bit_simps)+
  have "does (seqE (lms_select_lna dev lna) (enable_rf_loopback_switch dev True)) {0x75, 0x0b}
     (\<lambda>r r'. drop_bit 4 (r' 0x75) AND 0x03 = lms_lna_code lna \<and> bit (r' 0x0b) 0)"
    proof (rule does_seq [OF does_steps(2) does_steps(7)], goal_cases)
      case (1 r r' r'')
      then show ?case
        using agree_map [OF 1(3), of "[0x75]"]
        by (simp add: bit_simps f(2) [simplified])
    qed auto
  note rest = this
  have "does (seqE (bindE (LMS_READ dev 0x25) (\<lambda>regval. LMS_WRITE dev 0x25 ((regval AND NOT 0x03) OR lms_lna_code lna)))
      (seqE (lms_select_lna dev lna) (enable_rf_loopback_switch dev True))) {0x25, 0x75, 0x0b}
     (\<lambda>r r'. r' 0x25 AND 0x03 = lms_lna_code lna \<and> drop_bit 4 (r' 0x75) AND 0x03 = lms_lna_code lna \<and>
        bit (r' 0x0b) 0)"
    proof (rule does_seq [OF does_pll_buffer [of "lms_lna_code lna"] rest], goal_cases)
      case (1 r r' r'')
      then show ?case
        using agree_map [OF 1(3), of "[0x25]"]
        by (simp add: f(1) [simplified])
    qed auto
  then show ?thesis by (simp only: bindE_assoc)
qed

lemma does_rx_power:
  "does (seqE (enable_lna_power dev False)
       (seqE (lms_rxvga1_enable dev True)
       (seqE (whenE c (lms_lpf_set_mode dev BLADERF_MODULE_RX BLADERF_LPF_NORMAL))
       (lms_rxvga2_enable dev True))))
     {0x54, 0x55, 0x64, 0x7d, 0x70} (\<lambda>r r'. bit (r' 0x64) 1 \<and> bit (r' 0x7d) 0 \<and> bit (r' 0x70) 1 \<and>
       \<not> bit (r' 0x7d) 3 \<and> (c \<or> lpf_passes r \<longrightarrow> lpf_passes r'))"
proof -
  have "does (seqE (lms_rxvga1_enable dev True)
       (seqE (whenE c (lms_lpf_set_mode dev BLADERF_MODULE_RX BLADERF_LPF_NORMAL))
       (lms_rxvga2_enable dev True))) {0x54, 0x55, 0x64, 0x7d}
     (\<lambda>r r'. bit (r' 0x64) 1 \<and> bit (r' 0x7d) 0 = bit (r 0x7d) 0 \<and> \<not> bit (r' 0x7d) 3 \<and> (c \<or> lpf_passes r \<longrightarrow> lpf_passes r'))"
    proof (rule does_seq [OF does_steps(4) does_lpf_vga2], goal_cases)
      case (1 r r' r'')
      then show ?case
        using agree_map [OF 1(1), of "[0x54, 0x55]"] agree_map [OF 1(3), of "[0x7d]"]
        by (simp add: lpf_passes_def bit_simps)
    qed auto
  note rest = this
  show ?thesis
    proof (rule does_seq [OF does_steps(6) rest], goal_cases)
      case (1 r r' r'')
      then show ?case
        using agree_map [OF 1(1), of "[0x54, 0x55]"] agree_map [OF 1(3), of "[0x70]"]
        by (simp add: lpf_passes_def bit_simps)
    qed auto
qed

lemma does_loopback_rx_rf:
  assumes "lna \<noteq> LNA_NONE"
  shows "does (loopback_rx_rf dev lna lpf_mode) {0x54, 0x55, 0x64, 0x7d, 0x70, 0x25, 0x75, 0x0b}
     (\<lambda>r r'. bit (r' 0x64) 1 \<and> bit (r' 0x7d) 0 \<and> bit (r' 0x70) 1 \<and> \<not> bit (r' 0x7d) 3 \<and>
        (lpf_mode = BLADERF_LPF_DISABLED \<or> lpf_passes r \<longrightarrow> lpf_passes r') \<and>
        r' 0x25 AND 0x03 = lms_lna_code lna \<and> drop_bit 4 (r' 0x75) AND 0x03 = lms_lna_code lna \<and> bit (r' 0x0b) 0)"
proof -
  have "does (seqE (seqE (enable_lna_power dev False)
       (seqE (lms_rxvga1_enable dev True)
       (seqE (whenE (lpf_mode = BLADERF_LPF_DISABLED) (lms_lpf_set_mode dev BLADERF_MODULE_RX BLADERF_LPF_NORMAL))
       (lms_rxvga2_enable dev True)))) (bindE (LMS_READ dev 0x25) (\<lambda>regval.
       seqE (LMS_WRITE dev 0x25 ((regval AND NOT 0x03) OR lms_lna_code lna))
       (seqE (lms_select_lna dev lna) (enable_rf_loopback_switch dev True)))))
    {0x54, 0x55, 0x64, 0x7d, 0x70, 0x25, 0x75, 0x0b}
     (\<lambda>r r'. bit (r' 0x64) 1 \<and> bit (r' 0x7d) 0 \<and> bit (r' 0x70) 1 \<and> \<not> bit (r' 0x7d) 3 \<and>
        (lpf_mode = BLADERF_LPF_DISABLED \<or> lpf_passes r \<longrightarrow> lpf_passes r') \<and>
        r' 0x25 AND 0x03 = lms_lna_code lna \<and> drop_bit 4 (r' 0x75) AND 0x03 = lms_lna_code lna \<and> bit (r' 0x0b) 0)"
  proof (rule does_seq [OF does_rx_power does_lna_buffer [OF assms]], goal_cases)
    case (1 r r' r'')
    then show ?case
      using agree_map [OF 1(3), of "[0x54, 0x55, 0x64, 0x7d, 0x70]"] by (simp add: lpf_passes_def)
  qed auto
  then show ?thesis by (simp only: loopback_rx_rf_def bindE_assoc)
qed

lemma loopback_rx_runs:
  assumes "ok s" "mode \<noteq> BLADERF_LB_FIRMWARE" "mode \<noteq> BLADERF_LB_NONE"
    and "\<not> (bit (reg s 0x54) 1 \<and> bit (reg s 0x55) 6)"
  shows "\<exists>t. loopback_rx dev mode s = (Inr (), t) \<and> changes (loopback_rx_regs mode) s t \<and> rx_ready mode (reg t)"
proof -
  let ?m = "if bit (reg s 0x54) 1 then BLADERF_LPF_NORMAL else if bit (reg s 0x55) 6 then BLADERF_LPF_BYPASSED
    else BLADERF_LPF_DISABLED"
  obtain s1 where s1: "lms_lpf_get_mode dev BLADERF_MODULE_RX s = (Inr ?m, s1)" "changes {} s s1"
    using lms_lpf_get_mode_runs [OF assms(1), of BLADERF_MODULE_RX] assms(4) by (auto simp add: Let_def)
  have lpf: "?m = BLADERF_LPF_DISABLED \<or> lpf_passes (reg s1)"
    using changes_reg [OF s1(2), of "0x54"] changes_reg [OF s1(2), of "0x55"] by (simp add: lpf_passes_def)
  note ok1 = changes_ok [OF s1(2)]
  have fin: "\<exists>t. loopback_rx dev mode s = (Inr (), t) \<and> changes (loopback_rx_regs mode) s t \<and> rx_ready mode (reg t)"
    if d: "does k A P" "A \<subseteq> loopback_rx_regs mode" "\<And>r. P (reg s1) r \<Longrightarrow> rx_ready mode r"
      "loopback_rx dev mode s = k s1" for k A P
  proof -
    obtain t where t: "k s1 = (Inr (), t)" "changes A s1 t" "P (reg s1) (reg t)"
      by (rule doesE [OF d(1) ok1])
    have "changes (loopback_rx_regs mode) s t"
      using changes_trans [OF s1(2) t(2)] d(2) by (auto intro: changes_mono)
    then show ?thesis using t(1,3) d(3,4) by auto
  qed
  note run = bindE_Inr [where m = "lms_lpf_get_mode dev BLADERF_MODULE_RX" and s = s, OF s1(1)]
  consider "mode = BLADERF_LB_BB_TXLPF_RXVGA2 \<or> mode = BLADERF_LB_BB_TXVGA1_RXVGA2"
    | "mode = BLADERF_LB_BB_TXLPF_RXLPF \<or> mode = BLADERF_LB_BB_TXVGA1_RXLPF"
    | "loopback_lna mode \<noteq> LNA_NONE"
    using assms(2,3) by (cases mode) simp_all
  then show ?thesis
  proof cases
    case 1
    have "loopback_lna mode = LNA_NONE" using 1 by auto
    then show ?thesis using 1
      by (intro fin [OF does_vga2_lpf_off]) (auto simp add: loopback_rx_regs_def rx_ready_def loopback_rx_def run)
  next
    case 2
    have "loopback_lna mode = LNA_NONE" using 2 by auto
    then show ?thesis using 2 lpf
      by (intro fin [OF does_rxlpf [of "?m = BLADERF_LPF_DISABLED"]])
        (auto simp add: loopback_rx_regs_def rx_ready_def loopback_rx_def run)
  next
    case 3
    have n: "mode \<noteq> BLADERF_LB_BB_TXLPF_RXVGA2 \<and> mode \<noteq> BLADERF_LB_BB_TXVGA1_RXVGA2 \<and>
      mode \<noteq> BLADERF_LB_BB_TXLPF_RXLPF \<and> mode \<noteq> BLADERF_LB_BB_TXVGA1_RXLPF \<and>
      (mode = BLADERF_LB_RF_LNA1 \<or> mode = BLADERF_LB_RF_LNA2 \<or> mode = BLADERF_LB_RF_LNA3)"
      using 3 by (cases mode) simp_all
    have "loopback_rx dev mode s = loopback_rx_rf dev (loopback_lna mode) ?m s1"
      unfolding loopback_rx_def run
      using n by (simp split del: if_split cong: if_cong)
    then show ?thesis using 3 lpf n
      by (intro fin [OF does_loopback_rx_rf [OF 3]]) (auto simp add: loopback_rx_regs_def rx_ready_def)
  qed
qed

end

definition amps_off :: "(u8 \<Rightarrow> u8) \<Rightarrow> bool" where
  "amps_off r \<longleftrightarrow> r 0x44 AND 0x1e = 0x02 \<and> drop_bit 4 (r 0x75) AND 0x03 = 0"

text \<open>The state of the TX side and of the amplifiers that the modes need.\<close>

definition amps_ready :: "bladerf_loopback \<Rightarrow> (u8 \<Rightarrow> u8) \<Rightarrow> bool" where
  "amps_ready mode r \<longleftrightarrow>
     (if loopback_lna mode = LNA_NONE then amps_off r else r 0x44 AND 0x1e = 0)"

context lms_regs begin

text \<open>The first three steps: everything off, nothing connected.\<close>

lemma does_disconnect:
  "does (seqE (lms_select_pa dev PA_NONE) (seqE (lms_select_lna dev LNA_NONE) (loopback_path dev BLADERF_LB_NONE)))
     {0x44, 0x75, 0x46, 0x08}
     (\<lambda>r r'. amps_off r' \<and> loopback_of_regs (r' 0x08) (r' 0x46) = BLADERF_LB_NONE)"
proof -
  have f: "((w AND NOT 0x1c) OR 0x02) AND 0x1e = 0x02" "drop_bit 4 ((w AND NOT 0x30) OR 0) AND 0x03 = 0" for w :: u8
    by (simp_all add: word8_eq_iff bit_simps)
  have lna: "does (seqE (lms_select_lna dev LNA_NONE) (loopback_path dev BLADERF_LB_NONE)) {0x75, 0x46, 0x08}
      (\<lambda>r r'. drop_bit 4 (r' 0x75) AND 0x03 = 0 \<and> loopback_of_regs (r' 0x08) (r' 0x46) = BLADERF_LB_NONE)"
  proof (rule does_seq [OF does_steps(2) does_steps(3)], goal_cases)
    case (2 r r' r'')
    then show ?case
      using agree_map [OF 2(3), of "[0x75]"] f(2) [of "r 0x75"] by simp
  qed auto
  show ?thesis
  proof (rule does_seq [OF does_steps(1) lna], goal_cases)
    case (1 r r' r'')
    then show ?case
      using agree_map [OF 1(3), of "[0x44]"] f(1) [of "r 0x44"] by (simp add: amps_off_def)
  qed auto
qed

lemma does_pa_aux: "does (lms_select_pa dev PA_AUX) {0x44} (\<lambda>r r'. r' 0x44 AND 0x1e = 0)"
proof -
  have "(((w AND NOT 0x1c) OR 0x02) AND NOT 0x02) AND 0x1e = 0" for w :: u8
    by (simp add: word8_eq_iff bit_simps)
  then show ?thesis by (intro does_mono [OF does_steps(1)]) (simp_all add: Let_def)
qed

text \<open>The configuration of the TX side and the path, from a state in which RX is ready.\<close>

lemma loopback_tx_path_runs:
  assumes "ok s" "mode \<noteq> BLADERF_LB_FIRMWARE" "mode \<noteq> BLADERF_LB_NONE"
  shows "\<exists>t. seqE (loopback_tx dev mode) (loopback_path dev mode) s = (Inr (), t) \<and>
    changes (if loopback_lna mode = LNA_NONE then {0x46, 0x08} else {0x44, 0x46, 0x08}) s t \<and>
    loopback_of_regs (reg t 0x08) (reg t 0x46) = mode \<and>
    (loopback_lna mode \<noteq> LNA_NONE \<longrightarrow> reg t 0x44 AND 0x1e = 0)"
proof (cases "loopback_lna mode = LNA_NONE")
  case True
  have "loopback_tx dev mode = returnE ()"
    using True assms(2,3) by (cases mode) (simp_all add: loopback_tx_def)
  then have e: "seqE (loopback_tx dev mode) (loopback_path dev mode) = loopback_path dev mode" by simp
  show ?thesis unfolding e using True by (auto intro: doesE [OF does_steps(3) [OF assms(2)] assms(1)])
next
  case False
  have t: "loopback_tx dev mode = lms_select_pa dev PA_AUX"
    using False by (cases mode) (simp_all add: loopback_tx_def)
  have "does (seqE (lms_select_pa dev PA_AUX) (loopback_path dev mode)) {0x44, 0x46, 0x08}
    (\<lambda>r r'. loopback_of_regs (r' 0x08) (r' 0x46) = mode \<and> r' 0x44 AND 0x1e = 0)"
  proof (rule does_seq [OF does_pa_aux does_steps(3) [OF assms(2)]], goal_cases)
    case (1 r r' r'')
    then show ?case using agree_map [OF 1(3), of "[0x44]"] by simp
  qed auto
  then show ?thesis unfolding t using False by (auto intro: doesE [OF _ assms(1)])
qed

lemma lms_set_loopback_mode_runs:
  assumes "ok s" "mode \<noteq> BLADERF_LB_FIRMWARE" "mode \<noteq> BLADERF_LB_NONE"
    and "\<not> (bit (reg s 0x54) 1 \<and> bit (reg s 0x55) 6)"
  shows "\<exists>t. lms_set_loopback_mode dev mode s = (Inr (), t) \<and>
    changes ({0x44, 0x75, 0x46, 0x08} \<union> loopback_rx_regs mode) s t \<and>
    loopback_of_regs (reg t 0x08) (reg t 0x46) = mode \<and> rx_ready mode (reg t) \<and> amps_ready mode (reg t)"
proof -
  obtain s1 where s1: "seqE (lms_select_pa dev PA_NONE) (seqE (lms_select_lna dev LNA_NONE) (loopback_path dev BLADERF_LB_NONE)) s
      = (Inr (), s1)" "changes {0x44, 0x75, 0x46, 0x08} s s1" "amps_off (reg s1)"
    by (rule doesE [OF does_disconnect assms(1)]) blast
  have "\<not> (bit (reg s1 0x54) 1 \<and> bit (reg s1 0x55) 6)"
    using assms(4) agree_map [OF changes_agree [OF s1(2)], of "[0x54, 0x55]"] by simp
  then obtain s2 where s2: "loopback_rx dev mode s1 = (Inr (), s2)" "changes (loopback_rx_regs mode) s1 s2"
      "rx_ready mode (reg s2)"
    using loopback_rx_runs [OF changes_ok [OF s1(2)] assms(2,3)] by blast
  obtain t where t: "seqE (loopback_tx dev mode) (loopback_path dev mode) s2 = (Inr (), t)"
    "changes (if loopback_lna mode = LNA_NONE then {0x46, 0x08} else {0x44, 0x46, 0x08}) s2 t"
    "loopback_of_regs (reg t 0x08) (reg t 0x46) = mode" "loopback_lna mode \<noteq> LNA_NONE \<longrightarrow> reg t 0x44 AND 0x1e = 0"
    using loopback_tx_path_runs [OF changes_ok [OF s2(2)] assms(2,3)] by blast
  have c: "changes {0x44, 0x46, 0x08} s2 t"
    by (rule changes_mono [OF t(2)]) auto
  have "lms_set_loopback_mode dev mode s =
      seqE (seqE (lms_select_pa dev PA_NONE) (seqE (lms_select_lna dev LNA_NONE) (loopback_path dev BLADERF_LB_NONE)))
      (seqE (loopback_rx dev mode) (seqE (loopback_tx dev mode) (loopback_path dev mode))) s"
    using assms(2) by (simp add: lms_set_loopback_mode_def bindE_assoc)
  also have "\<dots> = (Inr (), t)"
    using s1(1) s2(1) t(1) by (simp add: bindE_def)
  finally have "lms_set_loopback_mode dev mode s = (Inr (), t)" .
  moreover have "changes ({0x44, 0x75, 0x46, 0x08} \<union> loopback_rx_regs mode) s t"
    using changes_trans [OF changes_trans [OF s1(2) s2(2)] c] by (rule changes_mono) auto
  moreover have "rx_ready mode (reg t)"
    using s2(3) agree_map [OF changes_agree [OF c], of "[0x54, 0x55, 0x64, 0x7d, 0x70, 0x25, 0x75, 0x0b]"]
    by (simp add: rx_ready_def lpf_passes_def)
  moreover have "amps_ready mode (reg t)"
  proof (cases "loopback_lna mode = LNA_NONE")
    case True
    have "reg t 0x44 = reg s1 0x44" "reg t 0x75 = reg s1 0x75"
      using True agree_map [OF changes_agree [OF t(2)], of "[0x44, 0x75]"]
        agree_map [OF changes_agree [OF s2(2)], of "[0x44, 0x75]"] by (simp_all add: loopback_rx_regs_def)
    then show ?thesis using s1(3) True by (simp add: amps_ready_def amps_off_def)
  next
    case False
    then show ?thesis using t(4) by (simp add: amps_ready_def)
  qed
  ultimately show ?thesis using t(3) by blast
qed

end

section \<open>Leaving loopback\<close>

text \<open>The frequency that the registers of a PLL stand for, as lms_get_frequency reads it.\<close>

definition pll_freq :: "u8 \<Rightarrow> (u8 \<Rightarrow> u8) \<Rightarrow> lms_freq" where
  "pll_freq base r = lms_freq_uninit\<lparr>
     lf_nint := push_bit 1 (ucast (r base)) OR ucast (drop_bit 7 (r (base + 1) AND 0x80)),
     lf_nfrac := push_bit 16 (ucast (r (base + 1)) AND 0x7f) OR push_bit 8 (ucast (r (base + 2)))
       OR ucast (r (base + 3)),
     lf_freqsel := drop_bit 2 (r (base + 5)),
     lf_x := push_bit (unat (drop_bit 2 (r (base + 5)) AND 7) - 3) 1,
     lf_vcocap := r (base + 9) AND 0x3f \<rparr>"

abbreviation pll_low_band :: "u8 \<Rightarrow> (u8 \<Rightarrow> u8) \<Rightarrow> bool" where
  "pll_low_band base r \<equiv> lms_frequency_to_hz (pll_freq base r) < BLADERF_BAND_HIGH"

definition band_of :: "bladerf_module \<Rightarrow> bool \<Rightarrow> (u8 \<Rightarrow> u8) \<Rightarrow> bool" where
  "band_of m low r \<longleftrightarrow>
     (if m = BLADERF_MODULE_TX then r 0x44 AND 0x1e = (if low then 0x0a else 0x12)
      else lms_lna_of (drop_bit 4 (r 0x75) AND 3) = (if low then LNA_1 else LNA_2))"

definition retune_regs :: "bladerf_module \<Rightarrow> u8 set" where
  "retune_regs m = {0x09, if m = BLADERF_MODULE_TX then 0x44 else 0x75} \<union> pll_regs (pll_base m)"

text \<open>The RX chain as it has to be for reception.\<close>

definition rx_restored :: "(u8 \<Rightarrow> u8) \<Rightarrow> bool" where
  "rx_restored r \<longleftrightarrow> bit (r 0x64) 1 \<and> \<not> bit (r 0x7d) 3 \<and> \<not> bit (r 0x7d) 0 \<and> \<not> bit (r 0x70) 1 \<and>
     lpf_passes r \<and> \<not> bit (r 0x0b) 0"

context lms_pll begin

lemma pll_freq_cong:
  assumes "agree A r r'" "A \<inter> pll_regs (pll_base m) = {}"
  shows "pll_freq (pll_base m) r' = pll_freq (pll_base m) r"
proof -
  have "r' b = r b" if "b \<in> pll_regs (pll_base m)" for b
    using that assms pll_base_cases [of m] by (intro agreeD [OF assms(1)]) (auto simp add: pll_regs_def)
  then show ?thesis by (simp add: pll_freq_def pll_regs_def)
qed

lemma lms_set_frequency_runs:
  assumes "ok s" "m \<noteq> BLADERF_MODULE_INVALID"
  shows "\<exists>r t. lms_set_frequency dev m freq s = (r, t) \<and> (r = Inr () \<or> r = Inl BLADERF_ERR_UNEXPECTED) \<and>
    changes (insert 0x09 (pll_regs (pll_base m))) s t"
proof -
  obtain b g k where g: "lms_calculate_tuning_params freq lms_freq_uninit = (0, g)" "lf_vcocap g \<le> 0x3f"
    by (rule tuning_params_runs_vcocap)
  obtain status r t where t: "lms_set_precalculated_frequency dev m g s = (Inr (status, g\<lparr>lf_vcocap_result := r\<rparr>), t)"
    "changes (insert 0x09 (pll_regs (pll_base m))) s t" "status = 0 \<or> status = BLADERF_ERR_UNEXPECTED"
    using lms_set_precalculated_frequency_runs [OF assms g(2)] by blast
  show ?thesis
    using t g(1) by (auto simp add: lms_set_frequency_def bindE_def)
qed

text \<open>Reading a frequency, tuning to it again and selecting its band.\<close>

lemma retune_runs:
  assumes "ok s" "m \<noteq> BLADERF_MODULE_INVALID" "loopback_of_regs (reg s 0x08) (reg s 0x46) = BLADERF_LB_NONE"
  shows "\<exists>r t. bindE (lms_get_frequency dev m lms_freq_uninit) (\<lambda>f.
      seqE (lms_set_frequency dev m (lms_frequency_to_hz f))
      (lms_select_band dev m (lms_frequency_to_hz f < BLADERF_BAND_HIGH))) s = (r, t) \<and>
    (r = Inr () \<or> r = Inl BLADERF_ERR_UNEXPECTED) \<and> changes (retune_regs m) s t \<and>
    (r = Inr () \<longrightarrow> band_of m (pll_low_band (pll_base m) (reg s)) (reg t))"
proof -
  obtain s1 where s1: "lms_get_frequency dev m lms_freq_uninit s = (Inr (pll_freq (pll_base m) (reg s)), s1)"
      "changes {} s s1"
    using lms_get_frequency_runs [OF assms(1) refl, of m lms_freq_uninit] unfolding pll_freq_def by blast
  let ?hz = "lms_frequency_to_hz (pll_freq (pll_base m) (reg s))"
  obtain r2 s2 where s2: "lms_set_frequency dev m ?hz s1 = (r2, s2)" "r2 = Inr () \<or> r2 = Inl BLADERF_ERR_UNEXPECTED"
      "changes (insert 0x09 (pll_regs (pll_base m))) s1 s2"
    using lms_set_frequency_runs [OF changes_ok [OF s1(2)] assms(2), of ?hz] by blast
  have c: "changes (insert 0x09 (pll_regs (pll_base m))) s s2"
    using changes_trans [OF s1(2) s2(3)] by simp
  have "{0x08, 0x46} \<inter> insert 0x09 (pll_regs (pll_base m)) = {}"
    using pll_base_cases [of m] by (auto simp add: pll_regs_def)
  then have lb: "loopback_of_regs (reg s2 0x08) (reg s2 0x46) = BLADERF_LB_NONE"
    using assms(3) agree_map [OF changes_agree [OF c], of "[0x08, 0x46]"] by simp
  obtain t where t: "lms_select_band dev m (?hz < BLADERF_BAND_HIGH) s2 = (Inr (), t)"
    "changes {if m = BLADERF_MODULE_TX then 0x44 else 0x75} s2 t"
    "band_of m (?hz < BLADERF_BAND_HIGH) (reg t)"
    using lms_select_band_runs [OF changes_ok [OF s2(3)], of m "?hz < BLADERF_BAND_HIGH"] lb
    unfolding band_of_def by (cases "m = BLADERF_MODULE_TX") auto
  have c2: "changes (retune_regs m) s t" "changes (retune_regs m) s s2"
    using changes_trans [OF c t(2)] c by (auto simp add: retune_regs_def intro: changes_mono)
  show ?thesis
  proof (cases r2)
    case (Inl e)
    then show ?thesis using s1(1) s2(1,2) c2(2) by (simp add: bindE_def)
  next
    case (Inr x)
    then show ?thesis using s1(1) s2(1) t(1,3) c2(1) by (simp add: bindE_def)
  qed
qed

lemma does_rx_restore:
  "does (seqE (lms_rxvga1_enable dev True)
     (seqE (whenE c (lms_lpf_set_mode dev BLADERF_MODULE_RX BLADERF_LPF_NORMAL))
     (seqE (lms_rxvga2_enable dev True)
     (seqE (enable_rf_loopback_switch dev False) (enable_lna_power dev True)))))
   {0x54, 0x55, 0x64, 0x7d, 0x70, 0x0b} (\<lambda>r r'. c \<or> lpf_passes r \<longrightarrow> rx_restored r')"
proof -
  have sw: "does (seqE (enable_rf_loopback_switch dev False) (enable_lna_power dev True)) {0x7d, 0x70, 0x0b}
      (\<lambda>r r'. \<not> bit (r' 0x0b) 0 \<and> \<not> bit (r' 0x7d) 0 \<and> bit (r' 0x7d) 3 = bit (r 0x7d) 3 \<and> \<not> bit (r' 0x70) 1)"
  proof (rule does_seq [OF does_steps(7) does_steps(6)], goal_cases)
    case (1 r r' r'')
    then show ?case
      using agree_map [OF 1(3), of "[0x0b]"] agree_map [OF 1(1), of "[0x7d, 0x70]"] by (simp add: bit_simps)
  qed auto
  have lpf: "does (seqE (seqE (whenE c (lms_lpf_set_mode dev BLADERF_MODULE_RX BLADERF_LPF_NORMAL)) (lms_rxvga2_enable dev True))
      (seqE (enable_rf_loopback_switch dev False) (enable_lna_power dev True))) {0x54, 0x55, 0x64, 0x7d, 0x70, 0x0b}
      (\<lambda>r r'. \<not> bit (r' 0x0b) 0 \<and> \<not> bit (r' 0x7d) 0 \<and> bit (r' 0x7d) 3 = bit (r 0x7d) 3 \<and> \<not> bit (r' 0x70) 1 \<and>
        bit (r' 0x64) 1 \<and> (c \<or> lpf_passes r \<longrightarrow> lpf_passes r'))"
  proof (rule does_seq [OF does_lpf_vga2 sw], goal_cases)
    case (1 r r' r'')
    then show ?case
      using agree_map [OF 1(3), of "[0x54, 0x55, 0x64]"] agree_map [OF 1(1), of "[0x7d]"] by (simp add: lpf_passes_def)
  qed auto
  have "does (seqE (lms_rxvga1_enable dev True) (seqE (seqE (whenE c (lms_lpf_set_mode dev BLADERF_MODULE_RX BLADERF_LPF_NORMAL)) (lms_rxvga2_enable dev True))
      (seqE (enable_rf_loopback_switch dev False) (enable_lna_power dev True)))) {0x54, 0x55, 0x64, 0x7d, 0x70, 0x0b}
      (\<lambda>r r'. c \<or> lpf_passes r \<longrightarrow> rx_restored r')"
  proof (rule does_seq [OF does_steps(4) lpf], goal_cases)
    case (1 r r' r'')
    then show ?case
      using agree_map [OF 1(1), of "[0x54, 0x55]"] by (simp add: rx_restored_def lpf_passes_def bit_simps)
  qed auto
  then show ?thesis by (simp only: bindE_assoc)
qed

end

definition leave_regs :: "u8 set" where
  "leave_regs = {0x44, 0x75, 0x46, 0x08, 0x54, 0x55, 0x64, 0x7d, 0x70, 0x0b, 0x09} \<union> pll_regs 0x20 \<union> pll_regs 0x10"

lemma leave_regs_intro:
  "{0x44, 0x75, 0x46, 0x08} \<subseteq> leave_regs" "{0x54, 0x55, 0x64, 0x7d, 0x70, 0x0b} \<subseteq> leave_regs"
  "retune_regs m \<subseteq> leave_regs" "{0x46, 0x08} \<subseteq> leave_regs"
  by (auto simp add: leave_regs_def retune_regs_def pll_base_def)

context lms_pll begin

lemma loopback_rx_none_runs:
  assumes "ok s" "\<not> (bit (reg s 0x54) 1 \<and> bit (reg s 0x55) 6)"
    "loopback_of_regs (reg s 0x08) (reg s 0x46) = BLADERF_LB_NONE"
  shows "\<exists>r t. loopback_rx dev BLADERF_LB_NONE s = (r, t) \<and> (r = Inr () \<or> r = Inl BLADERF_ERR_UNEXPECTED) \<and>
    changes ({0x54, 0x55, 0x64, 0x7d, 0x70, 0x0b} \<union> retune_regs BLADERF_MODULE_RX) s t \<and> rx_restored (reg t) \<and>
    (r = Inr () \<longrightarrow> band_of BLADERF_MODULE_RX (pll_low_band 0x20 (reg s)) (reg t))"
proof -
  let ?m = "if bit (reg s 0x54) 1 then BLADERF_LPF_NORMAL else if bit (reg s 0x55) 6 then BLADERF_LPF_BYPASSED
    else BLADERF_LPF_DISABLED"
  obtain s1 where s1: "lms_lpf_get_mode dev BLADERF_MODULE_RX s = (Inr ?m, s1)" "changes {} s s1"
    using lms_lpf_get_mode_runs [OF assms(1), of BLADERF_MODULE_RX] assms(2) by (auto simp add: Let_def)
  have lpf: "?m = BLADERF_LPF_DISABLED \<or> lpf_passes (reg s1)"
    using agree_map [OF changes_agree [OF s1(2)], of "[0x54, 0x55]"] by (simp add: lpf_passes_def)
  obtain s2 where s2: "seqE (lms_rxvga1_enable dev True)
     (seqE (whenE (?m = BLADERF_LPF_DISABLED) (lms_lpf_set_mode dev BLADERF_MODULE_RX BLADERF_LPF_NORMAL))
     (seqE (lms_rxvga2_enable dev True)
     (seqE (enable_rf_loopback_switch dev False) (enable_lna_power dev True)))) s1 = (Inr (), s2)"
     "changes {0x54, 0x55, 0x64, 0x7d, 0x70, 0x0b} s1 s2" "rx_restored (reg s2)"
    by (rule doesE [OF does_rx_restore [of "?m = BLADERF_LPF_DISABLED"] changes_ok [OF s1(2)]]) (use lpf in blast)
  have c: "changes {0x54, 0x55, 0x64, 0x7d, 0x70, 0x0b} s s2"
    using changes_trans [OF s1(2) s2(2)] by simp
  have lb: "loopback_of_regs (reg s2 0x08) (reg s2 0x46) = BLADERF_LB_NONE"
    using assms(3) agree_map [OF changes_agree [OF c], of "[0x08, 0x46]"] by simp
  have low: "pll_freq (pll_base BLADERF_MODULE_RX) (reg s2) = pll_freq (pll_base BLADERF_MODULE_RX) (reg s)"
    by (rule pll_freq_cong [OF changes_agree [OF c]]) (simp add: pll_regs_def pll_base_def)
  obtain r t where t: "bindE (lms_get_frequency dev BLADERF_MODULE_RX lms_freq_uninit) (\<lambda>f.
      seqE (lms_set_frequency dev BLADERF_MODULE_RX (lms_frequency_to_hz f))
      (lms_select_band dev BLADERF_MODULE_RX (lms_frequency_to_hz f < BLADERF_BAND_HIGH))) s2 = (r, t)"
    "r = Inr () \<or> r = Inl BLADERF_ERR_UNEXPECTED" "changes (retune_regs BLADERF_MODULE_RX) s2 t"
    "r = Inr () \<longrightarrow> band_of BLADERF_MODULE_RX (pll_low_band (pll_base BLADERF_MODULE_RX) (reg s2)) (reg t)"
    using retune_runs [OF changes_ok [OF s2(2)] _ lb, of BLADERF_MODULE_RX] by blast
  have "loopback_rx dev BLADERF_LB_NONE s =
    seqE (seqE (lms_rxvga1_enable dev True)
     (seqE (whenE (?m = BLADERF_LPF_DISABLED) (lms_lpf_set_mode dev BLADERF_MODULE_RX BLADERF_LPF_NORMAL))
     (seqE (lms_rxvga2_enable dev True)
     (seqE (enable_rf_loopback_switch dev False) (enable_lna_power dev True)))))
     (bindE (lms_get_frequency dev BLADERF_MODULE_RX lms_freq_uninit) (\<lambda>f.
      seqE (lms_set_frequency dev BLADERF_MODULE_RX (lms_frequency_to_hz f))
      (lms_select_band dev BLADERF_MODULE_RX (lms_frequency_to_hz f < BLADERF_BAND_HIGH)))) s1"
    unfolding loopback_rx_def bindE_Inr [where m = "lms_lpf_get_mode dev BLADERF_MODULE_RX" and s = s, OF s1(1)]
    by (simp add: loopback_rx_none_def bindE_assoc split del: if_split cong: if_cong)
  also have "\<dots> = (r, t)" using s2(1) t(1) by (simp add: bindE_Inr split del: if_split)
  finally have "loopback_rx dev BLADERF_LB_NONE s = (r, t)" .
  moreover have "rx_restored (reg t)"
    using s2(3) agree_map [OF changes_agree [OF t(3)], of "[0x54, 0x55, 0x64, 0x7d, 0x70, 0x0b]"]
    by (simp add: rx_restored_def lpf_passes_def retune_regs_def pll_regs_def pll_base_def)
  moreover have "band_of BLADERF_MODULE_RX (pll_low_band 0x20 (reg s)) (reg t)" if "r = Inr ()"
    using t(4) that low by (simp add: pll_base_def)
  ultimately show ?thesis using t(2) changes_trans [OF c t(3)] by blast
qed

lemma lms_leave_loopback_runs:
  assumes "ok s" "\<not> (bit (reg s 0x54) 1 \<and> bit (reg s 0x55) 6)"
  shows "\<exists>r t. lms_set_loopback_mode dev BLADERF_LB_NONE s = (r, t) \<and>
    (r = Inr () \<or> r = Inl BLADERF_ERR_UNEXPECTED) \<and> changes leave_regs s t \<and>
    loopback_of_regs (reg t 0x08) (reg t 0x46) = BLADERF_LB_NONE \<and> rx_restored (reg t) \<and>
    (r = Inr () \<longrightarrow> band_of BLADERF_MODULE_RX (pll_low_band 0x20 (reg s)) (reg t) \<and>
       band_of BLADERF_MODULE_TX (pll_low_band 0x10 (reg s)) (reg t))"
proof -
  let ?off = "seqE (lms_select_pa dev PA_NONE) (seqE (lms_select_lna dev LNA_NONE) (loopback_path dev BLADERF_LB_NONE))"
  obtain s1 where s1: "?off s = (Inr (), s1)" "changes {0x44, 0x75, 0x46, 0x08} s s1"
      "loopback_of_regs (reg s1 0x08) (reg s1 0x46) = BLADERF_LB_NONE"
    by (rule doesE [OF does_disconnect assms(1)]) blast
  have f1: "pll_freq (pll_base m) (reg s1) = pll_freq (pll_base m) (reg s)" for m
    by (rule pll_freq_cong [OF changes_agree [OF s1(2)]]) (auto simp add: pll_regs_def pll_base_def)
  have "\<not> (bit (reg s1 0x54) 1 \<and> bit (reg s1 0x55) 6)"
    using assms(2) agree_map [OF changes_agree [OF s1(2)], of "[0x54, 0x55]"] by simp
  then obtain r2 s2 where s2: "loopback_rx dev BLADERF_LB_NONE s1 = (r2, s2)"
      "r2 = Inr () \<or> r2 = Inl BLADERF_ERR_UNEXPECTED"
      "changes ({0x54, 0x55, 0x64, 0x7d, 0x70, 0x0b} \<union> retune_regs BLADERF_MODULE_RX) s1 s2" "rx_restored (reg s2)"
      "r2 = Inr () \<longrightarrow> band_of BLADERF_MODULE_RX (pll_low_band 0x20 (reg s1)) (reg s2)"
    using loopback_rx_none_runs [OF changes_ok [OF s1(2)] _ s1(3)] by blast
  have lb2: "loopback_of_regs (reg s2 0x08) (reg s2 0x46) = BLADERF_LB_NONE"
    using s1(3) agree_map [OF changes_agree [OF s2(3)], of "[0x08, 0x46]"]
    by (simp add: retune_regs_def pll_regs_def pll_base_def)
  have f2: "pll_freq (pll_base BLADERF_MODULE_TX) (reg s2) = pll_freq (pll_base BLADERF_MODULE_TX) (reg s1)"
    by (rule pll_freq_cong [OF changes_agree [OF s2(3)]]) (simp add: retune_regs_def pll_regs_def pll_base_def)
  obtain r3 s3 where s3: "loopback_tx dev BLADERF_LB_NONE s2 = (r3, s3)" "r3 = Inr () \<or> r3 = Inl BLADERF_ERR_UNEXPECTED"
      "changes (retune_regs BLADERF_MODULE_TX) s2 s3"
      "r3 = Inr () \<longrightarrow> band_of BLADERF_MODULE_TX (pll_low_band 0x10 (reg s)) (reg s3)"
    using retune_runs [OF changes_ok [OF s2(3)] _ lb2, of BLADERF_MODULE_TX] f2 f1 [of BLADERF_MODULE_TX]
    unfolding loopback_tx_def pll_base_def by auto
  have lb3: "loopback_of_regs (reg s3 0x08) (reg s3 0x46) = BLADERF_LB_NONE"
    using lb2 agree_map [OF changes_agree [OF s3(3)], of "[0x08, 0x46]"]
    by (simp add: retune_regs_def pll_regs_def pll_base_def)
  have rx3: "rx_restored (reg s3)"
    using s2(4) agree_map [OF changes_agree [OF s3(3)], of "[0x54, 0x55, 0x64, 0x7d, 0x70, 0x0b]"]
    by (simp add: rx_restored_def lpf_passes_def retune_regs_def pll_regs_def pll_base_def)
  obtain t where t: "loopback_path dev BLADERF_LB_NONE s3 = (Inr (), t)" "changes {0x46, 0x08} s3 t"
      "loopback_of_regs (reg t 0x08) (reg t 0x46) = BLADERF_LB_NONE"
    by (rule doesE [OF does_steps(3) changes_ok [OF s3(3)]]) auto
  have run: "lms_set_loopback_mode dev BLADERF_LB_NONE s =
      seqE ?off (seqE (loopback_rx dev BLADERF_LB_NONE)
        (seqE (loopback_tx dev BLADERF_LB_NONE) (loopback_path dev BLADERF_LB_NONE))) s"
    by (simp add: lms_set_loopback_mode_def bindE_assoc)
  have c1: "changes leave_regs s s1" by (rule changes_mono [OF s1(2) leave_regs_intro(1)])
  have c2: "changes leave_regs s s2"
    using changes_trans [OF c1 s2(3)] leave_regs_intro by (auto elim!: changes_mono)
  have c3: "changes leave_regs s s3"
    using changes_trans [OF c2 s3(3)] leave_regs_intro by (auto elim!: changes_mono)
  have c4: "changes leave_regs s t"
    using changes_trans [OF c3 t(2)] leave_regs_intro by (auto elim!: changes_mono)
  consider "r2 = Inl BLADERF_ERR_UNEXPECTED" | "r2 = Inr ()" "r3 = Inl BLADERF_ERR_UNEXPECTED"
    | "r2 = Inr ()" "r3 = Inr ()"
    using s2(2) s3(2) by blast
  then show ?thesis
  proof cases
    case 1
    then have "lms_set_loopback_mode dev BLADERF_LB_NONE s = (Inl BLADERF_ERR_UNEXPECTED, s2)"
      using s1(1) s2(1) unfolding run by (simp add: bindE_def)
    then show ?thesis using c2 lb2 s2(4) by blast
  next
    case 2
    then have "lms_set_loopback_mode dev BLADERF_LB_NONE s = (Inl BLADERF_ERR_UNEXPECTED, s3)"
      using s1(1) s2(1) s3(1) unfolding run by (simp add: bindE_def)
    then show ?thesis using c3 lb3 rx3 by blast
  next
    case 3
    then have "lms_set_loopback_mode dev BLADERF_LB_NONE s = (Inr (), t)"
      using s1(1) s2(1) s3(1) t(1) unfolding run by (simp add: bindE_def)
    moreover have "rx_restored (reg t)"
      using rx3 agree_map [OF changes_agree [OF t(2)], of "[0x54, 0x55, 0x64, 0x7d, 0x70, 0x0b]"]
      by (simp add: rx_restored_def lpf_passes_def)
    moreover have "band_of BLADERF_MODULE_TX (pll_low_band 0x10 (reg s)) (reg t)"
      using s3(4) 3(2) agree_map [OF changes_agree [OF t(2)], of "[0x44]"] by (simp add: band_of_def)
    moreover have "band_of BLADERF_MODULE_RX (pll_low_band 0x20 (reg s)) (reg t)"
      using s2(5) 3(1) f1 [of BLADERF_MODULE_RX] agree_map [OF changes_agree [OF t(2)], of "[0x75]"]
        agree_map [OF changes_agree [OF s3(3)], of "[0x75]"]
      by (simp add: band_of_def retune_regs_def pll_regs_def pll_base_def)
    ultimately show ?thesis using c4 t(3) by blast
  qed
qed

end

end
