(* ===== verification/Lms_Dc.thy ===== *)
theory Lms_Dc
  imports Lms_Config
begin

text \<open>
  The DC calibration values, the ADC sampling selection and the DC offset corrections of
  fpga_common/src/lms.c.  An int16_t is an integer in its range, as in the model of the host's access
  functions; none of the computations below leaves the range, and the conversions to 8 and from 16
  bits are written out.
\<close>

unbundle bit_operations_syntax

section \<open>DC calibration values\<close>

definition enable_lpf_cal_clock :: "'s lms_dev \<Rightarrow> bool \<Rightarrow> ('s, unit) io" where
  "enable_lpf_cal_clock dev enable =
     (if enable then lms_set dev 0x09 0x20 else lms_clear dev 0x09 0x20)"

definition enable_rxvga2_dccal_clock :: "'s lms_dev \<Rightarrow> bool \<Rightarrow> ('s, unit) io" where
  "enable_rxvga2_dccal_clock dev enable =
     (if enable then lms_set dev 0x09 0x10 else lms_clear dev 0x09 0x10)"

definition enable_rxlpf_dccal_clock :: "'s lms_dev \<Rightarrow> bool \<Rightarrow> ('s, unit) io" where
  "enable_rxlpf_dccal_clock dev enable =
     (if enable then lms_set dev 0x09 0x08 else lms_clear dev 0x09 0x08)"

definition enable_txlpf_dccal_clock :: "'s lms_dev \<Rightarrow> bool \<Rightarrow> ('s, unit) io" where
  "enable_txlpf_dccal_clock dev enable =
     (if enable then lms_set dev 0x09 0x02 else lms_clear dev 0x09 0x02)"

definition set_dc_cal_value :: "'s lms_dev \<Rightarrow> u8 \<Rightarrow> u8 \<Rightarrow> int \<Rightarrow> ('s, unit) io" where
  "set_dc_cal_value dev base dc_addr value =
     (let new_value = word_of_int value; regval = 0x08 OR dc_addr in
      seqE (LMS_WRITE dev (base + 3) regval)
      (seqE (LMS_WRITE dev (base + 2) new_value)
      (let regval = regval OR 0x10 in
       seqE (LMS_WRITE dev (base + 3) regval)
      (let regval = regval AND NOT 0x10 in
       seqE (LMS_WRITE dev (base + 3) regval)
       (bindE (LMS_READ dev base) (\<lambda>regval. returnE ()))))))"

text \<open>On a failed read the C code also stores -1 in the output, next to the error status.\<close>

definition get_dc_cal_value :: "'s lms_dev \<Rightarrow> u8 \<Rightarrow> u8 \<Rightarrow> ('s, int) io" where
  "get_dc_cal_value dev base dc_addr =
     seqE (LMS_WRITE dev (base + 3) (0x08 OR dc_addr))
     (bindE (LMS_READ dev base) (\<lambda>regval. returnE (uint regval)))"

record bladerf_lms_dc_cals =
  dc_lpf_tuning :: int
  dc_tx_lpf_i :: int
  dc_tx_lpf_q :: int
  dc_rx_lpf_i :: int
  dc_rx_lpf_q :: int
  dc_dc_ref :: int
  dc_rxvga2a_i :: int
  dc_rxvga2a_q :: int
  dc_rxvga2b_i :: int
  dc_rxvga2b_q :: int

definition lms_set_dc_cals :: "'s lms_dev \<Rightarrow> bladerf_lms_dc_cals \<Rightarrow> ('s, unit) io" where
  "lms_set_dc_cals dev dc =
     (let cal_tx_lpf = dc_tx_lpf_i dc \<ge> 0 \<or> dc_tx_lpf_q dc \<ge> 0;
          cal_rx_lpf = dc_rx_lpf_i dc \<ge> 0 \<or> dc_rx_lpf_q dc \<ge> 0;
          cal_rxvga2 = dc_dc_ref dc \<ge> 0 \<or> dc_rxvga2a_i dc \<ge> 0 \<or>
            dc_rxvga2a_q dc \<ge> 0 \<or> dc_rxvga2b_i dc \<ge> 0 \<or> dc_rxvga2b_q dc \<ge> 0;
          set = (\<lambda>base dc_addr value. whenE (value \<ge> 0) (set_dc_cal_value dev base dc_addr value))
      in
      seqE (whenE (dc_lpf_tuning dc \<ge> 0)
        (seqE (enable_lpf_cal_clock dev True)
        (seqE (set_dc_cal_value dev 0x00 0 (dc_lpf_tuning dc))
        (enable_lpf_cal_clock dev False))))
      (seqE (whenE cal_tx_lpf
        (seqE (enable_txlpf_dccal_clock dev True)
        (seqE (set 0x30 0 (dc_tx_lpf_i dc))
        (seqE (set 0x30 1 (dc_tx_lpf_q dc))
        (enable_txlpf_dccal_clock dev False)))))
      (seqE (whenE cal_rx_lpf
        (seqE (enable_rxlpf_dccal_clock dev True)
        (seqE (set 0x50 0 (dc_rx_lpf_i dc))
        (seqE (set 0x50 1 (dc_rx_lpf_q dc))
        (enable_rxlpf_dccal_clock dev False)))))
      (whenE cal_rxvga2
        (seqE (enable_rxvga2_dccal_clock dev True)
        (seqE (set 0x60 0 (dc_dc_ref dc))
        (seqE (set 0x60 1 (dc_rxvga2a_i dc))
        (seqE (set 0x60 2 (dc_rxvga2a_q dc))
        (seqE (set 0x60 3 (dc_rxvga2b_i dc))
        (seqE (set 0x60 4 (dc_rxvga2b_q dc))
        (enable_rxvga2_dccal_clock dev False)))))))))))"

definition lms_get_dc_cals :: "'s lms_dev \<Rightarrow> ('s, bladerf_lms_dc_cals) io" where
  "lms_get_dc_cals dev =
     bindE (get_dc_cal_value dev 0x00 0) (\<lambda>lpf_tuning.
     bindE (get_dc_cal_value dev 0x30 0) (\<lambda>tx_lpf_i.
     bindE (get_dc_cal_value dev 0x30 1) (\<lambda>tx_lpf_q.
     bindE (get_dc_cal_value dev 0x50 0) (\<lambda>rx_lpf_i.
     bindE (get_dc_cal_value dev 0x50 1) (\<lambda>rx_lpf_q.
     bindE (get_dc_cal_value dev 0x60 0) (\<lambda>dc_ref.
     bindE (get_dc_cal_value dev 0x60 1) (\<lambda>rxvga2a_i.
     bindE (get_dc_cal_value dev 0x60 2) (\<lambda>rxvga2a_q.
     bindE (get_dc_cal_value dev 0x60 3) (\<lambda>rxvga2b_i.
     bindE (get_dc_cal_value dev 0x60 4) (\<lambda>rxvga2b_q.
     returnE \<lparr> dc_lpf_tuning = lpf_tuning, dc_tx_lpf_i = tx_lpf_i, dc_tx_lpf_q = tx_lpf_q,
       dc_rx_lpf_i = rx_lpf_i, dc_rx_lpf_q = rx_lpf_q, dc_dc_ref = dc_ref,
       dc_rxvga2a_i = rxvga2a_i, dc_rxvga2a_q = rxvga2a_q, dc_rxvga2b_i = rxvga2b_i,
       dc_rxvga2b_q = rxvga2b_q \<rparr>))))))))))"

section \<open>Sampling\<close>

datatype bladerf_sampling = BLADERF_SAMPLING_UNKNOWN | BLADERF_SAMPLING_INTERNAL
  | BLADERF_SAMPLING_EXTERNAL

definition lms_select_sampling :: "'s lms_dev \<Rightarrow> bladerf_sampling \<Rightarrow> ('s, unit) io" where
  "lms_select_sampling dev sampling =
     (if sampling = BLADERF_SAMPLING_INTERNAL then
        bindE (LMS_READ dev 0x09) (\<lambda>val.
        seqE (LMS_WRITE dev 0x09 (val AND NOT 0x80))
        (bindE (LMS_READ dev 0x64) (\<lambda>val.
        LMS_WRITE dev 0x64 (val OR 0x02))))
      else if sampling = BLADERF_SAMPLING_EXTERNAL then
        bindE (LMS_READ dev 0x64) (\<lambda>val.
        seqE (LMS_WRITE dev 0x64 (val AND NOT 0x02))
        (bindE (LMS_READ dev 0x09) (\<lambda>val.
        LMS_WRITE dev 0x09 (val OR 0x80))))
      else throwE BLADERF_ERR_INVAL)"

definition lms_get_sampling :: "'s lms_dev \<Rightarrow> ('s, bladerf_sampling) io" where
  "lms_get_sampling dev =
     bindE (LMS_READ dev 0x09) (\<lambda>val.
     let external = (if val AND 0x80 \<noteq> 0 then 1 else 0 :: u32) in
     bindE (LMS_READ dev 0x64) (\<lambda>val.
     let external = external OR (if val AND 0x02 \<noteq> 0 then 0 else 2) in
     returnE (if external = 0 then BLADERF_SAMPLING_INTERNAL
       else if external = 3 then BLADERF_SAMPLING_EXTERNAL
       else BLADERF_SAMPLING_UNKNOWN)))"

section \<open>DC offset corrections\<close>

definition scale_dc_offset :: "bladerf_module \<Rightarrow> int \<Rightarrow> u8" where
  "scale_dc_offset m value =
     (case m of
        BLADERF_MODULE_RX \<Rightarrow>
          let value = value div 2 ^ 5 in
          if value < 0 then
            word_of_int ((if value \<le> -64 then 0x3f else (- value) AND 0x3f) OR 0x40)
          else
            word_of_int (if value \<ge> 64 then 0x3f else value AND 0x3f)
      | BLADERF_MODULE_TX \<Rightarrow>
          let value = value div 2 ^ 4 in
          if value \<ge> 0 then
            0x80 OR word_of_int (if value \<ge> 128 then 0x7f else value AND 0x7f)
          else
            word_of_int (if value \<le> -128 then 0x00 else value AND 0x7f)
      | BLADERF_MODULE_INVALID \<Rightarrow> 0x00)"

definition set_dc_offset_reg :: "'s lms_dev \<Rightarrow> bladerf_module \<Rightarrow> u8 \<Rightarrow> int \<Rightarrow> ('s, unit) io" where
  "set_dc_offset_reg dev m addr value =
     (case m of
        BLADERF_MODULE_RX \<Rightarrow>
          bindE (LMS_READ dev addr) (\<lambda>tmp.
          LMS_WRITE dev addr (scale_dc_offset m value OR (tmp AND 0x80)))
      | BLADERF_MODULE_TX \<Rightarrow> LMS_WRITE dev addr (scale_dc_offset m value)
      | BLADERF_MODULE_INVALID \<Rightarrow> throwE BLADERF_ERR_INVAL)"

text \<open>lms_set_dc_offset_i takes a uint16_t, which the call of set_dc_offset_reg converts back.\<close>

definition lms_set_dc_offset_i :: "'s lms_dev \<Rightarrow> bladerf_module \<Rightarrow> u16 \<Rightarrow> ('s, unit) io" where
  "lms_set_dc_offset_i dev m value =
     set_dc_offset_reg dev m (if m = BLADERF_MODULE_TX then 0x42 else 0x71) (sint value)"

definition lms_set_dc_offset_q :: "'s lms_dev \<Rightarrow> bladerf_module \<Rightarrow> int \<Rightarrow> ('s, unit) io" where
  "lms_set_dc_offset_q dev m value =
     set_dc_offset_reg dev m (if m = BLADERF_MODULE_TX then 0x43 else 0x72) value"

definition get_dc_offset :: "'s lms_dev \<Rightarrow> bladerf_module \<Rightarrow> u8 \<Rightarrow> ('s, int) io" where
  "get_dc_offset dev m addr =
     bindE (LMS_READ dev addr) (\<lambda>tmp.
     case m of
       BLADERF_MODULE_RX \<Rightarrow>
         let tmp = tmp AND 0x7f;
             value = (if tmp AND 0x40 \<noteq> 0 then - uint (tmp AND 0x3f) else uint (tmp AND 0x3f)) in
         returnE (value * 2 ^ 5)
     | BLADERF_MODULE_TX \<Rightarrow> returnE (uint tmp * 2 ^ 4)
     | BLADERF_MODULE_INVALID \<Rightarrow> throwE BLADERF_ERR_INVAL)"

definition lms_get_dc_offset_i :: "'s lms_dev \<Rightarrow> bladerf_module \<Rightarrow> ('s, int) io" where
  "lms_get_dc_offset_i dev m = get_dc_offset dev m (if m = BLADERF_MODULE_TX then 0x42 else 0x71)"

definition lms_get_dc_offset_q :: "'s lms_dev \<Rightarrow> bladerf_module \<Rightarrow> ('s, int) io" where
  "lms_get_dc_offset_q dev m = get_dc_offset dev m (if m = BLADERF_MODULE_TX then 0x43 else 0x72)"

section \<open>What the offsets read back as\<close>

text \<open>The offset RX can represent: 32 times an integer between -63 and 63.  The offset TX can
  represent, and the one the register stands for: 16 times an integer between -128 and 127.\<close>

definition dc_quantised :: "bladerf_module \<Rightarrow> int \<Rightarrow> int" where
  "dc_quantised m v =
     (if m = BLADERF_MODULE_TX then 16 * max (-128) (min 127 (v div 16))
      else 32 * max (-63) (min 63 (v div 32)))"

lemma int_and_63: "(v :: int) AND 63 = v mod 64" "(v :: int) AND 127 = v mod 128"
  using take_bit_eq_mask [of 6 v] take_bit_eq_mask [of 7 v] by (simp_all add: mask_eq_exp_minus_1 take_bit_eq_mod)

lemma scale_rx:
  "scale_dc_offset BLADERF_MODULE_RX v =
     (if v < 0 then word_of_int (min 63 (- (v div 32))) OR 0x40 else word_of_int (min 63 (v div 32)))"
proof -
  have neg: "v div 32 < 0 \<longleftrightarrow> v < 0" by (rule pos_imp_zdiv_neg_iff) simp
  show ?thesis
  proof (cases "v < 0")
    case True
    then have q: "v div 32 < 0" by (simp only: neg)
    then have "(if v div 32 \<le> -64 then 0x3f else (- (v div 32)) AND 0x3f) = min 63 (- (v div 32))"
      by (auto simp add: int_and_63 min_def mod_pos_pos_trivial)
    then show ?thesis using True q by (simp add: scale_dc_offset_def Let_def of_int_or_eq)
  next
    case False
    then have q: "\<not> v div 32 < 0" by (simp only: neg not_False_eq_True)
    then have "(if v div 32 \<ge> 64 then 0x3f else (v div 32) AND 0x3f) = min 63 (v div 32)"
      by (auto simp add: int_and_63 min_def mod_pos_pos_trivial)
    then show ?thesis using False q by (simp add: scale_dc_offset_def Let_def)
  qed
qed

lemma scale_tx:
  "scale_dc_offset BLADERF_MODULE_TX v = word_of_int (max (-128) (min 127 (v div 16)) + 128)"
proof -
  have hi: "0x80 OR word_of_int p = (word_of_int (p + 128) :: u8)" if "0 \<le> p" "p < 128" for p :: int
  proof -
    have "p div 2 ^ 7 = 0" using that by simp
    then have "\<not> bit p 7" by (simp only: bit_iff_odd) simp
    then have "p AND 2 ^ 7 = 0" by (simp only: and_exp_eq_0_iff_not_bit not_False_eq_True)
    then have "128 + p = 128 OR p" by (intro disjunctive_add_eq_or) (simp add: and.commute)
    then have "(word_of_int (p + 128) :: u8) = word_of_int (128 OR p)" by (simp only: add.commute)
    then show ?thesis by (simp add: of_int_or_eq)
  qed
  show ?thesis
  proof (cases "0 \<le> v div 16")
    case True
    then have "(if v div 16 \<ge> 128 then 0x7f else (v div 16) AND 0x7f) = max (-128) (min 127 (v div 16))"
      by (auto simp add: int_and_63 min_def max_def mod_pos_pos_trivial)
    then show ?thesis using True hi [of "max (-128) (min 127 (v div 16))"]
      by (simp add: scale_dc_offset_def Let_def)
  next
    case False
    have "k mod 128 = k + 128" if "-128 < k" "k < 0" for k :: int
      using mod_pos_pos_trivial [of "k + 128" 128] that by simp
    then have "(if v div 16 \<le> -128 then 0x00 else (v div 16) AND 0x7f) = max (-128) (min 127 (v div 16)) + 128"
      using False by (auto simp add: int_and_63 min_def max_def)
    then show ?thesis using False by (simp add: scale_dc_offset_def Let_def)
  qed
qed

text \<open>Reading the register back.\<close>

lemma u8_small:
  assumes "0 \<le> (p :: int)" "p < 64"
  shows "\<not> bit (word_of_int p :: u8) 6" "\<not> bit (word_of_int p :: u8) 7" "uint (word_of_int p :: u8) = p"
proof -
  have "p div 2 ^ 6 = 0" "p div 2 ^ 7 = 0" using assms by simp_all
  then have "\<not> bit p 6" "\<not> bit p 7" unfolding bit_iff_odd by simp_all
  then show "\<not> bit (word_of_int p :: u8) 6" "\<not> bit (word_of_int p :: u8) 7"
    by (simp_all add: bit_simps)
  show "uint (word_of_int p :: u8) = p" using assms by (intro uint_word_of_int_small) simp_all
qed

definition rx_offset_of :: "u8 \<Rightarrow> int" where
  "rx_offset_of w = (if w AND 0x40 \<noteq> 0 then - uint (w AND 0x3f) else uint (w AND 0x3f)) * 32"

lemma rx_offset_of_scale:
  "rx_offset_of ((scale_dc_offset BLADERF_MODULE_RX v OR (r AND 0x80)) AND 0x7f) = dc_quantised BLADERF_MODULE_RX v"
proof -
  have f: "((w OR (r AND 0x80)) AND 0x7f) AND 0x3f = w" "((w OR (r AND 0x80)) AND 0x7f) AND 0x40 = 0"
    "(((w OR 0x40) OR (r AND 0x80)) AND 0x7f) AND 0x3f = w" "(((w OR 0x40) OR (r AND 0x80)) AND 0x7f) AND 0x40 = 0x40"
    if "\<not> bit w 6" "\<not> bit w 7" for w :: u8
    using that by (simp_all add: word8_eq_iff bit_simps)
  show ?thesis
  proof (cases "v < 0")
    case True
    define p where "p = min 63 (- (v div 32))"
    have "0 \<le> p" "p < 64" and q: "max (-63) (v div 32) = - p" "min 63 (v div 32) = v div 32"
      using True pos_imp_zdiv_neg_iff [of 32 v] by (auto simp add: p_def min_def max_def)
    note b = u8_small [OF this(1,2)]
    show ?thesis using True unfolding scale_rx if_P [OF True] p_def [symmetric]
      by (simp add: rx_offset_of_def dc_quantised_def f [OF b(1,2)] b(3) q)
  next
    case False
    define p where "p = min 63 (v div 32)"
    have "0 \<le> p" "p < 64" and q: "32 * max (-63) (min 63 (v div 32)) = p * 32"
      using False pos_imp_zdiv_nonneg_iff [of 32 v] by (auto simp add: p_def min_def max_def)
    note b = u8_small [OF this(1,2)]
    show ?thesis unfolding scale_rx if_not_P [OF False] p_def [symmetric]
      by (simp add: rx_offset_of_def dc_quantised_def f [OF b(1,2)] b(3) q)
  qed
qed

lemma scale_rx_top: "\<not> bit (scale_dc_offset BLADERF_MODULE_RX v) 7"
proof -
  have "\<not> bit (word_of_int (min 63 k) :: u8) 7" if "0 \<le> k" for k :: int
    using that by (intro u8_small(2)) auto
  moreover have "0 \<le> - (v div 32)" if "v < 0"
    using that pos_imp_zdiv_neg_iff [of 32 v] by linarith
  moreover have "0 \<le> v div 32" if "\<not> v < 0" using that by simp
  ultimately show ?thesis unfolding scale_rx by (simp add: bit_simps)
qed

lemma tx_offset_of_scale:
  "uint (scale_dc_offset BLADERF_MODULE_TX v) * 16 = dc_quantised BLADERF_MODULE_TX v + 2048"
proof -
  have "uint (word_of_int (max (-128) (min 127 (v div 16)) + 128) :: u8) = max (-128) (min 127 (v div 16)) + 128"
    by (rule uint_word_of_int_small) (auto simp add: max_def min_def)
  then show ?thesis by (simp add: scale_tx dc_quantised_def)
qed

context lms_regs begin

lemma set_dc_offset_reg_runs:
  assumes "ok s" "m \<noteq> BLADERF_MODULE_INVALID" "lms_addr a" "\<not> lms_volatile a" "a \<noteq> 0x05"
  shows "\<exists>t. set_dc_offset_reg dev m a v s = (Inr (), t) \<and> changes {a} s t \<and>
    reg t a = scale_dc_offset m v OR (if m = BLADERF_MODULE_RX then reg s a AND 0x80 else 0)"
  using assms by (cases m) (simp_all add: set_dc_offset_reg_def dev_laws changes_def del: lms_volatile_simps)

lemma get_dc_offset_runs:
  assumes "ok s" "m \<noteq> BLADERF_MODULE_INVALID" "lms_addr a" "\<not> lms_volatile a"
  shows "\<exists>t. get_dc_offset dev m a s =
      (Inr (if m = BLADERF_MODULE_RX then rx_offset_of (reg s a AND 0x7f) else uint (reg s a) * 16), t) \<and>
    changes {} s t"
  using assms
  by (cases m) (simp_all add: get_dc_offset_def rx_offset_of_def Let_def dev_laws changes_def del: lms_volatile_simps)

lemma dc_offset_set_then_get:
  assumes "ok s" "m \<noteq> BLADERF_MODULE_INVALID" "lms_addr a" "\<not> lms_volatile a" "a \<noteq> 0x05"
  shows "\<exists>t u. set_dc_offset_reg dev m a v s = (Inr (), t) \<and> changes {a} s t \<and>
    get_dc_offset dev m a t = (Inr (dc_quantised m v + (if m = BLADERF_MODULE_TX then 2048 else 0)), u) \<and>
    (m = BLADERF_MODULE_RX \<longrightarrow> reg t a AND 0x80 = reg s a AND 0x80)"
proof -
  obtain t where t: "set_dc_offset_reg dev m a v s = (Inr (), t)" "changes {a} s t"
      "reg t a = scale_dc_offset m v OR (if m = BLADERF_MODULE_RX then reg s a AND 0x80 else 0)"
    using set_dc_offset_reg_runs [OF assms] by blast
  have top: "(w OR (r AND 0x80)) AND 0x80 = r AND 0x80" if "\<not> bit w 7" for w r :: u8
    using that by (simp add: word8_eq_iff bit_simps)
  have "reg t a AND 0x80 = reg s a AND 0x80" if "m = BLADERF_MODULE_RX"
    using top [OF scale_rx_top [of v], of "reg s a"] that unfolding t(3) by simp
  moreover have "(if m = BLADERF_MODULE_RX then rx_offset_of (reg t a AND 0x7f) else uint (reg t a) * 16) =
      dc_quantised m v + (if m = BLADERF_MODULE_TX then 2048 else 0)"
    using rx_offset_of_scale [of v "reg s a"] tx_offset_of_scale [of v] assms(2) unfolding t(3)
    by (cases m) simp_all
  moreover obtain u where "get_dc_offset dev m a t =
      (Inr (if m = BLADERF_MODULE_RX then rx_offset_of (reg t a AND 0x7f) else uint (reg t a) * 16), u)"
    using get_dc_offset_runs [OF changes_ok [OF t(2)] assms(2-4)] by blast
  ultimately show ?thesis using t(1,2) by auto
qed

lemma lms_select_sampling_runs:
  assumes "ok s" "sampling \<noteq> BLADERF_SAMPLING_UNKNOWN"
  shows "\<exists>t u. lms_select_sampling dev sampling s = (Inr (), t) \<and> changes {0x09, 0x64} s t \<and>
    lms_get_sampling dev t = (Inr sampling, u) \<and> changes {} t u"
proof -
  have b: "(w AND NOT 0x80) AND 0x80 = 0" "(w OR 0x80) AND 0x80 \<noteq> 0" "(w AND NOT 0x02) AND 0x02 = 0"
    "(w OR 0x02) AND 0x02 \<noteq> 0" for w :: u8
    by (simp_all add: word8_eq_iff bit_simps)
  show ?thesis
    using assms b
    by (cases sampling) (simp_all add: lms_select_sampling_def lms_get_sampling_def Let_def dev_laws changes_def)
qed

end

end
