(* ===== verification/Lms_Gain.thy ===== *)
theory Lms_Gain
  imports Lms_Config
begin

text \<open>
  The overall gain of a module (host/libraries/libbladeRF/src/gain.c), distributed over the LNA and
  the two VGAs.  The code passes BLADERF_LNA_GAIN_MID_DB, a number of decibels, as the LNA gain of
  the second case; converted to the enumeration it is BLADERF_LNA_GAIN_MAX.
\<close>

abbreviation (input) BLADERF_LNA_GAIN_MID_DB :: int where "BLADERF_LNA_GAIN_MID_DB \<equiv> 3"
abbreviation (input) BLADERF_LNA_GAIN_MAX_DB :: int where "BLADERF_LNA_GAIN_MAX_DB \<equiv> 6"

text \<open>Only negative statuses of the first two calls end the function early.\<close>

definition set_rx_gain_combo ::
  "'s lms_dev \<Rightarrow> bladerf_lna_gain \<Rightarrow> int \<Rightarrow> int \<Rightarrow> ('s, unit) io" where
  "set_rx_gain_combo dev lnagain rxvga1 rxvga2 =
     bindE (statusE (lms_lna_set_gain dev lnagain)) (\<lambda>status.
     if status < 0 then throwE status
     else
       bindE (statusE (lms_rxvga1_set_gain dev rxvga1)) (\<lambda>status.
       if status < 0 then throwE status
       else lms_rxvga2_set_gain dev rxvga2))"

definition set_rx_gain :: "'s lms_dev \<Rightarrow> int \<Rightarrow> ('s, unit) io" where
  "set_rx_gain dev gain =
     (if gain \<le> BLADERF_LNA_GAIN_MID_DB then
        set_rx_gain_combo dev BLADERF_LNA_GAIN_BYPASS 5 0
      else if gain \<le> BLADERF_LNA_GAIN_MID_DB + 5 then
        set_rx_gain_combo dev (lna_gain_of (word_of_int BLADERF_LNA_GAIN_MID_DB)) 5 0
      else if gain \<le> BLADERF_LNA_GAIN_MAX_DB + 30 then
        set_rx_gain_combo dev BLADERF_LNA_GAIN_MID (gain - BLADERF_LNA_GAIN_MID_DB) 0
      else if gain < BLADERF_LNA_GAIN_MAX_DB + 30 + 30 then
        set_rx_gain_combo dev BLADERF_LNA_GAIN_MAX 30 (gain - (BLADERF_LNA_GAIN_MAX_DB + 30))
      else set_rx_gain_combo dev BLADERF_LNA_GAIN_MAX 30 30)"

definition set_tx_gain_combo :: "'s lms_dev \<Rightarrow> int \<Rightarrow> int \<Rightarrow> ('s, unit) io" where
  "set_tx_gain_combo dev txvga1 txvga2 =
     seqE (lms_txvga1_set_gain dev txvga1) (lms_txvga2_set_gain dev txvga2)"

definition set_tx_gain :: "'s lms_dev \<Rightarrow> int \<Rightarrow> ('s, unit) io" where
  "set_tx_gain dev gain =
     (let max_gain = (-4 - (-35)) + 25; gain = (if gain < 0 then 0 else gain) in
      if gain \<le> 25 then set_tx_gain_combo dev (-35) gain
      else if gain \<le> max_gain then set_tx_gain_combo dev (-35 + gain - 25) 25
      else set_tx_gain_combo dev (-4) 25)"

definition gain_set :: "'s lms_dev \<Rightarrow> bladerf_module \<Rightarrow> int \<Rightarrow> ('s, unit) io" where
  "gain_set dev m gain =
     (if m = BLADERF_MODULE_TX then set_tx_gain dev gain
      else if m = BLADERF_MODULE_RX then set_rx_gain dev gain
      else throwE BLADERF_ERR_INVAL)"

section \<open>The gain that results\<close>

fun lna_db :: "bladerf_lna_gain \<Rightarrow> int" where
  "lna_db BLADERF_LNA_GAIN_MID = 3"
| "lna_db BLADERF_LNA_GAIN_MAX = 6"
| "lna_db _ = 0"

text \<open>The sum of what the getters of the stages report.\<close>

definition rx_total_gain :: "'s lms_dev \<Rightarrow> ('s, int) io" where
  "rx_total_gain dev =
     bindE (lms_lna_get_gain dev) (\<lambda>lna.
     bindE (lms_rxvga1_get_gain dev) (\<lambda>vga1.
     bindE (lms_rxvga2_get_gain dev) (\<lambda>vga2.
     returnE (lna_db lna + vga1 + vga2))))"

definition tx_total_gain :: "'s lms_dev \<Rightarrow> ('s, int) io" where
  "tx_total_gain dev =
     bindE (lms_txvga1_get_gain dev) (\<lambda>vga1.
     bindE (lms_txvga2_get_gain dev) (\<lambda>vga2.
     returnE ((vga1 + 35) + vga2)))"

definition rx_gain_reached :: "int \<Rightarrow> int" where
  "rx_gain_reached gain =
     (if gain \<le> 3 then 5 else if gain \<le> 8 then 11 else if gain \<le> 36 then min 33 gain
      else if gain < 66 then 36 + 3 * ((gain - 36) div 3) else 66)"

context lms_regs begin

lemma set_rx_gain_combo_runs:
  assumes "ok s" "lna \<noteq> BLADERF_LNA_GAIN_UNKNOWN"
  shows "\<exists>t. set_rx_gain_combo dev lna g1 g2 s = (Inr (), t) \<and> changes {0x75, 0x76, 0x65} s t \<and>
    reg t 0x75 = (reg s 0x75 AND NOT 0xc0) OR push_bit 6 (lna_gain_code lna AND 3) \<and>
    reg t 0x76 = rxvga1_lut_val2code ! nat (max 5 (min 30 g1)) \<and>
    reg t 0x65 = word_of_int (max 0 (min 30 g2) div 3)"
proof -
  obtain s1 where s1: "lms_lna_set_gain dev lna s = (Inr (), s1)" "changes {0x75} s s1"
      "reg s1 0x75 = (reg s 0x75 AND NOT 0xc0) OR push_bit 6 (lna_gain_code lna AND 3)"
    using lms_lna_set_gain_runs [OF assms] by blast
  obtain s2 where s2: "lms_rxvga1_set_gain dev g1 s1 = (Inr (), s2)" "changes {0x76} s1 s2"
      "reg s2 0x76 = rxvga1_lut_val2code ! nat (max 5 (min 30 g1))"
    using lms_rxvga1_set_gain_runs [OF changes_ok [OF s1(2)]] by blast
  obtain t where t: "lms_rxvga2_set_gain dev g2 s2 = (Inr (), t)" "changes {0x65} s2 t"
      "reg t 0x65 = word_of_int (max 0 (min 30 g2) div 3)"
    using lms_rxvga2_set_gain_runs [OF changes_ok [OF s2(2)]] by blast
  have "set_rx_gain_combo dev lna g1 g2 s = (Inr (), t)"
    using s1(1) s2(1) t(1) by (simp add: set_rx_gain_combo_def statusE_def bindE_def)
  moreover have "changes {0x75, 0x76, 0x65} s t"
    using changes_trans [OF changes_trans [OF s1(2) s2(2)] t(2)] by (rule changes_mono) auto
  moreover have "reg t 0x75 = reg s1 0x75" "reg t 0x76 = reg s2 0x76"
    using changes_reg [OF s2(2), of "0x75"] changes_reg [OF t(2), of "0x75"] changes_reg [OF t(2), of "0x76"]
    by simp_all
  ultimately show ?thesis using s1(3) s2(3) t(3) by auto
qed

lemma rx_total_gain_runs:
  assumes "ok s" "lna \<noteq> BLADERF_LNA_GAIN_UNKNOWN"
    and r: "drop_bit 6 (reg s 0x75) AND 3 = lna_gain_code lna"
      "reg s 0x76 = rxvga1_lut_val2code ! nat (max 5 (min 30 g1))"
      "reg s 0x65 = word_of_int (max 0 (min 30 g2) div 3)"
  shows "\<exists>t. rx_total_gain dev s = (Inr (lna_db lna + max 5 (min 30 g1) + 3 * (max 0 (min 30 g2) div 3)), t)"
proof -
  have "lna_gain_of (lna_gain_code lna) = lna" by (cases lna) (simp_all add: lna_gain_of_def)
  then obtain s1 where s1: "lms_lna_get_gain dev s = (Inr lna, s1)" "changes {} s s1"
    using lms_lna_get_gain_runs [OF assms(1)] assms(2) unfolding r(1) by auto
  obtain s2 where s2: "lms_rxvga1_get_gain dev s1 = (Inr (max 5 (min 30 g1)), s2)" "changes {} s1 s2"
    using lms_rxvga1_get_gain_runs [OF changes_ok [OF s1(2)]] changes_reg [OF s1(2), of "0x76"] r(2)
    by (auto simp add: rxvga1_field)
  obtain t where t: "lms_rxvga2_get_gain dev s2 = (Inr (3 * (max 0 (min 30 g2) div 3)), t)"
    using lms_rxvga2_get_gain_runs [OF changes_ok [OF s2(2)]] changes_reg [OF s1(2), of "0x65"]
      changes_reg [OF s2(2), of "0x65"] r(3) by (auto simp add: rxvga2_field)
  show ?thesis using s1(1) s2(1) t by (simp add: rx_total_gain_def bindE_def)
qed

lemma set_rx_combo_total:
  assumes "ok s" "lna \<noteq> BLADERF_LNA_GAIN_UNKNOWN"
  shows "\<exists>t u. set_rx_gain_combo dev lna g1 g2 s = (Inr (), t) \<and> changes {0x75, 0x76, 0x65} s t \<and>
    rx_total_gain dev t = (Inr (lna_db lna + max 5 (min 30 g1) + 3 * (max 0 (min 30 g2) div 3)), u)"
proof -
  obtain t where t: "set_rx_gain_combo dev lna g1 g2 s = (Inr (), t)" "changes {0x75, 0x76, 0x65} s t"
    "reg t 0x75 = (reg s 0x75 AND NOT 0xc0) OR push_bit 6 (lna_gain_code lna AND 3)"
    "reg t 0x76 = rxvga1_lut_val2code ! nat (max 5 (min 30 g1))"
    "reg t 0x65 = word_of_int (max 0 (min 30 g2) div 3)"
    using set_rx_gain_combo_runs [OF assms] by blast
  have "drop_bit 6 ((w AND NOT 0xc0) OR push_bit 6 (lna_gain_code lna AND 3)) AND 3 = lna_gain_code lna" for w
    by (cases lna; simp add: word8_eq_iff bit_simps)
  from rx_total_gain_runs [OF changes_ok [OF t(2)] assms(2) _ t(4,5)] this show ?thesis
    using t(1,2,3) by metis
qed

lemma gain_set_rx_total:
  assumes "ok s"
  shows "\<exists>t u. gain_set dev BLADERF_MODULE_RX gain s = (Inr (), t) \<and> changes {0x75, 0x76, 0x65} s t \<and>
    rx_total_gain dev t = (Inr (rx_gain_reached gain), u)"
proof -
  note total = set_rx_combo_total [OF assms]
  have mid: "lna_gain_of (word_of_int 3) = BLADERF_LNA_GAIN_MAX" by (simp add: lna_gain_of_def)
  consider "gain \<le> 3" | "3 < gain" "gain \<le> 8" | "8 < gain" "gain \<le> 36" | "36 < gain" "gain < 66" | "66 \<le> gain"
    by linarith
  then show ?thesis
  proof cases
    case 1
    then show ?thesis using total [of BLADERF_LNA_GAIN_BYPASS 5 0]
      by (simp add: gain_set_def set_rx_gain_def rx_gain_reached_def)
  next
    case 2
    then show ?thesis using total [of BLADERF_LNA_GAIN_MAX 5 0]
      by (simp add: gain_set_def set_rx_gain_def rx_gain_reached_def mid [simplified])
  next
    case 3
    then have "3 + max 5 (min 30 (gain - 3)) + 3 * (max 0 (min 30 0) div 3) = min 33 gain" by simp
    then show ?thesis using 3 total [of BLADERF_LNA_GAIN_MID "gain - 3" 0]
      by (simp add: gain_set_def set_rx_gain_def rx_gain_reached_def)
  next
    case 4
    then have "max 0 (min 30 (gain - 36)) = gain - 36" by simp
    then show ?thesis using 4 total [of BLADERF_LNA_GAIN_MAX 30 "gain - 36"]
      by (simp add: gain_set_def set_rx_gain_def rx_gain_reached_def)
  next
    case 5
    then show ?thesis using total [of BLADERF_LNA_GAIN_MAX 30 30]
      by (simp add: gain_set_def set_rx_gain_def rx_gain_reached_def)
  qed
qed

lemma set_tx_combo_total:
  assumes "ok s"
  shows "\<exists>t u. set_tx_gain_combo dev g1 g2 s = (Inr (), t) \<and> changes {0x41, 0x45} s t \<and>
    tx_total_gain dev t = (Inr (max (-35) (min (-4) g1) + 35 + max 0 (min 25 g2)), u)"
proof -
  obtain s1 where s1: "lms_txvga1_set_gain dev g1 s = (Inr (), s1)" "changes {0x41} s s1"
      "reg s1 0x41 = word_of_int (max (-35) (min (-4) g1) + 35)"
    using lms_txvga1_set_gain_runs [OF assms] by blast
  obtain t where t: "lms_txvga2_set_gain dev g2 s1 = (Inr (), t)" "changes {0x45} s1 t"
      "reg t 0x45 = (reg s1 0x45 AND NOT 0xf8) OR push_bit 3 (word_of_int (max 0 (min 25 g2)) AND 0x1f)"
    using lms_txvga2_set_gain_runs [OF changes_ok [OF s1(2)]] by blast
  have r41: "reg t 0x41 = reg s1 0x41" using changes_reg [OF t(2), of "0x41"] by simp
  obtain u1 where u1: "lms_txvga1_get_gain dev t = (Inr (max (-35) (min (-4) g1)), u1)" "changes {} t u1"
    using lms_txvga1_get_gain_runs [OF changes_ok [OF t(2)]] unfolding r41 s1(3) txvga1_field by blast
  have r45: "reg u1 0x45 = reg t 0x45" using changes_reg [OF u1(2), of "0x45"] by simp
  obtain u where u: "lms_txvga2_get_gain dev u1 = (Inr (max 0 (min 25 g2)), u)"
    using lms_txvga2_get_gain_runs [OF changes_ok [OF u1(2)]] unfolding r45 t(3) txvga2_field by blast
  have "changes {0x41, 0x45} s t" using changes_trans [OF s1(2) t(2)] by (rule changes_mono) auto
  moreover have "set_tx_gain_combo dev g1 g2 s = (Inr (), t)"
    using s1(1) t(1) by (simp add: set_tx_gain_combo_def bindE_def)
  moreover have "tx_total_gain dev t = (Inr (max (-35) (min (-4) g1) + 35 + max 0 (min 25 g2)), u)"
    using u1(1) u by (simp add: tx_total_gain_def bindE_def)
  ultimately show ?thesis by blast
qed

lemma gain_set_tx_total:
  assumes "ok s"
  shows "\<exists>t u. gain_set dev BLADERF_MODULE_TX gain s = (Inr (), t) \<and> changes {0x41, 0x45} s t \<and>
    tx_total_gain dev t = (Inr (max 0 (min 56 gain)), u)"
proof -
  note total = set_tx_combo_total [OF assms]
  consider "gain < 0" | "0 \<le> gain" "gain \<le> 25" | "25 < gain" "gain \<le> 56" | "56 < gain" by linarith
  then show ?thesis
  proof cases
    case 1
    then show ?thesis using total [of "-35" 0] by (simp add: gain_set_def set_tx_gain_def)
  next
    case 2
    then have "max 0 (min 25 gain) = max 0 (min 56 gain)" by simp
    then show ?thesis using 2 total [of "-35" gain] by (simp add: gain_set_def set_tx_gain_def)
  next
    case 3
    then have "max (-35) (min (-4) (gain - 60)) + 60 = max 0 (min 56 gain)" by simp
    then show ?thesis using 3 total [of "-35 + gain - 25" 25] by (simp add: gain_set_def set_tx_gain_def)
  next
    case 4
    then show ?thesis using total [of "-4" 25] by (simp add: gain_set_def set_tx_gain_def)
  qed
qed

end

end
