(* ===== verification/Link_Access.thy ===== *)
theory Link_Access
  imports Nios_Link Retune_Sched Lms_Loopback Lms_Dc Lms_Gain
begin

text \<open>
  Requests carried from the host to the board and back.  The five formats of packets with a
  target, an address and data share a contract, the locale \<open>pkt_format\<close>: a packed request has the magic
  of its handler, unpacking gives the fields back, and the handler unpacks, performs the access
  and packs the response.  Inside it one lemma describes an exchange; the interpretations discharge the
  contract for each format.
\<close>

unbundle bit_operations_syntax

lemma stack_buf_length [simp]: "length stack_buf = 16"
  by (simp add: stack_buf_def)

lemma find_handler_magic [simp]: "find_handler (handler_magic h) = Some h"
  by (cases h) (simp_all add: find_handler_def pkt_handlers_def handler_magic_def)

section \<open>The contract of a packet format\<close>

locale pkt_format =
  fixes h :: pkt_handler
    and pack :: "bytes \<Rightarrow> u8 \<Rightarrow> bool \<Rightarrow> 'a \<Rightarrow> 'd \<Rightarrow> bytes"
    and unpack :: "bytes \<Rightarrow> u8 \<times> bool \<times> 'a \<times> 'd"
    and resp_pack :: "bytes \<Rightarrow> u8 \<Rightarrow> bool \<Rightarrow> 'a \<Rightarrow> 'd \<Rightarrow> bool \<Rightarrow> bytes"
    and resp_unpack :: "bytes \<Rightarrow> (u8 \<times> bool \<times> 'a \<times> 'd) \<times> bool"
    and perform_read :: "u8 \<Rightarrow> 'a \<Rightarrow> 'd \<Rightarrow> ('z link, bool \<times> 'd) fw"
    and perform_write :: "u8 \<Rightarrow> 'a \<Rightarrow> 'd \<Rightarrow> ('z link, bool) fw"
  assumes pack_length: "length (pack buf target w addr data) = length buf"
    and pack_magic: "length buf = 16 \<Longrightarrow> pack buf target w addr data ! PKT_MAGIC_IDX = handler_magic h"
    and unpack_pack: "length buf = 16 \<Longrightarrow> unpack (pack buf target w addr data) = (target, w, addr, data)"
    and resp_pack_length: "length (resp_pack buf target w addr data success) = length buf"
    and resp_unpack_pack: "length buf = 16 \<Longrightarrow>
      resp_unpack (resp_pack buf target w addr data success) = ((target, w, addr, data), success)"
    and exec: "unpack req = (target, w, addr, data) \<Longrightarrow> handler_exec board_bus h req resp =
      bindF (if w then bindF (perform_write target addr data) (\<lambda>success. returnF (success, data))
             else perform_read target addr data)
        (\<lambda>(success, data). returnF (resp_pack resp target w addr data success))"
begin

lemma read_exchange:
  assumes "length (pkt_resp s) = 16"
    and "perform_read target addr data (asked (pack stack_buf target False addr data) s) = Some ((success, d), t)"
  shows "\<exists>resp. length resp = 16 \<and> resp_unpack resp = ((target, False, addr, d), success) \<and>
    nios_access fpga_usb (pack stack_buf target False addr data) s = (Inr resp, answered resp t)"
proof -
  let ?req = "pack stack_buf target False addr data"
  let ?resp = "resp_pack (pkt_resp s) target False addr d success"
  have "handler_exec board_bus h ?req (pkt_resp s) (asked ?req s) = Some (?resp, t)"
    using assms by (simp add: exec [OF unpack_pack] bindF_Some)
  then have "nios_access fpga_usb ?req s = (Inr ?resp, answered ?resp t)"
    using assms(1) by (intro nios_access_fpga) (simp_all add: pack_length pack_magic resp_pack_length)
  then show ?thesis
    using assms(1) by (intro exI [of _ ?resp]) (simp add: resp_pack_length resp_unpack_pack)
qed

lemma write_exchange:
  assumes "length (pkt_resp s) = 16"
    and "perform_write target addr data (asked (pack stack_buf target True addr data) s) = Some (success, t)"
  shows "\<exists>resp. length resp = 16 \<and> resp_unpack resp = ((target, True, addr, data), success) \<and>
    nios_access fpga_usb (pack stack_buf target True addr data) s = (Inr resp, answered resp t)"
proof -
  let ?req = "pack stack_buf target True addr data"
  let ?resp = "resp_pack (pkt_resp s) target True addr data success"
  have "handler_exec board_bus h ?req (pkt_resp s) (asked ?req s) = Some (?resp, t)"
    using assms by (simp add: exec [OF unpack_pack] bindF_Some)
  then have "nios_access fpga_usb ?req s = (Inr ?resp, answered ?resp t)"
    using assms(1) by (intro nios_access_fpga) (simp_all add: pack_length pack_magic resp_pack_length)
  then show ?thesis
    using assms(1) by (intro exI [of _ ?resp]) (simp add: resp_pack_length resp_unpack_pack)
qed

end

interpretation fmt_8x8: pkt_format PKT_8x8 nios_pkt_8x8_pack nios_pkt_8x8_unpack nios_pkt_8x8_resp_pack
  nios_pkt_8x8_resp_unpack "\<lambda>target addr data. perform_read_8x8 board_bus target addr"
  "perform_write_8x8 board_bus"
  by unfold_locales (simp_all add: handler_magic_def handler_exec_def pkt_8x8_def)

lemma lift_bindS: "liftF (bindS m f) = bindF (liftF m) (\<lambda>x. liftF (f x))"
  by (rule ext) (simp add: bindS_apply)

lemma lift_simps: "liftF (returnS x) = returnF x" "liftF (if b then m else k) = (if b then liftF m else liftF k)"
  "liftF (case p of (x, y) \<Rightarrow> f x y) = (case p of (x, y) \<Rightarrow> liftF (f x y))"
  by (rule ext; simp) (simp_all split: prod.splits)

interpretation fmt_8x16: pkt_format PKT_8x16 nios_pkt_8x16_pack nios_pkt_8x16_unpack nios_pkt_8x16_resp_pack
  nios_pkt_8x16_resp_unpack "\<lambda>target addr data. liftF (perform_read_8x16 board_bus target addr data)"
  "\<lambda>target addr data. liftF (perform_write_8x16 board_bus target addr data)"
  by unfold_locales (simp_all add: handler_magic_def handler_exec_def pkt_8x16_def lift_bindS lift_simps)

interpretation fmt_8x32: pkt_format PKT_8x32 nios_pkt_8x32_pack nios_pkt_8x32_unpack nios_pkt_8x32_resp_pack
  nios_pkt_8x32_resp_unpack "\<lambda>target addr data. liftF (perform_read_8x32 board_bus target)"
  "\<lambda>target addr data. liftF (perform_write_8x32 board_bus target data)"
  by unfold_locales (simp_all add: handler_magic_def handler_exec_def pkt_8x32_def lift_bindS lift_simps)

interpretation fmt_8x64: pkt_format PKT_8x64 nios_pkt_8x64_pack nios_pkt_8x64_unpack nios_pkt_8x64_resp_pack
  nios_pkt_8x64_resp_unpack "\<lambda>target addr data. liftF (perform_read_8x64 board_bus target addr data)"
  "\<lambda>target addr data. liftF (perform_write_8x64 target addr data)"
  by unfold_locales (simp_all add: handler_magic_def handler_exec_def pkt_8x64_def lift_bindS lift_simps)

interpretation fmt_32x32: pkt_format PKT_32x32 nios_pkt_32x32_pack nios_pkt_32x32_unpack
  nios_pkt_32x32_resp_pack nios_pkt_32x32_resp_unpack
  "\<lambda>target addr data. liftF (perform_read_32x32 board_bus target addr data)"
  "\<lambda>target addr data. liftF (perform_write_32x32 board_bus target addr data)"
  by unfold_locales (simp_all add: handler_magic_def handler_exec_def pkt_32x32_def lift_bindS lift_simps)

section \<open>The access functions of the host\<close>

abbreviation access_result :: "bool \<Rightarrow> 'a \<Rightarrow> int + 'a" where
  "access_result success x \<equiv> (if success then Inr x else Inl BLADERF_ERR_FPGA_OP)"

lemma nios_8x8_read_link:
  assumes "length (pkt_resp s) = 16"
    and "perform_read_8x8 board_bus target addr
      (asked (nios_pkt_8x8_pack stack_buf target False addr 0) s) = Some ((success, d), t)"
  shows "\<exists>resp. length resp = 16 \<and>
    nios_8x8_read fpga_usb target addr s = (access_result success d, answered resp t)"
  using fmt_8x8.read_exchange [OF assms] by (auto simp add: nios_8x8_read_def bindE_def)

lemma nios_8x8_write_link:
  assumes "length (pkt_resp s) = 16"
    and "perform_write_8x8 board_bus target addr data
      (asked (nios_pkt_8x8_pack stack_buf target True addr data) s) = Some (success, t)"
  shows "\<exists>resp. length resp = 16 \<and>
    nios_8x8_write fpga_usb target addr data s = (access_result success (), answered resp t)"
  using fmt_8x8.write_exchange [OF assms] by (auto simp add: nios_8x8_write_def bindE_def)

lemma nios_8x16_read_link:
  assumes "length (pkt_resp s) = 16"
    and "perform_read_8x16 board_bus target addr 0
      (asked (nios_pkt_8x16_pack stack_buf target False addr 0) s) = ((success, d), t)"
  shows "\<exists>resp. length resp = 16 \<and>
    nios_8x16_read fpga_usb target addr s = (access_result success d, answered resp t)"
  using fmt_8x16.read_exchange [of s target addr 0] assms
  by (fastforce simp add: nios_8x16_read_def bindE_def)

lemma nios_8x16_write_link:
  assumes "length (pkt_resp s) = 16"
    and "perform_write_8x16 board_bus target addr data
      (asked (nios_pkt_8x16_pack stack_buf target True addr data) s) = (success, t)"
  shows "\<exists>resp. length resp = 16 \<and>
    nios_8x16_write fpga_usb target addr data s = (access_result success (), answered resp t)"
  using fmt_8x16.write_exchange [of s target addr data] assms
  by (fastforce simp add: nios_8x16_write_def bindE_def)

lemma nios_8x32_read_link:
  assumes "length (pkt_resp s) = 16"
    and "perform_read_8x32 board_bus target
      (asked (nios_pkt_8x32_pack stack_buf target False 0 0) s) = ((success, d), t)"
  shows "\<exists>resp. length resp = 16 \<and>
    nios_8x32_read fpga_usb target addr s = (access_result success d, answered resp t)"
  using fmt_8x32.read_exchange [of s target 0 0] assms
  by (fastforce simp add: nios_8x32_read_def bindE_def)

lemma nios_8x32_write_link:
  assumes "length (pkt_resp s) = 16"
    and "perform_write_8x32 board_bus target data
      (asked (nios_pkt_8x32_pack stack_buf target True addr data) s) = (success, t)"
  shows "\<exists>resp. length resp = 16 \<and>
    nios_8x32_write fpga_usb target addr data s = (access_result success (), answered resp t)"
  using fmt_8x32.write_exchange [of s target data addr] assms
  by (fastforce simp add: nios_8x32_write_def bindE_def)

lemma nios_32x32_read_link:
  assumes "length (pkt_resp s) = 16"
    and "perform_read_32x32 board_bus target bits 0
      (asked (nios_pkt_32x32_pack stack_buf target False bits 0) s) = ((success, d), t)"
  shows "\<exists>resp. length resp = 16 \<and>
    nios_32x32_masked_read fpga_usb target bits s = (access_result success d, answered resp t)"
  using fmt_32x32.read_exchange [of s target bits 0] assms
  by (fastforce simp add: nios_32x32_masked_read_def bindE_def)

lemma nios_32x32_write_link:
  assumes "length (pkt_resp s) = 16"
    and "perform_write_32x32 board_bus target bits val
      (asked (nios_pkt_32x32_pack stack_buf target True bits val) s) = (success, t)"
  shows "\<exists>resp. length resp = 16 \<and>
    nios_32x32_masked_write fpga_usb target bits val s = (access_result success (), answered resp t)"
  using fmt_32x32.write_exchange [of s target bits val] assms
  by (fastforce simp add: nios_32x32_masked_write_def bindE_def)

section \<open>The device handle of the host keeps the laws of the driver\<close>

text \<open>What the chip's status registers answer is no state of the board: \<open>sense\<close> gives it, from the
  registers and the time.\<close>

type_synonym sense = "(u8 \<Rightarrow> u8) \<Rightarrow> nat \<Rightarrow> u8 \<Rightarrow> u8"

definition board_sense :: "(board, 'z) nios_dev_scheme \<Rightarrow> sense" where
  "board_sense s = chip_sense (spi_chip (bd_lms (nios_hw s)))"

text \<open>Bit 7 of the configuration GPIO follows the USB speed the host has found.\<close>

definition dma_ok :: "bladerf_dev_speed \<Rightarrow> u32 \<Rightarrow> bool" where
  "dma_ok speed g \<longleftrightarrow>
     (case speed of BLADERF_DEVICE_SPEED_HIGH \<Rightarrow> bit g 7 | BLADERF_DEVICE_SPEED_SUPER \<Rightarrow> \<not> bit g 7
      | BLADERF_DEVICE_SPEED_UNKNOWN \<Rightarrow> False)"

definition dma_fix :: "bladerf_dev_speed \<Rightarrow> u32 \<Rightarrow> u32" where
  "dma_fix speed g =
     (if speed = BLADERF_DEVICE_SPEED_HIGH then g OR BLADERF_GPIO_FEATURE_SMALL_DMA_XFER
      else g AND NOT BLADERF_GPIO_FEATURE_SMALL_DMA_XFER)"

lemma dma_fix_ok: "dma_ok speed h \<Longrightarrow> dma_ok speed (dma_fix speed g)"
  by (cases speed) (simp_all add: dma_ok_def dma_fix_def bit_simps)

lemma dma_fix_same: "dma_ok speed h \<Longrightarrow> bit g 7 = bit h 7 \<Longrightarrow> dma_fix speed g = g"
  by (cases speed) (simp_all add: dma_ok_def dma_fix_def word32_eq_iff bit_simps)

definition link_ok :: "bladerf_dev_speed \<Rightarrow> sense \<Rightarrow> 'z link \<Rightarrow> bool" where
  "link_ok speed sense s \<longleftrightarrow> board_ok s \<and> length (pkt_resp s) = 16 \<and> board_sense s = sense \<and>
     dma_ok speed (board_gpio s)"

lemma link_frame [simp]:
  "link_ok speed sense (answered resp t) \<longleftrightarrow> board_ok t \<and> length resp = 16 \<and> board_sense t = sense \<and>
     dma_ok speed (board_gpio t)"
  "board_sense (asked req s) = board_sense s"
  by (simp_all add: link_ok_def board_sense_def)

lemma fold_chip_msg_sense:
  "chip_sense (snd (fold chip_msg ms ic)) = chip_sense (snd ic)"
proof (induction ms arbitrary: ic)
  case (Cons m ms)
  then show ?case by (simp add: chip_msg_def chip_read_def chip_write_def split: prod.splits)
qed simp

lemma spi_access_sense: "chip_sense (spi_chip (spi_access w a d c)) = chip_sense (spi_chip c)"
proof -
  have "chip_sense (spi_chip (spi_shift n c)) = chip_sense (spi_chip c)" for n and c :: spi_controller
    using fold_chip_msg_sense [of "take n (shift_out_reg c)" "(shift_in_reg c, spi_chip c)"]
    by (auto simp add: spi_shift_def split: prod.splits)
  then show ?thesis by (simp add: spi_access_def Let_def)
qed

lemma board_sense_simps [simp]:
  "board_sense (snd (lms6_read board_bus a s)) = board_sense s"
  "board_sense (snd (lms6_write board_bus a d s)) = board_sense s"
  "board_sense (snd (control_reg_write board_bus g s)) = board_sense s"
  by (simp_all add: board_sense_def board_lms6_read board_lms6_write board_control_reg spi_access_sense)

lemma host_lms_read:
  assumes "link_ok speed sense s"
  shows "\<exists>req resp. length resp = 16 \<and> dev_lms_read (host_lms fpga_usb speed caps) a s =
    ((0, fst (lms6_read board_bus a (asked req s))), answered resp (snd (lms6_read board_bus a (asked req s))))"
proof -
  let ?req = "nios_pkt_8x8_pack stack_buf NIOS_PKT_8x8_TARGET_LMS6 False a 0"
  have "perform_read_8x8 board_bus NIOS_PKT_8x8_TARGET_LMS6 a (asked ?req s) =
      Some ((True, fst (lms6_read board_bus a (asked ?req s))), snd (lms6_read board_bus a (asked ?req s)))"
    by (simp add: perform_read_8x8_def)
  from nios_8x8_read_link [OF _ this] assms obtain resp where "length resp = 16"
    "nios_lms6_read fpga_usb a s = (Inr (fst (lms6_read board_bus a (asked ?req s))),
       answered resp (snd (lms6_read board_bus a (asked ?req s))))"
    by (auto simp add: nios_lms6_read_def link_ok_def)
  then show ?thesis
    by (intro exI [of _ ?req] exI [of _ resp]) (simp add: host_lms_def io_result_def)
qed

lemma host_lms_write:
  assumes "link_ok speed sense s"
  shows "\<exists>req resp. length resp = 16 \<and> dev_lms_write (host_lms fpga_usb speed caps) a d s =
    (0, answered resp (snd (lms6_write board_bus a d (asked req s))))"
proof -
  let ?req = "nios_pkt_8x8_pack stack_buf NIOS_PKT_8x8_TARGET_LMS6 True a d"
  have "perform_write_8x8 board_bus NIOS_PKT_8x8_TARGET_LMS6 a d (asked ?req s) =
      Some (True, snd (lms6_write board_bus a d (asked ?req s)))"
    by (simp add: perform_write_8x8_def)
  from nios_8x8_write_link [OF _ this] assms obtain resp where "length resp = 16"
    "nios_lms6_write fpga_usb a d s = (Inr (), answered resp (snd (lms6_write board_bus a d (asked ?req s))))"
    by (auto simp add: nios_lms6_write_def link_ok_def)
  then show ?thesis
    by (intro exI [of _ ?req] exI [of _ resp]) (simp add: host_lms_def io_status_def)
qed

lemma host_gpio_read:
  assumes "link_ok speed sense s"
  shows "\<exists>req resp. length resp = 16 \<and> dev_gpio_read (host_lms fpga_usb speed caps) s =
    ((0, board_gpio s), answered resp (asked req s))"
proof -
  let ?req = "nios_pkt_8x32_pack stack_buf NIOS_PKT_8x32_TARGET_CONTROL False 0 0"
  have "perform_read_8x32 board_bus NIOS_PKT_8x32_TARGET_CONTROL (asked ?req s) =
      ((True, board_gpio s), asked ?req s)"
    by (simp add: perform_read_8x32_def bindS_apply board_control_reg)
  from nios_8x32_read_link [OF _ this, of 0] assms obtain resp where "length resp = 16"
    "nios_config_read fpga_usb s = (Inr (board_gpio s), answered resp (asked ?req s))"
    by (auto simp add: nios_config_read_def link_ok_def)
  then show ?thesis
    by (intro exI [of _ ?req] exI [of _ resp]) (simp add: host_lms_def io_result_def)
qed

lemma host_gpio_write:
  assumes "link_ok speed sense s"
  shows "\<exists>req resp. length resp = 16 \<and> dev_gpio_write (host_lms fpga_usb speed caps) g s =
    (0, answered resp (snd (control_reg_write board_bus (dma_fix speed g) (asked req s))))"
proof -
  let ?g = "dma_fix speed g"
  let ?req = "nios_pkt_8x32_pack stack_buf NIOS_PKT_8x32_TARGET_CONTROL True 0 ?g"
  have "perform_write_8x32 board_bus NIOS_PKT_8x32_TARGET_CONTROL ?g (asked ?req s) =
      (True, snd (control_reg_write board_bus ?g (asked ?req s)))"
    by (simp add: perform_write_8x32_def bindS_apply)
  from nios_8x32_write_link [OF _ this] assms obtain resp where "length resp = 16"
    "nios_config_write fpga_usb ?g s = (Inr (), answered resp (snd (control_reg_write board_bus ?g (asked ?req s))))"
    by (auto simp add: nios_config_write_def link_ok_def)
  moreover have "config_gpio_write fpga_usb speed g s = nios_config_write fpga_usb ?g s"
    using assms by (cases speed) (simp_all add: config_gpio_write_def dma_fix_def link_ok_def dma_ok_def)
  ultimately have "length resp = 16"
    "config_gpio_write fpga_usb speed g s = (Inr (), answered resp (snd (control_reg_write board_bus ?g (asked ?req s))))"
    by simp_all
  then show ?thesis
    by (intro exI [of _ ?req] exI [of _ resp]) (simp add: host_lms_def io_status_def)
qed

lemma nios_write_laws:
  assumes "board_ok s" "lms_addr a"
  shows "board_ok (snd (lms6_write board_bus a d s))" "board_gpio (snd (lms6_write board_bus a d s)) = board_gpio s"
    "\<not> lms_resets a d \<Longrightarrow> lms_addr b \<Longrightarrow> \<not> lms_volatile b \<Longrightarrow>
      board_reg (snd (lms6_write board_bus a d s)) b = (if b = a then d else board_reg s b)"
  using nios.write_ok [OF assms, of d] nios.write_gpio [OF assms, of d] nios.write_reg [OF assms, of d b]
  by (simp_all add: nios_lms_simps)

lemma nios_read_laws:
  assumes "board_ok s" "lms_addr a"
  shows "board_ok (snd (lms6_read board_bus a s))" "board_gpio (snd (lms6_read board_bus a s)) = board_gpio s"
    "\<not> lms_volatile a \<Longrightarrow> fst (lms6_read board_bus a s) = board_reg s a"
    "lms_addr b \<Longrightarrow> \<not> lms_volatile b \<Longrightarrow> board_reg (snd (lms6_read board_bus a s)) b = board_reg s b"
  using nios.read_ok [OF assms] nios.read_gpio [OF assms] nios.read_value [OF assms] nios.read_reg [OF assms, of b]
  by (simp_all add: nios_lms_simps)

lemma nios_gpio_laws:
  assumes "board_ok s"
  shows "board_ok (snd (control_reg_write board_bus g s))" "board_gpio (snd (control_reg_write board_bus g s)) = g"
    "lms_addr b \<Longrightarrow> \<not> lms_volatile b \<Longrightarrow> board_reg (snd (control_reg_write board_bus g s)) b = board_reg s b"
  using nios.gpio_write_ok [OF assms, of g] nios.gpio_write_reg [OF assms, of b g]
  by (simp_all add: nios_lms_simps board_control_reg board_gpio_def)

lemma link_ok_board: "link_ok speed sense s \<Longrightarrow> board_ok s"
  by (simp add: link_ok_def)

interpretation host: lms_regs "host_lms fpga_usb speed caps" board_reg board_gpio "link_ok speed sense"
proof
  fix s :: "'z link" and a b d g
  assume s: "link_ok speed sense s"
  note ok = link_ok_board [OF s]
  have sense: "board_sense s = sense" using s by (simp add: link_ok_def)
  obtain rq rs where r: "length rs = 16" "dev_lms_read (host_lms fpga_usb speed caps) a s =
      ((0, fst (lms6_read board_bus a (asked rq s))), answered rs (snd (lms6_read board_bus a (asked rq s))))"
    using host_lms_read [OF s] by blast
  obtain wq ws where w: "length ws = 16" "dev_lms_write (host_lms fpga_usb speed caps) a d s =
      (0, answered ws (snd (lms6_write board_bus a d (asked wq s))))"
    using host_lms_write [OF s] by blast
  obtain gq gs where gr: "length gs = 16" "dev_gpio_read (host_lms fpga_usb speed caps) s =
      ((0, board_gpio s), answered gs (asked gq s))"
    using host_gpio_read [OF s] by blast
  obtain hq hs where gw: "length hs = 16" "dev_gpio_write (host_lms fpga_usb speed caps) g s =
      (0, answered hs (snd (control_reg_write board_bus (dma_fix speed g) (asked hq s))))"
    using host_gpio_write [OF s] by blast
  have dma: "dma_ok speed (board_gpio s)" using s by (simp add: link_ok_def)
  note laws = nios_read_laws [of "asked rq s"] nios_write_laws [of "asked wq s"] nios_gpio_laws [of "asked hq s"]
  show "fst (dev_gpio_read (host_lms fpga_usb speed caps) s) = (0, board_gpio s)"
    "link_ok speed sense (snd (dev_gpio_read (host_lms fpga_usb speed caps) s))"
    "board_gpio (snd (dev_gpio_read (host_lms fpga_usb speed caps) s)) = board_gpio s"
    "fst (dev_gpio_write (host_lms fpga_usb speed caps) g s) = 0"
    "link_ok speed sense (snd (dev_gpio_write (host_lms fpga_usb speed caps) g s))"
    "bit g 7 = bit (board_gpio s) 7 \<Longrightarrow> board_gpio (snd (dev_gpio_write (host_lms fpga_usb speed caps) g s)) = g"
    using ok sense gr gw dma dma_fix_ok [OF dma] dma_fix_same [OF dma] by (simp_all add: laws)
  { assume b: "lms_addr b" "\<not> lms_volatile b"
    show "board_reg (snd (dev_gpio_read (host_lms fpga_usb speed caps) s)) b = board_reg s b"
      "board_reg (snd (dev_gpio_write (host_lms fpga_usb speed caps) g s)) b = board_reg s b"
      using ok gr gw b by (simp_all add: laws) }
  assume a: "lms_addr a"
  show "fst (fst (dev_lms_read (host_lms fpga_usb speed caps) a s)) = 0"
    "link_ok speed sense (snd (dev_lms_read (host_lms fpga_usb speed caps) a s))"
    "board_gpio (snd (dev_lms_read (host_lms fpga_usb speed caps) a s)) = board_gpio s"
    "fst (dev_lms_write (host_lms fpga_usb speed caps) a d s) = 0"
    "link_ok speed sense (snd (dev_lms_write (host_lms fpga_usb speed caps) a d s))"
    "board_gpio (snd (dev_lms_write (host_lms fpga_usb speed caps) a d s)) = board_gpio s"
    using ok sense a r w dma by (simp_all add: laws)
  show "\<not> lms_volatile a \<Longrightarrow> snd (fst (dev_lms_read (host_lms fpga_usb speed caps) a s)) = board_reg s a"
    using ok a r by (simp add: laws)
  assume b: "lms_addr b" "\<not> lms_volatile b"
  show "board_reg (snd (dev_lms_read (host_lms fpga_usb speed caps) a s)) b = board_reg s b"
    using ok a b r by (simp add: laws)
  show "\<not> lms_resets a d \<Longrightarrow>
      board_reg (snd (dev_lms_write (host_lms fpga_usb speed caps) a d s)) b = (if b = a then d else board_reg s b)"
    using ok a b w by (simp add: laws)
qed


context lms_regs begin

lemma pll_words_one_by_one:
  assumes "ok s" "b = 0x10 \<or> b = 0x20"
  shows "\<exists>t. write_pll_words dev b d0 d1 d2 d3 s = (Inr (), t) \<and> changes {b, b + 1, b + 2, b + 3} s t \<and>
    reg t b = d0 \<and> reg t (b + 1) = d1 \<and> reg t (b + 2) = d2 \<and> reg t (b + 3) = d3"
  using assms(2)
proof
  assume b: "b = 0x10"
  show ?thesis unfolding b using assms(1)
    by (auto simp add: write_pll_words_def changes_def dev_laws lms_resets_def lms_volatile_def)
next
  assume b: "b = 0x20"
  show ?thesis unfolding b using assms(1)
    by (auto simp add: write_pll_words_def changes_def dev_laws lms_resets_def lms_volatile_def)
qed

end

lemma spi_access_length: "length (shift_out_reg c) = NUM_PLL_REGS \<Longrightarrow>
    length (shift_out_reg (spi_access w a d c)) = NUM_PLL_REGS"
  by (auto simp add: spi_access_def spi_shift_def NUM_PLL_REGS_def Let_def split: prod.splits)

text \<open>A write through the host's handle is an access of the SPI controller, whatever the address.\<close>

lemma host_lms_write_spi:
  assumes "link_ok speed sense s"
  shows "\<exists>t. LMS_WRITE (host_lms fpga_usb speed caps) a d s = (Inr (), t) \<and> link_ok speed sense t \<and> board_gpio t = board_gpio s \<and>
    bd_lms (nios_hw t) = spi_access True a d (bd_lms (nios_hw s))"
proof -
  obtain req resp where w: "length resp = 16" "dev_lms_write (host_lms fpga_usb speed caps) a d s =
      (0, answered resp (snd (lms6_write board_bus a d (asked req s))))"
    using host_lms_write [OF assms] by blast
  let ?t = "answered resp (snd (lms6_write board_bus a d (asked req s)))"
  have "board_ok (snd (lms6_write board_bus a d (asked req s)))"
    using assms by (simp add: board_lms6_write board_ok_def link_ok_def spi_access_length)
  moreover have "board_sense s = sense" "dma_ok speed (bd_pio (nios_hw s) CONTROL_BASE)"
    using assms by (simp_all add: link_ok_def board_gpio_def)
  ultimately show ?thesis
    using w by (intro exI [of _ ?t]) (simp add: LMS_WRITE_def board_lms6_write board_gpio_def
        board_sense_def spi_access_sense)
qed

lemma host_pll_burst:
  fixes s :: "'z link"
  assumes s: "link_ok speed sense s" and b: "b = (0x10 :: u8) \<or> b = 0x20"
  shows "\<exists>t. write_pll_words (host_lms fpga_usb speed caps) (b OR 0x80) d0 d1 d2 d3 s = (Inr (), t) \<and>
    host.changes speed sense {b, b + 1, b + 2, b + 3} s t \<and>
    board_reg t b = d0 \<and> board_reg t (b + 1) = d1 \<and> board_reg t (b + 2) = d2 \<and> board_reg t (b + 3) = d3"
proof -
  define a where "a = b OR 0x80"
  note a = pll_multi_base [OF b, folded a_def]
  let ?H = "host_lms fpga_usb speed caps"
  obtain s0 where s0: "LMS_WRITE ?H a d0 s = (Inr (), s0)" "link_ok speed sense s0" "board_gpio s0 = board_gpio s"
      "bd_lms (nios_hw s0) = spi_access True a d0 (bd_lms (nios_hw s))"
    using host_lms_write_spi [OF s] by blast
  obtain s1 where s1: "LMS_WRITE ?H (a + 1) d1 s0 = (Inr (), s1)" "link_ok speed sense s1" "board_gpio s1 = board_gpio s0"
      "bd_lms (nios_hw s1) = spi_access True (a + 1) d1 (bd_lms (nios_hw s0))"
    using host_lms_write_spi [OF s0(2)] by blast
  obtain s2 where s2: "LMS_WRITE ?H (a + 2) d2 s1 = (Inr (), s2)" "link_ok speed sense s2" "board_gpio s2 = board_gpio s1"
      "bd_lms (nios_hw s2) = spi_access True (a + 2) d2 (bd_lms (nios_hw s1))"
    using host_lms_write_spi [OF s1(2)] by blast
  obtain t where t: "LMS_WRITE ?H (a + 3) d3 s2 = (Inr (), t)" "link_ok speed sense t" "board_gpio t = board_gpio s2"
      "bd_lms (nios_hw t) = spi_access True (a + 3) d3 (bd_lms (nios_hw s2))"
    using host_lms_write_spi [OF s2(2)] by blast
  have l: "length (shift_out_reg (bd_lms (nios_hw s))) = 4"
    using s by (simp add: link_ok_def board_ok_def NUM_PLL_REGS_def)
  have r: "board_reg t = (board_reg s)(b := d0, b + 1 := d1, b + 2 := d2, b + 3 := d3)"
    using spi_burst_words(2) [OF conjunct1 [OF a] l refl, of d3 d2 d1 d0] a
    by (simp add: board_reg_def t(4) s2(4) s1(4) s0(4))
  have "write_pll_words ?H a d0 d1 d2 d3 s = (Inr (), t)"
    by (simp add: write_pll_words_def bindE_def s0(1) s1(1) s2(1) t(1))
  then show ?thesis
    using b t(2,3) s2(3) s1(3) s0(3) unfolding a_def [symmetric]
    by (intro exI [of _ t]) (auto simp add: host.changes_def r)
qed

interpretation host_pll: lms_pll "host_lms fpga_usb speed caps" board_reg board_gpio "link_ok speed sense"
proof
  fix s :: "'z link" and b d0 d1 d2 d3
  assume s: "link_ok speed sense s" and b: "b = (0x10 :: u8) \<or> b = 0x20"
  show "\<exists>t. write_pll_words (host_lms fpga_usb speed caps)
       (if dev_atomic_pll (host_lms fpga_usb speed caps) then b OR 0x80 else b) d0 d1 d2 d3 s = (Inr (), t) \<and>
     host.changes speed sense {b, b + 1, b + 2, b + 3} s t \<and>
     board_reg t b = d0 \<and> board_reg t (b + 1) = d1 \<and> board_reg t (b + 2) = d2 \<and> board_reg t (b + 3) = d3"
    using host_pll_burst [OF s b, of caps] host.pll_words_one_by_one [OF s b, of caps] by simp
qed

section \<open>A link at rest\<close>

definition idle_link :: "sense \<Rightarrow> board nios" where
  "idle_link sense = \<lparr> nios_hw = (quiet_board 0)\<lparr>bd_lms := (bd_lms (quiet_board 0))
       \<lparr>spi_chip := quiet_chip\<lparr>chip_sense := sense\<rparr>\<rparr>\<rparr>,
     nios_isr = (\<lambda>_. None), nios_irq_enabled = (\<lambda>_. False), vctcxo_trim_dac_value = 0,
     vctcxo_tamer_ctrl_reg = 0, rx_queue = empty_ring, tx_queue = empty_ring,
     rd_n = 0, rd_payload = 0, rd_last_param = CONFIG_UNKNOWN, wr_payload = 0, wr_n = 0,
     wr_last_param = CONFIG_UNKNOWN,
     pkt_req = replicate 16 0, pkt_resp = replicate 16 0, pkt_ready = False,
     vctcxo_tamer_pkt = \<lparr> vt_ready = False, vt_pps_1s_error = 0, vt_pps_1s_error_flag = False,
       vt_pps_10s_error = 0, vt_pps_10s_error_flag = False, vt_pps_100s_error = 0, vt_pps_100s_error_flag = False \<rparr>,
     tune_state = COARSE_TUNE_MIN,
     trimdac_cal_line = \<lparr> point0_x = 0, point0_y = 0, point1_x = 0, point1_y = 0, line_slope = 0,
       line_y_intercept = 0 \<rparr> \<rparr>"

lemma idle_link_ok: "link_ok BLADERF_DEVICE_SPEED_SUPER sense (idle_link sense)"
  by (simp add: link_ok_def board_ok_def board_sense_def idle_link_def quiet_board_def NUM_PLL_REGS_def dma_ok_def board_gpio_def)

end
