(* ===== verification/Link_Tuning.thy ===== *)
theory Link_Tuning
  imports Link_Access
begin

text \<open>
  Tuning a module over the whole stack: lms_set_frequency on the host's device handle, through the
  packet formats, the firmware's handlers and the SPI controller to the registers of the RF chip.
  The chip's VTUNE comparators are the one thing the board does not fix; \<open>board_locks\<close> says that
  they answer like an ideal loop once the words of a frequency are loaded.
\<close>

unbundle bit_operations_syntax

definition board_locks :: "sense \<Rightarrow> u8 \<Rightarrow> lms_freq \<Rightarrow> nat \<Rightarrow> nat \<Rightarrow> bool" where
  "board_locks sense base g hi lo \<longleftrightarrow> 1 \<le> hi \<and> hi \<le> lo \<and> lo \<le> 62 \<and>
     (\<forall>r n. pll_loaded base g r \<longrightarrow>
        drop_bit 6 (sense r n (base + 10)) = vco_comparator hi lo (unat (r (base + 9) AND 0x3f)))"

lemma host_reads_sense:
  assumes "link_ok speed sense u" "base = 0x10 \<or> base = 0x20"
  shows "\<exists>n. snd (fst (dev_lms_read (host_lms fpga_usb speed caps) (base + 10) u)) = sense (board_reg u) n (base + 10)"
proof -
  obtain req resp where r: "dev_lms_read (host_lms fpga_usb speed caps) (base + 10) u =
    ((0, fst (lms6_read board_bus (base + 10) (asked req u))),
     answered resp (snd (lms6_read board_bus (base + 10) (asked req u))))"
    using host_lms_read [OF assms(1)] by blast
  have a: "lms_addr (base + 10)" "lms_volatile (base + 10)"
    using assms(2) by (auto simp add: lms_volatile_def)
  have "length (shift_out_reg (bd_lms (nios_hw u))) = NUM_PLL_REGS" "board_sense u = sense"
    using assms(1) by (simp_all add: link_ok_def board_ok_def)
  then show ?thesis
    using a spi_access_single(2) [OF a(1), of "bd_lms (nios_hw u)" False 0]
    by (auto simp add: r board_lms6_read chip_msg_def chip_read_def board_reg_def board_sense_def)
qed

lemma host_locks:
  assumes "board_locks sense base g hi lo" "base = 0x10 \<or> base = 0x20"
  shows "host_pll.vco_locks TYPE('z) speed caps sense base g hi lo"
  unfolding host_pll.vco_locks_def
proof (intro conjI allI impI)
  fix u :: "'z link"
  assume u: "link_ok speed sense u" "pll_loaded base g (board_reg u)"
  obtain n where "snd (fst (dev_lms_read (host_lms fpga_usb speed caps) (base + 10) u)) = sense (board_reg u) n (base + 10)"
    using host_reads_sense [OF u(1) assms(2)] by blast
  then show "drop_bit 6 (snd (fst (dev_lms_read (host_lms fpga_usb speed caps) (base + 10) u))) =
      vco_comparator hi lo (unat (board_reg u (base + 9) AND 0x3f))"
    using assms(1) u(2) by (simp add: board_locks_def)
qed (use assms(1) in \<open>simp_all add: board_locks_def\<close>)

text \<open>The words of a frequency, as the calculation leaves them.\<close>

definition tuning_words :: "u32 \<Rightarrow> lms_freq" where
  "tuning_words freq = snd (lms_calculate_tuning_params freq lms_freq_uninit)"

lemma tuning_words_tuned:
  obtains b k where "tuned (clamp_frequency freq) b lms_freq_uninit (tuning_words freq) k"
    "lf_vcocap (tuning_words freq) \<le> 0x3f" "lf_flags (tuning_words freq) AND LMS_FREQ_FLAGS_FORCE_VCOCAP = 0"
  by (rule tuning_params_runs_vcocap [of freq lms_freq_uninit]) (auto simp add: tuning_words_def)

lemma vcocap_bits: "v \<le> 0x3f \<Longrightarrow> ((v :: u8) OR (w AND 0xc0)) AND 0x3f = v"
  using u8_le_3f [of v] by (simp add: word8_eq_iff bit_simps)

lemma host_set_frequency_locks:
  fixes s :: "'z link"
  assumes s: "link_ok speed sense s" and m: "m \<noteq> BLADERF_MODULE_INVALID"
    and lock: "board_locks sense (pll_base m) (tuning_words freq) hi lo"
    and near: "hi \<le> est + 20" "est < hi + 20" "est \<le> lo + 20" "est = unat (lf_vcocap (tuning_words freq))"
  shows "\<exists>t. lms_set_frequency (host_lms fpga_usb speed caps) m freq s = (Inr (), t) \<and> link_ok speed sense t \<and>
    pll_loaded (pll_base m) (tuning_words freq) (board_reg t) \<and>
    board_reg t (pll_base m + 9) AND 0x3f = of_nat ((hi + lo) div 2)"
proof -
  obtain b k where g: "lf_vcocap (tuning_words freq) \<le> 0x3f"
      "lf_flags (tuning_words freq) AND LMS_FREQ_FLAGS_FORCE_VCOCAP = 0"
    by (rule tuning_words_tuned)
  have e: "lf_vcocap (tuning_words freq) = of_nat est" "est \<le> 63"
    using g(1) near(4) by (simp_all add: word_le_nat_alt)
  have hl: "hi \<le> lo" "lo \<le> 62" using lock by (simp_all add: board_locks_def)
  obtain t where t: "lms_set_precalculated_frequency (host_lms fpga_usb speed caps) m (tuning_words freq) s
      = (Inr (0, (tuning_words freq)\<lparr>lf_vcocap_result := of_nat ((hi + lo) div 2)\<rparr>), t)" "link_ok speed sense t"
    "pll_loaded (pll_base m) (tuning_words freq) (board_reg t)"
    "board_reg t (pll_base m + 9) = of_nat ((hi + lo) div 2) OR (board_reg s (pll_base m + 9) AND 0xc0)"
    using host_pll.lms_set_precalculated_frequency_locks [OF s m g(2) e host_locks [OF lock host_pll.pll_base_cases] near(1-3)]
    by blast
  have "(hi + lo) div 2 \<le> 63" using hl by simp
  then have "(of_nat ((hi + lo) div 2) :: u8) \<le> 0x3f" by (simp only: word_le_nat_alt u8_of_nat_le) simp
  then have "board_reg t (pll_base m + 9) AND 0x3f = of_nat ((hi + lo) div 2)"
    unfolding t(4) by (rule vcocap_bits)
  moreover have "lms_set_frequency (host_lms fpga_usb speed caps) m freq s = (Inr (), t)"
    using t(1) by (simp add: lms_set_frequency_def bindE_def tuning_words_def)
  ultimately show ?thesis using t(2,3) by blast
qed

text \<open>C1: Tuning works through the whole stack.  On a board whose loop locks for the words of a
  frequency between two VCOCAP values that are not further than twenty from the estimate, lms_set_frequency
  from the host succeeds, leaves VCOCAP at the middle of the range, and lms_get_frequency then reads
  words back that convert to within 1 Hz of the requested frequency clamped to the range of the device
  (except for the frequencies whose fraction does not fit its field).\<close>

theorem set_frequency_tunes:
  fixes s :: "'z link"
  assumes "link_ok speed sense s" "m \<noteq> BLADERF_MODULE_INVALID"
    and "board_locks sense (pll_base m) (tuning_words freq) hi lo"
    and "hi \<le> est + 20" "est < hi + 20" "est \<le> lo + 20" "est = unat (lf_vcocap (tuning_words freq))"
    and "lf_nfrac (tuning_words freq) < 0x800000"
  shows "\<exists>t u f'. lms_set_frequency (host_lms fpga_usb speed caps) m freq s = (Inr (), t) \<and>
    lms_get_frequency (host_lms fpga_usb speed caps) m f t = (Inr f', u) \<and>
    lf_vcocap f' = of_nat ((hi + lo) div 2) \<and>
    \<bar>uint (lms_frequency_to_hz f') - uint (clamp_frequency freq)\<bar> \<le> 1"
proof -
  obtain t where t: "lms_set_frequency (host_lms fpga_usb speed caps) m freq s = (Inr (), t)" "link_ok speed sense t"
    "pll_loaded (pll_base m) (tuning_words freq) (board_reg t)"
    "board_reg t (pll_base m + 9) AND 0x3f = of_nat ((hi + lo) div 2)"
    using host_set_frequency_locks [OF assms(1-7)] by blast
  obtain b k where g: "tuned (clamp_frequency freq) b lms_freq_uninit (tuning_words freq) k"
    by (rule tuning_words_tuned)
  obtain u f' where f': "lms_get_frequency (host_lms fpga_usb speed caps) m f t = (Inr f', u)"
      "lf_nint f' = lf_nint (tuning_words freq)" "lf_nfrac f' = lf_nfrac (tuning_words freq) AND 0x7fffff"
      "lf_x f' = lf_x (tuning_words freq)" "lf_vcocap f' = board_reg t (pll_base m + 9) AND 0x3f"
    by (rule host_pll.set_then_get [OF t(2,3) g, where f = f and caps = caps])
  have hz: "lms_frequency_to_hz f' = lms_frequency_to_hz (tuning_words freq)"
    using f'(2-4) word_field_23 [OF assms(8)] by (intro lms_frequency_to_hz_cong) simp_all
  have "\<bar>uint (lms_frequency_to_hz f') - uint (clamp_frequency freq)\<bar> \<le> 1"
    using tuned_hz(1,2) [OF g] unfolding hz uint_nat by linarith
  then show ?thesis using t(1,4) f'(1,5) by auto
qed



text \<open>Just below a multiple of 19.2 MHz above 1.9 GHz the fraction rounds up to one, which the 23 bits
  of the registers cannot hold.\<close>

lemma overflow_hz:
  assumes "tuned c b f0 g k" "1900000000 < c" "(unat c + 1) mod 19200000 = 0"
    and f: "lf_nint f = lf_nint g" "lf_nfrac f = lf_nfrac g AND 0x7fffff" "lf_x f = lf_x g"
  shows "unat (lms_frequency_to_hz f) + 19200000 = unat c + 1"
proof -
  have k: "k = 1" by (rule tuned_divider(2) [OF assms(1,2)])
  have "\<not> unat (lf_nfrac g) < 8388608" using tuned_hz(6) [OF assms(1)] k assms(3) by simp
  then have "unat (lf_nfrac g) = 8388608" using tuned_hz(5) [OF assms(1)] by linarith
  then have "lf_nfrac g = 0x800000" by (simp add: word_unat_eq_iff)
  then have nf: "unat (lf_nfrac f) = 0" by (simp add: f(2))
  have n: "unat (lf_nint f) = 2 * unat c div 38400000" "unat (lf_x f) = 2"
    using assms(1) k by (simp_all add: tuned_def f)
  obtain q where q: "unat c + 1 = 19200000 * q" using assms(3) by (auto simp add: mod_eq_0_iff_dvd dvd_def)
  have q1: "1 \<le> q" using q by (cases q) simp_all
  then have "2 * unat c = 38400000 * (q - 1) + 38399998" using q by (simp add: diff_mult_distrib2)
  then have n': "unat (lf_nint f) = q - 1" unfolding n(1) by simp
  have lt: "unat (lf_nint f) < 512" using tuned_hz(4) [OF assms(1)] by (simp add: f(1))
  have e: "(38400000 * (8388608 * v + 0) + 2 ^ (22 + 1)) div 2 ^ (23 + 1) = 19200000 * v" for v :: nat
  proof -
    have "38400000 * (8388608 * v + 0) + 2 ^ (22 + 1) = 8388608 + (19200000 * v) * (2 :: nat) ^ (23 + 1)"
      by simp
    then show ?thesis by (simp only: div_mult_self1) simp
  qed
  have "19200000 * unat (lf_nint f) \<le> unat c" unfolding n' using q q1 by (simp add: diff_mult_distrib2)
  also have "unat c < 2 ^ 32" using unsigned_less [of c] by simp
  finally have "19200000 * unat (lf_nint f) < 2 ^ 32" .
  then have "unat (lms_frequency_to_hz f) = 19200000 * unat (lf_nint f)"
    using lms_frequency_to_hz_nat [of f 1] lt unfolding nf n(2) e by simp
  then have "unat (lms_frequency_to_hz f) = 19200000 * (q - 1)" unfolding n' .
  then show ?thesis using q q1 by (simp add: diff_mult_distrib2)
qed


text \<open>C7: Tuning goes wrong by 19.2 MHz, with success reported, when the requested frequency is above
  1.9 GHz and 1 Hz below a multiple of 19.2 MHz: the rounded fraction is 2^23, the write of the words
  keeps 23 bits of it, and the frequency read back is 19.2 MHz below the next multiple.\<close>

theorem set_frequency_overflow:
  fixes s :: "'z link"
  assumes "link_ok speed sense s" "m \<noteq> BLADERF_MODULE_INVALID"
    and "board_locks sense (pll_base m) (tuning_words freq) hi lo"
    and "hi \<le> est + 20" "est < hi + 20" "est \<le> lo + 20" "est = unat (lf_vcocap (tuning_words freq))"
    and "1900000000 < clamp_frequency freq" "(unat (clamp_frequency freq) + 1) mod 19200000 = 0"
  shows "\<exists>t u f'. lms_set_frequency (host_lms fpga_usb speed caps) m freq s = (Inr (), t) \<and>
    lms_get_frequency (host_lms fpga_usb speed caps) m f t = (Inr f', u) \<and>
    unat (lms_frequency_to_hz f') + 19200000 = unat (clamp_frequency freq) + 1"
proof -
  obtain t where t: "lms_set_frequency (host_lms fpga_usb speed caps) m freq s = (Inr (), t)" "link_ok speed sense t"
    "pll_loaded (pll_base m) (tuning_words freq) (board_reg t)"
    using host_set_frequency_locks [OF assms(1-7)] by blast
  obtain b k where g: "tuned (clamp_frequency freq) b lms_freq_uninit (tuning_words freq) k"
    by (rule tuning_words_tuned)
  obtain u f' where f': "lms_get_frequency (host_lms fpga_usb speed caps) m f t = (Inr f', u)"
      "lf_nint f' = lf_nint (tuning_words freq)" "lf_nfrac f' = lf_nfrac (tuning_words freq) AND 0x7fffff"
      "lf_x f' = lf_x (tuning_words freq)"
    by (rule host_pll.set_then_get [OF t(2,3) g, where f = f and caps = caps])
  show ?thesis using t(1) f'(1) overflow_hz [OF g assms(8,9) f'(2-4)] by blast
qed


section \<open>Witnesses\<close>

text \<open>A chip whose RX loop locks from \<open>hi\<close> to \<open>lo\<close>.\<close>

definition ideal_sense :: "nat \<Rightarrow> nat \<Rightarrow> sense" where
  "ideal_sense hi lo r n a = push_bit 6 (vco_comparator hi lo (unat (r 0x29 AND 0x3f)))"

lemma ideal_sense_locks:
  "1 \<le> hi \<Longrightarrow> hi \<le> lo \<Longrightarrow> lo \<le> 62 \<Longrightarrow> board_locks (ideal_sense hi lo) (pll_base BLADERF_MODULE_RX) g hi lo"
  by (auto simp add: board_locks_def ideal_sense_def pll_base_def vco_comparator_def)

lemma tuning_words_estimate:
  "15 \<le> unat (lf_vcocap (tuning_words freq))" "unat (lf_vcocap (tuning_words freq)) \<le> 55"
proof -
  obtain b k where g: "tuned (clamp_frequency freq) b lms_freq_uninit (tuning_words freq) k"
    by (rule tuning_words_tuned)
  show "15 \<le> unat (lf_vcocap (tuning_words freq))" "unat (lf_vcocap (tuning_words freq)) \<le> 55"
    using tuned_vcocap [OF g] by (simp_all add: word_le_nat_alt)
qed

lemma clamped [simp]: "clamp_frequency 2450000000 = 2450000000" "clamp_frequency 1919999999 = 1919999999"
  by (simp_all add: clamp_frequency_def)

lemma nfrac_fits: "lf_nfrac (tuning_words 2450000000) < 0x800000"
proof -
  obtain b k where "tuned (clamp_frequency 2450000000) b lms_freq_uninit (tuning_words 2450000000) k"
    by (rule tuning_words_tuned)
  from tuned_hz(6) [OF this] show ?thesis by (simp add: word_less_nat_alt)
qed

theorem set_frequency_tunes_witness:
  "\<exists>(s :: board nios) t u f'. lms_set_frequency (host_lms fpga_usb BLADERF_DEVICE_SPEED_SUPER 0x40) BLADERF_MODULE_RX 2450000000 s = (Inr (), t) \<and>
    lms_get_frequency (host_lms fpga_usb BLADERF_DEVICE_SPEED_SUPER 0x40) BLADERF_MODULE_RX lms_freq_uninit t = (Inr f', u) \<and>
    \<bar>uint (lms_frequency_to_hz f') - 2450000000\<bar> \<le> 1"
proof -
  let ?est = "unat (lf_vcocap (tuning_words 2450000000))"
  note e = tuning_words_estimate [of 2450000000]
  have "board_locks (ideal_sense ?est (?est + 4)) (pll_base BLADERF_MODULE_RX) (tuning_words 2450000000) ?est (?est + 4)"
    using e by (intro ideal_sense_locks) simp_all
  from set_frequency_tunes [OF idle_link_ok _ this _ _ _ refl nfrac_fits, of "0x40" lms_freq_uninit] show ?thesis
    by auto
qed

theorem set_frequency_overflow_witness:
  "\<exists>(s :: board nios) t u f'. lms_set_frequency (host_lms fpga_usb BLADERF_DEVICE_SPEED_SUPER 0x40) BLADERF_MODULE_RX 1919999999 s = (Inr (), t) \<and>
    lms_get_frequency (host_lms fpga_usb BLADERF_DEVICE_SPEED_SUPER 0x40) BLADERF_MODULE_RX lms_freq_uninit t = (Inr f', u) \<and>
    unat (lms_frequency_to_hz f') = 1900800000"
proof -
  let ?est = "unat (lf_vcocap (tuning_words 1919999999))"
  note e = tuning_words_estimate [of 1919999999]
  have "board_locks (ideal_sense ?est (?est + 4)) (pll_base BLADERF_MODULE_RX) (tuning_words 1919999999) ?est (?est + 4)"
    using e by (intro ideal_sense_locks) simp_all
  from set_frequency_overflow [OF idle_link_ok _ this _ _ _ refl, of "0x40" lms_freq_uninit] show ?thesis
    by auto
qed


end
