(* ===== verification/Link_Devices.thy ===== *)
theory Link_Devices
  imports Link_Access
begin

text \<open>
  What the remaining host functions of nios_access.c achieve on the board: the IQ corrections, the
  expansion port, timestamps, the VCTCXO tamer mode, the FPGA version, and the trim DAC and synthesizer
  words as they appear on the SPI bus.
\<close>

unbundle bit_operations_syntax

section \<open>Devices behind the parallel ports\<close>

lemma board_pio:
  "IORD_PIO_DATA board_bus base s = (if base = COMMAND_UART_BASE then bd_uart_req (nios_hw s) 0 else bd_pio (nios_hw s) base, s)"
  "base \<noteq> COMMAND_UART_BASE \<Longrightarrow> IOWR_PIO_DATA board_bus base d s =
     ((), s\<lparr>nios_hw := (nios_hw s)\<lparr>bd_pio := (bd_pio (nios_hw s))(base := d)\<rparr>\<rparr>)"
  by (simp_all add: IORD_PIO_DATA_def IOWR_PIO_DATA_def IORD_32DIRECT_def IOWR_32DIRECT_def on_hw_def
      board_read32_def board_write32_def)

text \<open>Request and answer leave the parallel ports alone.\<close>

definition pio :: "(board, 'z) nios_dev_scheme \<Rightarrow> avalon_base \<Rightarrow> u32" where
  "pio s = bd_pio (nios_hw s)"

lemma pio_frame [simp]: "pio (answered resp s) = pio s" "pio (asked req s) = pio s"
  by (simp_all add: pio_def)

definition resp_ok :: "'z link \<Rightarrow> bool" where
  "resp_ok s \<longleftrightarrow> length (pkt_resp s) = 16"

lemma resp_ok_answered [simp]: "resp_ok (answered resp s) \<longleftrightarrow> length resp = 16"
  by (simp add: resp_ok_def)

abbreviation iq_base :: "bladerf_module \<Rightarrow> avalon_base" where
  "iq_base m \<equiv> (if m = BLADERF_MODULE_RX then IQ_CORR_RX_PHASE_GAIN_BASE else IQ_CORR_TX_PHASE_GAIN_BASE)"

lemma iqbal_board:
  "iqbal_get_gain board_bus m s = (ucast (pio s (iq_base m)), s)"
  "iqbal_get_phase board_bus m s = (ucast (drop_bit 16 (pio s (iq_base m))), s)"
  "iqbal_set_gain board_bus m d s = ((), s\<lparr>nios_hw := (nios_hw s)\<lparr>bd_pio := (bd_pio (nios_hw s))
     (iq_base m := (pio s (iq_base m) AND 0xffff0000) OR ucast d)\<rparr>\<rparr>)"
  "iqbal_set_phase board_bus m d s = ((), s\<lparr>nios_hw := (nios_hw s)\<lparr>bd_pio := (bd_pio (nios_hw s))
     (iq_base m := (pio s (iq_base m) AND 0x0000ffff) OR push_bit 16 (ucast d))\<rparr>\<rparr>)"
  by (simp_all add: iqbal_get_gain_def iqbal_get_phase_def iqbal_set_gain_def iqbal_set_phase_def bindS_apply
      module_to_iqcorr_base_def board_pio pio_def)

lemma iq_reads:
  fixes s :: "'z link"
  assumes "resp_ok s" "m \<noteq> BLADERF_MODULE_INVALID"
  shows "\<exists>t. nios_get_iq_gain_correction fpga_usb m s = (Inr (sint (ucast (pio s (iq_base m)) :: u16)), t) \<and>
      resp_ok t \<and> pio t = pio s"
    "\<exists>t. nios_get_iq_phase_correction fpga_usb m s = (Inr (sint (ucast (drop_bit 16 (pio s (iq_base m))) :: u16)), t) \<and>
      resp_ok t \<and> pio t = pio s"
proof -
  have r: "\<exists>t. nios_8x16_read fpga_usb NIOS_PKT_8x16_TARGET_IQ_CORR addr s = (Inr d, t) \<and> resp_ok t \<and> pio t = pio s"
    if "\<And>u :: 'z link. pio u = pio s \<Longrightarrow> iq_corr_read board_bus addr 0 u = ((True, d), u)" for addr d
  proof -
    let ?req = "nios_pkt_8x16_pack stack_buf NIOS_PKT_8x16_TARGET_IQ_CORR False addr 0"
    have "perform_read_8x16 board_bus NIOS_PKT_8x16_TARGET_IQ_CORR addr 0 (asked ?req s) = ((True, d), asked ?req s)"
      by (simp add: perform_read_8x16_def bindS_apply that)
    from nios_8x16_read_link [OF _ this] assms(1) show ?thesis
      by (auto simp add: resp_ok_def)
  qed
  show "\<exists>t. nios_get_iq_gain_correction fpga_usb m s = (Inr (sint (ucast (pio s (iq_base m)) :: u16)), t) \<and>
      resp_ok t \<and> pio t = pio s"
    using assms(2) r [of NIOS_PKT_8x16_ADDR_IQ_CORR_RX_GAIN "ucast (pio s (iq_base m))"]
      r [of NIOS_PKT_8x16_ADDR_IQ_CORR_TX_GAIN "ucast (pio s (iq_base m))"]
    by (cases m) (auto simp add: nios_get_iq_gain_correction_def iq_corr_read_def bindS_apply iqbal_board bindE_def)
  show "\<exists>t. nios_get_iq_phase_correction fpga_usb m s = (Inr (sint (ucast (drop_bit 16 (pio s (iq_base m))) :: u16)), t) \<and>
      resp_ok t \<and> pio t = pio s"
    using assms(2) r [of NIOS_PKT_8x16_ADDR_IQ_CORR_RX_PHASE "ucast (drop_bit 16 (pio s (iq_base m)))"]
      r [of NIOS_PKT_8x16_ADDR_IQ_CORR_TX_PHASE "ucast (drop_bit 16 (pio s (iq_base m)))"]
    by (cases m) (auto simp add: nios_get_iq_phase_correction_def iq_corr_read_def bindS_apply iqbal_board bindE_def)
qed

lemma iq_writes:
  fixes s :: "'z link"
  assumes "resp_ok s" "m \<noteq> BLADERF_MODULE_INVALID"
  shows "\<exists>t. nios_set_iq_gain_correction fpga_usb m v s = (Inr (), t) \<and> resp_ok t \<and>
      pio t = (pio s)(iq_base m := (pio s (iq_base m) AND 0xffff0000) OR ucast (word_of_int v :: u16))"
    "\<exists>t. nios_set_iq_phase_correction fpga_usb m v s = (Inr (), t) \<and> resp_ok t \<and>
      pio t = (pio s)(iq_base m := (pio s (iq_base m) AND 0x0000ffff) OR push_bit 16 (ucast (word_of_int v :: u16)))"
proof -
  have w: "\<exists>t. nios_8x16_write fpga_usb NIOS_PKT_8x16_TARGET_IQ_CORR addr d s = (Inr (), t) \<and> resp_ok t \<and> pio t = p"
    if "\<And>u :: 'z link. pio u = pio s \<Longrightarrow> pio (snd (iq_corr_write board_bus addr d u)) = p" for addr d p
  proof -
    let ?req = "nios_pkt_8x16_pack stack_buf NIOS_PKT_8x16_TARGET_IQ_CORR True addr d"
    have "perform_write_8x16 board_bus NIOS_PKT_8x16_TARGET_IQ_CORR addr d (asked ?req s) =
        (True, snd (iq_corr_write board_bus addr d (asked ?req s)))"
      by (simp add: perform_write_8x16_def bindS_apply)
    from nios_8x16_write_link [OF _ this] assms(1) show ?thesis
      using that [of "asked ?req s"] by (auto simp add: resp_ok_def)
  qed
  show "\<exists>t. nios_set_iq_gain_correction fpga_usb m v s = (Inr (), t) \<and> resp_ok t \<and>
      pio t = (pio s)(iq_base m := (pio s (iq_base m) AND 0xffff0000) OR ucast (word_of_int v :: u16))"
    using assms(2) by (cases m) (simp_all add: nios_set_iq_gain_correction_def, (rule w,
      simp add: iq_corr_write_def bindS_apply iqbal_board, simp add: pio_def)+)
  show "\<exists>t. nios_set_iq_phase_correction fpga_usb m v s = (Inr (), t) \<and> resp_ok t \<and>
      pio t = (pio s)(iq_base m := (pio s (iq_base m) AND 0x0000ffff) OR push_bit 16 (ucast (word_of_int v :: u16)))"
    using assms(2) by (cases m) (simp_all add: nios_set_iq_phase_correction_def, (rule w,
      simp add: iq_corr_write_def bindS_apply iqbal_board, simp add: pio_def)+)
qed


lemma iq_word_fields:
  "ucast ((w AND 0xffff0000) OR ucast (d :: u16) :: u32) = d"
  "ucast (drop_bit 16 ((w AND 0x0000ffff) OR push_bit 16 (ucast d) :: u32)) = d"
  "ucast (drop_bit 16 ((w AND 0xffff0000) OR ucast d :: u32)) = (ucast (drop_bit 16 w) :: u16)"
  "ucast ((w AND 0x0000ffff) OR push_bit 16 (ucast d) :: u32) = (ucast w :: u16)"
  by (simp_all add: word16_eq_iff bit_simps bit_word_high)

lemma sint16_small: "- 32768 \<le> v \<Longrightarrow> v < 32768 \<Longrightarrow> sint (word_of_int v :: u16) = v"
  by (simp add: sint_sbintrunc' signed_take_bit_int_eq_self)

text \<open>C12: IQ corrections set from the host are read back by the host.  For both modules and all int16_t
  values, the gain and the phase set one after the other both read back, although they share one
  register of the FPGA, and no other parallel port has changed.\<close>

theorem iq_corrections_set_get:
  fixes s :: "'z link"
  assumes "resp_ok s" "m \<noteq> BLADERF_MODULE_INVALID"
    and "- 32768 \<le> g" "g < 32768" "- 32768 \<le> p" "p < 32768"
  shows "\<exists>t1 t2 t3 t4. nios_set_iq_gain_correction fpga_usb m g s = (Inr (), t1) \<and>
    nios_set_iq_phase_correction fpga_usb m p t1 = (Inr (), t2) \<and>
    nios_get_iq_gain_correction fpga_usb m t2 = (Inr g, t3) \<and>
    nios_get_iq_phase_correction fpga_usb m t3 = (Inr p, t4) \<and>
    (\<forall>b. b \<noteq> iq_base m \<longrightarrow> pio t4 b = pio s b)"
proof -
  obtain t1 where t1: "nios_set_iq_gain_correction fpga_usb m g s = (Inr (), t1)" "resp_ok t1"
      "pio t1 = (pio s)(iq_base m := (pio s (iq_base m) AND 0xffff0000) OR ucast (word_of_int g :: u16))"
    using iq_writes(1) [OF assms(1,2)] by blast
  obtain t2 where t2: "nios_set_iq_phase_correction fpga_usb m p t1 = (Inr (), t2)" "resp_ok t2"
      "pio t2 = (pio t1)(iq_base m := (pio t1 (iq_base m) AND 0x0000ffff) OR push_bit 16 (ucast (word_of_int p :: u16)))"
    using iq_writes(2) [OF t1(2) assms(2)] by blast
  obtain t3 where t3: "nios_get_iq_gain_correction fpga_usb m t2 = (Inr (sint (ucast (pio t2 (iq_base m)) :: u16)), t3)"
      "resp_ok t3" "pio t3 = pio t2"
    using iq_reads(1) [OF t2(2) assms(2)] by blast
  obtain t4 where t4: "nios_get_iq_phase_correction fpga_usb m t3 =
      (Inr (sint (ucast (drop_bit 16 (pio t3 (iq_base m))) :: u16)), t4)" "pio t4 = pio t3"
    using iq_reads(2) [OF t3(2) assms(2)] by blast
  have "ucast (pio t2 (iq_base m)) = (word_of_int g :: u16)"
    by (simp only: t2(3) t1(3) fun_upd_same iq_word_fields)
  moreover have "ucast (drop_bit 16 (pio t3 (iq_base m))) = (word_of_int p :: u16)"
    by (simp only: t3(3) t2(3) fun_upd_same iq_word_fields)
  moreover have "\<forall>b. b \<noteq> iq_base m \<longrightarrow> pio t4 b = pio s b"
    by (simp add: t4(2) t3(3) t2(3) t1(3))
  ultimately show ?thesis
    using t1(1) t2(1) t3(1) t4(1) sint16_small [OF assms(3,4)] sint16_small [OF assms(5,6)] by auto
qed

theorem iq_corrections_set_get_witness:
  "\<exists>t1 t2 t3 t4 :: board nios. nios_set_iq_gain_correction fpga_usb BLADERF_MODULE_TX (-100) (idle_link (\<lambda>_ _ _. 0)) = (Inr (), t1) \<and>
    nios_set_iq_phase_correction fpga_usb BLADERF_MODULE_TX 4095 t1 = (Inr (), t2) \<and>
    nios_get_iq_gain_correction fpga_usb BLADERF_MODULE_TX t2 = (Inr (-100), t3) \<and>
    nios_get_iq_phase_correction fpga_usb BLADERF_MODULE_TX t3 = (Inr 4095, t4)"
  using iq_corrections_set_get [of "idle_link (\<lambda>_ _ _. 0)" BLADERF_MODULE_TX "-100" 4095]
  by (fastforce simp add: resp_ok_def idle_link_def)

section \<open>The expansion port\<close>

lemma expansion_board:
  "expansion_port_read board_bus s = (pio s XB_GPIO_BASE, s)"
  "expansion_port_get_direction board_bus s = (pio s XB_GPIO_DIR_BASE, s)"
  "expansion_port_write board_bus d s = ((), s\<lparr>nios_hw := (nios_hw s)\<lparr>bd_pio := (pio s)(XB_GPIO_BASE := d)\<rparr>\<rparr>)"
  "expansion_port_set_direction board_bus d s =
     ((), s\<lparr>nios_hw := (nios_hw s)\<lparr>bd_pio := (pio s)(XB_GPIO_DIR_BASE := d)\<rparr>\<rparr>)"
  by (simp_all add: expansion_port_read_def expansion_port_get_direction_def expansion_port_write_def
      expansion_port_set_direction_def board_pio pio_def)

definition exp_target :: "u8 \<Rightarrow> avalon_base" where
  "exp_target target = (if target = NIOS_PKT_32x32_TARGET_EXP then XB_GPIO_BASE else XB_GPIO_DIR_BASE)"

lemma masked_write_link:
  fixes s :: "'z link"
  assumes "resp_ok s" "target = NIOS_PKT_32x32_TARGET_EXP \<or> target = NIOS_PKT_32x32_TARGET_EXP_DIR"
  shows "\<exists>t. nios_32x32_masked_write fpga_usb target bits val s = (Inr (), t) \<and> resp_ok t \<and>
    pio t = (pio s)(exp_target target := (pio s (exp_target target) AND NOT bits) OR (val AND bits))"
proof -
  let ?req = "nios_pkt_32x32_pack stack_buf target True bits val"
  let ?u = "asked ?req s"
  have ff: "w AND - 4294967296 OR v AND 4294967295 = v" for w v :: u32
    by (simp add: word32_eq_iff bit_simps)
  have "perform_write_32x32 board_bus target bits val ?u =
      (True, ?u\<lparr>nios_hw := (nios_hw ?u)\<lparr>bd_pio := (pio s)(exp_target target := (pio s (exp_target target) AND NOT bits) OR (val AND bits))\<rparr>\<rparr>)"
    using assms(2) by (auto simp add: perform_write_32x32_def bindS_apply expansion_board exp_target_def ff)
  from nios_32x32_write_link [OF _ this] assms(1) show ?thesis
    by (auto simp add: resp_ok_def pio_def)
qed

lemma masked_read_link:
  fixes s :: "'z link"
  assumes "resp_ok s" "target = NIOS_PKT_32x32_TARGET_EXP \<or> target = NIOS_PKT_32x32_TARGET_EXP_DIR"
  shows "\<exists>t. nios_32x32_masked_read fpga_usb target bits s = (Inr (pio s (exp_target target) AND bits), t) \<and>
    resp_ok t \<and> pio t = pio s"
proof -
  let ?req = "nios_pkt_32x32_pack stack_buf target False bits 0"
  have "perform_read_32x32 board_bus target bits 0 (asked ?req s) =
      ((True, pio s (exp_target target) AND bits), asked ?req s)"
    using assms(2) by (auto simp add: perform_read_32x32_def bindS_apply expansion_board exp_target_def)
  from nios_32x32_read_link [OF _ this] assms(1) show ?thesis
    by (auto simp add: resp_ok_def)
qed




section \<open>Timestamps\<close>



section \<open>The VCTCXO tamer\<close>

lemma tamer_ctrl_board:
  "tamer_ctrl board_bus f s = ((), s\<lparr>vctcxo_tamer_ctrl_reg := f (vctcxo_tamer_ctrl_reg s),
     nios_hw := (nios_hw s)\<lparr>bd_vctcxo_ctrl := f (vctcxo_tamer_ctrl_reg s)\<rparr>\<rparr>)"
  by (simp add: tamer_ctrl_def bindS_apply vctcxo_tamer_write_def IOWR_8DIRECT_def on_hw_def board_write8_def)

text \<open>The control byte after a mode has been set.\<close>

definition mode_ctrl :: "int \<Rightarrow> u8 \<Rightarrow> u8" where
  "mode_ctrl mode r = (let r = (r AND NOT 0x10 AND NOT 0xc0) OR push_bit 6 (word_of_int mode) in
     if mode = 0 then r OR 1 else (r AND NOT 1) OR 0x10)"

lemma set_tune_mode_board:
  assumes "mode \<in> {0, 1, 2}"
  shows "vctcxo_tamer_set_tune_mode board_bus mode s = ((), s\<lparr>vctcxo_tamer_ctrl_reg := mode_ctrl mode (vctcxo_tamer_ctrl_reg s),
     nios_hw := (nios_hw s)\<lparr>bd_vctcxo_ctrl := mode_ctrl mode (vctcxo_tamer_ctrl_reg s)\<rparr>\<rparr>)"
proof -
  have "(r AND - 17) AND - 193 OR 1 = (r AND - 209 OR 1 :: u8)"
    "(((r AND - 17) AND - 193 OR 64) OR 1) AND - 2 OR 16 = ((r AND - 209 OR 64) AND - 2 OR 16 :: u8)"
    "(((r AND - 17) AND - 193 OR 128) OR 1) AND - 2 OR 16 = ((r AND - 209 OR 128) AND - 2 OR 16 :: u8)" for r
    by (simp_all add: word8_eq_iff bit_simps)
  then show ?thesis using assms
    by (auto simp add: vctcxo_tamer_set_tune_mode_def bindS_apply vctcxo_tamer_enable_isr_def
        vctcxo_tamer_reset_counters_def tamer_ctrl_board mode_ctrl_def Let_def)
qed

lemma mode_ctrl_fields:
  "mode \<in> {0, 1, 2} \<Longrightarrow> uint (drop_bit 6 (mode_ctrl mode r AND 0xc0)) = mode"
  "mode \<in> {0, 1, 2} \<Longrightarrow> bit (mode_ctrl mode r) 4 = (mode \<noteq> 0)"
  "mode \<in> {0, 1, 2} \<Longrightarrow> bit (mode_ctrl mode r) 0 = (mode = 0)"
proof -
  assume m: "mode \<in> {0, 1, 2}"
  have "drop_bit 6 (mode_ctrl mode r AND 0xc0) = word_of_int mode"
    using m by (auto simp add: mode_ctrl_def Let_def word8_eq_iff bit_simps)
  then show "uint (drop_bit 6 (mode_ctrl mode r AND 0xc0)) = mode"
    using m by auto
  show "bit (mode_ctrl mode r) 4 = (mode \<noteq> 0)" "bit (mode_ctrl mode r) 0 = (mode = 0)"
    using m by (auto simp add: mode_ctrl_def Let_def bit_simps)
qed

text \<open>The taming mode of the VCTCXO set from the host reads back, and the tamer is left in the state the
  mode asks for: disabled means counters held in reset and no interrupt, the other two
  modes mean counters running and the interrupt enabled.  An FPGA without the capability is left
  alone.\<close>

lemma tamer_mode_set_get:
  fixes s :: "'z link"
  assumes "resp_ok s" "mode \<in> {BLADERF_VCTCXO_TAMER_DISABLED, BLADERF_VCTCXO_TAMER_1_PPS, BLADERF_VCTCXO_TAMER_10_MHZ}"
  shows "if have_cap caps BLADERF_CAP_VCTCXO_TAMING_MODE then
      \<exists>t u. nios_set_vctcxo_tamer_mode fpga_usb caps mode s = (Inr (), t) \<and>
        nios_get_vctcxo_tamer_mode fpga_usb caps t = (Inr mode, u) \<and>
        bit (bd_vctcxo_ctrl (nios_hw t)) 4 = (mode \<noteq> 0) \<and> bit (bd_vctcxo_ctrl (nios_hw t)) 0 = (mode = 0)
    else nios_set_vctcxo_tamer_mode fpga_usb caps mode s = (Inl BLADERF_ERR_UNSUPPORTED, s) \<and>
      nios_get_vctcxo_tamer_mode fpga_usb caps s = (Inl BLADERF_ERR_UNSUPPORTED, s)"
proof (cases "have_cap caps BLADERF_CAP_VCTCXO_TAMING_MODE")
  case False
  then show ?thesis by (simp add: nios_set_vctcxo_tamer_mode_def nios_get_vctcxo_tamer_mode_def)
next
  case True
  let ?T = NIOS_PKT_8x8_TARGET_VCTCXO_TAMER
  let ?wr = "nios_pkt_8x8_pack stack_buf ?T True 0xff (word_of_int mode)"
  let ?rd = "nios_pkt_8x8_pack stack_buf ?T False 0xff 0"
  have mode: "mode \<in> {0, 1, 2}" "uint (word_of_int mode :: u8) = mode"
    using assms(2) by auto
  have "perform_write_8x8 board_bus ?T 0xff (word_of_int mode) (asked ?wr s) =
      Some (True, snd (vctcxo_tamer_set_tune_mode board_bus mode (asked ?wr s)))"
    by (simp add: perform_write_8x8_def mode(2) del: uint_word_of_int_eq)
  from nios_8x8_write_link [OF _ this] assms(1) obtain wr where wr: "length wr = 16"
      "nios_set_vctcxo_tamer_mode fpga_usb caps mode s =
        (Inr (), answered wr (snd (vctcxo_tamer_set_tune_mode board_bus mode (asked ?wr s))))"
    using True by (auto simp add: nios_set_vctcxo_tamer_mode_def resp_ok_def)
  define t where "t = answered wr (snd (vctcxo_tamer_set_tune_mode board_bus mode (asked ?wr s)))"
  have c: "bd_vctcxo_ctrl (nios_hw t) = mode_ctrl mode (vctcxo_tamer_ctrl_reg (asked ?wr s))"
    by (simp add: t_def set_tune_mode_board [OF mode(1)] answered_def command_uart_write_response_def bindS_apply
        IOWR_32DIRECT_def on_hw_def board_write32_def)
  have "vctcxo_tamer_get_tune_mode board_bus (asked ?rd t) =
      (mode, (asked ?rd t)\<lparr>nios_hw := (nios_hw (asked ?rd t))\<lparr>bd_time := Suc (bd_time (nios_hw (asked ?rd t)))\<rparr>\<rparr>)"
    using mode_ctrl_fields(1) [OF mode(1)] mode(1)
    by (simp add: vctcxo_tamer_get_tune_mode_def bindS_apply vctcxo_tamer_read_def IORD_8DIRECT_def on_hw_def
        board_read8_def asked_def uart_receive_def c Let_def)
  then have "perform_read_8x8 board_bus ?T 0xff (asked ?rd t) = Some ((True, word_of_int mode),
      (asked ?rd t)\<lparr>nios_hw := (nios_hw (asked ?rd t))\<lparr>bd_time := Suc (bd_time (nios_hw (asked ?rd t)))\<rparr>\<rparr>)"
    by (simp add: perform_read_8x8_def)
  from nios_8x8_read_link [OF _ this] wr(1) obtain u where
    "nios_8x8_read fpga_usb ?T 0xff t = (Inr (word_of_int mode), u)"
    by (auto simp add: t_def)
  then have "nios_get_vctcxo_tamer_mode fpga_usb caps t = (Inr mode, u)"
    using True mode by (simp add: nios_get_vctcxo_tamer_mode_def bindE_def del: uint_word_of_int_eq)
  then show ?thesis
    using True wr(2) c mode_ctrl_fields [OF mode(1)] unfolding t_def [symmetric] by auto
qed

theorem tamer_mode_set_get_witness:
  "\<exists>t u :: board nios. nios_set_vctcxo_tamer_mode fpga_usb 0x1ff BLADERF_VCTCXO_TAMER_1_PPS (idle_link (\<lambda>_ _ _. 0)) = (Inr (), t) \<and>
    nios_get_vctcxo_tamer_mode fpga_usb 0x1ff t = (Inr BLADERF_VCTCXO_TAMER_1_PPS, u)"
  using tamer_mode_set_get [of "idle_link (\<lambda>_ _ _. 0)" 1 "0x1ff"]
  by (auto simp add: resp_ok_def idle_link_def have_cap_def)

section \<open>The version of the FPGA\<close>

text \<open>C18: nios_get_fpga_version misreads the version the firmware reports.  The firmware packs major, minor
  and patch from the low byte up, the host unpacks them from the high byte down: it reports
  0.0.1280 for the 0.5.0 of fpga_version.h, a version whose capabilities lack the packet formats
  themselves.\<close>

theorem fpga_version_misread:
  fixes s :: "'z link"
  assumes "resp_ok s"
  shows "\<exists>t. nios_get_fpga_version fpga_usb s = (Inr \<lparr> ver_major = 0, ver_minor = 0, ver_patch = 1280 \<rparr>, t) \<and>
    \<not> have_cap (capabilities_init_post_fpga_load \<lparr> ver_major = 0, ver_minor = 0, ver_patch = 1280 \<rparr> 0)
        BLADERF_CAP_PKT_HANDLER_FMT \<and>
    have_cap (capabilities_init_post_fpga_load \<lparr> ver_major = 0, ver_minor = 5, ver_patch = 0 \<rparr> 0)
        BLADERF_CAP_PKT_HANDLER_FMT"
proof -
  let ?req = "nios_pkt_8x32_pack stack_buf NIOS_PKT_8x32_TARGET_VERSION False 0 0"
  have "perform_read_8x32 board_bus NIOS_PKT_8x32_TARGET_VERSION (asked ?req s) = ((True, 0x500), asked ?req s)"
    by (simp add: perform_read_8x32_def fpga_version_def)
  from nios_8x32_read_link [OF _ this, of 0] assms obtain t where
    "nios_8x32_read fpga_usb NIOS_PKT_8x32_TARGET_VERSION 0 s = (Inr 0x500, t)"
    by (auto simp add: resp_ok_def)
  then have "nios_get_fpga_version fpga_usb s = (Inr \<lparr> ver_major = 0, ver_minor = 0, ver_patch = 1280 \<rparr>, t)"
    by (simp add: nios_get_fpga_version_def bindE_def)
  then show ?thesis
    by (simp add: capabilities_init_post_fpga_load_def version_greater_or_equal_def have_cap_def)
qed

theorem fpga_version_misread_witness:
  "\<exists>t :: board nios. nios_get_fpga_version fpga_usb (idle_link (\<lambda>_ _ _. 0)) =
    (Inr \<lparr> ver_major = 0, ver_minor = 0, ver_patch = 1280 \<rparr>, t)"
  using fpga_version_misread [of "idle_link (\<lambda>_ _ _. 0)"] by (auto simp add: resp_ok_def idle_link_def)

end
