(* ===== verification/Link_Retune.thy ===== *)
theory Link_Retune
  imports Link_Tuning Link_Devices
begin

text \<open>
  Retunes carried out by the firmware on request of the host: nios_retune of nios_access.c, the
  packet of nios_pkt_retune.h and pkt_retune.c.  An immediate retune leaves the chip and the band switches in the
  state that tuning from the host leaves them in; a scheduled one is appended to the queue of its
  module or refused when the queue is full.
\<close>

unbundle bit_operations_syntax

section \<open>The firmware's handle with the answers of the chip fixed\<close>

interpretation sensed_nios: lms_regs "nios_lms board_bus" board_reg board_gpio
  "\<lambda>s. board_ok s \<and> board_sense s = sense"
  by unfold_locales (auto simp add: board_lms board_sense_def)

interpretation tuned_nios: lms_pll "nios_lms board_bus" board_reg board_gpio
  "\<lambda>s. board_ok s \<and> board_sense s = sense"
proof
  fix s :: "(board, 'z) nios_dev_scheme" and b d0 d1 d2 d3
  assume s: "board_ok s \<and> board_sense s = sense" and b: "b = (0x10 :: u8) \<or> b = 0x20"
  have w: "LMS_WRITE (nios_lms board_bus) a d u = (Inr (), snd (lms6_write board_bus a d u))"
    for a d and u :: "(board, 'z) nios_dev_scheme"
    by (simp add: LMS_WRITE_def nios_lms_simps)
  have sense: "board_sense t = board_sense u"
    if "write_pll_words (nios_lms board_bus) a d0 d1 d2 d3 u = (Inr (), t)" for a t and u :: "(board, 'z) nios_dev_scheme"
    using that by (auto simp add: write_pll_words_def bindE_def w)
  obtain t where t: "write_pll_words (nios_lms board_bus) (b OR 0x80) d0 d1 d2 d3 s = (Inr (), t)"
      "nios.changes {b, b + 1, b + 2, b + 3} s t"
      "board_reg t b = d0 \<and> board_reg t (b + 1) = d1 \<and> board_reg t (b + 2) = d2 \<and> board_reg t (b + 3) = d3"
    using nios_pll.pll_words_written [OF conjunct1 [OF s] b, of d0 d1 d2 d3]
    by (auto simp add: nios_lms_simps)
  show "\<exists>t. write_pll_words (nios_lms board_bus) (if dev_atomic_pll (nios_lms board_bus) then b OR 0x80 else b)
        d0 d1 d2 d3 s = (Inr (), t) \<and> sensed_nios.changes sense {b, b + 1, b + 2, b + 3} s t \<and>
     board_reg t b = d0 \<and> board_reg t (b + 1) = d1 \<and> board_reg t (b + 2) = d2 \<and> board_reg t (b + 3) = d3"
    using t s sense [OF t(1)]
    by (intro exI [of _ t]) (simp add: nios.changes_def sensed_nios.changes_def nios_lms_simps)
qed

lemma nios_locks:
  assumes "board_locks sense base g hi lo" "base = 0x10 \<or> base = 0x20"
  shows "tuned_nios.vco_locks TYPE('z) sense base g hi lo"
  unfolding tuned_nios.vco_locks_def
proof (intro conjI allI impI)
  fix u :: "(board, 'z) nios_dev_scheme"
  assume u: "board_ok u \<and> board_sense u = sense" "pll_loaded base g (board_reg u)"
  have a: "lms_addr (base + 10)" "lms_volatile (base + 10)"
    using assms(2) by (auto simp add: lms_volatile_def)
  have "\<exists>n. snd (fst (dev_lms_read (nios_lms board_bus) (base + 10) u)) = sense (board_reg u) n (base + 10)"
    using u(1) a spi_access_single(2) [OF a(1), of "bd_lms (nios_hw u)" False 0]
    by (auto simp add: nios_lms_simps board_lms6_read chip_msg_def chip_read_def board_reg_def board_sense_def board_ok_def)
  then show "drop_bit 6 (snd (fst (dev_lms_read (nios_lms board_bus) (base + 10) u))) =
      vco_comparator hi lo (unat (board_reg u (base + 9) AND 0x3f))"
    using assms(1) u(2) by (auto simp add: board_locks_def)
qed (use assms(1) in \<open>simp_all add: board_locks_def\<close>)

section \<open>An immediate retune\<close>

text \<open>The request tuning.c makes of the words of a frequency.\<close>

definition retune_words :: "bladerf_module \<Rightarrow> u64 \<Rightarrow> lms_freq \<Rightarrow> retune_request" where
  "retune_words m ts g = \<lparr> rt_module = m, rt_timestamp = ts, rt_nint = lf_nint g, rt_nfrac = lf_nfrac g,
     rt_freqsel = lf_freqsel g, rt_vcocap = lf_vcocap g,
     rt_low_band = (lf_flags g AND LMS_FREQ_FLAGS_LOW_BAND \<noteq> 0),
     rt_quick_tune = (lf_flags g AND LMS_FREQ_FLAGS_FORCE_VCOCAP \<noteq> 0) \<rparr>"

definition pack_request :: "retune_request \<Rightarrow> bytes" where
  "pack_request r = nios_pkt_retune_pack stack_buf (rt_module r) (rt_timestamp r) (rt_nint r)
     (rt_nfrac r) (rt_freqsel r) (rt_vcocap r) (rt_low_band r) (rt_quick_tune r)"

lemma low_field: "(v :: u8) \<le> 0x3f \<Longrightarrow> v AND 0x3f = v" "v \<le> 0x3f \<Longrightarrow> \<not> bit v 6" "v \<le> 0x3f \<Longrightarrow> \<not> bit v 7"
  using u8_le_3f [of v] by (simp_all add: word8_eq_iff bit_simps)

text \<open>Requests whose fields fit arrive as they were sent.\<close>

definition request_fits :: "retune_request \<Rightarrow> bool" where
  "request_fits r \<longleftrightarrow> rt_module r \<noteq> BLADERF_MODULE_INVALID \<and> rt_nint r < 512 \<and> rt_nfrac r < 0x800000 \<and>
     rt_freqsel r \<le> 0x3f \<and> rt_vcocap r \<le> 0x3f"

lemma unpack_request:
  assumes "request_fits r"
  shows "nios_pkt_retune_unpack (pack_request r) = r"
  using assms low_field [of "rt_freqsel r"] low_field [of "rt_vcocap r"] word_field_9 [of "rt_nint r"]
    word_field_23 [of "rt_nfrac r"]
  unfolding pack_request_def nios_pkt_retune_unpack_pack [OF stack_buf_length]
  by (cases r, cases "rt_module r") (simp_all add: request_fits_def)

lemma pack_request_bytes: "length (pack_request r) = 16" "pack_request r ! 0 = 0x54"
proof -
  show "length (pack_request r) = 16" by (simp add: pack_request_def)
  show "pack_request r ! 0 = 0x54"
    unfolding pack_request_def nios_pkt_retune_pack_bytes [OF stack_buf_length] by simp
qed

lemma nios_retune_link:
  fixes s :: "'z link"
  assumes "resp_ok s"
    and "pkt_retune board_bus (pack_request r) (pkt_resp s) (asked (pack_request r) s) =
      (nios_pkt_retune_resp_pack (pkt_resp s) duration vcocap flags, t)"
  shows "\<exists>resp. length resp = 16 \<and> nios_retune fpga_usb r s =
    (if flags AND NIOS_PKT_RETUNERESP_FLAG_SUCCESS \<noteq> 0 then Inr ()
     else Inl (if rt_timestamp r = NIOS_PKT_RETUNE_NOW then BLADERF_ERR_UNEXPECTED else BLADERF_ERR_QUEUE_FULL),
     answered resp t)"
proof -
  let ?resp = "nios_pkt_retune_resp_pack (pkt_resp s) duration vcocap flags"
  have "find_handler 0x54 = Some PKT_RETUNE" using find_handler_magic [of PKT_RETUNE] by (simp add: handler_magic_def)
  then have "nios_access fpga_usb (pack_request r) s = (Inr ?resp, answered ?resp t)"
    using assms by (intro nios_access_fpga [of _ PKT_RETUNE])
      (simp_all add: pack_request_bytes handler_exec_def resp_ok_def)
  then show ?thesis
    using assms(1) by (intro exI [of _ ?resp])
      (simp add: nios_retune_def pack_request_def [symmetric] bindE_def resp_ok_def nios_pkt_retune_resp_unpack_pack)
qed


lemma tamer_frame [simp]:
  "board_ok (upd_tamer m f s) = board_ok s" "board_sense (upd_tamer m f s) = board_sense s"
  "board_reg (upd_tamer m f s) = board_reg s" "board_gpio (upd_tamer m f s) = board_gpio s"
  by (simp_all add: upd_tamer_def board_ok_def board_sense_def board_reg_def board_gpio_def)

lemma retune_freq_words:
  assumes "lf_flags g = (if low then LMS_FREQ_FLAGS_LOW_BAND else 0)"
  shows "retune_freq (retune_words m ts g) = g\<lparr>lf_x := 0, lf_vcocap_result := 0xff\<rparr>"
  using assms by (cases g) (auto simp add: retune_freq_def retune_words_def)

lemma pll_loaded_cong:
  "lf_nint f = lf_nint g \<Longrightarrow> lf_nfrac f = lf_nfrac g \<Longrightarrow> lf_freqsel f = lf_freqsel g \<Longrightarrow>
   pll_loaded base f = pll_loaded base g"
  by (simp add: pll_loaded_def fun_eq_iff)

text \<open>Frequencies whose words fit make requests that fit.\<close>

lemma retune_words_fit:
  assumes "m \<noteq> BLADERF_MODULE_INVALID" "lf_nfrac (tuning_words freq) < 0x800000"
  shows "request_fits (retune_words m ts (tuning_words freq))"
    "\<exists>low. lf_flags (tuning_words freq) = (if low then LMS_FREQ_FLAGS_LOW_BAND else 0)"
proof -
  obtain b k where g: "tuned (clamp_frequency freq) b lms_freq_uninit (tuning_words freq) k"
      "lf_vcocap (tuning_words freq) \<le> 0x3f"
    by (rule tuning_words_tuned)
  have fs: "lf_freqsel (tuning_words freq) = fr_value b" "b \<in> set bands"
    "lf_flags (tuning_words freq) = (if clamp_frequency freq < BLADERF_BAND_HIGH then LMS_FREQ_FLAGS_LOW_BAND else 0)"
    using g(1) by (simp_all only: tuned_def)
  have "fr_value b \<le> 0x3f" using fs(2) unfolding bands_eq by auto
  then show "request_fits (retune_words m ts (tuning_words freq))"
    using assms g(2) tuned_hz(4) [OF g(1)] by (simp add: request_fits_def retune_words_def fs(1) word_less_nat_alt)
  show "\<exists>low. lf_flags (tuning_words freq) = (if low then LMS_FREQ_FLAGS_LOW_BAND else 0)"
    using fs(3) by blast
qed

lemma set_precalculated_locks:
  fixes s :: "(board, 'z) nios_dev_scheme"
  assumes s: "board_ok s \<and> board_sense s = sense" and m: "m \<noteq> BLADERF_MODULE_INVALID"
    and flags: "lf_flags f AND LMS_FREQ_FLAGS_FORCE_VCOCAP = 0"
    and est: "lf_vcocap f = of_nat est" "est \<le> 63"
    and lock: "board_locks sense (pll_base m) f hi lo"
    and near: "hi \<le> est + 20" "est < hi + 20" "est \<le> lo + 20"
  shows "\<exists>t. set_precalculated board_bus m f s = ((0, f\<lparr>lf_vcocap_result := of_nat ((hi + lo) div 2)\<rparr>), t) \<and>
    board_ok t \<and> board_sense t = sense \<and> pll_loaded (pll_base m) f (board_reg t) \<and>
    board_reg t (pll_base m + 9) AND 0x3f = of_nat ((hi + lo) div 2)"
proof -
  have hl: "hi \<le> lo" "lo \<le> 62" using lock by (simp_all add: board_locks_def)
  then have "(hi + lo) div 2 \<le> 63" by simp
  then have "(of_nat ((hi + lo) div 2) :: u8) \<le> 0x3f" by (simp only: word_le_nat_alt u8_of_nat_le) simp
  note v = vcocap_bits [OF this]
  show ?thesis
    using tuned_nios.lms_set_precalculated_frequency_locks [OF s m flags est
        nios_locks [OF lock tuned_nios.pll_base_cases] near]
    by (auto simp add: set_precalculated_def v)
qed

text \<open>The handler of an immediate retune whose words lock.\<close>

lemma pkt_retune_now:
  fixes s :: "(board, 'z) retune_state_scheme"
  assumes s: "board_ok s \<and> board_sense s = sense"
    and r: "nios_pkt_retune_unpack req = r" "rt_module r = m" "m \<noteq> BLADERF_MODULE_INVALID"
      "rt_timestamp r = NIOS_PKT_RETUNE_NOW"
    and f: "retune_freq r = f" "lf_flags f AND LMS_FREQ_FLAGS_FORCE_VCOCAP = 0"
      "lf_vcocap f = of_nat est" "est \<le> 63"
    and lock: "board_locks sense (pll_base m) f hi lo"
    and near: "hi \<le> est + 20" "est < hi + 20" "est \<le> lo + 20"
  shows "\<exists>d v fl t. pkt_retune board_bus req resp s = (nios_pkt_retune_resp_pack resp d v fl, t) \<and>
    fl AND NIOS_PKT_RETUNERESP_FLAG_SUCCESS \<noteq> 0 \<and> board_ok t \<and> board_sense t = sense \<and>
    pll_loaded (pll_base m) f (board_reg t) \<and>
    board_reg t (pll_base m + 9) AND 0x3f = of_nat ((hi + lo) div 2) \<and>
    board_gpio t AND band_mask m = band_bits m (rt_low_band r)"
proof -
  let ?s1 = "upd_tamer m snap s"
  have s1: "board_ok ?s1 \<and> board_sense ?s1 = sense" using s by simp
  obtain t1 where t1: "set_precalculated board_bus m f ?s1 = ((0, f\<lparr>lf_vcocap_result := of_nat ((hi + lo) div 2)\<rparr>), t1)"
    "board_ok t1 \<and> board_sense t1 = sense" "pll_loaded (pll_base m) f (board_reg t1)"
    "board_reg t1 (pll_base m + 9) AND 0x3f = of_nat ((hi + lo) div 2)"
    using set_precalculated_locks [OF s1 r(3) f(2-4) lock near] by auto
  obtain t2 where t2: "band_select (nios_lms board_bus) m (rt_low_band r) t1 = (Inr (), t2)"
    "board_ok t2 \<and> board_sense t2 = sense"
    "board_gpio t2 = (board_gpio t1 AND NOT (band_mask m)) OR band_bits m (rt_low_band r)"
    "\<forall>b. lms_addr b \<longrightarrow> \<not> lms_volatile b \<longrightarrow> b \<noteq> 0x44 \<longrightarrow> b \<noteq> 0x75 \<longrightarrow> board_reg t2 b = board_reg t1 b"
    using sensed_nios.band_select_runs [OF t1(2)] by blast
  have regs: "board_reg t2 b = board_reg t1 b" if "b \<in> pll_regs (pll_base m)" for b
    using that t2(4) [rule_format, of b] by (auto simp add: pll_regs_def pll_base_def split: if_splits)
  have "pll_loaded (pll_base m) f (board_reg t2)"
    using t1(3) regs by (simp add: pll_loaded_def pll_regs_def)
  moreover have "board_reg t2 (pll_base m + 9) = board_reg t1 (pll_base m + 9)"
    by (rule regs) (simp add: pll_regs_def)
  moreover have "board_gpio t2 AND band_mask m = band_bits m (rt_low_band r)"
    by (auto simp add: t2(3) word32_eq_iff bit_simps)
  moreover have "\<exists>d v fl. pkt_retune board_bus req resp s = (nios_pkt_retune_resp_pack resp d v fl, upd_tamer m snap t2) \<and>
      fl AND NIOS_PKT_RETUNERESP_FLAG_SUCCESS \<noteq> 0"
    using r t1(1) t2(1) by (simp add: pkt_retune_def Let_def bindS_apply time_tamer_read_board f(1)
        retune_now_def io_status_def) (intro exI conjI, rule refl, simp)
  ultimately show ?thesis using t1(4) t2(2) by fastforce
qed

text \<open>C3: Tuning by the FPGA and tuning by the host agree.  On a board whose loop locks for the words of a
  frequency, both lms_set_frequency followed by band_select on the host and one immediate retune request with
  the same words succeed, and both leave the same words and the same VCOCAP in the PLL and the same band
  switches set.\<close>

theorem fpga_tuning_agrees:
  fixes s :: "'z link"
  assumes "link_ok speed sense s" "m \<noteq> BLADERF_MODULE_INVALID"
    and "board_locks sense (pll_base m) (tuning_words freq) hi lo"
    and "hi \<le> est + 20" "est < hi + 20" "est \<le> lo + 20" "est = unat (lf_vcocap (tuning_words freq))"
    and "lf_nfrac (tuning_words freq) < 0x800000"
  defines "low \<equiv> lf_flags (tuning_words freq) AND LMS_FREQ_FLAGS_LOW_BAND \<noteq> 0"
  shows "\<exists>t u. seqE (lms_set_frequency (host_lms fpga_usb speed caps) m freq)
        (band_select (host_lms fpga_usb speed caps) m low) s = (Inr (), t) \<and>
    nios_retune fpga_usb (retune_words m NIOS_PKT_RETUNE_NOW (tuning_words freq)) s = (Inr (), u) \<and>
    pll_loaded (pll_base m) (tuning_words freq) (board_reg t) \<and>
    pll_loaded (pll_base m) (tuning_words freq) (board_reg u) \<and>
    board_reg t (pll_base m + 9) AND 0x3f = board_reg u (pll_base m + 9) AND 0x3f \<and>
    board_gpio t AND band_mask m = board_gpio u AND band_mask m"
proof -
  obtain t1 where t1: "lms_set_frequency (host_lms fpga_usb speed caps) m freq s = (Inr (), t1)" "link_ok speed sense t1"
    "pll_loaded (pll_base m) (tuning_words freq) (board_reg t1)"
    "board_reg t1 (pll_base m + 9) AND 0x3f = of_nat ((hi + lo) div 2)"
    using host_set_frequency_locks [OF assms(1-7)] by blast
  obtain t where t: "band_select (host_lms fpga_usb speed caps) m low t1 = (Inr (), t)"
    "board_gpio t = (board_gpio t1 AND NOT (band_mask m)) OR band_bits m low"
    "\<forall>b. lms_addr b \<longrightarrow> \<not> lms_volatile b \<longrightarrow> b \<noteq> 0x44 \<longrightarrow> b \<noteq> 0x75 \<longrightarrow> board_reg t b = board_reg t1 b"
    using host.band_select_runs [OF t1(2), of caps m low] by blast
  have regs: "board_reg t b = board_reg t1 b" if "b \<in> pll_regs (pll_base m)" for b
    using that t(3) [rule_format, of b] by (auto simp add: pll_regs_def pll_base_def split: if_splits)
  have th: "pll_loaded (pll_base m) (tuning_words freq) (board_reg t)"
    "board_reg t (pll_base m + 9) AND 0x3f = of_nat ((hi + lo) div 2)"
    "board_gpio t AND band_mask m = band_bits m low"
    using t1(3,4) regs by (auto simp add: pll_loaded_def pll_regs_def t(2) word32_eq_iff bit_simps)
  let ?r = "retune_words m NIOS_PKT_RETUNE_NOW (tuning_words freq)"
  let ?f = "retune_freq ?r"
  obtain lo_band where lb: "lf_flags (tuning_words freq) = (if lo_band then LMS_FREQ_FLAGS_LOW_BAND else 0)"
    using retune_words_fit(2) [OF assms(2,8)] by blast
  note f = retune_freq_words [OF lb, of m NIOS_PKT_RETUNE_NOW]
  have g: "lf_vcocap (tuning_words freq) \<le> 0x3f" by (rule tuning_words_tuned)
  have e: "lf_vcocap ?f = of_nat est" "est \<le> 63"
    using g assms(7) by (simp_all add: f word_le_nat_alt)
  have fl: "lf_flags ?f AND LMS_FREQ_FLAGS_FORCE_VCOCAP = 0" by (simp add: f lb)
  have pl: "pll_loaded base ?f = pll_loaded base (tuning_words freq)" for base
    by (rule pll_loaded_cong) (simp_all add: f)
  have lock: "board_locks sense (pll_base m) ?f hi lo" using assms(3) by (simp add: board_locks_def pl)
  let ?a = "asked (pack_request ?r) s"
  have a: "board_ok ?a \<and> board_sense ?a = sense" using assms(1) by (simp add: link_ok_def)
  obtain d v flg u where u: "pkt_retune board_bus (pack_request ?r) (pkt_resp s) ?a =
      (nios_pkt_retune_resp_pack (pkt_resp s) d v flg, u)"
    "flg AND NIOS_PKT_RETUNERESP_FLAG_SUCCESS \<noteq> 0" "pll_loaded (pll_base m) ?f (board_reg u)"
    "board_reg u (pll_base m + 9) AND 0x3f = of_nat ((hi + lo) div 2)"
    "board_gpio u AND band_mask m = band_bits m (rt_low_band ?r)"
    using pkt_retune_now [OF a unpack_request [OF retune_words_fit(1) [OF assms(2,8)]] _ assms(2) _ refl fl e lock
        assms(4-6), of "pkt_resp s"] by (auto simp add: retune_words_def)
  have "resp_ok s" using assms(1) by (simp add: resp_ok_def link_ok_def)
  from nios_retune_link [OF this u(1)] u(2) obtain resp where
    "nios_retune fpga_usb ?r s = (Inr (), answered resp u)" by auto
  moreover have "rt_low_band (retune_words n ts (tuning_words freq)) = low" for n ts
    by (simp add: retune_words_def low_def)
  ultimately show ?thesis
    using t1(1) t(1) th u(3-5)
    by - (rule exI [of _ t], rule exI [of _ "answered resp u"], simp add: bindE_def pl)
qed


theorem fpga_tuning_agrees_witness:
  "\<exists>s t u :: board nios. lms_set_frequency (host_lms fpga_usb BLADERF_DEVICE_SPEED_SUPER 0x40) BLADERF_MODULE_RX 2450000000 s = (Inr (), t) \<and>
    nios_retune fpga_usb (retune_words BLADERF_MODULE_RX NIOS_PKT_RETUNE_NOW (tuning_words 2450000000)) s = (Inr (), u)"
proof -
  let ?est = "unat (lf_vcocap (tuning_words 2450000000))"
  note e = tuning_words_estimate [of 2450000000]
  have "board_locks (ideal_sense ?est (?est + 4)) (pll_base BLADERF_MODULE_RX) (tuning_words 2450000000) ?est (?est + 4)"
    using e by (intro ideal_sense_locks) simp_all
  from fpga_tuning_agrees [OF idle_link_ok _ this _ _ _ refl nfrac_fits, of "0x40"] show ?thesis
    by (fastforce simp add: bindE_split)
qed

section \<open>A scheduled retune\<close>

lemma pkt_retune_schedule:
  fixes s :: "(board, 'z) retune_state_scheme"
  assumes r: "nios_pkt_retune_unpack req = r" "rt_module r = m" "m \<noteq> BLADERF_MODULE_INVALID"
      "rt_timestamp r \<noteq> NIOS_PKT_RETUNE_NOW" "rt_timestamp r \<noteq> NIOS_PKT_RETUNE_CLEAR_QUEUE"
  shows "\<exists>d v. fst (pkt_retune board_bus req resp s) = nios_pkt_retune_resp_pack resp d v
     (if fst (enqueue_retune (get_queue m s) (retune_freq r) (rt_timestamp r)) = QUEUE_FULL then 0
      else NIOS_PKT_RETUNERESP_FLAG_SUCCESS)"
  using r by (auto simp add: pkt_retune_def Let_def bindS_apply time_tamer_read_board retune_schedule_def
      split: prod.splits)

text \<open>C8: A retune that the host schedules is appended to the queue of its module, as a NEW entry with the words
  and the timestamp of the request, and the other module's queue is left alone; when the queue
  holds sixteen entries the host gets BLADERF_ERR_QUEUE_FULL and nothing is queued.\<close>

theorem host_schedules_retune:
  fixes s :: "'z link"
  assumes "resp_ok s" "request_fits r" "queue_wf (get_queue (rt_module r) s)"
    and "rt_timestamp r \<noteq> NIOS_PKT_RETUNE_NOW" "rt_timestamp r \<noteq> NIOS_PKT_RETUNE_CLEAR_QUEUE"
  defines "items \<equiv> queue_items (get_queue (rt_module r) s)"
  shows "\<exists>t. nios_retune fpga_usb r s = (if length items = 16 then Inl BLADERF_ERR_QUEUE_FULL else Inr (), t) \<and>
    queue_wf (get_queue (rt_module r) t) \<and>
    queue_items (get_queue (rt_module r) t) = (if length items = 16 then items else items @
      [\<lparr> qe_state = ENTRY_STATE_NEW, qe_freq = retune_freq r, qe_timestamp = rt_timestamp r \<rparr>]) \<and>
    (\<forall>n. \<not> same_port (rt_module r) n \<longrightarrow> get_queue n t = get_queue n s)"
proof -
  let ?m = "rt_module r" and ?req = "pack_request r" and ?q = "get_queue (rt_module r) s"
  let ?u = "snd (pkt_retune board_bus ?req (pkt_resp s) (asked ?req s))"
  have m: "?m \<noteq> BLADERF_MODULE_INVALID" using assms(2) by (simp add: request_fits_def)
  note unpack = unpack_request [OF assms(2)]
  have le: "length items \<le> 16" using assms(3) by (simp add: queue_wf_def word_le_nat_alt items_def)
  have enq: "(fst (enqueue_retune ?q (retune_freq r) (rt_timestamp r)) = QUEUE_FULL \<longleftrightarrow> length items = 16) \<and>
    queue_wf (snd (enqueue_retune ?q (retune_freq r) (rt_timestamp r))) \<and>
    queue_items (snd (enqueue_retune ?q (retune_freq r) (rt_timestamp r))) = (if length items = 16 then items else items @
      [\<lparr> qe_state = ENTRY_STATE_NEW, qe_freq = retune_freq r, qe_timestamp = rt_timestamp r \<rparr>])"
  proof (cases "length items = 16")
    case True
    then show ?thesis using enqueue_items(1) [OF assms(3)] assms(3) by (simp add: items_def)
  next
    case False
    then have l: "length items < 16" using le by simp
    have "(of_nat (length items + 1) :: u8) \<noteq> 0xff"
    proof
      assume "(of_nat (length items + 1) :: u8) = 0xff"
      then have "unat (of_nat (length items + 1) :: u8) = 255" by simp
      then show False using l by (simp add: unat_of_nat del: of_nat_Suc of_nat_add)
    qed
    then show ?thesis using False enqueue_items(2) [OF assms(3) l [unfolded items_def], of "retune_freq r" "rt_timestamp r"]
      unfolding items_def by (auto simp del: of_nat_Suc of_nat_add queue_items_length)
  qed
  obtain d v where fst: "fst (pkt_retune board_bus ?req (pkt_resp s) (asked ?req s)) =
      nios_pkt_retune_resp_pack (pkt_resp s) d v (if length items = 16 then 0 else NIOS_PKT_RETUNERESP_FLAG_SUCCESS)"
    using pkt_retune_schedule [OF unpack refl m assms(4,5), of "pkt_resp s" "asked ?req s"] enq by auto
  have run: "pkt_retune board_bus ?req (pkt_resp s) (asked ?req s) = (nios_pkt_retune_resp_pack (pkt_resp s) d v
      (if length items = 16 then 0 else NIOS_PKT_RETUNERESP_FLAG_SUCCESS), ?u)"
    by (simp add: prod_eq_iff fst)
  obtain resp where resp: "nios_retune fpga_usb r s =
      (if length items = 16 then Inl BLADERF_ERR_QUEUE_FULL else Inr (), answered resp ?u)"
    using nios_retune_link [OF assms(1) run] assms(4) by auto
  have queue: "get_queue n ?u = (if same_port ?m n then snd (enqueue_retune (get_queue n s) (retune_freq r) (rt_timestamp r))
      else get_queue n s)" for n
    using pkt_retune_board(2) [of n ?req "pkt_resp s" "asked ?req s"] m assms(4,5) by (simp add: unpack enqueued_def)
  show ?thesis
    using resp enq by (intro exI [of _ "answered resp ?u"]) (auto simp add: queue)
qed

theorem host_schedules_retune_witness:
  "\<exists>t :: board nios. nios_retune fpga_usb (retune_words BLADERF_MODULE_RX 1000 lms_freq_uninit\<lparr>rt_nint := 100\<rparr>)
      (idle_link (\<lambda>_ _ _. 0)) = (Inr (), t) \<and> length (queue_items (get_queue BLADERF_MODULE_RX t)) = 1"
proof -
  let ?r = "retune_words BLADERF_MODULE_RX 1000 lms_freq_uninit\<lparr>rt_nint := 100\<rparr>"
  have r: "request_fits ?r" "rt_module ?r = BLADERF_MODULE_RX" "rt_timestamp ?r = 1000"
    by (simp_all add: request_fits_def retune_words_def lms_freq_uninit_def)
  have s: "resp_ok (idle_link (\<lambda>_ _ _. 0))" "get_queue BLADERF_MODULE_RX (idle_link (\<lambda>_ _ _. 0)) = empty_ring"
    by (simp_all add: resp_ok_def idle_link_def get_queue_def)
  show ?thesis
    using host_schedules_retune [OF s(1) r(1)] by (auto simp add: r s empty_ring_wf simp del: queue_items_length)
qed

end
