(* ===== verification/Link_Radio.thy ===== *)
theory Link_Radio
  imports Link_Access
begin

text \<open>
  Configuration procedures of the RF chip driver over the whole stack: overall gain, loopback modes,
  DC calibration, DC offsets, and ADC sampling, run by the host through the packets and the firmware on
  the board.  Each property instantiates a lemma of the locales lms_regs and lms_pll with the
  interpretation of the link, for every answer of the chip on its own registers.
\<close>

unbundle bit_operations_syntax

section \<open>DC calibration\<close>

lemma rxvga1_code_range:
  fixes w :: u8
  shows "5 \<le> uint (rxvga1_lut_code2val ! unat (min 120 (w AND 0x7f)))"
  "uint (rxvga1_lut_code2val ! unat (min 120 (w AND 0x7f))) \<le> 30"
proof -
  have "list_all (\<lambda>v. 5 \<le> uint v \<and> uint v \<le> 30) rxvga1_lut_code2val" "length rxvga1_lut_code2val = 121"
    by (simp_all add: rxvga1_lut_code2val_def)
  moreover have "unat (min 120 (w AND 0x7f)) < 121"
    using word_le_nat_alt [of "min 120 (w AND 0x7f)" 120] by simp
  ultimately show "5 \<le> uint (rxvga1_lut_code2val ! unat (min 120 (w AND 0x7f)))"
    "uint (rxvga1_lut_code2val ! unat (min 120 (w AND 0x7f))) \<le> 30"
    by (simp_all add: list_all_length)
qed

lemma rxvga1_code_restored:
  fixes w :: u8
  shows "uint (rxvga1_lut_code2val ! unat (min 120 (rxvga1_lut_val2code !
      nat (max 5 (min 30 (uint (rxvga1_lut_code2val ! unat (min 120 (w AND 0x7f)))))) AND 0x7f)))
    = uint (rxvga1_lut_code2val ! unat (min 120 (w AND 0x7f)))"
  using rxvga1_code_range [of w] unfolding rxvga1_field by simp

lemma rxvga2_code_restored:
  assumes "(w :: u8) \<le> 10"
  shows "(word_of_int (max 0 (min 30 (uint (w * 3))) div 3) :: u8) = w"
proof -
  have "uint w \<le> 10" using assms by (simp add: word_le_def)
  then have "uint (w * 3) = 3 * uint w"
    by (simp add: uint_word_arith_bintrs take_bit_eq_mod)
  then show ?thesis using \<open>uint w \<le> 10\<close> by simp
qed


section \<open>Loopback\<close>

text \<open>C20: Entering a baseband or RF loopback mode works from every state in which the RX low-pass filter is not both
  enabled and bypassed: lms_set_loopback_mode from the host succeeds, lms_get_loopback_mode then returns the
  mode, the blocks of the RX side the path runs through are on and those it bypasses off, the LNAs are
  powered down for the RF paths, the power amplifiers are off except the auxiliary one of the RF paths, and no
  register outside the listed ones has changed.\<close>

theorem loopback_set_get:
  fixes s :: "'z link"
  assumes "link_ok speed sense s" "mode \<noteq> BLADERF_LB_FIRMWARE" "mode \<noteq> BLADERF_LB_NONE"
    and "\<not> (bit (board_reg s 0x54) 1 \<and> bit (board_reg s 0x55) 6)"
  shows "\<exists>t u. lms_set_loopback_mode (host_lms fpga_usb speed caps) mode s = (Inr (), t) \<and>
    lms_get_loopback_mode (host_lms fpga_usb speed caps) t = (Inr mode, u) \<and>
    rx_ready mode (board_reg t) \<and> amps_ready mode (board_reg t) \<and>
    (\<forall>b < 0x80. \<not> lms_volatile b \<and> b \<notin> {0x44, 0x75, 0x46, 0x08} \<union> loopback_rx_regs mode \<longrightarrow>
       board_reg t b = board_reg s b)"
proof -
  obtain t where t: "lms_set_loopback_mode (host_lms fpga_usb speed caps) mode s = (Inr (), t)"
    "host.changes speed sense ({0x44, 0x75, 0x46, 0x08} \<union> loopback_rx_regs mode) s t"
    "loopback_of_regs (board_reg t 0x08) (board_reg t 0x46) = mode" "rx_ready mode (board_reg t)"
    "amps_ready mode (board_reg t)"
    using host.lms_set_loopback_mode_runs [OF assms, of caps] by blast
  obtain u where u: "lms_get_loopback_mode (host_lms fpga_usb speed caps) t = (Inr mode, u)"
    using host.lms_get_loopback_mode_runs [OF host.changes_ok [OF t(2)], of caps] unfolding t(3) by blast
  show ?thesis using t(1,4,5) u host.changes_reg [OF t(2)] by blast
qed


section \<open>Gain\<close>

text \<open>C22: The overall gain.  For TX, gain_set distributes exactly the requested gain, clamped to [0, 56] dB, over the two
  VGAs.  For RX the getters then add up to the request for 9 to 33 dB and to at most 3 dB less above; but a request
  of 4 to 8 dB gives 11 dB, more than a request of 9 dB does, because the LNA's gain in decibels is passed
  where its enumerator is meant.\<close>

theorem gain_distribution:
  fixes s :: "'z link"
  assumes "link_ok speed sense s"
  shows "(\<exists>t u. gain_set (host_lms fpga_usb speed caps) BLADERF_MODULE_TX gain s = (Inr (), t) \<and>
       tx_total_gain (host_lms fpga_usb speed caps) t = (Inr (max 0 (min 56 gain)), u)) \<and>
    (\<exists>t u total. gain_set (host_lms fpga_usb speed caps) BLADERF_MODULE_RX gain s = (Inr (), t) \<and>
       rx_total_gain (host_lms fpga_usb speed caps) t = (Inr total, u) \<and>
       (9 \<le> gain \<and> gain \<le> 33 \<longrightarrow> total = gain) \<and>
       (33 < gain \<and> gain \<le> 66 \<longrightarrow> gain - 3 \<le> total \<and> total \<le> gain) \<and>
       (4 \<le> gain \<and> gain \<le> 8 \<longrightarrow> total = 11))"
proof -
  have "(9 \<le> gain \<and> gain \<le> 33 \<longrightarrow> rx_gain_reached gain = gain) \<and>
     (33 < gain \<and> gain \<le> 66 \<longrightarrow> gain - 3 \<le> rx_gain_reached gain \<and> rx_gain_reached gain \<le> gain) \<and>
     (4 \<le> gain \<and> gain \<le> 8 \<longrightarrow> rx_gain_reached gain = 11)"
  proof -
    have "gain - 3 \<le> 36 + 3 * ((gain - 36) div 3) \<and> 36 + 3 * ((gain - 36) div 3) \<le> gain"
      using mult_div_mod_eq [of 3 "gain - 36"] pos_mod_bound [of 3 "gain - 36"] pos_mod_sign [of 3 "gain - 36"]
      by linarith
    then show ?thesis by (auto simp add: rx_gain_reached_def min_def)
  qed
  then show ?thesis
    using host.gain_set_tx_total [OF assms, of caps gain] host.gain_set_rx_total [OF assms, of caps gain] by blast
qed

section \<open>DC offsets and sampling\<close>

text \<open>C23: A DC offset set and read back.  For RX, the value comes back rounded down to a multiple of 32 and clamped to 63 of them,
  and the unrelated bit 7 of the register is kept.  For TX it comes back rounded to a multiple of 16 within
  [-2048, 2032], but 2048 too large: the register is offset binary, and get_dc_offset does not take the offset away.\<close>

theorem dc_offset_set_get:
  fixes s :: "'z link"
  assumes "link_ok speed sense s" "m \<noteq> BLADERF_MODULE_INVALID"
  shows "(\<exists>t u. lms_set_dc_offset_q (host_lms fpga_usb speed caps) m v s = (Inr (), t) \<and>
      lms_get_dc_offset_q (host_lms fpga_usb speed caps) m t =
        (Inr (dc_quantised m v + (if m = BLADERF_MODULE_TX then 2048 else 0)), u)) \<and>
    (\<exists>t u. lms_set_dc_offset_i (host_lms fpga_usb speed caps) m w s = (Inr (), t) \<and>
      lms_get_dc_offset_i (host_lms fpga_usb speed caps) m t =
        (Inr (dc_quantised m (sint w) + (if m = BLADERF_MODULE_TX then 2048 else 0)), u) \<and>
      (m = BLADERF_MODULE_RX \<longrightarrow> board_reg t 0x71 AND 0x80 = board_reg s 0x71 AND 0x80))"
proof
  let ?q = "if m = BLADERF_MODULE_TX then 0x43 else 0x72 :: u8" and ?i = "if m = BLADERF_MODULE_TX then 0x42 else 0x71 :: u8"
  show "\<exists>t u. lms_set_dc_offset_q (host_lms fpga_usb speed caps) m v s = (Inr (), t) \<and>
      lms_get_dc_offset_q (host_lms fpga_usb speed caps) m t =
        (Inr (dc_quantised m v + (if m = BLADERF_MODULE_TX then 2048 else 0)), u)"
    unfolding lms_set_dc_offset_q_def lms_get_dc_offset_q_def
    using host.dc_offset_set_then_get [OF assms, of ?q caps v] by fastforce
  show "\<exists>t u. lms_set_dc_offset_i (host_lms fpga_usb speed caps) m w s = (Inr (), t) \<and>
      lms_get_dc_offset_i (host_lms fpga_usb speed caps) m t =
        (Inr (dc_quantised m (sint w) + (if m = BLADERF_MODULE_TX then 2048 else 0)), u) \<and>
      (m = BLADERF_MODULE_RX \<longrightarrow> board_reg t 0x71 AND 0x80 = board_reg s 0x71 AND 0x80)"
    unfolding lms_set_dc_offset_i_def lms_get_dc_offset_i_def
    using host.dc_offset_set_then_get [OF assms, of ?i caps "sint w"] by (cases m) fastforce+
qed

section \<open>Witnesses\<close>

lemma idle_regs: "board_reg (idle_link sense) a = 0"
  by (simp add: board_reg_def idle_link_def quiet_board_def quiet_chip_def)


theorem loopback_set_get_witness:
  "\<exists>t u :: board nios. lms_set_loopback_mode (host_lms fpga_usb BLADERF_DEVICE_SPEED_SUPER 0) BLADERF_LB_RF_LNA2 (idle_link (\<lambda>_ n _. of_nat n)) = (Inr (), t) \<and>
     lms_get_loopback_mode (host_lms fpga_usb BLADERF_DEVICE_SPEED_SUPER 0) t = (Inr BLADERF_LB_RF_LNA2, u) \<and> bit (board_reg t 0x0b) 0"
  using loopback_set_get [OF idle_link_ok [of "\<lambda>_ n _. of_nat n"], of BLADERF_LB_RF_LNA2 0]
  by (auto simp add: idle_regs rx_ready_def)


theorem gain_distribution_witness:
  "\<exists>t u :: board nios. gain_set (host_lms fpga_usb BLADERF_DEVICE_SPEED_SUPER 0) BLADERF_MODULE_RX 8 (idle_link (\<lambda>_ _ _. 0)) = (Inr (), t) \<and>
     rx_total_gain (host_lms fpga_usb BLADERF_DEVICE_SPEED_SUPER 0) t = (Inr 11, u)"
  using gain_distribution [OF idle_link_ok [of "\<lambda>_ _ _. 0"], of 0 8] by auto

theorem dc_offset_set_get_witness:
  "\<exists>t u :: board nios. lms_set_dc_offset_q (host_lms fpga_usb BLADERF_DEVICE_SPEED_SUPER 0) BLADERF_MODULE_TX (-100) (idle_link (\<lambda>_ _ _. 0)) = (Inr (), t) \<and>
     lms_get_dc_offset_q (host_lms fpga_usb BLADERF_DEVICE_SPEED_SUPER 0) BLADERF_MODULE_TX t = (Inr 1936, u)"
  using dc_offset_set_get [OF idle_link_ok [of "\<lambda>_ _ _. 0"], of BLADERF_MODULE_TX 0 "-100"]
  by (auto simp add: dc_quantised_def)

end
