(* ===== verification/Bytes.thy ===== *)
theory Bytes
  imports Prelude
begin

text \<open>
  Integers in byte buffers: the little-endian layout of the packed tables and the big-endian layout of
  the image files, with the round trips.
\<close>

unbundle bit_operations_syntax

text \<open>memcpy from and to a little-endian integer (the host's byte order, so that LE16_TO_HOST and
  LE32_TO_HOST are the identity).  The length checks of the callers keep the cursor inside the buffer.\<close>

fun get_le16 :: "bytes \<Rightarrow> u16" where
  "get_le16 (a # b # _) = ucast a OR push_bit 8 (ucast b)"
| "get_le16 _ = 0"

fun get_le32 :: "bytes \<Rightarrow> u32" where
  "get_le32 (a # b # c # d # _) =
     ucast a OR push_bit 8 (ucast b) OR push_bit 16 (ucast c) OR push_bit 24 (ucast d)"
| "get_le32 _ = 0"

definition put_le16 :: "u16 \<Rightarrow> bytes" where
  "put_le16 w = [ucast w, ucast (drop_bit 8 w)]"

definition put_le32 :: "u32 \<Rightarrow> bytes" where
  "put_le32 w = [ucast w, ucast (drop_bit 8 w), ucast (drop_bit 16 w), ucast (drop_bit 24 w)]"

lemma get_put_le [simp]:
  "get_le16 (put_le16 w @ rest) = w" "get_le32 (put_le32 v @ rest) = v"
  "length (put_le16 w) = 2" "length (put_le32 v) = 4"
  by (simp_all add: put_le16_def put_le32_def bytes_join)

text \<open>The big-endian counterparts (HOST_TO_BE16 and so on before memcpy).\<close>

definition put_be16 :: "u16 \<Rightarrow> bytes" where
  "put_be16 w = [ucast (drop_bit 8 w), ucast w]"

definition put_be32 :: "u32 \<Rightarrow> bytes" where
  "put_be32 w = [ucast (drop_bit 24 w), ucast (drop_bit 16 w), ucast (drop_bit 8 w), ucast w]"

definition put_be64 :: "u64 \<Rightarrow> bytes" where
  "put_be64 w = put_be32 (ucast (drop_bit 32 w)) @ put_be32 (ucast w)"

fun get_be16 :: "bytes \<Rightarrow> u16" where
  "get_be16 (a # b # _) = push_bit 8 (ucast a) OR ucast b"
| "get_be16 _ = 0"

fun get_be32 :: "bytes \<Rightarrow> u32" where
  "get_be32 (a # b # c # d # _) =
     push_bit 24 (ucast a) OR push_bit 16 (ucast b) OR push_bit 8 (ucast c) OR ucast d"
| "get_be32 _ = 0"

definition get_be64 :: "bytes \<Rightarrow> u64" where
  "get_be64 b = push_bit 32 (ucast (get_be32 b)) OR ucast (get_be32 (drop 4 b))"

lemma get_put_be [simp]:
  "get_be16 (put_be16 w @ rest) = w" "get_be32 (put_be32 v @ rest) = v" "get_be64 (put_be64 x @ rest) = x"
  "length (put_be16 w) = 2" "length (put_be32 v) = 4" "length (put_be64 x) = 8"
proof -
  show "get_be16 (put_be16 w @ rest) = w"
    by (simp add: put_be16_def word16_eq_iff bit_simps)
  have r: "get_be32 (put_be32 v @ rest) = v" for v rest
    by (simp add: put_be32_def word32_eq_iff bit_simps)
  then show "get_be32 (put_be32 v @ rest) = v" .
  have "drop 4 (put_be64 x @ rest) = put_be32 (ucast x) @ rest" by (simp add: put_be64_def put_be32_def)
  moreover have "put_be64 x @ rest = put_be32 (ucast (drop_bit 32 x)) @ put_be32 (ucast x) @ rest"
    by (simp add: put_be64_def)
  ultimately have "get_be64 (put_be64 x @ rest) = push_bit 32 (ucast (ucast (drop_bit 32 x) :: u32)) OR ucast (ucast x :: u32)"
    by (simp only: get_be64_def r)
  also have "\<dots> = x" by (simp add: word64_eq_iff bit_simps)
  finally show "get_be64 (put_be64 x @ rest) = x" .
qed (simp_all add: put_be16_def put_be32_def put_be64_def)

lemma put_get_be [simp]:
  "2 \<le> length b \<Longrightarrow> put_be16 (get_be16 b) = take 2 b"
  "4 \<le> length b \<Longrightarrow> put_be32 (get_be32 b) = take 4 b"
  "8 \<le> length b \<Longrightarrow> put_be64 (get_be64 b) = take 8 b"
proof -
  show "put_be16 (get_be16 b) = take 2 b" if l: "2 \<le> length b"
    using l by (cases b rule: get_be16.cases)
      (simp_all add: put_be16_def word8_eq_iff bit_simps bit_word_high)
  have r: "put_be32 (get_be32 b) = take 4 b" if l: "4 \<le> length b" for b
    using l by (cases b rule: get_be32.cases)
      (simp_all add: put_be32_def word8_eq_iff bit_simps bit_word_high)
  then show "put_be32 (get_be32 b) = take 4 b" if l: "4 \<le> length b" using l .
  show "put_be64 (get_be64 b) = take 8 b" if l: "8 \<le> length b"
  proof -
    have "(ucast (drop_bit 32 (get_be64 b)) :: u32) = get_be32 b" "(ucast (get_be64 b) :: u32) = get_be32 (drop 4 b)"
      by (simp_all add: get_be64_def word32_eq_iff bit_simps bit_word_high)
    then have "put_be64 (get_be64 b) = take 4 b @ take 4 (drop 4 b)" using l by (simp only: put_be64_def r) (simp add: r)
    also have "\<dots> = take 8 b" using take_add [of 4 4 b] by simp
    finally show ?thesis .
  qed
qed

end
