(* ===== verification/Dc_Table.thy ===== *)
theory Dc_Table
  imports Lms_Freq Lms_Dc Bytes
begin

text \<open>
  The DC calibration tables of the host (host/libraries/libbladeRF/src/dc_cal_table.c): loading a table
  from its file format, finding the entry of a frequency by binary search and the values for a
  frequency.  Indices are 32-bit words, as in the code, and wrap around; single-precision numbers are
  rationals with rounding, as in \<open>Lms_Freq\<close>.
\<close>

unbundle bit_operations_syntax

record dc_cal_entry =
  ce_freq :: u32
  ce_dc_i :: int
  ce_dc_q :: int

record dc_cal_tbl =
  ct_version :: u32
  ct_n_entries :: u32
  ct_reg_vals :: bladerf_lms_dc_cals
  ct_curr_idx :: u32
  ct_entries :: "dc_cal_entry list"

abbreviation (input) SHORT_SEARCH :: u32 where "SHORT_SEARCH \<equiv> 10"

text \<open>Reading an element of the array: \<open>None\<close> outside of it, where the code reads foreign memory.\<close>

definition entry_at :: "dc_cal_tbl \<Rightarrow> u32 \<Rightarrow> dc_cal_entry option" where
  "entry_at tbl idx = (if unat idx < length (ct_entries tbl) then Some (ct_entries tbl ! unat idx) else None)"

section \<open>Looking up a frequency\<close>

definition entry_matches :: "dc_cal_tbl \<Rightarrow> u32 \<Rightarrow> u32 \<Rightarrow> bool option" where
  "entry_matches tbl entry_idx freq =
     (if entry_idx \<ge> ct_n_entries tbl - 1 then map_option (\<lambda>e. freq \<ge> ce_freq e) (entry_at tbl entry_idx)
      else case entry_at tbl entry_idx of None \<Rightarrow> None
           | Some e \<Rightarrow> if freq \<ge> ce_freq e then map_option (\<lambda>n. freq < ce_freq n) (entry_at tbl (entry_idx + 1))
                       else Some False)"

text \<open>The recursion, with the final value of *hit_limit (false before the call).\<close>

function find_entry :: "dc_cal_tbl \<Rightarrow> u32 \<Rightarrow> u32 \<Rightarrow> u32 \<Rightarrow> u32 \<Rightarrow> (u32 \<times> bool) option" where
  "find_entry tbl curr_idx min_idx max_idx freq =
     (if max_idx < min_idx \<or> max_idx = min_idx \<and> max_idx = curr_idx then Some (curr_idx, True)
      else case entry_matches tbl curr_idx freq of
        None \<Rightarrow> None
      | Some True \<Rightarrow> Some (curr_idx, False)
      | Some False \<Rightarrow>
          (case entry_at tbl curr_idx of
             None \<Rightarrow> None
           | Some e \<Rightarrow>
               if ce_freq e > freq then
                 if curr_idx > 0 then
                   let max_idx = curr_idx - 1 in
                   find_entry tbl (min_idx + (max_idx - min_idx) div 2) min_idx max_idx freq
                 else Some (0, True)
               else if curr_idx < ct_n_entries tbl - 1 then
                 let min_idx = curr_idx + 1 in
                 find_entry tbl (min_idx + (max_idx - min_idx) div 2) min_idx max_idx freq
               else Some (ct_n_entries tbl - 1, True)))"
  by pat_completeness auto

text \<open>Termination: once the index is inside the range it stays inside, and the range shrinks, until
  it is empty.\<close>

definition search_phase :: "u32 \<Rightarrow> u32 \<Rightarrow> u32 \<Rightarrow> nat" where
  "search_phase curr_idx min_idx max_idx =
     (if max_idx < min_idx then 0 else if min_idx \<le> curr_idx \<and> curr_idx \<le> max_idx then 1 else 2)"

lemma middle_in_range:
  assumes "(lo :: u32) \<le> hi"
  shows "lo \<le> lo + (hi - lo) div 2" "lo + (hi - lo) div 2 \<le> hi"
    "unat (lo + (hi - lo) div 2) = unat lo + (unat hi - unat lo) div 2"
proof -
  have d: "unat ((hi - lo) div 2) = (unat hi - unat lo) div 2"
    using assms by (simp add: unat_div unat_sub)
  have le: "unat lo \<le> unat hi" using assms by (simp add: word_le_nat_alt)
  have "unat lo + (unat hi - unat lo) div 2 \<le> unat hi" using le by linarith
  moreover have "unat hi < 2 ^ 32" using unsigned_less [of hi] by simp
  ultimately show u: "unat (lo + (hi - lo) div 2) = unat lo + (unat hi - unat lo) div 2"
    unfolding unat_word_ariths(1) d by simp
  show "lo \<le> lo + (hi - lo) div 2" "lo + (hi - lo) div 2 \<le> hi"
    using le unfolding word_le_nat_alt u by linarith+
qed

lemma unat_Suc_less: "(a :: u32) < b \<Longrightarrow> unat (a + 1) = unat a + 1"
  using unsigned_less [of b, where ?'a = nat] by (simp add: unat_word_ariths word_less_nat_alt)

termination find_entry
proof (relation "measures [\<lambda>(tbl, curr_idx, min_idx, max_idx, freq). search_phase curr_idx min_idx max_idx,
      \<lambda>(tbl, curr_idx, min_idx, max_idx, freq). unat max_idx - unat min_idx]", goal_cases)
  case 1
  show ?case by simp
next
  case (2 tbl curr_idx min_idx max_idx freq x2 x2a x)
  have c: "unat (curr_idx - 1) = unat curr_idx - 1" "0 < unat curr_idx"
    using 2(6) by (simp_all add: unat_minus_one unat_gt_0)
  show ?case
    using 2(1,6,7) middle_in_range [of min_idx "curr_idx - 1"] c
    by (auto simp add: search_phase_def word_le_nat_alt word_less_nat_alt)
next
  case (3 tbl curr_idx min_idx max_idx freq x2 x2a x)
  show ?case
    using 3(1,6,7) middle_in_range [of "curr_idx + 1" max_idx] unat_Suc_less [OF 3(6)]
    by (auto simp add: search_phase_def word_le_nat_alt word_less_nat_alt)
qed

declare find_entry.simps [simp del]

definition i64_max :: "int \<Rightarrow> int \<Rightarrow> int" where
  "i64_max x y = (if x > y then x else y)"

definition i64_min :: "int \<Rightarrow> int \<Rightarrow> int" where
  "i64_min x y = (if x < y then x else y)"

definition dc_cal_tbl_lookup :: "dc_cal_tbl \<Rightarrow> u32 \<Rightarrow> u32 option" where
  "dc_cal_tbl_lookup tbl freq =
     (let whole = map_option fst (find_entry tbl (ct_curr_idx tbl) 0 (ct_n_entries tbl - 1) freq) in
      if ct_n_entries tbl > SHORT_SEARCH then
        let min_idx = word_of_int (i64_max 0 (uint (ct_curr_idx tbl) - uint SHORT_SEARCH div 2));
            max_idx = word_of_int (i64_min (uint (ct_n_entries tbl - 1))
                        (uint (ct_curr_idx tbl + SHORT_SEARCH div 2))) in
        case find_entry tbl (ct_curr_idx tbl) min_idx max_idx freq of
          None \<Rightarrow> None
        | Some (ret, limit) \<Rightarrow> if \<not> limit then Some ret else whole
      else whole)"

text \<open>The reference: the last entry that is not above the frequency, or the first entry, found by
  walking the table.\<close>

definition entries_upto :: "dc_cal_tbl \<Rightarrow> u32 \<Rightarrow> nat" where
  "entries_upto tbl freq = length (takeWhile (\<lambda>e. ce_freq e \<le> freq) (ct_entries tbl))"

definition linear_lookup :: "dc_cal_tbl \<Rightarrow> u32 \<Rightarrow> nat" where
  "linear_lookup tbl freq = entries_upto tbl freq - 1"

text \<open>A table as the loader and the calibration utility build it.\<close>

definition dc_cal_tbl_wf :: "dc_cal_tbl \<Rightarrow> bool" where
  "dc_cal_tbl_wf tbl \<longleftrightarrow>
     unat (ct_n_entries tbl) = length (ct_entries tbl) \<and> ct_curr_idx tbl < ct_n_entries tbl \<and>
     sorted (map ce_freq (ct_entries tbl))"

lemma entries_upto_iff:
  assumes "dc_cal_tbl_wf tbl" "i < length (ct_entries tbl)"
  shows "ce_freq (ct_entries tbl ! i) \<le> freq \<longleftrightarrow> i < entries_upto tbl freq"
proof
  let ?es = "ct_entries tbl" and ?P = "\<lambda>e. ce_freq e \<le> freq"
  have len: "length (takeWhile ?P ?es) \<le> length ?es" by (rule length_takeWhile_le)
  assume le: "?P (?es ! i)"
  show "i < entries_upto tbl freq"
  proof (rule ccontr)
    assume "\<not> i < entries_upto tbl freq"
    then have j: "entries_upto tbl freq \<le> i" by simp
    then have "entries_upto tbl freq < length ?es" using assms(2) by simp
    then have n: "\<not> ?P (?es ! entries_upto tbl freq)"
      unfolding entries_upto_def by (rule nth_length_takeWhile)
    have "map ce_freq ?es ! entries_upto tbl freq \<le> map ce_freq ?es ! i"
      by (rule sorted_nth_mono) (use assms j in \<open>simp_all add: dc_cal_tbl_wf_def\<close>)
    then show False using n le j assms(2) by simp
  qed
next
  assume "i < entries_upto tbl freq"
  then have i: "i < length (takeWhile (\<lambda>e. ce_freq e \<le> freq) (ct_entries tbl))" by (simp add: entries_upto_def)
  then have "takeWhile (\<lambda>e. ce_freq e \<le> freq) (ct_entries tbl) ! i \<in> set (takeWhile (\<lambda>e. ce_freq e \<le> freq) (ct_entries tbl))"
    by (rule nth_mem)
  then have "ce_freq (takeWhile (\<lambda>e. ce_freq e \<le> freq) (ct_entries tbl) ! i) \<le> freq" by (rule set_takeWhileD [THEN conjunct2])
  with i show "ce_freq (ct_entries tbl ! i) \<le> freq" by (simp add: takeWhile_nth)
qed

lemma entries_upto_le: "entries_upto tbl freq \<le> length (ct_entries tbl)"
  by (simp add: entries_upto_def length_takeWhile_le)

lemma last_idx:
  assumes "dc_cal_tbl_wf tbl"
  shows "unat (ct_n_entries tbl - 1) = length (ct_entries tbl) - 1" "0 < length (ct_entries tbl)"
proof -
  have z: "0 < unat (ct_n_entries tbl)"
    using assms by (auto simp add: dc_cal_tbl_wf_def word_less_nat_alt)
  then have "ct_n_entries tbl \<noteq> 0" by auto
  then show "unat (ct_n_entries tbl - 1) = length (ct_entries tbl) - 1"
    using assms by (simp add: unat_minus_one dc_cal_tbl_wf_def)
  show "0 < length (ct_entries tbl)" using z assms by (simp add: dc_cal_tbl_wf_def)
qed

lemma entry_matches_wf:
  assumes "dc_cal_tbl_wf tbl" "unat idx < length (ct_entries tbl)"
  shows "entry_matches tbl idx freq = Some (unat idx + 1 = entries_upto tbl freq)"
proof (cases "idx \<ge> ct_n_entries tbl - 1")
  case True
  then have "unat idx + 1 = length (ct_entries tbl)"
    using assms last_idx [OF assms(1)] by (simp add: word_le_nat_alt)
  then show ?thesis
    using True entries_upto_iff [OF assms, of freq] entries_upto_le [of tbl freq] assms(2)
    by (auto simp add: entry_matches_def entry_at_def)
next
  case False
  then have l: "idx < ct_n_entries tbl - 1" by simp
  have u: "unat idx + 1 < length (ct_entries tbl)"
    using l last_idx [OF assms(1)] by (simp add: word_less_nat_alt)
  show ?thesis
    using False entries_upto_iff [OF assms, of freq] entries_upto_iff [OF assms(1) u, of freq] assms(2) u
      unat_Suc_less [OF l]
    by (auto simp add: entry_matches_def entry_at_def not_le [symmetric])
qed

text \<open>One step of the search in a well-formed table.\<close>

lemma find_entry_step:
  assumes "dc_cal_tbl_wf tbl" "unat curr_idx < length (ct_entries tbl)"
  shows "find_entry tbl curr_idx min_idx max_idx freq =
    (if max_idx < min_idx \<or> max_idx = min_idx \<and> max_idx = curr_idx then Some (curr_idx, True)
     else if unat curr_idx + 1 = entries_upto tbl freq then Some (curr_idx, False)
     else if entries_upto tbl freq \<le> unat curr_idx then
       if curr_idx > 0 then find_entry tbl (min_idx + (curr_idx - 1 - min_idx) div 2) min_idx (curr_idx - 1) freq
       else Some (0, True)
     else find_entry tbl (curr_idx + 1 + (max_idx - (curr_idx + 1)) div 2) (curr_idx + 1) max_idx freq)"
proof -
  have "curr_idx < ct_n_entries tbl - 1" if "unat curr_idx + 1 < entries_upto tbl freq"
    using that last_idx [OF assms(1)] entries_upto_le [of tbl freq] by (simp add: word_less_nat_alt)
  moreover have "ce_freq (ct_entries tbl ! unat curr_idx) > freq \<longleftrightarrow> entries_upto tbl freq \<le> unat curr_idx"
    using entries_upto_iff [OF assms, of freq] by auto
  moreover have e: "entry_at tbl curr_idx = Some (ct_entries tbl ! unat curr_idx)"
    using assms(2) by (simp add: entry_at_def)
  ultimately show ?thesis
    unfolding find_entry.simps [of tbl curr_idx min_idx max_idx freq] entry_matches_wf [OF assms] e Let_def
    by (simp only: option.case split: bool.split) (simp split del: if_split cong: if_cong)
qed

lemma find_entry_cases [case_names limit match down first up]:
  assumes "dc_cal_tbl_wf tbl" "unat curr_idx < length (ct_entries tbl)"
  obtains
    "max_idx < min_idx \<or> max_idx = min_idx \<and> max_idx = curr_idx"
    "find_entry tbl curr_idx min_idx max_idx freq = Some (curr_idx, True)"
  | "min_idx \<le> max_idx" "unat curr_idx + 1 = entries_upto tbl freq"
    "find_entry tbl curr_idx min_idx max_idx freq = Some (curr_idx, False)"
  | "min_idx \<le> max_idx" "\<not> (max_idx = min_idx \<and> max_idx = curr_idx)"
    "entries_upto tbl freq \<le> unat curr_idx" "0 < curr_idx" "unat (curr_idx - 1) = unat curr_idx - 1"
    "find_entry tbl curr_idx min_idx max_idx freq =
       find_entry tbl (min_idx + (curr_idx - 1 - min_idx) div 2) min_idx (curr_idx - 1) freq"
  | "min_idx \<le> max_idx" "entries_upto tbl freq = 0" "curr_idx = 0"
    "find_entry tbl curr_idx min_idx max_idx freq = Some (0, True)"
  | "min_idx \<le> max_idx" "\<not> (max_idx = min_idx \<and> max_idx = curr_idx)"
    "unat curr_idx + 1 < entries_upto tbl freq" "unat (curr_idx + 1) = unat curr_idx + 1"
    "find_entry tbl curr_idx min_idx max_idx freq =
       find_entry tbl (curr_idx + 1 + (max_idx - (curr_idx + 1)) div 2) (curr_idx + 1) max_idx freq"
proof -
  have up: "unat (curr_idx + 1) = unat curr_idx + 1" if "unat curr_idx + 1 < entries_upto tbl freq"
    by (rule unat_Suc_less [of _ "ct_n_entries tbl"])
      (use that assms in \<open>simp_all add: word_less_nat_alt dc_cal_tbl_wf_def\<close>)
  have down: "unat (curr_idx - 1) = unat curr_idx - 1" if "0 < curr_idx"
    using that by (simp add: unat_minus_one)
  note step = find_entry_step [OF assms, of min_idx max_idx freq]
  let ?limit = "max_idx < min_idx \<or> max_idx = min_idx \<and> max_idx = curr_idx"
  consider (l) ?limit
    | (m) "\<not> ?limit" "unat curr_idx + 1 = entries_upto tbl freq"
    | (f) "\<not> ?limit" "entries_upto tbl freq \<le> unat curr_idx" "curr_idx = 0"
    | (d) "\<not> ?limit" "entries_upto tbl freq \<le> unat curr_idx" "0 < curr_idx"
    | (u) "\<not> ?limit" "unat curr_idx + 1 < entries_upto tbl freq"
    using word_neq_0_conv [of curr_idx] by linarith
  then show ?thesis
  proof cases
    case l
    then show ?thesis using step by (intro that(1)) (simp_all only: if_True)
  next
    case m
    then have "find_entry tbl curr_idx min_idx max_idx freq = Some (curr_idx, False)"
      using step by (simp only: if_True if_False) simp
    then show ?thesis using m by (intro that(2)) (simp_all add: not_less)
  next
    case f
    then show ?thesis using step by (intro that(4)) (simp_all add: not_less)
  next
    case d
    have "find_entry tbl curr_idx min_idx max_idx freq =
        find_entry tbl (min_idx + (curr_idx - 1 - min_idx) div 2) min_idx (curr_idx - 1) freq"
      using step d by (simp only: if_False if_True) (simp add: le_imp_less_Suc [THEN less_imp_neq, symmetric])
    then show ?thesis using d down by (intro that(3)) (simp_all add: not_less)
  next
    case u
    have "find_entry tbl curr_idx min_idx max_idx freq =
        find_entry tbl (curr_idx + 1 + (max_idx - (curr_idx + 1)) div 2) (curr_idx + 1) max_idx freq"
      using step u by (simp only: if_False if_True) simp
    then show ?thesis using u up by (intro that(5)) (simp_all add: not_less)
  qed
qed

text \<open>Narrowing the range is progress.\<close>

lemma search_progress:
  assumes "min_idx \<le> max_idx" "\<not> (max_idx = min_idx \<and> max_idx = curr_idx)"
    "min_idx \<le> hi \<and> lo = min_idx \<and> unat hi + 1 = unat curr_idx \<or> lo \<le> max_idx \<and> hi = max_idx \<and> unat lo = unat curr_idx + 1"
  shows "search_phase curr_idx min_idx max_idx = 2 \<or>
    search_phase curr_idx min_idx max_idx = 1 \<and> unat hi - unat lo < unat max_idx - unat min_idx"
  using assms by (auto simp add: search_phase_def word_le_nat_alt word_less_nat_alt)

text \<open>The search stays inside the table and reports a match only where there is one.\<close>

lemma find_entry_safe:
  assumes "dc_cal_tbl_wf tbl" "unat curr_idx < length (ct_entries tbl)" "unat max_idx < length (ct_entries tbl)"
  shows "\<exists>i limit. find_entry tbl curr_idx min_idx max_idx freq = Some (i, limit) \<and>
    (\<not> limit \<longrightarrow> unat i + 1 = entries_upto tbl freq)"
proof -
  define m where "m = (search_phase curr_idx min_idx max_idx, unat max_idx - unat min_idx)"
  have "wf (less_than <*lex*> less_than)" by blast
  then show ?thesis
    using m_def assms(2,3)
  proof (induction m arbitrary: curr_idx min_idx max_idx rule: wf_induct_rule)
    case (less m)
    have IH: "\<exists>i limit. find_entry tbl c lo hi freq = Some (i, limit) \<and> (\<not> limit \<longrightarrow> unat i + 1 = entries_upto tbl freq)"
      if "lo \<le> hi" "c = lo + (hi - lo) div 2" "unat hi < length (ct_entries tbl)"
        "search_phase curr_idx min_idx max_idx = 2 \<or>
         search_phase curr_idx min_idx max_idx = 1 \<and> unat hi - unat lo < unat max_idx - unat min_idx" for c lo hi
    proof (rule less.IH [of "(search_phase c lo hi, unat hi - unat lo)"])
      have "search_phase c lo hi = 1" using middle_in_range [OF that(1)] that by (simp add: search_phase_def)
      then show "((search_phase c lo hi, unat hi - unat lo), m) \<in> less_than <*lex*> less_than"
        using that(4) by (auto simp add: less.prems(1))
      show "unat c < length (ct_entries tbl)"
        using middle_in_range(2) [OF that(1)] that(2,3) by (simp add: word_le_nat_alt)
    qed (use that in simp_all)
    have base: "find_entry tbl c lo hi freq = Some (c, True)" if "\<not> lo \<le> hi" for c lo hi
      using that by (subst find_entry.simps) (simp add: not_le)
    from assms(1) less.prems(2) show ?case
    proof (cases rule: find_entry_cases [where min_idx = min_idx and max_idx = max_idx and freq = freq])
      case down
      then show ?thesis
        using base [of min_idx "curr_idx - 1"] IH [of min_idx "curr_idx - 1", OF _ refl]
          search_progress [OF down(1,2), of "curr_idx - 1" min_idx] less.prems
        by (cases "min_idx \<le> curr_idx - 1") (auto simp add: unat_gt_0)
    next
      case up
      then show ?thesis
        using base [of "curr_idx + 1" max_idx] IH [of "curr_idx + 1" max_idx, OF _ refl]
          search_progress [OF up(1,2), of max_idx "curr_idx + 1"] less.prems
        by (cases "curr_idx + 1 \<le> max_idx") auto
    qed auto
  qed
qed

text \<open>A search whose range contains the entry finds it.\<close>

lemma find_entry_exact:
  assumes "dc_cal_tbl_wf tbl" "unat curr_idx < length (ct_entries tbl)" "unat max_idx < length (ct_entries tbl)"
    "unat min_idx \<le> linear_lookup tbl freq" "linear_lookup tbl freq \<le> unat max_idx"
  shows "\<exists>limit. find_entry tbl curr_idx min_idx max_idx freq = Some (of_nat (linear_lookup tbl freq), limit)"
proof -
  define m where "m = (search_phase curr_idx min_idx max_idx, unat max_idx - unat min_idx)"
  have "wf (less_than <*lex*> less_than)" by blast
  then show ?thesis
    using m_def assms(2-5)
  proof (induction m arbitrary: curr_idx min_idx max_idx rule: wf_induct_rule)
    case (less m)
    have IH: "\<exists>limit. find_entry tbl c lo hi freq = Some (of_nat (linear_lookup tbl freq), limit)"
      if "unat lo \<le> linear_lookup tbl freq" "linear_lookup tbl freq \<le> unat hi"
        "c = lo + (hi - lo) div 2" "unat hi < length (ct_entries tbl)"
        "search_phase curr_idx min_idx max_idx = 2 \<or>
         search_phase curr_idx min_idx max_idx = 1 \<and> unat hi - unat lo < unat max_idx - unat min_idx" for c lo hi
    proof (rule less.IH [of "(search_phase c lo hi, unat hi - unat lo)"])
      have le: "lo \<le> hi" using that(1,2) by (simp add: word_le_nat_alt)
      have "search_phase c lo hi = 1" using middle_in_range [OF le] that le by (simp add: search_phase_def)
      then show "((search_phase c lo hi, unat hi - unat lo), m) \<in> less_than <*lex*> less_than"
        using that(5) by (auto simp add: less.prems(1))
      show "unat c < length (ct_entries tbl)"
        using middle_in_range(2) [OF le] that(3,4) by (simp add: word_le_nat_alt)
    qed (use that in simp_all)
    note l = less.prems(4,5) [unfolded linear_lookup_def]
    from assms(1) less.prems(2) show ?case
    proof (cases rule: find_entry_cases [where min_idx = min_idx and max_idx = max_idx and freq = freq])
      case limit
      then show ?thesis
        using l by (auto simp add: linear_lookup_def word_le_nat_alt word_less_nat_alt word_unat_eq_iff)
    next
      case match
      then have "linear_lookup tbl freq = unat curr_idx" by (simp add: linear_lookup_def)
      then have "of_nat (linear_lookup tbl freq) = curr_idx" by simp
      then show ?thesis using match(3) by auto
    next
      case first
      then show ?thesis by (auto simp add: linear_lookup_def)
    next
      case down
      have pos: "0 < unat curr_idx" using down(4) by (simp add: unat_gt_0)
      have hi: "linear_lookup tbl freq \<le> unat (curr_idx - 1)" "unat (curr_idx - 1) < length (ct_entries tbl)"
        using down(3,5) less.prems(2) by (simp_all add: linear_lookup_def)
      have "min_idx \<le> curr_idx - 1" using hi(1) less.prems(4) by (simp add: word_le_nat_alt)
      then show ?thesis
        using IH [OF less.prems(4) hi(1) refl hi(2)] pos down(5,6)
          search_progress [OF down(1,2), of "curr_idx - 1" min_idx] by simp
    next
      case up
      have lo: "unat (curr_idx + 1) \<le> linear_lookup tbl freq"
        using up(3,4) by (simp add: linear_lookup_def)
      then have "curr_idx + 1 \<le> max_idx" using less.prems(5) by (simp add: word_le_nat_alt)
      then show ?thesis
        using IH [OF lo less.prems(5) refl less.prems(3)] up(4,5)
          search_progress [OF up(1,2), of max_idx "curr_idx + 1"] by simp
    qed
  qed
qed

lemma dc_cal_tbl_lookup_linear:
  assumes "dc_cal_tbl_wf tbl"
  shows "dc_cal_tbl_lookup tbl freq = Some (of_nat (linear_lookup tbl freq))"
    and "linear_lookup tbl freq < length (ct_entries tbl)"
proof -
  note l = last_idx [OF assms]
  show lt: "linear_lookup tbl freq < length (ct_entries tbl)"
    using l(2) entries_upto_le [of tbl freq] unfolding linear_lookup_def by linarith
  have c: "unat (ct_curr_idx tbl) < length (ct_entries tbl)"
    using assms by (simp add: dc_cal_tbl_wf_def word_less_nat_alt)
  have whole: "map_option fst (find_entry tbl (ct_curr_idx tbl) 0 (ct_n_entries tbl - 1) freq) =
      Some (of_nat (linear_lookup tbl freq))"
    using find_entry_exact [OF assms c, of "ct_n_entries tbl - 1" 0 freq] l lt by auto
  define hi :: u32 where "hi = word_of_int (i64_min (uint (ct_n_entries tbl - 1)) (uint (ct_curr_idx tbl + SHORT_SEARCH div 2)))"
  have "hi \<le> ct_n_entries tbl - 1" by (auto simp add: hi_def i64_min_def word_le_def)
  then have "unat hi < length (ct_entries tbl)" using l unfolding word_le_nat_alt by linarith
  from find_entry_safe [OF assms c this] obtain i limit where
    "find_entry tbl (ct_curr_idx tbl) (word_of_int (i64_max 0 (uint (ct_curr_idx tbl) - uint SHORT_SEARCH div 2))) hi freq = Some (i, limit)"
    "\<not> limit \<longrightarrow> unat i + 1 = entries_upto tbl freq" by blast
  moreover from this(2) have "i = of_nat (linear_lookup tbl freq)" if "\<not> limit"
  proof -
    have "linear_lookup tbl freq = unat i"
      using \<open>\<not> limit \<longrightarrow> unat i + 1 = entries_upto tbl freq\<close> that unfolding linear_lookup_def by linarith
    then show ?thesis by simp
  qed
  ultimately show "dc_cal_tbl_lookup tbl freq = Some (of_nat (linear_lookup tbl freq))"
    unfolding dc_cal_tbl_lookup_def Let_def whole hi_def [symmetric] by simp
qed

section \<open>Values for a frequency\<close>

text \<open>Rounding to single precision, of either sign, and the largest single.\<close>

definition f32_signed :: "rat \<Rightarrow> rat" where
  "f32_signed q = (if q < 0 then - f32_round (- q) else f32_round q)"

definition FLT_MAX :: rat where
  "FLT_MAX = (2 - 1 / 2 ^ 23) * 2 ^ 127"

text \<open>The conversion of a float to unsigned int is undefined outside the range of the type.\<close>

definition float_to_uint :: "rat \<Rightarrow> u32 option" where
  "float_to_uint y =
     (if - 1 < y \<and> y < 2 ^ 32 then Some (word_of_int (if y < 0 then 0 else \<lfloor>y\<rfloor>)) else None)"

definition u32_to_float :: "u32 \<Rightarrow> rat" where
  "u32_to_float w = f32_round (of_int (uint w))"

definition interp :: "u32 \<Rightarrow> u32 \<Rightarrow> u32 \<Rightarrow> u32 \<Rightarrow> u32 \<Rightarrow> u32 option" where
  "interp x0 y0 x1 y1 x =
     (let num = f32_signed (u32_to_float y1 - u32_to_float y0);
          den = f32_signed (u32_to_float x1 - u32_to_float x0);
          m = if den = 0 then FLT_MAX else f32_signed (num / den);
          y = f32_signed (f32_signed (u32_to_float (x - x0) * m) + u32_to_float y0)
      in float_to_uint y)"

definition int16_of_uint :: "u32 \<Rightarrow> int" where
  "int16_of_uint w = sint (ucast w :: u16)"

definition dc_cal_interp :: "dc_cal_tbl \<Rightarrow> u32 \<Rightarrow> u32 \<Rightarrow> u32 \<Rightarrow> (int \<times> int) option" where
  "dc_cal_interp tbl idx_low idx_high freq =
     (case (entry_at tbl idx_low, entry_at tbl idx_high) of
        (Some low, Some high) \<Rightarrow>
          (let f_low = ce_freq low; f_high = ce_freq high in
           case (interp f_low (word_of_int (ce_dc_i low)) f_high (word_of_int (ce_dc_i low)) freq,
                 interp f_low (word_of_int (ce_dc_q low)) f_high (word_of_int (ce_dc_q low)) freq) of
             (Some dc_i, Some dc_q) \<Rightarrow> Some (int16_of_uint dc_i, int16_of_uint dc_q)
           | _ \<Rightarrow> None)
      | _ \<Rightarrow> None)"

definition dc_cal_tbl_vals :: "dc_cal_tbl \<Rightarrow> u32 \<Rightarrow> (int \<times> int) option" where
  "dc_cal_tbl_vals tbl freq =
     (case dc_cal_tbl_lookup tbl freq of
        None \<Rightarrow> None
      | Some idx \<Rightarrow>
          (case entry_at tbl idx of
             None \<Rightarrow> None
           | Some e \<Rightarrow>
               if ce_freq e = freq then Some (ce_dc_i e, ce_dc_q e)
               else if idx = ct_n_entries tbl - 1 then dc_cal_interp tbl (idx - 1) idx freq
               else dc_cal_interp tbl idx (idx + 1) freq))"

lemma f32_round_small_int:
  assumes "0 \<le> k" "k < 2 ^ 24"
  shows "f32_round (of_int k) = of_int k"
proof (cases "k = 0")
  case True
  then show ?thesis by (simp add: f32_round_def)
next
  case False
  then have k: "0 < k" using assms by simp
  define e where "e = f32_exponent (of_int k)"
  have "bitlen k \<le> 24" using assms by (simp add: bitlen_le_iff_power)
  moreover have q: "quotient_of (of_int k) = (k, 1)"
    using quotient_of_Fract [of k 1] by (simp add: Fract_of_int_eq Rat.normalize_def)
  ultimately have e: "e \<le> 0"
    unfolding e_def f32_exponent_def q using bitlen_ge_iff_power [of 1 1] by (simp add: Let_def)
  have "(of_int k :: rat) / 2 powi e = of_int (k * 2 ^ nat (- e))"
    using e by (simp add: power_int_def field_simps)
  then have "of_int (round_half_even (of_int k / 2 powi e)) = (of_int k :: rat) / 2 powi e"
    by (simp add: round_half_even_def Let_def del: of_int_mult)
  then show ?thesis using k by (simp add: f32_round_def Let_def flip: e_def)
qed

lemma f32_signed_small_int: "0 \<le> k \<Longrightarrow> k < 2 ^ 24 \<Longrightarrow> f32_signed (of_int k) = of_int k"
  by (simp add: f32_signed_def f32_round_small_int)

text \<open>Between two equal values the interpolation is constant.\<close>

lemma interp_const:
  assumes "u32_to_float x0 \<noteq> u32_to_float x1" "uint y < 2 ^ 24"
  shows "interp x0 y x1 y x = Some y"
proof -
  define k where "k = uint y"
  have k: "0 \<le> k" "k < 2 ^ 24" "word_of_int k = y" using assms(2) by (simp_all add: k_def)
  have y: "u32_to_float y = of_int k"
    unfolding u32_to_float_def k_def [symmetric] using k by (intro f32_round_small_int)
  have "f32_signed q = 0 \<longleftrightarrow> q = 0" for q
  proof -
    have pos: "f32_round r \<noteq> 0" if "0 < r" for r
      using f32_round_error(2) [OF that] that by (auto simp add: field_simps)
    consider "q < 0" | "q = 0" | "0 < q" by linarith
    then show ?thesis
      using pos [of q] pos [of "- q"] by cases (simp_all add: f32_signed_def f32_round_def [of 0])
  qed
  note z = this
  have "rat_of_int k < of_int (2 ^ 32)" using k(2) unfolding of_int_less_iff by simp
  then have "float_to_uint (of_int k) = Some y" using k(1,3) by (simp add: float_to_uint_def)
  moreover have "f32_signed 0 = 0" using z by blast
  moreover have "f32_signed (u32_to_float x1 - u32_to_float x0) \<noteq> 0" using z assms(1) by auto
  ultimately show ?thesis
    using f32_signed_small_int [OF k(1,2)] by (simp add: interp_def Let_def y)
qed

text \<open>What the values are: those of an entry of exactly the frequency, and otherwise those of the
  entry below the frequency (the last but one for a frequency past the table), unchanged.\<close>

definition vals_entry :: "dc_cal_tbl \<Rightarrow> u32 \<Rightarrow> nat" where
  "vals_entry tbl freq =
     (let i = linear_lookup tbl freq in
      if ce_freq (ct_entries tbl ! i) \<noteq> freq \<and> i = length (ct_entries tbl) - 1 then i - 1 else i)"

lemma int16_roundtrip: "0 \<le> k \<Longrightarrow> k < 2 ^ 15 \<Longrightarrow> int16_of_uint (word_of_int k) = k"
  by (simp add: int16_of_uint_def signed_of_int signed_ucast_eq signed_take_bit_int_eq_self take_bit_int_eq_self
      uint_word_of_int_small)

lemma dc_cal_interp_low:
  assumes "Suc i < length (ct_entries tbl)" "unat lo = i" "unat hi = Suc i"
    "0 \<le> ce_dc_i (ct_entries tbl ! i)" "ce_dc_i (ct_entries tbl ! i) < 2 ^ 15"
    "0 \<le> ce_dc_q (ct_entries tbl ! i)" "ce_dc_q (ct_entries tbl ! i) < 2 ^ 15"
    "u32_to_float (ce_freq (ct_entries tbl ! i)) \<noteq> u32_to_float (ce_freq (ct_entries tbl ! Suc i))"
  shows "dc_cal_interp tbl lo hi freq = Some (ce_dc_i (ct_entries tbl ! i), ce_dc_q (ct_entries tbl ! i))"
proof -
  have u: "uint (word_of_int k :: u32) < 2 ^ 24" if "0 \<le> k" "k < 2 ^ 15" for k
    using that by (simp add: uint_word_of_int_small)
  have "interp (ce_freq (ct_entries tbl ! i)) (word_of_int k) (ce_freq (ct_entries tbl ! Suc i)) (word_of_int k) freq =
      Some (word_of_int k)" if "0 \<le> k" "k < 2 ^ 15" for k
    by (rule interp_const [OF assms(8) u [OF that]])
  then show ?thesis
    using assms by (simp add: dc_cal_interp_def entry_at_def Let_def int16_roundtrip)
qed

lemma dc_cal_tbl_vals_entry:
  assumes "dc_cal_tbl_wf tbl" "2 \<le> length (ct_entries tbl)"
    "e = ct_entries tbl ! vals_entry tbl freq"
    "0 \<le> ce_dc_i e" "ce_dc_i e < 2 ^ 15" "0 \<le> ce_dc_q e" "ce_dc_q e < 2 ^ 15"
    "\<And>i. Suc i < length (ct_entries tbl) \<Longrightarrow>
       u32_to_float (ce_freq (ct_entries tbl ! i)) \<noteq> u32_to_float (ce_freq (ct_entries tbl ! Suc i))"
  shows "dc_cal_tbl_vals tbl freq = Some (ce_dc_i e, ce_dc_q e)"
proof -
  let ?i = "linear_lookup tbl freq" and ?idx = "of_nat (linear_lookup tbl freq) :: u32"
  note look = dc_cal_tbl_lookup_linear [OF assms(1), of freq]
  note l = last_idx [OF assms(1)]
  have n: "length (ct_entries tbl) < 2 ^ 32"
    using assms(1) unsigned_less [of "ct_n_entries tbl", where ?'a = nat] by (simp add: dc_cal_tbl_wf_def)
  then have u: "unat ?idx = ?i" using look(2) by (simp add: unat_of_nat)
  have at: "entry_at tbl ?idx = Some (ct_entries tbl ! ?i)" using look(2) by (simp add: entry_at_def u)
  have last: "?idx = ct_n_entries tbl - 1 \<longleftrightarrow> ?i = length (ct_entries tbl) - 1"
    using l(1) by (simp add: word_unat_eq_iff u)
  consider (exact) "ce_freq (ct_entries tbl ! ?i) = freq"
    | (past) "ce_freq (ct_entries tbl ! ?i) \<noteq> freq" "?i = length (ct_entries tbl) - 1"
    | (between) "ce_freq (ct_entries tbl ! ?i) \<noteq> freq" "?i \<noteq> length (ct_entries tbl) - 1" by blast
  then show ?thesis
  proof cases
    case exact
    then show ?thesis using assms(3) by (simp add: dc_cal_tbl_vals_def look(1) at vals_entry_def Let_def)
  next
    case past
    have v: "vals_entry tbl freq = ?i - 1" using past by (simp add: vals_entry_def Let_def)
    have s: "Suc (?i - 1) = ?i" using past(2) assms(2) by simp
    have "unat (?idx - 1) = ?i - 1"
      using u s by (subst unat_minus_one) auto
    then have "dc_cal_interp tbl (?idx - 1) ?idx freq = Some (ce_dc_i e, ce_dc_q e)"
      unfolding assms(3) v
      by (intro dc_cal_interp_low) (use look(2) s u assms(4-8) assms(8) [of "?i - 1"] assms(3) v in auto)
    moreover have "?idx = ct_n_entries tbl - 1" using past(2) last by blast
    ultimately show ?thesis
      using past(1) unfolding dc_cal_tbl_vals_def look(1) option.case at by (simp only: if_False if_True simp_thms)
  next
    case between
    have v: "vals_entry tbl freq = ?i" using between by (simp add: vals_entry_def Let_def)
    have s: "Suc ?i < length (ct_entries tbl)" using between(2) look(2) by simp
    have "unat (?idx + 1) = Suc ?i"
      using u s n by (simp add: unat_word_ariths)
    then have "dc_cal_interp tbl ?idx (?idx + 1) freq = Some (ce_dc_i e, ce_dc_q e)"
      unfolding assms(3) v
      by (intro dc_cal_interp_low) (use s u assms v in auto)
    then show ?thesis using between last by (simp add: dc_cal_tbl_vals_def look(1) at)
  qed
qed

section \<open>The file format\<close>

abbreviation (input) DC_CAL_TBL_MAGIC :: u16 where "DC_CAL_TBL_MAGIC \<equiv> 0x1ab1"
abbreviation (input) DC_CAL_TBL_META_SIZE :: nat where "DC_CAL_TBL_META_SIZE \<equiv> 0x18"
abbreviation (input) DC_CAL_TBL_ENTRY_SIZE :: nat where "DC_CAL_TBL_ENTRY_SIZE \<equiv> 8"
abbreviation (input) DC_CAL_TBL_MIN_SIZE :: nat where
  "DC_CAL_TBL_MIN_SIZE \<equiv> DC_CAL_TBL_META_SIZE + DC_CAL_TBL_ENTRY_SIZE"

text \<open>The loop that reads n entries.\<close>

fun load_entries :: "nat \<Rightarrow> bytes \<Rightarrow> dc_cal_entry list" where
  "load_entries 0 buf = []"
| "load_entries (Suc n) buf =
     \<lparr>ce_freq = get_le32 buf, ce_dc_i = sint (get_le16 (drop 4 buf)), ce_dc_q = sint (get_le16 (drop 6 buf))\<rparr>
       # load_entries n (drop 8 buf)"

text \<open>The allocations succeed.\<close>

definition dc_cal_tbl_load :: "bytes \<Rightarrow> dc_cal_tbl option" where
  "dc_cal_tbl_load buf =
     (if length buf < DC_CAL_TBL_MIN_SIZE then None
      else if get_le16 buf \<noteq> DC_CAL_TBL_MAGIC then None
      else
        let version = get_le32 (drop 6 buf);
            n_entries = get_le32 (drop 10 buf);
            reg = (\<lambda>k. uint (buf ! (14 + k))) in
        if length buf < DC_CAL_TBL_META_SIZE + DC_CAL_TBL_ENTRY_SIZE * unat n_entries then None
        else Some \<lparr>ct_version = version, ct_n_entries = n_entries,
               ct_reg_vals = \<lparr>dc_lpf_tuning = reg 0, dc_tx_lpf_i = reg 1, dc_tx_lpf_q = reg 2,
                 dc_rx_lpf_i = reg 3, dc_rx_lpf_q = reg 4, dc_dc_ref = reg 5,
                 dc_rxvga2a_i = reg 6, dc_rxvga2a_q = reg 7, dc_rxvga2b_i = reg 8, dc_rxvga2b_q = reg 9\<rparr>,
               ct_curr_idx = n_entries div 2,
               ct_entries = load_entries (unat n_entries) (drop 24 buf)\<rparr>)"

section \<open>The table of the calibration utility\<close>

text \<open>
  host/utilities/bladeRF-cli/src/cmd/calibrate.c: the frequencies that are calibrated, and the data of
  the image file.  calloc succeeds; \<open>None\<close> is a failed assertion.
\<close>

record dc_calibration_params =
  cp_frequency :: u32
  cp_corr_i :: int
  cp_corr_q :: int
  cp_error_i :: rat
  cp_error_q :: rat

function prepare_frequencies :: "u32 \<Rightarrow> u32 \<Rightarrow> u32 \<Rightarrow> u32 \<Rightarrow> u32 \<Rightarrow> u32 list" where
  "prepare_frequencies f f_max f_inc n len =
     (if f \<le> f_max \<and> n < len then f # prepare_frequencies (f + f_inc) f_max f_inc (n + 1) len else [])"
  by pat_completeness auto

termination prepare_frequencies
proof (relation "measure (\<lambda>(f, f_max, f_inc, n, len). unat len - unat n)", goal_cases)
  case (2 f f_max f_inc n len)
  then have "n < len" by simp
  then show ?case using unat_Suc_less [of n len] by (simp add: word_less_nat_alt)
qed simp

declare prepare_frequencies.simps [simp del]

definition prepare_dc_cal_params :: "u32 \<Rightarrow> u32 \<Rightarrow> u32 \<Rightarrow> dc_calibration_params list option" where
  "prepare_dc_cal_params f_min f_max f_inc =
     (let len = ((f_max - f_min + 1) + (f_inc - 1)) div f_inc;
          fs = prepare_frequencies f_min f_max f_inc 0 len in
      if length fs = unat len
      then Some (map (\<lambda>f. \<lparr>cp_frequency = f, cp_corr_i = 0, cp_corr_q = 0, cp_error_i = 0, cp_error_q = 0\<rparr>) fs)
      else None)"

definition params_bytes :: "dc_calibration_params \<Rightarrow> bytes" where
  "params_bytes p = put_le32 (cp_frequency p) @ put_le16 (word_of_int (cp_corr_i p)) @ put_le16 (word_of_int (cp_corr_q p))"

definition table_image_data :: "bladerf_lms_dc_cals \<Rightarrow> dc_calibration_params list \<Rightarrow> bytes" where
  "table_image_data lms_dc_cals params =
     (let u8_of = (word_of_int :: int \<Rightarrow> u8) in
      put_le16 0x1ab1 @ put_le32 0 @ put_le32 1 @ put_le32 (of_nat (length params)) @
      [u8_of (dc_lpf_tuning lms_dc_cals), u8_of (dc_tx_lpf_i lms_dc_cals), u8_of (dc_tx_lpf_q lms_dc_cals),
       u8_of (dc_rx_lpf_i lms_dc_cals), u8_of (dc_rx_lpf_q lms_dc_cals), u8_of (dc_dc_ref lms_dc_cals),
       u8_of (dc_rxvga2a_i lms_dc_cals), u8_of (dc_rxvga2a_q lms_dc_cals),
       u8_of (dc_rxvga2b_i lms_dc_cals), u8_of (dc_rxvga2b_q lms_dc_cals)] @
      concat (map params_bytes params))"

definition entry_of_params :: "dc_calibration_params \<Rightarrow> dc_cal_entry" where
  "entry_of_params p = \<lparr>ce_freq = cp_frequency p, ce_dc_i = cp_corr_i p, ce_dc_q = cp_corr_q p\<rparr>"

definition int16_params :: "dc_calibration_params \<Rightarrow> bool" where
  "int16_params p \<longleftrightarrow> cp_corr_i p \<in> {- 32768 .. 32767} \<and> cp_corr_q p \<in> {- 32768 .. 32767}"

definition dc_cals_bytes :: "bladerf_lms_dc_cals \<Rightarrow> bool" where
  "dc_cals_bytes c \<longleftrightarrow> (\<forall>v \<in> {dc_lpf_tuning c, dc_tx_lpf_i c, dc_tx_lpf_q c, dc_rx_lpf_i c, dc_rx_lpf_q c,
     dc_dc_ref c, dc_rxvga2a_i c, dc_rxvga2a_q c, dc_rxvga2b_i c, dc_rxvga2b_q c}. 0 \<le> v \<and> v < 256)"

lemma sint16_of_int: "k \<in> {- 32768 .. 32767} \<Longrightarrow> sint (word_of_int k :: u16) = k"
  by (simp add: signed_of_int signed_take_bit_int_eq_self)

lemma load_entries_params:
  "\<forall>p \<in> set ps. int16_params p \<Longrightarrow>
     load_entries (length ps) (concat (map params_bytes ps) @ rest) = map entry_of_params ps"
proof (induction ps)
  case (Cons p ps)
  have "params_bytes p @ more =
      put_le32 (cp_frequency p) @ put_le16 (word_of_int (cp_corr_i p)) @ put_le16 (word_of_int (cp_corr_q p)) @ more"
    for more by (simp add: params_bytes_def)
  then show ?case
    using Cons by (simp add: entry_of_params_def int16_params_def sint16_of_int)
qed simp

lemma length_params_bytes: "length (concat (map params_bytes ps)) = 8 * length ps"
  by (induction ps) (simp_all add: params_bytes_def)

lemma load_table_image:
  assumes "0 < length ps" "length ps < 2 ^ 32" "\<forall>p \<in> set ps. int16_params p" "dc_cals_bytes cals"
  shows "dc_cal_tbl_load (table_image_data cals ps) =
    Some \<lparr>ct_version = 1, ct_n_entries = of_nat (length ps), ct_reg_vals = cals,
      ct_curr_idx = of_nat (length ps) div 2, ct_entries = map entry_of_params ps\<rparr>"
proof -
  have u: "uint (word_of_int v :: u8) = v" if "0 \<le> v" "v < 256" for v
    using that by (intro uint_word_of_int_small) simp_all
  have n: "unat (of_nat (length ps) :: u32) = length ps" using assms(2) by (simp add: unat_of_nat)
  show ?thesis
    using assms load_entries_params [OF assms(3), of "[]"]
    by (simp add: dc_cal_tbl_load_def table_image_data_def Let_def length_params_bytes n dc_cals_bytes_def u nth_append)
qed

text \<open>The frequencies that are calibrated: the grid from f_min to f_max, when the computation of its
  size does not wrap around.\<close>

definition grid_size :: "u32 \<Rightarrow> u32 \<Rightarrow> u32 \<Rightarrow> nat" where
  "grid_size f_min f_max f_inc = (unat f_max - unat f_min) div unat f_inc + 1"

lemma grid_point:
  assumes "f_min \<le> f_max" "0 < f_inc" "i < grid_size f_min f_max f_inc"
  shows "unat f_min + i * unat f_inc \<le> unat f_max"
    "unat (f_min + of_nat i * f_inc :: u32) = unat f_min + i * unat f_inc"
proof -
  have "i * unat f_inc \<le> (unat f_max - unat f_min) div unat f_inc * unat f_inc"
    using assms(3) by (intro mult_le_mono1) (simp add: grid_size_def)
  also have "\<dots> \<le> unat f_max - unat f_min" by simp
  finally show le: "unat f_min + i * unat f_inc \<le> unat f_max"
    using assms(1) by (simp add: word_le_nat_alt)
  have "f_min + of_nat i * f_inc = of_nat (unat f_min + i * unat f_inc)" by simp
  moreover have "unat f_min + i * unat f_inc < 2 ^ 32"
    using le unsigned_less [of f_max, where ?'a = nat] by simp
  ultimately show "unat (f_min + of_nat i * f_inc) = unat f_min + i * unat f_inc"
    by (simp only: unat_of_nat) simp
qed

lemma prepare_frequencies_grid:
  assumes "f_min \<le> f_max" "0 < f_inc" "grid_size f_min f_max f_inc < 2 ^ 32" "n \<le> grid_size f_min f_max f_inc"
  shows "prepare_frequencies (f_min + of_nat n * f_inc) f_max f_inc (of_nat n) (of_nat (grid_size f_min f_max f_inc)) =
    map (\<lambda>i. f_min + of_nat i * f_inc) [n..<grid_size f_min f_max f_inc]"
  using assms(4)
proof (induction n rule: inc_induct)
  case base
  show ?case by (subst prepare_frequencies.simps) simp
next
  case (step n)
  have "(of_nat n :: u32) < of_nat (grid_size f_min f_max f_inc)"
    using step.hyps(2) assms(3) by (simp add: word_less_nat_alt unat_of_nat)
  moreover have "f_min + of_nat n * f_inc \<le> f_max"
    using grid_point [OF assms(1,2) step.hyps(2)] by (simp add: word_le_nat_alt)
  moreover have "f_min + of_nat n * f_inc + f_inc = f_min + of_nat (Suc n) * f_inc" by (simp add: algebra_simps)
  moreover have "(of_nat n + 1 :: u32) = of_nat (Suc n)" by simp
  ultimately show ?case
    using step.hyps(2) step.IH by (subst prepare_frequencies.simps) (simp only: if_True simp_thms upt_conv_Cons list.map)
qed

lemma prepare_dc_cal_params_grid:
  assumes "f_min \<le> f_max" "0 < f_inc" "unat f_max - unat f_min + unat f_inc < 2 ^ 32"
  shows "prepare_dc_cal_params f_min f_max f_inc =
    Some (map (\<lambda>i. \<lparr>cp_frequency = f_min + of_nat i * f_inc, cp_corr_i = 0, cp_corr_q = 0, cp_error_i = 0, cp_error_q = 0\<rparr>)
      [0..<grid_size f_min f_max f_inc])"
proof -
  define d where "d = unat f_max - unat f_min"
  have i: "0 < unat f_inc" using assms(2) by (simp add: unat_gt_0)
  have "unat (f_max - f_min) = d" using assms(1) by (simp add: d_def unat_sub)
  have "(f_max - f_min + 1) + (f_inc - 1) = (f_max - f_min) + f_inc" by simp
  then have s: "unat ((f_max - f_min + 1) + (f_inc - 1)) = d + unat f_inc"
    unfolding \<open>(f_max - f_min + 1) + (f_inc - 1) = (f_max - f_min) + f_inc\<close> unat_word_ariths(1)
    using \<open>unat (f_max - f_min) = d\<close> assms(3) by (simp add: d_def)
  have g: "grid_size f_min f_max f_inc = (d + unat f_inc) div unat f_inc" using i by (simp add: grid_size_def d_def)
  have lt: "grid_size f_min f_max f_inc < 2 ^ 32"
    using assms(3) unfolding g d_def [symmetric] by (rule le_less_trans [OF div_le_dividend])
  have l: "((f_max - f_min + 1) + (f_inc - 1)) div f_inc = of_nat (grid_size f_min f_max f_inc)"
    unfolding word_unat_eq_iff unat_div s unat_of_nat using lt unfolding g [symmetric] by simp
  show ?thesis
    using prepare_frequencies_grid [OF assms(1,2) lt, of 0] lt
    unfolding prepare_dc_cal_params_def l Let_def by (simp add: unat_of_nat comp_def)
qed

lemma div2_less: "0 < n \<Longrightarrow> n < 2 ^ 32 \<Longrightarrow> (of_nat n :: u32) div 2 < of_nat n"
  by (simp add: word_less_nat_alt unat_div unat_of_nat)

lemma loaded_table_wf:
  assumes "0 < length es" "length es < 2 ^ 32" "sorted (map ce_freq es)"
  shows "dc_cal_tbl_wf \<lparr>ct_version = v, ct_n_entries = of_nat (length es), ct_reg_vals = cals,
    ct_curr_idx = of_nat (length es) div 2, ct_entries = es\<rparr>"
  using assms div2_less [of "length es"] by (simp add: dc_cal_tbl_wf_def unat_of_nat)

text \<open>The place of a frequency in a table whose entries are a grid.\<close>

lemma linear_lookup_grid:
  assumes "dc_cal_tbl_wf tbl" "f_min \<le> f_max" "0 < f_inc" "f_min \<le> freq"
    "map ce_freq (ct_entries tbl) = map (\<lambda>i. f_min + of_nat i * f_inc) [0..<grid_size f_min f_max f_inc]"
  shows "linear_lookup tbl freq = min ((unat freq - unat f_min) div unat f_inc) (grid_size f_min f_max f_inc - 1)"
proof -
  let ?N = "grid_size f_min f_max f_inc" and ?q = "(unat freq - unat f_min) div unat f_inc"
  have len: "length (ct_entries tbl) = ?N" using arg_cong [OF assms(5), of length] by simp
  have le: "unat f_min \<le> unat freq" using assms(4) by (simp add: word_le_nat_alt)
  have pos: "0 < unat f_inc" using assms(3) by (simp add: unat_gt_0)
  have iff: "i \<le> ?q \<longleftrightarrow> i < entries_upto tbl freq" if "i < ?N" for i
  proof -
    have "ce_freq (ct_entries tbl ! i) = f_min + of_nat i * f_inc"
      using arg_cong [OF assms(5), of "\<lambda>xs. xs ! i"] that len by simp
    then have "ce_freq (ct_entries tbl ! i) \<le> freq \<longleftrightarrow> unat f_min + i * unat f_inc \<le> unat freq"
      using grid_point(2) [OF assms(2,3) that] by (simp add: word_le_nat_alt)
    also have "\<dots> \<longleftrightarrow> i \<le> ?q" using le pos by (simp add: less_eq_div_iff_mult_less_eq le_diff_conv2 add.commute)
    finally show ?thesis using entries_upto_iff [OF assms(1), of i freq] that len by simp
  qed
  have k: "entries_upto tbl freq \<le> ?N" using entries_upto_le [of tbl freq] len by simp
  show ?thesis
  proof (cases "?q < ?N")
    case True
    then have "?q < entries_upto tbl freq" using iff by blast
    moreover have "entries_upto tbl freq \<le> ?q + 1"
      using iff [of "?q + 1"] k by (cases "?q + 1 < ?N") auto
    ultimately show ?thesis using True by (simp add: linear_lookup_def)
  next
    case False
    have "0 < ?N" by (simp add: grid_size_def)
    then have "?N - 1 < ?N" "?N - 1 \<le> ?q" using False by linarith+
    then have "?N - 1 < entries_upto tbl freq" using iff by blast
    then show ?thesis using False k by (simp add: linear_lookup_def)
  qed
qed

lemma sorted_grid:
  assumes "f_min \<le> f_max" "0 < f_inc"
  shows "sorted (map (\<lambda>i. f_min + of_nat i * f_inc) [0..<grid_size f_min f_max f_inc] :: u32 list)"
  unfolding sorted_iff_nth_mono
  using grid_point(2) [OF assms] by (auto simp add: word_le_nat_alt)

section \<open>Properties\<close>

text \<open>C24: for every table whose entry count is right and whose entries are sorted, the two-stage binary
  search of dc_cal_tbl_lookup never reads outside the table and returns exactly the entry that a linear
  walk finds: the last entry not above the frequency, or the first one.\<close>

theorem dc_cal_tbl_lookup_reference:
  assumes "dc_cal_tbl_wf tbl"
  shows "dc_cal_tbl_lookup tbl freq = Some (of_nat (linear_lookup tbl freq))"
  using assms by (rule dc_cal_tbl_lookup_linear)

definition three_entries :: dc_cal_tbl where
  "three_entries = \<lparr>ct_version = 1, ct_n_entries = 3,
     ct_reg_vals = \<lparr>dc_lpf_tuning = 1, dc_tx_lpf_i = 2, dc_tx_lpf_q = 3, dc_rx_lpf_i = 4, dc_rx_lpf_q = 5,
       dc_dc_ref = 6, dc_rxvga2a_i = 7, dc_rxvga2a_q = 8, dc_rxvga2b_i = 9, dc_rxvga2b_q = 10\<rparr>,
     ct_curr_idx = 1,
     ct_entries = [\<lparr>ce_freq = 300000000, ce_dc_i = 10, ce_dc_q = 20\<rparr>,
       \<lparr>ce_freq = 1500000000, ce_dc_i = 30, ce_dc_q = 0\<rparr>,
       \<lparr>ce_freq = 2400000000, ce_dc_i = 50, ce_dc_q = 60\<rparr>]\<rparr>"

lemma three_entries_wf: "dc_cal_tbl_wf three_entries"
  by (simp add: dc_cal_tbl_wf_def three_entries_def)

lemma dc_cal_tbl_lookup_reference_witness:
  "dc_cal_tbl_lookup three_entries 2000000000 = Some 1"
  using dc_cal_tbl_lookup_reference [OF three_entries_wf, of 2000000000]
  by (simp add: linear_lookup_def entries_upto_def three_entries_def)


lemma three_entries_floats:
  "Suc i < length (ct_entries three_entries) \<Longrightarrow>
     u32_to_float (ce_freq (ct_entries three_entries ! i)) \<noteq> u32_to_float (ce_freq (ct_entries three_entries ! Suc i))"
  by (simp add: three_entries_def less_Suc_eq_0_disj) (code_simp | simp)+


text \<open>C25: what the calibration utility saves is what the library loads, and the loaded table answers as
  the grid promises: for a calibration from f_min to f_max in steps of f_inc (sizes that do not wrap
  around), with the corrections the calibration filled in, loading the data that save_table_results
  lays out succeeds, gives back the LMS6002D register values and the corrections, and the lookup of a
  frequency is the grid point at or below it.\<close>

theorem calibration_table_roundtrip:
  assumes "f_min \<le> f_max" "0 < f_inc" "unat f_max - unat f_min + unat f_inc < 2 ^ 32"
    "prepare_dc_cal_params f_min f_max f_inc = Some ps"
    "map cp_frequency qs = map cp_frequency ps" "\<forall>q \<in> set qs. int16_params q" "dc_cals_bytes cals"
    "f_min \<le> freq"
  shows "\<exists>tbl. dc_cal_tbl_load (table_image_data cals qs) = Some tbl \<and> ct_reg_vals tbl = cals \<and>
    ct_entries tbl = map entry_of_params qs \<and>
    dc_cal_tbl_lookup tbl freq =
      Some (of_nat (min ((unat freq - unat f_min) div unat f_inc) ((unat f_max - unat f_min) div unat f_inc)))"
proof -
  let ?N = "grid_size f_min f_max f_inc"
  have ps: "map cp_frequency ps = map (\<lambda>i. f_min + of_nat i * f_inc) [0..<?N]"
    using prepare_dc_cal_params_grid [OF assms(1-3)] assms(4) by (simp add: comp_def)
  then have len: "length qs = ?N" using arg_cong [OF assms(5), of length] arg_cong [OF ps, of length] by simp
  have freqs: "map ce_freq (map entry_of_params qs) = map (\<lambda>i. f_min + of_nat i * f_inc) [0..<?N]"
    using assms(5) ps by (simp add: entry_of_params_def comp_def)
  have "?N \<le> unat f_max - unat f_min + 1" by (simp add: grid_size_def div_le_dividend)
  then have lt: "?N < 2 ^ 32"
    using assms(2,3) by (simp add: unat_gt_0 [symmetric] word_less_nat_alt)
  let ?tbl = "\<lparr>ct_version = 1, ct_n_entries = of_nat (length qs), ct_reg_vals = cals,
    ct_curr_idx = of_nat (length qs) div 2, ct_entries = map entry_of_params qs\<rparr>"
  have pos: "0 < ?N" by (simp add: grid_size_def)
  have wf: "dc_cal_tbl_wf ?tbl"
    using loaded_table_wf [of "map entry_of_params qs" 1 cals] sorted_grid [OF assms(1,2)] freqs len lt pos by simp
  have "dc_cal_tbl_load (table_image_data cals qs) = Some ?tbl"
    by (rule load_table_image) (use len lt pos assms(6,7) in auto)
  moreover have "dc_cal_tbl_lookup ?tbl freq = Some (of_nat (min ((unat freq - unat f_min) div unat f_inc) (?N - 1)))"
    using dc_cal_tbl_lookup_linear(1) [OF wf, of freq] linear_lookup_grid [OF wf assms(1,2,8)] freqs by simp
  ultimately show ?thesis by (intro exI [of _ ?tbl]) (simp add: grid_size_def)
qed

lemma calibration_table_roundtrip_witness:
  "\<exists>ps tbl. prepare_dc_cal_params 300000000 320000000 10000000 = Some ps \<and>
     dc_cal_tbl_load (table_image_data (ct_reg_vals three_entries) ps) = Some tbl \<and>
     dc_cal_tbl_lookup tbl 315000000 = Some 1"
proof -
  obtain ps where ps: "prepare_dc_cal_params 300000000 320000000 10000000 = Some ps"
    and i: "\<forall>p \<in> set ps. int16_params p"
    using prepare_dc_cal_params_grid [of 300000000 320000000 10000000] by (auto simp add: int16_params_def)
  have "dc_cals_bytes (ct_reg_vals three_entries)" by (simp add: dc_cals_bytes_def three_entries_def)
  with calibration_table_roundtrip [OF _ _ _ ps refl i, of "ct_reg_vals three_entries" 315000000] ps
  show ?thesis by auto
qed

end
