(* ===== verification/Sha256.thy ===== *)
theory Sha256
  imports Prelude
begin

text \<open>
  The hash function of the host library (host/common/src/sha256.c), for a little-endian host, against
  a reference that follows FIPS 180-4: padding the message, cutting it into blocks, and the
  compression function on eight working variables.  The context is a record; memcpy into the buffer
  of the context writes a part of the list.
\<close>

unbundle bit_operations_syntax

section \<open>Bytes\<close>

definition be32dec :: "bytes \<Rightarrow> u32" where
  "be32dec p = push_bit 24 (ucast (p ! 0)) OR push_bit 16 (ucast (p ! 1)) OR push_bit 8 (ucast (p ! 2)) OR ucast (p ! 3)"

definition be32enc :: "u32 \<Rightarrow> bytes" where
  "be32enc u = [ucast (drop_bit 24 u), ucast (drop_bit 16 u), ucast (drop_bit 8 u), ucast u]"

definition be32enc_vect :: "u32 list \<Rightarrow> bytes" where
  "be32enc_vect src = concat (map be32enc src)"

definition be32dec_vect :: "bytes \<Rightarrow> nat \<Rightarrow> u32 list" where
  "be32dec_vect src len = map (\<lambda>i. be32dec (drop (i * 4) src)) [0..<len div 4]"

section \<open>The compression function as it is coded\<close>

definition Ch :: "u32 \<Rightarrow> u32 \<Rightarrow> u32 \<Rightarrow> u32" where "Ch x y z = (x AND (y XOR z)) XOR z"
definition Maj :: "u32 \<Rightarrow> u32 \<Rightarrow> u32 \<Rightarrow> u32" where "Maj x y z = (x AND (y OR z)) OR (y AND z)"
definition SHR :: "u32 \<Rightarrow> nat \<Rightarrow> u32" where "SHR x n = drop_bit n x"
definition ROTR :: "u32 \<Rightarrow> nat \<Rightarrow> u32" where "ROTR x n = drop_bit n x OR push_bit (32 - n) x"
definition S0 :: "u32 \<Rightarrow> u32" where "S0 x = ROTR x 2 XOR ROTR x 13 XOR ROTR x 22"
definition S1 :: "u32 \<Rightarrow> u32" where "S1 x = ROTR x 6 XOR ROTR x 11 XOR ROTR x 25"
definition s0 :: "u32 \<Rightarrow> u32" where "s0 x = ROTR x 7 XOR ROTR x 18 XOR SHR x 3"
definition s1 :: "u32 \<Rightarrow> u32" where "s1 x = ROTR x 17 XOR ROTR x 19 XOR SHR x 10"

text \<open>RND with the working variables at indices a to h of the array S.\<close>

definition RND :: "u32 list \<Rightarrow> nat \<Rightarrow> nat \<Rightarrow> nat \<Rightarrow> nat \<Rightarrow> nat \<Rightarrow> nat \<Rightarrow> nat \<Rightarrow> nat \<Rightarrow> u32 \<Rightarrow> u32 list" where
  "RND S a b c d e f g h k =
     (let t0 = S ! h + S1 (S ! e) + Ch (S ! e) (S ! f) (S ! g) + k;
          t1 = S0 (S ! a) + Maj (S ! a) (S ! b) (S ! c)
      in S[d := S ! d + t0, h := t0 + t1])"

definition RNDr :: "u32 list \<Rightarrow> u32 list \<Rightarrow> nat \<Rightarrow> u32 \<Rightarrow> u32 list" where
  "RNDr S W i k =
     RND S ((64 - i) mod 8) ((65 - i) mod 8) ((66 - i) mod 8) ((67 - i) mod 8)
       ((68 - i) mod 8) ((69 - i) mod 8) ((70 - i) mod 8) ((71 - i) mod 8) (W ! i + k)"

text \<open>The constants of the sixty-four calls of RNDr.\<close>

definition round_constants :: "u32 list" where
  "round_constants =
    [0x428a2f98, 0x71374491, 0xb5c0fbcf, 0xe9b5dba5, 0x3956c25b, 0x59f111f1, 0x923f82a4, 0xab1c5ed5,
     0xd807aa98, 0x12835b01, 0x243185be, 0x550c7dc3, 0x72be5d74, 0x80deb1fe, 0x9bdc06a7, 0xc19bf174,
     0xe49b69c1, 0xefbe4786, 0x0fc19dc6, 0x240ca1cc, 0x2de92c6f, 0x4a7484aa, 0x5cb0a9dc, 0x76f988da,
     0x983e5152, 0xa831c66d, 0xb00327c8, 0xbf597fc7, 0xc6e00bf3, 0xd5a79147, 0x06ca6351, 0x14292967,
     0x27b70a85, 0x2e1b2138, 0x4d2c6dfc, 0x53380d13, 0x650a7354, 0x766a0abb, 0x81c2c92e, 0x92722c85,
     0xa2bfe8a1, 0xa81a664b, 0xc24b8b70, 0xc76c51a3, 0xd192e819, 0xd6990624, 0xf40e3585, 0x106aa070,
     0x19a4c116, 0x1e376c08, 0x2748774c, 0x34b0bcb5, 0x391c0cb3, 0x4ed8aa4a, 0x5b9cca4f, 0x682e6ff3,
     0x748f82ee, 0x78a5636f, 0x84c87814, 0x8cc70208, 0x90befffa, 0xa4506ceb, 0xbef9a3f7, 0xc67178f2]"

text \<open>The loop that extends W, one word per turn.\<close>

fun message_schedule :: "u32 list \<Rightarrow> nat \<Rightarrow> u32 list" where
  "message_schedule W 0 = W"
| "message_schedule W (Suc n) =
     (let i = length W in
      message_schedule (W @ [s1 (W ! (i - 2)) + W ! (i - 7) + s0 (W ! (i - 15)) + W ! (i - 16)]) n)"

definition SHA256_Transform :: "u32 list \<Rightarrow> bytes \<Rightarrow> u32 list" where
  "SHA256_Transform state block =
     (let W = message_schedule (be32dec_vect block 64) 48;
          S = fold (\<lambda>i S. RNDr S W i (round_constants ! i)) [0..<64] state
      in map2 (+) state S)"

section \<open>The streaming interface\<close>

record SHA256_CTX =
  sha_state :: "u32 list"
  sha_count0 :: u32
  sha_count1 :: u32
  sha_buf :: bytes

definition PAD :: bytes where
  "PAD = 0x80 # replicate 63 0"

text \<open>The context is not initialised by its declaration: the buffer keeps what was there.\<close>

definition SHA256_Init :: "SHA256_CTX \<Rightarrow> SHA256_CTX" where
  "SHA256_Init ctx = ctx\<lparr>sha_count0 := 0, sha_count1 := 0,
     sha_state := [0x6A09E667, 0xBB67AE85, 0x3C6EF372, 0xA54FF53A, 0x510E527F, 0x9B05688C, 0x1F83D9AB, 0x5BE0CD19]\<rparr>"

function complete_blocks :: "u32 list \<Rightarrow> bytes \<Rightarrow> u32 list \<times> bytes" where
  "complete_blocks state src =
     (if 64 \<le> length src then complete_blocks (SHA256_Transform state (take 64 src)) (drop 64 src) else (state, src))"
  by pat_completeness auto

termination complete_blocks
  by (relation "measure (length \<circ> snd)") auto

declare complete_blocks.simps [simp del]

definition memcpy_at :: "bytes \<Rightarrow> nat \<Rightarrow> bytes \<Rightarrow> bytes" where
  "memcpy_at buf k src = take k buf @ src @ drop (k + length src) buf"

definition SHA256_Update :: "bytes \<Rightarrow> SHA256_CTX \<Rightarrow> SHA256_CTX" where
  "SHA256_Update src ctx =
     (let len = length src;
          r = unat (drop_bit 3 (sha_count1 ctx) AND 0x3f);
          bitlen1 = push_bit 3 (of_nat len);
          bitlen0 = of_nat (len div 2 ^ 29);
          count1 = sha_count1 ctx + bitlen1;
          count0 = (if count1 < bitlen1 then sha_count0 ctx + 1 else sha_count0 ctx) + bitlen0;
          ctx = ctx\<lparr>sha_count0 := count0, sha_count1 := count1\<rparr>
      in if len < 64 - r then ctx\<lparr>sha_buf := memcpy_at (sha_buf ctx) r src\<rparr>
         else
           let buf = memcpy_at (sha_buf ctx) r (take (64 - r) src);
               (state, rest) = complete_blocks (SHA256_Transform (sha_state ctx) buf) (drop (64 - r) src)
           in ctx\<lparr>sha_state := state, sha_buf := memcpy_at buf 0 rest\<rparr>)"

definition SHA256_Pad :: "SHA256_CTX \<Rightarrow> SHA256_CTX" where
  "SHA256_Pad ctx =
     (let len = be32enc_vect [sha_count0 ctx, sha_count1 ctx];
          r = drop_bit 3 (sha_count1 ctx) AND 0x3f;
          plen = if r < 56 then 56 - r else 120 - r
      in SHA256_Update len (SHA256_Update (take (unat plen) PAD) ctx))"

text \<open>The digest; the context is cleared afterwards and not used again.\<close>

definition SHA256_Final :: "SHA256_CTX \<Rightarrow> bytes" where
  "SHA256_Final ctx = be32enc_vect (sha_state (SHA256_Pad ctx))"

section \<open>The reference\<close>

text \<open>FIPS 180-4, sections 4.1.2, 5 and 6.2.\<close>

definition fips_ch :: "u32 \<Rightarrow> u32 \<Rightarrow> u32 \<Rightarrow> u32" where
  "fips_ch x y z = (x AND y) XOR (NOT x AND z)"

definition fips_maj :: "u32 \<Rightarrow> u32 \<Rightarrow> u32 \<Rightarrow> u32" where
  "fips_maj x y z = (x AND y) XOR (x AND z) XOR (y AND z)"

definition fips_Sigma0 :: "u32 \<Rightarrow> u32" where
  "fips_Sigma0 x = word_rotr 2 x XOR word_rotr 13 x XOR word_rotr 22 x"

definition fips_Sigma1 :: "u32 \<Rightarrow> u32" where
  "fips_Sigma1 x = word_rotr 6 x XOR word_rotr 11 x XOR word_rotr 25 x"

definition fips_sigma0 :: "u32 \<Rightarrow> u32" where
  "fips_sigma0 x = word_rotr 7 x XOR word_rotr 18 x XOR drop_bit 3 x"

definition fips_sigma1 :: "u32 \<Rightarrow> u32" where
  "fips_sigma1 x = word_rotr 17 x XOR word_rotr 19 x XOR drop_bit 10 x"

fun fips_W :: "bytes \<Rightarrow> nat \<Rightarrow> u32" where
  "fips_W block t =
     (if t < 16 then be32dec (drop (4 * t) block)
      else fips_sigma1 (fips_W block (t - 2)) + fips_W block (t - 7) + fips_sigma0 (fips_W block (t - 15)) +
        fips_W block (t - 16))"

declare fips_W.simps [simp del]

fun fips_round :: "u32 \<Rightarrow> u32 \<Rightarrow> u32 list \<Rightarrow> u32 list" where
  "fips_round w k [a, b, c, d, e, f, g, h] =
     (let T1 = h + fips_Sigma1 e + fips_ch e f g + k + w;
          T2 = fips_Sigma0 a + fips_maj a b c
      in [T1 + T2, a, b, c, d + T1, e, f, g])"
| "fips_round w k S = S"

definition fips_compress :: "u32 list \<Rightarrow> bytes \<Rightarrow> u32 list" where
  "fips_compress H block =
     map2 (+) (fold (\<lambda>t. fips_round (fips_W block t) (round_constants ! t)) [0..<64] H) H"

definition fips_pad :: "bytes \<Rightarrow> bytes" where
  "fips_pad M = M @ 0x80 # replicate ((119 - length M mod 64) mod 64) 0 @
     rev (map (\<lambda>i. of_nat (8 * length M div 256 ^ i)) [0..<8])"

fun blocks_of :: "nat \<Rightarrow> bytes \<Rightarrow> bytes list" where
  "blocks_of 0 M = []"
| "blocks_of (Suc n) M = take 64 M # blocks_of n (drop 64 M)"

definition fips_H0 :: "u32 list" where
  "fips_H0 = [0x6a09e667, 0xbb67ae85, 0x3c6ef372, 0xa54ff53a, 0x510e527f, 0x9b05688c, 0x1f83d9ab, 0x5be0cd19]"

definition fips_sha256 :: "bytes \<Rightarrow> bytes" where
  "fips_sha256 M =
     concat (map be32enc (fold (\<lambda>block H. fips_compress H block)
       (blocks_of (length (fips_pad M) div 64) (fips_pad M)) fips_H0))"

section \<open>The compression function\<close>

lemma ROTR_rotr: "n < 32 \<Longrightarrow> ROTR x n = word_rotr n x"
proof (rule bit_word_eqI)
  fix i assume i: "i < LENGTH(32)" and n: "n < 32"
  have "(i + n) mod 32 = (if i + n < 32 then i + n else i + n - 32)"
    using i n by (simp add: mod_if)
  then show "bit (ROTR x n) i \<longleftrightarrow> bit (word_rotr n x) i"
    using i n bit_word_high [of "i + n" x]
    by (cases "i + n < 32") (auto simp add: ROTR_def bit_simps bit_word_rotr_iff add.commute not_less)
qed

lemma fips_functions:
  "Ch = fips_ch" "Maj = fips_maj" "S0 = fips_Sigma0" "S1 = fips_Sigma1" "s0 = fips_sigma0" "s1 = fips_sigma1"
  by (auto intro!: ext bit_word_eqI simp add: Ch_def Maj_def fips_ch_def fips_maj_def bit_simps)
    (simp_all add: S0_def S1_def s0_def s1_def SHR_def ROTR_rotr fips_Sigma0_def fips_Sigma1_def
      fips_sigma0_def fips_sigma1_def)

lemma be32dec_vect_W: "be32dec_vect block 64 = map (fips_W block) [0..<16]"
  by (auto simp add: be32dec_vect_def fips_W.simps mult.commute intro!: map_cong)

lemma message_schedule_W:
  "16 \<le> m \<Longrightarrow> message_schedule (map (fips_W block) [0..<m]) n = map (fips_W block) [0..<m + n]"
proof (induction n arbitrary: m)
  case (Suc n)
  have "fips_W block m = s1 (fips_W block (m - 2)) + fips_W block (m - 7) + s0 (fips_W block (m - 15)) +
      fips_W block (m - 16)"
    using Suc.prems by (subst fips_W.simps) (simp add: fips_functions)
  then have "message_schedule (map (fips_W block) [0..<m]) (Suc n) =
      message_schedule (map (fips_W block) [0..<Suc m]) n"
    using Suc.prems by (simp add: Let_def)
  then show ?case using Suc.IH [of "Suc m"] Suc.prems by simp
qed simp

text \<open>The working variables are not moved from round to round; instead the indices rotate.\<close>

definition working :: "nat \<Rightarrow> u32 list \<Rightarrow> u32 list" where
  "working i S = map (\<lambda>j. S ! ((64 + j - i) mod 8)) [0..<8]"

lemma rotated_index: "i < 64 \<Longrightarrow> (64 + j - i) mod 8 = (8 + j - i mod 8) mod (8 :: nat)"
proof -
  assume "i < 64"
  then have "i div 8 \<le> 7" "i = i div 8 * 8 + i mod 8" by auto
  then have "64 + j - i = (7 - i div 8) * 8 + (8 + j - i mod 8)"
    using mod_less_divisor [of 8 i] by linarith
  then show ?thesis by (simp only: mod_mult_self3)
qed

lemma length_8E:
  assumes "length S = 8"
  obtains a b c d e f g h where "S = [a, b, c, d, e, f, g, h]"
  using assms by (simp add: numeral_eq_Suc length_Suc_conv) blast

lemma round_working:
  assumes "length S = 8" "i < 64"
  shows "working (Suc i) (RNDr S W i k) = fips_round (W ! i) k (working i S)" "length (RNDr S W i k) = 8"
proof -
  show "length (RNDr S W i k) = 8" using assms(1) by (simp add: RNDr_def RND_def Let_def)
  have r: "i mod 8 \<in> {0, 1, 2, 3, 4, 5, 6, 7}" by auto
  have s: "(64 + j - Suc i) mod 8 = (7 + j - i mod 8) mod 8" for j
  proof (cases "i = 63")
    case False
    then have "64 + j - Suc i = 64 + (j + 7) - i - 8" "i < 64" "8 \<le> 64 + (j + 7) - i" using assms(2) by auto
    then show ?thesis using rotated_index [of i "j + 7"] by (simp add: le_mod_geq)
  qed simp
  from assms(1) obtain a b c d e f g h where S: "S = [a, b, c, d, e, f, g, h]" by (rule length_8E)
  have u: "[0..<8] = [0, 1, 2, 3, 4, 5, 6, 7]" by (simp add: upt_rec)
  note idx = rotated_index [OF assms(2), of 0] rotated_index [OF assms(2), of 1] rotated_index [OF assms(2), of 2]
    rotated_index [OF assms(2), of 3] rotated_index [OF assms(2), of 4] rotated_index [OF assms(2), of 5]
    rotated_index [OF assms(2), of 6] rotated_index [OF assms(2), of 7]
  show "working (Suc i) (RNDr S W i k) = fips_round (W ! i) k (working i S)"
    using r unfolding working_def RNDr_def RND_def s u list.map rotated_index [OF assms(2)] idx [simplified]
    by (elim insertE emptyE) (simp_all add: S Let_def fips_functions ac_simps)
qed

lemma rounds_working:
  assumes "length S = 8" "n \<le> 64"
  shows "working n (fold (\<lambda>i S. RNDr S W i (K i)) [0..<n] S) =
      fold (\<lambda>t. fips_round (W ! t) (K t)) [0..<n] (working 0 S) \<and>
    length (fold (\<lambda>i S. RNDr S W i (K i)) [0..<n] S) = 8"
  using assms(2)
proof (induction n)
  case 0
  then show ?case using assms(1) by simp
next
  case (Suc n)
  then show ?case using round_working [of "fold (\<lambda>i S. RNDr S W i (K i)) [0..<n] S" n] by simp
qed

lemma working_id: "length S = 8 \<Longrightarrow> working 0 S = S" "length S = 8 \<Longrightarrow> working 64 S = S"
  by (auto simp add: working_def upt_rec elim!: length_8E)

lemma rounds_64:
  assumes "length S = 8"
  shows "fold (\<lambda>i S. RNDr S W i (K i)) [0..<64] S = fold (\<lambda>t. fips_round (W ! t) (K t)) [0..<64] S"
    "length (fold (\<lambda>i S. RNDr S W i (K i)) [0..<64] S) = 8"
proof -
  note r = rounds_working [OF assms order_refl, of W K]
  show "length (fold (\<lambda>i S. RNDr S W i (K i)) [0..<64] S) = 8" by (rule conjunct2 [OF r])
  then show "fold (\<lambda>i S. RNDr S W i (K i)) [0..<64] S = fold (\<lambda>t. fips_round (W ! t) (K t)) [0..<64] S"
    using conjunct1 [OF r] by (simp only: working_id assms)
qed

lemma schedule_64: "t < 64 \<Longrightarrow> message_schedule (be32dec_vect block 64) 48 ! t = fips_W block t"
  unfolding be32dec_vect_W by (subst message_schedule_W) (simp_all del: upt_rec_numeral)

lemma fold_upt_cong: "(\<And>t. t < n \<Longrightarrow> f t = g t) \<Longrightarrow> fold f [0..<n] S = fold g [0..<n] S"
  by (rule fold_cong) simp_all

lemma transform_compress:
  assumes "length S = 8"
  shows "SHA256_Transform S block = fips_compress S block" "length (SHA256_Transform S block) = 8"
proof -
  define W where "W = message_schedule (be32dec_vect block 64) 48"
  have "fold (\<lambda>t. fips_round (W ! t) (round_constants ! t)) [0..<64] S =
      fold (\<lambda>t. fips_round (fips_W block t) (round_constants ! t)) [0..<64] S"
    by (rule fold_upt_cong) (simp only: W_def schedule_64)
  moreover have "map2 (+) xs ys = map2 (+) ys xs" for xs ys :: "u32 list"
    by (induction xs ys rule: list_induct2') (simp_all add: add.commute)
  ultimately show "SHA256_Transform S block = fips_compress S block"
    unfolding SHA256_Transform_def fips_compress_def Let_def rounds_64(1) [OF assms] W_def by simp
  show "length (SHA256_Transform S block) = 8"
    unfolding SHA256_Transform_def Let_def using rounds_64(2) [OF assms] assms by (simp del: upt_rec_numeral)
qed

section \<open>Streaming\<close>

lemma complete_blocks_append:
  "complete_blocks st (xs @ ys) = (case complete_blocks st xs of (st', rest) \<Rightarrow> complete_blocks st' (rest @ ys))"
proof (induction st xs rule: complete_blocks.induct)
  case (1 st xs)
  show ?case
  proof (cases "64 \<le> length xs")
    case True
    then show ?thesis
      using 1 by (subst (1 2) complete_blocks.simps) (simp add: split_def)
  next
    case False
    then show ?thesis by (subst (2) complete_blocks.simps) simp
  qed
qed

lemma complete_blocks_rest:
  "snd (complete_blocks st xs) = drop (64 * (length xs div 64)) xs"
proof (induction st xs rule: complete_blocks.induct)
  case (1 st xs)
  show ?case
  proof (cases "64 \<le> length xs")
    case True
    then have "64 * (length xs div 64) = 64 + 64 * ((length xs - 64) div 64)" by (simp add: le_div_geq)
    then show ?thesis
      using 1 True by (subst complete_blocks.simps) (simp add: add.commute)
  next
    case False
    then show ?thesis by (subst complete_blocks.simps) simp
  qed
qed

lemma length_rest: "length (snd (complete_blocks st xs)) = length xs mod 64"
  by (simp add: complete_blocks_rest minus_mult_div_eq_mod)

lemma complete_blocks_small: "length xs < 64 \<Longrightarrow> complete_blocks st xs = (st, xs)"
  by (subst complete_blocks.simps) simp

lemma complete_blocks_one: "length b = 64 \<Longrightarrow> complete_blocks st (b @ xs) = complete_blocks (SHA256_Transform st b) xs"
  by (subst complete_blocks.simps) simp

text \<open>The context stands for the message that has been added.\<close>

definition represents :: "SHA256_CTX \<Rightarrow> bytes \<Rightarrow> bool" where
  "represents ctx msg \<longleftrightarrow>
     length (sha_buf ctx) = 64 \<and> sha_count1 ctx = of_nat (8 * length msg) \<and>
     sha_count0 ctx = of_nat (8 * length msg div 2 ^ 32) \<and>
     complete_blocks fips_H0 msg = (sha_state ctx, take (length msg mod 64) (sha_buf ctx))"

lemma init_represents: "length (sha_buf ctx) = 64 \<Longrightarrow> represents (SHA256_Init ctx) []"
  by (simp add: represents_def SHA256_Init_def fips_H0_def complete_blocks_small)

lemma buffered: "unat (drop_bit 3 (of_nat (8 * n) :: u32) AND 0x3f) = n mod 64"
proof -
  have w: "unat (drop_bit 3 w AND 0x3f) = unat w div 8 mod 64" for w :: u32
  proof -
    have "drop_bit 3 w AND 0x3f = take_bit 6 (drop_bit 3 w)"
      by (simp add: take_bit_eq_mask mask_eq_exp_minus_1)
    then show ?thesis by (simp add: take_bit_eq_mod drop_bit_eq_div unat_mod unat_div)
  qed
  have "8 * n mod 2 ^ 32 = 8 * (n mod 2 ^ 29)" by (simp add: mult_mod_right)
  then have "unat (of_nat (8 * n) :: u32) div 8 = n mod 2 ^ 29" unfolding unat_of_nat by simp
  then show ?thesis unfolding w by (simp add: mod_mod_cancel)
qed

lemma div_add_carry:
  assumes "0 < (M :: nat)"
  shows "(a + b) div M = (if (a + b) mod M < b mod M then 1 else 0) + a div M + b div M"
proof -
  define x y where "x = a mod M" and "y = b mod M"
  have lt: "x < M" "y < M" using assms by (simp_all add: x_def y_def)
  have d: "(a + b) div M = a div M + b div M + (x + y) div M" unfolding x_def y_def by (rule div_add1_eq)
  have m: "(a + b) mod M = (x + y) mod M" unfolding x_def y_def by (simp add: mod_add_eq)
  have "(x + y) div M = (if (x + y) mod M < y then 1 else 0)"
  proof (cases "x + y < M")
    case False
    then have "(x + y) mod M = x + y - M" "(x + y) div M = 1" "x + y - M < y"
      using lt by (simp_all add: mod_if div_if)
    then show ?thesis by simp
  qed simp
  then show ?thesis unfolding d m y_def [symmetric] by simp
qed

lemma counts:
  fixes m l :: nat
  assumes "c1 = (of_nat (8 * m) :: u32)" "c0 = (of_nat (8 * m div 2 ^ 32) :: u32)"
  shows "c1 + push_bit 3 (of_nat l) = of_nat (8 * (m + l))"
    "(if c1 + push_bit 3 (of_nat l) < push_bit 3 (of_nat l) then c0 + 1 else c0) + of_nat (l div 2 ^ 29) =
      of_nat (8 * (m + l) div 2 ^ 32)"
proof -
  have p: "push_bit 3 (of_nat l :: u32) = of_nat (8 * l)" by (simp add: push_bit_eq_mult)
  show s: "c1 + push_bit 3 (of_nat l) = of_nat (8 * (m + l))" by (simp add: assms(1) p algebra_simps)
  have d: "l div 2 ^ 29 = 8 * l div 2 ^ 32" by simp
  have "8 * (m + l) = 8 * m + 8 * l" by simp
  then show "(if c1 + push_bit 3 (of_nat l) < push_bit 3 (of_nat l) then c0 + 1 else c0) + of_nat (l div 2 ^ 29) =
      of_nat (8 * (m + l) div 2 ^ 32)"
    using div_add_carry [of "2 ^ 32" "8 * m" "8 * l"]
    unfolding s unfolding p d assms(2) word_less_nat_alt unat_of_nat by simp
qed

lemma update_represents:
  assumes "represents ctx msg"
  shows "represents (SHA256_Update src ctx) (msg @ src)"
proof -
  let ?r = "length msg mod 64"
  have ctx: "length (sha_buf ctx) = 64" "sha_count1 ctx = of_nat (8 * length msg)"
    "sha_count0 ctx = of_nat (8 * length msg div 2 ^ 32)"
    "complete_blocks fips_H0 msg = (sha_state ctx, take ?r (sha_buf ctx))"
    using assms by (simp_all add: represents_def)
  have r: "unat (drop_bit 3 (sha_count1 ctx) AND 0x3f) = ?r" unfolding ctx(2) by (rule buffered)
  have all: "complete_blocks fips_H0 (msg @ src) = complete_blocks (sha_state ctx) (take ?r (sha_buf ctx) @ src)"
    by (subst complete_blocks_append) (simp only: ctx(4) split)
  note c = counts [OF ctx(2,3), of "length src"]
  show ?thesis
  proof (cases "length src < 64 - ?r")
    case True
    have "(length msg + length src) mod 64 = (?r + length src) mod 64" by (simp only: mod_add_left_eq)
    also have "\<dots> = ?r + length src" using True by (intro mod_less) linarith
    finally have "(length msg + length src) mod 64 = ?r + length src" .
    then show ?thesis
      unfolding represents_def all SHA256_Update_def Let_def r c(2) unfolding c(1) using True ctx(1)
      by (simp add: memcpy_at_def complete_blocks_small)
  next
    case False
    let ?b = "memcpy_at (sha_buf ctx) ?r (take (64 - ?r) src)" and ?more = "drop (64 - ?r) src"
    have rl: "?r < 64" by simp
    have b: "?b = take ?r (sha_buf ctx) @ take (64 - ?r) src" "length ?b = 64"
      using False ctx(1) rl by (simp_all add: memcpy_at_def)
    have "take ?r (sha_buf ctx) @ src = ?b @ ?more" by (simp add: b(1))
    then have a: "complete_blocks fips_H0 (msg @ src) = complete_blocks (SHA256_Transform (sha_state ctx) ?b) ?more"
      unfolding all using complete_blocks_one [OF b(2)] by simp
    obtain st rest where e: "complete_blocks (SHA256_Transform (sha_state ctx) ?b) ?more = (st, rest)"
      by (cases "complete_blocks (SHA256_Transform (sha_state ctx) ?b) ?more")
    have "length rest = length (msg @ src) mod 64"
      using length_rest [of fips_H0 "msg @ src"] unfolding a e by simp
    moreover from this have "length rest < 64" by simp
    ultimately show ?thesis
      unfolding represents_def a SHA256_Update_def Let_def r c(2) unfolding c(1) using False b(2)
      by (simp add: e memcpy_at_def [of _ 0])
  qed
qed

text \<open>Padding.\<close>

lemma byte_of_nat: "k + 8 \<le> 32 \<Longrightarrow> (ucast (drop_bit k (of_nat n :: u32)) :: u8) = of_nat (n div 2 ^ k)"
  by (rule bit_word_eqI) (auto simp add: bit_simps simp flip: drop_bit_eq_div)

lemma length_bytes: "be32enc_vect [of_nat (n div 2 ^ 32), of_nat n] = rev (map (\<lambda>i. of_nat (n div 256 ^ i)) [0..<8])"
proof -
  have "(256 :: nat) ^ i = 2 ^ (8 * i)" for i by (simp add: power_mult)
  moreover have "n div 2 ^ 32 div 2 ^ k = n div 2 ^ (32 + k)" for k by (simp add: div_mult2_eq power_add)
  ultimately show ?thesis
    using byte_of_nat [of 0] byte_of_nat [of 8] byte_of_nat [of 16] byte_of_nat [of 24]
    by (simp add: be32enc_vect_def be32enc_def upt_rec div_mult2_eq [symmetric])
qed

lemma pad_represents:
  assumes "represents ctx msg"
  shows "represents (SHA256_Pad ctx) (fips_pad msg)"
proof -
  let ?r = "length msg mod 64" and ?w = "drop_bit 3 (sha_count1 ctx) AND 0x3f"
  have c: "sha_count1 ctx = of_nat (8 * length msg)" "sha_count0 ctx = of_nat (8 * length msg div 2 ^ 32)"
    using assms by (simp_all add: represents_def)
  have r: "unat ?w = ?r" unfolding c by (rule buffered)
  have lt: "?w < 56 \<longleftrightarrow> ?r < 56" unfolding word_less_nat_alt r by simp
  have "unat (if ?w < 56 then 56 - ?w else 120 - ?w) = (if ?r < 56 then 56 - ?r else 120 - ?r)"
  proof -
    have "?w \<le> 120" unfolding word_le_nat_alt r by simp
    then have "unat (120 - ?w) = 120 - unat ?w" by (simp only: unat_sub) simp
    moreover have "unat (56 - ?w) = 56 - unat ?w" if "?w < 56"
      by (simp only: unat_sub [OF order.strict_implies_order [OF that]]) simp
    ultimately have "unat (if ?w < 56 then 56 - ?w else 120 - ?w) = (if ?w < 56 then 56 - unat ?w else 120 - unat ?w)"
      by (cases "?w < 56") (simp_all only: if_True if_False)
    then show ?thesis unfolding lt r .
  qed
  also have "(if k < 56 then 56 - k else 120 - k) = Suc ((119 - k) mod 64)" if "k < 64" for k :: nat
    using that by (cases "k < 56") (auto simp add: mod_if)
  from this [of ?r] have "(if ?r < 56 then 56 - ?r else 120 - ?r) = Suc ((119 - ?r) mod 64)" by simp
  finally have p: "take (unat (if ?w < 56 then 56 - ?w else 120 - ?w)) PAD = 0x80 # replicate ((119 - ?r) mod 64) 0"
    by (simp add: PAD_def)
  have "represents (SHA256_Pad ctx) ((msg @ 0x80 # replicate ((119 - ?r) mod 64) 0) @
      be32enc_vect [sha_count0 ctx, sha_count1 ctx])"
    unfolding SHA256_Pad_def Let_def p by (intro update_represents assms)
  then show ?thesis unfolding c length_bytes by (simp add: fips_pad_def)
qed

lemma complete_blocks_fold:
  assumes "length st = 8"
  shows "fst (complete_blocks st M) = fold (\<lambda>block H. fips_compress H block) (blocks_of (length M div 64) M) st"
  using assms
proof (induction st M rule: complete_blocks.induct)
  case (1 st M)
  show ?case
  proof (cases "64 \<le> length M")
    case True
    then have "length M div 64 = Suc ((length M - 64) div 64)" by (simp add: le_div_geq)
    then show ?thesis
      using 1 True transform_compress [OF "1.prems", of "take 64 M"] by (subst complete_blocks.simps) simp
  next
    case False
    then show ?thesis by (subst complete_blocks.simps) simp
  qed
qed

lemma updates_represent:
  "represents ctx msg \<Longrightarrow> represents (fold SHA256_Update chunks ctx) (msg @ concat chunks)"
proof (induction chunks arbitrary: ctx msg)
  case (Cons c chunks)
  then show ?case using Cons.IH [OF update_represents [OF Cons.prems, of c]] by simp
qed simp

lemma digest_of_chunks:
  assumes "length (sha_buf ctx) = 64"
  shows "SHA256_Final (fold SHA256_Update chunks (SHA256_Init ctx)) = fips_sha256 (concat chunks)"
proof -
  let ?c = "fold SHA256_Update chunks (SHA256_Init ctx)" and ?M = "fips_pad (concat chunks)"
  have "represents (SHA256_Pad ?c) ?M"
    using updates_represent [OF init_represents [OF assms], of chunks] by (intro pad_represents) simp
  then have "sha_state (SHA256_Pad ?c) = fst (complete_blocks fips_H0 ?M)" by (simp add: represents_def)
  then show ?thesis
    by (simp add: SHA256_Final_def fips_sha256_def be32enc_vect_def complete_blocks_fold fips_H0_def)
qed

lemma length_fold_compress: "length st = 8 \<Longrightarrow> length (fold (\<lambda>block H. fips_compress H block) bs st) = 8"
  by (induction bs arbitrary: st) (simp_all add: transform_compress(2) flip: transform_compress(1))

lemma length_fips_sha256: "length (fips_sha256 M) = 32"
proof -
  have "length (concat (map be32enc ws)) = 4 * length ws" for ws
    by (induction ws) (simp_all add: be32enc_def)
  then show ?thesis by (simp add: fips_sha256_def length_fold_compress fips_H0_def)
qed

section \<open>Properties\<close>

text \<open>C27: the streaming implementation computes SHA-256: for every way to cut a message into chunks and
  whatever the buffer of the context held before, initialising, adding the chunks and finalising gives
  the digest that FIPS 180-4 defines for the whole message.\<close>

theorem sha256_streaming:
  assumes "length (sha_buf ctx) = 64"
  shows "SHA256_Final (fold SHA256_Update chunks (SHA256_Init ctx)) = fips_sha256 (concat chunks)"
  using assms by (rule digest_of_chunks)

definition dirty_ctx :: SHA256_CTX where
  "dirty_ctx = \<lparr>sha_state = [], sha_count0 = 7, sha_count1 = 9, sha_buf = replicate 64 0xff\<rparr>"

lemma sha256_streaming_witness:
  "SHA256_Final (fold SHA256_Update [[0x61], [], [0x62, 0x63]] (SHA256_Init dirty_ctx)) = fips_sha256 [0x61, 0x62, 0x63]"
  using sha256_streaming [of dirty_ctx "[[0x61], [], [0x62, 0x63]]"] by (simp add: dirty_ctx_def)

end
