(* ===== verification/Flash_Fields.thy ===== *)
theory Flash_Fields
  imports Bytes
begin

text \<open>
  The text fields that the flash memory of the board holds
  (host/libraries/libbladeRF/src/flash_fields.c): a field is a length byte, the name and the value as one
  string, and a CRC-16 of both; fields follow one another until a byte 0xff.  C strings are lists
  of bytes without the terminating zero.  A result \<open>None\<close> is an access outside of a buffer.
\<close>

unbundle bit_operations_syntax


section \<open>The checksum\<close>

definition crc16_bit :: "u16 \<Rightarrow> u16" where
  "crc16_bit crcval = (if crcval AND 0x8000 \<noteq> 0 then push_bit 1 crcval XOR 0x1021 else push_bit 1 crcval)"

definition crc16_byte :: "u8 \<Rightarrow> u16 \<Rightarrow> u16" where
  "crc16_byte b crcval = (crc16_bit ^^ 8) (crcval XOR push_bit 8 (ucast b))"

definition crc16mp :: "u16 \<Rightarrow> bytes \<Rightarrow> nat \<Rightarrow> u16 option" where
  "crc16mp crcval data count =
     (if count \<le> length data then Some (fold crc16_byte (take count data) crcval) else None)"

section \<open>Reading and writing buffers\<close>

definition byte_at :: "bytes \<Rightarrow> nat \<Rightarrow> u8 option" where
  "byte_at buf i = (if i < length buf then Some (buf ! i) else None)"

definition le16_at :: "bytes \<Rightarrow> nat \<Rightarrow> u16 option" where
  "le16_at buf i = (if i + 1 < length buf then Some (get_le16 (drop i buf)) else None)"

definition put_at :: "bytes \<Rightarrow> nat \<Rightarrow> bytes \<Rightarrow> bytes option" where
  "put_at buf i xs =
     (if i + length xs \<le> length buf then Some (take i buf @ xs @ drop (i + length xs) buf) else None)"

text \<open>!strncmp(s, field, strlen(field)), which stops at the first difference.\<close>

fun has_prefix :: "bytes \<Rightarrow> bytes \<Rightarrow> bool option" where
  "has_prefix s [] = Some True"
| "has_prefix [] (f # fs) = None"
| "has_prefix (c # s) (f # fs) = (if c = f then has_prefix s fs else Some False)"

text \<open>strncpy with a terminating zero after it: the string that the destination then holds.\<close>

fun copy_string :: "bytes \<Rightarrow> nat \<Rightarrow> bytes option" where
  "copy_string s 0 = Some []"
| "copy_string [] (Suc n) = None"
| "copy_string (c # s) (Suc n) = (if c = 0 then Some [] else map_option ((#) c) (copy_string s n))"

section \<open>Operations\<close>

definition min_sz :: "u64 \<Rightarrow> u64 \<Rightarrow> u64" where
  "min_sz x y = (if x < y then x else y)"

text \<open>The loop of extract_field, at the index ub of the buffer.\<close>

function extract_from :: "bytes \<Rightarrow> nat \<Rightarrow> nat \<Rightarrow> bytes \<Rightarrow> nat \<Rightarrow> (int + bytes) option" where
  "extract_from ptr end ub field maxlen =
     (if ub < end then
        case byte_at ptr ub of
          None \<Rightarrow> None
        | Some c \<Rightarrow>
            if c = 0xff then Some (Inl BLADERF_ERR_INVAL)
            else (case (le16_at ptr (ub + unat c + 1), crc16mp 0 (drop ub ptr) (unat c + 1)) of
                (Some a1, Some a2) \<Rightarrow>
                  if a1 = a2 then
                    (case has_prefix (drop (ub + 1) ptr) field of
                       None \<Rightarrow> None
                     | Some True \<Rightarrow>
                         (let wlen = min_sz (ucast c - of_nat (length field)) (of_nat maxlen) in
                          map_option Inr (copy_string (drop (ub + 1 + length field) ptr) (unat wlen)))
                     | Some False \<Rightarrow> extract_from ptr end (ub + unat c + 3) field maxlen)
                  else Some (Inl BLADERF_ERR_INVAL)
              | _ \<Rightarrow> None)
      else Some (Inl BLADERF_ERR_INVAL))"
  by pat_completeness auto

termination extract_from
  by (relation "measure (\<lambda>(ptr, end, ub, field, maxlen). end - ub)") auto

declare extract_from.simps [simp del]

definition extract_field :: "bytes \<Rightarrow> nat \<Rightarrow> bytes \<Rightarrow> nat \<Rightarrow> (int + bytes) option" where
  "extract_field ptr len field maxlen = extract_from ptr len 0 field maxlen"

definition encode_field :: "bytes \<Rightarrow> int \<Rightarrow> nat \<Rightarrow> bytes \<Rightarrow> bytes \<Rightarrow> (int + (bytes \<times> nat)) option" where
  "encode_field ptr len idx field val =
     (let flen = length field; vlen = length val; tlen = flen + vlen + 1 in
      if tlen \<ge> 256 \<or> int (idx + tlen) \<ge> len then Some (Inl BLADERF_ERR_MEM)
      else case put_at ptr idx [of_nat (flen + vlen)] of
        None \<Rightarrow> None
      | Some p \<Rightarrow>
          (case put_at p (idx + 1) (field @ [0]) of
             None \<Rightarrow> None
           | Some p \<Rightarrow>
               (case put_at p (idx + 1 + flen) (val @ [0]) of
                  None \<Rightarrow> None
                | Some p \<Rightarrow>
                    (case crc16mp 0 (drop idx p) tlen of
                       None \<Rightarrow> None
                     | Some crc \<Rightarrow>
                         (case put_at p (idx + tlen) (put_le16 crc) of
                            None \<Rightarrow> None
                          | Some p \<Rightarrow> Some (Inr (p, idx + tlen + 2)))))))"

text \<open>The loop of add_field that walks to the end of the fields.\<close>

function skip_fields :: "bytes \<Rightarrow> nat \<Rightarrow> nat \<Rightarrow> nat option" where
  "skip_fields buf buf_len i =
     (if i < buf_len then
        case byte_at buf i of
          None \<Rightarrow> None
        | Some field_len \<Rightarrow> if field_len = 0xff then Some i else skip_fields buf buf_len (i + (unat field_len + 3))
      else Some i)"
  by pat_completeness auto

termination skip_fields
  by (relation "measure (\<lambda>(buf, buf_len, i). buf_len - i)") auto

declare skip_fields.simps [simp del]

definition add_field :: "bytes \<Rightarrow> nat \<Rightarrow> bytes \<Rightarrow> bytes \<Rightarrow> (int + bytes) option" where
  "add_field buf buf_len field_name val =
     (case skip_fields buf buf_len 0 of
        None \<Rightarrow> None
      | Some i \<Rightarrow>
          (case encode_field (drop i buf) (int buf_len - int i) 0 field_name val of
             None \<Rightarrow> None
           | Some (Inl rv) \<Rightarrow> Some (Inl rv)
           | Some (Inr (ptr, _)) \<Rightarrow> Some (Inr (take i buf @ ptr))))"

section \<open>The checksum finds single corrupted bytes\<close>

lemma xor_cancel: "(v :: u16) XOR w = u XOR w \<longleftrightarrow> v = u" "w XOR v = w XOR u \<longleftrightarrow> v = u"
  by (auto simp add: bit_eq_iff bit_xor_iff)

lemma crc16_bit_inj: "crc16_bit x = crc16_bit y \<Longrightarrow> x = y"
proof -
  assume e: "crc16_bit x = crc16_bit y"
  have low: "bit (crc16_bit z) 0 = bit z 15" for z
  proof -
    have "z AND 0x8000 \<noteq> 0 \<longleftrightarrow> bit z 15" by (simp add: word16_eq_iff bit_simps)
    moreover have "\<not> bit (push_bit 1 z) 0" by (simp only: bit_push_bit_iff) simp
    moreover from this have "bit (push_bit 1 z XOR 0x1021) 0" by (simp only: bit_xor_iff) simp
    ultimately show ?thesis by (simp only: crc16_bit_def split: if_split) simp
  qed
  have m: "z AND 0x8000 \<noteq> 0 \<longleftrightarrow> bit z 15" for z :: u16 by (simp add: word16_eq_iff bit_simps)
  have h: "bit x 15 = bit y 15" using low [of x] low [of y] e by simp
  then have p: "push_bit 1 x = push_bit 1 y"
    using e by (cases "bit y 15") (simp_all only: crc16_bit_def m h xor_cancel if_True if_False)
  show "x = y"
  proof (rule bit_word_eqI)
    fix n assume "n < LENGTH(16)"
    then consider "n = 15" | "Suc n < 16" by fastforce
    then show "bit x n = bit y n"
    proof cases
      case 2
      have "bit (push_bit 1 x) (Suc n) = bit (push_bit 1 y) (Suc n)" by (simp only: p)
      then show ?thesis using 2 by (simp only: bit_push_bit_iff) simp
    qed (simp add: h)
  qed
qed

lemma crc16_byte_inj: "crc16_byte b x = crc16_byte b y \<Longrightarrow> x = y" "crc16_byte b x = crc16_byte c x \<Longrightarrow> b = c"
proof -
  have f: "(crc16_bit ^^ n) x = (crc16_bit ^^ n) y \<Longrightarrow> x = y" for n x y
    by (induction n) (auto dest: crc16_bit_inj)
  show "x = y" if "crc16_byte b x = crc16_byte b y"
    using f [OF that [unfolded crc16_byte_def]] by (simp only: xor_cancel)
  assume "crc16_byte b x = crc16_byte c x"
  then have "push_bit 8 (ucast b :: u16) = push_bit 8 (ucast c)"
    using f [of 8 "x XOR push_bit 8 (ucast b)" "x XOR push_bit 8 (ucast c)"]
    by (simp only: crc16_byte_def xor_cancel)
  then show "b = c" by (simp add: word16_eq_iff word8_eq_iff bit_simps)
qed

lemma crc16_fold_inj: "fold crc16_byte bs x = fold crc16_byte bs y \<Longrightarrow> x = y"
  by (induction bs arbitrary: x y) (auto dest: crc16_byte_inj(1))

lemma crc16_single_error:
  assumes "b \<noteq> c"
  shows "fold crc16_byte (xs @ b # ys) z \<noteq> fold crc16_byte (xs @ c # ys) z"
  using assms crc16_byte_inj(2) crc16_fold_inj by fastforce

section \<open>Sequences of fields\<close>

definition field_bytes :: "bytes \<Rightarrow> bytes" where
  "field_bytes s =
     (let body = of_nat (length s) # s in body @ put_le16 (fold crc16_byte body 0))"

definition fields_bytes :: "bytes list \<Rightarrow> bytes" where
  "fields_bytes fs = concat (map field_bytes fs)"

definition field_ok :: "bytes \<Rightarrow> bool" where
  "field_ok s \<longleftrightarrow> length s < 255 \<and> 0 \<notin> set s"

text \<open>A buffer that holds some fields, the rest of it erased.\<close>

definition holds_fields :: "bytes \<Rightarrow> bytes list \<Rightarrow> bool" where
  "holds_fields buf fs \<longleftrightarrow> (\<forall>s \<in> set fs. field_ok s) \<and>
     (\<exists>k. buf = fields_bytes fs @ replicate k 0xff)"

lemma length_field_bytes [simp]: "length (field_bytes s) = length s + 3"
  by (simp add: field_bytes_def Let_def)

lemma length_byte:
  assumes "field_ok s"
  shows "unat (of_nat (length s) :: u8) = length s" "(of_nat (length s) :: u8) \<noteq> 0xff"
proof -
  show u: "unat (of_nat (length s) :: u8) = length s"
    using assms by (simp add: field_ok_def unat_of_nat)
  show "(of_nat (length s) :: u8) \<noteq> 0xff"
  proof
    assume "(of_nat (length s) :: u8) = 0xff"
    then show False using u assms by (simp add: field_ok_def)
  qed
qed

lemma skip_one:
  assumes "field_ok s" "length pre + length s + 3 \<le> buf_len"
  shows "skip_fields (pre @ field_bytes s @ rest) buf_len (length pre) =
    skip_fields (pre @ field_bytes s @ rest) buf_len (length (pre @ field_bytes s))"
  using assms length_byte [OF assms(1)]
  by (subst skip_fields.simps) (simp add: byte_at_def nth_append field_bytes_def Let_def numeral_3_eq_3)

lemma skip_fields_all:
  assumes "\<forall>s \<in> set fs. field_ok s" "length pre + length (fields_bytes fs) + k = buf_len"
  shows "skip_fields (pre @ fields_bytes fs @ replicate k 0xff) buf_len (length pre) =
    Some (length pre + length (fields_bytes fs))"
  using assms
proof (induction fs arbitrary: pre)
  case Nil
  then show ?case
    by (subst skip_fields.simps) (cases k; simp add: fields_bytes_def byte_at_def nth_append)
next
  case (Cons s fs)
  have "skip_fields (pre @ fields_bytes (s # fs) @ replicate k 0xff) buf_len (length pre) =
      skip_fields ((pre @ field_bytes s) @ fields_bytes fs @ replicate k 0xff) buf_len (length (pre @ field_bytes s))"
    using skip_one [of s pre buf_len "fields_bytes fs @ replicate k 0xff"] Cons.prems
    by (simp add: fields_bytes_def)
  also have "\<dots> = Some (length (pre @ field_bytes s) + length (fields_bytes fs))"
    by (rule Cons.IH) (use Cons.prems in \<open>simp_all add: fields_bytes_def\<close>)
  finally show ?case by (simp add: fields_bytes_def)
qed

lemma put_at_prefix:
  "length xs \<le> length buf \<Longrightarrow> n = length pre \<Longrightarrow> put_at (pre @ buf) n xs = Some (pre @ xs @ drop (length xs) buf)"
  by (simp add: put_at_def)

lemma replicate_split: "n \<le> k \<Longrightarrow> replicate k x = replicate n x @ replicate (k - n) x"
  by (simp add: replicate_add [symmetric])

text \<open>Encoding into an erased buffer: refused when the field and one byte more do not fit, undefined when
  exactly one byte of the checksum would be outside.\<close>

lemma encode_field_erased:
  fixes field val :: bytes
  defines "tlen \<equiv> length field + length val + 1"
  shows "tlen \<ge> 256 \<or> k \<le> tlen \<Longrightarrow> encode_field (replicate k 0xff) (int k) 0 field val = Some (Inl BLADERF_ERR_MEM)"
    "tlen < 256 \<Longrightarrow> k = tlen + 1 \<Longrightarrow> encode_field (replicate k 0xff) (int k) 0 field val = None"
    "tlen < 256 \<Longrightarrow> tlen + 2 \<le> k \<Longrightarrow> encode_field (replicate k 0xff) (int k) 0 field val =
       Some (Inr (field_bytes (field @ val) @ replicate (k - tlen - 2) 0xff, tlen + 2))"
proof -
  show "tlen \<ge> 256 \<or> k \<le> tlen \<Longrightarrow> encode_field (replicate k 0xff) (int k) 0 field val = Some (Inl BLADERF_ERR_MEM)"
    by (auto simp add: encode_field_def Let_def tlen_def)
next
  assume t: "tlen < 256" "k = tlen + 1"
  then show "encode_field (replicate k 0xff) (int k) 0 field val = None"
    by (simp add: encode_field_def Let_def tlen_def put_at_def crc16mp_def put_le16_def)
next
  assume t: "tlen < 256" "tlen + 2 \<le> k"
  let ?len = "of_nat (length field + length val) :: u8" and ?v = "length val"
  define crc where "crc = fold crc16_byte (?len # field @ val) 0"
  have 1: "put_at (replicate k 0xff) 0 [?len] = Some ([?len] @ replicate (k - 1) 0xff)"
    using t put_at_prefix [of "[?len]" "replicate k 0xff" 0 "[]"] by (simp add: tlen_def)
  have 2: "put_at ([?len] @ replicate (k - 1) 0xff) (0 + 1) (field @ [0]) =
      Some ([?len] @ (field @ [0]) @ replicate (k - length field - 2) 0xff)"
    using t by (subst put_at_prefix) (simp_all add: tlen_def)
  have 3: "put_at (([?len] @ field) @ 0 # replicate (k - length field - 2) 0xff) (0 + 1 + length field) (val @ [0]) =
      Some (([?len] @ field) @ (val @ [0]) @ drop (length (val @ [0])) (0 # replicate (k - length field - 2) 0xff))"
    using t by (intro put_at_prefix) (simp_all add: tlen_def)
  have 4: "put_at ((?len # field @ val) @ 0 # replicate (k - tlen - 1) 0xff) (0 + tlen) (put_le16 crc) =
      Some ((?len # field @ val) @ put_le16 crc @ drop 2 (0 # replicate (k - tlen - 1) 0xff))"
    using t put_at_prefix [of "put_le16 crc" "0 # replicate (k - tlen - 1) 0xff" "0 + tlen" "?len # field @ val"]
    by (simp add: tlen_def)
  have c: "crc16mp 0 (drop 0 ((?len # field @ val) @ rest)) tlen = Some crc" for rest
    by (simp add: crc16mp_def crc_def tlen_def)
  have g: "\<not> (tlen \<ge> 256 \<or> int (0 + tlen) \<ge> int k)" using t by simp
  have f: "field_bytes (field @ val) = (?len # field @ val) @ put_le16 crc" by (simp add: field_bytes_def crc_def Let_def)
  show "encode_field (replicate k 0xff) (int k) 0 field val =
       Some (Inr (field_bytes (field @ val) @ replicate (k - tlen - 2) 0xff, tlen + 2))"
    using g 1 2 3 4 c [of "0 # replicate (k - tlen - 1) 0xff"]
    unfolding encode_field_def Let_def f unfolding tlen_def by (simp add: diff_diff_add)
qed

section \<open>Reading a field back\<close>

lemma le16_at_prefix: "n = length pre \<Longrightarrow> le16_at (pre @ put_le16 w @ rest) n = Some w"
  by (simp add: le16_at_def)

lemma has_prefix_append: "length f \<le> length s \<Longrightarrow> has_prefix (s @ rest) f = Some (take (length f) s = f)"
proof (induction s f rule: has_prefix.induct)
  case (3 c s f fs)
  then show ?case by auto
qed simp_all

text \<open>A name that is longer than the string of the field and agrees with it as far as it goes would be
  compared with the checksum that follows; names without this overlap are compared with the string only.\<close>

fun clashes :: "bytes \<Rightarrow> bytes \<Rightarrow> bool" where
  "clashes [] f \<longleftrightarrow> f \<noteq> []"
| "clashes (c # s) [] \<longleftrightarrow> False"
| "clashes (c # s) (d # f) \<longleftrightarrow> c = d \<and> clashes s f"

lemma not_clashes_Nil [simp]: "\<not> clashes s []"
  by (cases s) simp_all

lemma has_prefix_field: "\<not> clashes s f \<Longrightarrow> has_prefix (s @ rest) f = Some (take (length f) s = f)"
  by (induction s f rule: clashes.induct) (auto simp add: has_prefix.simps)

lemma copy_string_take:
  "0 \<notin> set s \<Longrightarrow> n \<le> length s \<Longrightarrow> copy_string (s @ rest) n = Some (take n s)"
proof (induction s arbitrary: n)
  case (Cons c s)
  then show ?case by (cases n) auto
qed simp

text \<open>The loop looks for the first field whose string starts with the name.\<close>

fun find_field :: "bytes list \<Rightarrow> bytes \<Rightarrow> nat \<Rightarrow> bytes option" where
  "find_field [] name maxlen = None"
| "find_field (s # fs) name maxlen =
     (if take (length name) s = name then Some (take maxlen (drop (length name) s)) else find_field fs name maxlen)"

lemma field_value_length:
  assumes "field_ok s" "length name \<le> length s" "maxlen < 2 ^ 64"
  shows "unat (min_sz (ucast (of_nat (length s) :: u8) - of_nat (length name)) (of_nat maxlen)) =
    min (length s - length name) maxlen"
proof -
  have l: "length s < 255" using assms(1) by (simp add: field_ok_def)
  have "(ucast (of_nat (length s) :: u8) :: u64) = of_nat (length s)"
    using length_byte(1) [OF assms(1)] l by (simp add: word_unat_eq_iff unat_ucast_up unat_of_nat)
  then have "ucast (of_nat (length s) :: u8) - (of_nat (length name) :: u64) = of_nat (length s - length name)"
    using assms(2) by (simp add: of_nat_diff)
  moreover have "unat (of_nat (length s - length name) :: u64) = length s - length name"
    using l by (simp add: unat_of_nat)
  moreover have "unat (of_nat maxlen :: u64) = maxlen" using assms(3) by (simp add: unat_of_nat)
  ultimately show ?thesis by (simp add: min_sz_def word_less_nat_alt min_def)
qed

lemma extract_one:
  assumes "field_ok s" "\<not> clashes s name" "maxlen < 2 ^ 64" "length pre + length s + 3 \<le> len"
  shows "extract_from (pre @ field_bytes s @ rest) len (length pre) name maxlen =
    (if take (length name) s = name then Some (Inr (take maxlen (drop (length name) s)))
     else extract_from (pre @ field_bytes s @ rest) len (length (pre @ field_bytes s)) name maxlen)"
proof -
  let ?buf = "pre @ field_bytes s @ rest" and ?c = "of_nat (length s) :: u8"
  note c = length_byte [OF assms(1)]
  define crc where "crc = fold crc16_byte (?c # s) 0"
  have fb: "field_bytes s = ?c # s @ put_le16 crc" by (simp add: field_bytes_def crc_def Let_def)
  have at: "byte_at ?buf (length pre) = Some ?c" by (simp add: byte_at_def nth_append fb)
  have sum: "le16_at ?buf (length pre + unat ?c + 1) = Some crc"
    using le16_at_prefix [of "length pre + unat ?c + 1" "pre @ ?c # s" crc rest] c by (simp add: fb)
  have calc: "crc16mp 0 (drop (length pre) ?buf) (unat ?c + 1) = Some crc"
    by (simp add: crc16mp_def c fb crc_def)
  have pre: "has_prefix (drop (length pre + 1) ?buf) name = Some (take (length name) s = name)"
    using has_prefix_field [OF assms(2), of "put_le16 crc @ rest"] by (simp add: fb)
  have val: "map_option Inr (copy_string (drop (length pre + 1 + length name) ?buf)
        (unat (min_sz (ucast ?c - of_nat (length name)) (of_nat maxlen)))) =
      Some (Inr (take maxlen (drop (length name) s)) :: int + bytes)" if "take (length name) s = name"
  proof -
    have l: "length name \<le> length s" using arg_cong [OF that, of length] by simp
    have "0 \<notin> set (drop (length name) s)" using assms(1) by (auto simp add: field_ok_def dest: in_set_dropD)
    then have "copy_string (drop (length name) s @ put_le16 crc @ rest) (min (length s - length name) maxlen) =
        Some (take (min (length s - length name) maxlen) (drop (length name) s))"
      by (rule copy_string_take) simp
    moreover have "drop (length pre + 1 + length name) ?buf = drop (length name) s @ put_le16 crc @ rest"
      using l by (simp add: fb)
    ultimately show ?thesis
      by (simp only: field_value_length [OF assms(1) l assms(3)]) (simp add: min_def)
  qed
  have lt: "length pre < len" using assms(4) by simp
  have next_idx: "length pre + unat ?c + 3 = length (pre @ field_bytes s)" by (simp add: c)
  note step = extract_from.simps [of ?buf len "length pre" name maxlen]
  show ?thesis
  proof (cases "take (length name) s = name")
    case True
    then show ?thesis
      using val lt c(2) by (subst step) (simp only: at sum calc pre option.case prod.case bool.case if_True if_False Let_def simp_thms)
  next
    case False
    then show ?thesis
      using lt c(2) by (subst step) (simp only: at sum calc pre option.case prod.case bool.case if_True if_False next_idx simp_thms)
  qed
qed

text \<open>Fields that do not match are passed.\<close>

lemma extract_past:
  assumes "\<forall>s \<in> set fs. field_ok s \<and> \<not> clashes s name \<and> take (length name) s \<noteq> name" "maxlen < 2 ^ 64"
    "length pre + length (fields_bytes fs) \<le> len"
  shows "extract_from (pre @ fields_bytes fs @ rest) len (length pre) name maxlen =
    extract_from (pre @ fields_bytes fs @ rest) len (length pre + length (fields_bytes fs)) name maxlen"
  using assms(1,3)
proof (induction fs arbitrary: pre)
  case (Cons s fs)
  have "extract_from ((pre @ field_bytes s) @ fields_bytes fs @ rest) len (length (pre @ field_bytes s)) name maxlen =
      extract_from ((pre @ field_bytes s) @ fields_bytes fs @ rest) len
        (length (pre @ field_bytes s) + length (fields_bytes fs)) name maxlen"
    by (rule Cons.IH) (use Cons.prems in \<open>simp_all add: fields_bytes_def\<close>)
  then show ?case
    using extract_one [of s name maxlen pre len "fields_bytes fs @ rest"] Cons.prems assms(2)
    by (simp add: fields_bytes_def add.assoc)
qed (simp add: fields_bytes_def)

lemma extract_fields:
  assumes "\<forall>s \<in> set fs. field_ok s \<and> \<not> clashes s name" "maxlen < 2 ^ 64"
    "length pre + length (fields_bytes fs) + k = len"
  shows "extract_from (pre @ fields_bytes fs @ replicate k 0xff) len (length pre) name maxlen =
    Some (case find_field fs name maxlen of None \<Rightarrow> Inl BLADERF_ERR_INVAL | Some v \<Rightarrow> Inr v)"
  using assms(1,3)
proof (induction fs arbitrary: pre)
  case Nil
  then show ?case
    by (subst extract_from.simps) (cases k; simp add: fields_bytes_def byte_at_def nth_append)
next
  case (Cons s fs)
  have "extract_from ((pre @ field_bytes s) @ fields_bytes fs @ replicate k 0xff) len (length (pre @ field_bytes s)) name maxlen =
      Some (case find_field fs name maxlen of None \<Rightarrow> Inl BLADERF_ERR_INVAL | Some v \<Rightarrow> Inr v)"
    by (rule Cons.IH) (use Cons.prems in \<open>simp_all add: fields_bytes_def\<close>)
  then show ?case
    using extract_one [of s name maxlen pre len "fields_bytes fs @ replicate k 0xff"] Cons.prems assms(2)
    by (simp add: fields_bytes_def)
qed

section \<open>Numbers as text\<close>

text \<open>sprintf with %u, and strtoul with base 0 as the C library defines it: white space, a sign, a prefix
  0x or 0 that selects the base, digits.  The result is the value, what is left of the string, whether
  there was a conversion, and whether errno was set.\<close>

fun decimal :: "nat \<Rightarrow> bytes" where
  "decimal n = (if n < 10 then [0x30 + of_nat n] else decimal (n div 10) @ [0x30 + of_nat (n mod 10)])"

declare decimal.simps [simp del]

definition is_space :: "u8 \<Rightarrow> bool" where
  "is_space c \<longleftrightarrow> c = 0x20 \<or> 9 \<le> c \<and> c \<le> 13"

definition digit_value :: "u8 \<Rightarrow> nat" where
  "digit_value c =
     (if 0x30 \<le> c \<and> c \<le> 0x39 then unat (c - 0x30)
      else if 0x61 \<le> c \<and> c \<le> 0x7a then unat (c - 0x61) + 10
      else if 0x41 \<le> c \<and> c \<le> 0x5a then unat (c - 0x41) + 10
      else 36)"

fun read_digits :: "nat \<Rightarrow> bytes \<Rightarrow> nat \<Rightarrow> nat \<times> bytes" where
  "read_digits base [] acc = (acc, [])"
| "read_digits base (c # s) acc =
     (if digit_value c < base then read_digits base s (acc * base + digit_value c) else (acc, c # s))"

definition strtoul :: "bytes \<Rightarrow> u64 \<times> bytes \<times> bool \<times> bool" where
  "strtoul str =
     (let s = dropWhile is_space str;
          (neg, s) = (case s of [] \<Rightarrow> (False, s) | c # r \<Rightarrow> if c = 0x2d then (True, r) else if c = 0x2b then (False, r) else (False, s));
          (base, s) = (case s of
              c # x # d # r \<Rightarrow> if c = 0x30 \<and> (x = 0x78 \<or> x = 0x58) \<and> digit_value d < 16 then (16, d # r)
                               else if c = 0x30 then (8, s) else (10, s)
            | c # r \<Rightarrow> if c = 0x30 then (8, s) else (10, s)
            | [] \<Rightarrow> (10, s))
      in if s = [] \<or> \<not> digit_value (hd s) < base then (0, str, False, False)
         else let (n, rest) = read_digits base s 0 in
           if n \<ge> 2 ^ 64 then (- 1, rest, True, True)
           else (if neg then - of_nat n else of_nat n, rest, True, False))"

definition str2uint :: "bytes \<Rightarrow> u32 \<Rightarrow> u32 \<Rightarrow> u32 option" where
  "str2uint str min_val max_val =
     (case strtoul str of (value, endptr, converted, errno) \<Rightarrow>
        if errno \<or> value < ucast min_val \<or> value > ucast max_val \<or> \<not> converted \<or> endptr \<noteq> [] then None
        else Some (ucast value))"

section \<open>The fields of a device\<close>

abbreviation (input) OTP_BUFFER_SIZE :: nat where "OTP_BUFFER_SIZE \<equiv> 256"
abbreviation (input) CAL_BUFFER_SIZE :: nat where "CAL_BUFFER_SIZE \<equiv> 256"
abbreviation (input) BLADERF_SERIAL_LENGTH :: nat where "BLADERF_SERIAL_LENGTH \<equiv> 33"

datatype bladerf_fpga_size = BLADERF_FPGA_UNKNOWN | BLADERF_FPGA_40KLE | BLADERF_FPGA_115KLE

text \<open>The backend's get_otp and get_cal are parameters that deliver the buffer; they return 0 or a
  negative error.\<close>

definition get_otp_field :: "('s, bytes) io \<Rightarrow> bytes \<Rightarrow> nat \<Rightarrow> 's \<Rightarrow> (int + bytes) option \<times> 's" where
  "get_otp_field get_otp field data_size s =
     (case get_otp s of
        (Inl status, t) \<Rightarrow> (Some (Inl status), t)
      | (Inr otp, t) \<Rightarrow> (extract_field otp OTP_BUFFER_SIZE field data_size, t))"

definition get_cal_field :: "('s, bytes) io \<Rightarrow> bytes \<Rightarrow> nat \<Rightarrow> 's \<Rightarrow> (int + bytes) option \<times> 's" where
  "get_cal_field get_cal field data_size s =
     (case get_cal s of
        (Inl status, t) \<Rightarrow> (Some (Inl status), t)
      | (Inr cal, t) \<Rightarrow> (extract_field cal CAL_BUFFER_SIZE field data_size, t))"

text \<open>What is written to serial_buf (\<open>None\<close>: it keeps its content), and to dev->ident.serial.\<close>

definition read_serial :: "('s, bytes) io \<Rightarrow> 's \<Rightarrow> (bytes option \<times> bytes option) option \<times> 's" where
  "read_serial get_otp s =
     (case get_otp_field get_otp [0x53] (BLADERF_SERIAL_LENGTH - 1) s of
        (None, t) \<Rightarrow> (None, t)
      | (Some (Inl status), t) \<Rightarrow> (Some (None, Some (replicate (BLADERF_SERIAL_LENGTH - 1) 0x30)), t)
      | (Some (Inr serial), t) \<Rightarrow> (Some (Some serial, None), t))"

definition get_and_cache_vctcxo_trim :: "('s, bytes) io \<Rightarrow> 's \<Rightarrow> (int \<times> u16) option \<times> 's" where
  "get_and_cache_vctcxo_trim get_cal s =
     (case get_cal_field get_cal [0x44, 0x41, 0x43] 6 s of
        (None, t) \<Rightarrow> (None, t)
      | (Some (Inl status), t) \<Rightarrow> (Some (status, 0x8000), t)
      | (Some (Inr tmp), t) \<Rightarrow>
          (Some (0, case str2uint tmp 0 0xffff of Some trim \<Rightarrow> ucast trim | None \<Rightarrow> 0x8000), t))"

definition get_and_cache_fpga_size :: "('s, bytes) io \<Rightarrow> 's \<Rightarrow> (int \<times> bladerf_fpga_size) option \<times> 's" where
  "get_and_cache_fpga_size get_cal s =
     (case get_cal_field get_cal [0x42] 6 s of
        (None, t) \<Rightarrow> (None, t)
      | (Some (Inl status), t) \<Rightarrow> (Some (status, BLADERF_FPGA_UNKNOWN), t)
      | (Some (Inr tmp), t) \<Rightarrow>
          (Some (0, if tmp = [0x34, 0x30] then BLADERF_FPGA_40KLE
                    else if tmp = [0x31, 0x31, 0x35] then BLADERF_FPGA_115KLE else BLADERF_FPGA_UNKNOWN), t))"

text \<open>The calibration region (host/libraries/libbladeRF/src/image.c).\<close>

definition make_cal_region :: "bladerf_fpga_size \<Rightarrow> u16 \<Rightarrow> nat \<Rightarrow> (int + bytes) option" where
  "make_cal_region fpga vctcxo_trim len =
     (if fpga = BLADERF_FPGA_UNKNOWN then Some (Inl BLADERF_ERR_INVAL)
      else
        let fpga_size = (if fpga = BLADERF_FPGA_40KLE then [0x34, 0x30] else [0x31, 0x31, 0x35]);
            buf = replicate len 0xff in
        case add_field buf len [0x42] fpga_size of
          Some (Inr buf) \<Rightarrow> add_field buf len [0x44, 0x41, 0x43] (decimal (unat vctcxo_trim))
        | r \<Rightarrow> r)"

lemma digit_value_decimal: "d < 10 \<Longrightarrow> digit_value (0x30 + of_nat d) = d"
proof -
  assume "d < 10"
  then have "d \<in> {0, 1, 2, 3, 4, 5, 6, 7, 8, 9}" by auto
  then show ?thesis by (auto simp add: digit_value_def)
qed

lemma read_decimal:
  "read_digits 10 (decimal n @ s) acc = read_digits 10 s (acc * 10 ^ length (decimal n) + n)"
proof (induction n arbitrary: s acc rule: decimal.induct)
  case (1 n)
  show ?case
  proof (cases "n < 10")
    case True
    then show ?thesis by (simp add: decimal.simps [of n] digit_value_decimal)
  next
    case False
    have "n = n div 10 * 10 + n mod 10" by simp
    then show ?thesis
      using 1 [OF False, of "(0x30 + of_nat (n mod 10)) # s" acc] False
      by (subst (1 2) decimal.simps) (simp add: digit_value_decimal algebra_simps)
  qed
qed

lemma decimal_digits: "set (decimal n) \<subseteq> {0x30..0x39}" "decimal n \<noteq> []"
proof -
  have d: "0x30 + of_nat k \<in> {0x30..0x39 :: u8}" if "k < 10" for k
  proof -
    have "k \<in> {0, 1, 2, 3, 4, 5, 6, 7, 8, 9}" using that by auto
    then show ?thesis by auto
  qed
  show "set (decimal n) \<subseteq> {0x30..0x39}"
  proof (induction n rule: decimal.induct)
    case (1 n)
    then show ?case using d [of n] d [of "n mod 10"] by (subst decimal.simps) auto
  qed
  show "decimal n \<noteq> []" by (subst decimal.simps) simp
qed

lemma decimal_hd: "0 < n \<Longrightarrow> hd (decimal n) \<noteq> 0x30"
proof (induction n rule: decimal.induct)
  case (1 n)
  show ?case
  proof (cases "n < 10")
    case True
    then have "n \<in> {1, 2, 3, 4, 5, 6, 7, 8, 9}" using 1(2) by auto
    then show ?thesis by (auto simp add: decimal.simps [of n])
  next
    case False
    then show ?thesis using 1(1) decimal_digits(2) [of "n div 10"] by (subst decimal.simps) (simp add: div_greater_zero_iff)
  qed
qed

lemma length_decimal: "n < 10 ^ k \<Longrightarrow> 0 < k \<Longrightarrow> length (decimal n) \<le> k"
proof (induction n arbitrary: k rule: decimal.induct)
  case (1 n)
  show ?case
  proof (cases "n < 10")
    case True
    then show ?thesis using 1(3) by (subst decimal.simps) simp
  next
    case False
    then obtain j where k: "k = Suc j" "0 < j" using 1(2,3) by (cases k; cases "k - 1") auto
    then have "n div 10 < 10 ^ j" using 1(2) by (simp add: less_mult_imp_div_less mult.commute)
    then show ?thesis using 1(1) [OF False] k False by (subst decimal.simps) simp
  qed
qed

lemma str2uint_decimal:
  assumes "n < 2 ^ 16"
  shows "str2uint (decimal n) 0 0xffff = Some (of_nat n)"
proof -
  obtain c s where cs: "decimal n = c # s" using decimal_digits(2) by (cases "decimal n") auto
  have c: "0x30 \<le> c" "c \<le> 0x39" using decimal_digits(1) [of n] by (auto simp add: cs)
  have ns: "\<not> is_space c" "c \<noteq> 0x2d" "c \<noteq> 0x2b"
    using c by (auto simp add: is_space_def word_le_nat_alt)
  have r: "read_digits 10 (decimal n) 0 = (n, [])" using read_decimal [of n "[]" 0] by simp
  have dv: "digit_value c < 10" using c by (simp add: digit_value_def word_le_nat_alt unat_sub_if_size word_size)
  have parsed: "strtoul (decimal n) = (of_nat n, [], True, False)"
  proof (cases "n = 0")
    case True
    then show ?thesis by (simp add: strtoul_def decimal.simps [of 0] is_space_def digit_value_def)
  next
    case False
    then have h: "c \<noteq> 0x30" using decimal_hd [of n] by (simp add: cs)
    have "(case c # s of
        c # x # d # r \<Rightarrow> if c = 0x30 \<and> (x = 0x78 \<or> x = 0x58) \<and> digit_value d < 16 then (16, d # r)
                         else if c = 0x30 then (8, c # s) else (10, c # s)
      | c # r \<Rightarrow> if c = 0x30 then (8, c # s) else (10, c # s)
      | [] \<Rightarrow> (10, c # s)) = (10 :: nat, c # s)"
      using h by (simp split: list.split)
    then show ?thesis
      using ns dv r assms unfolding strtoul_def cs Let_def by (simp add: cs)
  qed
  have "unat (of_nat n :: u64) = n" using assms by (simp add: unat_of_nat)
  then show ?thesis
    using assms by (simp add: str2uint_def parsed word_less_nat_alt word_unat_eq_iff unat_of_nat unsigned_ucast_eq take_bit_nat_eq_self)
qed

lemma erased_holds: "holds_fields (replicate k 0xff) []"
  by (auto simp add: holds_fields_def fields_bytes_def)

lemma add_field_fits:
  assumes "holds_fields buf fs" "0 \<notin> set name" "0 \<notin> set val"
    "length (fields_bytes fs) + length name + length val + 3 \<le> length buf" "length name + length val < 255"
  shows "\<exists>buf'. add_field buf (length buf) name val = Some (Inr buf') \<and> length buf' = length buf \<and>
    holds_fields buf' (fs @ [name @ val])"
proof -
  obtain k where buf: "buf = fields_bytes fs @ replicate k 0xff" and ok: "\<forall>s \<in> set fs. field_ok s"
    using assms(1) by (auto simp add: holds_fields_def)
  let ?f = "field_bytes (name @ val)" and ?r = "replicate (k - (length name + length val + 3)) 0xff"
  have "skip_fields buf (length buf) 0 = Some (length (fields_bytes fs))"
    using skip_fields_all [OF ok, of "[]" k "length buf"] by (simp add: buf)
  moreover have "encode_field (replicate k 0xff) (int k) 0 name val = Some (Inr (?f @ ?r, length name + length val + 3))"
    using encode_field_erased(3) [of name val k] assms(4,5) by (simp add: buf numeral_3_eq_3)
  ultimately have "add_field buf (length buf) name val = Some (Inr (fields_bytes fs @ ?f @ ?r))"
    by (simp add: add_field_def buf)
  moreover have "field_ok (name @ val)" using assms by (auto simp add: field_ok_def)
  ultimately show ?thesis
    using ok assms(4) by (auto simp add: holds_fields_def fields_bytes_def buf)
qed

lemma length_2E:
  assumes "length xs = 2"
  obtains x y where "xs = [x, y]"
  using assms by (cases xs; cases "tl xs") auto

lemma crc_byte_changed:
  assumes "j = 0 \<or> j = 1" "b \<noteq> put_le16 crc ! j"
  shows "get_le16 ((put_le16 crc)[j := b]) \<noteq> crc"
proof
  assume e: "get_le16 ((put_le16 crc)[j := b]) = crc"
  have "length ((put_le16 crc)[j := b]) = 2" by simp
  then obtain x y where xy: "(put_le16 crc)[j := b] = [x, y]" by (rule length_2E)
  have "put_le16 (get_le16 [x, y]) = [x, y]" by (simp add: put_le16_def word8_eq_iff bit_simps bit_word_high)
  then have "put_le16 crc = [x, y]" using e unfolding xy by (simp only:)
  also have "\<dots> = (put_le16 crc)[j := b]" by (rule xy [symmetric])
  finally have "put_le16 crc = (put_le16 crc)[j := b]" .
  then have "put_le16 crc ! j = b" using nth_list_update_eq [of j "put_le16 crc" b] assms(1) by auto
  then show False using assms(2) by simp
qed

section \<open>Properties\<close>

text \<open>C31: the buffer of fields is a list of strings: adding a field to a buffer of well-formed fields appends
  its string, keeps the buffer's size, and reports BLADERF_ERR_MEM when the field is too long or does not
  fit; except that for exactly one missing byte the size check passes and the checksum is written
  past the end of the buffer (undefined).\<close>

theorem add_field_appends:
  assumes "holds_fields buf fs" "0 \<notin> set name" "0 \<notin> set val"
    "room = length buf - length (fields_bytes fs)" "need = length name + length val + 3"
  shows "if need > 257 \<or> room + 1 < need then add_field buf (length buf) name val = Some (Inl BLADERF_ERR_MEM)
    else if room < need then add_field buf (length buf) name val = None
    else \<exists>buf'. add_field buf (length buf) name val = Some (Inr buf') \<and> length buf' = length buf \<and>
      holds_fields buf' (fs @ [name @ val])"
proof -
  obtain k where buf: "buf = fields_bytes fs @ replicate k 0xff" and ok: "\<forall>s \<in> set fs. field_ok s"
    using assms(1) by (auto simp add: holds_fields_def)
  have room: "room = k" using assms(4) by (simp add: buf)
  have skip: "skip_fields buf (length buf) 0 = Some (length (fields_bytes fs))"
    using skip_fields_all [OF ok, of "[]" k "length buf"] by (simp add: buf)
  have d: "drop (length (fields_bytes fs)) buf = replicate k 0xff" "int (length buf) - int (length (fields_bytes fs)) = int k"
    "take (length (fields_bytes fs)) buf = fields_bytes fs"
    by (simp_all add: buf)
  note enc = encode_field_erased [where field = name and val = val and k = k]
  note add = add_field_def [of buf "length buf" name val, unfolded skip option.case d]
  consider "need > 257 \<or> k + 1 < need" | "need \<le> 257" "k + 1 = need" | "need \<le> 257" "need \<le> k" by linarith
  then show ?thesis
  proof cases
    case 1
    then have "encode_field (replicate k 0xff) (int k) 0 name val = Some (Inl BLADERF_ERR_MEM)"
      using assms(5) by (intro enc(1)) linarith
    then show ?thesis using 1 unfolding room add by simp
  next
    case 2
    then show ?thesis using enc(2) assms(5) unfolding room add by simp
  next
    case 3
    then have "length buf \<ge> length (fields_bytes fs) + length name + length val + 3" "length name + length val < 255"
      using assms(5) by (simp_all add: buf)
    then show ?thesis
      using 3 add_field_fits [OF assms(1-3)] unfolding room by simp
  qed
qed

lemma add_field_appends_witness:
  "add_field (replicate 6 0xff) 6 [0x42] [0x34, 0x30, 0x30] = None \<and>
   add_field (replicate 5 0xff) 5 [0x42] [0x34, 0x30, 0x30] = Some (Inl BLADERF_ERR_MEM)"
  using add_field_appends [OF erased_holds [of 6] _ _ refl refl, of "[0x42]" "[0x34, 0x30, 0x30]"]
    add_field_appends [OF erased_holds [of 5] _ _ refl refl, of "[0x42]" "[0x34, 0x30, 0x30]"]
  by (simp add: fields_bytes_def)

text \<open>C32: a calibration region made for a board reads back as it was made: for both FPGA sizes and every
  trim value of the VCTCXO, make_cal_region fills the 256 bytes, and on a device that returns them
  get_and_cache_fpga_size and get_and_cache_vctcxo_trim find the size and the trim.\<close>

theorem cal_region_roundtrip:
  assumes "fpga \<noteq> BLADERF_FPGA_UNKNOWN"
  shows "\<exists>cal. make_cal_region fpga trim 256 = Some (Inr cal) \<and> length cal = 256 \<and>
    get_and_cache_fpga_size (\<lambda>s. (Inr cal, s)) s = (Some (0, fpga), s) \<and>
    get_and_cache_vctcxo_trim (\<lambda>s. (Inr cal, s)) s = (Some (0, trim), s)"
proof -
  define size_str :: bytes where "size_str = (if fpga = BLADERF_FPGA_40KLE then [0x34, 0x30] else [0x31, 0x31, 0x35])"
  let ?B = "[0x42] :: bytes" and ?DAC = "[0x44, 0x41, 0x43] :: bytes" and ?d = "decimal (unat trim)"
  have t: "unat trim < 2 ^ 16" using unsigned_less [of trim, where ?'a = nat] by simp
  have size: "length size_str \<le> 3" "0 \<notin> set size_str" by (simp_all add: size_str_def)
  have dl: "length ?d \<le> 5" using t by (intro length_decimal) simp_all
  have dz: "0 \<notin> set ?d" using decimal_digits(1) [of "unat trim"] by auto
  obtain b1 where b1: "add_field (replicate 256 0xff) 256 ?B size_str = Some (Inr b1)" "length b1 = 256"
      "holds_fields b1 [?B @ size_str]"
    using add_field_fits [OF erased_holds [of 256] _ size(2), of ?B] size(1) by (auto simp add: fields_bytes_def)
  obtain b2 where b2: "add_field b1 256 ?DAC ?d = Some (Inr b2)" "length b2 = 256"
      "holds_fields b2 [?B @ size_str, ?DAC @ ?d]"
    using add_field_fits [OF b1(3) _ dz, of ?DAC] b1(2) size(1) dl by (auto simp add: fields_bytes_def)
  obtain k where k: "b2 = fields_bytes [?B @ size_str, ?DAC @ ?d] @ replicate k 0xff"
    and ok: "field_ok (?B @ size_str)" "field_ok (?DAC @ ?d)"
    using b2(3) by (auto simp add: holds_fields_def)
  have x: "extract_field b2 256 name maxlen =
      Some (case find_field [?B @ size_str, ?DAC @ ?d] name maxlen of None \<Rightarrow> Inl BLADERF_ERR_INVAL | Some v \<Rightarrow> Inr v)"
    if "\<not> clashes (?B @ size_str) name" "\<not> clashes (?DAC @ ?d) name" "maxlen < 2 ^ 64" for name maxlen
    unfolding extract_field_def k
    using extract_fields [of "[?B @ size_str, ?DAC @ ?d]" name maxlen "[]" k 256] that ok b2(2)
    by (simp add: k)
  have "make_cal_region fpga trim 256 = Some (Inr b2)"
    using assms b1(1) b2(1) by (simp add: make_cal_region_def Let_def flip: size_str_def)
  moreover have "get_and_cache_fpga_size (\<lambda>s. (Inr b2, s)) s = (Some (0, fpga), s)"
    using x [of ?B 6] assms by (cases fpga) (simp_all add: get_and_cache_fpga_size_def get_cal_field_def size_str_def)
  moreover have trim: "ucast (ucast trim :: u32) = trim" by (rule bit_word_eqI) (simp add: bit_simps)
  have "get_and_cache_vctcxo_trim (\<lambda>s. (Inr b2, s)) s = (Some (0, trim), s)"
    using x [of ?DAC 6] dl str2uint_decimal [OF t] trim
    by (simp add: get_and_cache_vctcxo_trim_def get_cal_field_def)
  ultimately show ?thesis using b2(2) by blast
qed

lemma cal_region_roundtrip_witness:
  "\<exists>cal. make_cal_region BLADERF_FPGA_115KLE 0x8123 256 = Some (Inr cal) \<and>
    get_and_cache_vctcxo_trim (\<lambda>s. (Inr cal, s)) () = (Some (0, 0x8123), ())"
  using cal_region_roundtrip [of BLADERF_FPGA_115KLE "0x8123" "()"] by auto

text \<open>C33: corruption is noticed: when one byte of a stored field is changed (in its string or in its
  checksum), looking for any name that no earlier field starts with ends with BLADERF_ERR_INVAL.\<close>

theorem corrupted_field_refused:
  assumes "\<forall>f \<in> set fs. field_ok f \<and> \<not> clashes f name \<and> take (length name) f \<noteq> name" "field_ok f"
    "0 < i" "i < length (field_bytes f)" "b \<noteq> field_bytes f ! i" "maxlen < 2 ^ 64"
    "buf = fields_bytes fs @ (field_bytes f)[i := b] @ rest" "len \<le> length buf"
    "length (fields_bytes fs) < len"
  shows "extract_field buf len name maxlen = Some (Inl BLADERF_ERR_INVAL)"
proof -
  let ?c = "of_nat (length f) :: u8" and ?n = "length (fields_bytes fs)"
  define crc where "crc = fold crc16_byte (?c # f) 0"
  note c = length_byte [OF assms(2)]
  have fb: "field_bytes f = (?c # f) @ put_le16 crc" by (simp add: field_bytes_def crc_def Let_def)
  obtain body sum where bad: "(field_bytes f)[i := b] = (?c # body) @ sum" "length body = length f" "length sum = 2"
      "fold crc16_byte (?c # body) 0 \<noteq> get_le16 sum"
  proof (cases "i \<le> length f")
    case True
    then obtain j where j: "i = Suc j" "j < length f" using assms(3) by (cases i) auto
    have f: "f = take j f @ f ! j # drop (Suc j) f" by (rule id_take_nth_drop [OF j(2)])
    have "b \<noteq> f ! j" using assms(5) j by (simp add: fb nth_append)
    then have "fold crc16_byte ((?c # take j f) @ b # drop (Suc j) f) 0 \<noteq>
        fold crc16_byte ((?c # take j f) @ f ! j # drop (Suc j) f) 0" by (rule crc16_single_error)
    then have "fold crc16_byte (?c # f[j := b]) 0 \<noteq> crc"
      using f unfolding crc_def by (simp add: upd_conv_take_nth_drop [OF j(2)])
    moreover have "get_le16 (put_le16 crc) = crc" using get_put_le(1) [of crc "[]"] by simp
    ultimately show ?thesis
      using that [of "f[j := b]" "put_le16 crc"] j by (simp add: fb list_update_append)
  next
    case False
    define j where "j = i - Suc (length f)"
    have j: "i = Suc (length f + j)" "j = 0 \<or> j = 1"
      using False assms(4) by (auto simp add: j_def)
    have "b \<noteq> put_le16 crc ! j" using assms(5) j by (auto simp add: fb nth_append)
    with j(2) have "get_le16 ((put_le16 crc)[j := b]) \<noteq> crc" by (rule crc_byte_changed)
    then show ?thesis
      using that [of f "(put_le16 crc)[j := b]"] j by (simp add: fb list_update_append crc_def)
  qed
  have "extract_from buf len 0 name maxlen = extract_from buf len ?n name maxlen"
    using extract_past [of fs name maxlen "[]" len "(field_bytes f)[i := b] @ rest"] assms(1,6,9) by (simp add: assms(7))
  also have "\<dots> = Some (Inl BLADERF_ERR_INVAL)"
  proof -
    have buf: "buf = fields_bytes fs @ (?c # body) @ sum @ rest" by (simp add: assms(7) bad(1))
    have "byte_at buf ?n = Some ?c" by (simp add: buf byte_at_def nth_append)
    moreover have "le16_at buf (?n + unat ?c + 1) = Some (get_le16 sum)"
    proof -
      obtain x y where "sum = [x, y]" using bad(3) by (rule length_2E)
      then show ?thesis by (simp add: buf le16_at_def c bad(2))
    qed
    moreover have "crc16mp 0 (drop ?n buf) (unat ?c + 1) = Some (fold crc16_byte (?c # body) 0)"
      by (simp add: buf crc16mp_def c bad(2))
    ultimately show ?thesis
      using bad(4) [symmetric] c(2) assms(9)
      by (subst extract_from.simps) (simp only: option.case prod.case if_True if_False simp_thms)
  qed
  finally show ?thesis by (simp add: extract_field_def)
qed

lemma corrupted_field_refused_witness:
  "extract_field ((field_bytes [0x53, 0x31, 0x32])[2 := 0x39] @ [0xff]) 7 [0x53] 32 = Some (Inl BLADERF_ERR_INVAL)"
  by (rule corrupted_field_refused [of "[]" _ "[0x53, 0x31, 0x32]" 2 "0x39" _ _ "[0xff]"])
    (simp_all add: fields_bytes_def field_ok_def field_bytes_def Let_def)

end
