(* ===== verification/Image.thy ===== *)
theory Image
  imports Sha256 Flash_Fields
begin

text \<open>
  Flash image files (host/libraries/libbladeRF/src/image.c): packing, checksum, unpacking, reading,
  writing and allocating.  The fixed-size arrays of the structure are lists of their lengths; the
  extra characters for a terminating zero are left out.  Memory allocation succeeds.  Files are
  parameters: an operation that writes the bytes of a whole file, and one that reads them.
\<close>

unbundle bit_operations_syntax

datatype bladerf_image_type =
    BLADERF_IMAGE_TYPE_INVALID
  | BLADERF_IMAGE_TYPE_RAW
  | BLADERF_IMAGE_TYPE_FIRMWARE
  | BLADERF_IMAGE_TYPE_FPGA_40KLE
  | BLADERF_IMAGE_TYPE_FPGA_115KLE
  | BLADERF_IMAGE_TYPE_CALIBRATION
  | BLADERF_IMAGE_TYPE_RX_DC_CAL
  | BLADERF_IMAGE_TYPE_TX_DC_CAL
  | BLADERF_IMAGE_TYPE_RX_IQ_CAL
  | BLADERF_IMAGE_TYPE_TX_IQ_CAL

text \<open>The conversions between the enumeration and uint32_t; a number that is none of its values is
  handled like the invalid one everywhere.\<close>

definition image_type_code :: "bladerf_image_type \<Rightarrow> u32" where
  "image_type_code ty =
     (case ty of BLADERF_IMAGE_TYPE_INVALID \<Rightarrow> - 1 | BLADERF_IMAGE_TYPE_RAW \<Rightarrow> 0
      | BLADERF_IMAGE_TYPE_FIRMWARE \<Rightarrow> 1 | BLADERF_IMAGE_TYPE_FPGA_40KLE \<Rightarrow> 2
      | BLADERF_IMAGE_TYPE_FPGA_115KLE \<Rightarrow> 3 | BLADERF_IMAGE_TYPE_CALIBRATION \<Rightarrow> 4
      | BLADERF_IMAGE_TYPE_RX_DC_CAL \<Rightarrow> 5 | BLADERF_IMAGE_TYPE_TX_DC_CAL \<Rightarrow> 6
      | BLADERF_IMAGE_TYPE_RX_IQ_CAL \<Rightarrow> 7 | BLADERF_IMAGE_TYPE_TX_IQ_CAL \<Rightarrow> 8)"

definition image_type_of :: "u32 \<Rightarrow> bladerf_image_type" where
  "image_type_of w =
     (if w = 0 then BLADERF_IMAGE_TYPE_RAW else if w = 1 then BLADERF_IMAGE_TYPE_FIRMWARE
      else if w = 2 then BLADERF_IMAGE_TYPE_FPGA_40KLE else if w = 3 then BLADERF_IMAGE_TYPE_FPGA_115KLE
      else if w = 4 then BLADERF_IMAGE_TYPE_CALIBRATION else if w = 5 then BLADERF_IMAGE_TYPE_RX_DC_CAL
      else if w = 6 then BLADERF_IMAGE_TYPE_TX_DC_CAL else if w = 7 then BLADERF_IMAGE_TYPE_RX_IQ_CAL
      else if w = 8 then BLADERF_IMAGE_TYPE_TX_IQ_CAL else BLADERF_IMAGE_TYPE_INVALID)"

record bladerf_image =
  im_magic :: bytes
  im_checksum :: bytes
  im_major :: u16
  im_minor :: u16
  im_patch :: u16
  im_timestamp :: u64
  im_serial :: bytes
  im_reserved :: bytes
  im_type :: bladerf_image_type
  im_address :: u32
  im_length :: u32
  im_data :: "bytes option"

abbreviation (input) BLADERF_IMAGE_MAGIC_LEN :: nat where "BLADERF_IMAGE_MAGIC_LEN \<equiv> 7"
abbreviation (input) BLADERF_IMAGE_CHECKSUM_LEN :: nat where "BLADERF_IMAGE_CHECKSUM_LEN \<equiv> 32"
abbreviation (input) BLADERF_IMAGE_RESERVED_LEN :: nat where "BLADERF_IMAGE_RESERVED_LEN \<equiv> 128"
abbreviation (input) BLADERF_FLASH_TOTAL_SIZE :: u32 where "BLADERF_FLASH_TOTAL_SIZE \<equiv> 0x400000"
abbreviation (input) BLADERF_FLASH_PAGE_SIZE :: u32 where "BLADERF_FLASH_PAGE_SIZE \<equiv> 256"
abbreviation (input) BLADERF_FLASH_EB_SIZE :: u32 where "BLADERF_FLASH_EB_SIZE \<equiv> 0x10000"
abbreviation (input) BLADERF_FLASH_ADDR_CAL :: u32 where "BLADERF_FLASH_ADDR_CAL \<equiv> 0x30000"
abbreviation (input) BLADERF_FLASH_BYTE_LEN_CAL :: u32 where "BLADERF_FLASH_BYTE_LEN_CAL \<equiv> 0x100"

definition image_magic :: bytes where
  "image_magic = [0x62, 0x6c, 0x61, 0x64, 0x65, 0x52, 0x46]"

definition CALC_IMAGE_SIZE :: "nat \<Rightarrow> nat" where
  "CALC_IMAGE_SIZE len =
     BLADERF_IMAGE_MAGIC_LEN + BLADERF_IMAGE_CHECKSUM_LEN + 3 * 2 + 8 + BLADERF_SERIAL_LENGTH +
     BLADERF_IMAGE_RESERVED_LEN + 3 * 4 + len"

text \<open>The context of the hash is an uninitialised local variable; what it holds does not matter.\<close>

definition sha256_buffer :: "bytes \<Rightarrow> bytes" where
  "sha256_buffer buf =
     SHA256_Final (SHA256_Update buf (SHA256_Init
       \<lparr>sha_state = [], sha_count0 = 0, sha_count1 = 0, sha_buf = replicate 64 0\<rparr>))"

section \<open>Checksum, packing, unpacking\<close>

definition set_checksum :: "bytes \<Rightarrow> bytes \<Rightarrow> bytes" where
  "set_checksum buf digest =
     take BLADERF_IMAGE_MAGIC_LEN buf @ digest @ drop (BLADERF_IMAGE_MAGIC_LEN + BLADERF_IMAGE_CHECKSUM_LEN) buf"

text \<open>The status, and the buffer afterwards.\<close>

definition verify_checksum :: "bytes \<Rightarrow> int \<times> bytes" where
  "verify_checksum buf =
     (if length buf \<le> CALC_IMAGE_SIZE 0 then (BLADERF_ERR_INVAL, buf)
      else
        let checksum_expected = take BLADERF_IMAGE_CHECKSUM_LEN (drop BLADERF_IMAGE_MAGIC_LEN buf);
            buf = set_checksum buf (replicate BLADERF_IMAGE_CHECKSUM_LEN 0);
            checksum_calc = sha256_buffer buf
        in if checksum_expected \<noteq> checksum_calc then (BLADERF_ERR_CHECKSUM, buf)
           else (0, set_checksum buf checksum_expected))"

definition image_type_is_valid :: "bladerf_image_type \<Rightarrow> bool" where
  "image_type_is_valid ty = (ty \<noteq> BLADERF_IMAGE_TYPE_INVALID)"

definition pack_image :: "bladerf_image \<Rightarrow> bytes" where
  "pack_image img =
     (let buf = im_magic img @ replicate BLADERF_IMAGE_CHECKSUM_LEN 0 @ put_be16 (im_major img) @
            put_be16 (im_minor img) @ put_be16 (im_patch img) @ put_be64 (im_timestamp img) @ im_serial img @
            replicate BLADERF_IMAGE_RESERVED_LEN 0 @ put_be32 (image_type_code (im_type img)) @
            put_be32 (im_address img) @ put_be32 (im_length img) @
            (case im_data img of None \<Rightarrow> [] | Some data \<Rightarrow> take (unat (im_length img)) data)
      in set_checksum buf (sha256_buffer buf))"

definition unpack_image :: "bytes \<Rightarrow> int + bladerf_image" where
  "unpack_image buf =
     (if length buf < CALC_IMAGE_SIZE 0 then Inl BLADERF_ERR_INVAL
      else if take 7 buf \<noteq> image_magic then Inl BLADERF_ERR_INVAL
      else
        let i = 7; checksum = take 32 (drop i buf);
            i = i + 32; major = get_be16 (drop i buf);
            i = i + 2; minor = get_be16 (drop i buf);
            i = i + 2; patch = get_be16 (drop i buf);
            i = i + 2; timestamp = get_be64 (drop i buf);
            i = i + 8; serial = take BLADERF_SERIAL_LENGTH (drop i buf);
            i = i + BLADERF_SERIAL_LENGTH; reserved = take BLADERF_IMAGE_RESERVED_LEN (drop i buf);
            i = i + BLADERF_IMAGE_RESERVED_LEN; ty = image_type_of (get_be32 (drop i buf));
            i = i + 4
        in if \<not> image_type_is_valid ty then Inl BLADERF_ERR_INVAL
           else
             let address = get_be32 (drop i buf);
                 i = i + 4; len = get_be32 (drop i buf);
                 i = i + 4
             in if length buf \<noteq> CALC_IMAGE_SIZE (unat len) then Inl BLADERF_ERR_INVAL
                else Inr \<lparr>im_magic = take 7 buf, im_checksum = checksum, im_major = major, im_minor = minor,
                  im_patch = patch, im_timestamp = timestamp, im_serial = serial, im_reserved = reserved,
                  im_type = ty, im_address = address, im_length = len,
                  im_data = Some (take (unat len) (drop i buf))\<rparr>)"

section \<open>Files\<close>

definition bladerf_image_write :: "(bytes \<Rightarrow> ('s, unit) io) \<Rightarrow> bladerf_image \<Rightarrow> ('s, unit) io" where
  "bladerf_image_write write_file img =
     (if im_magic img \<noteq> image_magic then throwE BLADERF_ERR_INVAL
      else if \<not> image_type_is_valid (im_type img) then throwE BLADERF_ERR_INVAL
      else if im_data img = None then throwE BLADERF_ERR_INVAL
      else if im_type img = BLADERF_IMAGE_TYPE_RAW \<and> im_address img mod BLADERF_FLASH_EB_SIZE \<noteq> 0
        then throwE BLADERF_ERR_INVAL
      else if im_type img = BLADERF_IMAGE_TYPE_RAW \<and> im_length img mod BLADERF_FLASH_EB_SIZE \<noteq> 0
        then throwE BLADERF_ERR_INVAL
      else write_file (pack_image img))"

definition bladerf_image_read :: "('s, bytes) io \<Rightarrow> ('s, bladerf_image) io" where
  "bladerf_image_read read_file =
     bindE read_file (\<lambda>buf.
       case verify_checksum buf of (rv, buf) \<Rightarrow>
         if rv < 0 then throwE rv
         else (case unpack_image buf of Inl rv \<Rightarrow> throwE rv | Inr img \<Rightarrow> returnE img))"

section \<open>Allocation\<close>

definition is_page_aligned :: "u32 \<Rightarrow> bool" where
  "is_page_aligned val \<longleftrightarrow> val mod BLADERF_FLASH_PAGE_SIZE = 0"

definition is_valid_addr_len :: "u32 \<Rightarrow> u32 \<Rightarrow> bool" where
  "is_valid_addr_len addr len =
     (if addr \<ge> BLADERF_FLASH_TOTAL_SIZE then False
      else if len > BLADERF_FLASH_TOTAL_SIZE then False
      else if addr + len > BLADERF_FLASH_TOTAL_SIZE then False
      else True)"

text \<open>The time of day is a parameter.\<close>

definition bladerf_alloc_image :: "u64 \<Rightarrow> bladerf_image_type \<Rightarrow> u32 \<Rightarrow> u32 \<Rightarrow> bladerf_image option" where
  "bladerf_alloc_image timestamp ty address len =
     (if address \<noteq> 0xffffffff \<and> \<not> is_page_aligned address then None
      else if address \<noteq> 0xffffffff \<and> \<not> is_page_aligned len then None
      else if address \<noteq> 0xffffffff \<and> \<not> is_valid_addr_len address len then None
      else Some \<lparr>im_magic = image_magic, im_checksum = replicate 32 0, im_major = 0, im_minor = 1, im_patch = 0,
        im_timestamp = timestamp, im_serial = replicate BLADERF_SERIAL_LENGTH 0,
        im_reserved = replicate BLADERF_IMAGE_RESERVED_LEN 0, im_type = ty, im_address = address,
        im_length = len, im_data = (if len = 0 then None else Some (replicate (unat len) 0))\<rparr>)"

definition bladerf_alloc_cal_image :: "u64 \<Rightarrow> bladerf_fpga_size \<Rightarrow> u16 \<Rightarrow> bladerf_image option" where
  "bladerf_alloc_cal_image timestamp fpga_size vctcxo_trim =
     (case bladerf_alloc_image timestamp BLADERF_IMAGE_TYPE_CALIBRATION BLADERF_FLASH_ADDR_CAL BLADERF_FLASH_BYTE_LEN_CAL of
        None \<Rightarrow> None
      | Some img \<Rightarrow>
          (case make_cal_region fpga_size vctcxo_trim (unat (im_length img)) of
             Some (Inr data) \<Rightarrow> Some (img\<lparr>im_data := Some data\<rparr>)
           | _ \<Rightarrow> None))"

section \<open>Writing a file and reading it back\<close>

text \<open>The structures the library itself builds: arrays of their lengths, and data of the length the
  structure names.\<close>

definition image_ok :: "bladerf_image \<Rightarrow> bool" where
  "image_ok img \<longleftrightarrow> length (im_magic img) = 7 \<and> length (im_serial img) = BLADERF_SERIAL_LENGTH \<and>
     (\<exists>data. im_data img = Some data \<and> length data = unat (im_length img))"

lemma sha256_buffer_fips: "sha256_buffer buf = fips_sha256 buf"
  using digest_of_chunks [of _ "[buf]"] by (simp add: sha256_buffer_def)

lemma length_digest [simp]: "length (sha256_buffer buf) = 32"
  by (simp add: sha256_buffer_fips length_fips_sha256)

lemma image_type_of_code [simp]: "image_type_of (image_type_code ty) = ty"
  by (cases ty) (simp_all add: image_type_of_def image_type_code_def)

definition image_bytes :: "bladerf_image \<Rightarrow> bytes \<Rightarrow> bytes \<Rightarrow> bytes" where
  "image_bytes img digest data =
     im_magic img @ digest @ put_be16 (im_major img) @
            put_be16 (im_minor img) @ put_be16 (im_patch img) @ put_be64 (im_timestamp img) @ im_serial img @
            replicate BLADERF_IMAGE_RESERVED_LEN 0 @ put_be32 (image_type_code (im_type img)) @
            put_be32 (im_address img) @ put_be32 (im_length img) @ data"

lemma set_checksum_image:
  assumes "length (im_magic img) = 7" "length d = 32"
  shows "set_checksum (image_bytes img d data) d' = image_bytes img d' data"
  using assms by (simp add: set_checksum_def image_bytes_def)

lemma pack_image_eq:
  assumes "image_ok img" "im_data img = Some data"
  shows "pack_image img = image_bytes img (sha256_buffer (image_bytes img (replicate 32 0) data)) data"
  using assms by (auto simp: image_ok_def pack_image_def Let_def set_checksum_image simp flip: image_bytes_def)

lemma length_image_bytes:
  assumes "image_ok img" "im_data img = Some data" "length d = 32"
  shows "length (image_bytes img d data) = CALC_IMAGE_SIZE (length data)"
  using assms by (auto simp: image_ok_def image_bytes_def CALC_IMAGE_SIZE_def)

lemma length_image_magic: "length image_magic = 7"
  by (simp add: image_magic_def)

lemma unpack_image_bytes:
  assumes "image_ok img" "im_data img = Some data" "length d = 32"
    and "im_magic img = image_magic" "image_type_is_valid (im_type img)"
  shows "unpack_image (image_bytes img d data) = Inr (img\<lparr>im_checksum := d, im_reserved := replicate 128 0\<rparr>)"
proof -
  have l: "length (im_serial img) = BLADERF_SERIAL_LENGTH" "length data = unat (im_length img)"
    using assms(1,2) by (auto simp: image_ok_def)
  have n: "length (image_bytes img d data) = CALC_IMAGE_SIZE (unat (im_length img))"
    using length_image_bytes [OF assms(1-3)] l by simp
  define b where "b = image_bytes img d data"
  note drops = drop_append drop_all take_append take_all l assms(3) length_image_magic assms(4)
  note b = b_def [unfolded image_bytes_def]
  have "take 7 b = image_magic" "take 32 (drop 7 b) = d" "get_be16 (drop 39 b) = im_major img"
    "get_be16 (drop 41 b) = im_minor img" "get_be16 (drop 43 b) = im_patch img"
    "get_be64 (drop 45 b) = im_timestamp img" "take 33 (drop 53 b) = im_serial img"
    "take 128 (drop 86 b) = replicate 128 0" "get_be32 (drop 214 b) = image_type_code (im_type img)"
    "get_be32 (drop 218 b) = im_address img" "get_be32 (drop 222 b) = im_length img" "drop 226 b = data"
    by (simp_all add: b drops)
  then show ?thesis
    using assms(2,4,5) n l unfolding b_def [symmetric]
    by (simp add: unpack_image_def Let_def CALC_IMAGE_SIZE_def)
qed

lemma verify_image_bytes:
  assumes "image_ok img" "im_data img = Some data" "length d = 32"
  shows "verify_checksum (image_bytes img d data) =
    (if data = [] then (BLADERF_ERR_INVAL, image_bytes img d data)
     else if d \<noteq> sha256_buffer (image_bytes img (replicate 32 0) data)
       then (BLADERF_ERR_CHECKSUM, image_bytes img (replicate 32 0) data)
     else (0, image_bytes img d data))"
proof -
  have m: "length (im_magic img) = 7" using assms(1) by (simp add: image_ok_def)
  have t: "take 32 (drop 7 (image_bytes img d data)) = d" using m assms(3) by (simp add: image_bytes_def)
  have "length (image_bytes img d data) \<le> CALC_IMAGE_SIZE 0 \<longleftrightarrow> data = []"
    using length_image_bytes [OF assms] by (simp add: CALC_IMAGE_SIZE_def)
  then show ?thesis
    unfolding verify_checksum_def Let_def t by (simp add: set_checksum_image m assms(3))
qed

definition image_digest :: "bladerf_image \<Rightarrow> bytes \<Rightarrow> bytes" where
  "image_digest img data = fips_sha256 (image_bytes img (replicate 32 0) data)"

lemma read_packed:
  assumes "image_ok img" "im_data img = Some data" "im_magic img = image_magic" "image_type_is_valid (im_type img)"
  shows "verify_checksum (pack_image img) = (if data = [] then BLADERF_ERR_INVAL else 0, pack_image img)"
    "unpack_image (pack_image img) = Inr (img\<lparr>im_checksum := image_digest img data, im_reserved := replicate 128 0\<rparr>)"
  using verify_image_bytes [OF assms(1,2), of "sha256_buffer (image_bytes img (replicate 32 0) data)"]
    unpack_image_bytes [OF assms(1,2) _ assms(3,4)]
  by (simp_all add: pack_image_eq [OF assms(1,2)] image_digest_def sha256_buffer_fips length_fips_sha256)

lemma write_accepts:
  assumes "bladerf_image_write write_file img s = (Inr u, t)"
  shows "im_magic img = image_magic" "image_type_is_valid (im_type img)" "im_data img \<noteq> None"
    "write_file (pack_image img) s = (Inr u, t)"
  using assms by (auto simp: bladerf_image_write_def throwE_def split: if_splits)

section \<open>What an accepted file holds\<close>

lemma image_type_code_of: "image_type_is_valid (image_type_of w) \<Longrightarrow> image_type_code (image_type_of w) = w"
  by (simp add: image_type_of_def image_type_code_def image_type_is_valid_def split: if_splits)

text \<open>Cutting a list at increasing positions.\<close>

lemma cut: "drop k xs = take n (drop k xs) @ drop (k + n) xs"
  using append_take_drop_id [of n "drop k xs"] by (simp add: add.commute)

lemma cut_file:
  "b = take 7 b @ take 32 (drop 7 b) @ take 2 (drop 39 b) @ take 2 (drop 41 b) @ take 2 (drop 43 b) @ take 8 (drop 45 b) @
     take 33 (drop 53 b) @ take 128 (drop 86 b) @ take 4 (drop 214 b) @ take 4 (drop 218 b) @ take 4 (drop 222 b) @ drop 226 b"
  using cut [of 0 b 7] cut [of 7 b 32] cut [of 39 b 2] cut [of 41 b 2] cut [of 43 b 2] cut [of 45 b 8] cut [of 53 b 33]
    cut [of 86 b 128] cut [of 214 b 4] cut [of 218 b 4] cut [of 222 b 4] by simp

lemma unpack_accepts:
  assumes "unpack_image b = Inr img"
  shows "image_ok img" "im_magic img = image_magic" "image_type_is_valid (im_type img)"
    "length (im_checksum img) = 32" "im_checksum img = take 32 (drop 7 b)" "length (im_reserved img) = 128"
    "b = im_magic img @ im_checksum img @ put_be16 (im_major img) @ put_be16 (im_minor img) @ put_be16 (im_patch img) @
       put_be64 (im_timestamp img) @ im_serial img @ im_reserved img @ put_be32 (image_type_code (im_type img)) @
       put_be32 (im_address img) @ put_be32 (im_length img) @ the (im_data img)"
proof -
  let ?e = "Inl BLADERF_ERR_INVAL :: int + bladerf_image"
  let ?img = "\<lparr>im_magic = take 7 b, im_checksum = take 32 (drop 7 b), im_major = get_be16 (drop 39 b),
      im_minor = get_be16 (drop 41 b), im_patch = get_be16 (drop 43 b), im_timestamp = get_be64 (drop 45 b),
      im_serial = take 33 (drop 53 b), im_reserved = take 128 (drop 86 b), im_type = image_type_of (get_be32 (drop 214 b)),
      im_address = get_be32 (drop 218 b), im_length = get_be32 (drop 222 b),
      im_data = Some (take (unat (get_be32 (drop 222 b))) (drop 226 b))\<rparr>"
  have "unpack_image b = (if length b < 226 then ?e else if take 7 b \<noteq> image_magic then ?e
     else if \<not> image_type_is_valid (image_type_of (get_be32 (drop 214 b))) then ?e
     else if length b \<noteq> 226 + unat (get_be32 (drop 222 b)) then ?e else Inr ?img)"
    by (simp add: unpack_image_def Let_def CALC_IMAGE_SIZE_def split del: if_split cong: if_cong)
  with assms have "(if length b < 226 then ?e else if take 7 b \<noteq> image_magic then ?e
     else if \<not> image_type_is_valid (image_type_of (get_be32 (drop 214 b))) then ?e
     else if length b \<noteq> 226 + unat (get_be32 (drop 222 b)) then ?e else Inr ?img) = Inr img" by simp
  then have n: "226 \<le> length b" "take 7 b = image_magic" and v: "image_type_is_valid (image_type_of (get_be32 (drop 214 b)))"
    and l: "length b = 226 + unat (get_be32 (drop 222 b))" and img: "img = ?img"
    by (auto simp only: if_False if_True sum.distinct not_less sum.inject split: if_split_asm)
  show "image_ok img" "im_magic img = image_magic" "image_type_is_valid (im_type img)"
    "length (im_checksum img) = 32" "im_checksum img = take 32 (drop 7 b)" "length (im_reserved img) = 128"
    subgoal
    proof -
      have "length (take 7 b) = 7" "length (take 33 (drop 53 b)) = 33"
        "length (take (unat (get_be32 (drop 222 b))) (drop 226 b)) = unat (get_be32 (drop 222 b))"
        unfolding length_take length_drop using n(1) l by linarith+
      then show ?thesis unfolding img image_ok_def by simp
    qed
    subgoal unfolding img by (simp add: n(2))
    subgoal unfolding img by (simp add: v)
    subgoal using n(1) unfolding img by simp
    subgoal unfolding img by simp
    subgoal using n(1) unfolding img by simp
    done
  have t: "take (unat (get_be32 (drop 222 b))) (drop 226 b) = drop 226 b" by (rule take_all) (simp only: length_drop l)
  show "b = im_magic img @ im_checksum img @ put_be16 (im_major img) @ put_be16 (im_minor img) @ put_be16 (im_patch img) @
       put_be64 (im_timestamp img) @ im_serial img @ im_reserved img @ put_be32 (image_type_code (im_type img)) @
       put_be32 (im_address img) @ put_be32 (im_length img) @ the (im_data img)"
    unfolding img using n(1) by (subst cut_file [of b]) (simp add: t image_type_code_of v)
qed

lemma verify_accepts:
  assumes "verify_checksum b = (rv, c)" "\<not> rv < 0"
  shows "c = b" "take 32 (drop 7 b) = fips_sha256 (set_checksum b (replicate 32 0))" "226 < length b"
proof -
  have v: "226 < length b" "take 32 (drop 7 b) = sha256_buffer (set_checksum b (replicate 32 0))"
    and c: "c = set_checksum (set_checksum b (replicate 32 0)) (take 32 (drop 7 b))"
    using assms by (auto simp: verify_checksum_def Let_def CALC_IMAGE_SIZE_def split: if_splits)
  show "226 < length b" "take 32 (drop 7 b) = fips_sha256 (set_checksum b (replicate 32 0))"
    using v by (simp_all add: sha256_buffer_fips)
  show "c = b" using v(1) append_take_drop_id [of 7 b] append_take_drop_id [of 32 "drop 7 b"]
    by (simp add: c set_checksum_def)
qed

section \<open>Properties\<close>

text \<open>C28: writing an image and reading the file back.  Whenever bladerf_image_write succeeds and the file
  then holds the bytes that were written, bladerf_image_read gives the same image, its checksum being
  the SHA-256 digest of the file with a zero checksum and its reserved part zero; only an image
  without any data, which the writer accepts, is refused by the reader.\<close>

theorem image_write_read:
  assumes "image_ok img" "bladerf_image_write write_file img s = (Inr u, t)"
    and stored: "\<And>b. write_file b s = (Inr u, t) \<Longrightarrow> read_file t = (Inr b, r)"
  shows "bladerf_image_read read_file t =
    (if im_length img = 0 then (Inl BLADERF_ERR_INVAL, r)
     else (Inr (img\<lparr>im_checksum := image_digest img (the (im_data img)), im_reserved := replicate 128 0\<rparr>), r))"
proof -
  note w = write_accepts [OF assms(2)]
  obtain data where d: "im_data img = Some data" "length data = unat (im_length img)"
    using assms(1) by (auto simp: image_ok_def)
  have "data = [] \<longleftrightarrow> im_length img = 0" using d(2) by (metis length_0_conv unat_eq_zero)
  then show ?thesis
    using read_packed [OF assms(1) d(1) w(1,2)] stored [OF w(4)] d
    by (simp add: bladerf_image_read_def bindE_def throwE_def returnE_def)
qed

definition small_image :: bladerf_image where
  "small_image = \<lparr>im_magic = image_magic, im_checksum = [], im_major = 1, im_minor = 2, im_patch = 3, im_timestamp = 4,
     im_serial = replicate 33 0x61, im_reserved = [], im_type = BLADERF_IMAGE_TYPE_FIRMWARE, im_address = 0,
     im_length = 2, im_data = Some [0xAA, 0x55]\<rparr>"

lemma image_write_read_witness:
  "bladerf_image_read (\<lambda>f. (Inr f, f)) (pack_image small_image) =
     (Inr (small_image\<lparr>im_checksum := image_digest small_image [0xAA, 0x55], im_reserved := replicate 128 0\<rparr>),
      pack_image small_image)"
proof -
  have "bladerf_image_write (\<lambda>b f. (Inr (), b)) small_image [] = (Inr (), pack_image small_image)"
    by (simp add: bladerf_image_write_def small_image_def image_type_is_valid_def)
  from image_write_read [OF _ this, of "\<lambda>f. (Inr f, f)" "pack_image small_image"] show ?thesis
    by (simp add: image_ok_def small_image_def length_image_magic)
qed

text \<open>C29: what the reader accepts.  A file that bladerf_image_read takes carries the magic, a valid type and
  as its checksum the SHA-256 digest of its contents with the checksum zeroed; and when its reserved
  part is zero it is byte for byte the file that packing the image yields, so that two such files with
  the same image are equal.\<close>

theorem accepted_file:
  assumes "read_file s = (Inr b, t)" "bladerf_image_read read_file s = (Inr img, u)"
  shows "image_ok img \<and> im_magic img = image_magic \<and> image_type_is_valid (im_type img) \<and>
    im_checksum img = fips_sha256 (take 7 b @ replicate 32 0 @ drop 39 b) \<and> im_length img \<noteq> 0 \<and>
    (im_reserved img = replicate 128 0 \<longrightarrow> b = pack_image img)"
proof -
  obtain rv c where vc: "verify_checksum b = (rv, c)" by fastforce
  with assms have v: "\<not> rv < 0" "unpack_image c = Inr img"
    by (auto simp: bladerf_image_read_def bindE_def throwE_def returnE_def split: if_splits sum.splits)
  note a = verify_accepts [OF vc v(1)]
  note p = unpack_accepts [OF v(2) [unfolded a(1)]]
  obtain data where d: "im_data img = Some data" "length data = unat (im_length img)"
    using p(1) by (auto simp: image_ok_def)
  have b: "b = take 7 b @ im_checksum img @ drop 39 b"
    using append_take_drop_id [of 7 b] append_take_drop_id [of 32 "drop 7 b"] p(5) by simp
  have c: "im_checksum img = fips_sha256 (set_checksum b (replicate 32 0))" using a(2) p(5) by simp
  have "length (im_serial img) = 33" "length (im_magic img) = 7" using p(1) by (simp_all add: image_ok_def)
  then have n: "length b = 226 + length data"
    using arg_cong [OF p(7), of length] p(4,6) a(3) d by simp
  have "b = pack_image img" if "im_reserved img = replicate 128 0"
  proof -
    have i: "b = image_bytes img (im_checksum img) data"
      using p(7) d(1) that by (simp add: image_bytes_def)
    have "set_checksum b (replicate 32 0) = image_bytes img (replicate 32 0) data"
      by (simp add: i set_checksum_image p(4) \<open>length (im_magic img) = 7\<close>)
    then have "sha256_buffer (image_bytes img (replicate 32 0) data) = im_checksum img"
      using c by (simp only: sha256_buffer_fips)
    then show ?thesis unfolding pack_image_eq [OF p(1) d(1)] by (simp only:) (rule i)
  qed
  moreover have "im_length img \<noteq> 0" using n a(3) d(2) by auto
  ultimately show ?thesis using p(1-3) c by (simp add: set_checksum_def)
qed

lemma accepted_file_witness:
  "im_checksum (small_image\<lparr>im_checksum := image_digest small_image [0xAA, 0x55], im_reserved := replicate 128 0\<rparr>) =
   fips_sha256 (take 7 (pack_image small_image) @ replicate 32 0 @ drop 39 (pack_image small_image))"
proof -
  have ok: "image_ok small_image" "im_data small_image = Some [0xAA, 0x55]" "im_magic small_image = image_magic"
    "image_type_is_valid (im_type small_image)"
    by (simp_all add: small_image_def image_ok_def length_image_magic image_type_is_valid_def)
  have "bladerf_image_read (\<lambda>f. (Inr f, f)) (pack_image small_image) =
      (Inr (small_image\<lparr>im_checksum := image_digest small_image [0xAA, 0x55], im_reserved := replicate 128 0\<rparr>),
       pack_image small_image)"
    using read_packed [OF ok] by (simp add: bladerf_image_read_def bindE_def returnE_def)
  from accepted_file [OF refl this] show ?thesis by blast
qed

text \<open>C30: allocation keeps images inside the flash.  An image that bladerf_alloc_image returns for an address
  (the all-ones address stands for none) starts and ends on a page boundary inside the 4 MiB of the
  flash, and the sum that the check computes on 32 bits cannot wrap around it.\<close>

theorem alloc_image_bounds:
  assumes "bladerf_alloc_image ts ty address len = Some img" "address \<noteq> 0xffffffff"
  shows "unat address mod 256 = 0 \<and> unat len mod 256 = 0 \<and> unat address + unat len \<le> 4 * 1024 * 1024 \<and>
    im_address img = address \<and> im_length img = len \<and> (len \<noteq> 0 \<longrightarrow> image_ok img)"
proof -
  have a: "address mod 256 = 0" "len mod 256 = 0" "address < 0x400000" "len \<le> 0x400000" "address + len \<le> 0x400000"
    using assms by (auto simp: bladerf_alloc_image_def is_page_aligned_def is_valid_addr_len_def split: if_splits)
  have "unat address + unat len = unat (address + len)"
    using a(3,4) by (simp add: word_less_nat_alt word_le_nat_alt unat_word_ariths)
  moreover have "unat address mod 256 = 0" "unat len mod 256 = 0"
    using arg_cong [OF a(1), of unat] arg_cong [OF a(2), of unat] by (simp_all add: unat_mod)
  moreover have "im_address img = address" "im_length img = len" "len \<noteq> 0 \<longrightarrow> image_ok img"
    using assms by (auto simp: bladerf_alloc_image_def image_ok_def length_image_magic split: if_splits)
  ultimately show ?thesis using a(5) by (simp add: word_le_nat_alt)
qed

lemma alloc_image_bounds_witness:
  "case bladerf_alloc_image 0 BLADERF_IMAGE_TYPE_FPGA_40KLE 0x40000 0x3c0000 of
     None \<Rightarrow> False | Some img \<Rightarrow> unat (im_address img) + unat (im_length img) \<le> 4 * 1024 * 1024"
proof -
  obtain img where i: "bladerf_alloc_image 0 BLADERF_IMAGE_TYPE_FPGA_40KLE 0x40000 0x3c0000 = Some img"
    by (simp add: bladerf_alloc_image_def is_page_aligned_def is_valid_addr_len_def)
  from alloc_image_bounds [OF this] show ?thesis by (simp add: i)
qed

end
