(* ===== verification/Si5338.thy ===== *)
theory Si5338
  imports Prelude Nios_Pkt
begin

text \<open>
  The driver of the clock generator that makes the sample clocks and the SMB clock
  (host/libraries/libbladeRF/src/si5338.c).  Rates are 64-bit mixed fractions, the divider of an
  output is a + b/c with a power of two after it.  SI5338_READ and SI5338_WRITE, operations of the
  backend, are a record; functions that return through pointers give the values back, also when they
  fail.
\<close>

unbundle bit_operations_syntax

section \<open>Rates\<close>

record bladerf_rational_rate =
  r_integer :: u64
  r_num :: u64
  r_den :: u64

abbreviation (input) SI5338_EN_A :: u8 where "SI5338_EN_A \<equiv> 0x01"
abbreviation (input) SI5338_EN_B :: u8 where "SI5338_EN_B \<equiv> 0x02"
abbreviation (input) SI5338_F_VCO :: u64 where "SI5338_F_VCO \<equiv> 38400000 * 66"
abbreviation (input) BLADERF_SAMPLERATE_MIN :: u64 where "BLADERF_SAMPLERATE_MIN \<equiv> 80000"
abbreviation (input) BLADERF_SMB_FREQUENCY_MAX :: u64 where "BLADERF_SMB_FREQUENCY_MAX \<equiv> 200000000"
abbreviation (input) BLADERF_SMB_FREQUENCY_MIN :: u64 where "BLADERF_SMB_FREQUENCY_MIN \<equiv> (38400000 * 66) div (32 * 567)"

function si5338_gcd :: "u64 \<Rightarrow> u64 \<Rightarrow> u64" where
  "si5338_gcd a b = (if b \<noteq> 0 then si5338_gcd b (a mod b) else a)"
  by auto
termination
  by (relation "measure (\<lambda>(a, b). unat b)")
    (auto simp: unat_mod unat_gt_0)

declare si5338_gcd.simps [simp del]

definition si5338_rational_reduce :: "bladerf_rational_rate \<Rightarrow> bladerf_rational_rate" where
  "si5338_rational_reduce r =
     (let r = (if r_den r > 0 \<and> r_num r \<ge> r_den r
               then let whole = r_num r div r_den r
                    in r\<lparr>r_integer := r_integer r + whole, r_num := r_num r - whole * r_den r\<rparr>
               else r);
          val = si5338_gcd (r_num r) (r_den r)
      in if sint val > 0 then r\<lparr>r_num := r_num r div val, r_den := r_den r div val\<rparr> else r)"

definition si5338_rational_double :: "bladerf_rational_rate \<Rightarrow> bladerf_rational_rate" where
  "si5338_rational_double r =
     si5338_rational_reduce (r\<lparr>r_integer := r_integer r * 2, r_num := r_num r * 2\<rparr>)"

section \<open>The registers of a multisynth\<close>

record si5338_multisynth =
  ms_index :: u8
  ms_base :: u16
  ms_enable :: u8
  ms_a :: u32
  ms_b :: u32
  ms_c :: u32
  ms_r :: u32
  ms_p1 :: u32
  ms_p2 :: u32
  ms_p3 :: u32
  ms_regs :: bytes

text \<open>The structure is a local variable: what its fields hold before they are set does not matter.\<close>

definition ms_blank :: si5338_multisynth where
  "ms_blank = \<lparr>ms_index = 0, ms_base = 0, ms_enable = 0, ms_a = 0, ms_b = 0, ms_c = 0, ms_r = 0,
     ms_p1 = 0, ms_p2 = 0, ms_p3 = 0, ms_regs = replicate 10 0\<rparr>"

definition si5338_update_base :: "si5338_multisynth \<Rightarrow> si5338_multisynth" where
  "si5338_update_base ms = ms\<lparr>ms_base := 53 + ucast (ms_index ms) * 11\<rparr>"

definition si5338_unpack_regs :: "si5338_multisynth \<Rightarrow> si5338_multisynth" where
  "si5338_unpack_regs ms =
     (let reg = (\<lambda>i. ucast (ms_regs ms ! i) :: u32);
          p1 = push_bit 16 (reg 2 AND 3) OR push_bit 8 (reg 1) OR reg 0;
          p2 = push_bit 22 (reg 5) OR push_bit 14 (reg 4) OR push_bit 6 (reg 3) OR (drop_bit 2 (reg 2) AND 0x3f);
          p3 = push_bit 24 (reg 9 AND 0x3f) OR push_bit 16 (reg 8) OR push_bit 8 (reg 7) OR reg 6;
          c = p3;
          a = (p1 + 512) div 128;
          temp = ucast (p1 + 512) - 128 * ucast a :: u64;
          temp = temp * ucast c + ucast p2;
          temp = (temp + 64) div 128
      in ms\<lparr>ms_p1 := p1, ms_p2 := p2, ms_p3 := p3, ms_c := c, ms_a := a, ms_b := ucast temp\<rparr>)"

definition si5338_pack_regs :: "si5338_multisynth \<Rightarrow> si5338_multisynth" where
  "si5338_pack_regs ms =
     (let temp = ucast (ms_a ms) * ucast (ms_c ms) + ucast (ms_b ms) :: u64;
          temp = temp * 128;
          temp = temp div ucast (ms_c ms) - 512;
          p1 = ucast temp :: u32;
          temp = ucast (ms_b ms) * 128 :: u64;
          temp = temp mod ucast (ms_c ms);
          p2 = ucast temp :: u32;
          p3 = ms_c ms
      in ms\<lparr>ms_p1 := p1, ms_p2 := p2, ms_p3 := p3,
        ms_regs := [ucast (p1 AND 0xff), ucast (drop_bit 8 p1 AND 0xff),
          ucast (push_bit 2 (p2 AND 0x3f) OR (drop_bit 16 p1 AND 3)), ucast (drop_bit 6 p2 AND 0xff),
          ucast (drop_bit 14 p2 AND 0xff), ucast (drop_bit 22 p2 AND 0xff), ucast (p3 AND 0xff),
          ucast (drop_bit 8 p3 AND 0xff), ucast (drop_bit 16 p3 AND 0xff), ucast (drop_bit 24 p3 AND 0xff)]\<rparr>)"

section \<open>Access to the part\<close>

record 's si_dev =
  si_read :: "u8 \<Rightarrow> 's \<Rightarrow> (int \<times> u8) \<times> 's"
  si_write :: "u8 \<Rightarrow> u8 \<Rightarrow> 's \<Rightarrow> int \<times> 's"

text \<open>"status = SI5338_READ(...); if (status < 0) return status;" and the same for a write.\<close>

definition SI5338_READ :: "'s si_dev \<Rightarrow> u8 \<Rightarrow> ('s, u8) io" where
  "SI5338_READ dev addr s =
     (case si_read dev addr s of ((status, val), t) \<Rightarrow> (if status < 0 then (Inl status, t) else (Inr val, t)))"

definition SI5338_WRITE :: "'s si_dev \<Rightarrow> u8 \<Rightarrow> u8 \<Rightarrow> ('s, unit) io" where
  "SI5338_WRITE dev addr data s =
     (case si_write dev addr data s of (status, t) \<Rightarrow> (if status < 0 then (Inl status, t) else (Inr (), t)))"

fun write_regs :: "'s si_dev \<Rightarrow> u16 \<Rightarrow> bytes \<Rightarrow> ('s, unit) io" where
  "write_regs dev addr [] = returnE ()"
| "write_regs dev addr (d # ds) = bindE (SI5338_WRITE dev (ucast addr) d) (\<lambda>_. write_regs dev (addr + 1) ds)"

fun read_regs :: "'s si_dev \<Rightarrow> u16 \<Rightarrow> nat \<Rightarrow> ('s, bytes) io" where
  "read_regs dev addr 0 = returnE []"
| "read_regs dev addr (Suc n) =
     bindE (SI5338_READ dev (ucast addr)) (\<lambda>d. bindE (read_regs dev (addr + 1) n) (\<lambda>ds. returnE (d # ds)))"

text \<open>The number of times r_count can be halved before it is zero.\<close>

function r_power_of :: "u8 \<Rightarrow> u8" where
  "r_power_of r_count = (if r_count > 0 then r_power_of (drop_bit 1 r_count) + 1 else 0)"
  by auto
termination
  by (relation "measure unat") (auto simp: drop_bit_eq_div unat_div word_gt_0 unat_gt_0)

declare r_power_of.simps [simp del]

definition si5338_write_multisynth :: "'s si_dev \<Rightarrow> si5338_multisynth \<Rightarrow> 's \<Rightarrow> int \<times> 's" where
  "si5338_write_multisynth dev ms s =
     (case bindE (SI5338_READ dev (36 + ms_index ms)) (\<lambda>val.
           bindE (SI5338_WRITE dev (36 + ms_index ms) (val OR ms_enable ms)) (\<lambda>_.
           write_regs dev (ms_base ms) (ms_regs ms))) s of
        (Inl status, t) \<Rightarrow> (status, t)
      | (Inr _, t) \<Rightarrow>
          si_write dev (31 + ms_index ms) (0xc0 OR push_bit 2 (r_power_of (ucast (drop_bit 1 (ms_r ms))))) t)"

definition si5338_read_multisynth :: "'s si_dev \<Rightarrow> si5338_multisynth \<Rightarrow> ('s, si5338_multisynth) io" where
  "si5338_read_multisynth dev ms =
     bindE (SI5338_READ dev (36 + ms_index ms)) (\<lambda>val.
     bindE (read_regs dev (ms_base ms) 10) (\<lambda>regs.
     bindE (SI5338_READ dev (31 + ms_index ms)) (\<lambda>rval.
     returnE (si5338_unpack_regs (ms\<lparr>ms_enable := val AND 7, ms_regs := regs,
       ms_r := push_bit (unat (drop_bit 2 rval AND 7)) 1\<rparr>)))))"

section \<open>From a rate to the divider and back\<close>

definition si5338_calculate_ms_freq :: "si5338_multisynth \<Rightarrow> bladerf_rational_rate" where
  "si5338_calculate_ms_freq ms =
     (let den = ucast (ms_r ms) * (ucast (ms_a ms) * ucast (ms_c ms) + ucast (ms_b ms))
      in si5338_rational_reduce \<lparr>r_integer = 0, r_num = SI5338_F_VCO * ucast (ms_c ms),
           r_den = (if ms_index ms = 1 \<or> ms_index ms = 2 then den * 2 else den)\<rparr>)"

text \<open>r_value is kept as \<open>2 ^ r_power\<close>.\<close>

function find_r :: "bladerf_rational_rate \<Rightarrow> nat \<Rightarrow> bladerf_rational_rate \<times> nat" where
  "find_r req r_power =
     (if r_integer req < 5000000 \<and> (2::nat) ^ r_power < 32
      then find_r (si5338_rational_double req) (r_power + 1) else (req, r_power))"
  by auto
termination
proof (relation "measure (\<lambda>(_, r_power). 5 - r_power)")
  fix req :: bladerf_rational_rate and r_power :: nat
  assume "r_integer req < 5000000 \<and> (2::nat) ^ r_power < 32"
  then have "(2::nat) ^ r_power < 2 ^ 5" by simp
  then have "r_power < 5" using power_less_imp_less_exp [of "2::nat" r_power 5] by simp
  then show "((si5338_rational_double req, r_power + 1), req, r_power) \<in> measure (\<lambda>(_, r_power). 5 - r_power)" by simp
qed simp

declare find_r.simps [simp del]

function lose_precision :: "u64 \<Rightarrow> u64 \<Rightarrow> u64 \<times> u64" where
  "lose_precision num den =
     (if num > push_bit 30 1 \<or> den > push_bit 30 1 then lose_precision (drop_bit 1 num) (drop_bit 1 den) else (num, den))"
  by auto
termination
proof (relation "measure (\<lambda>(num, den). unat num + unat den)")
  fix num den :: u64
  assume "num > push_bit 30 1 \<or> den > push_bit 30 1"
  then have "0 < unat num \<or> 0 < unat den" by (auto simp: unat_gt_0)
  then have "unat num div 2 + unat den div 2 < unat num + unat den" by linarith
  then show "((drop_bit 1 num, drop_bit 1 den), num, den) \<in> measure (\<lambda>(num, den). unat num + unat den)"
    by (simp add: drop_bit_eq_div unat_div)
qed simp

declare lose_precision.simps [simp del]

definition si5338_calculate_multisynth ::
  "si5338_multisynth \<Rightarrow> bladerf_rational_rate \<Rightarrow> int + si5338_multisynth" where
  "si5338_calculate_multisynth ms rate =
     (let req = (if ms_index ms = 1 \<or> ms_index ms = 2 then si5338_rational_double rate else rate);
          (req, r_power) = find_r req 0;
          r_value = (2::nat) ^ r_power
      in if r_value = 32 \<and> r_integer req < 5000000 then Inl BLADERF_ERR_INVAL
         else
           let abc = si5338_rational_reduce \<lparr>r_integer = 0, r_num = SI5338_F_VCO * r_den req,
                 r_den = r_integer req * r_den req + r_num req\<rparr>
           in if r_integer abc \<in> {0, 1, 2, 3, 5, 7} \<or> r_integer abc > 567 then Inl BLADERF_ERR_INVAL
              else
                let (num, den) = lose_precision (r_num abc) (r_den abc)
                in Inr (si5338_pack_regs (ms\<lparr>ms_a := ucast (r_integer abc), ms_b := ucast num,
                     ms_c := ucast den, ms_r := of_nat r_value\<rparr>)))"

section \<open>Setting and reading rates\<close>

text \<open>The functions give back the status, the caller's rate, which they reduce in place, and what is
  in the caller's variable for the actual rate.\<close>

definition si5338_set_rational_multisynth ::
  "'s si_dev \<Rightarrow> u8 \<Rightarrow> u8 \<Rightarrow> bladerf_rational_rate \<Rightarrow> bladerf_rational_rate \<Rightarrow> 's \<Rightarrow>
    (int \<times> bladerf_rational_rate \<times> bladerf_rational_rate) \<times> 's" where
  "si5338_set_rational_multisynth dev index channel rate actual_ret s =
     (let rate = si5338_rational_reduce rate;
          ms = si5338_update_base (ms_blank\<lparr>ms_index := index, ms_enable := channel\<rparr>)
      in case si5338_calculate_multisynth ms rate of
           Inl status \<Rightarrow> ((status, rate, actual_ret), s)
         | Inr ms \<Rightarrow>
             let actual = si5338_calculate_ms_freq ms
             in case si5338_write_multisynth dev ms s of (status, t) \<Rightarrow> ((status, rate, actual), t))"

definition si5338_set_rational_sample_rate ::
  "'s si_dev \<Rightarrow> bladerf_module \<Rightarrow> bladerf_rational_rate \<Rightarrow> bladerf_rational_rate \<Rightarrow> 's \<Rightarrow>
    (int \<times> bladerf_rational_rate \<times> bladerf_rational_rate) \<times> 's" where
  "si5338_set_rational_sample_rate dev module rate actual s =
     (let index = (if module = BLADERF_MODULE_RX then 1 else 2);
          rate = si5338_rational_reduce rate
      in if r_integer rate < BLADERF_SAMPLERATE_MIN then ((BLADERF_ERR_INVAL, rate, actual), s)
         else
           let channel = (if module = BLADERF_MODULE_TX then SI5338_EN_A OR SI5338_EN_B else SI5338_EN_A)
           in si5338_set_rational_multisynth dev index channel rate actual s)"

definition si5338_set_rational_smb_freq ::
  "'s si_dev \<Rightarrow> bladerf_rational_rate \<Rightarrow> bladerf_rational_rate \<Rightarrow> 's \<Rightarrow>
    (int \<times> bladerf_rational_rate \<times> bladerf_rational_rate) \<times> 's" where
  "si5338_set_rational_smb_freq dev rate actual s =
     (let rate = si5338_rational_reduce rate
      in if r_integer rate < BLADERF_SMB_FREQUENCY_MIN then ((BLADERF_ERR_INVAL, rate, actual), s)
         else if r_integer rate > BLADERF_SMB_FREQUENCY_MAX then ((BLADERF_ERR_INVAL, rate, actual), s)
         else si5338_set_rational_multisynth dev 3 SI5338_EN_A rate actual s)"

definition zero_rate :: bladerf_rational_rate where
  "zero_rate = \<lparr>r_integer = 0, r_num = 0, r_den = 0\<rparr>"

definition si5338_set_sample_rate :: "'s si_dev \<Rightarrow> bladerf_module \<Rightarrow> u32 \<Rightarrow> 's \<Rightarrow> (int \<times> u32) \<times> 's" where
  "si5338_set_sample_rate dev module rate s =
     (let req = \<lparr>r_integer = ucast rate, r_num = 0, r_den = 1\<rparr>
      in case si5338_set_rational_sample_rate dev module req zero_rate s of
           ((status, _, act), t) \<Rightarrow> ((status, ucast (r_integer act)), t))"

definition si5338_set_smb_freq :: "'s si_dev \<Rightarrow> u32 \<Rightarrow> 's \<Rightarrow> (int \<times> u32) \<times> 's" where
  "si5338_set_smb_freq dev rate s =
     (let req = \<lparr>r_integer = ucast rate, r_num = 0, r_den = 1\<rparr>
      in case si5338_set_rational_smb_freq dev req zero_rate s of
           ((status, _, act), t) \<Rightarrow> ((status, ucast (r_integer act)), t))"

definition si5338_get_rational_sample_rate :: "'s si_dev \<Rightarrow> bladerf_module \<Rightarrow> ('s, bladerf_rational_rate) io" where
  "si5338_get_rational_sample_rate dev module =
     bindE (si5338_read_multisynth dev
         (si5338_update_base (ms_blank\<lparr>ms_index := (if module = BLADERF_MODULE_RX then 1 else 2)\<rparr>)))
       (\<lambda>ms. returnE (si5338_calculate_ms_freq ms))"

definition si5338_get_rational_smb_freq :: "'s si_dev \<Rightarrow> ('s, bladerf_rational_rate) io" where
  "si5338_get_rational_smb_freq dev =
     bindE (si5338_read_multisynth dev (si5338_update_base (ms_blank\<lparr>ms_index := 3\<rparr>)))
       (\<lambda>ms. returnE (si5338_calculate_ms_freq ms))"

definition si5338_get_sample_rate :: "'s si_dev \<Rightarrow> bladerf_module \<Rightarrow> ('s, u32) io" where
  "si5338_get_sample_rate dev module =
     bindE (si5338_get_rational_sample_rate dev module) (\<lambda>actual. returnE (ucast (r_integer actual)))"

definition si5338_get_smb_freq :: "'s si_dev \<Rightarrow> ('s, u32) io" where
  "si5338_get_smb_freq dev =
     bindE (si5338_get_rational_smb_freq dev) (\<lambda>actual. returnE (ucast (r_integer actual)))"

section \<open>The arithmetic\<close>

lemma unat_gcd: "unat (si5338_gcd a b) = gcd (unat a) (unat b)"
proof (induction a b rule: si5338_gcd.induct)
  case (1 a b)
  then show ?case
    by (subst si5338_gcd.simps) (auto simp: unat_mod gcd_red_nat [symmetric] gcd.commute)
qed

lemma sint_u64_pos: "unat (x :: u64) < 2 ^ 63 \<Longrightarrow> sint x > 0 \<longleftrightarrow> 0 < unat x"
proof -
  assume a: "unat x < 2 ^ 63"
  have "int (unat x) < int (2 ^ 63)" using a by (simp only: of_nat_less_iff)
  then have "uint x < 2 ^ 63" by simp
  moreover have "- (2 ^ 63) \<le> uint x" by (rule order_trans [OF _ uint_ge_0]) simp
  ultimately have "sint x = int (unat x)" by (subst sint_uint, subst signed_take_bit_int_eq_self) simp_all
  then show ?thesis by (simp only: of_nat_0_less_iff)
qed

text \<open>Reducing keeps the value of a mixed fraction.\<close>

lemma reduce_fields:
  fixes r :: bladerf_rational_rate
  assumes f: "unat (r_den r) = d" "unat (r_num r) = n" "unat (r_integer r) = i"
    and d: "0 < d" "i + n div d < 2 ^ 64" "d < 2 ^ 63"
  defines "g \<equiv> gcd (n mod d) d"
  shows "unat (r_integer (si5338_rational_reduce r)) = i + n div d"
    "unat (r_num (si5338_rational_reduce r)) = n mod d div g"
    "unat (r_den (si5338_rational_reduce r)) = d div g"
proof -
  define q where "q = (if r_den r > 0 \<and> r_num r \<ge> r_den r
               then let whole = r_num r div r_den r
                    in r\<lparr>r_integer := r_integer r + whole, r_num := r_num r - whole * r_den r\<rparr>
               else r)"
  have w: "unat (r_num r div r_den r) = n div d" using f by (simp add: unat_div)
  have m: "r_num r - r_num r div r_den r * r_den r = r_num r mod r_den r"
    by (simp add: minus_div_mult_eq_mod)
  have p: "r_den r > 0" using f(1) d(1) by (auto simp: word_gt_0)
  have q: "unat (r_integer q) = i + n div d \<and> unat (r_num q) = n mod d \<and> unat (r_den q) = d"
  proof (cases "r_num r \<ge> r_den r")
    case True
    have "unat (r_integer r + r_num r div r_den r) = i + n div d"
      using d(2) f(3) w by (simp add: unat_word_ariths)
    then show ?thesis using True p by (simp add: q_def Let_def m unat_mod f)
  next
    case False
    then have "n < d" using f by (simp add: word_less_nat_alt not_le)
    then show ?thesis using False f by (simp add: q_def)
  qed
  have g: "unat (si5338_gcd (r_num q) (r_den q)) = g" by (simp add: unat_gcd q g_def)
  have "0 < g" "g \<le> d" using d(1) by (simp_all add: g_def gcd_le2_nat)
  then have "sint (si5338_gcd (r_num q) (r_den q)) > 0" using sint_u64_pos [of "si5338_gcd (r_num q) (r_den q)"] g d(3) by simp
  then have "si5338_rational_reduce r =
      q\<lparr>r_num := r_num q div si5338_gcd (r_num q) (r_den q), r_den := r_den q div si5338_gcd (r_num q) (r_den q)\<rparr>"
    by (simp add: si5338_rational_reduce_def q_def [symmetric] Let_def)
  then show "unat (r_integer (si5338_rational_reduce r)) = i + n div d"
    "unat (r_num (si5338_rational_reduce r)) = n mod d div g"
    "unat (r_den (si5338_rational_reduce r)) = d div g"
    using q g by (simp_all add: unat_div)
qed

text \<open>The registers hold p1, p2 and p3 in 18, 30 and 30 bits.\<close>

lemma unpack_packed_fields:
  fixes p1 p2 p3 :: u32
  defines "regs \<equiv> [ucast (p1 AND 0xff), ucast (drop_bit 8 p1 AND 0xff),
          ucast (push_bit 2 (p2 AND 0x3f) OR (drop_bit 16 p1 AND 3)), ucast (drop_bit 6 p2 AND 0xff),
          ucast (drop_bit 14 p2 AND 0xff), ucast (drop_bit 22 p2 AND 0xff), ucast (p3 AND 0xff),
          ucast (drop_bit 8 p3 AND 0xff), ucast (drop_bit 16 p3 AND 0xff), ucast (drop_bit 24 p3 AND 0xff)] :: bytes"
  shows "ms_p1 (si5338_unpack_regs (ms\<lparr>ms_regs := regs\<rparr>)) = take_bit 18 p1"
    "ms_p2 (si5338_unpack_regs (ms\<lparr>ms_regs := regs\<rparr>)) = take_bit 30 p2"
    "ms_p3 (si5338_unpack_regs (ms\<lparr>ms_regs := regs\<rparr>)) = take_bit 30 p3"
  by (simp_all add: si5338_unpack_regs_def Let_def regs_def word32_eq_iff bit_simps)

lemma unpack_from_p:
  "ms_c (si5338_unpack_regs ms) = ms_p3 (si5338_unpack_regs ms)"
  "ms_a (si5338_unpack_regs ms) = (ms_p1 (si5338_unpack_regs ms) + 512) div 128"
  "ms_b (si5338_unpack_regs ms) =
     ucast (((ucast (ms_p1 (si5338_unpack_regs ms) + 512) - 128 * ucast (ms_a (si5338_unpack_regs ms))) *
       ucast (ms_c (si5338_unpack_regs ms)) + ucast (ms_p2 (si5338_unpack_regs ms)) + 64) div 128 :: u64)"
  "ms_r (si5338_unpack_regs ms) = ms_r ms" "ms_index (si5338_unpack_regs ms) = ms_index ms"
  by (simp_all add: si5338_unpack_regs_def Let_def)

text \<open>The numbers behind p1 and p2.\<close>

lemma divider_numbers:
  fixes A B C :: nat
  assumes "0 < C" "B \<le> C"
  defines "q \<equiv> 128 * B div C"
  shows "(A * C + B) * 128 div C = 128 * A + q" "q \<le> 128"
    "(q mod 128 * C + 128 * B mod C + 64) div 128 = (if B = C then 0 else B)"
    "(128 * A + q) div 128 = (if B = C then A + 1 else A)"
proof -
  show "(A * C + B) * 128 div C = 128 * A + q"
  proof -
    have "(A * C + B) * 128 = 128 * B + C * (128 * A)" by (simp add: algebra_simps)
    then show ?thesis using assms(1) by (simp only: div_mult_self2 q_def)
  qed
  show q: "q \<le> 128" using assms(1,2) by (simp add: q_def div_le_mono less_Suc_eq_le [symmetric] div_less_iff_less_mult)
  have c: "q * C + 128 * B mod C = 128 * B" by (simp add: q_def)
  show "(q mod 128 * C + 128 * B mod C + 64) div 128 = (if B = C then 0 else B)"
  proof (cases "B = C")
    case True
    then have "q = 128" using assms(1) by (simp add: q_def)
    then show ?thesis using True assms(1) by simp
  next
    case False
    then have "q < 128" using assms(1,2) by (simp add: q_def div_less_iff_less_mult)
    then show ?thesis using c False by simp
  qed
  show "(128 * A + q) div 128 = (if B = C then A + 1 else A)"
  proof (cases "B = C")
    case True
    then show ?thesis using assms(1) by (simp add: q_def)
  next
    case False
    then have "q < 128" using assms(1,2) by (simp add: q_def div_less_iff_less_mult)
    then show ?thesis using False by simp
  qed
qed

lemma unat_mult_64: "unat x * unat y < 2 ^ 64 \<Longrightarrow> unat (x * y :: u64) = unat x * unat y"
  by (simp add: unat_word_ariths)

lemma unat_plus_64: "unat x + unat y < 2 ^ 64 \<Longrightarrow> unat (x + y :: u64) = unat x + unat y"
  by (simp add: unat_word_ariths)

lemma pack_numbers:
  assumes n: "unat (ms_a ms) = A" "unat (ms_b ms) = B" "unat (ms_c ms) = C"
    and b: "4 \<le> A" "A \<le> 567" "0 < C" "B \<le> C" "C \<le> 2 ^ 30"
  shows "unat (ms_p1 (si5338_pack_regs ms)) = 128 * A + 128 * B div C - 512"
    "unat (ms_p2 (si5338_pack_regs ms)) = 128 * B mod C"
    "ms_p3 (si5338_pack_regs ms) = ms_c ms"
proof -
  let ?a = "ucast (ms_a ms) :: u64" and ?b = "ucast (ms_b ms) :: u64" and ?c = "ucast (ms_c ms) :: u64"
  have u: "unat ?a = A" "unat ?b = B" "unat ?c = C" using n by (simp_all add: unat_ucast_up)
  have ac: "A * C \<le> 567 * 2 ^ 30" using b by (intro mult_le_mono) simp_all
  have 1: "unat (?a * ?c + ?b) = A * C + B"
    using ac b u by (subst unat_plus_64; subst unat_mult_64) simp_all
  have 2: "unat ((?a * ?c + ?b) * 128) = (A * C + B) * 128"
    using ac b 1 by (subst unat_mult_64) simp_all
  note dn = divider_numbers(1) [OF b(3,4), of A] divider_numbers(2) [OF b(3,4)]
  have 3: "unat ((?a * ?c + ?b) * 128 div ?c) = 128 * A + 128 * B div C"
    using 2 u dn(1) by (simp add: unat_div)
  have 4: "unat ((?a * ?c + ?b) * 128 div ?c - 512) = 128 * A + 128 * B div C - 512"
    using 3 b(1) by (subst unat_sub) (simp_all add: word_le_nat_alt)
  have "128 * A + 128 * B div C - 512 < 2 ^ 32" using dn(2) b(2) by simp
  then show "unat (ms_p1 (si5338_pack_regs ms)) = 128 * A + 128 * B div C - 512"
    using 4 by (simp add: si5338_pack_regs_def Let_def unsigned_ucast_eq take_bit_nat_eq_self)
  have 5: "unat (?b * 128) = B * 128" using b u by (subst unat_mult_64) simp_all
  have "128 * B mod C < C" using b(3) by simp
  then have "128 * B mod C < 2 ^ 32" using b(5) by simp
  then show "unat (ms_p2 (si5338_pack_regs ms)) = 128 * B mod C"
    using 5 u by (simp add: si5338_pack_regs_def Let_def unsigned_ucast_eq take_bit_nat_eq_self unat_mod mult.commute)
  show "ms_p3 (si5338_pack_regs ms) = ms_c ms" by (simp add: si5338_pack_regs_def Let_def)
qed

text \<open>Reading the registers back gives the same divider, its fraction reduced to less than one.\<close>

lemma unpack_pack:
  fixes m0 ms :: si5338_multisynth
  assumes n: "unat (ms_a ms) = A" "unat (ms_b ms) = B" "unat (ms_c ms) = C"
    and b: "4 \<le> A" "A \<le> 567" "0 < C" "B \<le> C" "C < 2 ^ 30"
  defines "ms' \<equiv> si5338_unpack_regs (m0\<lparr>ms_regs := ms_regs (si5338_pack_regs ms)\<rparr>)"
  shows "unat (ms_a ms') = (if B = C then A + 1 else A)" "unat (ms_b ms') = (if B = C then 0 else B)"
    "unat (ms_c ms') = C" "ms_r ms' = ms_r m0" "ms_index ms' = ms_index m0"
proof -
  let ?q = "128 * B div C"
  note p = pack_numbers [OF n b(1-4) less_imp_le [OF b(5)]]
  note dn = divider_numbers(2) [OF b(3,4)] divider_numbers(3) [OF b(3,4)] divider_numbers(4) [OF b(3,4), of A]
  define p1 p2 p3 where "p1 = ms_p1 (si5338_pack_regs ms)" and "p2 = ms_p2 (si5338_pack_regs ms)"
    and "p3 = ms_p3 (si5338_pack_regs ms)"
  have regs: "ms_regs (si5338_pack_regs ms) = [ucast (p1 AND 0xff), ucast (drop_bit 8 p1 AND 0xff),
          ucast (push_bit 2 (p2 AND 0x3f) OR (drop_bit 16 p1 AND 3)), ucast (drop_bit 6 p2 AND 0xff),
          ucast (drop_bit 14 p2 AND 0xff), ucast (drop_bit 22 p2 AND 0xff), ucast (p3 AND 0xff),
          ucast (drop_bit 8 p3 AND 0xff), ucast (drop_bit 16 p3 AND 0xff), ucast (drop_bit 24 p3 AND 0xff)]"
    by (simp add: p1_def p2_def p3_def si5338_pack_regs_def Let_def)
  have m: "128 * B mod C < C" using b(3) by simp
  have "unat p1 < 2 ^ 18" "unat p2 < 2 ^ 30" "unat p3 < 2 ^ 30"
    using p dn(1) b m n(3) by (simp_all add: p1_def p2_def p3_def)
  then have t: "take_bit 18 p1 = p1" "take_bit 30 p2 = p2" "take_bit 30 p3 = p3"
    by (simp_all add: word_unat_eq_iff unsigned_take_bit_eq take_bit_nat_eq_self)
  have f: "ms_p1 ms' = p1" "ms_p2 ms' = p2" "ms_p3 ms' = p3"
    unfolding ms'_def regs unpack_packed_fields t by (rule refl)+
  note u = unpack_from_p [of "m0\<lparr>ms_regs := ms_regs (si5338_pack_regs ms)\<rparr>", folded ms'_def, unfolded f]
  show c: "unat (ms_c ms') = C" using u(1) p(3) n(3) by (simp add: p3_def)
  have p1: "unat (p1 + 512) = 128 * A + ?q"
    using p(1) dn(1) b(1,2) by (subst unat_add_lem [THEN iffD1]) (simp_all add: p1_def)
  show a: "unat (ms_a ms') = (if B = C then A + 1 else A)"
    using u(2) p1 dn(3) by (simp add: unat_div)
  have a': "unat (ms_a ms') = (128 * A + ?q) div 128" using a dn(3) by simp
  have "128 * unat (ms_a ms') \<le> 128 * A + ?q" unfolding a' by simp
  moreover have x: "unat (128 * ucast (ms_a ms') :: u64) = 128 * unat (ms_a ms')"
    using a b(2) by (subst unat_mult_64) (simp_all add: unat_ucast_up)
  ultimately have t: "unat (ucast (p1 + 512) - 128 * ucast (ms_a ms') :: u64) = ?q mod 128"
    using p1 a' by (subst unat_sub) (simp_all add: word_le_nat_alt unat_ucast_up modulo_nat_def)
  let ?t = "ucast (p1 + 512) - 128 * ucast (ms_a ms') :: u64" and ?c = "ucast (ms_c ms') :: u64"
    and ?p2 = "ucast p2 :: u64"
  have l: "?q mod 128 * C \<le> 127 * 2 ^ 30" using b(5) by (intro mult_le_mono) (simp_all add: less_Suc_eq_le [symmetric])
  have 1: "unat (?t * ?c) = ?q mod 128 * C"
    using t c l by (subst unat_mult_64) (simp_all add: unat_ucast_up)
  have p2: "unat ?p2 = 128 * B mod C" using p(2) by (simp add: p2_def unat_ucast_up)
  have 2: "unat (?t * ?c + ?p2) = ?q mod 128 * C + 128 * B mod C"
    using 1 p2 l m b(5) by (subst unat_plus_64) simp_all
  have 3: "unat (?t * ?c + ?p2 + 64) = ?q mod 128 * C + 128 * B mod C + 64"
    using 2 l m b(5) by (subst unat_plus_64) simp_all
  have 4: "unat ((?t * ?c + ?p2 + 64) div 128) = (if B = C then 0 else B)"
    using 3 dn(2) by (simp add: unat_div)
  have "(if B = C then 0 else B) < 2 ^ 32" using b by simp
  then show "unat (ms_b ms') = (if B = C then 0 else B)"
    unfolding u(3) using 4 by (simp add: unsigned_ucast_eq take_bit_nat_eq_self)
  show "ms_r ms' = ms_r m0" "ms_index ms' = ms_index m0" using u(4,5) by simp_all
qed

section \<open>The part as a register file\<close>

text \<open>What the driver relies on: on a good state every access succeeds, a read gives the register and
  changes none, and a write changes one register.\<close>

definition clock_chip :: "'s si_dev \<Rightarrow> ('s \<Rightarrow> u8 \<Rightarrow> u8) \<Rightarrow> ('s \<Rightarrow> bool) \<Rightarrow> bool" where
  "clock_chip dev reg ok \<longleftrightarrow> (\<forall>s a. ok s \<longrightarrow>
     (\<exists>t. si_read dev a s = ((0, reg s a), t) \<and> ok t \<and> reg t = reg s) \<and>
     (\<forall>d. \<exists>t. si_write dev a d s = (0, t) \<and> ok t \<and> reg t = (reg s)(a := d)))"

lemma chip_read:
  assumes "clock_chip dev reg ok" "ok s"
  obtains t where "SI5338_READ dev a s = (Inr (reg s a), t)" "ok t" "reg t = reg s"
proof -
  obtain t where t: "si_read dev a s = ((0, reg s a), t)" "ok t" "reg t = reg s"
    using assms unfolding clock_chip_def by blast
  show ?thesis by (rule that [of t]) (simp_all add: SI5338_READ_def t)
qed

lemma chip_write:
  assumes "clock_chip dev reg ok" "ok s"
  obtains t where "SI5338_WRITE dev a d s = (Inr (), t)" "si_write dev a d s = (0, t)" "ok t" "reg t = (reg s)(a := d)"
proof -
  obtain t where t: "si_write dev a d s = (0, t)" "ok t" "reg t = (reg s)(a := d)"
    using assms unfolding clock_chip_def by blast
  show ?thesis by (rule that [of t]) (simp_all add: SI5338_WRITE_def t)
qed

definition put_regs :: "u16 \<Rightarrow> bytes \<Rightarrow> (u8 \<Rightarrow> u8) \<Rightarrow> u8 \<Rightarrow> u8" where
  "put_regs addr ds r a = (if unat (a - ucast addr) < length ds then ds ! unat (a - ucast addr) else r a)"

lemma ucast_inc: "ucast (addr + 1) = (ucast addr + 1 :: u8)" for addr :: u16
  by (simp add: word_unat_eq_iff unsigned_ucast_eq take_bit_eq_mod unat_word_ariths mod_simps mod_mod_cancel)

lemma put_regs_Cons:
  assumes "length ds < 255"
  shows "put_regs (addr + 1) ds (r(ucast addr := d)) = put_regs addr (d # ds) r"
proof
  fix a :: u8
  define k where "k = a - ucast addr"
  have c: "a - ucast (addr + 1) = k - 1"
    by (simp add: k_def ucast_inc)
  show "put_regs (addr + 1) ds (r(ucast addr := d)) a = put_regs addr (d # ds) r a"
  proof (cases "k = 0")
    case True
    then have "a = ucast addr" by (simp add: k_def)
    moreover have "unat (- 1 :: u8) = 255" by (simp add: unsigned_minus_1_eq_mask mask_eq_exp_minus_1)
    ultimately show ?thesis using True assms unfolding put_regs_def c k_def [symmetric] by simp
  next
    case False
    then have "a \<noteq> ucast addr" "unat k = Suc (unat (k - 1))"
      using unat_minus_one [OF False] unat_gt_0 [of k] by (auto simp: k_def)
    then show ?thesis unfolding put_regs_def c k_def [symmetric] by simp
  qed
qed

lemma write_regs_chip:
  assumes "clock_chip dev reg ok" "ok s" "length ds \<le> 255"
  obtains t where "write_regs dev addr ds s = (Inr (), t)" "ok t" "reg t = put_regs addr ds (reg s)"
  using assms(2,3)
proof (induction ds arbitrary: addr s thesis)
  case Nil
  then show ?case by (simp add: returnE_def put_regs_def)
next
  case (Cons d ds)
  obtain u where u: "SI5338_WRITE dev (ucast addr) d s = (Inr (), u)" "ok u" "reg u = (reg s)(ucast addr := d)"
    using chip_write [OF assms(1) Cons.prems(2)] by metis
  obtain t where "write_regs dev (addr + 1) ds u = (Inr (), t)" "ok t" "reg t = put_regs (addr + 1) ds (reg u)"
    using Cons.IH [OF _ u(2)] Cons.prems(3) by auto
  then show ?case using Cons.prems(1) u(1,3) put_regs_Cons [of ds addr "reg s" d] Cons.prems(3)
    by (simp add: bindE_def)
qed

lemma read_regs_chip:
  assumes "clock_chip dev reg ok" "ok s"
  obtains t where "read_regs dev addr n s = (Inr (map (\<lambda>i. reg s (ucast addr + of_nat i)) [0..<n]), t)" "ok t" "reg t = reg s"
  using assms(2)
proof (induction n arbitrary: addr s thesis)
  case 0
  then show ?case by (simp add: returnE_def)
next
  case (Suc n)
  obtain u where u: "SI5338_READ dev (ucast addr) s = (Inr (reg s (ucast addr)), u)" "ok u" "reg u = reg s"
    using chip_read [OF assms(1) Suc.prems(2)] by metis
  obtain t where t: "read_regs dev (addr + 1) n u = (Inr (map (\<lambda>i. reg u (ucast (addr + 1) + of_nat i)) [0..<n]), t)" "ok t" "reg t = reg u"
    using Suc.IH [OF _ u(2)] by auto
  show ?case
    apply (rule Suc.prems(1) [of t])
    using u t by (simp_all add: bindE_def returnE_def upt_conv_Cons map_Suc_upt [symmetric] ucast_inc add.assoc del: upt_Suc)
qed

text \<open>The registers of one multisynth after it has been written.\<close>

definition ms_regs_of :: "si5338_multisynth \<Rightarrow> (u8 \<Rightarrow> u8) \<Rightarrow> u8 \<Rightarrow> u8" where
  "ms_regs_of ms r =
     (put_regs (ms_base ms) (ms_regs ms) (r(36 + ms_index ms := r (36 + ms_index ms) OR ms_enable ms)))
       (31 + ms_index ms := 0xc0 OR push_bit 2 (r_power_of (ucast (drop_bit 1 (ms_r ms)))))"

lemma write_multisynth_chip:
  assumes "clock_chip dev reg ok" "ok s" "length (ms_regs ms) \<le> 255"
  obtains t where "si5338_write_multisynth dev ms s = (0, t)" "ok t" "reg t = ms_regs_of ms (reg s)"
proof -
  obtain u where u: "SI5338_READ dev (36 + ms_index ms) s = (Inr (reg s (36 + ms_index ms)), u)" "ok u" "reg u = reg s"
    using chip_read [OF assms(1,2)] by metis
  obtain v where v: "SI5338_WRITE dev (36 + ms_index ms) (reg s (36 + ms_index ms) OR ms_enable ms) u = (Inr (), v)" "ok v"
      "reg v = (reg s)(36 + ms_index ms := reg s (36 + ms_index ms) OR ms_enable ms)"
    using chip_write [OF assms(1) u(2)] u(3) by metis
  obtain w where w: "write_regs dev (ms_base ms) (ms_regs ms) v = (Inr (), w)" "ok w"
      "reg w = put_regs (ms_base ms) (ms_regs ms) (reg v)"
    using write_regs_chip [OF assms(1) v(2) assms(3)] by metis
  obtain t where t: "si_write dev (31 + ms_index ms) (0xc0 OR push_bit 2 (r_power_of (ucast (drop_bit 1 (ms_r ms))))) w = (0, t)"
      "ok t" "reg t = (reg w)(31 + ms_index ms := 0xc0 OR push_bit 2 (r_power_of (ucast (drop_bit 1 (ms_r ms)))))"
    using chip_write [OF assms(1) w(2)] by metis
  show ?thesis
    by (rule that [of t]) (simp_all add: si5338_write_multisynth_def bindE_def u v w t [unfolded One_nat_def] ms_regs_of_def)
qed

lemma read_multisynth_chip:
  assumes "clock_chip dev reg ok" "ok s"
  obtains t where "si5338_read_multisynth dev ms s =
      (Inr (si5338_unpack_regs (ms\<lparr>ms_enable := reg s (36 + ms_index ms) AND 7,
         ms_regs := map (\<lambda>i. reg s (ucast (ms_base ms) + of_nat i)) [0..<10],
         ms_r := push_bit (unat (drop_bit 2 (reg s (31 + ms_index ms)) AND 7)) 1\<rparr>)), t)"
    "ok t" "reg t = reg s"
proof -
  obtain u where u: "SI5338_READ dev (36 + ms_index ms) s = (Inr (reg s (36 + ms_index ms)), u)" "ok u" "reg u = reg s"
    using chip_read [OF assms(1,2)] by metis
  obtain v where v: "read_regs dev (ms_base ms) 10 u = (Inr (map (\<lambda>i. reg u (ucast (ms_base ms) + of_nat i)) [0..<10]), v)"
      "ok v" "reg v = reg u"
    using read_regs_chip [OF assms(1) u(2)] by metis
  obtain t where t: "SI5338_READ dev (31 + ms_index ms) v = (Inr (reg v (31 + ms_index ms)), t)" "ok t" "reg t = reg v"
    using chip_read [OF assms(1) v(2)] by metis
  show ?thesis
    by (rule that [of t]) (simp_all add: si5338_read_multisynth_def bindE_def returnE_def u v t del: upt_rec_numeral)
qed

lemma r_power_roundtrip:
  assumes "k \<le> 5"
  shows "unat (drop_bit 2 (0xc0 OR push_bit 2 (r_power_of (ucast (drop_bit 1 (of_nat (2 ^ k) :: u32)))) :: u8) AND 7) = k"
proof -
  have "k = 0 \<or> k = 1 \<or> k = 2 \<or> k = 3 \<or> k = 4 \<or> k = 5" using assms by linarith
  then show ?thesis by (elim disjE) (simp_all add: r_power_of.simps)
qed

text \<open>Writing a multisynth and reading it back, for the three outputs in use.\<close>

lemma ms_regs_of_read:
  assumes "ms_index ms \<in> {1, 2, 3}" "ms_base ms = 53 + ucast (ms_index ms) * 11" "length (ms_regs ms) = 10"
    "ms_r ms = of_nat (2 ^ k)" "k \<le> 5"
  shows "map (\<lambda>i. ms_regs_of ms r (ucast (ms_base ms) + of_nat i)) [0..<10] = ms_regs ms"
    "push_bit (unat (drop_bit 2 (ms_regs_of ms r (31 + ms_index ms)) AND 7)) 1 = ms_r ms"
proof -
  obtain a b c d e f g h i j where r: "ms_regs ms = [a, b, c, d, e, f, g, h, i, j]"
    using assms(3) by (auto simp: numeral_eq_Suc length_Suc_conv)
  show "map (\<lambda>i. ms_regs_of ms r (ucast (ms_base ms) + of_nat i)) [0..<10] = ms_regs ms"
    using assms(1) by (elim insertE emptyE) (simp_all add: ms_regs_of_def put_regs_def assms(2) r upt_rec)
  show "push_bit (unat (drop_bit 2 (ms_regs_of ms r (31 + ms_index ms)) AND 7)) 1 = ms_r ms"
    by (simp only: ms_regs_of_def fun_upd_same assms(4) r_power_roundtrip [OF assms(5)]) simp
qed

lemma ms_freq_cong:
  assumes "ms_r m = ms_r m'" "ms_index m = ms_index m'" "ms_c m = ms_c m'"
    "unat (ms_a m) * unat (ms_c m) + unat (ms_b m) = unat (ms_a m') * unat (ms_c m') + unat (ms_b m')"
  shows "si5338_calculate_ms_freq m = si5338_calculate_ms_freq m'"
proof -
  have u: "ucast (x :: u32) = (of_nat (unat x) :: u64)" for x by simp
  have "(ucast (ms_a m) * ucast (ms_c m) + ucast (ms_b m) :: u64) = ucast (ms_a m') * ucast (ms_c m') + ucast (ms_b m')"
    unfolding u of_nat_mult [symmetric] of_nat_add [symmetric] assms(4) ..
  then show ?thesis using assms(1-3) by (simp add: si5338_calculate_ms_freq_def)
qed

text \<open>A divider that calculate_multisynth has built.\<close>

definition divider_ok :: "si5338_multisynth \<Rightarrow> bool" where
  "divider_ok ms \<longleftrightarrow> ms_index ms \<in> {1, 2, 3} \<and> ms_base ms = 53 + ucast (ms_index ms) * 11 \<and>
     4 \<le> unat (ms_a ms) \<and> unat (ms_a ms) \<le> 567 \<and> 0 < unat (ms_c ms) \<and> unat (ms_b ms) \<le> unat (ms_c ms) \<and>
     unat (ms_c ms) \<le> 2 ^ 30 \<and> (\<exists>k\<le>5. ms_r ms = of_nat (2 ^ k)) \<and>
     ms_regs ms = ms_regs (si5338_pack_regs ms)"

definition read_ms :: "si5338_multisynth \<Rightarrow> (u8 \<Rightarrow> u8) \<Rightarrow> si5338_multisynth" where
  "read_ms m r = si5338_unpack_regs (m\<lparr>ms_enable := r (36 + ms_index m) AND 7,
     ms_regs := map (\<lambda>i. r (ucast (ms_base m) + of_nat i)) [0..<10],
     ms_r := push_bit (unat (drop_bit 2 (r (31 + ms_index m)) AND 7)) 1\<rparr>)"

lemma read_ms_written:
  assumes d: "divider_ok ms" "unat (ms_c ms) < 2 ^ 30"
    and m: "ms_index m = ms_index ms" "ms_base m = ms_base ms"
  shows "si5338_calculate_ms_freq (read_ms m (ms_regs_of ms r)) = si5338_calculate_ms_freq ms"
proof -
  note d' = d(1) [unfolded divider_ok_def]
  obtain k where k: "k \<le> 5" "ms_r ms = of_nat (2 ^ k)" using d' by blast
  have l: "length (ms_regs ms) = 10" using d' by (simp add: si5338_pack_regs_def Let_def)
  have ib: "ms_index ms \<in> {1, 2, 3}" "ms_base ms = 53 + ucast (ms_index ms) * 11" using d' by blast+
  note r = ms_regs_of_read [OF ib l k(2,1), of r]
  let ?m = "m\<lparr>ms_enable := ms_regs_of ms r (36 + ms_index m) AND 7, ms_r := ms_r ms\<rparr>"
  have e: "read_ms m (ms_regs_of ms r) = si5338_unpack_regs (?m\<lparr>ms_regs := ms_regs (si5338_pack_regs ms)\<rparr>)"
    unfolding read_ms_def m r using d' by (cases m) simp
  have b: "4 \<le> unat (ms_a ms)" "unat (ms_a ms) \<le> 567" "0 < unat (ms_c ms)" "unat (ms_b ms) \<le> unat (ms_c ms)"
    using d' by blast+
  note u = unpack_pack [OF refl refl refl b d(2), of ?m, folded e]
  show ?thesis
    using u m by (intro ms_freq_cong) (auto simp: word_unat_eq_iff)
qed

lemma read_ms_other:
  assumes "ms_index ms \<in> {1, 2, 3}" "ms_base ms = 53 + ucast (ms_index ms) * 11" "length (ms_regs ms) = 10"
    and "ms_index m \<in> {1, 2, 3}" "ms_base m = 53 + ucast (ms_index m) * 11" "ms_index m \<noteq> ms_index ms"
  shows "read_ms m (ms_regs_of ms r) = read_ms m r"
proof -
  have "map (\<lambda>i. ms_regs_of ms r (ucast (ms_base m) + of_nat i)) [0..<10] = map (\<lambda>i. r (ucast (ms_base m) + of_nat i)) [0..<10]"
    "ms_regs_of ms r (36 + ms_index m) = r (36 + ms_index m)" "ms_regs_of ms r (31 + ms_index m) = r (31 + ms_index m)"
    using assms(1,4,6) by (elim insertE emptyE; simp add: ms_regs_of_def put_regs_def assms(2,3,5) upt_rec)+
  then show ?thesis by (simp only: read_ms_def)
qed

section \<open>The divider for a rate\<close>

lemma lose_precision_bounds:
  assumes "lose_precision num den = (b, c)" "num \<le> den" "0 < den"
  shows "b \<le> c \<and> 0 < c \<and> c \<le> 2 ^ 30"
  using assms
proof (induction num den rule: lose_precision.induct)
  case (1 num den)
  show ?case
  proof (cases "num > push_bit 30 1 \<or> den > push_bit 30 1")
    case True
    have "unat num \<le> unat den" using "1.prems"(2) by (simp add: word_le_nat_alt)
    have "2 ^ 30 < den" using True "1.prems"(2) by (auto simp: push_bit_eq_mult)
    then have "2 ^ 30 < unat den" by (simp add: word_less_nat_alt)
    then have "drop_bit 1 num \<le> drop_bit 1 den" "0 < drop_bit 1 den"
      using \<open>unat num \<le> unat den\<close> by (simp_all add: drop_bit_eq_div word_le_nat_alt word_less_nat_alt unat_div div_le_mono)
    moreover have "lose_precision (drop_bit 1 num) (drop_bit 1 den) = (b, c)"
      using "1.prems"(1) True by (subst (asm) lose_precision.simps) simp
    ultimately show ?thesis using "1.IH" True by blast
  next
    case False
    then have "(num, den) = (b, c)" using "1.prems"(1) by (subst (asm) lose_precision.simps) simp
    then show ?thesis using False "1.prems"(2,3) by (auto simp: push_bit_eq_mult not_less)
  qed
qed

lemma find_r_power:
  assumes "find_r req j = (req', k)" "j \<le> 5"
  shows "k \<le> 5"
  using assms
proof (induction req j rule: find_r.induct)
  case (1 req j)
  show ?case
  proof (cases "r_integer req < 5000000 \<and> (2::nat) ^ j < 32")
    case True
    then have "(2::nat) ^ j < 2 ^ 5" by simp
    then have "j < 5" using power_less_imp_less_exp [of "2::nat" j 5] by simp
    moreover have "find_r (si5338_rational_double req) (j + 1) = (req', k)"
      using "1.prems"(1) True by (subst (asm) find_r.simps) simp
    ultimately show ?thesis using "1.IH" True by simp
  next
    case False
    then show ?thesis using "1.prems" by (subst (asm) find_r.simps) auto
  qed
qed

lemma reduce_proper:
  "r_den r > 0 \<Longrightarrow> r_num (si5338_rational_reduce r) \<le> r_den (si5338_rational_reduce r) \<and> r_den (si5338_rational_reduce r) > 0"
  "r_den r = 0 \<Longrightarrow> r_integer (si5338_rational_reduce r) = r_integer r"
proof -
  show "r_den r = 0 \<Longrightarrow> r_integer (si5338_rational_reduce r) = r_integer r"
    by (simp add: si5338_rational_reduce_def Let_def)
  assume d: "r_den r > 0"
  define n where "n = r_num r mod r_den r"
  define g where "g = si5338_gcd n (r_den r)"
  have m: "r_num r - r_num r div r_den r * r_den r = n" by (simp add: n_def minus_div_mult_eq_mod)
  have "n < r_den r" using d by (simp add: n_def word_mod_less_divisor)
  moreover have "n = r_num r" if "\<not> r_num r \<ge> r_den r"
    using that by (simp add: n_def word_unat_eq_iff unat_mod word_le_nat_alt)
  moreover define q where "q = (if r_den r > 0 \<and> r_num r \<ge> r_den r
               then let whole = r_num r div r_den r
                    in r\<lparr>r_integer := r_integer r + whole, r_num := r_num r - whole * r_den r\<rparr>
               else r)"
  ultimately have q: "r_num q = n" "r_den q = r_den r" using d m by (simp_all add: Let_def)
  have i: "si5338_rational_reduce r =
      (if sint g > 0 then q\<lparr>r_num := n div g, r_den := r_den r div g\<rparr> else q)"
    unfolding si5338_rational_reduce_def q_def [symmetric] by (simp only: Let_def q g_def)
  have u: "unat n < unat (r_den r)" using \<open>n < r_den r\<close> by (simp add: word_less_nat_alt)
  have "0 < unat g" "unat g \<le> unat (r_den r)" using u by (simp_all add: g_def unat_gcd gcd_le2_nat)
  then have "n div g \<le> r_den r div g" "0 < r_den r div g"
    using u by (simp_all add: word_le_nat_alt word_less_nat_alt unat_div div_le_mono div_greater_zero_iff)
  then show "r_num (si5338_rational_reduce r) \<le> r_den (si5338_rational_reduce r) \<and> r_den (si5338_rational_reduce r) > 0"
    using \<open>n < r_den r\<close> d by (auto simp: i q intro: less_imp_le)
qed

lemma calculate_eq:
  assumes "find_r (if ms_index ms = 1 \<or> ms_index ms = 2 then si5338_rational_double rate else rate) 0 = (req, k)"
    "si5338_rational_reduce \<lparr>r_integer = 0, r_num = SI5338_F_VCO * r_den req,
       r_den = r_integer req * r_den req + r_num req\<rparr> = abc"
    "lose_precision (r_num abc) (r_den abc) = (num, den)"
  shows "si5338_calculate_multisynth ms rate =
    (if (2::nat) ^ k = 32 \<and> r_integer req < 5000000 then Inl BLADERF_ERR_INVAL
     else if r_integer abc \<in> {0, 1, 2, 3, 5, 7} \<or> r_integer abc > 567 then Inl BLADERF_ERR_INVAL
     else Inr (si5338_pack_regs (ms\<lparr>ms_a := ucast (r_integer abc), ms_b := ucast num,
       ms_c := ucast den, ms_r := of_nat (2 ^ k)\<rparr>)))"
  by (simp only: si5338_calculate_multisynth_def Let_def assms prod.case)

lemma calculate_divider_ok:
  assumes "si5338_calculate_multisynth ms rate = Inr ms'" "ms_index ms \<in> {1, 2, 3}" "ms_base ms = 53 + ucast (ms_index ms) * 11"
  shows "divider_ok ms'" "ms_index ms' = ms_index ms" "ms_base ms' = ms_base ms" "ms_enable ms' = ms_enable ms"
proof -
  obtain req k where fr: "find_r (if ms_index ms = 1 \<or> ms_index ms = 2 then si5338_rational_double rate else rate) 0 = (req, k)"
    by fastforce
  then have k: "k \<le> 5" by (rule find_r_power) simp
  define abc where "abc = si5338_rational_reduce \<lparr>r_integer = 0, r_num = SI5338_F_VCO * r_den req,
                 r_den = r_integer req * r_den req + r_num req\<rparr>"
  obtain num den where lp: "lose_precision (r_num abc) (r_den abc) = (num, den)" by fastforce
  define m where "m = ms\<lparr>ms_a := ucast (r_integer abc), ms_b := ucast num, ms_c := ucast den, ms_r := of_nat (2 ^ k)\<rparr>"
  have c: "\<not> (r_integer abc \<in> {0, 1, 2, 3, 5, 7} \<or> r_integer abc > 567)" "ms' = si5338_pack_regs m"
    using assms(1) unfolding calculate_eq [OF fr abc_def [symmetric] lp] m_def
    by (metis Inr_not_Inl, metis Inr_not_Inl sum.inject(2))
  have "r_integer abc = 0" if "r_integer req * r_den req + r_num req = 0"
    using reduce_proper(2) [of "\<lparr>r_integer = 0, r_num = SI5338_F_VCO * r_den req, r_den = r_integer req * r_den req + r_num req\<rparr>"] that
    by (simp add: abc_def)
  then have "r_integer req * r_den req + r_num req > 0" using c(1) by (auto simp: word_gt_0)
  then have "r_num abc \<le> r_den abc" "0 < r_den abc"
    using reduce_proper(1) [of "\<lparr>r_integer = 0, r_num = SI5338_F_VCO * r_den req, r_den = r_integer req * r_den req + r_num req\<rparr>"]
    by (simp_all add: abc_def)
  then have b: "num \<le> den" "0 < den" "den \<le> 2 ^ 30" using lose_precision_bounds [OF lp] by blast+
  then have n: "unat num \<le> unat den" "0 < unat den" "unat den \<le> 2 ^ 30"
    by (simp_all add: word_le_nat_alt word_less_nat_alt)
  have "unat (ms_c m) = unat den" "unat (ms_b m) = unat num"
    using n by (simp_all add: m_def unsigned_ucast_eq take_bit_nat_eq_self)
  moreover have i: "unat (r_integer abc) \<le> 567" "\<not> unat (r_integer abc) < 4"
  proof -
    show "unat (r_integer abc) \<le> 567" using c(1) by (simp add: not_less word_le_nat_alt)
    show "\<not> unat (r_integer abc) < 4"
    proof
      assume "unat (r_integer abc) < 4"
      then have "unat (r_integer abc) = 0 \<or> unat (r_integer abc) = 1 \<or> unat (r_integer abc) = 2 \<or> unat (r_integer abc) = 3"
        by linarith
      then show False using c(1) by (simp add: word_unat_eq_iff)
    qed
  qed
  moreover have "unat (ms_a m) = unat (r_integer abc)"
    using i by (simp add: m_def unsigned_ucast_eq take_bit_nat_eq_self)
  moreover have "ms_regs ms' = ms_regs (si5338_pack_regs ms')"
    by (simp add: c(2) si5338_pack_regs_def Let_def)
  ultimately show "divider_ok ms'"
    using n k assms(2,3) unfolding divider_ok_def c(2)
    by (auto simp add: si5338_pack_regs_def Let_def m_def)
  show "ms_index ms' = ms_index ms" "ms_base ms' = ms_base ms" "ms_enable ms' = ms_enable ms"
    by (simp_all add: c(2) m_def si5338_pack_regs_def Let_def)
qed

lemma reduce_zero: "r_integer (si5338_rational_reduce \<lparr>r_integer = 0, r_num = 0, r_den = d\<rparr>) = 0"
  "r_num (si5338_rational_reduce \<lparr>r_integer = 0, r_num = 0, r_den = d\<rparr>) = 0"
  by (auto simp: si5338_rational_reduce_def Let_def word_gt_0)

lemma wide_divider_lost:
  assumes "divider_ok ms" "unat (ms_c ms) = 2 ^ 30" "ms_index m = ms_index ms" "ms_base m = ms_base ms"
  shows "r_integer (si5338_calculate_ms_freq (read_ms m (ms_regs_of ms r))) = 0"
    "r_num (si5338_calculate_ms_freq (read_ms m (ms_regs_of ms r))) = 0"
proof -
  note d' = assms(1) [unfolded divider_ok_def]
  obtain k where k: "k \<le> 5" "ms_r ms = of_nat (2 ^ k)" using d' by blast
  have l: "length (ms_regs ms) = 10" using d' by (simp add: si5338_pack_regs_def Let_def)
  have ib: "ms_index ms \<in> {1, 2, 3}" "ms_base ms = 53 + ucast (ms_index ms) * 11" using d' by blast+
  note r = ms_regs_of_read [OF ib l k(2,1), of r]
  have "ms_c ms = 2 ^ 30" using assms(2) by (simp add: word_unat_eq_iff)
  then have "ms_regs ms ! 6 = 0" "ms_regs ms ! 7 = 0" "ms_regs ms ! 8 = 0" "ms_regs ms ! 9 = 0x40"
    using d' by (simp_all add: si5338_pack_regs_def Let_def)
  then have "ms_c (read_ms m (ms_regs_of ms r)) = 0"
    unfolding read_ms_def assms(3,4) r by (simp add: si5338_unpack_regs_def Let_def)
  then show "r_integer (si5338_calculate_ms_freq (read_ms m (ms_regs_of ms r))) = 0"
    "r_num (si5338_calculate_ms_freq (read_ms m (ms_regs_of ms r))) = 0"
    by (simp_all add: si5338_calculate_ms_freq_def Let_def reduce_zero)
qed

text \<open>Bit 30 of c shows in the last register of the divider.\<close>

lemma wide_divider_register:
  assumes "divider_ok ms"
  shows "ms_regs_of ms r (ucast (ms_base ms) + 9) = 0x40 \<longleftrightarrow> unat (ms_c ms) = 2 ^ 30"
proof -
  note d' = assms [unfolded divider_ok_def]
  have l: "length (ms_regs ms) = 10" using d' by (simp add: si5338_pack_regs_def Let_def)
  have "ms_index ms \<in> {1, 2, 3}" "ms_base ms = 53 + ucast (ms_index ms) * 11" using d' by blast+
  then have "ms_regs_of ms r (ucast (ms_base ms) + 9) = ms_regs ms ! 9"
    by (elim insertE emptyE) (simp_all add: ms_regs_of_def put_regs_def l)
  also have "\<dots> = ucast (drop_bit 24 (ms_c ms) AND 0xff)"
    using d' by (simp add: si5338_pack_regs_def Let_def)
  also have "\<dots> = ucast (drop_bit 24 (ms_c ms))" by (simp add: word8_eq_iff bit_simps)
  finally have e: "ms_regs_of ms r (ucast (ms_base ms) + 9) = ucast (drop_bit 24 (ms_c ms))" .
  have c: "unat (ms_c ms) \<le> 2 ^ 30" using d' by blast
  then have q: "unat (ms_c ms) div 2 ^ 24 \<le> 64" using div_le_mono [OF c, of "2 ^ 24"] by simp
  have u: "unat (ucast (drop_bit 24 (ms_c ms)) :: u8) = unat (ms_c ms) div 2 ^ 24"
    using q by (simp add: unsigned_ucast_eq take_bit_nat_eq_self drop_bit_eq_div unat_div)
  have "unat (ms_c ms) div 2 ^ 24 = 64 \<longleftrightarrow> unat (ms_c ms) = 2 ^ 30" using c by auto
  then show ?thesis unfolding e by (simp add: word_unat_eq_iff u)
qed

lemma get_rate_chip:
  fixes m :: bladerf_module
  assumes "clock_chip dev reg ok" "ok s"
  defines "i \<equiv> if m = BLADERF_MODULE_RX then 1 else 2"
  obtains t where "si5338_get_rational_sample_rate dev m s =
      (Inr (si5338_calculate_ms_freq (read_ms (si5338_update_base (ms_blank\<lparr>ms_index := i\<rparr>)) (reg s))), t)" "ok t" "reg t = reg s"
proof -
  obtain t where t: "si5338_read_multisynth dev (si5338_update_base (ms_blank\<lparr>ms_index := i\<rparr>)) s =
      (Inr (read_ms (si5338_update_base (ms_blank\<lparr>ms_index := i\<rparr>)) (reg s)), t)" "ok t" "reg t = reg s"
    using read_multisynth_chip [OF assms(1,2), of "si5338_update_base (ms_blank\<lparr>ms_index := i\<rparr>)"]
    unfolding read_ms_def by metis
  have "(if m = BLADERF_MODULE_RX then 1 else 2) = i" by (simp add: i_def)
  then show ?thesis
    by (intro that [OF _ t(2,3)]) (simp only: si5338_get_rational_sample_rate_def bindE_def returnE_def t prod.case sum.case)
qed

lemma calculate_fails: "si5338_calculate_multisynth ms rate = Inl e \<Longrightarrow> e = BLADERF_ERR_INVAL"
proof -
  assume c: "si5338_calculate_multisynth ms rate = Inl e"
  obtain req k where fr: "find_r (if ms_index ms = 1 \<or> ms_index ms = 2 then si5338_rational_double rate else rate) 0 = (req, k)"
    by fastforce
  obtain abc where abc: "si5338_rational_reduce \<lparr>r_integer = 0, r_num = SI5338_F_VCO * r_den req,
       r_den = r_integer req * r_den req + r_num req\<rparr> = abc" by blast
  obtain num den where lp: "lose_precision (r_num abc) (r_den abc) = (num, den)" by fastforce
  show ?thesis using c unfolding calculate_eq [OF fr abc lp] by (auto split: if_split_asm)
qed

abbreviation new_ms :: "u8 \<Rightarrow> u8 \<Rightarrow> si5338_multisynth" where
  "new_ms index channel \<equiv> si5338_update_base (ms_blank\<lparr>ms_index := index, ms_enable := channel\<rparr>)"

lemma set_multisynth_chip:
  assumes c: "clock_chip dev reg ok" "ok s" and i: "index \<in> {1, 2, 3}"
  shows "case si5338_calculate_multisynth (new_ms index channel) (si5338_rational_reduce rate) of
      Inl e \<Rightarrow> si5338_set_rational_multisynth dev index channel rate act0 s =
        ((BLADERF_ERR_INVAL, si5338_rational_reduce rate, act0), s)
    | Inr ms \<Rightarrow> \<exists>t. si5338_set_rational_multisynth dev index channel rate act0 s =
        ((0, si5338_rational_reduce rate, si5338_calculate_ms_freq ms), t) \<and> ok t \<and> reg t = ms_regs_of ms (reg s) \<and>
        divider_ok ms \<and> ms_index ms = index \<and> ms_base ms = 53 + ucast index * 11"
proof (cases "si5338_calculate_multisynth (new_ms index channel) (si5338_rational_reduce rate)")
  case (Inl e)
  then show ?thesis using calculate_fails [OF Inl] by (simp add: si5338_set_rational_multisynth_def Let_def)
next
  case (Inr ms)
  have "ms_index (new_ms index channel) \<in> {1, 2, 3}"
    "ms_base (new_ms index channel) = 53 + ucast (ms_index (new_ms index channel)) * 11"
    using i by (simp_all add: si5338_update_base_def)
  note k = calculate_divider_ok [OF Inr this]
  then have "length (ms_regs ms) \<le> 255" unfolding divider_ok_def by (simp add: si5338_pack_regs_def Let_def)
  from write_multisynth_chip [OF c this] obtain t
    where "si5338_write_multisynth dev ms s = (0, t)" "ok t" "reg t = ms_regs_of ms (reg s)" by metis
  then show ?thesis using k Inr
    by (auto simp: si5338_set_rational_multisynth_def Let_def si5338_update_base_def)
qed

section \<open>Properties\<close>

text \<open>C34: what is set is what is read.  When a rational sample rate is accepted, the actual rate given
  back is the one that reading the part gives afterwards; except when the reduced denominator of the
  divider is exactly 2^30 (visible as 0x40 in the last divider register), whose top bit the read-back
  masks away, so that the rate reads as zero.  The setting of the other module is not touched.  A
  rate that is refused changes nothing.\<close>

theorem rational_rate_set_get:
  assumes "clock_chip dev reg ok" "ok s"
  shows "\<exists>status rate' act t. si5338_set_rational_sample_rate dev m rate act0 s = ((status, rate', act), t) \<and>
    (status = BLADERF_ERR_INVAL \<and> act = act0 \<and> t = s \<or>
     status = 0 \<and> ok t \<and>
     (\<exists>got u. si5338_get_rational_sample_rate dev m t = (Inr got, u) \<and>
        (if reg t (if m = BLADERF_MODULE_RX then 73 else 84) = 0x40 then r_integer got = 0 \<and> r_num got = 0 else got = act)) \<and>
     (\<forall>m'. (m' = BLADERF_MODULE_RX) \<noteq> (m = BLADERF_MODULE_RX) \<longrightarrow>
        (\<exists>other u v. si5338_get_rational_sample_rate dev m' s = (Inr other, u) \<and>
           si5338_get_rational_sample_rate dev m' t = (Inr other, v))))"
proof -
  let ?i = "if m = BLADERF_MODULE_RX then 1 else 2 :: u8"
    and ?ch = "if m = BLADERF_MODULE_TX then SI5338_EN_A OR SI5338_EN_B else SI5338_EN_A"
    and ?r = "si5338_rational_reduce rate"
  have i: "?i \<in> {1, 2, 3}" by simp
  note sm = set_multisynth_chip [OF assms i, of ?ch ?r act0]
  have e: "si5338_set_rational_sample_rate dev m rate act0 s =
      (if r_integer ?r < BLADERF_SAMPLERATE_MIN then ((BLADERF_ERR_INVAL, ?r, act0), s)
       else si5338_set_rational_multisynth dev ?i ?ch ?r act0 s)"
    by (simp only: si5338_set_rational_sample_rate_def Let_def)
  show ?thesis
  proof (cases "r_integer ?r < BLADERF_SAMPLERATE_MIN")
    case True
    then show ?thesis unfolding e by simp
  next
    case False
    show ?thesis
    proof (cases "si5338_calculate_multisynth (new_ms ?i ?ch) (si5338_rational_reduce ?r)")
      case (Inl err)
      then show ?thesis using sm False unfolding e by simp
    next
      case (Inr ms)
      with sm obtain t where t: "si5338_set_rational_multisynth dev ?i ?ch ?r act0 s =
          ((0, si5338_rational_reduce ?r, si5338_calculate_ms_freq ms), t)" "ok t" "reg t = ms_regs_of ms (reg s)"
          "divider_ok ms" "ms_index ms = ?i" "ms_base ms = 53 + ucast ?i * 11" by auto
      let ?m = "\<lambda>j. si5338_update_base (ms_blank\<lparr>ms_index := j\<rparr>)"
      have m: "ms_index (?m ?i) = ms_index ms" "ms_base (?m ?i) = ms_base ms"
        by (simp_all add: si5338_update_base_def t(5,6))
      obtain u where u: "si5338_get_rational_sample_rate dev m t = (Inr (si5338_calculate_ms_freq (read_ms (?m ?i) (reg t))), u)"
        using get_rate_chip [OF assms(1) t(2), of m] by metis
      have addr: "(if m = BLADERF_MODULE_RX then 73 else 84) = (ucast (ms_base ms) + 9 :: u8)" by (simp add: t(6))
      have "unat (ms_c ms) \<le> 2 ^ 30" using t(4) by (simp add: divider_ok_def)
      then have g: "if reg t (if m = BLADERF_MODULE_RX then 73 else 84) = 0x40
          then r_integer (si5338_calculate_ms_freq (read_ms (?m ?i) (reg t))) = 0 \<and> r_num (si5338_calculate_ms_freq (read_ms (?m ?i) (reg t))) = 0
          else si5338_calculate_ms_freq (read_ms (?m ?i) (reg t)) = si5338_calculate_ms_freq ms"
      proof (cases "unat (ms_c ms) = 2 ^ 30")
        case True
        then show ?thesis using wide_divider_lost [OF t(4) True m, of "reg s"] wide_divider_register [OF t(4), of "reg s"]
          unfolding addr t(3) by simp
      next
        case False
        then show ?thesis using read_ms_written [OF t(4) _ m, of "reg s"] wide_divider_register [OF t(4), of "reg s"]
          \<open>unat (ms_c ms) \<le> 2 ^ 30\<close> unfolding addr t(3) by simp
      qed
      have "\<exists>other u v. si5338_get_rational_sample_rate dev m' s = (Inr other, u) \<and>
           si5338_get_rational_sample_rate dev m' t = (Inr other, v)"
        if "(m' = BLADERF_MODULE_RX) \<noteq> (m = BLADERF_MODULE_RX)" for m'
      proof -
        let ?j = "if m' = BLADERF_MODULE_RX then 1 else 2 :: u8"
        have l: "length (ms_regs ms) = 10" using t(4) by (simp add: divider_ok_def si5338_pack_regs_def Let_def)
        have b: "ms_base ms = 53 + ucast (ms_index ms) * 11" "ms_index ms \<in> {1, 2, 3}" using t(5,6) by simp_all
        have "read_ms (?m ?j) (reg t) = read_ms (?m ?j) (reg s)"
          unfolding t(3) using that t(5)
          by (intro read_ms_other [OF b(2,1) l]) (auto simp: si5338_update_base_def)
        then show ?thesis
          using get_rate_chip [OF assms(1,2), of m'] get_rate_chip [OF assms(1) t(2), of m'] by metis
      qed
      then show ?thesis using False t(1,2) u g unfolding e by (auto simp del: if_image_distrib)
    qed
  qed
qed

section \<open>Integer rates\<close>

abbreviation int_rate :: "nat \<Rightarrow> bladerf_rational_rate" where
  "int_rate n \<equiv> \<lparr>r_integer = of_nat n, r_num = 0, r_den = 1\<rparr>"

lemma reduce_int_rate [simp]: "si5338_rational_reduce (int_rate n) = int_rate n"
  by (simp add: si5338_rational_reduce_def Let_def si5338_gcd.simps)

lemma double_int_rate [simp]: "si5338_rational_double (int_rate n) = int_rate (2 * n)"
  using reduce_int_rate [of "2 * n"] by (simp add: si5338_rational_double_def mult.commute)

lemma find_r_int_rate:
  assumes "j \<le> 5" "5000000 \<le> n * 2 ^ (5 - j)" "n < 2 ^ 40"
  shows "\<exists>k. j \<le> k \<and> k \<le> 5 \<and> find_r (int_rate n) j = (int_rate (n * 2 ^ (k - j)), k) \<and>
    5000000 \<le> n * 2 ^ (k - j) \<and> (k = j \<or> n * 2 ^ (k - j) < 10000000)"
  using assms
proof (induction "5 - j" arbitrary: j n)
  case 0
  then have "j = 5" "5000000 \<le> n" by simp_all
  then show ?case by (subst find_r.simps) simp
next
  case (Suc d)
  have u: "unat (of_nat n :: u64) = n" using Suc.prems(3) by (simp add: unat_of_nat)
  show ?case
  proof (cases "n < 5000000")
    case True
    have "(2::nat) ^ j < 2 ^ 5" using Suc.hyps(2) by (intro power_strict_increasing) simp_all
    then have e: "find_r (int_rate n) j = find_r (int_rate (2 * n)) (j + 1)"
      using True u by (subst find_r.simps) (simp add: word_less_nat_alt)
    have "2 * n * 2 ^ (5 - (j + 1)) = n * 2 ^ (5 - j)"
    proof -
      have "5 - j = Suc (5 - (j + 1))" using Suc.hyps(2) by linarith
      then show ?thesis by simp
    qed
    then have n5: "5000000 \<le> 2 * n * 2 ^ (5 - (j + 1))" using Suc.prems(2) by (simp only:)
    have ih: "d = 5 - (j + 1)" "j + 1 \<le> 5" using Suc.hyps(2) by linarith+
    have n40: "2 * n < 2 ^ 40" using True by simp
    from Suc.hyps(1) [OF ih n5 n40] obtain k where k: "j + 1 \<le> k" "k \<le> 5"
      "find_r (int_rate (2 * n)) (j + 1) = (int_rate (2 * n * 2 ^ (k - (j + 1))), k)"
      "5000000 \<le> 2 * n * 2 ^ (k - (j + 1))" "k = j + 1 \<or> 2 * n * 2 ^ (k - (j + 1)) < 10000000"
      by blast
    have p: "2 * n * 2 ^ (k - (j + 1)) = n * 2 ^ (k - j)"
    proof -
      have "k - j = Suc (k - (j + 1))" using k(1) by linarith
      then show ?thesis by simp
    qed
    have "n * 2 ^ (k - j) < 10000000" using k(5)
    proof
      assume "k = j + 1"
      then show ?thesis using True by simp
    qed (simp only: p)
    then show ?thesis using k(1,2) k(3) [unfolded p] k(4) [unfolded p] unfolding e
      by (intro exI [of _ k] conjI disjI2; (assumption | linarith))
  next
    case False
    then show ?thesis using u Suc.prems(1)
      by (intro exI [of _ j]) (subst find_r.simps, simp add: word_less_nat_alt)
  qed
qed

text \<open>The divider for an output clock of N Hz: a + b/c is F_VCO / N in lowest terms.\<close>

lemma divide_vco:
  assumes "0 < N" "N < 2 ^ 40"
  defines "abc \<equiv> si5338_rational_reduce \<lparr>r_integer = 0, r_num = SI5338_F_VCO, r_den = of_nat N\<rparr>"
    and "g \<equiv> gcd (2534400000 mod N) N"
  shows "unat (r_integer abc) = 2534400000 div N" "unat (r_num abc) = 2534400000 mod N div g" "unat (r_den abc) = N div g"
proof -
  have "unat (r_den \<lparr>r_integer = 0, r_num = SI5338_F_VCO, r_den = of_nat N\<rparr>) = N" using assms(2) by (simp add: unat_of_nat)
  moreover have "2534400000 div N < (18446744073709551616 :: nat)" by (rule le_less_trans [OF div_le_dividend]) simp
  ultimately show "unat (r_integer abc) = 2534400000 div N" "unat (r_num abc) = 2534400000 mod N div g" "unat (r_den abc) = N div g"
    using reduce_fields [of "\<lparr>r_integer = 0, r_num = SI5338_F_VCO, r_den = of_nat N\<rparr>" N 2534400000 0] assms(1,2)
    unfolding abc_def g_def by simp_all
qed

lemma exact_divider:
  assumes "unat (ms_a ms) = 2534400000 div N" "unat (ms_b ms) = 2534400000 mod N div g" "unat (ms_c ms) = N div g"
    and g: "g = gcd (2534400000 mod N) N" and r: "ms_r ms = of_nat (2 ^ k)" "k \<le> 5"
    and N: "N = 2 * rate * 2 ^ k" "0 < rate" "N < 2 ^ 30"
    and i: "ms_index ms = 1 \<or> ms_index ms = 2"
  shows "si5338_calculate_ms_freq ms = int_rate rate"
proof -
  define S where "S = unat (ms_a ms) * unat (ms_c ms) + unat (ms_b ms)"
  have N0: "0 < N" using N by simp
  then have g0: "0 < g" by (simp add: g)
  have "g dvd N" "g dvd 2534400000 mod N" by (simp_all add: g)
  then have gN: "N = g * unat (ms_c ms)" and gm: "2534400000 mod N = g * unat (ms_b ms)" by (simp_all add: assms(2,3))
  have "2534400000 = 2534400000 div N * N + 2534400000 mod N" by (simp only: div_mult_mod_eq)
  also have "\<dots> = unat (ms_a ms) * (g * unat (ms_c ms)) + g * unat (ms_b ms)" by (simp only: assms(1) gN [symmetric] gm)
  also have "\<dots> = g * S" by (simp add: S_def algebra_simps)
  finally have F: "2534400000 = g * S" .
  have S: "0 < S" "S \<le> 2534400000" using F g0 by (cases S; cases g; simp)+
  have C: "unat (ms_c ms) < 2 ^ 30" using N(3) g0 gN by (metis le_less_trans mult.commute mult_le_mono2 nat_mult_1_right Suc_leI One_nat_def)
  have k2: "(2::nat) ^ k \<le> 2 ^ 5" using r(2) by (intro power_increasing) simp_all
  let ?den = "ucast (ms_r ms) * (ucast (ms_a ms) * ucast (ms_c ms) + ucast (ms_b ms)) :: u64"
  have s64: "S < 2 ^ 32" using S by simp
  have p: "2 ^ k * S \<le> 32 * 2534400000" using mult_le_mono [OF k2 S(2)] by simp
  have "k = 0 \<or> k = 1 \<or> k = 2 \<or> k = 3 \<or> k = 4 \<or> k = 5" using r(2) by linarith
  then have ur: "unat (ucast (ms_r ms) :: u64) = 2 ^ k" by (elim disjE) (simp_all add: r(1))
  have ac: "unat (ms_a ms) * unat (ms_c ms) \<le> S" by (simp add: S_def)
  have uac: "unat (ucast (ms_a ms) * ucast (ms_c ms) :: u64) = unat (ms_a ms) * unat (ms_c ms)"
    using ac s64 by (subst unat_mult_64) (simp_all add: unat_ucast_up)
  have us: "unat (ucast (ms_a ms) * ucast (ms_c ms) + ucast (ms_b ms) :: u64) = S"
    using uac s64 by (subst unat_plus_64) (simp_all add: unat_ucast_up S_def)
  have ud: "unat ?den = 2 ^ k * S" using p ur us by (subst unat_mult_64) simp_all
  have den: "unat (?den * 2) = 2 ^ k * S * 2" using p ud by (subst unat_mult_64) (simp_all add: mult.commute)
  have num: "unat (SI5338_F_VCO * ucast (ms_c ms)) = 2534400000 * unat (ms_c ms)"
    using C by (subst unat_mult_64) (simp_all add: unat_ucast_up)
  have v: "2534400000 * unat (ms_c ms) = rate * (2 ^ k * S * 2)"
    using F gN N(1) by (simp add: algebra_simps)
  have d0: "0 < 2 ^ k * S * 2" "2 ^ k * S * 2 < 2 ^ 63" using S(1) p by (simp_all add: mult.commute)
  let ?r = "\<lparr>r_integer = 0, r_num = SI5338_F_VCO * ucast (ms_c ms), r_den = ?den * 2\<rparr>"
  have "rate * 1 \<le> rate * (2 * 2 ^ k)" by (intro mult_le_mono2) simp
  moreover have "rate * (2 * 2 ^ k) = N" by (simp add: N(1))
  ultimately have "rate \<le> N" by linarith
  then have r64: "rate < 2 ^ 64" using N(3) by simp
  then have "unat (r_integer (si5338_rational_reduce ?r)) = rate" "unat (r_num (si5338_rational_reduce ?r)) = 0"
    "unat (r_den (si5338_rational_reduce ?r)) = 1"
    using reduce_fields [of ?r "2 ^ k * S * 2" "rate * (2 ^ k * S * 2)" 0] den num v d0 r64 by simp_all
  moreover have "si5338_calculate_ms_freq ms = si5338_rational_reduce ?r"
    using i by (auto simp: si5338_calculate_ms_freq_def Let_def)
  ultimately show ?thesis using r64 by (intro bladerf_rational_rate.equality) (simp_all add: word_unat_eq_iff unat_of_nat)
qed

lemma calculate_int_rate:
  assumes "80000 \<le> rate" "rate < 2 ^ 32" "ms_index ms = 1 \<or> ms_index ms = 2"
  defines "q \<equiv> 2534400000 div (2 * rate)"
  shows "if q \<in> {0, 1, 2, 3, 5, 7} then si5338_calculate_multisynth ms (int_rate rate) = Inl BLADERF_ERR_INVAL
    else \<exists>ms'. si5338_calculate_multisynth ms (int_rate rate) = Inr ms' \<and>
      si5338_calculate_ms_freq ms' = int_rate rate \<and> unat (ms_c ms') < 2 ^ 30"
proof -
  obtain k where k: "k \<le> 5" "find_r (int_rate (2 * rate)) 0 = (int_rate (2 * rate * 2 ^ k), k)"
    "5000000 \<le> 2 * rate * 2 ^ k" "k = 0 \<or> 2 * rate * 2 ^ k < 10000000"
    using find_r_int_rate [of 0 "2 * rate"] assms(1,2) by auto
  define N where "N = 2 * rate * 2 ^ k"
  have N: "0 < N" "N < 2 ^ 40" "5000000 \<le> N" using k(3,4) assms(1,2) by (auto simp: N_def)
  define abc where "abc = si5338_rational_reduce \<lparr>r_integer = 0, r_num = SI5338_F_VCO, r_den = of_nat N\<rparr>"
  define g where "g = gcd (2534400000 mod N) N"
  note dv = divide_vco [OF N(1,2), folded abc_def g_def]
  obtain num den where lp: "lose_precision (r_num abc) (r_den abc) = (num, den)" by fastforce
  have fr: "find_r (if ms_index ms = 1 \<or> ms_index ms = 2 then si5338_rational_double (int_rate rate) else int_rate rate) 0 =
      (int_rate N, k)" using assms(3) k(2) by (auto simp: N_def)
  have u: "unat (of_nat N :: u64) = N" using N(2) by (simp add: unat_of_nat)
  have "si5338_rational_reduce \<lparr>r_integer = 0, r_num = SI5338_F_VCO * r_den (int_rate N),
       r_den = r_integer (int_rate N) * r_den (int_rate N) + r_num (int_rate N)\<rparr> = abc" by (simp add: abc_def)
  note c = calculate_eq [OF fr this lp]
  have i: "\<not> r_integer (int_rate N) < 5000000" using N(3) u by (simp add: word_less_nat_alt)
  have aq: "2534400000 div N \<le> 506" using div_le_mono2 [OF _ N(3), of 2534400000] by simp
  have v: "2534400000 div N = q \<or> (253 \<le> 2534400000 div N \<and> 253 \<le> q)"
  proof (cases "k = 0")
    case True
    then show ?thesis by (simp add: N_def q_def)
  next
    case False
    then have "N \<le> 10000000" using k(4) by (simp add: N_def)
    then have "253 \<le> 2534400000 div N" using div_le_mono2 [of N 10000000 2534400000] N(1) by simp
    moreover have "2534400000 div N \<le> q" unfolding q_def N_def using assms(1) by (intro div_le_mono2) simp_all
    ultimately show ?thesis by simp
  qed
  have bad: "r_integer abc \<in> {0, 1, 2, 3, 5, 7} \<or> r_integer abc > 567 \<longleftrightarrow> q \<in> {0, 1, 2, 3, 5, 7}"
    using v aq by (auto simp: word_unat_eq_iff word_less_nat_alt dv(1))
  show ?thesis
  proof (cases "q \<in> {0, 1, 2, 3, 5, 7}")
    case True
    then show ?thesis using bad i by (simp add: c del: insert_iff)
  next
    case False
    then have "4 \<le> 2534400000 div N" using v by auto
    then have "4 * N \<le> 2534400000" using N(1) by (simp only: less_eq_div_iff_mult_less_eq)
    then have N30: "N < 2 ^ 30" by simp
    have "0 < g" using N(1) by (simp add: g_def)
    have rn: "2534400000 mod N div g \<le> N" "N div g \<le> N"
      using order_trans [OF div_le_dividend less_imp_le [OF mod_less_divisor [OF N(1), of 2534400000]]] by simp_all
    have ng: "N div g < 2 ^ 30" by (rule le_less_trans [OF div_le_dividend N30])
    then have "\<not> (r_num abc > push_bit 30 1 \<or> r_den abc > push_bit 30 1)"
      using N30 rn(1) by (simp add: word_less_nat_alt dv(2,3) push_bit_eq_mult)
    then have nd: "num = r_num abc" "den = r_den abc" using lp by (subst (asm) lose_precision.simps; simp)+
    define m where "m = ms\<lparr>ms_a := ucast (r_integer abc), ms_b := ucast num, ms_c := ucast den, ms_r := of_nat (2 ^ k)\<rparr>"
    have "si5338_calculate_multisynth ms (int_rate rate) = Inr (si5338_pack_regs m)"
      unfolding c m_def using bad False i by (simp del: insert_iff)
    moreover have f: "unat (ms_a (si5338_pack_regs m)) = 2534400000 div N" "unat (ms_b (si5338_pack_regs m)) = 2534400000 mod N div g"
      "unat (ms_c (si5338_pack_regs m)) = N div g" "ms_r (si5338_pack_regs m) = of_nat (2 ^ k)" "ms_index (si5338_pack_regs m) = ms_index ms"
      using aq rn(1) ng N30 by (simp_all add: m_def si5338_pack_regs_def Let_def nd dv unsigned_ucast_eq take_bit_nat_eq_self)
    moreover have "si5338_calculate_ms_freq (si5338_pack_regs m) = int_rate rate"
      using exact_divider [OF f(1-3) g_def f(4) k(1) N_def _ N30] assms(1,3) f(5) by simp
    moreover have "unat (ms_c (si5338_pack_regs m)) < 2 ^ 30" using f(3) ng by simp
    ultimately show ?thesis using False by auto
  qed
qed

text \<open>C35: integer sample rates are exact.  si5338_set_sample_rate accepts a rate of at least 80 kHz exactly
  when F_VCO / (2 rate) is at least 8 or in the ranges of the dividers 4 and 6, for every 32-bit
  rate; when it does, the rate reported and the rate read back are the one asked for, and otherwise it
  reports BLADERF_ERR_INVAL and 0 and writes nothing.\<close>

theorem integer_sample_rate_exact:
  assumes "clock_chip dev reg ok" "ok s"
    "q = 2534400000 div (2 * unat rate)"
  shows "if rate < 80000 \<or> q \<in> {0, 1, 2, 3, 5, 7}
    then si5338_set_sample_rate dev m rate s = ((BLADERF_ERR_INVAL, 0), s)
    else \<exists>t u. si5338_set_sample_rate dev m rate s = ((0, rate), t) \<and> ok t \<and>
      si5338_get_sample_rate dev m t = (Inr rate, u)"
proof -
  let ?i = "if m = BLADERF_MODULE_RX then 1 else 2 :: u8"
    and ?ch = "if m = BLADERF_MODULE_TX then SI5338_EN_A OR SI5338_EN_B else SI5338_EN_A"
    and ?r = "int_rate (unat rate)"
  have i: "?i \<in> {1, 2, 3}" "ms_index (new_ms ?i ?ch) = 1 \<or> ms_index (new_ms ?i ?ch) = 2"
    by (simp_all add: si5338_update_base_def)
  note sm = set_multisynth_chip [OF assms(1,2) i(1), of ?ch ?r zero_rate, unfolded reduce_int_rate]
  have r: "\<lparr>r_integer = ucast rate, r_num = 0, r_den = 1\<rparr> = ?r" by simp
  have "rate < 80000 \<longleftrightarrow> r_integer ?r < BLADERF_SAMPLERATE_MIN"
    by (simp add: word_less_nat_alt unat_ucast_up)
  then have e: "si5338_set_rational_sample_rate dev m ?r zero_rate s =
      (if rate < 80000 then ((BLADERF_ERR_INVAL, ?r, zero_rate), s)
       else si5338_set_rational_multisynth dev ?i ?ch ?r zero_rate s)"
    by (simp only: si5338_set_rational_sample_rate_def Let_def reduce_int_rate)
  show ?thesis
  proof (cases "rate < 80000")
    case True
    then show ?thesis unfolding si5338_set_sample_rate_def Let_def r e by (simp add: zero_rate_def)
  next
    case False
    then have n: "80000 \<le> unat rate" "unat rate < 2 ^ 32" using unsigned_less [of rate] by (simp_all add: word_less_nat_alt not_less)
    note c = calculate_int_rate [OF n i(2), folded assms(3)]
    show ?thesis
    proof (cases "q \<in> {0, 1, 2, 3, 5, 7}")
      case True
      then have "si5338_calculate_multisynth (new_ms ?i ?ch) ?r = Inl BLADERF_ERR_INVAL" using c by simp
      then have "si5338_set_rational_multisynth dev ?i ?ch ?r zero_rate s = ((BLADERF_ERR_INVAL, ?r, zero_rate), s)"
        using sm by simp
      then show ?thesis using False True unfolding si5338_set_sample_rate_def Let_def r e
        by (simp add: zero_rate_def del: insert_iff)
    next
      case q: False
      then obtain ms where ms: "si5338_calculate_multisynth (new_ms ?i ?ch) ?r = Inr ms"
          "si5338_calculate_ms_freq ms = ?r" "unat (ms_c ms) < 2 ^ 30"
        using c by auto
      then obtain t where t: "si5338_set_rational_multisynth dev ?i ?ch ?r zero_rate s = ((0, ?r, ?r), t)" "ok t"
          "reg t = ms_regs_of ms (reg s)" "divider_ok ms" "ms_index ms = ?i" "ms_base ms = 53 + ucast ?i * 11"
        using sm by auto
      let ?m = "si5338_update_base (ms_blank\<lparr>ms_index := ?i\<rparr>)"
      have "ms_index ?m = ms_index ms" "ms_base ?m = ms_base ms"
        by (simp_all add: si5338_update_base_def t(5,6))
      then have f: "si5338_calculate_ms_freq (read_ms ?m (reg t)) = ?r"
        unfolding t(3) using read_ms_written [OF t(4) ms(3)] ms(2) by metis
      obtain u where "si5338_get_rational_sample_rate dev m t = (Inr ?r, u)"
        using get_rate_chip [OF assms(1) t(2), of m] f by metis
      moreover have "ucast (ucast rate :: u64) = rate" by (simp add: word32_eq_iff bit_simps)
      ultimately show ?thesis using False q t(1,2) unfolding si5338_set_sample_rate_def Let_def r e
        by (simp add: si5338_get_sample_rate_def bindE_def returnE_def del: insert_iff)
    qed
  qed
qed

text \<open>A part that is nothing but its registers.\<close>

definition plain_chip :: "(u8 \<Rightarrow> u8) si_dev" where
  "plain_chip = \<lparr>si_read = (\<lambda>a r. ((0, r a), r)), si_write = (\<lambda>a d r. (0, r(a := d)))\<rparr>"

lemma plain_chip: "clock_chip plain_chip (\<lambda>r. r) (\<lambda>_. True)"
  by (simp add: clock_chip_def plain_chip_def)

lemma integer_sample_rate_exact_witness:
  "\<exists>t u. si5338_set_sample_rate plain_chip BLADERF_MODULE_RX 1000001 (\<lambda>_. 0) = ((0, 1000001), t) \<and>
     si5338_get_sample_rate plain_chip BLADERF_MODULE_RX t = (Inr 1000001, u)"
  using integer_sample_rate_exact [OF plain_chip TrueI refl, of 1000001 BLADERF_MODULE_RX "\<lambda>_. 0"] by auto

text \<open>12671965 + 290519/347069 Hz leads to the denominator 2^30.\<close>

definition lost_rate :: bladerf_rational_rate where
  "lost_rate = \<lparr>r_integer = 12671965, r_num = 290519, r_den = 347069\<rparr>"

lemma lost_rate_accepted:
  "case si5338_set_rational_sample_rate plain_chip BLADERF_MODULE_RX lost_rate zero_rate (\<lambda>_. 0) of
     ((status, _, act), t) \<Rightarrow> status = 0 \<and> r_integer act = 12671965 \<and> t 73 = 0x40"
  by code_simp

lemma rational_rate_set_get_witness:
  "\<exists>rate act t got u. si5338_set_rational_sample_rate plain_chip BLADERF_MODULE_RX lost_rate zero_rate (\<lambda>_. 0) =
      ((0, rate, act), t) \<and> r_integer act = 12671965 \<and>
     si5338_get_rational_sample_rate plain_chip BLADERF_MODULE_RX t = (Inr got, u) \<and> r_integer got = 0"
  using rational_rate_set_get [OF plain_chip TrueI, of BLADERF_MODULE_RX lost_rate zero_rate "\<lambda>_. 0"] lost_rate_accepted
  by auto

end
