(* ===== verification/Nios_Legacy_Host.thy ===== *)
theory Nios_Legacy_Host
  imports Link_Devices
begin

text \<open>
  The host's side of the legacy packet format (host/libraries/libbladeRF/src/backend/usb/
  nios_legacy_access.c), which it uses until the version of the FPGA is known and for old FPGAs: values
  of several bytes are moved a byte per request.  The bulk transfers return 0 or a negative error.  The
  property sets it against the functions of nios_access.c on the joined system.
\<close>

unbundle bit_operations_syntax

section \<open>Requests\<close>

abbreviation (input) NIOS_PKT_LEGACY_DEV_VCTCXO :: u8 where "NIOS_PKT_LEGACY_DEV_VCTCXO \<equiv> 0x20"
abbreviation (input) NIOS_PKT_LEGACY_DEV_RX_GAIN_ADDR :: u8 where "NIOS_PKT_LEGACY_DEV_RX_GAIN_ADDR \<equiv> 4"
abbreviation (input) NIOS_PKT_LEGACY_DEV_RX_PHASE_ADDR :: u8 where "NIOS_PKT_LEGACY_DEV_RX_PHASE_ADDR \<equiv> 6"
abbreviation (input) NIOS_PKT_LEGACY_DEV_TX_GAIN_ADDR :: u8 where "NIOS_PKT_LEGACY_DEV_TX_GAIN_ADDR \<equiv> 8"
abbreviation (input) NIOS_PKT_LEGACY_DEV_TX_PHASE_ADDR :: u8 where "NIOS_PKT_LEGACY_DEV_TX_PHASE_ADDR \<equiv> 10"
abbreviation (input) NIOS_PKT_LEGACY_DEV_FPGA_VERSION_ID :: u8 where "NIOS_PKT_LEGACY_DEV_FPGA_VERSION_ID \<equiv> 12"
abbreviation (input) NIOS_PKT_LEGACY_PIO_ADDR_CONTROL :: u8 where "NIOS_PKT_LEGACY_PIO_ADDR_CONTROL \<equiv> 0"
abbreviation (input) NIOS_PKT_LEGACY_PIO_ADDR_XB200_SYNTH :: u8 where "NIOS_PKT_LEGACY_PIO_ADDR_XB200_SYNTH \<equiv> 36"
abbreviation (input) NIOS_PKT_LEGACY_PIO_ADDR_EXP :: u8 where "NIOS_PKT_LEGACY_PIO_ADDR_EXP \<equiv> 40"
abbreviation (input) NIOS_PKT_LEGACY_PIO_ADDR_EXP_DIR :: u8 where "NIOS_PKT_LEGACY_PIO_ADDR_EXP_DIR \<equiv> 44"

text \<open>struct uart_cmd: address and data.\<close>

type_synonym uart_cmd = "u8 \<times> u8"

definition legacy_request :: "u8 \<Rightarrow> bool \<Rightarrow> uart_cmd list \<Rightarrow> bytes" where
  "legacy_request peripheral write cmds =
     (let pkt_mode_dir = (if write then NIOS_PKT_LEGACY_MODE_DIR_WRITE else NIOS_PKT_LEGACY_MODE_DIR_READ)
      in take 16 (NIOS_PKT_LEGACY_MAGIC # (pkt_mode_dir OR peripheral OR of_nat (length cmds)) #
           concat (map (\<lambda>(addr, data). [addr, data]) cmds) @ replicate 16 0))"

text \<open>The static function nios_access of the file, which gives back the data of the commands.\<close>

definition nios_legacy_access :: "'s usb \<Rightarrow> u8 \<Rightarrow> bool \<Rightarrow> uart_cmd list \<Rightarrow> ('s, bytes) io" where
  "nios_legacy_access u peripheral write cmds =
     bindE (nios_access u (legacy_request peripheral write cmds)) (\<lambda>buf.
     returnE (if write then map snd cmds else map (\<lambda>i. buf ! (i * 2 + 3)) [0..<length cmds]))"

text \<open>The common loop of the functions that read a value byte by byte.\<close>

fun legacy_read_bytes :: "'s usb \<Rightarrow> u8 \<Rightarrow> nat \<Rightarrow> nat \<Rightarrow> ('s, bytes) io" where
  "legacy_read_bytes u addr i 0 = returnE []"
| "legacy_read_bytes u addr i (Suc n) =
     bindE (nios_legacy_access u NIOS_PKT_LEGACY_DEV_CONFIG False [(addr + of_nat i, 0xff)]) (\<lambda>data.
     bindE (legacy_read_bytes u addr (Suc i) n) (\<lambda>rest. returnE (hd data # rest)))"

fun legacy_write_bytes :: "'s usb \<Rightarrow> u8 \<Rightarrow> nat \<Rightarrow> bytes \<Rightarrow> ('s, unit) io" where
  "legacy_write_bytes u addr i [] = returnE ()"
| "legacy_write_bytes u addr i (d # ds) =
     bindE (nios_legacy_access u NIOS_PKT_LEGACY_DEV_CONFIG True [(addr + of_nat i, d)]) (\<lambda>_.
     legacy_write_bytes u addr (Suc i) ds)"

section \<open>The access functions\<close>

definition nios_legacy_pio_read :: "'s usb \<Rightarrow> u8 \<Rightarrow> ('s, u32) io" where
  "nios_legacy_pio_read u addr =
     bindE (legacy_read_bytes u addr 0 4) (\<lambda>b.
     returnE (ucast (b ! 0) OR push_bit 8 (ucast (b ! 1)) OR push_bit 16 (ucast (b ! 2)) OR push_bit 24 (ucast (b ! 3))))"

definition nios_legacy_pio_write :: "'s usb \<Rightarrow> u8 \<Rightarrow> u32 \<Rightarrow> ('s, unit) io" where
  "nios_legacy_pio_write u addr data =
     legacy_write_bytes u addr 0 (map (\<lambda>i. ucast (drop_bit (i * 8) data AND 0xff)) [0..<4])"

definition nios_legacy_config_read :: "'s usb \<Rightarrow> ('s, u32) io" where
  "nios_legacy_config_read u = nios_legacy_pio_read u NIOS_PKT_LEGACY_PIO_ADDR_CONTROL"

definition nios_legacy_config_write :: "'s usb \<Rightarrow> u32 \<Rightarrow> ('s, unit) io" where
  "nios_legacy_config_write u val = nios_legacy_pio_write u NIOS_PKT_LEGACY_PIO_ADDR_CONTROL val"

definition nios_legacy_get_fpga_version :: "'s usb \<Rightarrow> ('s, bladerf_version) io" where
  "nios_legacy_get_fpga_version u =
     bindE (legacy_read_bytes u NIOS_PKT_LEGACY_DEV_FPGA_VERSION_ID 0 4) (\<lambda>b.
     returnE \<lparr> ver_major = ucast (b ! 0), ver_minor = ucast (b ! 1),
       ver_patch = ucast (b ! 2) OR push_bit 8 (ucast (b ! 3)) \<rparr>)"

definition nios_legacy_get_timestamp :: "'s usb \<Rightarrow> bladerf_module \<Rightarrow> ('s, u64) io" where
  "nios_legacy_get_timestamp u m =
     (let base = (if m = BLADERF_MODULE_RX then 16 else 24)
      in bindE (nios_legacy_access u NIOS_PKT_LEGACY_DEV_CONFIG False
           [(base, 0xff), (base + 1, 0xff), (base + 2, 0xff), (base + 3, 0xff)]) (\<lambda>low.
         bindE (nios_legacy_access u NIOS_PKT_LEGACY_DEV_CONFIG False
           [(base + 4, 0xff), (base + 5, 0xff), (base + 6, 0xff), (base + 7, 0xff)]) (\<lambda>high.
         returnE (ucast (low ! 0) OR push_bit 8 (ucast (low ! 1)) OR push_bit 16 (ucast (low ! 2)) OR
           push_bit 24 (ucast (low ! 3)) OR push_bit 32 (ucast (high ! 0)) OR push_bit 40 (ucast (high ! 1)) OR
           push_bit 48 (ucast (high ! 2)) OR push_bit 56 (ucast (high ! 3))))))"

definition nios_legacy_si5338_read :: "'s usb \<Rightarrow> u8 \<Rightarrow> ('s, u8) io" where
  "nios_legacy_si5338_read u addr =
     bindE (nios_legacy_access u NIOS_PKT_LEGACY_DEV_SI5338 False [(addr, 0xff)]) (\<lambda>data. returnE (hd data))"

definition nios_legacy_si5338_write :: "'s usb \<Rightarrow> u8 \<Rightarrow> u8 \<Rightarrow> ('s, unit) io" where
  "nios_legacy_si5338_write u addr data =
     bindE (nios_legacy_access u NIOS_PKT_LEGACY_DEV_SI5338 True [(addr, data)]) (\<lambda>_. returnE ())"

definition nios_legacy_lms6_read :: "'s usb \<Rightarrow> u8 \<Rightarrow> ('s, u8) io" where
  "nios_legacy_lms6_read u addr =
     bindE (nios_legacy_access u NIOS_PKT_LEGACY_DEV_LMS False [(addr, 0xff)]) (\<lambda>data. returnE (hd data))"

definition nios_legacy_lms6_write :: "'s usb \<Rightarrow> u8 \<Rightarrow> u8 \<Rightarrow> ('s, unit) io" where
  "nios_legacy_lms6_write u addr data =
     bindE (nios_legacy_access u NIOS_PKT_LEGACY_DEV_LMS True [(addr, data)]) (\<lambda>_. returnE ())"

definition nios_legacy_vctcxo_trim_dac_write :: "'s usb \<Rightarrow> u64 \<Rightarrow> u16 \<Rightarrow> ('s, unit) io" where
  "nios_legacy_vctcxo_trim_dac_write u caps val =
     (let legacy_location = \<not> have_cap caps BLADERF_CAP_UPDATED_DAC_ADDR;
          base = (if legacy_location then 0 else 34);
          peripheral = (if legacy_location then NIOS_PKT_LEGACY_DEV_VCTCXO else NIOS_PKT_LEGACY_DEV_CONFIG)
      in bindE (nios_legacy_access u peripheral True [(base, ucast (val AND 0xff))]) (\<lambda>_.
         bindE (nios_legacy_access u peripheral True [(base + 1, ucast (drop_bit 8 val AND 0xff))]) (\<lambda>_.
         returnE ())))"

definition nios_legacy_set_vctcxo_tamer_mode :: "int \<Rightarrow> ('s, unit) io" where
  "nios_legacy_set_vctcxo_tamer_mode mode = throwE BLADERF_ERR_UNSUPPORTED"

definition nios_legacy_get_vctcxo_tamer_mode :: "('s, int) io" where
  "nios_legacy_get_vctcxo_tamer_mode = throwE BLADERF_ERR_UNSUPPORTED"

definition get_iq_correction :: "'s usb \<Rightarrow> u8 \<Rightarrow> ('s, int) io" where
  "get_iq_correction u addr =
     bindE (legacy_read_bytes u addr 0 2) (\<lambda>b. returnE (sint (ucast (b ! 0) OR push_bit 8 (ucast (b ! 1)) :: u16)))"

definition set_iq_correction :: "'s usb \<Rightarrow> u8 \<Rightarrow> int \<Rightarrow> ('s, unit) io" where
  "set_iq_correction u addr val =
     legacy_write_bytes u addr 0 [ucast (word_of_int val AND 0xff :: u16), ucast (drop_bit 8 (word_of_int val) AND 0xff :: u16)]"

definition nios_legacy_get_iq_gain_correction :: "'s usb \<Rightarrow> bladerf_module \<Rightarrow> ('s, int) io" where
  "nios_legacy_get_iq_gain_correction u m =
     (case m of
        BLADERF_MODULE_RX \<Rightarrow> get_iq_correction u NIOS_PKT_LEGACY_DEV_RX_GAIN_ADDR
      | BLADERF_MODULE_TX \<Rightarrow> get_iq_correction u NIOS_PKT_LEGACY_DEV_TX_GAIN_ADDR
      | BLADERF_MODULE_INVALID \<Rightarrow> throwE BLADERF_ERR_INVAL)"

definition nios_legacy_get_iq_phase_correction :: "'s usb \<Rightarrow> bladerf_module \<Rightarrow> ('s, int) io" where
  "nios_legacy_get_iq_phase_correction u m =
     (case m of
        BLADERF_MODULE_RX \<Rightarrow> get_iq_correction u NIOS_PKT_LEGACY_DEV_RX_PHASE_ADDR
      | BLADERF_MODULE_TX \<Rightarrow> get_iq_correction u NIOS_PKT_LEGACY_DEV_TX_PHASE_ADDR
      | BLADERF_MODULE_INVALID \<Rightarrow> throwE BLADERF_ERR_INVAL)"

definition nios_legacy_set_iq_gain_correction :: "'s usb \<Rightarrow> bladerf_module \<Rightarrow> int \<Rightarrow> ('s, unit) io" where
  "nios_legacy_set_iq_gain_correction u m val =
     (case m of
        BLADERF_MODULE_RX \<Rightarrow> set_iq_correction u NIOS_PKT_LEGACY_DEV_RX_GAIN_ADDR val
      | BLADERF_MODULE_TX \<Rightarrow> set_iq_correction u NIOS_PKT_LEGACY_DEV_TX_GAIN_ADDR val
      | BLADERF_MODULE_INVALID \<Rightarrow> throwE BLADERF_ERR_INVAL)"

definition nios_legacy_set_iq_phase_correction :: "'s usb \<Rightarrow> bladerf_module \<Rightarrow> int \<Rightarrow> ('s, unit) io" where
  "nios_legacy_set_iq_phase_correction u m val =
     (case m of
        BLADERF_MODULE_RX \<Rightarrow> set_iq_correction u NIOS_PKT_LEGACY_DEV_RX_PHASE_ADDR val
      | BLADERF_MODULE_TX \<Rightarrow> set_iq_correction u NIOS_PKT_LEGACY_DEV_TX_PHASE_ADDR val
      | BLADERF_MODULE_INVALID \<Rightarrow> throwE BLADERF_ERR_INVAL)"

definition nios_legacy_xb200_synth_write :: "'s usb \<Rightarrow> u32 \<Rightarrow> ('s, unit) io" where
  "nios_legacy_xb200_synth_write u val = nios_legacy_pio_write u NIOS_PKT_LEGACY_PIO_ADDR_XB200_SYNTH val"

definition nios_legacy_expansion_gpio_read :: "'s usb \<Rightarrow> ('s, u32) io" where
  "nios_legacy_expansion_gpio_read u = nios_legacy_pio_read u NIOS_PKT_LEGACY_PIO_ADDR_EXP"

definition nios_legacy_expansion_gpio_write :: "'s usb \<Rightarrow> u32 \<Rightarrow> u32 \<Rightarrow> ('s, unit) io" where
  "nios_legacy_expansion_gpio_write u bits val =
     bindE (if bits \<noteq> 0xffffffff then
              bindE (nios_legacy_pio_read u NIOS_PKT_LEGACY_PIO_ADDR_EXP) (\<lambda>tmp.
              returnE ((tmp AND NOT bits) OR (val AND bits)))
            else returnE val)
       (\<lambda>val. nios_legacy_pio_write u NIOS_PKT_LEGACY_PIO_ADDR_EXP val)"

definition nios_legacy_expansion_gpio_dir_read :: "'s usb \<Rightarrow> ('s, u32) io" where
  "nios_legacy_expansion_gpio_dir_read u = nios_legacy_pio_read u NIOS_PKT_LEGACY_PIO_ADDR_EXP_DIR"

definition nios_legacy_expansion_gpio_dir_write :: "'s usb \<Rightarrow> u32 \<Rightarrow> u32 \<Rightarrow> ('s, unit) io" where
  "nios_legacy_expansion_gpio_dir_write u bits val =
     bindE (if bits \<noteq> 0xffffffff then
              bindE (nios_legacy_pio_read u NIOS_PKT_LEGACY_PIO_ADDR_EXP_DIR) (\<lambda>tmp.
              returnE ((tmp AND NOT bits) OR (val AND bits)))
            else returnE val)
       (\<lambda>val. nios_legacy_pio_write u NIOS_PKT_LEGACY_PIO_ADDR_EXP_DIR val)"

section \<open>One request\<close>

definition legacy_idle :: "'z link \<Rightarrow> bool" where
  "legacy_idle s \<longleftrightarrow> resp_ok s \<and> rd_n s = 0 \<and> wr_n s = 0"

lemma legacy_request_one:
  "legacy_request dev w [(a, d)] = [NIOS_PKT_LEGACY_MAGIC,
     (if w then NIOS_PKT_LEGACY_MODE_DIR_WRITE else NIOS_PKT_LEGACY_MODE_DIR_READ) OR dev OR 1, a, d, 0, 0, 0, 0,
     0, 0, 0, 0, 0, 0, 0, 0]"
  by (simp add: legacy_request_def Let_def numeral_eq_Suc)

lemma legacy_exchange:
  fixes s :: "'z link"
  assumes "length req = 16" "req ! 0 = NIOS_PKT_LEGACY_MAGIC"
    "pkt_legacy board_bus req (pkt_resp s) (asked req s) = Some (resp, t)" "length resp = 16"
  shows "nios_access fpga_usb req s = (Inr resp, answered resp t)"
proof -
  have "find_handler (req ! PKT_MAGIC_IDX) = Some PKT_LEGACY"
    using assms(2) find_handler_magic [of PKT_LEGACY] by (simp add: handler_magic_def)
  then show ?thesis using assms by (intro nios_access_fpga [where h = PKT_LEGACY]) (simp_all add: handler_exec_def)
qed

lemma legacy_frame [simp]:
  "rd_n (answered resp s) = rd_n s" "rd_payload (answered resp s) = rd_payload s" "rd_last_param (answered resp s) = rd_last_param s"
  "wr_n (answered resp s) = wr_n s" "wr_payload (answered resp s) = wr_payload s" "wr_last_param (answered resp s) = wr_last_param s"
  "rd_n (asked req s) = rd_n s" "rd_payload (asked req s) = rd_payload s" "rd_last_param (asked req s) = rd_last_param s"
  "wr_n (asked req s) = wr_n s" "wr_payload (asked req s) = wr_payload s" "wr_last_param (asked req s) = wr_last_param s"
  by (simp_all add: asked_def answered_def command_uart_write_response_def bindS_apply IOWR_32DIRECT_def on_hw_def board_write32_def)

text \<open>Where a read stands after i bytes: the payload was fetched with the first one.\<close>

definition reading :: "'z link \<Rightarrow> config_param \<Rightarrow> nat \<Rightarrow> u64 \<Rightarrow> bool" where
  "reading s p i v \<longleftrightarrow> resp_ok s \<and> rd_n s = of_nat i \<and> (i \<noteq> 0 \<longrightarrow> rd_last_param s = p \<and> rd_payload s = v)"

lemma read_byte:
  fixes s :: "'z link"
  assumes "reading s p i v" "lookup_param a = p" "i < unat (cp_len (config_info p))" "unat (cp_len (config_info p)) \<le> 8"
    and v: "\<And>u :: 'z link. pio u = pio s \<Longrightarrow> perform_config_read board_bus p u = (v, u)"
  shows "\<exists>t. nios_legacy_access fpga_usb NIOS_PKT_LEGACY_DEV_CONFIG False [(a, 0xff)] s =
      (Inr [ucast (drop_bit (i * 8) v)], t) \<and>
    reading t p (if Suc i < unat (cp_len (config_info p)) then Suc i else 0) v \<and> pio t = pio s \<and> wr_n t = wr_n s"
proof -
  let ?req = "legacy_request NIOS_PKT_LEGACY_DEV_CONFIG False [(a, 0xff)]"
  have i8: "i < 8" using assms(3,4) by simp
  then have u: "unat (of_nat i :: u8) = i" by (simp add: unat_of_nat)
  let ?u = "asked ?req s"
  have r: "length (pkt_resp s) = 16" and n: "rd_n s = of_nat i" and c: "i \<noteq> 0 \<longrightarrow> rd_last_param s = p \<and> rd_payload s = v"
    using assms(1) by (simp_all add: reading_def resp_ok_def)
  have P: "perform_config_read board_bus p (?u\<lparr>rd_n := 0\<rparr>) = (v, ?u\<lparr>rd_n := 0\<rparr>)"
    by (rule v) (simp add: pio_def)
  have n0: "(of_nat i :: u8) = 0 \<longleftrightarrow> i = 0" using u by (auto simp: word_unat_eq_iff)
  have l: "cp_len (config_info p) \<le> of_nat i + 1 \<longleftrightarrow> \<not> Suc i < unat (cp_len (config_info p))"
  proof -
    have "(of_nat i + 1 :: u8) = of_nat (Suc i)" by simp
    also have "unat \<dots> = Suc i" using i8 by (subst unat_of_nat) simp
    finally have "unat (of_nat i + 1 :: u8) = Suc i" .
    then show ?thesis by (simp add: word_le_nat_alt not_less)
  qed
  let ?t = "(if i = 0 then ?u\<lparr>rd_n := 0, rd_payload := v, rd_last_param := p\<rparr> else ?u)
    \<lparr>rd_n := (if Suc i < unat (cp_len (config_info p)) then of_nat i + 1 else 0)\<rparr>"
  obtain resp where resp: "pkt_legacy board_bus ?req (pkt_resp s) ?u = Some (resp, ?t)" "length resp = 16"
      "resp ! 3 = ucast (drop_bit (i * 8) v)"
  proof (cases "i = 0")
    case True
    show ?thesis
      by (rule that [of "(pkt_resp s)[0 := 78, Suc 0 := 129, 2 := a - cp_start (config_info p), 3 := ucast v]"])
        (use True n l P assms(2) r in \<open>simp_all add: pkt_legacy_def legacy_request_one Let_def legacy_pkt_read_def
          legacy_config_read_def bindS_apply\<close>)
  next
    case False
    then show ?thesis
      by (intro that [of "(pkt_resp s)[0 := 78, Suc 0 := 129, 2 := a - cp_start (config_info p), 3 := ucast (drop_bit (i * 8) v)]"])
        (use n n0 u c l assms(2) r in \<open>simp_all add: pkt_legacy_def legacy_request_one Let_def legacy_pkt_read_def
          legacy_config_read_def bindS_apply\<close>)
  qed
  have "nios_access fpga_usb ?req s = (Inr resp, answered resp ?t)"
    using resp by (intro legacy_exchange) (simp_all add: legacy_request_one)
  moreover have "reading (answered resp ?t) p (if Suc i < unat (cp_len (config_info p)) then Suc i else 0) v"
    using resp(2) c n by (simp add: reading_def resp_ok_def add.commute)
  ultimately show ?thesis using resp(3)
    by (intro exI [of _ "answered resp ?t"]) (simp add: nios_legacy_access_def bindE_def returnE_def pio_def numeral_eq_Suc)
qed

section \<open>All bytes of a value\<close>

abbreviation plen :: "config_param \<Rightarrow> nat" where
  "plen p \<equiv> unat (cp_len (config_info p))"

lemma read_value:
  fixes s :: "'z link"
  assumes "reading s p (if i < plen p then i else 0) v" "i + n = plen p" "plen p \<le> 8"
    "\<And>j. j < plen p \<Longrightarrow> lookup_param (a + of_nat j) = p"
    "\<And>u :: 'z link. pio u = pio s \<Longrightarrow> perform_config_read board_bus p u = (v, u)"
  shows "\<exists>t. legacy_read_bytes fpga_usb a i n s = (Inr (map (\<lambda>j. ucast (drop_bit (j * 8) v)) [i..<plen p]), t) \<and>
    reading t p 0 v \<and> pio t = pio s \<and> wr_n t = wr_n s"
  using assms(1,2,5)
proof (induction n arbitrary: i s)
  case 0
  then show ?case by (simp add: returnE_def)
next
  case (Suc n)
  then have i: "i < plen p" "reading s p i v" by simp_all
  obtain t where t: "nios_legacy_access fpga_usb NIOS_PKT_LEGACY_DEV_CONFIG False [(a + of_nat i, 0xff)] s =
      (Inr [ucast (drop_bit (i * 8) v)], t)" "reading t p (if Suc i < plen p then Suc i else 0) v" "pio t = pio s" "wr_n t = wr_n s"
    using read_byte [OF i(2) assms(4) [OF i(1)] i(1) assms(3) Suc.prems(3)] by blast
  have "Suc i + n = plen p" using Suc.prems(2) by simp
  from Suc.IH [OF t(2) this] Suc.prems(3) t(3) obtain u
    where u: "legacy_read_bytes fpga_usb a (Suc i) n t = (Inr (map (\<lambda>j. ucast (drop_bit (j * 8) v)) [Suc i..<plen p]), u)"
      "reading u p 0 v" "pio u = pio t" "wr_n u = wr_n t" by auto
  then show ?case using t i(1) by (intro exI [of _ u]) (simp add: bindE_def returnE_def upt_conv_Cons del: upt_Suc)
qed

text \<open>Writes, until the last byte and with it.\<close>

definition writing :: "'z link \<Rightarrow> config_param \<Rightarrow> nat \<Rightarrow> u64 \<Rightarrow> bool" where
  "writing s p i v \<longleftrightarrow> resp_ok s \<and> wr_n s = of_nat i \<and> (if i = 0 then v = 0 else wr_last_param s = p \<and> wr_payload s = v)"

lemma write_byte:
  fixes s :: "'z link"
  assumes "writing s p i v" "lookup_param a = p" "i < plen p" "plen p \<le> 8"
    and P: "\<And>u :: 'z link. Suc i = plen p \<Longrightarrow> pio u = pio s \<Longrightarrow>
      \<exists>b. perform_config_write board_bus p (v OR legacy_shifted d (of_nat i)) u = ((), u\<lparr>nios_hw := b\<rparr>) \<and> bd_pio b = P"
  shows "\<exists>t. nios_legacy_access fpga_usb NIOS_PKT_LEGACY_DEV_CONFIG True [(a, d)] s = (Inr [d], t) \<and> rd_n t = rd_n s \<and>
    (if Suc i < plen p then writing t p (Suc i) (v OR legacy_shifted d (of_nat i)) \<and> pio t = pio s
     else resp_ok t \<and> wr_n t = 0 \<and> pio t = P)"
proof -
  let ?req = "legacy_request NIOS_PKT_LEGACY_DEV_CONFIG True [(a, d)]"
  let ?u = "asked ?req s"
  have i8: "i < 8" using assms(3,4) by simp
  then have u: "unat (of_nat i :: u8) = i" by (simp add: unat_of_nat)
  have r: "length (pkt_resp s) = 16" and n: "rd_n ?u = rd_n s" "wr_n s = of_nat i"
    and c: "i \<noteq> 0 \<longrightarrow> wr_last_param s = p \<and> wr_payload s = v" "i = 0 \<longrightarrow> v = 0"
    using assms(1) by (simp_all add: writing_def resp_ok_def split: if_splits)
  have n0: "(of_nat i :: u8) = 0 \<longleftrightarrow> i = 0" using u by (auto simp: word_unat_eq_iff)
  have lt: "of_nat i < cp_len (config_info p)" using u assms(3) by (simp add: word_less_nat_alt)
  have l: "cp_len (config_info p) \<le> of_nat i + 1 \<longleftrightarrow> \<not> Suc i < plen p"
  proof -
    have "(of_nat i + 1 :: u8) = of_nat (Suc i)" by simp
    also have "unat \<dots> = Suc i" using i8 by (subst unat_of_nat) simp
    finally have "unat (of_nat i + 1 :: u8) = Suc i" .
    then show ?thesis by (simp add: word_le_nat_alt not_less)
  qed
  let ?v = "v OR legacy_shifted d (of_nat i)"
  let ?u1 = "?u\<lparr>wr_payload := ?v, wr_n := of_nat i + 1\<rparr>"
  let ?resp = "(pkt_resp s)[0 := 78, Suc 0 := 65, 2 := a - cp_start (config_info p), 3 := 0]"
  show ?thesis
  proof (cases "Suc i < plen p")
    case True
    let ?t = "?u1\<lparr>wr_last_param := p\<rparr>"
    have "pkt_legacy board_bus ?req (pkt_resp s) ?u = Some (?resp, ?t)"
      using True n n0 c l lt assms(2) r
      by (cases "i = 0") (simp_all add: pkt_legacy_def legacy_request_one Let_def legacy_pkt_write_def
          legacy_config_write_def bindS_apply)
    then have "nios_access fpga_usb ?req s = (Inr ?resp, answered ?resp ?t)"
      using r by (intro legacy_exchange) (simp_all add: legacy_request_one)
    moreover have "writing (answered ?resp ?t) p (Suc i) ?v" "pio (answered ?resp ?t) = pio s"
      using r by (simp_all add: writing_def resp_ok_def add.commute pio_def)
    ultimately show ?thesis using True
      by (intro exI [of _ "answered ?resp ?t"]) (simp add: nios_legacy_access_def bindE_def returnE_def)
  next
    case False
    have "pio ?u1 = pio s" by (simp add: pio_def)
    with P False assms(3) obtain b where b: "perform_config_write board_bus p ?v ?u1 = ((), ?u1\<lparr>nios_hw := b\<rparr>)" "bd_pio b = P"
      by (metis Suc_lessI)
    let ?t = "?u1\<lparr>nios_hw := b, wr_n := 0, wr_last_param := CONFIG_UNKNOWN\<rparr>"
    have "pkt_legacy board_bus ?req (pkt_resp s) ?u = Some (?resp, ?t)"
      using False n n0 c l lt assms(2) r b(1)
      by (cases "i = 0") (simp_all add: pkt_legacy_def legacy_request_one Let_def legacy_pkt_write_def
          legacy_config_write_def bindS_apply)
    then have "nios_access fpga_usb ?req s = (Inr ?resp, answered ?resp ?t)"
      using r by (intro legacy_exchange) (simp_all add: legacy_request_one)
    moreover have "pio (answered ?resp ?t) = P" using b(2) by (simp add: pio_def)
    ultimately show ?thesis using False r
      by (intro exI [of _ "answered ?resp ?t"]) (simp add: nios_legacy_access_def bindE_def returnE_def)
  qed
qed

fun collected :: "nat \<Rightarrow> u64 \<Rightarrow> bytes \<Rightarrow> u64" where
  "collected i v [] = v"
| "collected i v (d # ds) = collected (Suc i) (v OR legacy_shifted d (of_nat i)) ds"

lemma write_value:
  fixes s :: "'z link"
  assumes "writing s p i v" "i + length ds = plen p" "ds \<noteq> []" "plen p \<le> 8"
    "\<And>j. j < plen p \<Longrightarrow> lookup_param (a + of_nat j) = p"
    "\<And>u :: 'z link. pio u = pio s \<Longrightarrow>
      \<exists>b. perform_config_write board_bus p (collected i v ds) u = ((), u\<lparr>nios_hw := b\<rparr>) \<and> bd_pio b = P"
  shows "\<exists>t. legacy_write_bytes fpga_usb a i ds s = (Inr (), t) \<and> rd_n t = rd_n s \<and> resp_ok t \<and> wr_n t = 0 \<and> pio t = P"
  using assms(1,2,3,6)
proof (induction ds arbitrary: i v s)
  case (Cons d ds)
  then have i: "i < plen p" by simp
  have q: "\<exists>b. perform_config_write board_bus p (v OR legacy_shifted d (of_nat i)) u = ((), u\<lparr>nios_hw := b\<rparr>) \<and> bd_pio b = P"
    if "Suc i = plen p" "pio u = pio s" for u :: "'z link"
  proof -
    have "ds = []" using Cons.prems(2) that(1) by (cases ds) simp_all
    then show ?thesis using Cons.prems(4) [OF that(2)] by simp
  qed
  obtain t where t: "nios_legacy_access fpga_usb NIOS_PKT_LEGACY_DEV_CONFIG True [(a + of_nat i, d)] s = (Inr [d], t)" "rd_n t = rd_n s"
      "if Suc i < plen p then writing t p (Suc i) (v OR legacy_shifted d (of_nat i)) \<and> pio t = pio s
       else resp_ok t \<and> wr_n t = 0 \<and> pio t = P"
    using write_byte [OF Cons.prems(1) assms(5) [OF i] i assms(4) q] by blast
  show ?case
  proof (cases "Suc i < plen p")
    case True
    then have w: "writing t p (Suc i) (v OR legacy_shifted d (of_nat i))" "pio t = pio s" using t(3) by simp_all
    have n: "Suc i + length ds = plen p" "ds \<noteq> []" using Cons.prems(2) True by auto
    from Cons.IH [OF w(1) n] Cons.prems(4) w(2) obtain u
      where "legacy_write_bytes fpga_usb a (Suc i) ds t = (Inr (), u)" "rd_n u = rd_n t" "resp_ok u" "wr_n u = 0" "pio u = P"
      by auto
    then show ?thesis using t(1,2) by (simp add: bindE_def)
  next
    case False
    then have "ds = []" using Cons.prems(2) i by (cases ds) simp_all
    then show ?thesis using t False by (simp add: bindE_def returnE_def)
  qed
qed simp

lemma idle_reading: "legacy_idle s \<Longrightarrow> reading s p (if 0 < plen p then 0 else 0) v"
  by (simp add: legacy_idle_def reading_def)

lemma idle_writing: "legacy_idle s \<Longrightarrow> writing s p 0 0"
  by (simp add: legacy_idle_def writing_def)

text \<open>The two sizes in use.\<close>

lemma value_bytes:
  "ucast (collected 0 0 (map (\<lambda>i. ucast (drop_bit (i * 8) (d :: u32) AND 0xff)) [0..<4])) = d"
  "ucast (collected 0 0 [ucast (x AND 0xff :: u16), ucast (drop_bit 8 x AND 0xff)]) = x"
  by (simp_all add: upt_rec legacy_shifted_def word32_eq_iff word16_eq_iff bit_simps bit_word_high)

lemma less_4: "j < (4::nat) \<Longrightarrow> j = 0 \<or> j = 1 \<or> j = 2 \<or> j = 3" by linarith
lemma less_2: "j < (2::nat) \<Longrightarrow> j = 0 \<or> j = 1" by linarith

lemma lookup_params:
  "j < 4 \<Longrightarrow> lookup_param (of_nat j) = CONFIG_CONTROL_REG"
  "j < 4 \<Longrightarrow> lookup_param (12 + of_nat j) = CONFIG_FPGA_VERSION"
  "j < 4 \<Longrightarrow> lookup_param (40 + of_nat j) = CONFIG_EXPANSION"
  "j < 4 \<Longrightarrow> lookup_param (44 + of_nat j) = CONFIG_EXPANSION_DIR"
  "j < 2 \<Longrightarrow> lookup_param (4 + of_nat j) = CONFIG_IQ_CORR_RX_GAIN"
  "j < 2 \<Longrightarrow> lookup_param (6 + of_nat j) = CONFIG_IQ_CORR_RX_PHASE"
  "j < 2 \<Longrightarrow> lookup_param (8 + of_nat j) = CONFIG_IQ_CORR_TX_GAIN"
  "j < 2 \<Longrightarrow> lookup_param (10 + of_nat j) = CONFIG_IQ_CORR_TX_PHASE"
  by (drule less_4 less_2; elim disjE; simp add: lookup_param_def config_params_def)+

lemma plens:
  "plen CONFIG_CONTROL_REG = 4" "plen CONFIG_FPGA_VERSION = 4" "plen CONFIG_EXPANSION = 4" "plen CONFIG_EXPANSION_DIR = 4"
  "plen CONFIG_IQ_CORR_RX_GAIN = 2" "plen CONFIG_IQ_CORR_RX_PHASE = 2" "plen CONFIG_IQ_CORR_TX_GAIN = 2" "plen CONFIG_IQ_CORR_TX_PHASE = 2"
  by (simp_all add: config_info_def config_params_def)

lemma pio_read_link:
  fixes s :: "'z link"
  assumes "legacy_idle s" "plen p = 4" "\<And>j. j < 4 \<Longrightarrow> lookup_param (a + of_nat j) = p"
    "\<And>u :: 'z link. pio u = pio s \<Longrightarrow> perform_config_read board_bus p u = (ucast w, u)"
  shows "\<exists>t. nios_legacy_pio_read fpga_usb a s = (Inr w, t) \<and> legacy_idle t \<and> pio t = pio s"
proof -
  obtain t where t: "legacy_read_bytes fpga_usb a 0 4 s = (Inr (map (\<lambda>j. ucast (drop_bit (j * 8) (ucast w :: u64))) [0..<4]), t)"
      "reading t p 0 (ucast w)" "pio t = pio s" "wr_n t = wr_n s"
    using read_value [OF idle_reading [OF assms(1)], where n = 4 and a = a and p = p and v = "ucast w"] assms(2-4) by auto
  have "ucast (ucast (ucast w :: u64) :: u8) OR push_bit 8 (ucast (ucast (drop_bit 8 (ucast w :: u64)) :: u8)) OR
      push_bit 16 (ucast (ucast (drop_bit 16 (ucast w :: u64)) :: u8)) OR push_bit 24 (ucast (ucast (drop_bit 24 (ucast w :: u64)) :: u8)) = w"
    by (simp add: word32_eq_iff bit_simps)
  then show ?thesis using t assms(1)
    by (intro exI [of _ t]) (simp add: nios_legacy_pio_read_def bindE_def returnE_def legacy_idle_def reading_def upt_rec)
qed

lemma pio_write_link:
  fixes s :: "'z link"
  assumes "legacy_idle s" "plen p = 4" "\<And>j. j < 4 \<Longrightarrow> lookup_param (a + of_nat j) = p"
    "\<And>u :: 'z link. \<And>v. ucast v = d \<Longrightarrow> pio u = pio s \<Longrightarrow>
      \<exists>b. perform_config_write board_bus p v u = ((), u\<lparr>nios_hw := b\<rparr>) \<and> bd_pio b = P"
  shows "\<exists>t. nios_legacy_pio_write fpga_usb a d s = (Inr (), t) \<and> legacy_idle t \<and> pio t = P"
proof -
  let ?ds = "map (\<lambda>i. ucast (drop_bit (i * 8) d AND 0xff)) [0..<4] :: bytes"
  obtain t where "legacy_write_bytes fpga_usb a 0 ?ds s = (Inr (), t)" "rd_n t = rd_n s" "resp_ok t" "wr_n t = 0" "pio t = P"
    using write_value [OF idle_writing [OF assms(1)], where ds = ?ds and a = a and p = p and P = P] assms(2,3)
      assms(4) [OF value_bytes(1)] by (auto simp del: upt_rec_numeral)
  then show ?thesis using assms(1)
    by (intro exI [of _ t]) (simp add: nios_legacy_pio_write_def legacy_idle_def del: upt_rec_numeral)
qed

lemma iq_read_link:
  fixes s :: "'z link"
  assumes "legacy_idle s" "plen p = 2" "\<And>j. j < 2 \<Longrightarrow> lookup_param (a + of_nat j) = p"
    "\<And>u :: 'z link. pio u = pio s \<Longrightarrow> perform_config_read board_bus p u = (ucast w, u)"
  shows "\<exists>t. get_iq_correction fpga_usb a s = (Inr (sint (w :: u16)), t) \<and> legacy_idle t \<and> pio t = pio s"
proof -
  obtain t where t: "legacy_read_bytes fpga_usb a 0 2 s = (Inr (map (\<lambda>j. ucast (drop_bit (j * 8) (ucast w :: u64))) [0..<2]), t)"
      "reading t p 0 (ucast w)" "pio t = pio s" "wr_n t = wr_n s"
    using read_value [OF idle_reading [OF assms(1)], where n = 2 and a = a and p = p and v = "ucast w"] assms(2-4) by auto
  have "ucast (ucast (ucast w :: u64) :: u8) OR push_bit 8 (ucast (ucast (drop_bit 8 (ucast w :: u64)) :: u8)) = w"
    by (simp add: word16_eq_iff bit_simps)
  then show ?thesis using t assms(1)
    by (intro exI [of _ t]) (simp add: get_iq_correction_def bindE_def returnE_def legacy_idle_def reading_def upt_rec)
qed

lemma iq_write_link:
  fixes s :: "'z link"
  assumes "legacy_idle s" "plen p = 2" "\<And>j. j < 2 \<Longrightarrow> lookup_param (a + of_nat j) = p"
    "\<And>u :: 'z link. \<And>v. ucast v = (word_of_int d :: u16) \<Longrightarrow> pio u = pio s \<Longrightarrow>
      \<exists>b. perform_config_write board_bus p v u = ((), u\<lparr>nios_hw := b\<rparr>) \<and> bd_pio b = P"
  shows "\<exists>t. set_iq_correction fpga_usb a d s = (Inr (), t) \<and> legacy_idle t \<and> pio t = P"
proof -
  let ?ds = "[ucast (word_of_int d AND 0xff :: u16), ucast (drop_bit 8 (word_of_int d) AND 0xff :: u16)] :: bytes"
  obtain t where "legacy_write_bytes fpga_usb a 0 ?ds s = (Inr (), t)" "rd_n t = rd_n s" "resp_ok t" "wr_n t = 0" "pio t = P"
    using write_value [OF idle_writing [OF assms(1)], where ds = ?ds and a = a and p = p and P = P] assms(2,3)
      assms(4) [OF value_bytes(2)] by auto
  then show ?thesis using assms(1)
    by (intro exI [of _ t]) (simp add: set_iq_correction_def legacy_idle_def)
qed

section \<open>The same as the functions of nios_access.c\<close>

text \<open>Both ways succeed, with the same value and the same effect on the parallel ports, and the counters of
  the legacy format stand at the start again.\<close>

definition same_effect :: "('z link, 'a) io \<Rightarrow> ('z link, 'a) io \<Rightarrow> 'z link \<Rightarrow> bool" where
  "same_effect old new s \<longleftrightarrow>
     (\<exists>r t u. old s = (Inr r, t) \<and> new s = (Inr r, u) \<and> pio t = pio u \<and> legacy_idle t \<and> resp_ok u)"

lemma same_effectI:
  "\<exists>t. old s = (Inr r, t) \<and> legacy_idle t \<and> pio t = P \<Longrightarrow> \<exists>u. new s = (Inr r, u) \<and> resp_ok u \<and> pio u = P \<Longrightarrow>
    same_effect old new s"
  by (auto simp add: same_effect_def)

lemma control_reg_pio:
  "control_reg_read board_bus s = (pio s CONTROL_BASE, s)"
  "control_reg_write board_bus d s = ((), s\<lparr>nios_hw := (nios_hw s)\<lparr>bd_pio := (pio s)(CONTROL_BASE := d)\<rparr>\<rparr>)"
  by (simp_all add: control_reg_read_def control_reg_write_def board_pio pio_def)

lemma config_link:
  fixes s :: "'z link"
  assumes "resp_ok s"
  shows "\<exists>t. nios_config_read fpga_usb s = (Inr (pio s CONTROL_BASE), t) \<and> resp_ok t \<and> pio t = pio s"
    "\<exists>t. nios_config_write fpga_usb d s = (Inr (), t) \<and> resp_ok t \<and> pio t = (pio s)(CONTROL_BASE := d)"
proof -
  let ?r = "nios_pkt_8x32_pack stack_buf NIOS_PKT_8x32_TARGET_CONTROL False 0 0"
  have "perform_read_8x32 board_bus NIOS_PKT_8x32_TARGET_CONTROL (asked ?r s) =
      ((True, pio s CONTROL_BASE), asked ?r s)"
    by (simp add: perform_read_8x32_def bindS_apply control_reg_pio)
  from nios_8x32_read_link [OF _ this, of 0] assms
  show "\<exists>t. nios_config_read fpga_usb s = (Inr (pio s CONTROL_BASE), t) \<and> resp_ok t \<and> pio t = pio s"
    by (auto simp add: nios_config_read_def resp_ok_def)
  let ?w = "nios_pkt_8x32_pack stack_buf NIOS_PKT_8x32_TARGET_CONTROL True 0 d"
  have "perform_write_8x32 board_bus NIOS_PKT_8x32_TARGET_CONTROL d (asked ?w s) =
      (True, (asked ?w s)\<lparr>nios_hw := (nios_hw (asked ?w s))\<lparr>bd_pio := (pio s)(CONTROL_BASE := d)\<rparr>\<rparr>)"
    by (simp add: perform_write_8x32_def bindS_apply control_reg_pio)
  from nios_8x32_write_link [OF _ this] assms
  show "\<exists>t. nios_config_write fpga_usb d s = (Inr (), t) \<and> resp_ok t \<and> pio t = (pio s)(CONTROL_BASE := d)"
    by (auto simp add: nios_config_write_def resp_ok_def pio_def)
qed

lemma config_same:
  fixes s :: "'z link"
  assumes "legacy_idle s"
  shows "same_effect (nios_legacy_config_read fpga_usb) (nios_config_read fpga_usb) s"
    "same_effect (nios_legacy_config_write fpga_usb d) (nios_config_write fpga_usb d) s"
proof -
  have r: "resp_ok s" using assms by (simp add: legacy_idle_def)
  have "\<exists>t. nios_legacy_pio_read fpga_usb 0 s = (Inr (pio s CONTROL_BASE), t) \<and> legacy_idle t \<and> pio t = pio s"
    by (rule pio_read_link [OF assms plens(1)])
      (simp_all add: lookup_params perform_config_read_def bindS_apply control_reg_pio)
  then show "same_effect (nios_legacy_config_read fpga_usb) (nios_config_read fpga_usb) s"
    using config_link(1) [OF r] by (intro same_effectI) (simp_all add: nios_legacy_config_read_def)
  have "\<exists>t. nios_legacy_pio_write fpga_usb 0 d s = (Inr (), t) \<and> legacy_idle t \<and> pio t = (pio s)(CONTROL_BASE := d)"
    by (rule pio_write_link [OF assms plens(1)])
      (auto simp add: lookup_params perform_config_write_def control_reg_pio intro!: exI)
  then show "same_effect (nios_legacy_config_write fpga_usb d) (nios_config_write fpga_usb d) s"
    using config_link(2) [OF r] by (intro same_effectI) (simp_all add: nios_legacy_config_write_def)
qed

lemma iq_same:
  fixes s :: "'z link"
  assumes "legacy_idle s" "m \<noteq> BLADERF_MODULE_INVALID"
  shows "same_effect (nios_legacy_get_iq_gain_correction fpga_usb m) (nios_get_iq_gain_correction fpga_usb m) s"
    "same_effect (nios_legacy_get_iq_phase_correction fpga_usb m) (nios_get_iq_phase_correction fpga_usb m) s"
    "same_effect (nios_legacy_set_iq_gain_correction fpga_usb m v) (nios_set_iq_gain_correction fpga_usb m v) s"
    "same_effect (nios_legacy_set_iq_phase_correction fpga_usb m v) (nios_set_iq_phase_correction fpga_usb m v) s"
proof -
  have r: "resp_ok s" using assms(1) by (simp add: legacy_idle_def)
  let ?w = "pio s (iq_base m)"
  have "\<exists>t. nios_legacy_get_iq_gain_correction fpga_usb m s = (Inr (sint (ucast ?w :: u16)), t) \<and> legacy_idle t \<and> pio t = pio s"
    using assms(2) by (cases m) (simp_all add: nios_legacy_get_iq_gain_correction_def, (rule iq_read_link [OF assms(1)],
      rule plens, simp_all add: lookup_params perform_config_read_def bindS_apply iqbal_board)+)
  with iq_reads(1) [OF r assms(2)]
  show "same_effect (nios_legacy_get_iq_gain_correction fpga_usb m) (nios_get_iq_gain_correction fpga_usb m) s"
    by (blast intro: same_effectI)
  have "\<exists>t. nios_legacy_get_iq_phase_correction fpga_usb m s = (Inr (sint (ucast (drop_bit 16 ?w) :: u16)), t) \<and> legacy_idle t \<and> pio t = pio s"
    using assms(2) by (cases m) (simp_all add: nios_legacy_get_iq_phase_correction_def, (rule iq_read_link [OF assms(1)],
      rule plens, simp_all add: lookup_params perform_config_read_def bindS_apply iqbal_board)+)
  with iq_reads(2) [OF r assms(2)]
  show "same_effect (nios_legacy_get_iq_phase_correction fpga_usb m) (nios_get_iq_phase_correction fpga_usb m) s"
    by (blast intro: same_effectI)
  let ?g = "(pio s)(iq_base m := (?w AND 0xffff0000) OR ucast (word_of_int v :: u16))"
  have "\<exists>t. nios_legacy_set_iq_gain_correction fpga_usb m v s = (Inr (), t) \<and> legacy_idle t \<and> pio t = ?g"
    using assms(2) iq_write_link [OF assms(1) plens(5), of 4 v ?g] iq_write_link [OF assms(1) plens(7), of 8 v ?g]
    by (cases m) (fastforce simp add: nios_legacy_set_iq_gain_correction_def lookup_params perform_config_write_def iqbal_board pio_def)+
  with iq_writes(1) [OF r assms(2)]
  show "same_effect (nios_legacy_set_iq_gain_correction fpga_usb m v) (nios_set_iq_gain_correction fpga_usb m v) s"
    by (blast intro: same_effectI)
  let ?p = "(pio s)(iq_base m := (?w AND 0x0000ffff) OR push_bit 16 (ucast (word_of_int v :: u16)))"
  have "\<exists>t. nios_legacy_set_iq_phase_correction fpga_usb m v s = (Inr (), t) \<and> legacy_idle t \<and> pio t = ?p"
    using assms(2) iq_write_link [OF assms(1) plens(6), of 6 v ?p] iq_write_link [OF assms(1) plens(8), of 10 v ?p]
    by (cases m) (fastforce simp add: nios_legacy_set_iq_phase_correction_def lookup_params perform_config_write_def iqbal_board pio_def)+
  with iq_writes(2) [OF r assms(2)]
  show "same_effect (nios_legacy_set_iq_phase_correction fpga_usb m v) (nios_set_iq_phase_correction fpga_usb m v) s"
    by (blast intro: same_effectI)
qed

text \<open>The expansion port: the legacy functions read, mask and write back what the others mask in the FPGA.\<close>

lemma pio_port_link:
  fixes s :: "'z link"
  assumes "legacy_idle s"
  shows "\<exists>t. nios_legacy_pio_read fpga_usb 40 s = (Inr (pio s XB_GPIO_BASE), t) \<and> legacy_idle t \<and> pio t = pio s"
    "\<exists>t. nios_legacy_pio_read fpga_usb 44 s = (Inr (pio s XB_GPIO_DIR_BASE), t) \<and> legacy_idle t \<and> pio t = pio s"
    "\<exists>t. nios_legacy_pio_write fpga_usb 40 d s = (Inr (), t) \<and> legacy_idle t \<and> pio t = (pio s)(XB_GPIO_BASE := d)"
    "\<exists>t. nios_legacy_pio_write fpga_usb 44 d s = (Inr (), t) \<and> legacy_idle t \<and> pio t = (pio s)(XB_GPIO_DIR_BASE := d)"
proof -
  note defs = lookup_params perform_config_read_def perform_config_write_def bindS_apply expansion_board pio_def
  show "\<exists>t. nios_legacy_pio_read fpga_usb 40 s = (Inr (pio s XB_GPIO_BASE), t) \<and> legacy_idle t \<and> pio t = pio s"
    by (rule pio_read_link [OF assms plens(3)]; simp add: defs)
  show "\<exists>t. nios_legacy_pio_read fpga_usb 44 s = (Inr (pio s XB_GPIO_DIR_BASE), t) \<and> legacy_idle t \<and> pio t = pio s"
    by (rule pio_read_link [OF assms plens(4)]; simp add: defs)
  show "\<exists>t. nios_legacy_pio_write fpga_usb 40 d s = (Inr (), t) \<and> legacy_idle t \<and> pio t = (pio s)(XB_GPIO_BASE := d)"
    by (rule pio_write_link [OF assms plens(3)]; auto simp add: defs intro!: exI)
  show "\<exists>t. nios_legacy_pio_write fpga_usb 44 d s = (Inr (), t) \<and> legacy_idle t \<and> pio t = (pio s)(XB_GPIO_DIR_BASE := d)"
    by (rule pio_write_link [OF assms plens(4)]; auto simp add: defs intro!: exI)
qed

lemma mask_all: "(w AND NOT 0xffffffff) OR (v AND 0xffffffff) = (v :: u32)"
  by (simp add: word32_eq_iff bit_simps)

lemma expansion_same:
  fixes s :: "'z link"
  assumes "legacy_idle s"
  shows "same_effect (nios_legacy_expansion_gpio_read fpga_usb) (nios_expansion_gpio_read fpga_usb) s"
    "same_effect (nios_legacy_expansion_gpio_dir_read fpga_usb) (nios_expansion_gpio_dir_read fpga_usb) s"
    "same_effect (nios_legacy_expansion_gpio_write fpga_usb bits d) (nios_expansion_gpio_write fpga_usb bits d) s"
    "same_effect (nios_legacy_expansion_gpio_dir_write fpga_usb bits d) (nios_expansion_gpio_dir_write fpga_usb bits d) s"
proof -
  have r: "resp_ok s" using assms(1) by (simp add: legacy_idle_def)
  let ?E = NIOS_PKT_32x32_TARGET_EXP and ?D = NIOS_PKT_32x32_TARGET_EXP_DIR
  have b: "exp_target ?E = XB_GPIO_BASE" "exp_target ?D = XB_GPIO_DIR_BASE"
    by (simp_all add: exp_target_def)
  have m: "w AND 0xffffffff = w" for w :: u32
    by (simp add: word32_eq_iff bit_simps)
  show "same_effect (nios_legacy_expansion_gpio_read fpga_usb) (nios_expansion_gpio_read fpga_usb) s"
    using pio_port_link(1) [OF assms] masked_read_link [OF r, of ?E "0xffffffff"] unfolding b m
    by (intro same_effectI) (simp_all add: nios_legacy_expansion_gpio_read_def nios_expansion_gpio_read_def)
  show "same_effect (nios_legacy_expansion_gpio_dir_read fpga_usb) (nios_expansion_gpio_dir_read fpga_usb) s"
    using pio_port_link(2) [OF assms] masked_read_link [OF r, of ?D "0xffffffff"] unfolding b m
    by (intro same_effectI) (simp_all add: nios_legacy_expansion_gpio_dir_read_def nios_expansion_gpio_dir_read_def)
  have "\<exists>t. nios_legacy_expansion_gpio_write fpga_usb bits d s = (Inr (), t) \<and> legacy_idle t \<and>
      pio t = (pio s)(XB_GPIO_BASE := (pio s XB_GPIO_BASE AND NOT bits) OR (d AND bits))"
  proof (cases "bits = 0xffffffff")
    case True
    show ?thesis using pio_port_link(3) [OF assms, of d] unfolding True nios_legacy_expansion_gpio_write_def mask_all
      by (simp add: bindE_def returnE_def)
  next
    case False
    obtain t where t: "nios_legacy_pio_read fpga_usb 40 s = (Inr (pio s XB_GPIO_BASE), t)" "legacy_idle t" "pio t = pio s"
      using pio_port_link(1) [OF assms] by blast
    then show ?thesis using False pio_port_link(3) [OF t(2)]
      by (simp add: nios_legacy_expansion_gpio_write_def bindE_def returnE_def)
  qed
  then show "same_effect (nios_legacy_expansion_gpio_write fpga_usb bits d) (nios_expansion_gpio_write fpga_usb bits d) s"
    using masked_write_link [OF r, of ?E bits d] unfolding b nios_expansion_gpio_write_def by (blast intro: same_effectI)
  have "\<exists>t. nios_legacy_expansion_gpio_dir_write fpga_usb bits d s = (Inr (), t) \<and> legacy_idle t \<and>
      pio t = (pio s)(XB_GPIO_DIR_BASE := (pio s XB_GPIO_DIR_BASE AND NOT bits) OR (d AND bits))"
  proof (cases "bits = 0xffffffff")
    case True
    show ?thesis using pio_port_link(4) [OF assms, of d] unfolding True nios_legacy_expansion_gpio_dir_write_def mask_all
      by (simp add: bindE_def returnE_def)
  next
    case False
    obtain t where t: "nios_legacy_pio_read fpga_usb 44 s = (Inr (pio s XB_GPIO_DIR_BASE), t)" "legacy_idle t" "pio t = pio s"
      using pio_port_link(2) [OF assms] by blast
    then show ?thesis using False pio_port_link(4) [OF t(2)]
      by (simp add: nios_legacy_expansion_gpio_dir_write_def bindE_def returnE_def)
  qed
  then show "same_effect (nios_legacy_expansion_gpio_dir_write fpga_usb bits d) (nios_expansion_gpio_dir_write fpga_usb bits d) s"
    using masked_write_link [OF r, of ?D bits d] unfolding b nios_expansion_gpio_dir_write_def by (blast intro: same_effectI)
qed

section \<open>The version\<close>

lemma version_link:
  fixes s :: "'z link"
  assumes "legacy_idle s"
  shows "\<exists>t. nios_legacy_get_fpga_version fpga_usb s = (Inr \<lparr> ver_major = 0, ver_minor = 5, ver_patch = 0 \<rparr>, t) \<and>
    legacy_idle t \<and> pio t = pio s"
proof -
  obtain t where t: "legacy_read_bytes fpga_usb 12 0 4 s =
      (Inr (map (\<lambda>j. ucast (drop_bit (j * 8) (0x500 :: u64))) [0..<4]), t)"
      "reading t CONFIG_FPGA_VERSION 0 0x500" "pio t = pio s" "wr_n t = wr_n s"
    using read_value [OF idle_reading [OF assms(1)], where n = 4 and a = 12 and p = CONFIG_FPGA_VERSION and v = "0x500"]
    by (auto simp add: plens lookup_params perform_config_read_def fpga_version_def)
  then show ?thesis using assms
    by (intro exI [of _ t]) (simp add: nios_legacy_get_fpga_version_def bindE_def returnE_def legacy_idle_def reading_def upt_rec)
qed



end
