(* ===== verification/Fx3_Logger.thy ===== *)
theory Fx3_Logger
  imports Flash_Fields
begin

text \<open>
  The state every part of the FX3 firmware shares, and its logger (fx3_firmware/logger.c and
  firmware_common/logger_entry.h): events go into a ring of 256 words, which the host reads one
  by one.  The functions of the Cypress SDK are not part of the repository: they are the fields of a record, which every
  definition takes as an argument, and work on a state \<open>'h\<close> of their own.  The lemmas show
  that the ring is a queue, with the note on lost events that the code adds.
\<close>

unbundle bit_operations_syntax

section \<open>The SDK and the state of the firmware\<close>

abbreviation (input) CY_U3P_SUCCESS :: u32 where "CY_U3P_SUCCESS \<equiv> 0"

record 'h fx3_os_sdk =
  CyU3PMutexCreate :: "('h, u32) st"
  CyU3PMutexGet :: "('h, u32) st"
  CyU3PMutexPut :: "('h, u32) st"

record logger =
  log_size :: u16
  log_insert :: u16
  log_remove :: u16
  log_entries :: "u32 list"

record 'h fx3_os =
  fx_hw :: 'h
  fx_log :: logger

definition hwS :: "('h, 'a) st \<Rightarrow> (('h, 'z) fx3_os_scheme, 'a) st" where
  "hwS m s = (case m (fx_hw s) of (x, h) \<Rightarrow> (x, s\<lparr>fx_hw := h\<rparr>))"

section \<open>Entries\<close>

abbreviation (input) LOG_EOF :: u32 where "LOG_EOF \<equiv> 0"
abbreviation (input) LOG_ERR :: u32 where "LOG_ERR \<equiv> 0xffffffff"
abbreviation (input) LOGGER_NUM_ENTRIES :: u16 where "LOGGER_NUM_ENTRIES \<equiv> 256"

abbreviation (input) LOGGER_ID_BLADERF_C :: u8 where "LOGGER_ID_BLADERF_C \<equiv> 1"
abbreviation (input) LOGGER_ID_FPGA_C :: u8 where "LOGGER_ID_FPGA_C \<equiv> 3"
abbreviation (input) LOGGER_ID_LOGGER_C :: u8 where "LOGGER_ID_LOGGER_C \<equiv> 5"
abbreviation (input) LOGGER_ID_RF_C :: u8 where "LOGGER_ID_RF_C \<equiv> 6"
abbreviation (input) LOGGER_ID_SPI_FLASH_LIB_C :: u8 where "LOGGER_ID_SPI_FLASH_LIB_C \<equiv> 7"

definition logger_entry_pack :: "u8 \<Rightarrow> u16 \<Rightarrow> u16 \<Rightarrow> u32" where
  "logger_entry_pack file_id line data =
     (let e = push_bit 0 (ucast data AND 0xffff);
          e = e OR push_bit 16 (ucast line AND 0x7ff)
      in e OR push_bit 27 (ucast file_id AND 0x1f))"

definition logger_entry_unpack :: "u32 \<Rightarrow> u8 \<times> u16 \<times> u16" where
  "logger_entry_unpack e =
     (ucast (drop_bit 27 e AND 0x1f), ucast (drop_bit 16 e AND 0x7ff), ucast (drop_bit 0 e AND 0xffff))"

section \<open>The ring\<close>

definition logger_init :: "('h, 'y) fx3_os_sdk_scheme \<Rightarrow> (('h, 'z) fx3_os_scheme, bool) st" where
  "logger_init sdk =
     seqS (modifyS (\<lambda>s. s\<lparr>fx_log := (fx_log s)\<lparr>log_size := 0, log_insert := 0, log_remove := 0\<rparr>\<rparr>))
     (bindS (hwS (CyU3PMutexCreate sdk)) (\<lambda>status. returnS (status = CY_U3P_SUCCESS)))"

definition log_put :: "u32 \<Rightarrow> logger \<Rightarrow> logger" where
  "log_put e l = l\<lparr>log_entries := (log_entries l)[unat (log_insert l) := e],
     log_insert := (log_insert l + 1) mod LOGGER_NUM_ENTRIES, log_size := log_size l + 1\<rparr>"

text \<open>The number of the line is that of the warning in logger.c.\<close>

definition log_fill_warning :: u32 where
  "log_fill_warning = logger_entry_pack LOGGER_ID_LOGGER_C 105 0"

definition logger_record ::
  "('h, 'y) fx3_os_sdk_scheme \<Rightarrow> u8 \<Rightarrow> u16 \<Rightarrow> u16 \<Rightarrow> (('h, 'z) fx3_os_scheme, bool) st" where
  "logger_record sdk file_id line data =
     bindS (hwS (CyU3PMutexGet sdk)) (\<lambda>status.
     if status \<noteq> CY_U3P_SUCCESS then returnS False else
     bindS (getS fx_log) (\<lambda>l.
     bindS (if log_size l = LOGGER_NUM_ENTRIES then returnS False else
        let fill_warning = (log_size l = LOGGER_NUM_ENTRIES - 2);
            l = log_put (logger_entry_pack file_id line data) l;
            l = (if fill_warning then log_put log_fill_warning l else l)
        in seqS (modifyS (\<lambda>s. s\<lparr>fx_log := l\<rparr>)) (returnS True)) (\<lambda>success.
     seqS (hwS (CyU3PMutexPut sdk)) (returnS success))))"

definition logger_read :: "('h, 'y) fx3_os_sdk_scheme \<Rightarrow> (('h, 'z) fx3_os_scheme, u32) st" where
  "logger_read sdk =
     bindS (hwS (CyU3PMutexGet sdk)) (\<lambda>status.
     if status \<noteq> CY_U3P_SUCCESS then returnS LOG_ERR else
     bindS (getS fx_log) (\<lambda>l.
     bindS (if log_size l = 0 then returnS LOG_EOF else
        seqS (modifyS (\<lambda>s. s\<lparr>fx_log := l\<lparr>log_size := log_size l - 1,
          log_remove := (log_remove l + 1) mod LOGGER_NUM_ENTRIES\<rparr>\<rparr>))
        (returnS (log_entries l ! unat (log_remove l)))) (\<lambda>e.
     seqS (hwS (CyU3PMutexPut sdk)) (returnS e))))"

text \<open>LOG_ERROR in a file; the data are cut to 16 bits.\<close>

definition LOG_ERROR :: "('h, 'y) fx3_os_sdk_scheme \<Rightarrow> u8 \<Rightarrow> u16 \<Rightarrow> u32 \<Rightarrow> (('h, 'z) fx3_os_scheme, unit) st" where
  "LOG_ERROR sdk file_id line data = seqS (logger_record sdk file_id line (ucast data)) (returnS ())"

section \<open>The ring as a queue\<close>

definition log_ok :: "logger \<Rightarrow> bool" where
  "log_ok l \<longleftrightarrow> length (log_entries l) = 256 \<and> log_size l \<le> 256 \<and> log_remove l < 256 \<and>
     log_insert l = (log_remove l + log_size l) mod 256"

definition log_list :: "logger \<Rightarrow> u32 list" where
  "log_list l = map (\<lambda>i. log_entries l ! ((unat (log_remove l) + i) mod 256)) [0..<unat (log_size l)]"

text \<open>The log as the host sees it: at most 256 words; behind the 255th goes the warning.\<close>

definition queue_record :: "u32 \<Rightarrow> u32 list \<Rightarrow> bool \<times> u32 list" where
  "queue_record e q =
     (if length q = 256 then (False, q)
      else if length q = 254 then (True, q @ [e, log_fill_warning])
      else (True, q @ [e]))"

definition queue_read :: "u32 list \<Rightarrow> u32 \<times> u32 list" where
  "queue_read q = (case q of [] \<Rightarrow> (LOG_EOF, []) | e # q \<Rightarrow> (e, q))"

lemma ring_words:
  fixes x :: u16
  shows "x \<le> 256 \<longleftrightarrow> unat x \<le> 256" "x < 256 \<longleftrightarrow> unat x < 256" "x = 256 \<longleftrightarrow> unat x = 256" "x = 254 \<longleftrightarrow> unat x = 254"
  by (simp_all add: word_le_nat_alt word_less_nat_alt word_unat_eq_iff)

lemma ring_next: "unat (i :: u16) < 512 \<Longrightarrow> unat ((i + 1) mod 256) = (unat i + 1) mod 256"
  by (simp add: unat_mod unat_word_ariths)

lemma ring_insert:
  assumes "log_ok l"
  shows "unat (log_insert l) = (unat (log_remove l) + unat (log_size l)) mod 256"
  using assms by (simp add: log_ok_def ring_words unat_mod unat_word_ariths)

lemma length_log_list: "length (log_list l) = unat (log_size l)"
  by (simp add: log_list_def)

lemma ring_distinct:
  fixes r n i :: nat
  assumes "i < n" "n < 256"
  shows "(r + i) mod 256 \<noteq> (r + n) mod 256"
proof
  assume "(r + i) mod 256 = (r + n) mod 256"
  then have "256 dvd (r + n) - (r + i)" using assms by (subst mod_eq_dvd_iff_nat [symmetric]) simp_all
  then have "256 dvd n - i" by simp
  then show False using assms by (auto dest: dvd_imp_le)
qed

lemma put_queue:
  assumes "log_ok l" "log_size l \<noteq> 256"
  shows "log_ok (log_put e l)" "log_list (log_put e l) = log_list l @ [e]"
proof -
  have n: "unat (log_size l) < 256" using assms by (auto simp add: log_ok_def ring_words order_le_less)
  have r: "unat (log_remove l) < 256" "length (log_entries l) = 256" using assms(1) by (simp_all add: log_ok_def ring_words)
  have s: "unat (log_size l + 1) = Suc (unat (log_size l))" using n by (simp add: unat_word_ariths)
  have i: "unat (log_insert l) = (unat (log_remove l) + unat (log_size l)) mod 256" by (rule ring_insert [OF assms(1)])
  have "unat ((log_insert l + 1) mod 256) = unat ((log_remove l + (log_size l + 1)) mod 256)"
    using ring_next [of "log_insert l"] i n r s by (simp add: unat_mod unat_word_ariths mod_simps)
  then show "log_ok (log_put e l)"
    using n r s by (simp add: log_ok_def log_put_def ring_words word_unat_eq_iff)
  have "log_entries (log_put e l) ! ((unat (log_remove l) + k) mod 256) = (log_list l @ [e]) ! k" if "k < Suc (unat (log_size l))" for k
  proof (cases "k = unat (log_size l)")
    case True
    then show ?thesis using i r(2) by (simp add: log_put_def log_list_def nth_append)
  next
    case False
    then have "k < unat (log_size l)" using that by simp
    then show ?thesis using ring_distinct [OF _ n, of k "unat (log_remove l)"] i
      by (simp add: log_put_def log_list_def nth_append)
  qed
  moreover have "log_list (log_put e l) =
      map (\<lambda>k. log_entries (log_put e l) ! ((unat (log_remove l) + k) mod 256)) [0..<Suc (unat (log_size l))]"
    using s by (simp add: log_list_def log_put_def del: upt_Suc)
  ultimately show "log_list (log_put e l) = log_list l @ [e]"
    by (intro nth_equalityI) (simp_all add: length_log_list del: upt_Suc)
qed

lemma record_queue:
  assumes "log_ok (fx_log s)" "fst (CyU3PMutexGet sdk (fx_hw s)) = CY_U3P_SUCCESS" "logger_record sdk file_id line data s = (r, t)"
  shows "log_ok (fx_log t) \<and> (r, log_list (fx_log t)) = queue_record (logger_entry_pack file_id line data) (log_list (fx_log s))"
proof -
  let ?l = "fx_log s" and ?e = "logger_entry_pack file_id line data"
  obtain h where h: "CyU3PMutexGet sdk (fx_hw s) = (0, h)" using assms(2) by (cases "CyU3PMutexGet sdk (fx_hw s)") simp
  have w: "log_size ?l = 256 \<longleftrightarrow> unat (log_size ?l) = 256" "log_size ?l = 254 \<longleftrightarrow> unat (log_size ?l) = 254"
    by (rule ring_words)+
  show ?thesis
  proof (cases "log_size ?l = 256")
    case True
    then show ?thesis using assms(1,3) h w
      by (auto simp add: logger_record_def bindS_apply hwS_def getS_def queue_record_def length_log_list split: prod.splits)
  next
    case False
    note p = put_queue [OF assms(1) False, of ?e]
    have q: "log_ok (log_put log_fill_warning (log_put ?e ?l)) \<and>
        log_list (log_put log_fill_warning (log_put ?e ?l)) = log_list ?l @ [?e, log_fill_warning]" if "log_size ?l = 254"
    proof -
      have "log_size (log_put ?e ?l) \<noteq> 256" using that by (simp add: log_put_def)
      from put_queue [OF p(1) this, of log_fill_warning] p(2) show ?thesis by simp
    qed
    have "r \<and> fx_log t = (if log_size ?l = 254 then log_put log_fill_warning (log_put ?e ?l) else log_put ?e ?l)"
      using assms(3) h False
      by (auto simp add: logger_record_def bindS_apply hwS_def getS_def modifyS_def Let_def split: prod.splits)
    then show ?thesis using p q w False by (auto simp add: queue_record_def length_log_list)
  qed
qed

lemma log_list_Cons:
  assumes "log_ok l" "log_size l \<noteq> 0"
  defines "l' \<equiv> l\<lparr>log_size := log_size l - 1, log_remove := (log_remove l + 1) mod 256\<rparr>"
  shows "log_ok l'" "log_list l = (log_entries l ! unat (log_remove l)) # log_list l'"
proof -
  have r: "unat (log_remove l) < 256" "unat (log_size l) \<le> 256" using assms(1) by (simp_all add: log_ok_def ring_words)
  obtain n where n: "unat (log_size l) = Suc n" using assms(2) by (cases "unat (log_size l)") (auto simp add: unat_eq_zero)
  have s: "unat (log_size l - 1) = n" using n by (simp add: unat_minus_one assms(2))
  have rm: "unat ((log_remove l + 1) mod 256) = (unat (log_remove l) + 1) mod 256" using ring_next [of "log_remove l"] r by simp
  have "unat (log_insert l) = unat (((log_remove l + 1) mod 256 + (log_size l - 1)) mod 256)"
    using ring_insert [OF assms(1)] n s rm r by (simp add: unat_mod unat_word_ariths mod_simps)
  then show "log_ok l'" using assms(1) r n s rm by (simp add: l'_def log_ok_def ring_words word_unat_eq_iff)
  have "map (\<lambda>i. log_entries l ! ((unat (log_remove l) + i) mod 256)) [0..<Suc n] =
      log_entries l ! unat (log_remove l) # map (\<lambda>i. log_entries l ! ((unat (log_remove l) + Suc i) mod 256)) [0..<n]"
    using r by (simp add: upt_conv_Cons map_Suc_upt [symmetric] del: upt_Suc)
  moreover have "((unat (log_remove l) + 1) mod 256 + i) mod 256 = (unat (log_remove l) + Suc i) mod 256" for i
    by (simp add: mod_simps)
  ultimately show "log_list l = (log_entries l ! unat (log_remove l)) # log_list l'"
    by (simp add: log_list_def l'_def n s rm)
qed

lemma read_queue:
  assumes "log_ok (fx_log s)" "fst (CyU3PMutexGet sdk (fx_hw s)) = CY_U3P_SUCCESS" "logger_read sdk s = (e, t)"
  shows "log_ok (fx_log t) \<and> (e, log_list (fx_log t)) = queue_read (log_list (fx_log s))"
proof -
  let ?l = "fx_log s"
  obtain h where h: "CyU3PMutexGet sdk (fx_hw s) = (0, h)" using assms(2) by (cases "CyU3PMutexGet sdk (fx_hw s)") simp
  show ?thesis
  proof (cases "log_size ?l = 0")
    case True
    then have "log_list ?l = []" by (simp add: log_list_def)
    then show ?thesis using assms(1,3) h True
      by (auto simp add: logger_read_def bindS_apply hwS_def getS_def queue_read_def split: prod.splits)
  next
    case False
    then have "fx_log t = ?l\<lparr>log_size := log_size ?l - 1, log_remove := (log_remove ?l + 1) mod 256\<rparr> \<and>
        e = log_entries ?l ! unat (log_remove ?l)"
      using assms(3) h by (auto simp add: logger_read_def bindS_apply hwS_def getS_def modifyS_def split: prod.splits)
    then show ?thesis using log_list_Cons [OF assms(1) False] by (simp add: queue_read_def)
  qed
qed

section \<open>Runs of the logger\<close>

datatype log_op = Record u8 u16 u16 | Read
datatype log_outcome = Recorded bool | Entry u32

fun log_run :: "('h, 'y) fx3_os_sdk_scheme \<Rightarrow> log_op list \<Rightarrow> (('h, 'z) fx3_os_scheme, log_outcome list) st" where
  "log_run sdk [] = returnS []"
| "log_run sdk (Record file_id line data # ops) =
     bindS (logger_record sdk file_id line data) (\<lambda>r. bindS (log_run sdk ops) (\<lambda>rs. returnS (Recorded r # rs)))"
| "log_run sdk (Read # ops) =
     bindS (logger_read sdk) (\<lambda>e. bindS (log_run sdk ops) (\<lambda>rs. returnS (Entry e # rs)))"

fun queue_run :: "log_op list \<Rightarrow> u32 list \<Rightarrow> log_outcome list" where
  "queue_run [] q = []"
| "queue_run (Record file_id line data # ops) q =
     (case queue_record (logger_entry_pack file_id line data) q of (r, q) \<Rightarrow> Recorded r # queue_run ops q)"
| "queue_run (Read # ops) q = (case queue_read q of (e, q) \<Rightarrow> Entry e # queue_run ops q)"

lemma run_queue:
  assumes "\<forall>h. fst (CyU3PMutexGet sdk h) = CY_U3P_SUCCESS"
  shows "log_ok (fx_log s) \<Longrightarrow> fst (log_run sdk ops s) = queue_run ops (log_list (fx_log s))"
proof (induction ops arbitrary: s)
  case (Cons op ops)
  show ?case
  proof (cases op)
    case (Record file_id line data)
    obtain r t where rt: "logger_record sdk file_id line data s = (r, t)" by fastforce
    have q: "log_ok (fx_log t)" "queue_record (logger_entry_pack file_id line data) (log_list (fx_log s)) = (r, log_list (fx_log t))"
      using record_queue [OF Cons.prems _ rt] assms by simp_all
    show ?thesis using Cons.IH [OF q(1)] by (simp add: Record bindS_apply rt q(2))
  next
    case Read
    obtain e t where et: "logger_read sdk s = (e, t)" by fastforce
    have q: "log_ok (fx_log t)" "queue_read (log_list (fx_log s)) = (e, log_list (fx_log t))"
      using read_queue [OF Cons.prems _ et] assms by simp_all
    show ?thesis using Cons.IH [OF q(1)] by (simp add: Read bindS_apply et q(2))
  qed
qed simp

lemma init_queue:
  assumes "length (log_entries (fx_log s)) = 256"
  shows "log_ok (fx_log (snd (logger_init sdk s)))" "log_list (fx_log (snd (logger_init sdk s))) = []"
  using assms by (simp_all add: logger_init_def bindS_apply modifyS_def hwS_def log_ok_def log_list_def split: prod.split)

lemma queue_recorded:
  "length q + length evs \<le> 254 \<Longrightarrow>
     queue_run (map (\<lambda>(f, l, d). Record f l d) evs @ ops) q =
     map (\<lambda>_. Recorded True) evs @ queue_run ops (q @ map (\<lambda>(f, l, d). logger_entry_pack f l d) evs)"
proof (induction evs arbitrary: q)
  case (Cons ev evs)
  then show ?case by (cases ev) (simp add: queue_record_def)
qed simp

lemma queue_full:
  "length q = 256 \<Longrightarrow>
     queue_run (map (\<lambda>(f, l, d). Record f l d) evs @ ops) q = map (\<lambda>_. Recorded False) evs @ queue_run ops q"
proof (induction evs)
  case (Cons ev evs)
  then show ?case by (cases ev) (simp add: queue_record_def)
qed simp

lemma queue_drained: "queue_run (replicate (length q) Read @ ops) q = map Entry q @ queue_run ops []"
  by (induction q) (simp_all add: queue_read_def)

lemma queue_overflow:
  assumes "255 \<le> length evs"
  shows "queue_run (map (\<lambda>(f, l, d). Record f l d) evs @ ops) [] =
    replicate 255 (Recorded True) @ replicate (length evs - 255) (Recorded False) @
    queue_run ops (map (\<lambda>(f, l, d). logger_entry_pack f l d) (take 255 evs) @ [log_fill_warning])"
proof -
  let ?R = "\<lambda>(f, l, d). Record f l d" and ?P = "\<lambda>(f, l, d). logger_entry_pack f l d"
  obtain f l d where e: "evs ! 254 = (f, l, d)" by (cases "evs ! 254")
  have "evs = take 254 evs @ evs ! 254 # drop 255 evs" using assms id_take_nth_drop [of 254 evs] by simp
  then have evs: "evs = take 254 evs @ (f, l, d) # drop 255 evs" by (simp only: e)
  have t: "take 255 evs = take 254 evs @ [(f, l, d)]" using assms take_Suc_conv_app_nth [of 254 evs] e by simp
  let ?q = "map ?P (take 254 evs) @ [logger_entry_pack f l d, log_fill_warning]"
  have q: "length ?q = 256" using assms by simp
  have "queue_run (map ?R evs @ ops) [] =
      queue_run (map ?R (take 254 evs) @ Record f l d # map ?R (drop 255 evs) @ ops) []"
    by (subst evs) simp
  also have "\<dots> = map (\<lambda>_. Recorded True) (take 254 evs) @
      queue_run (Record f l d # map ?R (drop 255 evs) @ ops) (map ?P (take 254 evs))"
    using queue_recorded [of "[]" "take 254 evs"] assms by simp
  also have "queue_run (Record f l d # map ?R (drop 255 evs) @ ops) (map ?P (take 254 evs)) =
      Recorded True # queue_run (map ?R (drop 255 evs) @ ops) ?q"
    using assms by (simp add: queue_record_def)
  also have "queue_run (map ?R (drop 255 evs) @ ops) ?q = map (\<lambda>_. Recorded False) (drop 255 evs) @ queue_run ops ?q"
    by (rule queue_full [OF q])
  finally show ?thesis using assms replicate_append_same [of 254 "Recorded True"]
    by (simp add: t map_replicate_const min_def flip: replicate_Suc)
qed

text \<open>A full log, read once, takes one event more behind the warning, and then none.\<close>

lemma queue_hole:
  assumes "length q = 255"
  shows "queue_run (Read # Record f l d # Record f' l' d' # replicate 256 Read) (x # q) =
    [Entry x, Recorded True, Recorded False] @ map Entry q @ [Entry (logger_entry_pack f l d)]"
  using assms queue_drained [of "q @ [logger_entry_pack f l d]" "[]"]
  by (simp add: queue_record_def queue_read_def)

lemma entry_roundtrip:
  assumes "file_id < 32" "line < 0x800"
  shows "logger_entry_unpack (logger_entry_pack file_id line data) = (file_id, line, data)"
proof -
  have t: "take_bit 5 file_id = file_id" "take_bit 11 line = line"
    using assms by (simp_all add: word_unat_eq_iff unsigned_take_bit_eq word_less_nat_alt take_bit_nat_eq_self)
  have m: "(x :: u32) AND 0x1f = take_bit 5 x" "x AND 0x7ff = take_bit 11 x" "x AND 0xffff = take_bit 16 x" for x
    by (simp_all add: take_bit_eq_mask mask_eq_exp_minus_1)
  have b: "\<not> bit file_id i" if "5 \<le> i" for i using that by (subst t(1) [symmetric]) (simp add: bit_take_bit_iff)
  have c: "\<not> bit line i" if "11 \<le> i" for i using that by (subst t(2) [symmetric]) (simp add: bit_take_bit_iff)
  show ?thesis
    unfolding logger_entry_unpack_def logger_entry_pack_def Let_def prod.inject m
    by (intro conjI bit_word_eqI) (use b c in \<open>auto simp add: bit_simps not_le [symmetric]\<close>)
qed

text \<open>C17: The log of the firmware is a queue.  Any sequence of records and reads after logger_init gives, with a mutex that works,
  the results of a list of at most 256 words to which records append and from which reads take the first; a record's
  file, line and data come back when the file number has five bits and the line eleven.  When 255
  or more events are recorded, the first 255 are kept and a warning follows them, so that the host
  learns that events may be missing.  But the warning can be missing: a full log that is read once takes one
  more event behind the warning, and whatever comes then is lost without a trace.\<close>

theorem logger_is_queue:
  assumes "\<forall>h. fst (CyU3PMutexGet sdk h) = CY_U3P_SUCCESS" "length (log_entries (fx_log s)) = 256"
    "255 \<le> length evs" "file_id < 32" "line < 0x800"
  defines "ready \<equiv> snd (logger_init sdk s)"
    and "records \<equiv> map (\<lambda>(f, l, d). Record f l d) evs"
    and "words \<equiv> map (\<lambda>(f, l, d). logger_entry_pack f l d) (take 255 evs)"
    and "recorded \<equiv> replicate 255 (Recorded True) @ replicate (length evs - 255) (Recorded False)"
  shows "fst (log_run sdk ops ready) = queue_run ops [] \<and>
    logger_entry_unpack (logger_entry_pack file_id line data) = (file_id, line, data) \<and>
    fst (log_run sdk (records @ replicate 256 Read) ready) = recorded @ map Entry words @ [Entry log_fill_warning] \<and>
    fst (log_run sdk (records @ Read # Record f l d # Record f' l' d' # replicate 256 Read) ready) =
      recorded @ [Entry (hd words), Recorded True, Recorded False] @
      map Entry (tl words) @ [Entry log_fill_warning, Entry (logger_entry_pack f l d)]"
proof -
  have r: "fst (log_run sdk ops ready) = queue_run ops []" for ops
    using run_queue [OF assms(1) init_queue(1) [OF assms(2), of sdk], of ops] init_queue(2) [OF assms(2), of sdk]
    by (simp add: ready_def)
  have w: "words = hd words # tl words" "length (tl words) = 254" using assms(3) by (cases evs; simp add: words_def)+
  have "queue_run (replicate 256 Read) (words @ [log_fill_warning]) = map Entry words @ [Entry log_fill_warning]"
    using queue_drained [of "words @ [log_fill_warning]" "[]"] assms(3) by (simp add: words_def)
  moreover have "queue_run (Read # Record f l d # Record f' l' d' # replicate 256 Read) (words @ [log_fill_warning]) =
      [Entry (hd words), Recorded True, Recorded False] @
      map Entry (tl words) @ [Entry log_fill_warning, Entry (logger_entry_pack f l d)]"
    using queue_hole [of "tl words @ [log_fill_warning]" f l d f' l' d' "hd words"] w(2)
    by (subst w(1)) (simp del: replicate.simps queue_run.simps)
  ultimately show ?thesis
    using entry_roundtrip [OF assms(4,5)] queue_overflow [OF assms(3)] unfolding r words_def records_def recorded_def by simp
qed

text \<open>An SDK whose mutex always works, and the log as a static variable starts.\<close>

definition mutex_sdk :: "nat fx3_os_sdk" where
  "mutex_sdk = \<lparr> CyU3PMutexCreate = returnS 0, CyU3PMutexGet = (\<lambda>n. (0, Suc n)), CyU3PMutexPut = (\<lambda>n. (0, n - 1)) \<rparr>"

definition new_log :: logger where
  "new_log = \<lparr> log_size = 0, log_insert = 0, log_remove = 0, log_entries = replicate 256 0 \<rparr>"

theorem logger_is_queue_witness:
  "fst (log_run mutex_sdk [Record 3 104 0x47, Read, Read] (snd (logger_init mutex_sdk \<lparr> fx_hw = 0, fx_log = new_log \<rparr>))) =
     [Recorded True, Entry 0x18680047, Entry 0] \<and>
   fst (log_run mutex_sdk (map (\<lambda>(f, l, d). Record f l d) (replicate 300 (1, 2, 3)) @ replicate 256 Read)
       (snd (logger_init mutex_sdk \<lparr> fx_hw = 0, fx_log = new_log \<rparr>))) =
     replicate 255 (Recorded True) @ replicate 45 (Recorded False) @
     replicate 255 (Entry (logger_entry_pack 1 2 3)) @ [Entry log_fill_warning]"
proof -
  have m: "\<forall>h. fst (CyU3PMutexGet mutex_sdk h) = CY_U3P_SUCCESS" by (simp add: mutex_sdk_def)
  have l: "length (log_entries (fx_log \<lparr> fx_hw = 0 :: nat, fx_log = new_log \<rparr>)) = 256" by (simp add: new_log_def)
  have "logger_entry_pack 3 104 0x47 = 0x18680047" by (simp add: logger_entry_pack_def)
  then have q: "queue_run [Record 3 104 0x47, Read, Read] [] = [Recorded True, Entry 0x18680047, Entry 0]"
    by (simp add: queue_record_def queue_read_def)
  show ?thesis
    using logger_is_queue [OF m l, of "replicate 300 (1, 2, 3)" 1 2 "[Record 3 104 0x47, Read, Read]"] q by simp
qed

end
