(* ===== verification/Fx3_Spi.thy ===== *)
theory Fx3_Spi
  imports Fx3_Logger
begin

text \<open>
  The FX3 firmware's access to the SPI flash memory of the board (fx3_firmware/spi_flash_lib.c and
  fx3_firmware/flash.c).  The functions of the Cypress SDK are again fields of a record.  \<open>flash_part\<close>
  and its operations say what the SPI bus and a flash part on it do according to their documentation; the lemmas need it as
  the hypothesis \<open>spi_sdk\<close>.
\<close>

unbundle bit_operations_syntax

section \<open>The SDK and the state of the firmware\<close>

record 'h fx3_sdk = "'h fx3_os_sdk" +
  CY_U3P_ERROR_NOT_SUPPORTED :: u32
  CyU3PSpiInit :: "('h, u32) st"
  CyU3PSpiDeInit :: "('h, u32) st"
  CyU3PSpiSetConfig :: "('h, u32) st"
  CyU3PSpiSetSsnLine :: "bool \<Rightarrow> ('h, u32) st"
  CyU3PSpiTransmitWords :: "bytes \<Rightarrow> ('h, u32) st"
  CyU3PSpiReceiveWords :: "nat \<Rightarrow> ('h, u32 \<times> bytes) st"
  CyU3PThreadSleep :: "nat \<Rightarrow> ('h, unit) st"

abbreviation (input) FLASH_PAGE_SIZE :: nat where "FLASH_PAGE_SIZE \<equiv> 0x100"

record 'h fx3 = "'h fx3_os" +
  spiFastRead :: bool

section \<open>spi_flash_lib.c\<close>

definition CyFxSpiInit :: "('h, 'y) fx3_sdk_scheme \<Rightarrow> (('h, 'z) fx3_scheme, u32) st" where
  "CyFxSpiInit sdk =
     bindS (hwS (CyU3PSpiInit sdk)) (\<lambda>status.
     if status \<noteq> CY_U3P_SUCCESS then returnS status else hwS (CyU3PSpiSetConfig sdk))"

definition CyFxSpiDeInit :: "('h, 'y) fx3_sdk_scheme \<Rightarrow> (('h, 'z) fx3_scheme, u32) st" where
  "CyFxSpiDeInit sdk = hwS (CyU3PSpiDeInit sdk)"

text \<open>A command of the bytes given, with the slave select line low for its duration.\<close>

definition spi_command :: "('h, 'y) fx3_sdk_scheme \<Rightarrow> bytes \<Rightarrow> (('h, 'z) fx3_scheme, u32) st" where
  "spi_command sdk bs =
     seqS (hwS (CyU3PSpiSetSsnLine sdk False))
     (bindS (hwS (CyU3PSpiTransmitWords sdk bs)) (\<lambda>status.
      seqS (hwS (CyU3PSpiSetSsnLine sdk True)) (returnS status)))"

text \<open>One round of the loop of CyFxSpiWaitForStatus: a status to return, or whether to go on.\<close>

definition wait_round :: "('h, 'y) fx3_sdk_scheme \<Rightarrow> (('h, 'z) fx3_scheme, u32 + bool) st" where
  "wait_round sdk =
     bindS (spi_command sdk [0x06]) (\<lambda>status.
     if status \<noteq> CY_U3P_SUCCESS then
       seqS (LOG_ERROR sdk LOGGER_ID_SPI_FLASH_LIB_C 89 status) (returnS (Inl status))
     else
     seqS (hwS (CyU3PSpiSetSsnLine sdk False))
     (bindS (hwS (CyU3PSpiTransmitWords sdk [0x05])) (\<lambda>status.
      if status \<noteq> CY_U3P_SUCCESS then
        seqS (LOG_ERROR sdk LOGGER_ID_SPI_FLASH_LIB_C 98 status)
        (seqS (hwS (CyU3PSpiSetSsnLine sdk True)) (returnS (Inl status)))
      else
        bindS (hwS (CyU3PSpiReceiveWords sdk 2)) (\<lambda>(status, rd_buf).
        seqS (hwS (CyU3PSpiSetSsnLine sdk True))
        (if status \<noteq> CY_U3P_SUCCESS then
           seqS (LOG_ERROR sdk LOGGER_ID_SPI_FLASH_LIB_C 106 status) (returnS (Inl status))
         else returnS (Inr (rd_buf ! 0 AND 1 \<noteq> 0 \<or> rd_buf ! 0 AND 2 = 0)))))))"

partial_function (option) CyFxSpiWaitForStatus :: "('h, 'y) fx3_sdk_scheme \<Rightarrow> (('h, 'z) fx3_scheme, u32) fw" where
  "CyFxSpiWaitForStatus sdk s =
     (case wait_round sdk s of
        (Inl status, t) \<Rightarrow> Some (status, t)
      | (Inr again, t) \<Rightarrow> if again then CyFxSpiWaitForStatus sdk t else Some (CY_U3P_SUCCESS, t))"

definition CyFxSpiFastRead :: "bool \<Rightarrow> (('h, 'z) fx3_scheme, unit) st" where
  "CyFxSpiFastRead v = modifyS (\<lambda>s. s\<lparr>spiFastRead := v\<rparr>)"

definition location :: "u8 \<Rightarrow> u32 \<Rightarrow> bytes" where
  "location command byteAddress = [command, ucast (drop_bit 16 byteAddress AND 0xFF),
     ucast (drop_bit 8 byteAddress AND 0xFF), ucast (byteAddress AND 0xFF)]"

text \<open>One page of CyFxSpiTransfer: the status and the page of the buffer afterwards.\<close>

definition transfer_page ::
  "('h, 'y) fx3_sdk_scheme \<Rightarrow> bool \<Rightarrow> u32 \<Rightarrow> bytes \<Rightarrow> (('h, 'z) fx3_scheme, u32 \<times> bytes) fw" where
  "transfer_page sdk isRead byteAddress page =
     bindF (liftF (getS spiFastRead)) (\<lambda>fast.
     bindF (if isRead \<and> fast then returnF CY_U3P_SUCCESS else CyFxSpiWaitForStatus sdk) (\<lambda>status.
     if status \<noteq> CY_U3P_SUCCESS then returnF (status, page) else
     liftF (seqS (hwS (CyU3PSpiSetSsnLine sdk False))
       (bindS (hwS (CyU3PSpiTransmitWords sdk (location (if isRead then 0x03 else 0x02) byteAddress))) (\<lambda>status.
        if status \<noteq> CY_U3P_SUCCESS then
          seqS (LOG_ERROR sdk LOGGER_ID_SPI_FLASH_LIB_C (if isRead then 156 else 178) status)
          (seqS (hwS (CyU3PSpiSetSsnLine sdk True)) (returnS (status, page)))
        else
          bindS (if isRead then hwS (CyU3PSpiReceiveWords sdk FLASH_PAGE_SIZE)
            else bindS (hwS (CyU3PSpiTransmitWords sdk page)) (\<lambda>status. returnS (status, page))) (\<lambda>r.
          seqS (hwS (CyU3PSpiSetSsnLine sdk True)) (returnS r)))))))"

fun transfer_pages ::
  "('h, 'y) fx3_sdk_scheme \<Rightarrow> bool \<Rightarrow> u32 \<Rightarrow> nat \<Rightarrow> bytes \<Rightarrow> (('h, 'z) fx3_scheme, u32 \<times> bytes) fw" where
  "transfer_pages sdk isRead byteAddress 0 buffer = returnF (CY_U3P_SUCCESS, buffer)"
| "transfer_pages sdk isRead byteAddress (Suc pageCount) buffer =
     bindF (transfer_page sdk isRead byteAddress (take FLASH_PAGE_SIZE buffer)) (\<lambda>(status, page).
     if status \<noteq> CY_U3P_SUCCESS then returnF (status, page @ drop FLASH_PAGE_SIZE buffer) else
     bindF (liftF (getS spiFastRead)) (\<lambda>fast.
     seqF (if fast then returnF () else liftF (hwS (CyU3PThreadSleep sdk 15)))
     (bindF (transfer_pages sdk isRead (byteAddress + of_nat FLASH_PAGE_SIZE) pageCount (drop FLASH_PAGE_SIZE buffer)) (\<lambda>(status, rest).
      returnF (status, page @ rest)))))"

definition CyFxSpiTransfer ::
  "('h, 'y) fx3_sdk_scheme \<Rightarrow> u16 \<Rightarrow> u16 \<Rightarrow> bytes \<Rightarrow> bool \<Rightarrow> (('h, 'z) fx3_scheme, u32 \<times> bytes) fw" where
  "CyFxSpiTransfer sdk pageAddress byteCount buffer isRead =
     (let pageCount = unat byteCount div FLASH_PAGE_SIZE in
      if byteCount = 0 then returnF (CY_U3P_SUCCESS, buffer)
      else if unat byteCount mod FLASH_PAGE_SIZE \<noteq> 0 then returnF (CY_U3P_ERROR_NOT_SUPPORTED sdk, buffer)
      else transfer_pages sdk isRead (ucast pageAddress * of_nat FLASH_PAGE_SIZE) pageCount buffer)"

text \<open>One round of the last loop of CyFxSpiEraseSector: the status and whether the part is busy.\<close>

definition busy_round :: "('h, 'y) fx3_sdk_scheme \<Rightarrow> (('h, 'z) fx3_scheme, u32 \<times> bool) st" where
  "busy_round sdk =
     seqS (hwS (CyU3PSpiSetSsnLine sdk False))
     (seqS (hwS (CyU3PSpiTransmitWords sdk [0x05]))
     (bindS (hwS (CyU3PSpiReceiveWords sdk 1)) (\<lambda>(status, rdBuf).
      seqS (hwS (CyU3PSpiSetSsnLine sdk True)) (returnS (status, rdBuf ! 0 AND 1 \<noteq> 0)))))"

partial_function (option) busy_wait :: "('h, 'y) fx3_sdk_scheme \<Rightarrow> (('h, 'z) fx3_scheme, u32) fw" where
  "busy_wait sdk s =
     (case busy_round sdk s of ((status, busy), t) \<Rightarrow> if busy then busy_wait sdk t else Some (status, t))"

definition CyFxSpiEraseSector ::
  "('h, 'y) fx3_sdk_scheme \<Rightarrow> bool \<Rightarrow> u8 \<Rightarrow> (('h, 'z) fx3_scheme, u32) fw" where
  "CyFxSpiEraseSector sdk isErase sector =
     bindF (liftF (spi_command sdk [0x06])) (\<lambda>status.
     if status \<noteq> CY_U3P_SUCCESS then returnF status else
     seqF (if isErase then liftF (spi_command sdk (location 0xD8 (ucast sector * 0x10000))) else returnF CY_U3P_SUCCESS)
     (busy_wait sdk))"

section \<open>flash.c\<close>

definition FlashReadStatus :: "('h, 'y) fx3_sdk_scheme \<Rightarrow> (('h, 'z) fx3_scheme, u32 \<times> bytes) st" where
  "FlashReadStatus sdk =
     seqS (hwS (CyU3PSpiSetSsnLine sdk False))
     (seqS (hwS (CyU3PSpiTransmitWords sdk [0x05]))
     (bindS (hwS (CyU3PSpiReceiveWords sdk 1)) (\<lambda>(_, val).
      bindS (hwS (CyU3PSpiSetSsnLine sdk True)) (\<lambda>status. returnS (status, val)))))"

text \<open>A command whose status is that of the last change of the slave select line.\<close>

definition ssn_command :: "('h, 'y) fx3_sdk_scheme \<Rightarrow> bytes \<Rightarrow> (('h, 'z) fx3_scheme, u32) st" where
  "ssn_command sdk bs =
     seqS (hwS (CyU3PSpiSetSsnLine sdk False))
     (seqS (hwS (CyU3PSpiTransmitWords sdk bs))
     (hwS (CyU3PSpiSetSsnLine sdk True)))"

definition NuandLockOtp :: "('h, 'y) fx3_sdk_scheme \<Rightarrow> (('h, 'z) fx3_scheme, u32) st" where
  "NuandLockOtp sdk =
     seqS (FlashReadStatus sdk)
     (seqS (ssn_command sdk [0x06])
     (seqS (FlashReadStatus sdk)
     (seqS (ssn_command sdk [0x2f])
     (seqS (ssn_command sdk [0x02])
     (seqS (hwS (CyU3PSpiSetSsnLine sdk False))
     (seqS (hwS (CyU3PSpiTransmitWords sdk [0x2b]))
     (seqS (hwS (CyU3PSpiReceiveWords sdk 1))
     (hwS (CyU3PSpiSetSsnLine sdk True)))))))))"

definition NuandEnso :: "('h, 'y) fx3_sdk_scheme \<Rightarrow> (('h, 'z) fx3_scheme, u32) st" where
  "NuandEnso sdk = ssn_command sdk [0xb1]"

definition NuandExso :: "('h, 'y) fx3_sdk_scheme \<Rightarrow> (('h, 'z) fx3_scheme, u32) st" where
  "NuandExso sdk = ssn_command sdk [0xc1]"

definition NuandReadOtp ::
  "('h, 'y) fx3_sdk_scheme \<Rightarrow> u16 \<Rightarrow> u16 \<Rightarrow> bytes \<Rightarrow> (('h, 'z) fx3_scheme, u32 \<times> bytes) fw" where
  "NuandReadOtp sdk offset len buf =
     seqF (liftF (NuandEnso sdk))
     (bindF (CyFxSpiTransfer sdk offset len buf True) (\<lambda>(_, buf).
      bindF (liftF (NuandExso sdk)) (\<lambda>status. returnF (status, buf))))"

definition NuandWriteOtp ::
  "('h, 'y) fx3_sdk_scheme \<Rightarrow> u16 \<Rightarrow> u16 \<Rightarrow> bytes \<Rightarrow> (('h, 'z) fx3_scheme, u32) fw" where
  "NuandWriteOtp sdk offset len buf =
     seqF (liftF (NuandEnso sdk))
     (seqF (CyFxSpiTransfer sdk offset len buf False)
     (liftF (NuandExso sdk)))"

section \<open>A flash part on the bus\<close>

text \<open>The memory and the one-time programmable area, the mode that selects between them, the write
  enable latch, the number of reads of the status register for which the part stays busy and whether
  with programming a page, how long further operations take, and the bytes since the select line fell.\<close>

record flash_part =
  part_mem :: "nat \<Rightarrow> u8"
  part_otp :: "nat \<Rightarrow> u8"
  part_secured :: bool
  part_wel :: bool
  part_busy :: nat
  part_prog :: bool
  part_delays :: "nat \<Rightarrow> nat"
  part_cmd :: "bytes option"

definition part_area :: "'p flash_part_scheme \<Rightarrow> nat \<Rightarrow> u8" where
  "part_area p = (if part_secured p then part_otp p else part_mem p)"

definition byte_addr :: "u8 \<Rightarrow> u8 \<Rightarrow> u8 \<Rightarrow> nat" where
  "byte_addr a b c = (unat a * 256 + unat b) * 256 + unat c"

definition start_operation :: "bool \<Rightarrow> 'p flash_part_scheme \<Rightarrow> 'p flash_part_scheme" where
  "start_operation prog p =
     p\<lparr>part_busy := Suc (part_delays p 0), part_prog := prog, part_delays := (\<lambda>n. part_delays p (Suc n))\<rparr>"

text \<open>Programming clears bits of one page of 256 bytes; erasing sets the bits of 64 KiB.\<close>

definition programmed :: "nat \<Rightarrow> bytes \<Rightarrow> (nat \<Rightarrow> u8) \<Rightarrow> nat \<Rightarrow> u8" where
  "programmed a data m x =
     (if x div 256 = a div 256 \<and> (x + 256 - a mod 256) mod 256 < length data
      then m x AND data ! ((x + 256 - a mod 256) mod 256) else m x)"

definition erased :: "nat \<Rightarrow> (nat \<Rightarrow> u8) \<Rightarrow> nat \<Rightarrow> u8" where
  "erased k m x = (if x div 65536 = k then 0xff else m x)"

definition part_exec :: "bytes \<Rightarrow> 'p flash_part_scheme \<Rightarrow> 'p flash_part_scheme" where
  "part_exec cmd p =
     (if part_busy p \<noteq> 0 then p
      else case cmd of
        [op] \<Rightarrow>
          (if op = 0x06 then p\<lparr>part_wel := True\<rparr>
           else if op = 0xb1 then p\<lparr>part_secured := True\<rparr>
           else if op = 0xc1 then p\<lparr>part_secured := False\<rparr>
           else p)
      | op # a # b # c # data \<Rightarrow>
          (if op = 0x02 \<and> part_wel p \<and> data \<noteq> [] then
             start_operation True
               (if part_secured p then p\<lparr>part_otp := programmed (byte_addr a b c) data (part_otp p)\<rparr>
                else p\<lparr>part_mem := programmed (byte_addr a b c) data (part_mem p)\<rparr>)
           else if op = 0xd8 \<and> part_wel p \<and> \<not> part_secured p \<and> data = [] then
             start_operation False (p\<lparr>part_mem := erased (byte_addr a b c div 65536) (part_mem p)\<rparr>)
           else p)
      | _ \<Rightarrow> p)"

definition part_ssn :: "bool \<Rightarrow> 'p flash_part_scheme \<Rightarrow> 'p flash_part_scheme" where
  "part_ssn high p =
     (if high then (case part_cmd p of None \<Rightarrow> p | Some cmd \<Rightarrow> (part_exec cmd p)\<lparr>part_cmd := None\<rparr>)
      else p\<lparr>part_cmd := Some []\<rparr>)"

definition part_tx :: "bytes \<Rightarrow> 'p flash_part_scheme \<Rightarrow> 'p flash_part_scheme" where
  "part_tx bs p = p\<lparr>part_cmd := map_option (\<lambda>cmd. cmd @ bs) (part_cmd p)\<rparr>"

definition part_status :: "'p flash_part_scheme \<Rightarrow> u8" where
  "part_status p = (if part_busy p \<noteq> 0 then 1 else 0) OR (if part_wel p then 2 else 0)"

text \<open>A part that gets ready resets its write enable latch.\<close>

definition part_ready :: "'p flash_part_scheme \<Rightarrow> 'p flash_part_scheme" where
  "part_ready p = p\<lparr>part_busy := 0, part_wel := False\<rparr>"

definition part_data :: "nat \<Rightarrow> 'p flash_part_scheme \<Rightarrow> bytes" where
  "part_data n p =
     (case part_cmd p of
        Some [op] \<Rightarrow> replicate n (if op = 0x05 then part_status p else 0xff)
      | Some [op, a, b, c] \<Rightarrow>
          (if op = 0x03 \<and> part_busy p = 0 then map (\<lambda>i. part_area p (byte_addr a b c + i)) [0..<n]
           else replicate n 0xff)
      | _ \<Rightarrow> replicate n 0xff)"

definition part_rx :: "'p flash_part_scheme \<Rightarrow> 'p flash_part_scheme" where
  "part_rx p =
     (if part_cmd p = Some [0x05] \<and> part_busy p \<noteq> 0
      then (if part_busy p = 1 then part_ready p else p\<lparr>part_busy := part_busy p - 1\<rparr>) else p)"

text \<open>Programming a page takes less than 15 milliseconds.\<close>

definition part_sleep :: "nat \<Rightarrow> 'p flash_part_scheme \<Rightarrow> 'p flash_part_scheme" where
  "part_sleep ms p = (if part_busy p \<noteq> 0 \<and> part_prog p \<and> ms \<ge> 15 then part_ready p else p)"

text \<open>An SDK whose SPI functions succeed and drive the part that \<open>part\<close> finds in its state.\<close>

definition spi_sdk :: "('h, 'y) fx3_sdk_scheme \<Rightarrow> ('h \<Rightarrow> 'p flash_part_scheme) \<Rightarrow> bool" where
  "spi_sdk sdk part \<longleftrightarrow> CY_U3P_ERROR_NOT_SUPPORTED sdk \<noteq> CY_U3P_SUCCESS \<and>
     (\<forall>h. \<exists>t. CyU3PSpiInit sdk h = (0, t) \<and> part t = part h) \<and>
     (\<forall>h. \<exists>t. CyU3PSpiDeInit sdk h = (0, t) \<and> part t = part h) \<and>
     (\<forall>h. \<exists>t. CyU3PSpiSetConfig sdk h = (0, t) \<and> part t = part h) \<and>
     (\<forall>b h. \<exists>t. CyU3PSpiSetSsnLine sdk b h = (0, t) \<and> part t = part_ssn b (part h)) \<and>
     (\<forall>bs h. \<exists>t. CyU3PSpiTransmitWords sdk bs h = (0, t) \<and> part t = part_tx bs (part h)) \<and>
     (\<forall>n h. \<exists>t. CyU3PSpiReceiveWords sdk n h = ((0, part_data n (part h)), t) \<and> part t = part_rx (part h)) \<and>
     (\<forall>ms h. \<exists>t. CyU3PThreadSleep sdk ms h = ((), t) \<and> part t = part_sleep ms (part h))"

section \<open>What the functions do to the part\<close>

text \<open>\<open>acts part fast m M\<close>: while spiFastRead is \<open>fast\<close>, m always returns, changes nothing but the state
  of the SDK, and its result and effect on the part are those of \<open>M\<close>.\<close>

definition acts ::
  "('h \<Rightarrow> 'p flash_part_scheme) \<Rightarrow> bool \<Rightarrow> (('h, 'z) fx3_scheme, 'a) fw \<Rightarrow> ('p flash_part_scheme, 'a) st \<Rightarrow> bool" where
  "acts part fast m M \<longleftrightarrow> (\<forall>s. spiFastRead s = fast \<longrightarrow>
     (\<exists>h. m s = Some (fst (M (part (fx_hw s))), s\<lparr>fx_hw := h\<rparr>) \<and> part h = snd (M (part (fx_hw s)))))"

lemma actsI:
  "(\<And>s. spiFastRead s = fast \<Longrightarrow>
     \<exists>h. m s = Some (fst (M (part (fx_hw s))), s\<lparr>fx_hw := h\<rparr>) \<and> part h = snd (M (part (fx_hw s)))) \<Longrightarrow>
   acts part fast m M"
  by (simp add: acts_def)

lemma actsE:
  assumes "acts part fast m M" "spiFastRead s = fast"
  obtains h where "m s = Some (fst (M (part (fx_hw s))), s\<lparr>fx_hw := h\<rparr>)" "part h = snd (M (part (fx_hw s)))"
  using assms unfolding acts_def by blast

lemma acts_cong: "acts part fast m M \<Longrightarrow> (\<And>p. M p = N p) \<Longrightarrow> acts part fast m N"
  by (simp add: acts_def)

lemma fx3_same [simp]: "s\<lparr>fx_hw := fx_hw s\<rparr> = (s :: ('h, 'z) fx3_os_scheme)"
  by (cases s) simp

lemma acts_return: "acts part fast (returnF x) (returnS x)"
  by (rule actsI) (auto intro!: exI [of _ "fx_hw _"])

lemma acts_fast: "acts part fast (liftF (getS spiFastRead)) (returnS fast)"
  by (rule actsI) (auto intro!: exI [of _ "fx_hw _"])

lemma acts_bind:
  fixes m :: "(('h, 'z) fx3_scheme, 'a) fw"
  assumes "acts part fast m M" "\<And>x. acts part fast (f x) (F x)"
  shows "acts part fast (bindF m f) (bindS M F)"
proof (rule actsI)
  fix s :: "('h, 'z) fx3_scheme"
  assume s: "spiFastRead s = fast"
  obtain h where h: "m s = Some (fst (M (part (fx_hw s))), s\<lparr>fx_hw := h\<rparr>)" "part h = snd (M (part (fx_hw s)))"
    by (rule actsE [OF assms(1) s])
  have "spiFastRead (s\<lparr>fx_hw := h\<rparr>) = fast" using s by simp
  from actsE [OF assms(2) [of "fst (M (part (fx_hw s)))"] this] obtain k
    where "f (fst (M (part (fx_hw s)))) (s\<lparr>fx_hw := h\<rparr>) =
        Some (fst (F (fst (M (part (fx_hw s)))) (part h)), s\<lparr>fx_hw := h\<rparr>\<lparr>fx_hw := k\<rparr>)"
      "part k = snd (F (fst (M (part (fx_hw s)))) (part h))" by auto
  then show "\<exists>h. bindF m f s = Some (fst (bindS M F (part (fx_hw s))), s\<lparr>fx_hw := h\<rparr>) \<and>
      part h = snd (bindS M F (part (fx_hw s)))"
    using h by (intro exI [of _ k]) (simp add: bindF_def bindS_apply)
qed

lemma lift_bind: "liftF (bindS m f) = bindF (liftF m) (\<lambda>x. liftF (f x))"
  by (rule ext) (simp add: bindF_def bindS_def split: prod.split)

lemma acts_lift_bind:
  "acts part fast (liftF m) M \<Longrightarrow> (\<And>x. acts part fast (liftF (f x)) (F x)) \<Longrightarrow> acts part fast (liftF (bindS m f)) (bindS M F)"
  unfolding lift_bind by (rule acts_bind)

text \<open>After a call that succeeds, only the rest of the function matters.\<close>

lemma acts_ok:
  fixes m :: "(('h, 'z) fx3_scheme, u32) fw"
  assumes "acts part fast m (\<lambda>p. (0, f p))" "acts part fast k K"
  shows "acts part fast (bindF m (\<lambda>status. if status \<noteq> CY_U3P_SUCCESS then e status else k)) (bindS (\<lambda>p. (0 :: u32, f p)) (\<lambda>_. K))"
proof (rule actsI)
  fix s :: "('h, 'z) fx3_scheme"
  assume s: "spiFastRead s = fast"
  have "acts part fast (bindF m (\<lambda>_. k)) (bindS (\<lambda>p. (0 :: u32, f p)) (\<lambda>_. K))" by (rule acts_bind [OF assms])
  from actsE [OF this s] obtain h where "bindF m (\<lambda>_. k) s = Some (fst (bindS (\<lambda>p. (0 :: u32, f p)) (\<lambda>_. K) (part (fx_hw s))), s\<lparr>fx_hw := h\<rparr>)"
    "part h = snd (bindS (\<lambda>p. (0 :: u32, f p)) (\<lambda>_. K) (part (fx_hw s)))" .
  moreover have "bindF m (\<lambda>status. if status \<noteq> CY_U3P_SUCCESS then e status else k) s = bindF m (\<lambda>_. k) s"
    by (rule actsE [OF assms(1) s]) (simp add: bindF_def)
  ultimately show "\<exists>h. bindF m (\<lambda>status. if status \<noteq> CY_U3P_SUCCESS then e status else k) s =
      Some (fst (bindS (\<lambda>p. (0 :: u32, f p)) (\<lambda>_. K) (part (fx_hw s))), s\<lparr>fx_hw := h\<rparr>) \<and>
      part h = snd (bindS (\<lambda>p. (0 :: u32, f p)) (\<lambda>_. K) (part (fx_hw s)))" by (intro exI [of _ h]) (simp only: simp_thms)
qed

lemma acts_lift_ok:
  "acts part fast (liftF m) (\<lambda>p. (0, f p)) \<Longrightarrow> acts part fast (liftF k) K \<Longrightarrow>
   acts part fast (liftF (bindS m (\<lambda>status. if status \<noteq> CY_U3P_SUCCESS then e status else k))) (bindS (\<lambda>p. (0 :: u32, f p)) (\<lambda>_. K))"
  unfolding lift_bind if_distrib [of liftF] by (rule acts_ok)

text \<open>The same when data come with the status.\<close>

lemma acts_lift_data:
  fixes m :: "(('h, 'z) fx3_scheme, u32 \<times> 'a) st"
  assumes "acts part fast (liftF m) (\<lambda>p. ((0, d p), f p))" "\<And>x. acts part fast (liftF (g 0 x)) (G x)"
  shows "acts part fast (liftF (bindS m (\<lambda>(status, x). g status x))) (bindS (\<lambda>p. (d p, f p)) G)"
proof (rule actsI)
  fix s :: "('h, 'z) fx3_scheme"
  assume s: "spiFastRead s = fast"
  obtain h where h: "m s = ((0, d (part (fx_hw s))), s\<lparr>fx_hw := h\<rparr>)" "part h = f (part (fx_hw s))"
    using actsE [OF assms(1) s] by auto
  have "spiFastRead (s\<lparr>fx_hw := h\<rparr>) = fast" using s by simp
  from actsE [OF assms(2) [of "d (part (fx_hw s))"] this] obtain k where
    "g 0 (d (part (fx_hw s))) (s\<lparr>fx_hw := h\<rparr>) = (fst (G (d (part (fx_hw s))) (part h)), s\<lparr>fx_hw := k\<rparr>)"
    "part k = snd (G (d (part (fx_hw s))) (part h))" by auto
  then show "\<exists>h. liftF (bindS m (\<lambda>(status, x). g status x)) s =
      Some (fst (bindS (\<lambda>p. (d p, f p)) G (part (fx_hw s))), s\<lparr>fx_hw := h\<rparr>) \<and>
      part h = snd (bindS (\<lambda>p. (d p, f p)) G (part (fx_hw s)))"
    using h by (intro exI [of _ k]) (simp add: bindS_apply)
qed

lemma acts_no_error:
  "acts part fast (liftF k) K \<Longrightarrow> acts part fast (liftF (if CY_U3P_SUCCESS \<noteq> CY_U3P_SUCCESS then e else k)) K"
  by simp

lemma acts_lift_return: "acts part fast (liftF (returnS x)) (returnS x)"
  by (rule actsI) (auto intro!: exI [of _ "fx_hw _"])

lemma acts_if:
  "(b \<Longrightarrow> acts part fast m M) \<Longrightarrow> (\<not> b \<Longrightarrow> acts part fast n N) \<Longrightarrow> acts part fast (if b then m else n) (if b then M else N)"
  "(b \<Longrightarrow> acts part fast (liftF k) M) \<Longrightarrow> (\<not> b \<Longrightarrow> acts part fast (liftF l) N) \<Longrightarrow> acts part fast (liftF (if b then k else l)) (if b then M else N)"
  by simp_all

lemma acts_prod:
  "(\<And>a b. acts part fast (f a b) (F a b)) \<Longrightarrow> acts part fast (case x of (a, b) \<Rightarrow> f a b) (case x of (a, b) \<Rightarrow> F a b)"
  "(\<And>a b. acts part fast (liftF (g a b)) (F a b)) \<Longrightarrow> acts part fast (liftF (case x of (a, b) \<Rightarrow> g a b)) (case x of (a, b) \<Rightarrow> F a b)"
  by (simp_all split: prod.split)

lemma acts_hw:
  assumes "\<And>h. \<exists>t. m h = (x (part h), t) \<and> part t = f (part h)"
  shows "acts part fast (liftF (hwS m)) (\<lambda>p. (x p, f p))"
proof (rule actsI)
  fix s
  obtain t where "m (fx_hw s) = (x (part (fx_hw s)), t)" "part t = f (part (fx_hw s))" using assms by blast
  then show "\<exists>h. liftF (hwS m) s = Some (fst (x (part (fx_hw s)), f (part (fx_hw s))), s\<lparr>fx_hw := h\<rparr>) \<and>
      part h = snd (x (part (fx_hw s)), f (part (fx_hw s)))"
    by (intro exI [of _ t]) (simp add: hwS_def)
qed

lemma acts_sdk:
  assumes "spi_sdk sdk part"
  shows "acts part fast (liftF (hwS (CyU3PSpiSetSsnLine sdk b))) (\<lambda>p. (0, part_ssn b p))"
    "acts part fast (liftF (hwS (CyU3PSpiTransmitWords sdk bs))) (\<lambda>p. (0, part_tx bs p))"
    "acts part fast (liftF (hwS (CyU3PSpiReceiveWords sdk n))) (\<lambda>p. ((0, part_data n p), part_rx p))"
    "acts part fast (liftF (hwS (CyU3PThreadSleep sdk ms))) (\<lambda>p. ((), part_sleep ms p))"
    "acts part fast (liftF (hwS (CyU3PSpiInit sdk))) (\<lambda>p. (0, p))"
    "acts part fast (liftF (hwS (CyU3PSpiDeInit sdk))) (\<lambda>p. (0, p))"
    "acts part fast (liftF (hwS (CyU3PSpiSetConfig sdk))) (\<lambda>p. (0, p))"
  using assms unfolding spi_sdk_def by (intro acts_hw; blast)+

lemmas acts_rules = acts_bind acts_lift_bind acts_return acts_lift_return acts_fast acts_if acts_prod

lemma acts_command:
  assumes "spi_sdk sdk part"
  shows "acts part fast (liftF (spi_command sdk bs)) (\<lambda>p. (0, (part_exec bs (p\<lparr>part_cmd := Some bs\<rparr>))\<lparr>part_cmd := None\<rparr>))"
proof (rule acts_cong)
  show "acts part fast (liftF (spi_command sdk bs)) (bindS (\<lambda>p. (0 :: u32, part_ssn False p)) (\<lambda>_.
      bindS (\<lambda>p. (0, part_tx bs p)) (\<lambda>status. bindS (\<lambda>p. (0 :: u32, part_ssn True p)) (\<lambda>_. returnS status))))"
    unfolding spi_command_def by (intro acts_rules acts_sdk [OF assms])
qed (simp add: bindS_def part_ssn_def part_tx_def)

text \<open>A round of the loop: a part that is not busy is enabled for writing, a busy one advances.\<close>

definition part_wait :: "'p flash_part_scheme \<Rightarrow> (u32 + bool) \<times> 'p flash_part_scheme" where
  "part_wait p =
     (if part_busy p = 0 then (Inr False, p\<lparr>part_wel := True, part_cmd := None\<rparr>)
      else (Inr True, (if part_busy p = 1 then part_ready p else p\<lparr>part_busy := part_busy p - 1\<rparr>)\<lparr>part_cmd := None\<rparr>))"

lemma part_update_order:
  "p\<lparr>part_cmd := c, part_wel := w\<rparr> = p\<lparr>part_wel := w, part_cmd := c\<rparr>"
  "p\<lparr>part_cmd := c, part_busy := n\<rparr> = p\<lparr>part_busy := n, part_cmd := c\<rparr>"
  by (cases p; simp)+

lemma acts_wait_round:
  assumes "spi_sdk sdk part"
  shows "acts part fast (liftF (wait_round sdk)) part_wait"
proof (rule acts_cong)
  show "acts part fast (liftF (wait_round sdk))
    (bindS (\<lambda>p. (0 :: u32, (part_exec [0x06] (p\<lparr>part_cmd := Some [0x06]\<rparr>))\<lparr>part_cmd := None\<rparr>)) (\<lambda>_.
     bindS (\<lambda>p. (0 :: u32, part_ssn False p)) (\<lambda>_.
     bindS (\<lambda>p. (0 :: u32, part_tx [0x05] p)) (\<lambda>_.
     bindS (\<lambda>p. (part_data 2 p, part_rx p)) (\<lambda>rd_buf.
     bindS (\<lambda>p. (0 :: u32, part_ssn True p)) (\<lambda>_.
     returnS (Inr (rd_buf ! 0 AND 1 \<noteq> 0 \<or> rd_buf ! 0 AND 2 = 0))))))))"
    unfolding wait_round_def
    by (intro acts_lift_ok acts_lift_data acts_no_error acts_lift_bind acts_lift_return acts_sdk [OF assms] acts_command [OF assms])
qed (simp add: bindS_apply part_exec_def part_ssn_def part_tx_def part_data_def part_rx_def part_status_def part_wait_def
    part_ready_def part_update_order)

lemma acts_wait:
  fixes part :: "'h \<Rightarrow> 'p flash_part_scheme"
  assumes "spi_sdk sdk part"
  shows "acts part fast (CyFxSpiWaitForStatus sdk :: ('h, 'z) fx3_scheme \<Rightarrow> _) (\<lambda>p. (0, p\<lparr>part_busy := 0, part_wel := True, part_cmd := None\<rparr>))"
proof (rule actsI)
  fix s :: "('h, 'z) fx3_scheme"
  assume "spiFastRead s = fast"
  then show "\<exists>h. CyFxSpiWaitForStatus sdk s = Some (fst (0, part (fx_hw s)\<lparr>part_busy := 0, part_wel := True, part_cmd := None\<rparr>),
        s\<lparr>fx_hw := h\<rparr>) \<and> part h = snd (0 :: u32, part (fx_hw s)\<lparr>part_busy := 0, part_wel := True, part_cmd := None\<rparr>)"
  proof (induction "part_busy (part (fx_hw s))" arbitrary: s)
    case 0
    obtain h where h: "liftF (wait_round sdk) s = Some (fst (part_wait (part (fx_hw s))), s\<lparr>fx_hw := h\<rparr>)"
        "part h = snd (part_wait (part (fx_hw s)))"
      by (rule actsE [OF acts_wait_round [OF assms] 0(2)])
    then show ?case using 0(1)
      by (intro exI [of _ h], subst CyFxSpiWaitForStatus.simps) (simp add: part_wait_def)
  next
    case (Suc n)
    obtain h where h: "liftF (wait_round sdk) s = Some (fst (part_wait (part (fx_hw s))), s\<lparr>fx_hw := h\<rparr>)"
        "part h = snd (part_wait (part (fx_hw s)))"
      by (rule actsE [OF acts_wait_round [OF assms] Suc(3)])
    have p: "part_busy (part h) = n"
      "part h\<lparr>part_busy := 0, part_wel := True, part_cmd := None\<rparr> = part (fx_hw s)\<lparr>part_busy := 0, part_wel := True, part_cmd := None\<rparr>"
      using h(2) Suc(2) by (auto simp add: part_wait_def part_ready_def)
    have "n = part_busy (part (fx_hw (s\<lparr>fx_hw := h\<rparr>)))" "spiFastRead (s\<lparr>fx_hw := h\<rparr>) = fast" using p Suc(3) by simp_all
    from Suc(1) [OF this] obtain k where "CyFxSpiWaitForStatus sdk (s\<lparr>fx_hw := h\<rparr>) = Some (0, s\<lparr>fx_hw := k\<rparr>)"
      "part k = part (fx_hw s)\<lparr>part_busy := 0, part_wel := True, part_cmd := None\<rparr>" using p(2) by auto
    then show ?case using h(1) Suc(2)
      by (intro exI [of _ k], subst CyFxSpiWaitForStatus.simps) (simp add: part_wait_def)
  qed
qed

section \<open>Pages and sectors\<close>

lemma location_addr:
  "byte_addr (ucast (drop_bit 16 a AND 0xFF)) (ucast (drop_bit 8 a AND 0xFF)) (ucast (a AND 0xFF)) = unat (a :: u32) mod 2 ^ 24"
proof -
  have "unat (ucast (drop_bit 16 a) :: u8) = unat a div 65536 mod 256" "unat (ucast (drop_bit 8 a) :: u8) = unat a div 256 mod 256"
    "unat (ucast a :: u8) = unat a mod 256"
    by (simp_all add: unsigned_ucast_eq take_bit_eq_mod unsigned_drop_bit_eq drop_bit_eq_div unat_div)
  moreover have "n mod 16777216 = 65536 * (n div 65536 mod 256) + (256 * (n div 256 mod 256) + n mod 256)" for n :: nat
    using mod_mult2_eq [of n 65536 256] mod_mult2_eq [of n 256 256] by simp
  ultimately show ?thesis by (simp add: byte_addr_def)
qed

lemma page_address: "unat (ucast (pg :: u16) * 0x100 :: u32) = unat pg * 256" "unat pg * 256 mod 2 ^ 24 = unat pg * 256"
proof -
  have "unat pg < 65536" using unsigned_less [of pg, where ?'a = nat] by simp
  then show "unat (ucast pg * 0x100 :: u32) = unat pg * 256" "unat pg * 256 mod 2 ^ 24 = unat pg * 256"
    by (simp_all add: unat_word_ariths unat_ucast_up)
qed

lemma page_location:
  "byte_addr (ucast (drop_bit 16 (ucast (pg :: u16) * 0x100 :: u32))) (ucast (drop_bit 8 (ucast pg * 0x100 :: u32)))
     (ucast (ucast pg * 0x100 :: u32)) = unat pg * 256"
  using location_addr [of "ucast pg * 0x100"] page_address [of pg] by (simp only: byte_mask_ucast)

lemma acts_ready:
  assumes "spi_sdk sdk part"
  shows "acts part fast (if b then returnF CY_U3P_SUCCESS else CyFxSpiWaitForStatus sdk)
    (\<lambda>p. (0, if b then p else p\<lparr>part_busy := 0, part_wel := True, part_cmd := None\<rparr>))"
  by (cases b) (simp_all add: acts_wait [OF assms] acts_return [unfolded returnS_def])

definition part_read :: "bool \<Rightarrow> u32 \<Rightarrow> 'p flash_part_scheme \<Rightarrow> (u32 \<times> bytes) \<times> 'p flash_part_scheme" where
  "part_read fast a p =
     (let q = (if fast then p else p\<lparr>part_busy := 0, part_wel := True\<rparr>)
      in ((0, part_data 256 (q\<lparr>part_cmd := Some (location 0x03 a)\<rparr>)), q\<lparr>part_cmd := None\<rparr>))"

lemma acts_read_page:
  assumes "spi_sdk sdk part"
  shows "acts part fast (transfer_page sdk True a page) (part_read fast a)"
proof (rule acts_cong)
  show "acts part fast (transfer_page sdk True a page) (bindS (returnS fast) (\<lambda>fast.
     bindS (\<lambda>p. (0 :: u32, if fast then p else p\<lparr>part_busy := 0, part_wel := True, part_cmd := None\<rparr>)) (\<lambda>_.
     bindS (\<lambda>p. (0 :: u32, part_ssn False p)) (\<lambda>_.
     bindS (\<lambda>p. (0 :: u32, part_tx (location 0x03 a) p)) (\<lambda>_.
     bindS (\<lambda>p. ((0, part_data 256 p), part_rx p)) (\<lambda>r. bindS (\<lambda>p. (0 :: u32, part_ssn True p)) (\<lambda>_. returnS r)))))))"
    unfolding transfer_page_def simp_thms if_True
    by (intro acts_ok acts_bind acts_fast acts_lift_ok acts_lift_bind acts_lift_return acts_sdk [OF assms] acts_ready [OF assms])
qed (simp add: bindS_apply part_read_def Let_def part_ssn_def part_tx_def part_rx_def location_def part_exec_def part_update_order)

lemma part_read_idle:
  assumes "fast \<Longrightarrow> part_busy p = 0"
  shows "part_read fast (ucast (pg :: u16) * 0x100) p =
    ((0, map (\<lambda>i. part_area p (unat pg * 256 + i)) [0..<256]), if fast then p\<lparr>part_cmd := None\<rparr> else p\<lparr>part_busy := 0, part_wel := True, part_cmd := None\<rparr>)"
  using assms by (simp add: part_read_def Let_def part_data_def location_def page_location part_area_def)

definition part_write :: "u32 \<Rightarrow> bytes \<Rightarrow> 'p flash_part_scheme \<Rightarrow> 'p flash_part_scheme" where
  "part_write a page p =
     (part_exec (location 0x02 a @ page) (p\<lparr>part_busy := 0, part_wel := True\<rparr>))\<lparr>part_cmd := None\<rparr>"

lemma acts_write_page:
  assumes "spi_sdk sdk part"
  shows "acts part fast (transfer_page sdk False a page) (\<lambda>p. ((0, page), part_write a page p))"
proof (rule acts_cong)
  show "acts part fast (transfer_page sdk False a page) (bindS (returnS fast) (\<lambda>_.
     bindS (\<lambda>p. (0 :: u32, p\<lparr>part_busy := 0, part_wel := True, part_cmd := None\<rparr>)) (\<lambda>_.
     bindS (\<lambda>p. (0 :: u32, part_ssn False p)) (\<lambda>_.
     bindS (\<lambda>p. (0 :: u32, part_tx (location 0x02 a) p)) (\<lambda>_.
     bindS (bindS (\<lambda>p. (0, part_tx page p)) (\<lambda>status. returnS (status, page))) (\<lambda>r.
     bindS (\<lambda>p. (0 :: u32, part_ssn True p)) (\<lambda>_. returnS r)))))))"
    unfolding transfer_page_def simp_thms if_False
    by (intro acts_ok acts_bind acts_fast acts_lift_ok acts_lift_bind acts_lift_return acts_sdk [OF assms] acts_wait [OF assms])
qed (simp add: bindS_apply part_write_def part_ssn_def part_tx_def part_update_order part_exec_def start_operation_def location_def)

text \<open>A page through CyFxSpiTransfer: reading leaves the memory alone, writing clears the bits that are clear
  in the buffer.\<close>

definition write_area :: "((nat \<Rightarrow> u8) \<Rightarrow> nat \<Rightarrow> u8) \<Rightarrow> 'p flash_part_scheme \<Rightarrow> 'p flash_part_scheme" where
  "write_area f p =
     (if part_secured p then p\<lparr>part_otp := f (part_otp p)\<rparr> else p\<lparr>part_mem := f (part_mem p)\<rparr>)"

definition page_written :: "u16 \<Rightarrow> bytes \<Rightarrow> (nat \<Rightarrow> u8) \<Rightarrow> nat \<Rightarrow> u8" where
  "page_written pg page m x = (if x div 256 = unat pg then m x AND page ! (x mod 256) else m x)"

lemma programmed_page:
  "length page = 256 \<Longrightarrow> programmed (unat pg * 256) page = page_written pg page"
  by (intro ext) (simp add: programmed_def page_written_def)

lemma transfer_one:
  "CyFxSpiTransfer sdk pg 0x100 buf isRead =
    transfer_pages sdk isRead (ucast pg * 0x100) (Suc 0) buf"
  by (simp add: CyFxSpiTransfer_def)

lemma acts_read:
  assumes "spi_sdk sdk part" "length buf = 256"
  shows "acts part False (CyFxSpiTransfer sdk pg 0x100 buf True)
    (\<lambda>p. ((0, map (\<lambda>i. part_area p (unat pg * 256 + i)) [0..<256]), p\<lparr>part_busy := 0, part_wel := True, part_cmd := None\<rparr>))"
    "acts part True (CyFxSpiTransfer sdk pg 0x100 buf True) (part_read True (ucast pg * 0x100))"
proof -
  have c: "acts part fast (CyFxSpiTransfer sdk pg 0x100 buf True)
    (bindS (part_read fast (ucast pg * 0x100)) (\<lambda>(status, page).
     if status \<noteq> 0 then returnS (status, page @ drop 0x100 buf) else
     bindS (returnS fast) (\<lambda>fast. bindS (if fast then returnS () else (\<lambda>p. ((), part_sleep 15 p))) (\<lambda>_.
     bindS (returnS (0, drop 0x100 buf)) (\<lambda>(status, rest). returnS (status, page @ rest))))))" for fast
    unfolding transfer_one transfer_pages.simps by (intro acts_rules acts_sdk [OF assms(1)] acts_read_page [OF assms(1)])
  show "acts part False (CyFxSpiTransfer sdk pg 0x100 buf True)
    (\<lambda>p. ((0, map (\<lambda>i. part_area p (unat pg * 256 + i)) [0..<256]), p\<lparr>part_busy := 0, part_wel := True, part_cmd := None\<rparr>))"
    by (rule acts_cong [OF c]) (simp add: bindS_apply part_read_idle part_sleep_def assms(2))
  show "acts part True (CyFxSpiTransfer sdk pg 0x100 buf True) (part_read True (ucast pg * 0x100))"
    by (rule acts_cong [OF c]) (simp add: bindS_apply part_read_def Let_def assms(2))
qed

lemma acts_write:
  assumes "spi_sdk sdk part" "length buf = 256"
  shows "acts part False (CyFxSpiTransfer sdk pg 0x100 buf False)
    (\<lambda>p. ((0, buf), (write_area (page_written pg buf) p)\<lparr>part_busy := 0, part_wel := False, part_prog := True,
       part_delays := (\<lambda>n. part_delays p (Suc n)), part_cmd := None\<rparr>))"
proof (rule acts_cong)
  show "acts part False (CyFxSpiTransfer sdk pg 0x100 buf False)
    (bindS (\<lambda>p. ((0, take 0x100 buf), part_write (ucast pg * 0x100) (take 0x100 buf) p)) (\<lambda>(status, page).
     if status \<noteq> 0 then returnS (status, page @ drop 0x100 buf) else
     bindS (returnS False) (\<lambda>fast. bindS (if fast then returnS () else (\<lambda>p. ((), part_sleep 15 p))) (\<lambda>_.
     bindS (returnS (0, drop 0x100 buf)) (\<lambda>(status, rest). returnS (status, page @ rest))))))"
    unfolding transfer_one transfer_pages.simps by (intro acts_rules acts_sdk [OF assms(1)] acts_write_page [OF assms(1)])
next
  fix p
  have "take 256 buf \<noteq> []" "take 256 buf = buf" "drop 256 buf = []" using assms(2) by auto
  then show "bindS (\<lambda>p. ((0, take 0x100 buf), part_write (ucast pg * 0x100) (take 0x100 buf) p)) (\<lambda>(status, page).
     if status \<noteq> 0 then returnS (status, page @ drop 0x100 buf) else
     bindS (returnS False) (\<lambda>fast. bindS (if fast then returnS () else (\<lambda>p. ((), part_sleep 15 p))) (\<lambda>_.
     bindS (returnS (0, drop 0x100 buf)) (\<lambda>(status, rest). returnS (status, page @ rest))))) p =
    ((0, buf), (write_area (page_written pg buf) p)\<lparr>part_busy := 0, part_wel := False, part_prog := True,
       part_delays := (\<lambda>n. part_delays p (Suc n)), part_cmd := None\<rparr>)"
    by (cases p) (simp add: bindS_apply part_write_def location_def part_exec_def page_location programmed_page assms(2)
        part_sleep_def part_ready_def start_operation_def write_area_def)
qed

text \<open>Erasing: a part that is idle at the call erases the sector, and the loop waits until it is ready.\<close>

lemma acts_busy_round:
  assumes "spi_sdk sdk part"
  shows "acts part fast (liftF (busy_round sdk)) (\<lambda>p. ((0, part_busy p \<noteq> 0),
    (if part_busy p = 0 then p else if part_busy p = 1 then part_ready p else p\<lparr>part_busy := part_busy p - 1\<rparr>)\<lparr>part_cmd := None\<rparr>))"
proof (rule acts_cong)
  show "acts part fast (liftF (busy_round sdk))
    (bindS (\<lambda>p. (0 :: u32, part_ssn False p)) (\<lambda>_. bindS (\<lambda>p. (0 :: u32, part_tx [0x05] p)) (\<lambda>_.
     bindS (\<lambda>p. ((0, part_data 1 p), part_rx p)) (\<lambda>(status, rdBuf). bindS (\<lambda>p. (0 :: u32, part_ssn True p)) (\<lambda>_.
      returnS (status, rdBuf ! 0 AND 1 \<noteq> 0))))))"
    unfolding busy_round_def by (intro acts_rules acts_sdk [OF assms])
qed (simp add: bindS_apply part_exec_def part_ssn_def part_tx_def part_data_def part_rx_def part_status_def
    part_ready_def part_update_order)

lemma acts_busy_wait:
  fixes part :: "'h \<Rightarrow> 'p flash_part_scheme"
  assumes "spi_sdk sdk part"
  shows "acts part fast (busy_wait sdk :: (('h, 'z) fx3_scheme, u32) fw)
    (\<lambda>p. (0, p\<lparr>part_busy := 0, part_wel := part_wel p \<and> part_busy p = 0, part_cmd := None\<rparr>))"
proof (rule actsI)
  fix s :: "('h, 'z) fx3_scheme"
  let ?M = "\<lambda>p. (0, p\<lparr>part_busy := 0, part_wel := part_wel p \<and> part_busy p = 0, part_cmd := None\<rparr>)"
  assume "spiFastRead s = fast"
  then show "\<exists>h. busy_wait sdk s = Some (fst (?M (part (fx_hw s))), s\<lparr>fx_hw := h\<rparr>) \<and> part h = snd (?M (part (fx_hw s)))"
  proof (induction "part_busy (part (fx_hw s))" arbitrary: s)
    case 0
    obtain h where "busy_round sdk s = ((0, False), s\<lparr>fx_hw := h\<rparr>)" "part h = (part (fx_hw s))\<lparr>part_cmd := None\<rparr>"
      using actsE [OF acts_busy_round [OF assms] 0(2)] 0(1) by auto
    then show ?case using 0(1)
      by (intro exI [of _ h], subst busy_wait.simps) simp
  next
    case (Suc n)
    obtain h where h: "busy_round sdk s = ((0, True), s\<lparr>fx_hw := h\<rparr>)"
        "part h = (if part_busy (part (fx_hw s)) = 1 then part_ready (part (fx_hw s))
          else (part (fx_hw s))\<lparr>part_busy := part_busy (part (fx_hw s)) - 1\<rparr>)\<lparr>part_cmd := None\<rparr>"
      using actsE [OF acts_busy_round [OF assms] Suc(3)] Suc(2) by auto
    have p: "part_busy (part h) = n" "snd (?M (part h)) = snd (?M (part (fx_hw s)))"
      using h(2) Suc(2) by (auto simp add: part_ready_def split: if_split_asm)
    have "n = part_busy (part (fx_hw (s\<lparr>fx_hw := h\<rparr>)))" "spiFastRead (s\<lparr>fx_hw := h\<rparr>) = fast" using p Suc(3) by simp_all
    from Suc(1) [OF this] obtain k where "busy_wait sdk (s\<lparr>fx_hw := h\<rparr>) = Some (0, s\<lparr>fx_hw := k\<rparr>)"
      "part k = snd (?M (part (fx_hw s)))" using p(2) by auto
    then show ?case using h(1) by (intro exI [of _ k], subst busy_wait.simps) simp
  qed
qed

lemma sector_location:
  "byte_addr (ucast (drop_bit 16 (ucast (k :: u8) * 0x10000 :: u32) AND 0xFF)) (ucast (drop_bit 8 (ucast k * 0x10000 :: u32) AND 0xFF))
     (ucast ((ucast k * 0x10000 :: u32) AND 0xFF)) div 65536 = unat k"
proof -
  have "unat k < 256" using unsigned_less [of k, where ?'a = nat] by simp
  then have "unat (ucast k * 0x10000 :: u32) = unat k * 65536" by (simp add: unat_word_ariths unat_ucast_up)
  moreover have "unat k * 65536 mod 2 ^ 24 = unat k * 65536" using \<open>unat k < 256\<close> by simp
  ultimately show ?thesis unfolding location_addr by simp
qed

lemma acts_erase:
  assumes "spi_sdk sdk part"
  shows "acts part fast (CyFxSpiEraseSector sdk True k) (\<lambda>p. (0, if part_busy p = 0 \<and> \<not> part_secured p
      then p\<lparr>part_mem := erased (unat k) (part_mem p), part_busy := 0, part_wel := False, part_prog := False,
        part_delays := (\<lambda>n. part_delays p (Suc n)), part_cmd := None\<rparr>
      else p\<lparr>part_busy := 0, part_wel := part_busy p = 0, part_cmd := None\<rparr>))"
proof (rule acts_cong)
  show "acts part fast (CyFxSpiEraseSector sdk True k)
    (bindS (\<lambda>p. (0, (part_exec [0x06] (p\<lparr>part_cmd := Some [0x06]\<rparr>))\<lparr>part_cmd := None\<rparr>)) (\<lambda>status.
     if status \<noteq> 0 then returnS status else
     bindS (\<lambda>p. (0 :: u32, (part_exec (location 0xD8 (ucast k * 0x10000)) (p\<lparr>part_cmd := Some (location 0xD8 (ucast k * 0x10000))\<rparr>))\<lparr>part_cmd := None\<rparr>)) (\<lambda>_.
     (\<lambda>p. (0, p\<lparr>part_busy := 0, part_wel := part_wel p \<and> part_busy p = 0, part_cmd := None\<rparr>)))))"
    unfolding CyFxSpiEraseSector_def if_True by (intro acts_rules acts_command [OF assms] acts_busy_wait [OF assms])
next
  fix p
  show "(bindS (\<lambda>p. (0, (part_exec [0x06] (p\<lparr>part_cmd := Some [0x06]\<rparr>))\<lparr>part_cmd := None\<rparr>)) (\<lambda>status.
     if status \<noteq> 0 then returnS status else
     bindS (\<lambda>p. (0 :: u32, (part_exec (location 0xD8 (ucast k * 0x10000)) (p\<lparr>part_cmd := Some (location 0xD8 (ucast k * 0x10000))\<rparr>))\<lparr>part_cmd := None\<rparr>)) (\<lambda>_.
     (\<lambda>p. (0, p\<lparr>part_busy := 0, part_wel := part_wel p \<and> part_busy p = 0, part_cmd := None\<rparr>))))) p =
    (0, if part_busy p = 0 \<and> \<not> part_secured p
      then p\<lparr>part_mem := erased (unat k) (part_mem p), part_busy := 0, part_wel := False, part_prog := False,
        part_delays := (\<lambda>n. part_delays p (Suc n)), part_cmd := None\<rparr>
      else p\<lparr>part_busy := 0, part_wel := part_busy p = 0, part_cmd := None\<rparr>)"
    using sector_location [of k] by (cases p) (simp add: bindS_apply part_exec_def location_def start_operation_def)
qed

section \<open>Termination of the polling loops\<close>

definition returns :: "bool \<Rightarrow> (('h, 'z) fx3_scheme, 'a) fw \<Rightarrow> bool" where
  "returns fast m \<longleftrightarrow> (\<forall>s. spiFastRead s = fast \<longrightarrow> (\<exists>x h. m s = Some (x, s\<lparr>fx_hw := h\<rparr>)))"

lemma returns_acts: "acts part fast m M \<Longrightarrow> returns fast m"
  unfolding acts_def returns_def by blast

lemma returns_bind:
  fixes m :: "(('h, 'z) fx3_scheme, 'a) fw"
  assumes "returns fast m" "\<And>x. returns fast (f x)"
  shows "returns fast (bindF m f)"
  unfolding returns_def
proof (intro allI impI)
  fix s :: "('h, 'z) fx3_scheme"
  assume s: "spiFastRead s = fast"
  obtain x h where h: "m s = Some (x, s\<lparr>fx_hw := h\<rparr>)" using assms(1) s unfolding returns_def by blast
  have "spiFastRead (s\<lparr>fx_hw := h\<rparr>) = fast" using s by simp
  then obtain y k where "f x (s\<lparr>fx_hw := h\<rparr>) = Some (y, s\<lparr>fx_hw := h\<rparr>\<lparr>fx_hw := k\<rparr>)"
    using assms(2) unfolding returns_def by blast
  then show "\<exists>x h. bindF m f s = Some (x, s\<lparr>fx_hw := h\<rparr>)" using h by (auto simp add: bindF_def)
qed

lemma returns_simps:
  "returns fast (returnF x)"
  "(b \<Longrightarrow> returns fast m) \<Longrightarrow> (\<not> b \<Longrightarrow> returns fast n) \<Longrightarrow> returns fast (if b then m else n)"
  "(\<And>a b. returns fast (g a b)) \<Longrightarrow> returns fast (case y of (a, b) \<Rightarrow> g a b)"
  by (auto intro: returns_acts [OF acts_return] split: prod.split)

lemma returns_page:
  assumes "spi_sdk sdk part"
  shows "returns fast (transfer_page sdk isRead a page)"
  by (cases isRead) (simp_all add: returns_acts [OF acts_read_page [OF assms]] returns_acts [OF acts_write_page [OF assms]])

lemma returns_pages:
  assumes "spi_sdk sdk part"
  shows "returns fast (transfer_pages sdk isRead a n buf)"
proof (induction n arbitrary: a buf)
  case (Suc n)
  show ?case unfolding transfer_pages.simps
    by (intro returns_bind returns_simps returns_page [OF assms] Suc.IH returns_acts [OF acts_fast]
        returns_acts [OF acts_sdk(4) [OF assms]])
qed (simp add: returns_simps)

text \<open>A bus on which nothing answers: every byte read is the same.\<close>

definition silent_bus :: "('h, 'y) fx3_sdk_scheme \<Rightarrow> u8 \<Rightarrow> bool" where
  "silent_bus sdk v \<longleftrightarrow> (\<forall>b h. fst (CyU3PSpiSetSsnLine sdk b h) = 0) \<and>
     (\<forall>bs h. fst (CyU3PSpiTransmitWords sdk bs h) = 0) \<and>
     (\<forall>n h. fst (CyU3PSpiReceiveWords sdk n h) = (0, replicate n v))"

lemma fst_hwS: "fst (hwS m s) = fst (m (fx_hw s))"
  by (simp add: hwS_def split: prod.split)

lemma silent_round:
  assumes "silent_bus sdk v" "v AND 1 \<noteq> 0 \<or> v AND 2 = 0"
  shows "fst (wait_round sdk s) = Inr True"
proof -
  have "replicate 2 v ! 0 = v" by (simp add: numeral_2_eq_2)
  then show ?thesis using assms by (auto simp add: wait_round_def spi_command_def bindS_apply fst_hwS silent_bus_def)
qed

lemma silent_wait:
  assumes "silent_bus sdk v" "v AND 1 \<noteq> 0 \<or> v AND 2 = 0"
  shows "CyFxSpiWaitForStatus sdk s = None"
proof -
  have "False" if "CyFxSpiWaitForStatus sdk s = Some r" for r
  proof -
    have "silent_bus sdk v \<longrightarrow> False"
    proof (rule CyFxSpiWaitForStatus.raw_induct [where P = "\<lambda>sdk s r. silent_bus sdk v \<longrightarrow> False", OF _ that])
      fix f sdk s r
      assume IH: "\<And>sdk s r. f sdk s = Some r \<Longrightarrow> silent_bus sdk v \<longrightarrow> False"
        and body: "(case wait_round sdk s of (Inl status, t) \<Rightarrow> Some (status, t)
          | (Inr again, t) \<Rightarrow> if again then f sdk t else Some (CY_U3P_SUCCESS, t)) = Some r"
      show "silent_bus sdk v \<longrightarrow> False"
        using silent_round [OF _ assms(2), of sdk s] IH body by (cases "wait_round sdk s") fastforce
    qed
    then show False using assms(1) by simp
  qed
  then show ?thesis by (cases "CyFxSpiWaitForStatus sdk s") auto
qed


text \<open>An SDK whose state is the part itself, and one with nothing on the bus.\<close>

definition part_sdk :: "flash_part fx3_sdk" where
  "part_sdk = \<lparr> CyU3PMutexCreate = returnS 0, CyU3PMutexGet = returnS 0, CyU3PMutexPut = returnS 0,
     CY_U3P_ERROR_NOT_SUPPORTED = 0x45, CyU3PSpiInit = returnS 0, CyU3PSpiDeInit = returnS 0,
     CyU3PSpiSetConfig = returnS 0, CyU3PSpiSetSsnLine = (\<lambda>b p. (0, part_ssn b p)),
     CyU3PSpiTransmitWords = (\<lambda>bs p. (0, part_tx bs p)),
     CyU3PSpiReceiveWords = (\<lambda>n p. ((0, part_data n p), part_rx p)),
     CyU3PThreadSleep = (\<lambda>ms p. ((), part_sleep ms p)) \<rparr>"

lemma part_sdk: "spi_sdk part_sdk (\<lambda>p. p)"
  by (simp add: spi_sdk_def part_sdk_def)

definition empty_bus :: "unit fx3_sdk" where
  "empty_bus = \<lparr> CyU3PMutexCreate = returnS 0, CyU3PMutexGet = returnS 0, CyU3PMutexPut = returnS 0,
     CY_U3P_ERROR_NOT_SUPPORTED = 0x45, CyU3PSpiInit = returnS 0, CyU3PSpiDeInit = returnS 0,
     CyU3PSpiSetConfig = returnS 0, CyU3PSpiSetSsnLine = (\<lambda>b. returnS 0), CyU3PSpiTransmitWords = (\<lambda>bs. returnS 0),
     CyU3PSpiReceiveWords = (\<lambda>n. returnS (0, replicate n 0xff)), CyU3PThreadSleep = (\<lambda>ms. returnS ()) \<rparr>"

definition blank_part :: flash_part where
  "blank_part = \<lparr> part_mem = (\<lambda>_. 0xff), part_otp = (\<lambda>_. 0xff), part_secured = False, part_wel = False, part_busy = 7,
     part_prog = True, part_delays = (\<lambda>n. n), part_cmd = None \<rparr>"


end
