(* ===== verification/Fx3_Apps.thy ===== *)
theory Fx3_Apps
  imports Fx3_Spi
begin

text \<open>
  The applications of the FX3 firmware: what selecting an alternate setting starts and stops.  The RF link
  (fx3_firmware/rf.c) with the UART bridge to the FPGA, the loading of the FPGA over USB (fpga.c), the setup of the
  parallel interface they share (gpif.c), the pins and the DMA channels (the first part of bladeRF.c).
  The static variables of all files of the firmware are the fields of one record.
\<close>

unbundle bit_operations_syntax

section \<open>Types and state\<close>

abbreviation (input) GPIO_nSTATUS :: nat where "GPIO_nSTATUS \<equiv> 52"
abbreviation (input) GPIO_nCONFIG :: nat where "GPIO_nCONFIG \<equiv> 51"
abbreviation (input) GPIO_CONFDONE :: nat where "GPIO_CONFDONE \<equiv> 50"
abbreviation (input) GPIO_LED :: nat where "GPIO_LED \<equiv> 58"
abbreviation (input) GPIO_ID :: nat where "GPIO_ID \<equiv> 59"
abbreviation (input) GPIO_SYS_RST :: nat where "GPIO_SYS_RST \<equiv> 24"
abbreviation (input) GPIO_RX_EN :: nat where "GPIO_RX_EN \<equiv> 21"
abbreviation (input) GPIO_TX_EN :: nat where "GPIO_TX_EN \<equiv> 22"

datatype app_mode = MODE_NO_CONFIG | MODE_FPGA_CONFIG | MODE_RF_CONFIG | MODE_FW_CONFIG

text \<open>What NuandGPIOReconfigure tells the SDK, and the descriptors it registers.\<close>

record io_matrix =
  useSpi :: bool
  isDQ32Bit :: bool
  gpioSimpleEn :: "u32 \<times> u32"

record gpio_config =
  outValue :: bool
  driveLowEn :: bool
  driveHighEn :: bool
  inputEn :: bool

datatype usb_descr = SS_DEVICE | HS_DEVICE | SS_BOS | DEVQUAL | SS_CONFIG | HS_CONFIG | FS_CONFIG | STRING_DESCR nat


datatype usb_speed = CY_U3P_NOT_CONNECTED | CY_U3P_FULL_SPEED | CY_U3P_HIGH_SPEED | CY_U3P_SUPER_SPEED

text \<open>The DMA channels by their handles, and the sockets between which they run.\<close>

datatype dma_channel = glChHandlebladeRFUtoUART | glChHandlebladeRFUARTtoU | glChHandleUtoP | glChHandlePtoU | glChHandlebladeRFUtoP

datatype dma_socket = CY_U3P_UIB_SOCKET_PROD_1 | CY_U3P_UIB_SOCKET_PROD_2 | CY_U3P_UIB_SOCKET_CONS_1 | CY_U3P_UIB_SOCKET_CONS_2
  | CY_U3P_LPP_SOCKET_UART_PROD | CY_U3P_LPP_SOCKET_UART_CONS | CY_U3P_PIB_SOCKET_0 | CY_U3P_PIB_SOCKET_3

datatype dma_type = CY_U3P_DMA_TYPE_AUTO | CY_U3P_DMA_TYPE_MANUAL

text \<open>The modes and headers are the same for all channels; the callback goes with the notification of produce events.\<close>

record dma_config =
  dma_size :: u16
  dma_count :: u16
  prodSckId :: dma_socket
  consSckId :: dma_socket
  prod_event_cb :: bool
  prodFooter :: u16

record ep_config =
  ep_enable :: bool
  ep_bulk :: bool
  burstLen :: u8
  pcktSize :: u16

text \<open>The waveform tables that the GPIF designer generates.\<close>

datatype gpif_waveform = Rflink_CyFxGpifConfig | C4loader_CyFxGpifConfig

datatype NuandGpifConfig = GPIF_CONFIG_DISABLED | GPIF_CONFIG_RF_LINK | GPIF_CONFIG_FPGA_LOAD

datatype dma_event = CY_U3P_DMA_CB_PROD_EVENT | OTHER_DMA_EVENT

record 'h fx3_app_sdk = "'h fx3_sdk" +
  FIRMWARE_VERSION_MAJOR :: u16
  FIRMWARE_VERSION_MINOR :: u16
  FIRMWARE_VERSION :: bytes
  CY_U3P_ERROR_FAILURE :: u32
  CY_U3P_ERROR_BAD_ARGUMENT :: u32
  CyU3PUsbSendEP0Data :: "bytes \<Rightarrow> ('h, u32) st"
  CyU3PUsbGetEP0Data :: "nat \<Rightarrow> ('h, u32 \<times> bytes) st"
  CyU3PUsbStall :: "u8 \<Rightarrow> bool \<Rightarrow> bool \<Rightarrow> ('h, u32) st"
  CyU3PUsbAckSetup :: "('h, unit) st"
  CyU3PDeviceReset :: "bool \<Rightarrow> ('h, unit) st"
  CyU3PGpioGetValue :: "nat \<Rightarrow> ('h, u32 \<times> bool) st"
  CyU3PGpioSetValue :: "nat \<Rightarrow> bool \<Rightarrow> ('h, u32) st"
  CyU3PGpioInit :: "('h, u32) st"
  CyU3PGetTime :: "('h, u32) st"
  CyU3PDeviceConfigureIOMatrix :: "io_matrix \<Rightarrow> ('h, u32) st"
  CyU3PDeviceGpioOverride :: "nat \<Rightarrow> ('h, u32) st"
  CyU3PGpioSetSimpleConfig :: "nat \<Rightarrow> gpio_config \<Rightarrow> ('h, u32) st"
  CyU3PSpiSetClock :: "u32 \<Rightarrow> ('h, u32) st"
  CyU3PUsbStart :: "('h, u32) st"
  CyU3PUsbSetDesc :: "usb_descr \<Rightarrow> ('h, u32) st"
  CyU3PConnectState :: "('h, u32) st"
  CyU3PUsbGetSpeed :: "('h, usb_speed) st"
  CyU3PSetEpConfig :: "u8 \<Rightarrow> ep_config \<Rightarrow> ('h, u32) st"
  CyU3PUsbFlushEp :: "u8 \<Rightarrow> ('h, u32) st"
  CyU3PUsbResetEp :: "u8 \<Rightarrow> ('h, u32) st"
  CyU3PDmaBufferAlloc :: "nat \<Rightarrow> ('h, bytes) st"
  CyU3PDmaChannelCreate :: "dma_channel \<Rightarrow> dma_type \<Rightarrow> dma_config \<Rightarrow> ('h, u32) st"
  CyU3PDmaChannelSetXfer :: "dma_channel \<Rightarrow> u32 \<Rightarrow> ('h, u32) st"
  CyU3PDmaChannelDestroy :: "dma_channel \<Rightarrow> ('h, u32) st"
  CyU3PDmaChannelGetStatus :: "dma_channel \<Rightarrow> ('h, u32) st"
  CyU3PDmaChannelAbort :: "dma_channel \<Rightarrow> ('h, u32) st"
  CyU3PDmaChannelReset :: "dma_channel \<Rightarrow> ('h, u32) st"
  CyU3PDmaChannelSetupSendBuffer :: "dma_channel \<Rightarrow> bytes \<Rightarrow> ('h, u32) st"
  CyU3PDmaChannelWaitForCompletion :: "dma_channel \<Rightarrow> nat \<Rightarrow> ('h, u32) st"
  CyU3PDmaChannelCommitBuffer :: "dma_channel \<Rightarrow> bytes \<Rightarrow> ('h, u32) st"
  CyU3PUartInit :: "('h, u32) st"
  CyU3PUartSetConfig :: "('h, u32) st"
  CyU3PUartTxSetBlockXfer :: "u32 \<Rightarrow> ('h, u32) st"
  CyU3PUartRxSetBlockXfer :: "u32 \<Rightarrow> ('h, u32) st"
  CyU3PUartDeInit :: "('h, u32) st"
  CyU3PGpifDisable :: "bool \<Rightarrow> ('h, unit) st"
  CyU3PPibDeInit :: "('h, u32) st"
  CyU3PPibInit :: "('h, u32) st"
  CyU3PGpifLoad :: "gpif_waveform \<Rightarrow> ('h, u32) st"
  CyU3PGpifSMStart :: "u8 \<Rightarrow> u8 \<Rightarrow> ('h, u32) st"

text \<open>The static variables: of bladeRF.c, of rf.c, of fpga.c and of gpif.c.\<close>

record 'h fx3_app = "'h fx3" +
  glAppMode :: app_mode
  glUsbConfiguration :: u8
  glUsbAltInterface :: nat
  glPageBuffer :: bytes
  glCalCacheValid :: bool
  glCal :: bytes
  glDeviceReady :: bool
  glAutoLoadValid :: bool
  glAutoLoad :: bytes
  CyFxUSBSerial :: bytes
  CyFxUSBVersion :: bytes
  allow_suspend :: bool
  loopback :: u16
  loopback_when_created :: u16
  RF_status_bits :: bytes
  first_call :: bool
  glDMARxCount :: u32
  FPGA_status_bits :: bytes
  gpif_active :: bool
  pib_active :: bool

record 's NuandApplication =
  start :: "('s, unit) fw"
  stop :: "('s, unit) fw"
  halt_endpoint :: "bool \<Rightarrow> u16 \<Rightarrow> ('s, bool) fw"
  halted :: "u16 \<Rightarrow> ('s, bool \<times> u8) fw"
  reset_endpoint :: "u8 \<Rightarrow> ('s, u32) fw"

section \<open>Errors that stop the firmware\<close>

partial_function (option) CyFxAppErrorHandler :: "('h, 'y) fx3_app_sdk_scheme \<Rightarrow> u32 \<Rightarrow> (('h, 'z) fx3_scheme, 'a) fw" where
  "CyFxAppErrorHandler sdk apiRetStatus s = CyFxAppErrorHandler sdk apiRetStatus (snd (hwS (CyU3PThreadSleep sdk 100) s))"

lemma error_handler_hangs [simp]:
  "(CyFxAppErrorHandler sdk apiRetStatus :: (('h, 'z) fx3_scheme, 'a) fw) s = None"
proof -
  have "False" if "CyFxAppErrorHandler sdk apiRetStatus s = Some r" for r :: "'a \<times> ('h, 'z) fx3_scheme"
    by (rule CyFxAppErrorHandler.raw_induct [where P = "\<lambda>sdk status s r. False", OF _ that])
  then show ?thesis by (cases "(CyFxAppErrorHandler sdk apiRetStatus :: (('h, 'z) fx3_scheme, 'a) fw) s") auto
qed

text \<open>The functions are written as lists of steps.  A step that must succeed logs its failure, where the code does,
  and calls the error handler.\<close>

fun steps :: "('s, unit) fw list \<Rightarrow> ('s, unit) fw" where
  "steps [] = returnF ()"
| "steps (m # ms) = seqF m (steps ms)"

definition call :: "('h, 'a) st \<Rightarrow> (('h, 'z) fx3_os_scheme, unit) fw" where
  "call m = seqF (liftF (hwS m)) (returnF ())"

definition fatal_at :: "('h, 'y) fx3_app_sdk_scheme \<Rightarrow> u8 \<Rightarrow> u16 \<Rightarrow> u32 \<Rightarrow> u32 \<Rightarrow> (('h, 'z) fx3_scheme, 'a) fw" where
  "fatal_at sdk file_id line data status = seqF (liftF (LOG_ERROR sdk file_id line data)) (CyFxAppErrorHandler sdk status)"

definition must :: "('h, 'y) fx3_app_sdk_scheme \<Rightarrow> ('h, u32) st \<Rightarrow> (('h, 'z) fx3_scheme, unit) fw" where
  "must sdk m = bindF (liftF (hwS m)) (\<lambda>apiRetStatus.
     if apiRetStatus \<noteq> CY_U3P_SUCCESS then CyFxAppErrorHandler sdk apiRetStatus else returnF ())"

definition must_at :: "('h, 'y) fx3_app_sdk_scheme \<Rightarrow> u8 \<Rightarrow> u16 \<Rightarrow> ('h, u32) st \<Rightarrow> (('h, 'z) fx3_scheme, unit) fw" where
  "must_at sdk file_id line m = bindF (liftF (hwS m)) (\<lambda>apiRetStatus.
     if apiRetStatus \<noteq> CY_U3P_SUCCESS then fatal_at sdk file_id line apiRetStatus apiRetStatus else returnF ())"

section \<open>Pins and the SPI block\<close>

text \<open>Pin, whether it is an input, and whether the IO matrix enables it.\<close>

definition pins :: "(nat \<times> bool \<times> bool) list" where
  "pins = [(GPIO_nSTATUS, True, True), (GPIO_CONFDONE, True, True), (GPIO_SYS_RST, False, False),
     (GPIO_RX_EN, False, False), (GPIO_TX_EN, False, False), (GPIO_nCONFIG, False, True),
     (GPIO_ID, True, True), (GPIO_LED, False, True)]"

definition enable_pin :: "nat \<Rightarrow> u32 \<times> u32 \<Rightarrow> u32 \<times> u32" where
  "enable_pin pin en =
     (if pin < 32 then (fst en OR push_bit (pin - 1) 1, snd en) else (fst en, snd en OR push_bit (pin - 32) 1))"

fun configure_pins ::
  "('h, 'y) fx3_app_sdk_scheme \<Rightarrow> bool \<Rightarrow> (nat \<times> bool \<times> bool) list \<Rightarrow> (('h, 'z) fx3_scheme, unit) fw" where
  "configure_pins sdk warm [] = returnF ()"
| "configure_pins sdk warm ((pin, input, is_warm) # ps) =
     (if warm \<and> is_warm then configure_pins sdk warm ps
      else
        seqF (must_at sdk LOGGER_ID_BLADERF_C 159 (CyU3PDeviceGpioOverride sdk pin))
        (seqF (must_at sdk LOGGER_ID_BLADERF_C 181 (CyU3PGpioSetSimpleConfig sdk pin
          \<lparr> outValue = input, driveLowEn = \<not> input, driveHighEn = \<not> input, inputEn = input \<rparr>))
        (configure_pins sdk warm ps)))"

text \<open>When the IO matrix cannot be set, the firmware loops forever.\<close>

definition NuandGPIOReconfigure ::
  "('h, 'y) fx3_app_sdk_scheme \<Rightarrow> bool \<Rightarrow> bool \<Rightarrow> (('h, 'z) fx3_scheme, unit) fw" where
  "NuandGPIOReconfigure sdk fullGpif warm =
     bindF (liftF (hwS (CyU3PDeviceConfigureIOMatrix sdk
       \<lparr> useSpi = \<not> fullGpif, isDQ32Bit = fullGpif,
         gpioSimpleEn = (if warm then fold enable_pin (map fst (filter (\<lambda>(_, _, is_warm). is_warm) pins)) (0, 0) else (0, 0)) \<rparr>)))
       (\<lambda>status. if status \<noteq> CY_U3P_SUCCESS then undefinedF else configure_pins sdk warm pins)"

definition CyFxGpioInit :: "('h, 'y) fx3_app_sdk_scheme \<Rightarrow> (('h, 'z) fx3_scheme, unit) fw" where
  "CyFxGpioInit sdk =
     seqF (must_at sdk LOGGER_ID_BLADERF_C 203 (CyU3PGpioInit sdk)) (NuandGPIOReconfigure sdk True False)"

definition NuandFlashInit :: "('h, 'y) fx3_app_sdk_scheme \<Rightarrow> (('h, 'z) fx3_app_scheme, u32) fw" where
  "NuandFlashInit sdk =
     seqF (NuandGPIOReconfigure sdk False True)
     (bindF (liftF (CyFxSpiInit sdk)) (\<lambda>status.
      seqF (liftF (modifyS (\<lambda>s. s\<lparr>glAppMode := MODE_FW_CONFIG\<rparr>))) (returnF status)))"

definition NuandFlashDeinit :: "('h, 'y) fx3_app_sdk_scheme \<Rightarrow> (('h, 'z) fx3_app_scheme, unit) fw" where
  "NuandFlashDeinit sdk = seqF (liftF (CyFxSpiDeInit sdk)) (returnF ())"

section \<open>The FPGA\<close>

text \<open>The waiting loops of FpgaBeginProgram: until the time has come, and until the pin is set or the time
  is over.\<close>

partial_function (option) wait_until :: "('h, 'y) fx3_app_sdk_scheme \<Rightarrow> u32 \<Rightarrow> (('h, 'z) fx3_scheme, unit) fw" where
  "wait_until sdk tEnd s =
     (case hwS (CyU3PGetTime sdk) s of (now, t) \<Rightarrow> if now < tEnd then wait_until sdk tEnd t else Some ((), t))"

definition status_round :: "('h, 'y) fx3_app_sdk_scheme \<Rightarrow> u32 \<Rightarrow> (('h, 'z) fx3_scheme, int option) st" where
  "status_round sdk tEnd =
     bindS (hwS (CyU3PGpioGetValue sdk GPIO_nSTATUS)) (\<lambda>(_, value).
     bindS (hwS (CyU3PGetTime sdk)) (\<lambda>now.
     returnS (if now > tEnd then Some (-1) else if value then Some 0 else None)))"

partial_function (option) wait_nstatus :: "('h, 'y) fx3_app_sdk_scheme \<Rightarrow> u32 \<Rightarrow> (('h, 'z) fx3_scheme, int) fw" where
  "wait_nstatus sdk tEnd s =
     (case status_round sdk tEnd s of (None, t) \<Rightarrow> wait_nstatus sdk tEnd t | (Some r, t) \<Rightarrow> Some (r, t))"

definition FpgaBeginProgram :: "('h, 'y) fx3_app_sdk_scheme \<Rightarrow> (('h, 'z) fx3_scheme, int) fw" where
  "FpgaBeginProgram sdk =
     bindF (liftF (hwS (CyU3PGpioSetValue sdk GPIO_nCONFIG False))) (\<lambda>apiRetStatus.
     if apiRetStatus \<noteq> CY_U3P_SUCCESS then returnF (sint apiRetStatus) else
     bindF (liftF (hwS (CyU3PGetTime sdk))) (\<lambda>now.
     seqF (wait_until sdk (now + 10))
     (seqF (liftF (hwS (CyU3PGpioSetValue sdk GPIO_nCONFIG True)))
     (bindF (liftF (hwS (CyU3PGetTime sdk))) (\<lambda>now. wait_nstatus sdk (now + 1000))))))"

text \<open>glFlipLut: the bits of a byte at the pins of the interface, as US_GPIF_2_FPP(GPIFbit, FPPbit) sets them.\<close>

definition US_GPIF_2_FPP :: "nat \<times> nat \<Rightarrow> u8 \<Rightarrow> u16 \<Rightarrow> u16" where
  "US_GPIF_2_FPP bits tmpr tmpw = tmpw OR (if bit tmpr (snd bits) then push_bit (fst bits) 1 else 0)"

definition glFlipLut :: "u8 \<Rightarrow> u16" where
  "glFlipLut i = fold (\<lambda>bits. US_GPIF_2_FPP bits i) [(7, 0), (15, 1), (6, 2), (2, 3), (1, 4), (3, 5), (9, 6), (11, 7)] 0"

text \<open>The loops that flip a buffer in place, from its end: word i of the buffer comes from byte i.\<close>

fun flip_buffer :: "nat \<Rightarrow> bytes \<Rightarrow> bytes" where
  "flip_buffer 0 buf = buf"
| "flip_buffer (Suc i) buf =
     flip_buffer i (let w = put_le16 (glFlipLut (buf ! i)) in buf[2 * i := w ! 0, 2 * i + 1 := w ! 1])"

section \<open>gpif.c\<close>

text \<open>The numbers of the first state and the initial outputs are those of the generated headers.\<close>

definition gpif_start :: "gpif_waveform \<Rightarrow> u8 \<times> u8" where
  "gpif_start w = (case w of Rflink_CyFxGpifConfig \<Rightarrow> (0, 0x80) | C4loader_CyFxGpifConfig \<Rightarrow> (0, 0))"

definition gpif_restart :: "('h, 'y) fx3_app_sdk_scheme \<Rightarrow> gpif_waveform \<Rightarrow> (('h, 'z) fx3_app_scheme, u32) st" where
  "gpif_restart sdk gpif_config =
     bindS (hwS (CyU3PPibInit sdk)) (\<lambda>status.
     if status \<noteq> CY_U3P_SUCCESS then returnS status else
     seqS (modifyS (\<lambda>s. s\<lparr>pib_active := True\<rparr>))
     (bindS (hwS (CyU3PGpifLoad sdk gpif_config)) (\<lambda>status.
      if status \<noteq> CY_U3P_SUCCESS then returnS status else
      seqS (modifyS (\<lambda>s. s\<lparr>gpif_active := True\<rparr>))
      (hwS (CyU3PGpifSMStart sdk (fst (gpif_start gpif_config)) (snd (gpif_start gpif_config)))))))"

definition NuandConfigureGpif :: "('h, 'y) fx3_app_sdk_scheme \<Rightarrow> NuandGpifConfig \<Rightarrow> (('h, 'z) fx3_app_scheme, u32) st" where
  "NuandConfigureGpif sdk config =
     bindS (getS gpif_active) (\<lambda>gpif.
     seqS (if gpif then seqS (hwS (CyU3PGpifDisable sdk True)) (modifyS (\<lambda>s. s\<lparr>gpif_active := False\<rparr>)) else returnS ())
     (bindS (getS pib_active) (\<lambda>pib.
      bindS (if pib then hwS (CyU3PPibDeInit sdk) else returnS CY_U3P_SUCCESS) (\<lambda>status.
      if status \<noteq> CY_U3P_SUCCESS then returnS status else
      seqS (modifyS (\<lambda>s. s\<lparr>pib_active := False\<rparr>))
      (case config of
         GPIF_CONFIG_RF_LINK \<Rightarrow> gpif_restart sdk Rflink_CyFxGpifConfig
       | GPIF_CONFIG_FPGA_LOAD \<Rightarrow> gpif_restart sdk C4loader_CyFxGpifConfig
       | GPIF_CONFIG_DISABLED \<Rightarrow> returnS CY_U3P_SUCCESS)))))"

section \<open>Endpoints and DMA channels\<close>

definition NuandAllowSuspend :: "bool \<Rightarrow> (('h, 'z) fx3_app_scheme, unit) fw" where
  "NuandAllowSuspend set_allow_suspend = liftF (modifyS (\<lambda>s. s\<lparr>allow_suspend := set_allow_suspend\<rparr>))"

definition ClearDMAChannel :: "('h, 'y) fx3_app_sdk_scheme \<Rightarrow> u8 \<Rightarrow> dma_channel \<Rightarrow> u32 \<Rightarrow> (('h, 'z) fx3_scheme, u32) st" where
  "ClearDMAChannel sdk ep ch count =
     bindS (hwS (CyU3PDmaChannelReset sdk ch)) (\<lambda>status.
     if status \<noteq> CY_U3P_SUCCESS then seqS (LOG_ERROR sdk LOGGER_ID_BLADERF_C 251 status) (returnS status) else
     bindS (hwS (CyU3PUsbFlushEp sdk ep)) (\<lambda>status.
     if status \<noteq> CY_U3P_SUCCESS then seqS (LOG_ERROR sdk LOGGER_ID_BLADERF_C 257 status) (returnS status) else
     bindS (hwS (CyU3PUsbResetEp sdk ep)) (\<lambda>status.
     if status \<noteq> CY_U3P_SUCCESS then seqS (LOG_ERROR sdk LOGGER_ID_BLADERF_C 263 status) (returnS status) else
     bindS (hwS (CyU3PDmaChannelSetXfer sdk ch count)) (\<lambda>status.
     if status \<noteq> CY_U3P_SUCCESS then seqS (LOG_ERROR sdk LOGGER_ID_BLADERF_C 269 status) (returnS status)
     else returnS status))))"

text \<open>The size of a packet at the speed of the bus, and the configurations of an endpoint.\<close>

definition speed_code :: "usb_speed \<Rightarrow> u32" where
  "speed_code speed = (case speed of CY_U3P_NOT_CONNECTED \<Rightarrow> 0 | CY_U3P_FULL_SPEED \<Rightarrow> 1 | CY_U3P_HIGH_SPEED \<Rightarrow> 2 | CY_U3P_SUPER_SPEED \<Rightarrow> 3)"

definition packet_size :: "('h, 'y) fx3_app_sdk_scheme \<Rightarrow> u8 \<Rightarrow> u16 \<Rightarrow> usb_speed \<Rightarrow> (('h, 'z) fx3_scheme, u16) fw" where
  "packet_size sdk file_id line usbSpeed =
     (case usbSpeed of
        CY_U3P_FULL_SPEED \<Rightarrow> returnF 64
      | CY_U3P_HIGH_SPEED \<Rightarrow> returnF 512
      | CY_U3P_SUPER_SPEED \<Rightarrow> returnF 1024
      | _ \<Rightarrow> fatal_at sdk file_id line (speed_code usbSpeed) (CY_U3P_ERROR_FAILURE sdk))"

definition ep_on :: "u8 \<Rightarrow> u16 \<Rightarrow> ep_config" where
  "ep_on len sz = \<lparr> ep_enable = True, ep_bulk = True, burstLen = len, pcktSize = sz \<rparr>"

definition ep_off :: ep_config where
  "ep_off = \<lparr> ep_enable = False, ep_bulk = False, burstLen = 0, pcktSize = 0 \<rparr>"

abbreviation (input) BLADE_RF_SAMPLE_EP_PRODUCER :: u8 where "BLADE_RF_SAMPLE_EP_PRODUCER \<equiv> 0x01"
abbreviation (input) BLADE_RF_SAMPLE_EP_CONSUMER :: u8 where "BLADE_RF_SAMPLE_EP_CONSUMER \<equiv> 0x81"
abbreviation (input) BLADE_UART_EP_PRODUCER :: u8 where "BLADE_UART_EP_PRODUCER \<equiv> 0x02"
abbreviation (input) BLADE_UART_EP_CONSUMER :: u8 where "BLADE_UART_EP_CONSUMER \<equiv> 0x82"
abbreviation (input) BLADE_FPGA_EP_PRODUCER :: u8 where "BLADE_FPGA_EP_PRODUCER \<equiv> 0x02"
abbreviation (input) BLADE_DMA_TX_SIZE :: u32 where "BLADE_DMA_TX_SIZE \<equiv> 0"

section \<open>rf.c\<close>

definition NuandRFLinkLoopBack :: "u16 \<Rightarrow> (('h, 'z) fx3_app_scheme, unit) fw" where
  "NuandRFLinkLoopBack lp = liftF (modifyS (\<lambda>s. s\<lparr>loopback := lp\<rparr>))"

definition NuandRFLinkGetLoopBack :: "(('h, 'z) fx3_app_scheme, u16) fw" where
  "NuandRFLinkGetLoopBack = liftF (getS loopback)"

definition uart_channel :: "dma_socket \<Rightarrow> dma_socket \<Rightarrow> dma_config" where
  "uart_channel src dst = \<lparr> dma_size = 16, dma_count = 10, prodSckId = src, consSckId = dst, prod_event_cb = False, prodFooter = 0 \<rparr>"

definition UartBridgeStart :: "('h, 'y) fx3_app_sdk_scheme \<Rightarrow> (('h, 'z) fx3_app_scheme, unit) fw" where
  "UartBridgeStart sdk =
     bindF (liftF (hwS (CyU3PUsbGetSpeed sdk))) (\<lambda>usbSpeed.
     seqF (steps [must sdk (CyU3PUartInit sdk), must sdk (CyU3PUartSetConfig sdk),
       must sdk (CyU3PUartTxSetBlockXfer sdk 0xFFFFFFFF), must sdk (CyU3PUartRxSetBlockXfer sdk 0xFFFFFFFF)])
     (bindF (packet_size sdk LOGGER_ID_RF_C 109 usbSpeed) (\<lambda>sz.
      steps [must_at sdk LOGGER_ID_RF_C 124 (CyU3PSetEpConfig sdk BLADE_UART_EP_PRODUCER (ep_on 1 sz)),
        must_at sdk LOGGER_ID_RF_C 131 (CyU3PSetEpConfig sdk BLADE_UART_EP_CONSUMER (ep_on 1 sz)),
        must_at sdk LOGGER_ID_RF_C 151 (CyU3PDmaChannelCreate sdk glChHandlebladeRFUtoUART CY_U3P_DMA_TYPE_AUTO
          (uart_channel CY_U3P_UIB_SOCKET_PROD_2 CY_U3P_LPP_SOCKET_UART_CONS)),
        must_at sdk LOGGER_ID_RF_C 160 (CyU3PDmaChannelCreate sdk glChHandlebladeRFUARTtoU CY_U3P_DMA_TYPE_AUTO
          (uart_channel CY_U3P_LPP_SOCKET_UART_PROD CY_U3P_UIB_SOCKET_CONS_2)),
        call (CyU3PUsbFlushEp sdk BLADE_UART_EP_PRODUCER), call (CyU3PUsbFlushEp sdk BLADE_UART_EP_CONSUMER),
        must_at sdk LOGGER_ID_RF_C 171 (CyU3PDmaChannelSetXfer sdk glChHandlebladeRFUtoUART BLADE_DMA_TX_SIZE),
        must_at sdk LOGGER_ID_RF_C 177 (CyU3PDmaChannelSetXfer sdk glChHandlebladeRFUARTtoU BLADE_DMA_TX_SIZE),
        must sdk (CyU3PUartTxSetBlockXfer sdk 0xFFFFFFFF), must sdk (CyU3PUartRxSetBlockXfer sdk 0xFFFFFFFF)])))"

definition UartBridgeStop :: "('h, 'y) fx3_app_sdk_scheme \<Rightarrow> (('h, 'z) fx3_app_scheme, unit) fw" where
  "UartBridgeStop sdk =
     steps [call (CyU3PUsbFlushEp sdk BLADE_UART_EP_PRODUCER), call (CyU3PUsbFlushEp sdk BLADE_UART_EP_CONSUMER),
       call (CyU3PDmaChannelDestroy sdk glChHandlebladeRFUARTtoU), call (CyU3PDmaChannelDestroy sdk glChHandlebladeRFUtoUART),
       must_at sdk LOGGER_ID_RF_C 213 (CyU3PSetEpConfig sdk BLADE_UART_EP_PRODUCER ep_off),
       must_at sdk LOGGER_ID_RF_C 219 (CyU3PSetEpConfig sdk BLADE_UART_EP_CONSUMER ep_off),
       call (CyU3PUartDeInit sdk)]"

text \<open>With the firmware's loopback one channel goes from endpoint to endpoint, otherwise one goes to the FPGA and one comes from it.\<close>

definition sample_channel :: "u16 \<Rightarrow> dma_socket \<Rightarrow> dma_socket \<Rightarrow> dma_config" where
  "sample_channel sz src dst =
     \<lparr> dma_size = sz * 2, dma_count = 22, prodSckId = src, consSckId = dst, prod_event_cb = False, prodFooter = 0 \<rparr>"

definition configure_gpif_at :: "('h, 'y) fx3_app_sdk_scheme \<Rightarrow> u8 \<Rightarrow> u16 \<Rightarrow> NuandGpifConfig \<Rightarrow> (('h, 'z) fx3_app_scheme, unit) fw" where
  "configure_gpif_at sdk file_id line config =
     bindF (liftF (NuandConfigureGpif sdk config)) (\<lambda>apiRetStatus.
     if apiRetStatus \<noteq> CY_U3P_SUCCESS then fatal_at sdk file_id line apiRetStatus apiRetStatus else returnF ())"

definition NuandRFLinkStart :: "('h, 'y) fx3_app_sdk_scheme \<Rightarrow> (('h, 'z) fx3_app_scheme, unit) fw" where
  "NuandRFLinkStart sdk =
     bindF (liftF (hwS (CyU3PUsbGetSpeed sdk))) (\<lambda>usbSpeed.
     seqF (steps [NuandAllowSuspend False, NuandGPIOReconfigure sdk True True,
       call (CyU3PGpioSetValue sdk GPIO_SYS_RST True), call (CyU3PGpioSetValue sdk GPIO_RX_EN False),
       call (CyU3PGpioSetValue sdk GPIO_TX_EN False), call (CyU3PGpioSetValue sdk GPIO_SYS_RST False),
       configure_gpif_at sdk LOGGER_ID_RF_C 246 GPIF_CONFIG_RF_LINK])
     (bindF (packet_size sdk LOGGER_ID_RF_C 266 usbSpeed) (\<lambda>sz.
      let ep = ep_on (if usbSpeed = CY_U3P_SUPER_SPEED then 15 else 1) sz in
      seqF (steps [must_at sdk LOGGER_ID_RF_C 281 (CyU3PSetEpConfig sdk BLADE_RF_SAMPLE_EP_PRODUCER ep),
        must_at sdk LOGGER_ID_RF_C 288 (CyU3PSetEpConfig sdk BLADE_RF_SAMPLE_EP_CONSUMER ep),
        liftF (modifyS (\<lambda>s. s\<lparr>loopback_when_created := loopback s\<rparr>))])
      (bindF (liftF (getS loopback)) (\<lambda>lp.
       steps [must_at sdk LOGGER_ID_RF_C 315 (CyU3PDmaChannelCreate sdk glChHandleUtoP CY_U3P_DMA_TYPE_AUTO
           (sample_channel sz CY_U3P_UIB_SOCKET_PROD_1 (if lp \<noteq> 0 then CY_U3P_UIB_SOCKET_CONS_1 else CY_U3P_PIB_SOCKET_3))),
         if lp = 0 then must_at sdk LOGGER_ID_RF_C 324 (CyU3PDmaChannelCreate sdk glChHandlePtoU CY_U3P_DMA_TYPE_AUTO
           (sample_channel sz CY_U3P_PIB_SOCKET_0 CY_U3P_UIB_SOCKET_CONS_1)) else returnF (),
         call (CyU3PUsbFlushEp sdk BLADE_RF_SAMPLE_EP_PRODUCER), call (CyU3PUsbFlushEp sdk BLADE_RF_SAMPLE_EP_CONSUMER),
         must_at sdk LOGGER_ID_RF_C 337 (CyU3PDmaChannelSetXfer sdk glChHandleUtoP BLADE_DMA_TX_SIZE),
         if lp = 0 then must_at sdk LOGGER_ID_RF_C 344 (CyU3PDmaChannelSetXfer sdk glChHandlePtoU BLADE_DMA_TX_SIZE) else returnF (),
         UartBridgeStart sdk,
         liftF (modifyS (\<lambda>s. s\<lparr>glAppMode := MODE_RF_CONFIG\<rparr>))])))))"

definition NuandRFLinkStop :: "('h, 'y) fx3_app_sdk_scheme \<Rightarrow> (('h, 'z) fx3_app_scheme, unit) fw" where
  "NuandRFLinkStop sdk =
     bindF (liftF (getS loopback_when_created)) (\<lambda>lp.
     steps [call (CyU3PGpioSetValue sdk GPIO_SYS_RST True), call (CyU3PGpioSetValue sdk GPIO_RX_EN False),
       call (CyU3PGpioSetValue sdk GPIO_TX_EN False),
       call (CyU3PUsbFlushEp sdk BLADE_RF_SAMPLE_EP_PRODUCER), call (CyU3PUsbFlushEp sdk BLADE_RF_SAMPLE_EP_CONSUMER),
       call (CyU3PDmaChannelDestroy sdk glChHandleUtoP),
       if lp = 0 then call (CyU3PDmaChannelDestroy sdk glChHandlePtoU) else returnF (),
       must_at sdk LOGGER_ID_RF_C 382 (CyU3PSetEpConfig sdk BLADE_RF_SAMPLE_EP_PRODUCER ep_off),
       must_at sdk LOGGER_ID_RF_C 389 (CyU3PSetEpConfig sdk BLADE_RF_SAMPLE_EP_CONSUMER ep_off),
       configure_gpif_at sdk LOGGER_ID_RF_C 396 GPIF_CONFIG_DISABLED,
       UartBridgeStop sdk, NuandAllowSuspend True,
       liftF (modifyS (\<lambda>s. s\<lparr>glAppMode := MODE_NO_CONFIG\<rparr>))])"

definition NuandRFLinkResetEndpoint :: "('h, 'y) fx3_app_sdk_scheme \<Rightarrow> u8 \<Rightarrow> (('h, 'z) fx3_app_scheme, u32) st" where
  "NuandRFLinkResetEndpoint sdk endpoint =
     (if endpoint = BLADE_RF_SAMPLE_EP_PRODUCER then ClearDMAChannel sdk endpoint glChHandleUtoP BLADE_DMA_TX_SIZE
      else if endpoint = BLADE_RF_SAMPLE_EP_CONSUMER then ClearDMAChannel sdk endpoint glChHandlePtoU BLADE_DMA_TX_SIZE
      else if endpoint = BLADE_UART_EP_PRODUCER then ClearDMAChannel sdk endpoint glChHandlebladeRFUtoUART BLADE_DMA_TX_SIZE
      else if endpoint = BLADE_UART_EP_CONSUMER then ClearDMAChannel sdk endpoint glChHandlebladeRFUARTtoU BLADE_DMA_TX_SIZE
      else returnS (CY_U3P_ERROR_BAD_ARGUMENT sdk))"

text \<open>The end of the functions that halt an endpoint.\<close>

definition finish_halt :: "('h, 'y) fx3_app_sdk_scheme \<Rightarrow> bool \<Rightarrow> u16 \<Rightarrow> bool \<Rightarrow> u32 \<Rightarrow> (('h, 'z) fx3_scheme, bool) fw" where
  "finish_halt sdk halt endpoint isHandled status =
     seqF (if status = CY_U3P_SUCCESS then
         steps [call (CyU3PUsbStall sdk (ucast endpoint) False True), if \<not> halt then call (CyU3PUsbAckSetup sdk) else returnF ()]
       else returnF ())
     (returnF (isHandled \<and> status = CY_U3P_SUCCESS))"

definition NuandRFLinkHaltEndpoint :: "('h, 'y) fx3_app_sdk_scheme \<Rightarrow> bool \<Rightarrow> u16 \<Rightarrow> (('h, 'z) fx3_app_scheme, bool) fw" where
  "NuandRFLinkHaltEndpoint sdk halt endpoint =
     (if endpoint \<in> {0x01, 0x81, 0x02, 0x82} then
        seqF (liftF (modifyS (\<lambda>s. s\<lparr>RF_status_bits := (RF_status_bits s)[unat endpoint := if halt then 1 else 0]\<rparr>)))
        (bindF (liftF (NuandRFLinkResetEndpoint sdk (ucast endpoint))) (\<lambda>status.
         finish_halt sdk halt endpoint (\<not> halt) status))
      else finish_halt sdk halt endpoint False (CY_U3P_ERROR_BAD_ARGUMENT sdk))"

definition NuandRFLinkHalted :: "u16 \<Rightarrow> (('h, 'z) fx3_app_scheme, bool \<times> u8) fw" where
  "NuandRFLinkHalted endpoint =
     (if endpoint \<in> {0x01, 0x81, 0x02, 0x82} then
        bindF (liftF (getS RF_status_bits)) (\<lambda>status_bits. returnF (True, status_bits ! unat endpoint))
      else returnF (False, 0))"

section \<open>fpga.c\<close>

text \<open>A buffer that has arrived is flipped in place, at the head of the room that prodFooter leaves behind its
  bytes, and committed with twice their number.  A buffer without the room has no result.\<close>

definition bladeRFConfigUtoPDmaCallback ::
  "('h, 'y) fx3_app_sdk_scheme \<Rightarrow> dma_channel \<Rightarrow> dma_event \<Rightarrow> bytes \<Rightarrow> u16 \<Rightarrow> (('h, 'z) fx3_app_scheme, unit) fw" where
  "bladeRFConfigUtoPDmaCallback sdk chHandle event buffer count =
     (if event = CY_U3P_DMA_CB_PROD_EVENT then
        (if 2 * unat count \<le> length buffer then
           bindF (liftF (hwS (CyU3PDmaChannelCommitBuffer sdk chHandle
             (take (unat (count * 2)) (flip_buffer (unat count) buffer))))) (\<lambda>status.
           seqF (if status \<noteq> CY_U3P_SUCCESS then liftF (LOG_ERROR sdk LOGGER_ID_FPGA_C 104 status) else returnF ())
           (liftF (modifyS (\<lambda>s. s\<lparr>glDMARxCount := glDMARxCount s + 1\<rparr>))))
         else undefinedF)
      else returnF ())"

definition NuandFpgaConfigStart :: "('h, 'y) fx3_app_sdk_scheme \<Rightarrow> (('h, 'z) fx3_app_scheme, unit) fw" where
  "NuandFpgaConfigStart sdk =
     bindF (liftF (hwS (CyU3PUsbGetSpeed sdk))) (\<lambda>usbSpeed.
     seqF (NuandAllowSuspend False)
     (bindF (liftF (getS first_call)) (\<lambda>first.
      seqF (steps [NuandGPIOReconfigure sdk False (\<not> first), liftF (modifyS (\<lambda>s. s\<lparr>first_call := False\<rparr>)),
        configure_gpif_at sdk LOGGER_ID_FPGA_C 128 GPIF_CONFIG_FPGA_LOAD])
      (bindF (packet_size sdk LOGGER_ID_FPGA_C 148 usbSpeed) (\<lambda>sz.
       steps [must_at sdk LOGGER_ID_FPGA_C 162 (CyU3PSetEpConfig sdk BLADE_FPGA_EP_PRODUCER (ep_on 1 sz)),
         must_at sdk LOGGER_ID_FPGA_C 185 (CyU3PDmaChannelCreate sdk glChHandlebladeRFUtoP CY_U3P_DMA_TYPE_MANUAL
           \<lparr> dma_size = sz * 4, dma_count = 2, prodSckId = CY_U3P_UIB_SOCKET_PROD_2, consSckId = CY_U3P_PIB_SOCKET_3,
             prod_event_cb = True, prodFooter = sz * 3 \<rparr>),
         call (CyU3PUsbFlushEp sdk BLADE_FPGA_EP_PRODUCER),
         must_at sdk LOGGER_ID_FPGA_C 195 (CyU3PDmaChannelSetXfer sdk glChHandlebladeRFUtoP BLADE_DMA_TX_SIZE),
         liftF (modifyS (\<lambda>s. s\<lparr>glAppMode := MODE_FPGA_CONFIG\<rparr>))])))))"

definition NuandFpgaConfigStop :: "('h, 'y) fx3_app_sdk_scheme \<Rightarrow> (('h, 'z) fx3_app_scheme, unit) fw" where
  "NuandFpgaConfigStop sdk =
     steps [call (CyU3PDmaChannelReset sdk glChHandlebladeRFUtoP), call (CyU3PUsbFlushEp sdk BLADE_FPGA_EP_PRODUCER),
       call (CyU3PDmaChannelDestroy sdk glChHandlebladeRFUtoP),
       must_at sdk LOGGER_ID_FPGA_C 223 (CyU3PSetEpConfig sdk BLADE_FPGA_EP_PRODUCER ep_off),
       configure_gpif_at sdk LOGGER_ID_FPGA_C 229 GPIF_CONFIG_DISABLED,
       NuandAllowSuspend True,
       liftF (modifyS (\<lambda>s. s\<lparr>glAppMode := MODE_NO_CONFIG\<rparr>)),
       call (CyU3PGpioSetValue sdk GPIO_SYS_RST True)]"

definition NuandFpgaConfigResetEndpoint :: "('h, 'y) fx3_app_sdk_scheme \<Rightarrow> u8 \<Rightarrow> (('h, 'z) fx3_app_scheme, u32) st" where
  "NuandFpgaConfigResetEndpoint sdk endpoint =
     (if endpoint = BLADE_FPGA_EP_PRODUCER then ClearDMAChannel sdk endpoint glChHandlebladeRFUtoP BLADE_DMA_TX_SIZE
      else returnS (CY_U3P_ERROR_BAD_ARGUMENT sdk))"

definition NuandFpgaConfigHaltEndpoint :: "('h, 'y) fx3_app_sdk_scheme \<Rightarrow> bool \<Rightarrow> u16 \<Rightarrow> (('h, 'z) fx3_app_scheme, bool) fw" where
  "NuandFpgaConfigHaltEndpoint sdk halt endpoint =
     (if endpoint = 0x02 then
        seqF (liftF (modifyS (\<lambda>s. s\<lparr>FPGA_status_bits := (FPGA_status_bits s)[unat endpoint := if halt then 1 else 0]\<rparr>)))
        (bindF (liftF (NuandFpgaConfigResetEndpoint sdk (ucast endpoint))) (\<lambda>status.
         finish_halt sdk halt endpoint (\<not> halt) status))
      else finish_halt sdk halt endpoint False (CY_U3P_ERROR_BAD_ARGUMENT sdk))"

definition NuandFpgaConfigHalted :: "u16 \<Rightarrow> (('h, 'z) fx3_app_scheme, bool \<times> u8) fw" where
  "NuandFpgaConfigHalted endpoint =
     (if endpoint = 0x02 then
        bindF (liftF (getS FPGA_status_bits)) (\<lambda>status_bits. returnF (True, status_bits ! unat endpoint))
      else returnF (False, 0))"

section \<open>The two applications\<close>

definition NuandRFLink :: "('h, 'y) fx3_app_sdk_scheme \<Rightarrow> (('h, 'z) fx3_app_scheme) NuandApplication" where
  "NuandRFLink sdk = \<lparr> start = NuandRFLinkStart sdk, stop = NuandRFLinkStop sdk,
     halt_endpoint = NuandRFLinkHaltEndpoint sdk, halted = NuandRFLinkHalted,
     reset_endpoint = (\<lambda>endpoint. liftF (NuandRFLinkResetEndpoint sdk endpoint)) \<rparr>"

definition NuandFpgaConfig :: "('h, 'y) fx3_app_sdk_scheme \<Rightarrow> (('h, 'z) fx3_app_scheme) NuandApplication" where
  "NuandFpgaConfig sdk = \<lparr> start = NuandFpgaConfigStart sdk, stop = NuandFpgaConfigStop sdk,
     halt_endpoint = NuandFpgaConfigHaltEndpoint sdk, halted = NuandFpgaConfigHalted,
     reset_endpoint = (\<lambda>endpoint. liftF (NuandFpgaConfigResetEndpoint sdk endpoint)) \<rparr>"

end
