(* ===== verification/Fx3_Requests.thy ===== *)
theory Fx3_Requests
  imports Fx3_Apps
begin

text \<open>
  The FX3 firmware's application (fx3_firmware/bladeRF.c, with NuandLoadFromFlash of fpga.c and NuandExtractField of
  flash.c): the handling of the control requests of the host, the change of the alternate setting, start-up and the
  loading of the FPGA from the flash memory.  An access outside of a buffer has no result.
\<close>

unbundle bit_operations_syntax

section \<open>Constants\<close>

abbreviation (input) BLADE_USB_CMD_QUERY_VERSION :: u8 where "BLADE_USB_CMD_QUERY_VERSION \<equiv> 0"
abbreviation (input) BLADE_USB_CMD_QUERY_FPGA_STATUS :: u8 where "BLADE_USB_CMD_QUERY_FPGA_STATUS \<equiv> 1"
abbreviation (input) BLADE_USB_CMD_BEGIN_PROG :: u8 where "BLADE_USB_CMD_BEGIN_PROG \<equiv> 2"
abbreviation (input) BLADE_USB_CMD_RF_RX :: u8 where "BLADE_USB_CMD_RF_RX \<equiv> 4"
abbreviation (input) BLADE_USB_CMD_RF_TX :: u8 where "BLADE_USB_CMD_RF_TX \<equiv> 5"
abbreviation (input) BLADE_USB_CMD_QUERY_DEVICE_READY :: u8 where "BLADE_USB_CMD_QUERY_DEVICE_READY \<equiv> 6"
abbreviation (input) BLADE_USB_CMD_FLASH_READ :: u8 where "BLADE_USB_CMD_FLASH_READ \<equiv> 100"
abbreviation (input) BLADE_USB_CMD_FLASH_WRITE :: u8 where "BLADE_USB_CMD_FLASH_WRITE \<equiv> 101"
abbreviation (input) BLADE_USB_CMD_FLASH_ERASE :: u8 where "BLADE_USB_CMD_FLASH_ERASE \<equiv> 102"
abbreviation (input) BLADE_USB_CMD_READ_OTP :: u8 where "BLADE_USB_CMD_READ_OTP \<equiv> 103"
abbreviation (input) BLADE_USB_CMD_WRITE_OTP :: u8 where "BLADE_USB_CMD_WRITE_OTP \<equiv> 104"
abbreviation (input) BLADE_USB_CMD_RESET :: u8 where "BLADE_USB_CMD_RESET \<equiv> 105"
abbreviation (input) BLADE_USB_CMD_JUMP_TO_BOOTLOADER :: u8 where "BLADE_USB_CMD_JUMP_TO_BOOTLOADER \<equiv> 106"
abbreviation (input) BLADE_USB_CMD_READ_PAGE_BUFFER :: u8 where "BLADE_USB_CMD_READ_PAGE_BUFFER \<equiv> 107"
abbreviation (input) BLADE_USB_CMD_WRITE_PAGE_BUFFER :: u8 where "BLADE_USB_CMD_WRITE_PAGE_BUFFER \<equiv> 108"
abbreviation (input) BLADE_USB_CMD_LOCK_OTP :: u8 where "BLADE_USB_CMD_LOCK_OTP \<equiv> 109"
abbreviation (input) BLADE_USB_CMD_READ_CAL_CACHE :: u8 where "BLADE_USB_CMD_READ_CAL_CACHE \<equiv> 110"
abbreviation (input) BLADE_USB_CMD_INVALIDATE_CAL_CACHE :: u8 where "BLADE_USB_CMD_INVALIDATE_CAL_CACHE \<equiv> 111"
abbreviation (input) BLADE_USB_CMD_REFRESH_CAL_CACHE :: u8 where "BLADE_USB_CMD_REFRESH_CAL_CACHE \<equiv> 112"
abbreviation (input) BLADE_USB_CMD_SET_LOOPBACK :: u8 where "BLADE_USB_CMD_SET_LOOPBACK \<equiv> 113"
abbreviation (input) BLADE_USB_CMD_GET_LOOPBACK :: u8 where "BLADE_USB_CMD_GET_LOOPBACK \<equiv> 114"
abbreviation (input) BLADE_USB_CMD_READ_LOG_ENTRY :: u8 where "BLADE_USB_CMD_READ_LOG_ENTRY \<equiv> 115"

abbreviation (input) USB_IF_NULL :: nat where "USB_IF_NULL \<equiv> 0"
abbreviation (input) USB_IF_RF_LINK :: nat where "USB_IF_RF_LINK \<equiv> 1"
abbreviation (input) USB_IF_SPI_FLASH :: nat where "USB_IF_SPI_FLASH \<equiv> 2"
abbreviation (input) USB_IF_CONFIG :: nat where "USB_IF_CONFIG \<equiv> 3"

abbreviation (input) CAL_PAGE :: u16 where "CAL_PAGE \<equiv> 768"
abbreviation (input) AUTOLOAD_PAGE :: u16 where "AUTOLOAD_PAGE \<equiv> 1024"

section \<open>Fields\<close>

text \<open>NuandExtractField compares the checksum only to ignore the result ("a1 == a2 || 1").  The result is
  its return value and the buffer at val; a terminating zero after the end of the buffer is lost.\<close>

function extract_loop :: "bytes \<Rightarrow> nat \<Rightarrow> nat \<Rightarrow> bytes \<Rightarrow> nat \<Rightarrow> bytes \<Rightarrow> (int \<times> bytes) option" where
  "extract_loop ptr end ub field maxlen val =
     (if ub < end then
        case byte_at ptr ub of
          None \<Rightarrow> None
        | Some c \<Rightarrow>
            if c = 0xff then Some (1, val)
            else (case (le16_at ptr (ub + unat c + 1), crc16mp 0 (drop ub ptr) (unat c + 1)) of
                (Some a1, Some a2) \<Rightarrow>
                  (case has_prefix (drop (ub + 1) ptr) field of
                     None \<Rightarrow> None
                   | Some True \<Rightarrow>
                       (let wlen = min (unat (ucast c - of_nat (length field) :: u32)) maxlen in
                        map_option (\<lambda>str. (0, take (length val) (str @ replicate (wlen - length str) 0 @ [0] @ drop (wlen + 1) val)))
                          (copy_string (drop (ub + 1 + length field) ptr) wlen))
                   | Some False \<Rightarrow> extract_loop ptr end (ub + unat c + 3) field maxlen val)
              | _ \<Rightarrow> None)
      else Some (1, val))"
  by pat_completeness auto

termination extract_loop
  by (relation "measure (\<lambda>(ptr, end, ub, field, maxlen, val). end - ub)") auto

declare extract_loop.simps [simp del]

definition NuandExtractField :: "bytes \<Rightarrow> nat \<Rightarrow> bytes \<Rightarrow> bytes \<Rightarrow> nat \<Rightarrow> (int \<times> bytes) option" where
  "NuandExtractField ptr len field val maxlen = extract_loop ptr len 0 field maxlen val"

section \<open>Loading the FPGA from the flash memory\<close>

text \<open>The loop of NuandLoadFromFlash.  The DMA buffer goes through every turn; a failed call ends it.  The count is
  an uint16_t: for a negative length it reaches past the buffer.\<close>

definition okF :: "('s, u32) fw \<Rightarrow> ('s, bool) fw \<Rightarrow> ('s, bool) fw" where
  "okF m k = bindF m (\<lambda>status. if status \<noteq> CY_U3P_SUCCESS then returnF False else k)"

definition load_count :: "int \<Rightarrow> nat" where
  "load_count nleft = unat (word_of_int ((if nleft > 256 then 256 else nleft + 2) * 2) :: u16)"

function load_loop ::
  "('h, 'y) fx3_app_sdk_scheme \<Rightarrow> int \<Rightarrow> u16 \<Rightarrow> bytes \<Rightarrow> (('h, 'z) fx3_scheme, bool) fw" where
  "load_loop sdk nleft sector_idx ptr =
     (if nleft = 0 then returnF False else
      okF (liftF (hwS (CyU3PDmaChannelGetStatus sdk glChHandlebladeRFUtoP)))
      (seqF (liftF (hwS (CyU3PDmaChannelAbort sdk glChHandlebladeRFUtoP)))
      (okF (liftF (hwS (CyU3PDmaChannelGetStatus sdk glChHandlebladeRFUtoP)))
      (seqF (liftF (hwS (CyU3PDmaChannelReset sdk glChHandlebladeRFUtoP)))
      (okF (liftF (hwS (CyU3PDmaChannelGetStatus sdk glChHandlebladeRFUtoP)))
      (bindF (CyFxSpiTransfer sdk sector_idx 0x100 ptr True) (\<lambda>(status, ptr).
       if status \<noteq> CY_U3P_SUCCESS then returnF False else
       let ptr = flip_buffer 256 ptr; count = load_count nleft in
       if count > length ptr then undefinedF else
       okF (liftF (hwS (CyU3PDmaChannelSetupSendBuffer sdk glChHandlebladeRFUtoP (take count ptr))))
       (okF (liftF (hwS (CyU3PDmaChannelGetStatus sdk glChHandlebladeRFUtoP)))
       (okF (liftF (hwS (CyU3PDmaChannelWaitForCompletion sdk glChHandlebladeRFUtoP 100)))
       (okF (liftF (hwS (CyU3PDmaChannelGetStatus sdk glChHandlebladeRFUtoP)))
       (if nleft > 256 then load_loop sdk (nleft - 256) (sector_idx + 1) ptr else returnF True)))))))))))"
  by pat_completeness auto

termination load_loop
  by (relation "measure (\<lambda>(sdk, nleft, sector_idx, ptr). nat nleft)") auto

declare load_loop.simps [simp del]

definition NuandLoadFromFlash ::
  "('h, 'y) fx3_app_sdk_scheme \<Rightarrow> int \<Rightarrow> (('h, 'z) fx3_app_scheme, bool) fw" where
  "NuandLoadFromFlash sdk fpga_len =
     seqF (NuandFpgaConfigStart sdk)
     (bindF (liftF (hwS (CyU3PDmaBufferAlloc sdk 4096))) (\<lambda>ptr.
      seqF (liftF (CyFxSpiInit sdk))
      (seqF (liftF (CyFxSpiFastRead True))
      (seqF (liftF (hwS (CyU3PSpiSetClock sdk 30000000)))
      (bindF (FpgaBeginProgram sdk) (\<lambda>begun.
       bindF (if begun \<noteq> 0 then returnF False else load_loop sdk fpga_len 1025 ptr) (\<lambda>retval.
       seqF (liftF (hwS (CyU3PSpiDeInit sdk)))
       (seqF (liftF (CyFxSpiFastRead False))
       (seqF (NuandFpgaConfigStop sdk) (returnF retval))))))))))"

section \<open>Control requests\<close>

definition CyU3PUsbSendRetCode :: "('h, 'y) fx3_app_sdk_scheme \<Rightarrow> u32 \<Rightarrow> (('h, 'z) fx3_scheme, unit) fw" where
  "CyU3PUsbSendRetCode sdk ret_status =
     bindF (liftF (hwS (CyU3PUsbSendEP0Data sdk (put_le32 ret_status)))) (\<lambda>apiRetStatus.
     liftF (if apiRetStatus \<noteq> CY_U3P_SUCCESS then LOG_ERROR sdk LOGGER_ID_BLADERF_C 320 apiRetStatus else returnS ()))"

definition NuandReadCalTable :: "('h, 'y) fx3_app_sdk_scheme \<Rightarrow> bytes \<Rightarrow> (('h, 'z) fx3_scheme, u32 \<times> bytes) fw" where
  "NuandReadCalTable sdk cal_buff = CyFxSpiTransfer sdk CAL_PAGE 256 cal_buff True"

definition NuandReadAutoLoad :: "('h, 'y) fx3_app_sdk_scheme \<Rightarrow> bytes \<Rightarrow> (('h, 'z) fx3_scheme, u32 \<times> bytes) fw" where
  "NuandReadAutoLoad sdk cal_buff = CyFxSpiTransfer sdk AUTOLOAD_PAGE 256 cal_buff True"

definition StopApplication :: "('h, 'y) fx3_app_sdk_scheme \<Rightarrow> (('h, 'z) fx3_app_scheme, unit) fw" where
  "StopApplication sdk =
     bindF (liftF (getS glAppMode)) (\<lambda>mode.
     if mode = MODE_RF_CONFIG then stop (NuandRFLink sdk)
     else if mode = MODE_FPGA_CONFIG then stop (NuandFpgaConfig sdk) else returnF ())"

text \<open>The cases BLADE_USB_CMD_RF_RX and BLADE_USB_CMD_RF_TX.\<close>

definition enable_rf ::
  "('h, 'y) fx3_app_sdk_scheme \<Rightarrow> nat \<Rightarrow> u8 \<Rightarrow> u16 \<Rightarrow> u16 \<Rightarrow> (('h, 'z) fx3_app_scheme, unit) fw" where
  "enable_rf sdk pin ep line wValue =
     (let use_feature = (ucast wValue :: u8) in
      bindF (liftF (hwS (CyU3PGpioGetValue sdk GPIO_TX_EN))) (\<lambda>(_, txen).
      bindF (liftF (hwS (CyU3PGpioGetValue sdk GPIO_RX_EN))) (\<lambda>(_, rxen).
      seqF (if \<not> txen \<and> \<not> rxen then
              steps [call (CyU3PGpioSetValue sdk GPIO_SYS_RST True), call (CyU3PGpioSetValue sdk GPIO_SYS_RST False)]
            else returnF ())
      (seqF (call (CyU3PGpioSetValue sdk pin (use_feature \<noteq> 0)))
      (bindF (if use_feature = 0 then
          bindF (reset_endpoint (NuandRFLink sdk) ep) (\<lambda>apiRetStatus.
          seqF (liftF (if apiRetStatus \<noteq> CY_U3P_SUCCESS then LOG_ERROR sdk LOGGER_ID_BLADERF_C line apiRetStatus else returnS ()))
          (returnF apiRetStatus))
        else returnF CY_U3P_SUCCESS) (\<lambda>apiRetStatus.
       CyU3PUsbSendRetCode sdk apiRetStatus))))))"

text \<open>A stall does not end the handler.\<close>

definition stall_unless :: "('h, 'y) fx3_app_sdk_scheme \<Rightarrow> u8 \<Rightarrow> bool \<Rightarrow> (('h, 'z) fx3_scheme, unit) fw" where
  "stall_unless sdk ep b =
     (if b then returnF () else seqF (liftF (hwS (CyU3PUsbStall sdk ep True False))) (returnF ()))"

definition flash_selected :: "('h, 'y) fx3_app_sdk_scheme \<Rightarrow> (('h, 'z) fx3_app_scheme, unit) fw" where
  "flash_selected sdk =
     bindF (liftF (getS glUsbAltInterface)) (\<lambda>alt. stall_unless sdk 0x80 (alt = USB_IF_SPI_FLASH))"

text \<open>A reply from a buffer of 256 bytes at wIndex, undefined when it reaches past its end.\<close>

definition send_part :: "('h, 'y) fx3_app_sdk_scheme \<Rightarrow> u16 \<Rightarrow> bytes \<Rightarrow> u16 \<Rightarrow> u16 \<Rightarrow> (('h, 'z) fx3_scheme, unit) fw" where
  "send_part sdk line buf wIndex wLength =
     seqF (stall_unless sdk 0x80 (unat wIndex + unat wLength \<le> 256))
     (if unat wIndex + unat wLength \<le> length buf then
        bindF (liftF (hwS (CyU3PUsbSendEP0Data sdk (take (unat wLength) (drop (unat wIndex) buf))))) (\<lambda>apiRetStatus.
        liftF (if apiRetStatus \<noteq> CY_U3P_SUCCESS then LOG_ERROR sdk LOGGER_ID_BLADERF_C line apiRetStatus else returnS ()))
      else undefinedF)"

definition store_page :: "bytes \<Rightarrow> (('h, 'z) fx3_app_scheme, unit) fw" where
  "store_page page = liftF (modifyS (\<lambda>s. s\<lparr>glPageBuffer := page\<rparr>))"

definition bootloader_header :: bytes where
  "bootloader_header = [0x43, 0x59, 0, 0xB2, 0x80, 0x60, 0x50, 0x1d]"

definition NuandHandleVendorRequest ::
  "('h, 'y) fx3_app_sdk_scheme \<Rightarrow> u8 \<Rightarrow> u16 \<Rightarrow> u16 \<Rightarrow> u16 \<Rightarrow> (('h, 'z) fx3_app_scheme, int) fw" where
  "NuandHandleVendorRequest sdk bRequest wValue wIndex wLength =
     bindF (liftF (getS glDeviceReady)) (\<lambda>ready.
     if \<not> ready \<and> bRequest \<noteq> BLADE_USB_CMD_QUERY_DEVICE_READY then returnF (-1) else
     bindF (liftF (getS glPageBuffer)) (\<lambda>page.
     seqF (
       if bRequest = BLADE_USB_CMD_QUERY_VERSION then
         seqF (liftF (hwS (CyU3PUsbSendEP0Data sdk (put_le16 (FIRMWARE_VERSION_MAJOR sdk) @ put_le16 (FIRMWARE_VERSION_MINOR sdk))))) (returnF ())
       else if bRequest = BLADE_USB_CMD_RF_RX then enable_rf sdk GPIO_RX_EN BLADE_RF_SAMPLE_EP_CONSUMER 390 wValue
       else if bRequest = BLADE_USB_CMD_RF_TX then enable_rf sdk GPIO_TX_EN BLADE_RF_SAMPLE_EP_PRODUCER 414 wValue
       else if bRequest = BLADE_USB_CMD_BEGIN_PROG then
         bindF (FpgaBeginProgram sdk) (\<lambda>retStatus. CyU3PUsbSendRetCode sdk (word_of_int retStatus))
       else if bRequest = BLADE_USB_CMD_QUERY_FPGA_STATUS then
         bindF (liftF (hwS (CyU3PGpioGetValue sdk GPIO_CONFDONE))) (\<lambda>(apiRetStatus, fpgaProg).
         CyU3PUsbSendRetCode sdk (if apiRetStatus = CY_U3P_SUCCESS then (if fpgaProg then 1 else 0) else -1))
       else if bRequest = BLADE_USB_CMD_QUERY_DEVICE_READY then CyU3PUsbSendRetCode sdk (if ready then 1 else 0)
       else if bRequest = BLADE_USB_CMD_SET_LOOPBACK then
         seqF (NuandRFLinkLoopBack wValue) (CyU3PUsbSendRetCode sdk (ucast wValue))
       else if bRequest = BLADE_USB_CMD_GET_LOOPBACK then
         bindF NuandRFLinkGetLoopBack (\<lambda>isLoopbackEnabled. CyU3PUsbSendRetCode sdk (ucast isLoopbackEnabled))
       else if bRequest = BLADE_USB_CMD_READ_PAGE_BUFFER then send_part sdk 461 page wIndex wLength
       else if bRequest = BLADE_USB_CMD_WRITE_PAGE_BUFFER then
         seqF (stall_unless sdk 0x0 (unat wIndex + unat wLength \<le> 256))
         (if unat wIndex + unat wLength \<le> length page then
            bindF (liftF (hwS (CyU3PUsbGetEP0Data sdk (unat wLength)))) (\<lambda>(apiRetStatus, data).
            let data = take (unat wLength) data in
            steps [store_page (take (unat wIndex) page @ data @ drop (unat wIndex + length data) page),
              liftF (if apiRetStatus \<noteq> CY_U3P_SUCCESS then LOG_ERROR sdk LOGGER_ID_BLADERF_C 472 apiRetStatus else returnS ()),
              liftF (if length data \<noteq> unat wLength then
                  seqS (LOG_ERROR sdk LOGGER_ID_BLADERF_C 476 (of_nat (length data)))
                  (LOG_ERROR sdk LOGGER_ID_BLADERF_C 477 (ucast wLength))
                else returnS ())])
          else undefinedF)
       else if bRequest = BLADE_USB_CMD_WRITE_OTP then
         seqF (flash_selected sdk)
         (bindF (NuandWriteOtp sdk wIndex 0x100 page) (\<lambda>apiRetStatus. CyU3PUsbSendRetCode sdk apiRetStatus))
       else if bRequest = BLADE_USB_CMD_READ_OTP then
         seqF (flash_selected sdk)
         (bindF (NuandReadOtp sdk wIndex 0x100 page) (\<lambda>(apiRetStatus, page).
          seqF (store_page page) (CyU3PUsbSendRetCode sdk apiRetStatus)))
       else if bRequest = BLADE_USB_CMD_LOCK_OTP then
         seqF (flash_selected sdk)
         (bindF (liftF (NuandLockOtp sdk)) (\<lambda>apiRetStatus. CyU3PUsbSendRetCode sdk apiRetStatus))
       else if bRequest = BLADE_USB_CMD_FLASH_READ then
         seqF (flash_selected sdk)
         (bindF (CyFxSpiTransfer sdk wIndex 0x100 page True) (\<lambda>(apiRetStatus, page).
          seqF (store_page page) (CyU3PUsbSendRetCode sdk apiRetStatus)))
       else if bRequest = BLADE_USB_CMD_FLASH_WRITE then
         seqF (flash_selected sdk)
         (bindF (CyFxSpiTransfer sdk wIndex 0x100 page False) (\<lambda>(apiRetStatus, _). CyU3PUsbSendRetCode sdk apiRetStatus))
       else if bRequest = BLADE_USB_CMD_FLASH_ERASE then
         seqF (flash_selected sdk)
         (bindF (CyFxSpiEraseSector sdk True (ucast wIndex)) (\<lambda>apiRetStatus. CyU3PUsbSendRetCode sdk apiRetStatus))
       else if bRequest = BLADE_USB_CMD_READ_CAL_CACHE then
         bindF (liftF (getS glCalCacheValid)) (\<lambda>valid.
         seqF (stall_unless sdk 0x80 valid)
         (bindF (liftF (getS glCal)) (\<lambda>cal. send_part sdk 551 cal wIndex wLength)))
       else if bRequest = BLADE_USB_CMD_INVALIDATE_CAL_CACHE then
         seqF (liftF (modifyS (\<lambda>s. s\<lparr>glCalCacheValid := False\<rparr>))) (liftF (hwS (CyU3PUsbAckSetup sdk)))
       else if bRequest = BLADE_USB_CMD_REFRESH_CAL_CACHE then
         seqF (flash_selected sdk)
         (bindF (liftF (getS glCal)) (\<lambda>cal.
          bindF (NuandReadCalTable sdk cal) (\<lambda>(apiRetStatus, cal).
          seqF (liftF (modifyS (\<lambda>s. s\<lparr>glCal := cal, glCalCacheValid := glCalCacheValid s \<or> apiRetStatus = CY_U3P_SUCCESS\<rparr>)))
          (CyU3PUsbSendRetCode sdk apiRetStatus))))
       else if bRequest = BLADE_USB_CMD_RESET then
         seqF (liftF (hwS (CyU3PUsbAckSetup sdk))) (liftF (hwS (CyU3PDeviceReset sdk False)))
       else if bRequest = BLADE_USB_CMD_JUMP_TO_BOOTLOADER then
         seqF (StopApplication sdk)
         (seqF (NuandFlashInit sdk)
         (bindF (CyFxSpiEraseSector sdk True 0) (\<lambda>apiRetStatus.
          if apiRetStatus \<noteq> CY_U3P_SUCCESS then
            seqF (liftF (hwS (CyU3PUsbStall sdk 0 True False))) (liftF (hwS (CyU3PDeviceReset sdk False)))
          else
            seqF (CyFxSpiTransfer sdk 0 (of_nat (length bootloader_header)) bootloader_header False)
            (seqF (liftF (hwS (CyU3PUsbAckSetup sdk))) (liftF (hwS (CyU3PDeviceReset sdk False)))))))
       else if bRequest = BLADE_USB_CMD_READ_LOG_ENTRY then
         bindF (liftF (logger_read sdk)) (\<lambda>e. CyU3PUsbSendRetCode sdk e)
       else returnF ())
     (returnF (if bRequest \<in> {0, 1, 2, 4, 5, 6, 100, 101, 102, 103, 104, 105, 106, 107, 108, 109, 110, 111, 112, 113, 114, 115}
        then 1 else 0))))"

section \<open>Events of the bus\<close>

text \<open>A setup packet, decoded; the standard requests have the numbers of the USB specification.\<close>

datatype request_type = STANDARD_RQT | VENDOR_RQT | OTHER_RQT
datatype request_target = TARGET_INTF | TARGET_ENDPT | TARGET_OTHER

abbreviation (input) SC_GET_STATUS :: u8 where "SC_GET_STATUS \<equiv> 0"
abbreviation (input) SC_CLEAR_FEATURE :: u8 where "SC_CLEAR_FEATURE \<equiv> 1"
abbreviation (input) SC_SET_FEATURE :: u8 where "SC_SET_FEATURE \<equiv> 3"
abbreviation (input) SC_GET_CONFIGURATION :: u8 where "SC_GET_CONFIGURATION \<equiv> 8"
abbreviation (input) SC_GET_INTERFACE :: u8 where "SC_GET_INTERFACE \<equiv> 10"
abbreviation (input) SC_SET_SEL :: u8 where "SC_SET_SEL \<equiv> 0x30"
abbreviation (input) EP_HALT :: u16 where "EP_HALT \<equiv> 0"

definition GetStatus :: "('h, 'y) fx3_app_sdk_scheme \<Rightarrow> u16 \<Rightarrow> (('h, 'z) fx3_app_scheme, bool) fw" where
  "GetStatus sdk endpoint =
     bindF (liftF (getS glUsbAltInterface)) (\<lambda>alt.
     bindF (if alt = USB_IF_RF_LINK then halted (NuandRFLink sdk) endpoint
       else if alt = USB_IF_CONFIG then halted (NuandFpgaConfig sdk) endpoint
       else returnF (False, 0)) (\<lambda>(isHandled, data).
     seqF (if isHandled then seqF (liftF (hwS (CyU3PUsbSendEP0Data sdk [data, 0]))) (returnF ()) else returnF ())
     (returnF isHandled)))"

text \<open>ClearHaltCondition and SetHaltCondition.\<close>

definition HaltCondition :: "('h, 'y) fx3_app_sdk_scheme \<Rightarrow> bool \<Rightarrow> u16 \<Rightarrow> (('h, 'z) fx3_app_scheme, bool) fw" where
  "HaltCondition sdk halt endpoint =
     bindF (liftF (getS glUsbAltInterface)) (\<lambda>alt.
     if alt = USB_IF_RF_LINK then halt_endpoint (NuandRFLink sdk) halt endpoint
     else if alt = USB_IF_CONFIG then halt_endpoint (NuandFpgaConfig sdk) halt endpoint
     else returnF False)"

text \<open>The blocks of the callback follow one another; each may replace isHandled.\<close>

definition handled_by :: "bool \<Rightarrow> ('s, bool) fw \<Rightarrow> bool \<Rightarrow> ('s, bool) fw" where
  "handled_by b m isHandled = (if b then m else returnF isHandled)"

definition CyFxbladeRFApplnUSBSetupCB ::
  "('h, 'y) fx3_app_sdk_scheme \<Rightarrow> request_type \<Rightarrow> request_target \<Rightarrow>
     u8 \<Rightarrow> u16 \<Rightarrow> u16 \<Rightarrow> u16 \<Rightarrow> (('h, 'z) fx3_app_scheme, int) fw" where
  "CyFxbladeRFApplnUSBSetupCB sdk bType bTarget bRequest wValue wIndex wLength =
     (if bType = VENDOR_RQT then NuandHandleVendorRequest sdk bRequest wValue wIndex wLength
      else if bType = STANDARD_RQT then
        seqF (if bRequest = SC_SET_SEL then
            bindF (liftF (hwS (CyU3PUsbGetSpeed sdk))) (\<lambda>speed.
            if speed = CY_U3P_SUPER_SPEED \<and> wValue = 0 \<and> wIndex = 0 \<and> wLength = 6
            then call (CyU3PUsbGetEP0Data sdk 32) else returnF ())
          else returnF ())
        (bindF (handled_by (bRequest = SC_GET_INTERFACE \<and> wLength = 1)
           (bindF (liftF (getS glUsbAltInterface)) (\<lambda>alt.
            seqF (liftF (hwS (CyU3PUsbSendEP0Data sdk [of_nat alt]))) (returnF True))) False) (\<lambda>isHandled.
         bindF (handled_by (bRequest = SC_GET_CONFIGURATION \<and> wLength = 1)
           (bindF (liftF (getS glUsbConfiguration)) (\<lambda>conf.
            seqF (liftF (hwS (CyU3PUsbSendEP0Data sdk [conf]))) (returnF True))) isHandled) (\<lambda>isHandled.
         bindF (handled_by (bTarget = TARGET_INTF \<and> (bRequest = SC_SET_FEATURE \<or> bRequest = SC_CLEAR_FEATURE) \<and> wValue = 0)
           (bindF (liftF (getS glUsbConfiguration)) (\<lambda>conf.
            seqF (if conf \<noteq> 0 then liftF (hwS (CyU3PUsbAckSetup sdk))
              else seqF (liftF (hwS (CyU3PUsbStall sdk 0 True False))) (returnF ())) (returnF True))) isHandled) (\<lambda>isHandled.
         bindF (liftF (getS glAppMode)) (\<lambda>mode.
         bindF (handled_by (bTarget = TARGET_ENDPT \<and> bRequest = SC_GET_STATUS \<and> mode \<noteq> MODE_NO_CONFIG)
           (GetStatus sdk wIndex) isHandled) (\<lambda>isHandled.
         bindF (handled_by (bTarget = TARGET_ENDPT \<and> bRequest = SC_CLEAR_FEATURE \<and> wValue = EP_HALT \<and> mode \<noteq> MODE_NO_CONFIG)
           (HaltCondition sdk False wIndex) isHandled) (\<lambda>isHandled.
         bindF (handled_by (bTarget = TARGET_ENDPT \<and> bRequest = SC_SET_FEATURE \<and> wValue = EP_HALT \<and> mode \<noteq> MODE_NO_CONFIG)
           (HaltCondition sdk True wIndex) isHandled) (\<lambda>isHandled.
         returnF (if isHandled then 1 else 0)))))))))
      else returnF 0)"

datatype usb_event = EVENT_SETINTF u16 | EVENT_SETCONF u16 | EVENT_RESET | EVENT_DISCONNECT | EVENT_OTHER

definition CyFxbladeRFApplnUSBEventCB ::
  "('h, 'y) fx3_app_sdk_scheme \<Rightarrow> usb_event \<Rightarrow> (('h, 'z) fx3_app_scheme, unit) fw" where
  "CyFxbladeRFApplnUSBEventCB sdk evtype =
     (case evtype of
        EVENT_SETINTF evdata \<Rightarrow>
          (let interface = unat (drop_bit 4 (evdata AND 0xf0)); alt_interface = unat (evdata AND 0xf) in
           bindF (liftF (getS glUsbAltInterface)) (\<lambda>alt.
           if interface \<noteq> 0 \<or> alt_interface = alt then returnF () else
           seqF (if alt = USB_IF_CONFIG then stop (NuandFpgaConfig sdk)
             else if alt = USB_IF_RF_LINK then stop (NuandRFLink sdk)
             else if alt = USB_IF_SPI_FLASH then NuandFlashDeinit sdk
             else returnF ())
           (seqF (if alt_interface = USB_IF_CONFIG then start (NuandFpgaConfig sdk)
             else if alt_interface = USB_IF_RF_LINK then start (NuandRFLink sdk)
             else if alt_interface = USB_IF_SPI_FLASH then seqF (NuandFlashInit sdk) (returnF ())
             else returnF ())
           (liftF (modifyS (\<lambda>s. s\<lparr>glUsbAltInterface := alt_interface\<rparr>))))))
      | EVENT_SETCONF evdata \<Rightarrow> liftF (modifyS (\<lambda>s. s\<lparr>glUsbConfiguration := ucast evdata\<rparr>))
      | EVENT_RESET \<Rightarrow> StopApplication sdk
      | EVENT_DISCONNECT \<Rightarrow> StopApplication sdk
      | EVENT_OTHER \<Rightarrow> returnF ())"

section \<open>Start-up\<close>

text \<open>The serial number's buffer is on the stack: its first contents are an argument.\<close>

definition extractSerialAndCal :: "('h, 'y) fx3_app_sdk_scheme \<Rightarrow> bytes \<Rightarrow> (('h, 'z) fx3_app_scheme, unit) fw" where
  "extractSerialAndCal sdk serial_buf =
     seqF (NuandFlashInit sdk)
     (bindF (NuandReadOtp sdk 0 0x100 (replicate 256 0)) (\<lambda>(_, otp_buf).
      seqF (case NuandExtractField otp_buf 0x100 [0x53] serial_buf 32 of
          None \<Rightarrow> undefinedF
        | Some (r, serial_buf) \<Rightarrow>
            if r = 0 then liftF (modifyS (\<lambda>s. s\<lparr>CyFxUSBSerial :=
              fold (\<lambda>i serial. serial[2 + i * 2 := serial_buf ! i]) [0..<32] (CyFxUSBSerial s)\<rparr>))
            else returnF ())
      (bindF (liftF (getS glCal)) (\<lambda>cal.
       bindF (NuandReadCalTable sdk cal) (\<lambda>(status, cal).
       seqF (liftF (modifyS (\<lambda>s. s\<lparr>glCal := cal, glCalCacheValid := glCalCacheValid s \<or> status = CY_U3P_SUCCESS\<rparr>)))
       (bindF (liftF (getS glAutoLoad)) (\<lambda>auto.
        bindF (NuandReadAutoLoad sdk auto) (\<lambda>(status, auto).
        seqF (liftF (modifyS (\<lambda>s. s\<lparr>glAutoLoad := auto, glAutoLoadValid := glAutoLoadValid s \<or> status = CY_U3P_SUCCESS\<rparr>)))
        (NuandFlashDeinit sdk)))))))))"

text \<open>The line of the log entry and the call.\<close>

definition usb_start_calls :: "('h, 'y) fx3_app_sdk_scheme \<Rightarrow> (u16 \<times> ('h, u32) st) list" where
  "usb_start_calls sdk =
     [(824, CyU3PUsbStart sdk), (844, CyU3PUsbSetDesc sdk SS_DEVICE), (851, CyU3PUsbSetDesc sdk HS_DEVICE),
      (858, CyU3PUsbSetDesc sdk SS_BOS), (865, CyU3PUsbSetDesc sdk DEVQUAL), (872, CyU3PUsbSetDesc sdk SS_CONFIG),
      (879, CyU3PUsbSetDesc sdk HS_CONFIG), (886, CyU3PUsbSetDesc sdk FS_CONFIG), (893, CyU3PUsbSetDesc sdk (STRING_DESCR 0)),
      (903, CyU3PUsbSetDesc sdk (STRING_DESCR 1)), (913, CyU3PUsbSetDesc sdk (STRING_DESCR 2)),
      (923, CyU3PUsbSetDesc sdk (STRING_DESCR 3)), (933, CyU3PUsbSetDesc sdk (STRING_DESCR 4)), (940, CyU3PConnectState sdk)]"

definition bladeRFInit :: "('h, 'y) fx3_app_sdk_scheme \<Rightarrow> (('h, 'z) fx3_app_scheme, unit) fw" where
  "bladeRFInit sdk =
     seqF (steps (map (\<lambda>(line, m). must_at sdk LOGGER_ID_BLADERF_C line m) (usb_start_calls sdk)))
     (liftF (modifyS (\<lambda>s. s\<lparr>glAppMode := MODE_NO_CONFIG\<rparr>)))"

text \<open>The answer to a request for a low-power mode of the link.\<close>

definition CyFxApplnLPMRqtCB :: "(('h, 'z) fx3_app_scheme, bool) st" where
  "CyFxApplnLPMRqtCB = getS allow_suspend"

text \<open>The version string, of which FIRMWARE_VERSION has the characters and the final zero.\<close>

definition populateVersionString :: "('h, 'y) fx3_app_sdk_scheme \<Rightarrow> (('h, 'z) fx3_app_scheme, unit) fw" where
  "populateVersionString sdk =
     liftF (modifyS (\<lambda>s. s\<lparr>CyFxUSBVersion :=
       fold (\<lambda>i v. v[2 * i + 2 := FIRMWARE_VERSION sdk ! i]) [0..<length (FIRMWARE_VERSION sdk)]
         ((CyFxUSBVersion s)[0 := of_nat (2 * length (FIRMWARE_VERSION sdk) + 2), 1 := 3])\<rparr>))"

definition atoi :: "bytes \<Rightarrow> int" where
  "atoi str =
     (let s = dropWhile is_space str in
      case s of
        [] \<Rightarrow> 0
      | c # r \<Rightarrow>
          if c = 0x2d then - int (fst (read_digits 10 r 0))
          else if c = 0x2b then int (fst (read_digits 10 r 0))
          else int (fst (read_digits 10 s 0)))"

text \<open>Up to the loop that does nothing any more.\<close>

definition bladeRFAppThread_Entry ::
  "('h, 'y) fx3_app_sdk_scheme \<Rightarrow> bytes \<Rightarrow> (('h, 'z) fx3_app_scheme, unit) fw" where
  "bladeRFAppThread_Entry sdk serial_buf =
     seqF (CyFxGpioInit sdk)
     (seqF (populateVersionString sdk)
     (seqF (extractSerialAndCal sdk serial_buf)
     (seqF (bladeRFInit sdk)
     (seqF (liftF (hwS (CyU3PThreadSleep sdk 800)))
     (bindF (liftF (getS glAutoLoadValid)) (\<lambda>valid.
      bindF (liftF (getS glAutoLoad)) (\<lambda>auto.
      seqF (if valid then
          (case NuandExtractField auto 0x100 [0x4c, 0x45, 0x4e] (replicate 11 0) 10 of
             None \<Rightarrow> undefinedF
           | Some (r, fpga_len) \<Rightarrow>
               if r = 0 then
                 seqF (FpgaBeginProgram sdk)
                 (seqF (NuandLoadFromFlash sdk (atoi (fpga_len[10 := 0]))) (returnF ()))
               else returnF ())
        else returnF ())
      (liftF (modifyS (\<lambda>s. s\<lparr>glDeviceReady := True\<rparr>))))))))))"

end
