(* ===== verification/Fx3_Quiet.thy ===== *)
theory Fx3_Quiet
  imports Fx3_Requests
begin

text \<open>
  What the applications of the FX3 firmware leave alone.  With an SDK whose other functions succeed,
  starting and stopping the RF link and the loading of the FPGA returns and keeps what the
  requests on the flash memory rely on.  \<open>view\<close> is the part of the SDK's state that one is
  interested in.
\<close>

section \<open>Functions that only change the state of the SDK\<close>

definition silent :: "('h \<Rightarrow> 'v) \<Rightarrow> ('h, 'a) st \<Rightarrow> 'a \<Rightarrow> bool" where
  "silent view m x \<longleftrightarrow> (\<forall>h. \<exists>t. m h = (x, t) \<and> view t = view h)"

definition quietly :: "('h \<Rightarrow> 'v) \<Rightarrow> (('h, 'z) fx3_scheme, 'a) fw \<Rightarrow> 'a \<Rightarrow> bool" where
  "quietly view m x \<longleftrightarrow> (\<forall>s. \<exists>h. m s = Some (x, s\<lparr>fx_hw := h\<rparr>) \<and> view h = view (fx_hw s))"

lemma quietlyE:
  assumes "quietly view m x"
  obtains h where "m s = Some (x, s\<lparr>fx_hw := h\<rparr>)" "view h = view (fx_hw s)"
  using assms unfolding quietly_def by blast

lemma quietly_return: "quietly view (returnF x) x"
  unfolding quietly_def
proof
  show "\<exists>h. returnF x s = Some (x, s\<lparr>fx_hw := h\<rparr>) \<and> view h = view (fx_hw s)" for s
    by (intro exI [of _ "fx_hw s"]) simp
qed

lemma quietly_bind:
  fixes m :: "(('h, 'z) fx3_scheme, 'a) fw"
  assumes "quietly view m x" "quietly view (f x) y"
  shows "quietly view (bindF m f) y"
  unfolding quietly_def
proof
  fix s :: "('h, 'z) fx3_scheme"
  obtain h where h: "m s = Some (x, s\<lparr>fx_hw := h\<rparr>)" "view h = view (fx_hw s)" by (rule quietlyE [OF assms(1)])
  obtain k where "f x (s\<lparr>fx_hw := h\<rparr>) = Some (y, s\<lparr>fx_hw := h\<rparr>\<lparr>fx_hw := k\<rparr>)" "view k = view (fx_hw (s\<lparr>fx_hw := h\<rparr>))"
    by (rule quietlyE [OF assms(2)])
  then show "\<exists>h. bindF m f s = Some (y, s\<lparr>fx_hw := h\<rparr>) \<and> view h = view (fx_hw s)"
    using h by (intro exI [of _ k]) (simp add: bindF_def)
qed

lemma quietly_hw:
  assumes "silent view m x"
  shows "quietly view (liftF (hwS m)) x"
  unfolding quietly_def
proof
  fix s
  obtain t where "m (fx_hw s) = (x, t)" "view t = view (fx_hw s)" using assms unfolding silent_def by blast
  then show "\<exists>h. liftF (hwS m) s = Some (x, s\<lparr>fx_hw := h\<rparr>) \<and> view h = view (fx_hw s)"
    by (intro exI [of _ t]) (simp add: hwS_def)
qed

lemma quietly_must:
  assumes "silent view m CY_U3P_SUCCESS"
  shows "quietly view (must sdk m) ()" "quietly view (must_at sdk file_id line m) ()"
  unfolding must_def must_at_def by (rule quietly_bind [OF quietly_hw [OF assms]], simp add: quietly_return)+

lemma quietly_call: "silent view m x \<Longrightarrow> quietly view (call m) ()"
  unfolding call_def by (rule quietly_bind [OF quietly_hw quietly_return])

lemma quietly_steps:
  assumes "\<And>m. m \<in> set ms \<Longrightarrow> quietly view m ()"
  shows "quietly view (steps ms) ()"
  using assms
proof (induction ms)
  case (Cons m ms)
  then show ?case unfolding steps.simps by (intro quietly_bind [where x = "()"]) simp_all
qed (simp add: quietly_return)

section \<open>Functions that keep what the requests rely on\<close>

definition kept :: "('h \<Rightarrow> 'v) \<Rightarrow> ('h, 'z) fx3_app_scheme \<Rightarrow> ('h, 'z) fx3_app_scheme \<Rightarrow> bool" where
  "kept view s t \<longleftrightarrow> view (fx_hw t) = view (fx_hw s) \<and> spiFastRead t = spiFastRead s \<and>
     glUsbAltInterface t = glUsbAltInterface s \<and> glPageBuffer t = glPageBuffer s \<and> glDeviceReady t = glDeviceReady s \<and>
     glCalCacheValid t = glCalCacheValid s \<and> glCal t = glCal s \<and> glAutoLoadValid t = glAutoLoadValid s \<and>
     glAutoLoad t = glAutoLoad s \<and> CyFxUSBSerial t = CyFxUSBSerial s \<and> loopback t = loopback s"

definition calm :: "('h \<Rightarrow> 'v) \<Rightarrow> (('h, 'z) fx3_app_scheme, 'a) fw \<Rightarrow> 'a \<Rightarrow> bool" where
  "calm view m x \<longleftrightarrow> (\<forall>s. \<exists>t. m s = Some (x, t) \<and> kept view s t)"

lemma calmE:
  assumes "calm view m x"
  obtains t where "m s = Some (x, t)" "kept view s t"
  using assms unfolding calm_def by blast

lemma calm_quietly: "quietly view m x \<Longrightarrow> calm view m x"
  unfolding quietly_def calm_def kept_def by fastforce

lemma calm_bind:
  fixes m :: "(('h, 'z) fx3_app_scheme, 'a) fw"
  assumes "calm view m x" "calm view (f x) y"
  shows "calm view (bindF m f) y"
  unfolding calm_def
proof
  fix s :: "('h, 'z) fx3_app_scheme"
  obtain t where t: "m s = Some (x, t)" "kept view s t" by (rule calmE [OF assms(1)])
  obtain u where "f x t = Some (y, u)" "kept view t u" by (rule calmE [OF assms(2)])
  then show "\<exists>t. bindF m f s = Some (y, t) \<and> kept view s t"
    using t by (intro exI [of _ u]) (simp add: bindF_def kept_def)
qed

lemma calm_get: "(\<And>x. calm view (k x) y) \<Longrightarrow> calm view (bindF (liftF (getS f)) k) y"
  unfolding calm_def by simp

lemma calm_modify: "(\<And>s. kept view s (f s)) \<Longrightarrow> calm view (liftF (modifyS f)) ()"
  unfolding calm_def by simp

lemma calm_if: "(b \<Longrightarrow> calm view m x) \<Longrightarrow> (\<not> b \<Longrightarrow> calm view k x) \<Longrightarrow> calm view (if b then m else k) x"
  by simp

lemmas calm_hw = calm_quietly [OF quietly_hw]
lemmas calm_must = calm_quietly [OF quietly_must(1)] calm_quietly [OF quietly_must(2)]
lemmas calm_call = calm_quietly [OF quietly_call [where x = CY_U3P_SUCCESS]]
lemmas calm_return = calm_quietly [OF quietly_return]

lemma calm_steps:
  "calm view (steps []) ()"
  "calm view m () \<Longrightarrow> calm view (steps ms) () \<Longrightarrow> calm view (steps (m # ms)) ()"
  by (simp add: calm_return) (simp only: steps.simps, rule calm_bind)

section \<open>The applications\<close>

text \<open>An SDK whose functions for pins, endpoints, channels and blocks succeed, on a bus that is connected.\<close>

definition quiet_sdk :: "('h, 'y) fx3_app_sdk_scheme \<Rightarrow> ('h \<Rightarrow> 'v) \<Rightarrow> bool" where
  "quiet_sdk sdk view \<longleftrightarrow>
     (\<forall>h. \<exists>speed t. CyU3PUsbGetSpeed sdk h = (speed, t) \<and> speed \<noteq> CY_U3P_NOT_CONNECTED \<and> view t = view h) \<and>
     (\<forall>conf. silent view (CyU3PDeviceConfigureIOMatrix sdk conf) CY_U3P_SUCCESS) \<and>
     (\<forall>pin. silent view (CyU3PDeviceGpioOverride sdk pin) CY_U3P_SUCCESS) \<and>
     (\<forall>pin conf. silent view (CyU3PGpioSetSimpleConfig sdk pin conf) CY_U3P_SUCCESS) \<and>
     (\<forall>pin v. silent view (CyU3PGpioSetValue sdk pin v) CY_U3P_SUCCESS) \<and>
     (\<forall>ep conf. silent view (CyU3PSetEpConfig sdk ep conf) CY_U3P_SUCCESS) \<and>
     (\<forall>ep. silent view (CyU3PUsbFlushEp sdk ep) CY_U3P_SUCCESS) \<and>
     (\<forall>ch ty conf. silent view (CyU3PDmaChannelCreate sdk ch ty conf) CY_U3P_SUCCESS) \<and>
     (\<forall>ch n. silent view (CyU3PDmaChannelSetXfer sdk ch n) CY_U3P_SUCCESS) \<and>
     (\<forall>ch. silent view (CyU3PDmaChannelReset sdk ch) CY_U3P_SUCCESS) \<and>
     (\<forall>ch. silent view (CyU3PDmaChannelDestroy sdk ch) CY_U3P_SUCCESS) \<and>
     silent view (CyU3PUartInit sdk) CY_U3P_SUCCESS \<and> silent view (CyU3PUartSetConfig sdk) CY_U3P_SUCCESS \<and>
     silent view (CyU3PUartDeInit sdk) CY_U3P_SUCCESS \<and>
     (\<forall>n. silent view (CyU3PUartTxSetBlockXfer sdk n) CY_U3P_SUCCESS) \<and>
     (\<forall>n. silent view (CyU3PUartRxSetBlockXfer sdk n) CY_U3P_SUCCESS) \<and>
     (\<forall>b. silent view (CyU3PGpifDisable sdk b) ()) \<and>
     silent view (CyU3PPibDeInit sdk) CY_U3P_SUCCESS \<and> silent view (CyU3PPibInit sdk) CY_U3P_SUCCESS \<and>
     (\<forall>w. silent view (CyU3PGpifLoad sdk w) CY_U3P_SUCCESS) \<and>
     (\<forall>i a. silent view (CyU3PGpifSMStart sdk i a) CY_U3P_SUCCESS)"

lemma quiet_sdkD:
  assumes "quiet_sdk sdk view"
  shows "silent view (CyU3PDeviceConfigureIOMatrix sdk io) CY_U3P_SUCCESS"
    "silent view (CyU3PDeviceGpioOverride sdk pin) CY_U3P_SUCCESS"
    "silent view (CyU3PGpioSetSimpleConfig sdk pin conf) CY_U3P_SUCCESS"
    "silent view (CyU3PGpioSetValue sdk pin v) CY_U3P_SUCCESS"
    "silent view (CyU3PSetEpConfig sdk ep epc) CY_U3P_SUCCESS"
    "silent view (CyU3PUsbFlushEp sdk ep) CY_U3P_SUCCESS"
    "silent view (CyU3PDmaChannelCreate sdk ch ty dma) CY_U3P_SUCCESS"
    "silent view (CyU3PDmaChannelSetXfer sdk ch n) CY_U3P_SUCCESS"
    "silent view (CyU3PDmaChannelReset sdk ch) CY_U3P_SUCCESS"
    "silent view (CyU3PDmaChannelDestroy sdk ch) CY_U3P_SUCCESS"
    "silent view (CyU3PUartInit sdk) CY_U3P_SUCCESS" "silent view (CyU3PUartSetConfig sdk) CY_U3P_SUCCESS"
    "silent view (CyU3PUartDeInit sdk) CY_U3P_SUCCESS"
    "silent view (CyU3PUartTxSetBlockXfer sdk n) CY_U3P_SUCCESS"
    "silent view (CyU3PUartRxSetBlockXfer sdk n) CY_U3P_SUCCESS"
    "silent view (CyU3PGpifDisable sdk b) ()"
    "silent view (CyU3PPibDeInit sdk) CY_U3P_SUCCESS" "silent view (CyU3PPibInit sdk) CY_U3P_SUCCESS"
    "silent view (CyU3PGpifLoad sdk w) CY_U3P_SUCCESS"
    "silent view (CyU3PGpifSMStart sdk i a) CY_U3P_SUCCESS"
  using assms unfolding quiet_sdk_def by simp_all

lemma pins_configured:
  fixes view :: "'h \<Rightarrow> 'v"
  assumes "quiet_sdk sdk view"
  shows "quietly view (configure_pins sdk warm ps :: (('h, 'z) fx3_scheme, unit) fw) ()"
proof (induction ps)
  case Nil
  then show ?case unfolding configure_pins.simps by (rule quietly_return)
next
  case (Cons a ps)
  obtain pin input is_warm where a: "a = (pin, input, is_warm)" by (cases a)
  have "quietly view (seqF (must_at sdk 1 159 (CyU3PDeviceGpioOverride sdk pin))
      (seqF (must_at sdk 1 181 (CyU3PGpioSetSimpleConfig sdk pin c)) (configure_pins sdk warm ps)) :: (('h, 'z) fx3_scheme, unit) fw) ()" for c
    by (rule quietly_bind [OF quietly_must(2) [OF quiet_sdkD(2) [OF assms]]],
        rule quietly_bind [OF quietly_must(2) [OF quiet_sdkD(3) [OF assms]]], rule Cons.IH)
  then show ?case using Cons.IH by (cases warm; cases is_warm) (simp_all add: a)
qed

lemma pins_reconfigured:
  assumes "quiet_sdk sdk view"
  shows "quietly view (NuandGPIOReconfigure sdk fullGpif warm) ()"
  unfolding NuandGPIOReconfigure_def
  by (rule quietly_bind [OF quietly_hw [OF quiet_sdkD(1) [OF assms]]]) (simp add: pins_configured [OF assms])

lemma calm_lift_if: "calm view (if b then liftF m else liftF k) x \<Longrightarrow> calm view (liftF (if b then m else k)) x"
  by (cases b) simp_all

lemma calm_ok: "calm view k x \<Longrightarrow> calm view (if CY_U3P_SUCCESS \<noteq> CY_U3P_SUCCESS then e else k) x"
  "calm view (liftF l) x \<Longrightarrow> calm view (liftF (if CY_U3P_SUCCESS \<noteq> CY_U3P_SUCCESS then d else l)) x"
  by simp_all

lemma calm_liftS: "liftF (returnS x) = returnF x"
  by (rule ext) simp

lemma gpif_restarted:
  assumes "quiet_sdk sdk view"
  shows "calm view (liftF (gpif_restart sdk w)) CY_U3P_SUCCESS"
  unfolding gpif_restart_def lift_bind
  by (rule calm_bind [OF calm_hw [OF quiet_sdkD(18) [OF assms]]], rule calm_ok(2), unfold lift_bind,
      rule calm_bind [OF calm_modify], simp add: kept_def,
      rule calm_bind [OF calm_hw [OF quiet_sdkD(19) [OF assms]]], rule calm_ok(2), unfold lift_bind,
      rule calm_bind [OF calm_modify], simp add: kept_def,
      rule calm_hw [OF quiet_sdkD(20) [OF assms]])

lemma gpif_configured:
  assumes "quiet_sdk sdk view"
  shows "calm view (liftF (NuandConfigureGpif sdk config)) CY_U3P_SUCCESS"
    "calm view (configure_gpif_at sdk file_id line config) ()"
proof -
  show g: "calm view (liftF (NuandConfigureGpif sdk config)) CY_U3P_SUCCESS"
    unfolding NuandConfigureGpif_def lift_bind
  proof (rule calm_get, rule calm_bind [where x = "()"])
    show "calm view (liftF (if b then seqS (hwS (CyU3PGpifDisable sdk True)) (modifyS (\<lambda>s. s\<lparr>gpif_active := False\<rparr>)) else returnS ())) ()" for b
      by (rule calm_lift_if, rule calm_if, unfold lift_bind calm_liftS, rule calm_bind [OF calm_hw [OF quiet_sdkD(16) [OF assms]]],
          rule calm_modify, simp add: kept_def, rule calm_return)
    show "calm view (bindF (liftF (getS pib_active)) (\<lambda>pib. bindF (liftF (if pib then hwS (CyU3PPibDeInit sdk) else returnS CY_U3P_SUCCESS))
        (\<lambda>status. liftF (if status \<noteq> CY_U3P_SUCCESS then returnS status else
           seqS (modifyS (\<lambda>s. s\<lparr>pib_active := False\<rparr>))
           (case config of GPIF_CONFIG_DISABLED \<Rightarrow> returnS CY_U3P_SUCCESS | GPIF_CONFIG_RF_LINK \<Rightarrow> gpif_restart sdk Rflink_CyFxGpifConfig
            | GPIF_CONFIG_FPGA_LOAD \<Rightarrow> gpif_restart sdk C4loader_CyFxGpifConfig))))) CY_U3P_SUCCESS"
    proof (rule calm_get, rule calm_bind [where x = CY_U3P_SUCCESS])
      show "calm view (liftF (if b then hwS (CyU3PPibDeInit sdk) else returnS CY_U3P_SUCCESS)) CY_U3P_SUCCESS" for b
        by (rule calm_lift_if, rule calm_if, rule calm_hw [OF quiet_sdkD(17) [OF assms]], unfold calm_liftS, rule calm_return)
    qed (rule calm_ok(2), unfold lift_bind, rule calm_bind [OF calm_modify], simp add: kept_def,
         cases config, simp_all add: gpif_restarted [OF assms] calm_liftS calm_return)
  qed
  show "calm view (configure_gpif_at sdk file_id line config) ()"
    unfolding configure_gpif_at_def by (rule calm_bind [OF g], rule calm_ok(1), rule calm_return)
qed

lemma at_speed:
  fixes k :: "usb_speed \<Rightarrow> (('h, 'z) fx3_app_scheme, 'a) fw"
  assumes "quiet_sdk sdk view" "\<And>speed. speed \<noteq> CY_U3P_NOT_CONNECTED \<Longrightarrow> calm view (k speed) x"
  shows "calm view (bindF (liftF (hwS (CyU3PUsbGetSpeed sdk))) k) x"
  unfolding calm_def
proof
  fix s :: "('h, 'z) fx3_app_scheme"
  obtain speed h where h: "CyU3PUsbGetSpeed sdk (fx_hw s) = (speed, h)" "speed \<noteq> CY_U3P_NOT_CONNECTED" "view h = view (fx_hw s)"
    using conjunct1 [OF assms(1) [unfolded quiet_sdk_def]] by blast
  obtain t where "k speed (s\<lparr>fx_hw := h\<rparr>) = Some (x, t)" "kept view (s\<lparr>fx_hw := h\<rparr>) t" by (rule calmE [OF assms(2) [OF h(2)]])
  then show "\<exists>t. bindF (liftF (hwS (CyU3PUsbGetSpeed sdk))) k s = Some (x, t) \<and> kept view s t"
    using h by (intro exI [of _ t]) (simp add: hwS_def kept_def)
qed

lemma with_size:
  assumes "speed \<noteq> CY_U3P_NOT_CONNECTED" "\<And>sz. calm view (k sz) x"
  shows "calm view (bindF (packet_size sdk file_id line speed) k) x"
  using assms by (cases speed) (simp_all add: packet_size_def calm_def bindF_def)

lemmas calm_rules = calm_steps calm_must calm_call calm_return calm_get calm_if at_speed with_size

lemma app_fields:
  "start (NuandRFLink sdk) = NuandRFLinkStart sdk" "stop (NuandRFLink sdk) = NuandRFLinkStop sdk"
  "start (NuandFpgaConfig sdk) = NuandFpgaConfigStart sdk" "stop (NuandFpgaConfig sdk) = NuandFpgaConfigStop sdk"
  by (simp_all add: NuandRFLink_def NuandFpgaConfig_def)

lemma uart_quiet:
  assumes "quiet_sdk sdk view"
  shows "calm view (UartBridgeStart sdk) ()" "calm view (UartBridgeStop sdk) ()"
proof -
  note d = quiet_sdkD [OF assms]
  show "calm view (UartBridgeStart sdk) ()"
    unfolding UartBridgeStart_def
    by (rule at_speed [OF assms], rule calm_bind [where x = "()"], intro calm_rules d, rule with_size, assumption, intro calm_rules d)
  show "calm view (UartBridgeStop sdk) ()"
    unfolding UartBridgeStop_def by (intro calm_rules d)
qed

lemma suspend_quiet: "calm view (NuandAllowSuspend b) ()"
  unfolding NuandAllowSuspend_def by (rule calm_modify) (simp add: kept_def)

lemma app_set:
  "calm view (liftF (modifyS (\<lambda>s. s\<lparr>glAppMode := mode\<rparr>))) ()"
  "calm view (liftF (modifyS (\<lambda>s. s\<lparr>first_call := b\<rparr>))) ()"
  "calm view (liftF (modifyS (\<lambda>s. s\<lparr>loopback_when_created := loopback s\<rparr>))) ()"
  by (rule calm_modify, simp add: kept_def)+

lemma apps_quiet:
  assumes "quiet_sdk sdk view"
  shows "calm view (NuandRFLinkStart sdk) ()" "calm view (NuandRFLinkStop sdk) ()"
    "calm view (NuandFpgaConfigStart sdk) ()" "calm view (NuandFpgaConfigStop sdk) ()"
proof -
  note d = quiet_sdkD [OF assms] gpif_configured(2) [OF assms] calm_quietly [OF pins_reconfigured [OF assms]] suspend_quiet app_set
    uart_quiet [OF assms]
  show "calm view (NuandRFLinkStart sdk) ()"
    unfolding NuandRFLinkStart_def Let_def
    by (rule at_speed [OF assms], rule calm_bind [where x = "()"], intro calm_rules d, rule with_size, assumption,
        rule calm_bind [where x = "()"], intro calm_rules d, rule calm_get, intro calm_rules d)
  show "calm view (NuandRFLinkStop sdk) ()"
    unfolding NuandRFLinkStop_def by (intro calm_rules d)
  show "calm view (NuandFpgaConfigStart sdk) ()"
    unfolding NuandFpgaConfigStart_def
    by (rule at_speed [OF assms], rule calm_bind [OF suspend_quiet], rule calm_get, rule calm_bind [where x = "()"], intro calm_rules d,
        rule with_size, assumption, intro calm_rules d)
  show "calm view (NuandFpgaConfigStop sdk) ()"
    unfolding NuandFpgaConfigStop_def by (intro calm_rules d)
qed

end
