(* ===== verification/Usb_Backend.thy ===== *)
theory Usb_Backend
  imports Nios_Legacy_Host Bytes
begin

text \<open>
  The host library's USB backend (host/libraries/libbladeRF/src/backend/usb/usb.c): the vendor requests
  to the FX3 firmware, the flash memory behind them, the loading of the FPGA and the choice of the packet format.  The driver
  beneath it (libusb or the Cypress driver) is a parameter with the transfers as its fields; each
  returns a status, an IN transfer also the buffer.  Variables that the code leaves uninitialised start
  as zero.  Environment variables are fields of \<open>env\<close>.  Sleeping and logging are left out.
\<close>

unbundle bit_operations_syntax

section \<open>The driver and the device\<close>

record 's usb_driver = "'s usb" +
  control_in :: "u8 \<Rightarrow> u16 \<Rightarrow> u16 \<Rightarrow> bytes \<Rightarrow> ('s, int \<times> bytes) st"
  control_out :: "u8 \<Rightarrow> u16 \<Rightarrow> u16 \<Rightarrow> bytes \<Rightarrow> ('s, int) st"
  usb_change_setting :: "u8 \<Rightarrow> ('s, int) st"

record env =
  BLADERF_FORCE_NO_FPGA_PRESENT :: bool
  BLADERF_FORCE_LEGACY_NIOS_PKT :: bool

text \<open>The part of struct bladerf that the backend sets; \<open>dev_current_format\<close> tells whether fn is
  backend_fns_usb or backend_fns_usb_legacy.\<close>

record bladerf_dev =
  dev_fpga_version :: bladerf_version
  dev_capabilities :: u64
  dev_current_format :: bool

abbreviation (input) CMD_QUERY_FPGA_STATUS :: u8 where "CMD_QUERY_FPGA_STATUS \<equiv> 1"
abbreviation (input) CMD_BEGIN_PROG :: u8 where "CMD_BEGIN_PROG \<equiv> 2"
abbreviation (input) CMD_RF_RX :: u8 where "CMD_RF_RX \<equiv> 4"
abbreviation (input) CMD_RF_TX :: u8 where "CMD_RF_TX \<equiv> 5"
abbreviation (input) CMD_FLASH_READ :: u8 where "CMD_FLASH_READ \<equiv> 100"
abbreviation (input) CMD_FLASH_WRITE :: u8 where "CMD_FLASH_WRITE \<equiv> 101"
abbreviation (input) CMD_FLASH_ERASE :: u8 where "CMD_FLASH_ERASE \<equiv> 102"
abbreviation (input) CMD_READ_OTP :: u8 where "CMD_READ_OTP \<equiv> 103"
abbreviation (input) CMD_RESET :: u8 where "CMD_RESET \<equiv> 105"
abbreviation (input) CMD_JUMP_TO_BOOTLOADER :: u8 where "CMD_JUMP_TO_BOOTLOADER \<equiv> 106"
abbreviation (input) CMD_READ_PAGE_BUFFER :: u8 where "CMD_READ_PAGE_BUFFER \<equiv> 107"
abbreviation (input) CMD_WRITE_PAGE_BUFFER :: u8 where "CMD_WRITE_PAGE_BUFFER \<equiv> 108"
abbreviation (input) CMD_READ_CAL_CACHE :: u8 where "CMD_READ_CAL_CACHE \<equiv> 110"
abbreviation (input) CMD_SET_LOOPBACK :: u8 where "CMD_SET_LOOPBACK \<equiv> 113"
abbreviation (input) CMD_GET_LOOPBACK :: u8 where "CMD_GET_LOOPBACK \<equiv> 114"
abbreviation (input) CMD_READ_LOG_ENTRY :: u8 where "CMD_READ_LOG_ENTRY \<equiv> 115"

abbreviation (input) IF_NULL :: u8 where "IF_NULL \<equiv> 0"
abbreviation (input) IF_RF_LINK :: u8 where "IF_RF_LINK \<equiv> 1"
abbreviation (input) IF_SPI_FLASH :: u8 where "IF_SPI_FLASH \<equiv> 2"
abbreviation (input) IF_CONFIG :: u8 where "IF_CONFIG \<equiv> 3"

abbreviation (input) BLADERF_FLASH_PAGE_SIZE :: nat where "BLADERF_FLASH_PAGE_SIZE \<equiv> 256"

section \<open>Vendor requests\<close>

text \<open>An int32_t of the host that a request fills.\<close>

definition int_request :: "'s usb_driver \<Rightarrow> u8 \<Rightarrow> u16 \<Rightarrow> u16 \<Rightarrow> u32 \<Rightarrow> ('s, int \<times> u32) st" where
  "int_request u cmd wvalue windex val =
     bindS (control_in u cmd wvalue windex (put_le32 val)) (\<lambda>(status, buf). returnS (status, get_le32 buf))"

definition vendor_cmd_int_windex :: "'s usb_driver \<Rightarrow> u8 \<Rightarrow> u16 \<Rightarrow> u32 \<Rightarrow> ('s, int \<times> u32) st" where
  "vendor_cmd_int_windex u cmd windex val = int_request u cmd 0 windex val"

definition vendor_cmd_int_wvalue :: "'s usb_driver \<Rightarrow> u8 \<Rightarrow> u16 \<Rightarrow> u32 \<Rightarrow> ('s, int \<times> u32) st" where
  "vendor_cmd_int_wvalue u cmd wvalue val = int_request u cmd wvalue 0 val"

text \<open>Every call of vendor_cmd_int is a request from device to host.\<close>

definition vendor_cmd_int :: "'s usb_driver \<Rightarrow> u8 \<Rightarrow> u32 \<Rightarrow> ('s, int \<times> u32) st" where
  "vendor_cmd_int u cmd val = int_request u cmd 0 0 val"

definition change_setting :: "'s usb_driver \<Rightarrow> u8 \<Rightarrow> ('s, int) st" where
  "change_setting u setting = usb_change_setting u setting"

definition usb_is_fpga_configured :: "'s usb_driver \<Rightarrow> env \<Rightarrow> ('s, int) st" where
  "usb_is_fpga_configured u env =
     (if BLADERF_FORCE_NO_FPGA_PRESENT env then returnS 0
      else
        bindS (vendor_cmd_int u CMD_QUERY_FPGA_STATUS (-1)) (\<lambda>(status, result).
        returnS (if status < 0 then status
          else if result = 0 \<or> result = 1 then sint result
          else BLADERF_ERR_UNEXPECTED)))"

section \<open>Loading the FPGA\<close>

text \<open>A bulk transfer of the driver as the legacy access functions use it.\<close>

definition drv :: "'s usb_driver \<Rightarrow> 's usb" where
  "drv u = usb.truncate u"

definition post_fpga_load_init :: "'s usb_driver \<Rightarrow> env \<Rightarrow> bladerf_dev \<Rightarrow> ('s, int \<times> bladerf_dev) st" where
  "post_fpga_load_init u env dev =
     bindS (change_setting u IF_RF_LINK) (\<lambda>status.
     bindS (if status = 0
       then (\<lambda>s. case nios_legacy_get_fpga_version (drv u) s of
           (Inl e, t) \<Rightarrow> ((e, dev), t)
         | (Inr v, t) \<Rightarrow> ((0, dev\<lparr>dev_fpga_version := v\<rparr>), t))
       else returnS (0, dev)) (\<lambda>(read_status, dev).
     if status = 0 \<and> read_status \<noteq> 0 then returnS (read_status, dev)
     else
       let dev = dev\<lparr>dev_capabilities := capabilities_init_post_fpga_load (dev_fpga_version dev) (dev_capabilities dev)\<rparr> in
       returnS (status,
         if BLADERF_FORCE_LEGACY_NIOS_PKT env
         then dev\<lparr>dev_capabilities := dev_capabilities dev AND NOT BLADERF_CAP_PKT_HANDLER_FMT\<rparr>
         else if have_cap (dev_capabilities dev) BLADERF_CAP_PKT_HANDLER_FMT then dev\<lparr>dev_current_format := True\<rparr>
         else dev)))"

definition begin_fpga_programming :: "'s usb_driver \<Rightarrow> ('s, int) st" where
  "begin_fpga_programming u =
     bindS (vendor_cmd_int u CMD_BEGIN_PROG 0) (\<lambda>(status, result).
     returnS (if status \<noteq> 0 then status else if result \<noteq> 0 then BLADERF_ERR_UNEXPECTED else 0))"

text \<open>The polling loop of usb_load_fpga: the count and the status with which it ends.\<close>

fun poll_fpga :: "'s usb_driver \<Rightarrow> env \<Rightarrow> nat \<Rightarrow> int \<Rightarrow> ('s, nat \<times> int) st" where
  "poll_fpga u env 0 status = returnS (0, status)"
| "poll_fpga u env (Suc wait_count) status =
     (if status \<noteq> 0 then returnS (Suc wait_count, status)
      else
        bindS (usb_is_fpga_configured u env) (\<lambda>status.
        if status = 1 then returnS (Suc wait_count, status) else poll_fpga u env wait_count status))"

definition usb_load_fpga :: "'s usb_driver \<Rightarrow> env \<Rightarrow> bytes \<Rightarrow> bladerf_dev \<Rightarrow> ('s, int \<times> bladerf_dev) st" where
  "usb_load_fpga u env bitstream dev =
     bindS (change_setting u IF_CONFIG) (\<lambda>status.
     if status < 0 then returnS (status, dev) else
     bindS (begin_fpga_programming u) (\<lambda>status.
     if status < 0 then returnS (status, dev) else
     bindS (usb_out u bitstream) (\<lambda>status.
     if status < 0 then returnS (status, dev) else
     bindS (poll_fpga u env 10 0) (\<lambda>(wait_count, status).
     if status < 0 then returnS (status, dev)
     else if wait_count = 0 \<and> status \<noteq> 0 then returnS (BLADERF_ERR_TIMEOUT, dev)
     else post_fpga_load_init u env dev))))"

section \<open>Flash memory\<close>

definition restore_post_flash_setting :: "'s usb_driver \<Rightarrow> env \<Rightarrow> ('s, int) st" where
  "restore_post_flash_setting u env =
     bindS (usb_is_fpga_configured u env) (\<lambda>fpga_loaded.
     if fpga_loaded < 0 then returnS fpga_loaded
     else if fpga_loaded \<noteq> 0 then change_setting u IF_RF_LINK
     else change_setting u IF_CONFIG)"

text \<open>What the firmware answers, erase_ret, is not looked at.\<close>

definition perform_erase :: "'s usb_driver \<Rightarrow> u16 \<Rightarrow> ('s, int) st" where
  "perform_erase u block = bindS (int_request u CMD_FLASH_ERASE 0 block 0) (\<lambda>(status, _). returnS status)"

fun erase_loop :: "'s usb_driver \<Rightarrow> u32 \<Rightarrow> nat \<Rightarrow> ('s, int) st" where
  "erase_loop u eb 0 = returnS 0"
| "erase_loop u eb (Suc n) =
     bindS (perform_erase u (ucast eb)) (\<lambda>status.
     if status \<noteq> 0 then returnS status else erase_loop u (eb + 1) n)"

definition usb_erase_flash_blocks :: "'s usb_driver \<Rightarrow> env \<Rightarrow> u32 \<Rightarrow> u16 \<Rightarrow> ('s, int) st" where
  "usb_erase_flash_blocks u env eb count =
     bindS (change_setting u IF_SPI_FLASH) (\<lambda>status.
     if status \<noteq> 0 then returnS status else
     bindS (erase_loop u eb (unat count)) (\<lambda>status.
     bindS (restore_post_flash_setting u env) (\<lambda>restore_status.
     returnS (if status \<noteq> 0 then status else restore_status))))"

text \<open>The size of the transfers of a page: None stands for an unknown speed.\<close>

definition chunk_size :: "bladerf_dev_speed \<Rightarrow> nat option" where
  "chunk_size speed =
     (case speed of
        BLADERF_DEVICE_SPEED_SUPER \<Rightarrow> Some 256
      | BLADERF_DEVICE_SPEED_HIGH \<Rightarrow> Some 64
      | BLADERF_DEVICE_SPEED_UNKNOWN \<Rightarrow> None)"

text \<open>The loops over the chunks at the offsets given.\<close>

fun read_chunks :: "'s usb_driver \<Rightarrow> u8 \<Rightarrow> nat \<Rightarrow> nat list \<Rightarrow> bytes \<Rightarrow> ('s, int \<times> bytes) st" where
  "read_chunks u request len [] buf = returnS (0, buf)"
| "read_chunks u request len (offset # os) buf =
     bindS (control_in u request 0 (of_nat offset) (take len (drop offset buf))) (\<lambda>(status, data).
     let buf = take offset buf @ data @ drop (offset + length data) buf in
     if status < 0 then returnS (status, buf) else read_chunks u request len os buf)"

fun write_chunks :: "'s usb_driver \<Rightarrow> nat \<Rightarrow> nat list \<Rightarrow> bytes \<Rightarrow> ('s, int) st" where
  "write_chunks u len [] buf = returnS 0"
| "write_chunks u len (offset # os) buf =
     bindS (control_out u CMD_WRITE_PAGE_BUFFER 0 (of_nat offset) (take len (drop offset buf))) (\<lambda>status.
     if status < 0 then returnS status else write_chunks u len os buf)"

definition chunk_offsets :: "nat \<Rightarrow> nat list" where
  "chunk_offsets len = map (\<lambda>i. i * len) [0..<BLADERF_FLASH_PAGE_SIZE div len]"

definition read_page :: "'s usb_driver \<Rightarrow> bladerf_dev_speed \<Rightarrow> u8 \<Rightarrow> u16 \<Rightarrow> bytes \<Rightarrow> ('s, int \<times> bytes) st" where
  "read_page u speed read_operation page buf =
     (case chunk_size speed of
        None \<Rightarrow> returnS (BLADERF_ERR_UNEXPECTED, buf)
      | Some read_size \<Rightarrow>
          if read_operation = CMD_FLASH_READ \<or> read_operation = CMD_READ_OTP then
            bindS (vendor_cmd_int_windex u read_operation page 0) (\<lambda>(status, op_status).
            if status \<noteq> 0 then returnS (status, buf)
            else if op_status \<noteq> 0 then returnS (BLADERF_ERR_UNEXPECTED, buf)
            else read_chunks u CMD_READ_PAGE_BUFFER read_size (chunk_offsets read_size) buf)
          else if read_operation = CMD_READ_CAL_CACHE then
            read_chunks u read_operation read_size (chunk_offsets read_size) buf
          else returnS (BLADERF_ERR_UNEXPECTED, buf))"

fun read_pages :: "'s usb_driver \<Rightarrow> bladerf_dev_speed \<Rightarrow> u16 \<Rightarrow> nat \<Rightarrow> bytes \<Rightarrow> ('s, int \<times> bytes) st" where
  "read_pages u speed page 0 buf = returnS (0, buf)"
| "read_pages u speed page (Suc n) buf =
     bindS (read_page u speed CMD_FLASH_READ page (take BLADERF_FLASH_PAGE_SIZE buf)) (\<lambda>(status, data).
     if status \<noteq> 0 then returnS (status, data @ drop BLADERF_FLASH_PAGE_SIZE buf) else
     bindS (read_pages u speed (page + 1) n (drop BLADERF_FLASH_PAGE_SIZE buf)) (\<lambda>(status, rest).
     returnS (status, data @ rest)))"

text \<open>The status of the pages is overwritten.\<close>

definition usb_read_flash_pages ::
  "'s usb_driver \<Rightarrow> env \<Rightarrow> bladerf_dev_speed \<Rightarrow> bytes \<Rightarrow> u32 \<Rightarrow> u32 \<Rightarrow> ('s, int \<times> bytes) st" where
  "usb_read_flash_pages u env speed buf page_u32 count_u32 =
     bindS (change_setting u IF_SPI_FLASH) (\<lambda>status.
     if status \<noteq> 0 then returnS (status, buf) else
     bindS (read_pages u speed (ucast page_u32) (unat (ucast count_u32 :: u16)) buf) (\<lambda>(_, buf).
     bindS (restore_post_flash_setting u env) (\<lambda>status. returnS (status, buf))))"

definition write_page :: "'s usb_driver \<Rightarrow> bladerf_dev_speed \<Rightarrow> u16 \<Rightarrow> bytes \<Rightarrow> ('s, int) st" where
  "write_page u speed page buf =
     (case chunk_size speed of
        None \<Rightarrow> returnS BLADERF_ERR_UNEXPECTED
      | Some write_size \<Rightarrow>
          bindS (write_chunks u write_size (chunk_offsets write_size) buf) (\<lambda>status.
          if status < 0 then returnS status else
          bindS (vendor_cmd_int_windex u CMD_FLASH_WRITE page 0) (\<lambda>(status, commit_status).
          returnS (if status \<noteq> 0 then status else if commit_status \<noteq> 0 then BLADERF_ERR_UNEXPECTED else 0))))"

fun write_pages :: "'s usb_driver \<Rightarrow> bladerf_dev_speed \<Rightarrow> u16 \<Rightarrow> nat \<Rightarrow> bytes \<Rightarrow> ('s, int) st" where
  "write_pages u speed page 0 buf = returnS 0"
| "write_pages u speed page (Suc n) buf =
     bindS (write_page u speed page (take BLADERF_FLASH_PAGE_SIZE buf)) (\<lambda>status.
     if status \<noteq> 0 then returnS status
     else write_pages u speed (page + 1) n (drop BLADERF_FLASH_PAGE_SIZE buf))"

definition usb_write_flash_pages ::
  "'s usb_driver \<Rightarrow> env \<Rightarrow> bladerf_dev_speed \<Rightarrow> bytes \<Rightarrow> u32 \<Rightarrow> u32 \<Rightarrow> ('s, int) st" where
  "usb_write_flash_pages u env speed buf page_u32 count_u32 =
     bindS (change_setting u IF_SPI_FLASH) (\<lambda>status.
     if status \<noteq> 0 then returnS status else
     bindS (write_pages u speed (ucast page_u32) (unat (ucast count_u32 :: u16)) buf) (\<lambda>status.
     bindS (restore_post_flash_setting u env) (\<lambda>restore_status.
     returnS (if status \<noteq> 0 then status else restore_status))))"

section \<open>Other requests\<close>

definition usb_device_reset :: "'s usb_driver \<Rightarrow> ('s, int) st" where
  "usb_device_reset u = control_out u CMD_RESET 0 0 []"

definition usb_jump_to_bootloader :: "'s usb_driver \<Rightarrow> ('s, int) st" where
  "usb_jump_to_bootloader u = control_out u CMD_JUMP_TO_BOOTLOADER 0 0 []"

text \<open>usb_get_cal and usb_get_otp differ in the operation only.\<close>

definition get_region :: "'s usb_driver \<Rightarrow> env \<Rightarrow> bladerf_dev_speed \<Rightarrow> u8 \<Rightarrow> bytes \<Rightarrow> ('s, int \<times> bytes) st" where
  "get_region u env speed operation buf =
     bindS (change_setting u IF_SPI_FLASH) (\<lambda>status.
     if status \<noteq> 0 then returnS (status, buf) else
     bindS (read_page u speed operation 0 buf) (\<lambda>(status, buf).
     bindS (restore_post_flash_setting u env) (\<lambda>restore_status.
     returnS (if status = 0 then restore_status else status, buf))))"

definition usb_get_cal :: "'s usb_driver \<Rightarrow> env \<Rightarrow> bladerf_dev_speed \<Rightarrow> bytes \<Rightarrow> ('s, int \<times> bytes) st" where
  "usb_get_cal u env speed cal = get_region u env speed CMD_READ_CAL_CACHE cal"

definition usb_get_otp :: "'s usb_driver \<Rightarrow> env \<Rightarrow> bladerf_dev_speed \<Rightarrow> bytes \<Rightarrow> ('s, int \<times> bytes) st" where
  "usb_get_otp u env speed otp = get_region u env speed CMD_READ_OTP otp"

definition usb_set_firmware_loopback :: "'s usb_driver \<Rightarrow> bool \<Rightarrow> ('s, int) st" where
  "usb_set_firmware_loopback u enable =
     bindS (vendor_cmd_int_wvalue u CMD_SET_LOOPBACK (if enable then 1 else 0) 0) (\<lambda>(status, _).
     if status \<noteq> 0 then returnS status else
     bindS (change_setting u IF_NULL) (\<lambda>status.
     if status = 0 then change_setting u IF_RF_LINK else returnS status))"

definition usb_get_firmware_loopback :: "'s usb_driver \<Rightarrow> bool \<Rightarrow> ('s, int \<times> bool) st" where
  "usb_get_firmware_loopback u is_enabled =
     bindS (vendor_cmd_int u CMD_GET_LOOPBACK 0) (\<lambda>(status, result).
     returnS (status, if status = 0 then result \<noteq> 0 else is_enabled))"

definition usb_enable_module :: "'s usb_driver \<Rightarrow> bladerf_module \<Rightarrow> bool \<Rightarrow> ('s, int) st" where
  "usb_enable_module u m enable =
     bindS (vendor_cmd_int_wvalue u (if m = BLADERF_MODULE_RX then CMD_RF_RX else CMD_RF_TX) (if enable then 1 else 0) (-1)) (\<lambda>(status, fx3_ret).
     returnS (if status \<noteq> 0 then status
       else if fx3_ret \<noteq> 0 \<and> fx3_ret \<noteq> 0x44 then BLADERF_ERR_UNEXPECTED
       else 0))"

definition usb_read_fw_log :: "'s usb_driver \<Rightarrow> u64 \<Rightarrow> ('s, int \<times> u32) st" where
  "usb_read_fw_log u caps =
     (if have_cap caps BLADERF_CAP_READ_FW_LOG_ENTRY then vendor_cmd_int u CMD_READ_LOG_ENTRY 0
      else returnS (BLADERF_ERR_UNSUPPORTED, 0))"

end
