(* ===== verification/Flash.thy ===== *)
theory Flash
  imports Flash_Fields
begin

text \<open>
  Programming of the flash memory by the host library (host/libraries/libbladeRF/src/flash.c): bounds
  checks, firmware and FPGA images with padding and verification.  The backend's operations are the
  fields of a record.  An allocation always succeeds; a result \<open>None\<close> is an access outside of a buffer.
  The locale \<open>flash_device\<close> states what a backend promises; the lemmas on images need only that.
\<close>

unbundle bit_operations_syntax

section \<open>The backend's operations and the layout of the memory\<close>

record 's flash_fns =
  erase_flash_blocks :: "u32 \<Rightarrow> u16 \<Rightarrow> ('s, int) st"
  read_flash_pages :: "bytes \<Rightarrow> u32 \<Rightarrow> u32 \<Rightarrow> ('s, int \<times> bytes) st"
  write_flash_pages :: "bytes \<Rightarrow> u32 \<Rightarrow> u32 \<Rightarrow> ('s, int) st"

abbreviation (input) PAGE_SIZE :: nat where "PAGE_SIZE \<equiv> 256"
abbreviation (input) BLADERF_FLASH_NUM_PAGES :: u32 where "BLADERF_FLASH_NUM_PAGES \<equiv> 0x4000"
abbreviation (input) BLADERF_FLASH_NUM_EBS :: u32 where "BLADERF_FLASH_NUM_EBS \<equiv> 64"
abbreviation (input) BLADERF_FLASH_PAGE_FIRMWARE :: u32 where "BLADERF_FLASH_PAGE_FIRMWARE \<equiv> 0"
abbreviation (input) BLADERF_FLASH_EB_FIRMWARE :: u32 where "BLADERF_FLASH_EB_FIRMWARE \<equiv> 0"
abbreviation (input) BLADERF_FLASH_EB_LEN_FIRMWARE :: u32 where "BLADERF_FLASH_EB_LEN_FIRMWARE \<equiv> 3"
abbreviation (input) BLADERF_FLASH_PAGE_FPGA :: u32 where "BLADERF_FLASH_PAGE_FPGA \<equiv> 0x400"
abbreviation (input) BLADERF_FLASH_EB_FPGA :: u32 where "BLADERF_FLASH_EB_FPGA \<equiv> 4"
abbreviation (input) BLADERF_FLASH_EB_LEN_FPGA :: u32 where "BLADERF_FLASH_EB_LEN_FPGA \<equiv> 55"

section \<open>Operations\<close>

definition check_eb_access :: "u32 \<Rightarrow> u32 \<Rightarrow> int" where
  "check_eb_access erase_block count =
     (if erase_block \<ge> BLADERF_FLASH_NUM_EBS then BLADERF_ERR_INVAL
      else if count > BLADERF_FLASH_NUM_EBS then BLADERF_ERR_INVAL
      else if erase_block + count > BLADERF_FLASH_NUM_EBS then BLADERF_ERR_INVAL
      else 0)"

definition check_page_access :: "u32 \<Rightarrow> u32 \<Rightarrow> int" where
  "check_page_access page count =
     (if page \<ge> BLADERF_FLASH_NUM_PAGES then BLADERF_ERR_INVAL
      else if count > BLADERF_FLASH_NUM_PAGES then BLADERF_ERR_INVAL
      else if page + count > BLADERF_FLASH_NUM_PAGES then BLADERF_ERR_INVAL
      else 0)"

definition flash_erase :: "'s flash_fns \<Rightarrow> u32 \<Rightarrow> u32 \<Rightarrow> ('s, int) st" where
  "flash_erase dev erase_block count =
     (let status = check_eb_access erase_block count in
      if status = 0 then erase_flash_blocks dev erase_block (ucast count) else returnS status)"

definition flash_read :: "'s flash_fns \<Rightarrow> bytes \<Rightarrow> u32 \<Rightarrow> u32 \<Rightarrow> ('s, int \<times> bytes) st" where
  "flash_read dev buf page count =
     (let status = check_page_access page count in
      if status = 0 then read_flash_pages dev buf page count else returnS (status, buf))"

definition flash_write :: "'s flash_fns \<Rightarrow> bytes \<Rightarrow> u32 \<Rightarrow> u32 \<Rightarrow> ('s, int) st" where
  "flash_write dev buf page count =
     (let status = check_page_access page count in
      if status = 0 then write_flash_pages dev buf page count else returnS status)"

text \<open>The buffers must hold the pages compared.\<close>

definition verify_flash :: "'s flash_fns \<Rightarrow> bytes \<Rightarrow> bytes \<Rightarrow> u32 \<Rightarrow> u32 \<Rightarrow> ('s, int \<times> bytes) fw" where
  "verify_flash dev readback_buf img page count =
     (let len = unat (count * of_nat PAGE_SIZE) in
      if len > length readback_buf \<or> len > length img then undefinedF
      else
        bindF (liftF (flash_read dev readback_buf page count)) (\<lambda>(status, readback_buf).
        returnF (if status < 0 then status
          else if take len img \<noteq> take len readback_buf then BLADERF_ERR_UNEXPECTED
          else status, readback_buf)))"

text \<open>The length after padding, unless it does not fit.\<close>

definition padded_len :: "nat \<Rightarrow> nat option" where
  "padded_len len =
     (let padding_len = (if len mod PAGE_SIZE = 0 then 0 else PAGE_SIZE - len mod PAGE_SIZE) in
      if len \<ge> 2 ^ 32 - 1 - padding_len then None else Some (len + padding_len))"

definition pad_image :: "bytes \<Rightarrow> nat \<Rightarrow> bytes" where
  "pad_image img len = img @ replicate (len - length img) 0xFF"

text \<open>The image is reallocated: the result is the status and the image.\<close>

definition flash_write_fx3_fw :: "'s flash_fns \<Rightarrow> bytes \<Rightarrow> ('s, int \<times> bytes) fw" where
  "flash_write_fx3_fw dev img =
     (case padded_len (length img) of
        None \<Rightarrow> returnF (BLADERF_ERR_INVAL, img)
      | Some padded_image_len \<Rightarrow>
          let padded_image = pad_image img padded_image_len;
              pages = of_nat (padded_image_len div PAGE_SIZE) in
          bindF (liftF (flash_erase dev BLADERF_FLASH_EB_FIRMWARE BLADERF_FLASH_EB_LEN_FIRMWARE)) (\<lambda>status.
          if status \<noteq> 0 then returnF (status, padded_image) else
          bindF (liftF (flash_write dev padded_image BLADERF_FLASH_PAGE_FIRMWARE pages)) (\<lambda>status.
          if status < 0 then returnF (status, padded_image) else
          bindF (verify_flash dev (replicate padded_image_len 0) padded_image BLADERF_FLASH_PAGE_FIRMWARE pages) (\<lambda>(status, _).
          returnF (status, padded_image)))))"

text \<open>snprintf into ten bytes keeps nine characters.\<close>

definition fill_fpga_metadata_page :: "nat \<Rightarrow> bytes" where
  "fill_fpga_metadata_page actual_bitstream_len =
     (let metadata = replicate PAGE_SIZE 0xff;
          len_str = take 9 (decimal (actual_bitstream_len mod 2 ^ 32)) in
      case encode_field metadata (int PAGE_SIZE) 0 [0x4c, 0x45, 0x4e] len_str of
        Some (Inr (metadata, _)) \<Rightarrow> metadata
      | _ \<Rightarrow> metadata)"

definition flash_write_fpga_bitstream :: "'s flash_fns \<Rightarrow> bytes \<Rightarrow> ('s, int \<times> bytes) fw" where
  "flash_write_fpga_bitstream dev bitstream =
     (case padded_len (length bitstream) of
        None \<Rightarrow> returnF (BLADERF_ERR_INVAL, bitstream)
      | Some padded_bitstream_len \<Rightarrow>
          let metadata = fill_fpga_metadata_page (length bitstream);
              padded_bitstream = pad_image bitstream padded_bitstream_len;
              pages = of_nat (padded_bitstream_len div PAGE_SIZE);
              readback_buf = replicate padded_bitstream_len 0;
              fail = (\<lambda>status. returnF (status, padded_bitstream)) in
          bindF (liftF (flash_erase dev BLADERF_FLASH_EB_FPGA BLADERF_FLASH_EB_LEN_FPGA)) (\<lambda>status.
          if status \<noteq> 0 then fail status else
          bindF (liftF (flash_write dev metadata BLADERF_FLASH_PAGE_FPGA 1)) (\<lambda>status.
          if status \<noteq> 0 then fail status else
          bindF (liftF (flash_write dev padded_bitstream (BLADERF_FLASH_PAGE_FPGA + 1) pages)) (\<lambda>status.
          if status \<noteq> 0 then fail status else
          bindF (verify_flash dev readback_buf metadata BLADERF_FLASH_PAGE_FPGA 1) (\<lambda>(status, readback_buf).
          if status \<noteq> 0 then fail status else
          bindF (verify_flash dev readback_buf padded_bitstream (BLADERF_FLASH_PAGE_FPGA + 1) pages) (\<lambda>(status, _).
          fail status))))))"

definition flash_erase_fpga :: "'s flash_fns \<Rightarrow> ('s, int) st" where
  "flash_erase_fpga dev = flash_erase dev BLADERF_FLASH_EB_FPGA BLADERF_FLASH_EB_LEN_FPGA"

section \<open>What a flash device promises\<close>

text \<open>The contents after erasing blocks of 64 KiB and after writing pages: writing clears bits.\<close>

definition blocks_erased :: "nat \<Rightarrow> nat \<Rightarrow> (nat \<Rightarrow> u8) \<Rightarrow> nat \<Rightarrow> u8" where
  "blocks_erased eb count m a = (if eb * 65536 \<le> a \<and> a < (eb + count) * 65536 then 0xff else m a)"

definition pages_written :: "nat \<Rightarrow> bytes \<Rightarrow> (nat \<Rightarrow> u8) \<Rightarrow> nat \<Rightarrow> u8" where
  "pages_written a0 data m a = (if a0 \<le> a \<and> a < a0 + length data then m a AND data ! (a - a0) else m a)"

definition contents :: "(nat \<Rightarrow> u8) \<Rightarrow> nat \<Rightarrow> nat \<Rightarrow> bytes" where
  "contents m a n = map (\<lambda>i. m (a + i)) [0..<n]"

lemma length_contents [simp]: "length (contents m a n) = n"
  by (simp add: contents_def)

text \<open>Images that fit the memory of 4 MiB.\<close>

definition padded_image :: "bytes \<Rightarrow> bytes" where
  "padded_image img = pad_image img ((length img + 255) div 256 * 256)"

lemma padded:
  assumes "length img \<le> 2 ^ 22"
  shows "padded_len (length img) = Some ((length img + 255) div 256 * 256)"
    "length (padded_image img) = (length img + 255) div 256 * 256"
    "length (padded_image img) \<le> 2 ^ 22" "length (padded_image img) mod 256 = 0"
proof -
  have m: "(n + 255) div 256 * 256 = (if n mod 256 = 0 then n else n + (256 - n mod 256))" for n :: nat
  proof -
    obtain q r where n: "n = q * 256 + r" "r < 256" by (metis div_mod_decomp mod_less_divisor zero_less_numeral)
    have "(q * 256 + r + 255) div 256 = q + (r + 255) div 256" by (metis add.assoc div_mult_self3 zero_neq_numeral)
    moreover have "(r + 255) div 256 = (if r = 0 then 0 else 1)" using n(2) by (auto simp add: div_nat_eqI)
    moreover have "n mod 256 = r" using n by simp
    ultimately show ?thesis using n by (simp add: algebra_simps)
  qed
  have l: "length img \<le> (length img + 255) div 256 * 256"
    using mod_less_divisor [of 256 "length img"] unfolding m by auto
  show "length (padded_image img) = (length img + 255) div 256 * 256"
    using l by (simp add: padded_image_def pad_image_def)
  then show "length (padded_image img) \<le> 2 ^ 22" "length (padded_image img) mod 256 = 0" using assms by simp_all
  have b: "length img < 2 ^ 32 - 1 - (if length img mod 256 = 0 then 0 else 256 - length img mod 256)" using assms by simp
  then show "padded_len (length img) = Some ((length img + 255) div 256 * 256)"
    unfolding padded_len_def Let_def m by simp
qed

lemma page_count:
  assumes "length img \<le> 2 ^ 22"
  shows "unat (of_nat (length (padded_image img) div 256) :: u32) = length (padded_image img) div 256"
    "length (padded_image img) div 256 * 256 = length (padded_image img)"
    "length (padded_image img) div 256 \<le> 0x4000"
  using padded [OF assms] by (simp_all add: unat_of_nat)

lemma set_bits: "(-1 :: u8) AND x = x" "(0xff :: u8) AND x = x"
  by (simp_all add: word8_eq_iff bit_simps)

lemma contents_eq_iff: "contents m a (length xs) = xs \<longleftrightarrow> (\<forall>i < length xs. m (a + i) = xs ! i)"
  by (auto simp only: contents_def list_eq_iff_nth_eq length_map length_upt nth_map_upt minus_nat.diff_0 add_0)

locale flash_device =
  fixes dev :: "'s flash_fns" and mem :: "'s \<Rightarrow> nat \<Rightarrow> u8" and ok :: "'s \<Rightarrow> bool"
  assumes erase_law: "ok s \<Longrightarrow> unat eb + unat ebs \<le> 64 \<Longrightarrow>
      \<exists>t. erase_flash_blocks dev eb ebs s = (0, t) \<and> ok t \<and> mem t = blocks_erased (unat eb) (unat ebs) (mem s)"
    and write_law: "ok s \<Longrightarrow> unat page + unat count \<le> 0x4000 \<Longrightarrow> length buf = unat count * 256 \<Longrightarrow>
      \<exists>t. write_flash_pages dev buf page count s = (0, t) \<and> ok t \<and> mem t = pages_written (unat page * 256) buf (mem s)"
    and read_law: "ok s \<Longrightarrow> unat page + unat count \<le> 0x4000 \<Longrightarrow> unat count * 256 \<le> length buf \<Longrightarrow>
      \<exists>t. read_flash_pages dev buf page count s =
        ((0, contents (mem s) (unat page * 256) (unat count * 256) @ drop (unat count * 256) buf), t) \<and> ok t \<and> mem t = mem s"
begin

lemma erase_checked:
  assumes "ok s" "unat eb + unat count \<le> 64" "0 < count"
  shows "\<exists>t. flash_erase dev eb count s = (0, t) \<and> ok t \<and> mem t = blocks_erased (unat eb) (unat count) (mem s)"
proof -
  have u: "unat (eb + count) = unat eb + unat count" using assms(2) by (simp add: unat_plus_if_size word_size)
  have c: "check_eb_access eb count = 0"
    using assms u by (auto simp add: check_eb_access_def word_le_nat_alt word_less_nat_alt)
  have "unat (ucast count :: u16) = unat count" using assms(2) by (simp add: unsigned_ucast_eq take_bit_nat_eq_self)
  then show ?thesis using erase_law [OF assms(1), of eb "ucast count"] assms(2) c by (simp add: flash_erase_def)
qed

lemma page_checked:
  assumes "unat page + unat count \<le> 0x4000" "unat page < 0x4000"
  shows "check_page_access page count = 0"
proof -
  have "unat (page + count) = unat page + unat count" using assms(1) by (simp add: unat_plus_if_size word_size)
  then show ?thesis using assms by (auto simp add: check_page_access_def word_le_nat_alt word_less_nat_alt)
qed

lemma write_checked:
  assumes "ok s" "unat page + unat count \<le> 0x4000" "unat page < 0x4000" "length buf = unat count * 256"
  shows "\<exists>t. flash_write dev buf page count s = (0, t) \<and> ok t \<and> mem t = pages_written (unat page * 256) buf (mem s)"
  using write_law [OF assms(1,2,4)] page_checked [OF assms(2,3)] by (simp add: flash_write_def)

lemma verify:
  assumes "ok s" "unat page + unat count \<le> 0x4000" "unat page < 0x4000"
    "unat count * 256 \<le> length buf" "length img = unat count * 256"
  shows "\<exists>t buf'. verify_flash dev buf img page count s =
    Some ((if contents (mem s) (unat page * 256) (length img) = img then 0 else BLADERF_ERR_UNEXPECTED, buf'), t) \<and>
    ok t \<and> mem t = mem s \<and> length buf' = length buf"
proof -
  have u: "unat (count * of_nat PAGE_SIZE) = unat count * 256" using assms(2) by (simp add: unat_word_ariths)
  obtain t where t: "read_flash_pages dev buf page count s =
      ((0, contents (mem s) (unat page * 256) (unat count * 256) @ drop (unat count * 256) buf), t)" "ok t" "mem t = mem s"
    using read_law [OF assms(1,2,4)] by blast
  show ?thesis using t page_checked [OF assms(2,3)] assms(4,5)
    unfolding verify_flash_def Let_def u by (auto simp add: flash_read_def)
qed

text \<open>The firmware: what the memory holds afterwards, and when the verification finds a difference.\<close>

lemma write_fx3_fw:
  assumes "ok s" "length img \<le> 2 ^ 22"
  defines "p \<equiv> padded_image img"
  shows "\<exists>t. flash_write_fx3_fw dev img s =
      Some ((if \<forall>a. 0x30000 \<le> a \<and> a < length p \<longrightarrow> mem s a AND p ! a = p ! a then 0 else BLADERF_ERR_UNEXPECTED, p), t) \<and>
    ok t \<and> mem t = (\<lambda>a. if a < length p then (if a < 0x30000 then p ! a else mem s a AND p ! a)
      else if a < 0x30000 then 0xff else mem s a)"
proof -
  note pc = page_count [OF assms(2), folded p_def]
  have pad: "pad_image img ((length img + 255) div 256 * 256) = p" by (simp add: p_def padded_image_def)
  have lp: "(length img + 255) div 256 * 256 = length p" using padded(2) [OF assms(2)] by (simp add: p_def)
  obtain t1 where t1: "flash_erase dev 0 3 s = (0, t1)" "ok t1" "mem t1 = blocks_erased 0 3 (mem s)"
    using erase_checked [OF assms(1), of 0 3] by auto
  obtain t2 where t2: "flash_write dev p 0 (of_nat (length p div 256)) t1 = (0, t2)" "ok t2"
      "mem t2 = pages_written 0 p (mem t1)"
    using write_checked [OF t1(2), of 0 "of_nat (length p div 256)" p] pc by auto
  obtain t3 b where t3: "verify_flash dev (replicate (length p) 0) p 0 (of_nat (length p div 256)) t2 =
      Some ((if contents (mem t2) 0 (length p) = p then 0 else BLADERF_ERR_UNEXPECTED, b), t3)" "ok t3" "mem t3 = mem t2"
    using verify [OF t2(2), of 0 "of_nat (length p div 256)" "replicate (length p) 0" p] pc by auto
  have m: "mem t2 a = (if a < length p then (if a < 0x30000 then p ! a else mem s a AND p ! a)
      else if a < 0x30000 then 0xff else mem s a)" for a
    by (auto simp add: t2(3) t1(3) pages_written_def blocks_erased_def set_bits)
  have c: "contents (mem t2) 0 (length p) = p \<longleftrightarrow> (\<forall>a. 0x30000 \<le> a \<and> a < length p \<longrightarrow> mem s a AND p ! a = p ! a)"
    unfolding contents_eq_iff by (auto simp add: m)
  have "flash_write_fx3_fw dev img s = Some ((if contents (mem t2) 0 (length p) = p then 0 else BLADERF_ERR_UNEXPECTED, p), t3)"
    using t1(1) t2(1) t3(1) unfolding flash_write_fx3_fw_def padded(1) [OF assms(2)] option.case Let_def lp pad [unfolded lp]
    by (simp add: bindF_def)
  then show ?thesis using t3(2,3) m c by (intro exI [of _ t3]) auto
qed

end

section \<open>The metadata page\<close>

lemma metadata_page:
  "fill_fpga_metadata_page n = field_bytes ([0x4c, 0x45, 0x4e] @ take 9 (decimal (n mod 2 ^ 32))) @
     replicate (250 - length (take 9 (decimal (n mod 2 ^ 32)))) 0xff"
  "length (fill_fpga_metadata_page n) = 256"
proof -
  let ?d = "take 9 (decimal (n mod 2 ^ 32))"
  have l: "length ?d \<le> 9" by simp
  have "encode_field (replicate 256 0xff) (int 256) 0 [0x4c, 0x45, 0x4e] ?d =
      Some (Inr (field_bytes ([0x4c, 0x45, 0x4e] @ ?d) @ replicate (256 - (length [0x4c :: u8, 0x45, 0x4e] + length ?d + 1) - 2) 0xff,
        length [0x4c :: u8, 0x45, 0x4e] + length ?d + 1 + 2))"
    by (rule encode_field_erased(3)) (use l in simp_all)
  then show e: "fill_fpga_metadata_page n = field_bytes ([0x4c, 0x45, 0x4e] @ ?d) @ replicate (250 - length ?d) 0xff"
    unfolding fill_fpga_metadata_page_def Let_def by simp
  show "length (fill_fpga_metadata_page n) = 256" unfolding e by simp
qed

context flash_device begin

text \<open>The FPGA's bitstream within its region.\<close>

lemma write_fpga_bitstream:
  assumes "ok s" "0 < length img" "length img \<le> 0x36ff00"
  defines "p \<equiv> padded_image img" and "meta \<equiv> fill_fpga_metadata_page (length img)"
  shows "\<exists>t. flash_write_fpga_bitstream dev img s = Some ((0, p), t) \<and> ok t \<and>
    mem t = (\<lambda>a. if a < 0x40000 \<or> 0x3b0000 \<le> a then mem s a
      else if a < 0x40100 then meta ! (a - 0x40000)
      else if a < 0x40100 + length p then p ! (a - 0x40100) else 0xff)"
proof -
  have l: "length img \<le> 2 ^ 22" using assms(3) by simp
  note pc = page_count [OF l, folded p_def]
  have pad: "pad_image img ((length img + 255) div 256 * 256) = p" by (simp add: p_def padded_image_def)
  have lp: "(length img + 255) div 256 * 256 = length p" using padded(2) [OF l] by (simp add: p_def)
  have "256 div 256 \<le> (length img + 255) div 256" using assms(2) by (intro div_le_mono) (simp add: Suc_le_eq)
  then have pb: "length p \<le> 0x36ff00" "256 \<le> length p" using assms(3) unfolding lp [symmetric] by simp_all
  have n: "unat (0x401 :: u32) + unat (of_nat (length p div 256) :: u32) \<le> 0x4000" using pc pb by simp
  have lm: "length meta = 256" by (simp add: meta_def metadata_page(2))
  obtain t1 where t1: "flash_erase dev 4 55 s = (0, t1)" "ok t1" "mem t1 = blocks_erased 4 55 (mem s)"
    using erase_checked [OF assms(1), of 4 55] by auto
  obtain t2 where t2: "flash_write dev meta 0x400 1 t1 = (0, t2)" "ok t2" "mem t2 = pages_written 0x40000 meta (mem t1)"
    using write_checked [OF t1(2), of "0x400" 1 meta] lm by auto
  obtain t3 where t3: "flash_write dev p 0x401 (of_nat (length p div 256)) t2 = (0, t3)" "ok t3"
      "mem t3 = pages_written 0x40100 p (mem t2)"
    using write_checked [OF t2(2) n, of p] pc by auto
  have m: "mem t3 a = (if a < 0x40000 \<or> 0x3b0000 \<le> a then mem s a
      else if a < 0x40100 then meta ! (a - 0x40000)
      else if a < 0x40100 + length p then p ! (a - 0x40100) else 0xff)" for a
    using pb by (auto simp add: t3(3) t2(3) t1(3) pages_written_def blocks_erased_def set_bits lm)
  have c: "contents (mem t3) 0x40000 (length meta) = meta" "contents (mem t3) 0x40100 (length p) = p"
    unfolding contents_eq_iff using pb by (auto simp add: m lm)
  obtain t4 b where t4: "verify_flash dev (replicate (length p) 0) meta 0x400 1 t3 = Some ((0, b), t4)" "ok t4" "mem t4 = mem t3"
      "length b = length p"
    using verify [OF t3(2), of "0x400" 1 "replicate (length p) 0" meta] lm pb c(1) by auto
  obtain t5 b' where t5: "verify_flash dev b p 0x401 (of_nat (length p div 256)) t4 = Some ((0, b'), t5)" "ok t5" "mem t5 = mem t4"
    using verify [OF t4(2) n, of b p] pc t4(3,4) c(2) by auto
  have "flash_write_fpga_bitstream dev img s = Some ((0, p), t5)"
    using t1(1) t2(1) t3(1) t4(1) t5(1) unfolding flash_write_fpga_bitstream_def padded(1) [OF l] option.case Let_def lp pad [unfolded lp]
    by (simp add: bindF_def meta_def)
  then show ?thesis using t5(2,3) t4(3) m by (intro exI [of _ t5]) auto
qed

text \<open>An empty bitstream: the metadata are read back into a buffer of no bytes.\<close>

lemma write_empty_bitstream:
  assumes "ok s"
  shows "flash_write_fpga_bitstream dev [] s = None"
proof -

  have lm: "length (fill_fpga_metadata_page 0) = 256" by (simp add: metadata_page(2))
  obtain t1 where t1: "flash_erase dev 4 55 s = (0, t1)" "ok t1"
    using erase_checked [OF assms(1), of 4 55] by auto
  obtain t2 where t2: "flash_write dev (fill_fpga_metadata_page 0) 0x400 1 t1 = (0, t2)" "ok t2"
    using write_checked [OF t1(2), of "0x400" 1 "fill_fpga_metadata_page 0"] lm by auto
  obtain t3 where t3: "flash_write dev [] 0x401 0 t2 = (0, t3)"
    using write_checked [OF t2(2), of "0x401" 0 "[]"] by auto
  have p: "padded_len 0 = Some 0" "pad_image [] 0 = []" by (simp_all add: padded_len_def pad_image_def)
  show ?thesis using t1(1) t2(1) t3(1) p
    by (simp add: flash_write_fpga_bitstream_def Let_def bindF_def verify_flash_def)
qed

end

end
