(* ===== verification/Fx3_Link.thy ===== *)
theory Fx3_Link
  imports Fx3_Quiet Usb_Backend Flash
begin

text \<open>
  The host library's flash operations joined with the firmware of the FX3: a control transfer of the
  host runs the firmware's request handler, a change of the alternate setting its event handler.
  The USB stacks in between are described by \<open>board_env\<close>: the data the host sends with a request, and
  the reply, which is lost when the endpoint is stalled; further the bytes sent to the FPGA and the
  times that the readings of the clock to come will give.
\<close>

unbundle bit_operations_syntax

section \<open>The environment of the firmware\<close>

record board_env = flash_part +
  env_out :: bytes
  env_reply :: "bytes option"
  env_sent :: bytes
  env_now :: "nat \<Rightarrow> nat"

definition env_send :: "bytes \<Rightarrow> 'p board_env_scheme \<Rightarrow> 'p board_env_scheme" where
  "env_send data v = v\<lparr>env_reply := (if env_reply v = None then None else Some data)\<rparr>"

definition env_begin :: "bytes \<Rightarrow> 'p board_env_scheme \<Rightarrow> 'p board_env_scheme" where
  "env_begin data v = v\<lparr>env_out := data, env_reply := Some []\<rparr>"

text \<open>An SDK that drives the flash part and the control endpoint, and whose other functions succeed.  \<open>begin_req\<close>
  is what the arrival of a request does to its state.\<close>

definition app_sdk ::
  "('h, 'y) fx3_app_sdk_scheme \<Rightarrow> (bytes \<Rightarrow> 'h \<Rightarrow> 'h) \<Rightarrow> ('h \<Rightarrow> 'p board_env_scheme) \<Rightarrow> bool" where
  "app_sdk sdk begin_req view \<longleftrightarrow> spi_sdk sdk view \<and>
     (\<forall>data h. view (begin_req data h) = env_begin data (view h)) \<and>
     (\<forall>data h. \<exists>t. CyU3PUsbSendEP0Data sdk data h = (0, t) \<and> view t = env_send data (view h)) \<and>
     (\<forall>n h. \<exists>t. CyU3PUsbGetEP0Data sdk n h = ((0, take n (env_out (view h))), t) \<and> view t = view h) \<and>
     (\<forall>pin h. \<exists>b t. CyU3PGpioGetValue sdk pin h = ((0, b), t) \<and> view t = view h) \<and>
     quiet_sdk sdk view"

section \<open>The transfers of the host\<close>

definition fx3_request ::
  "('h, 'y) fx3_app_sdk_scheme \<Rightarrow> (bytes \<Rightarrow> 'h \<Rightarrow> 'h) \<Rightarrow> ('h \<Rightarrow> 'p board_env_scheme) \<Rightarrow>
     u8 \<Rightarrow> u16 \<Rightarrow> u16 \<Rightarrow> bytes \<Rightarrow> nat \<Rightarrow> ('h fx3_app, int + bytes) st" where
  "fx3_request sdk begin_req view request wvalue windex data len s =
     (case CyFxbladeRFApplnUSBSetupCB sdk VENDOR_RQT TARGET_OTHER request wvalue windex (of_nat len)
         (s\<lparr>fx_hw := begin_req data (fx_hw s)\<rparr>) of
        None \<Rightarrow> (Inl BLADERF_ERR_TIMEOUT, s)
      | Some (handled, t) \<Rightarrow>
          (case (if handled \<noteq> 0 then env_reply (view (fx_hw t)) else None) of
             None \<Rightarrow> (Inl BLADERF_ERR_IO, t)
           | Some reply \<Rightarrow> (Inr reply, t)))"

definition fx3_link ::
  "'h fx3_app usb \<Rightarrow> ('h, 'y) fx3_app_sdk_scheme \<Rightarrow> (bytes \<Rightarrow> 'h \<Rightarrow> 'h) \<Rightarrow> ('h \<Rightarrow> 'p board_env_scheme) \<Rightarrow> 'h fx3_app usb_driver" where
  "fx3_link bulk sdk begin_req view = usb.extend bulk (usb_driver.fields
     (\<lambda>request wvalue windex buf.
        bindS (fx3_request sdk begin_req view request wvalue windex [] (length buf)) (\<lambda>r.
        returnS (case r of
            Inl e \<Rightarrow> (e, buf)
          | Inr reply \<Rightarrow> if length reply = length buf then (0, reply) else (BLADERF_ERR_UNEXPECTED, buf))))
     (\<lambda>request wvalue windex buf.
        bindS (fx3_request sdk begin_req view request wvalue windex buf (length buf)) (\<lambda>r.
        returnS (case r of Inl e \<Rightarrow> e | Inr _ \<Rightarrow> 0)))
     (\<lambda>setting s.
        case CyFxbladeRFApplnUSBEventCB sdk (EVENT_SETINTF (ucast setting)) s of
          None \<Rightarrow> (BLADERF_ERR_TIMEOUT, s)
        | Some (_, t) \<Rightarrow> (0, t)))"

definition usb_flash :: "'s usb_driver \<Rightarrow> env \<Rightarrow> bladerf_dev_speed \<Rightarrow> 's flash_fns" where
  "usb_flash u env speed = \<lparr> erase_flash_blocks = usb_erase_flash_blocks u env,
     read_flash_pages = usb_read_flash_pages u env speed, write_flash_pages = usb_write_flash_pages u env speed \<rparr>"

section \<open>One request\<close>

text \<open>Between two transfers: the alternate setting, the page buffer and the flash memory.\<close>

definition at_rest :: "('h \<Rightarrow> 'p board_env_scheme) \<Rightarrow> 'h fx3_app \<Rightarrow> nat \<Rightarrow> bytes \<Rightarrow> (nat \<Rightarrow> u8) \<Rightarrow> bool" where
  "at_rest view s alt page m \<longleftrightarrow> glDeviceReady s \<and> \<not> spiFastRead s \<and> length page = 256 \<and>
     part_busy (view (fx_hw s)) = 0 \<and> \<not> part_secured (view (fx_hw s)) \<and>
     glUsbAltInterface s = alt \<and> glPageBuffer s = page \<and> part_mem (view (fx_hw s)) = m"

lemma hw_step:
  assumes "m (fx_hw s) = (x, t)"
  shows "hwS m s = (x, s\<lparr>fx_hw := t\<rparr>)"
  using assms by (simp add: hwS_def)

lemma app_sdkD:
  assumes "app_sdk sdk begin_req view"
  shows "spi_sdk sdk view"
    "view (begin_req data h) = env_begin data (view h)"
    "\<exists>t. CyU3PUsbSendEP0Data sdk data h = (0, t) \<and> view t = env_send data (view h)"
    "\<exists>t. CyU3PUsbGetEP0Data sdk n h = ((0, take n (env_out (view h))), t) \<and> view t = view h"
    "\<exists>b t. CyU3PGpioGetValue sdk pin h = ((0, b), t) \<and> view t = view h"
    "quiet_sdk sdk view"
  using assms unfolding app_sdk_def by simp_all

lemma sdk_send:
  assumes "app_sdk sdk begin_req view"
  obtains h where "hwS (CyU3PUsbSendEP0Data sdk data) s = (0, s\<lparr>fx_hw := h\<rparr>)" "view h = env_send data (view (fx_hw s))"
proof -
  obtain t where t: "CyU3PUsbSendEP0Data sdk data (fx_hw s) = (0, t)" "view t = env_send data (view (fx_hw s))"
    using app_sdkD(3) [OF assms] by metis
  show ?thesis by (rule that [OF hw_step [where s = s and m = "CyU3PUsbSendEP0Data sdk data", OF t(1)] t(2)])
qed

lemma sdk_send_ret:
  assumes "app_sdk sdk begin_req view"
  obtains h where "CyU3PUsbSendRetCode sdk status s = Some ((), s\<lparr>fx_hw := h\<rparr>)"
    "view h = env_send (put_le32 status) (view (fx_hw s))"
proof (rule sdk_send [OF assms])
  fix h
  assume "hwS (CyU3PUsbSendEP0Data sdk (put_le32 status)) s = (0, s\<lparr>fx_hw := h\<rparr>)"
    "view h = env_send (put_le32 status) (view (fx_hw s))"
  then show ?thesis by (intro that [of h]) (simp_all add: CyU3PUsbSendRetCode_def)
qed

text \<open>The state in which the handler of a request starts, and the one in which a handler leaves it with a reply.\<close>

lemma put_le32_length [simp]: "length (put_le32 w) = 4"
  by (simp add: put_le32_def)

definition replied :: "('h \<Rightarrow> 'p board_env_scheme) \<Rightarrow> 'h fx3_app \<Rightarrow> bytes \<Rightarrow> nat \<Rightarrow> bytes \<Rightarrow> (nat \<Rightarrow> u8) \<Rightarrow> bool" where
  "replied view s reply alt page m \<longleftrightarrow> at_rest view s alt page m \<and> env_reply (view (fx_hw s)) = Some reply"

lemma request_begins:
  assumes "app_sdk sdk begin_req view" "at_rest view s alt page m"
  shows "replied view (s\<lparr>fx_hw := begin_req data (fx_hw s)\<rparr>) [] alt page m"
    "env_out (view (fx_hw (s\<lparr>fx_hw := begin_req data (fx_hw s)\<rparr>))) = data"
  using assms(2) app_sdkD(2) [OF assms(1)] by (auto simp add: replied_def at_rest_def env_begin_def)

lemma send_replies:
  assumes "app_sdk sdk begin_req view" "replied view s reply alt page m"
  shows "\<exists>t. CyU3PUsbSendRetCode sdk status s = Some ((), t) \<and> replied view t (put_le32 status) alt page m"
    "\<exists>t. hwS (CyU3PUsbSendEP0Data sdk data) s = (0, t) \<and> replied view t data alt page m"
proof -
  obtain h where "CyU3PUsbSendRetCode sdk status s = Some ((), s\<lparr>fx_hw := h\<rparr>)"
    "view h = env_send (put_le32 status) (view (fx_hw s))" by (rule sdk_send_ret [OF assms(1)])
  then show "\<exists>t. CyU3PUsbSendRetCode sdk status s = Some ((), t) \<and> replied view t (put_le32 status) alt page m"
    using assms(2) by (intro exI [of _ "s\<lparr>fx_hw := h\<rparr>"]) (auto simp add: replied_def at_rest_def env_send_def)
  obtain h where "hwS (CyU3PUsbSendEP0Data sdk data) s = (0, s\<lparr>fx_hw := h\<rparr>)"
    "view h = env_send data (view (fx_hw s))" by (rule sdk_send [OF assms(1)])
  then show "\<exists>t. hwS (CyU3PUsbSendEP0Data sdk data) s = (0, t) \<and> replied view t data alt page m"
    using assms(2) by (intro exI [of _ "s\<lparr>fx_hw := h\<rparr>"]) (auto simp add: replied_def at_rest_def env_send_def)
qed

text \<open>A request of a device that is ready, once its case of the handler is known.\<close>

lemma request_answered:
  assumes "CyFxbladeRFApplnUSBSetupCB sdk VENDOR_RQT TARGET_OTHER request wvalue windex (of_nat len)
      (s\<lparr>fx_hw := begin_req data (fx_hw s)\<rparr>) = Some (1, t)" "replied view t reply alt page m"
  shows "fx3_request sdk begin_req view request wvalue windex data len s = (Inr reply, t)" "at_rest view t alt page m"
  using assms by (simp_all add: fx3_request_def replied_def)

lemma page_of:
  fixes a :: nat
  shows "a div 256 = p \<longleftrightarrow> p * 256 \<le> a \<and> a < p * 256 + 256" "a div 256 = p \<Longrightarrow> a - p * 256 = a mod 256"
  by (auto simp add: div_nat_eqI minus_mult_div_eq_mod mult.commute)

lemma flash_transfer:
  assumes sdk: "app_sdk sdk begin_req view" and s: "replied view s reply alt page m"
  shows "\<exists>t. CyFxSpiTransfer sdk pg 0x100 page True s = Some ((0, contents m (unat pg * 256) 256), t) \<and>
      replied view t reply alt page m"
    "\<exists>t. CyFxSpiTransfer sdk pg 0x100 page False s = Some ((0, page), t) \<and>
      replied view t reply alt page (pages_written (unat pg * 256) page m)"
    "\<exists>t. CyFxSpiEraseSector sdk True k s = Some (0, t) \<and>
      replied view t reply alt page (blocks_erased (unat k) 1 m)"
proof -
  have l: "length page = 256" "spiFastRead s = False" using s by (auto simp add: replied_def at_rest_def)
  obtain h where h: "CyFxSpiTransfer sdk pg 0x100 page True s =
      Some ((0, map (\<lambda>i. part_area (view (fx_hw s)) (unat pg * 256 + i)) [0..<256]), s\<lparr>fx_hw := h\<rparr>)"
      "view h = (view (fx_hw s))\<lparr>part_busy := 0, part_wel := True, part_cmd := None\<rparr>"
    using actsE [OF acts_read(1) [OF app_sdkD(1) [OF sdk] l(1)] l(2), of pg] by auto
  have "map (\<lambda>i. part_area (view (fx_hw s)) (unat pg * 256 + i)) [0..<256] = contents m (unat pg * 256) 256"
    using s by (auto simp add: contents_def part_area_def replied_def at_rest_def)
  then show "\<exists>t. CyFxSpiTransfer sdk pg 0x100 page True s = Some ((0, contents m (unat pg * 256) 256), t) \<and>
      replied view t reply alt page m"
    using h s by (intro exI [of _ "s\<lparr>fx_hw := h\<rparr>"]) (auto simp add: replied_def at_rest_def)
  obtain h where h: "CyFxSpiTransfer sdk pg 0x100 page False s = Some ((0, page), s\<lparr>fx_hw := h\<rparr>)"
      "view h = (write_area (page_written pg page) (view (fx_hw s)))\<lparr>part_busy := 0, part_wel := False, part_prog := True,
       part_delays := (\<lambda>n. part_delays (view (fx_hw s)) (Suc n)), part_cmd := None\<rparr>"
    using actsE [OF acts_write [OF app_sdkD(1) [OF sdk] l(1)] l(2), of pg] by auto
  have "page_written pg page m x = pages_written (unat pg * 256) page m x" for x
    using page_of [of x "unat pg"] l(1) by (cases "x div 256 = unat pg") (auto simp add: page_written_def pages_written_def)
  then have "page_written pg page m = pages_written (unat pg * 256) page m" ..
  then show "\<exists>t. CyFxSpiTransfer sdk pg 0x100 page False s = Some ((0, page), t) \<and>
      replied view t reply alt page (pages_written (unat pg * 256) page m)"
    using h s by (intro exI [of _ "s\<lparr>fx_hw := h\<rparr>"]) (auto simp add: replied_def at_rest_def write_area_def)
  have v: "part_busy (view (fx_hw s)) = 0 \<and> \<not> part_secured (view (fx_hw s))" using s by (simp add: replied_def at_rest_def)
  obtain h where h: "CyFxSpiEraseSector sdk True k s = Some (0, s\<lparr>fx_hw := h\<rparr>)"
      "view h = (view (fx_hw s))\<lparr>part_mem := erased (unat k) (part_mem (view (fx_hw s))), part_busy := 0, part_wel := False,
        part_prog := False, part_delays := (\<lambda>n. part_delays (view (fx_hw s)) (Suc n)), part_cmd := None\<rparr>"
    by (rule actsE [OF acts_erase [OF app_sdkD(1) [OF sdk]] l(2), of k]) (simp only: v simp_thms if_True fst_conv snd_conv)
  have "erased (unat k) m = blocks_erased (unat k) 1 m"
    by (rule ext) (auto simp add: erased_def blocks_erased_def div_nat_eqI)
  then show "\<exists>t. CyFxSpiEraseSector sdk True k s = Some (0, t) \<and>
      replied view t reply alt page (blocks_erased (unat k) 1 m)"
    using h s by (intro exI [of _ "s\<lparr>fx_hw := h\<rparr>"]) (auto simp add: replied_def at_rest_def)
qed


text \<open>The requests on the flash memory.\<close>

lemma request_flash:
  assumes sdk: "app_sdk sdk begin_req view" and s: "at_rest view s USB_IF_SPI_FLASH page m"
  shows "\<exists>t. fx3_request sdk begin_req view CMD_FLASH_READ 0 pg data len s = (Inr (put_le32 0), t) \<and>
      at_rest view t USB_IF_SPI_FLASH (contents m (unat pg * 256) 256) m"
    "\<exists>t. fx3_request sdk begin_req view CMD_FLASH_WRITE 0 pg data len s = (Inr (put_le32 0), t) \<and>
      at_rest view t USB_IF_SPI_FLASH page (pages_written (unat pg * 256) page m)"
    "\<exists>t. fx3_request sdk begin_req view CMD_FLASH_ERASE 0 pg data len s = (Inr (put_le32 0), t) \<and>
      at_rest view t USB_IF_SPI_FLASH page (blocks_erased (unat (ucast pg :: u8)) 1 m)"
proof -
  let ?s = "s\<lparr>fx_hw := begin_req data (fx_hw s)\<rparr>"
  note b = request_begins(1) [OF sdk s, of data]
  have f: "glDeviceReady ?s" "glUsbAltInterface ?s = 2" "glPageBuffer ?s = page"
    using s by (simp_all add: at_rest_def)
  obtain t1 where t1: "CyFxSpiTransfer sdk pg 0x100 page True ?s = Some ((0, contents m (unat pg * 256) 256), t1)"
    "replied view t1 [] 2 page m" using flash_transfer(1) [OF sdk b] by blast
  have "replied view (t1\<lparr>glPageBuffer := contents m (unat pg * 256) 256\<rparr>) [] 2 (contents m (unat pg * 256) 256) m"
    using t1(2) by (simp add: replied_def at_rest_def)
  from send_replies(1) [OF sdk this] obtain t2 where t2:
    "CyU3PUsbSendRetCode sdk 0 (t1\<lparr>glPageBuffer := contents m (unat pg * 256) 256\<rparr>) = Some ((), t2)"
    "replied view t2 (put_le32 0) 2 (contents m (unat pg * 256) 256) m" by blast
  have "CyFxbladeRFApplnUSBSetupCB sdk VENDOR_RQT TARGET_OTHER CMD_FLASH_READ 0 pg (of_nat len) ?s = Some (1, t2)"
    using t1(1) t2(1) f by (simp add: CyFxbladeRFApplnUSBSetupCB_def NuandHandleVendorRequest_def bindF_def
        flash_selected_def stall_unless_def store_page_def)
  from request_answered [where s = s and begin_req = begin_req and data = data, OF this t2(2)]
  show "\<exists>t. fx3_request sdk begin_req view CMD_FLASH_READ 0 pg data len s = (Inr (put_le32 0), t) \<and>
      at_rest view t USB_IF_SPI_FLASH (contents m (unat pg * 256) 256) m" by blast
  obtain t1 where t1: "CyFxSpiTransfer sdk pg 0x100 page False ?s = Some ((0, page), t1)"
    "replied view t1 [] 2 page (pages_written (unat pg * 256) page m)" using flash_transfer(2) [OF sdk b] by blast
  from send_replies(1) [OF sdk t1(2)] obtain t2 where t2: "CyU3PUsbSendRetCode sdk 0 t1 = Some ((), t2)"
    "replied view t2 (put_le32 0) 2 page (pages_written (unat pg * 256) page m)" by blast
  have "CyFxbladeRFApplnUSBSetupCB sdk VENDOR_RQT TARGET_OTHER CMD_FLASH_WRITE 0 pg (of_nat len) ?s = Some (1, t2)"
    using t1(1) t2(1) f by (simp add: CyFxbladeRFApplnUSBSetupCB_def NuandHandleVendorRequest_def bindF_def
        flash_selected_def stall_unless_def)
  from request_answered [where s = s and begin_req = begin_req and data = data, OF this t2(2)]
  show "\<exists>t. fx3_request sdk begin_req view CMD_FLASH_WRITE 0 pg data len s = (Inr (put_le32 0), t) \<and>
      at_rest view t USB_IF_SPI_FLASH page (pages_written (unat pg * 256) page m)" by blast
  obtain t1 where t1: "CyFxSpiEraseSector sdk True (ucast pg) ?s = Some (0, t1)"
    "replied view t1 [] 2 page (blocks_erased (unat (ucast pg :: u8)) 1 m)" using flash_transfer(3) [OF sdk b] by blast
  from send_replies(1) [OF sdk t1(2)] obtain t2 where t2: "CyU3PUsbSendRetCode sdk 0 t1 = Some ((), t2)"
    "replied view t2 (put_le32 0) 2 page (blocks_erased (unat (ucast pg :: u8)) 1 m)" by blast
  have "CyFxbladeRFApplnUSBSetupCB sdk VENDOR_RQT TARGET_OTHER CMD_FLASH_ERASE 0 pg (of_nat len) ?s = Some (1, t2)"
    using t1(1) t2(1) f by (simp add: CyFxbladeRFApplnUSBSetupCB_def NuandHandleVendorRequest_def bindF_def
        flash_selected_def stall_unless_def)
  from request_answered [where s = s and begin_req = begin_req and data = data, OF this t2(2)]
  show "\<exists>t. fx3_request sdk begin_req view CMD_FLASH_ERASE 0 pg data len s = (Inr (put_le32 0), t) \<and>
      at_rest view t USB_IF_SPI_FLASH page (blocks_erased (unat (ucast pg :: u8)) 1 m)" by blast
qed


lemma request_page_buffer:
  assumes sdk: "app_sdk sdk begin_req view" and s: "at_rest view s alt page m" and len: "offset + len \<le> 256"
  shows "\<exists>t. fx3_request sdk begin_req view CMD_READ_PAGE_BUFFER 0 (of_nat offset) data len s = (Inr (take len (drop offset page)), t) \<and>
      at_rest view t alt page m"
    "length data = len \<Longrightarrow> \<exists>t. fx3_request sdk begin_req view CMD_WRITE_PAGE_BUFFER 0 (of_nat offset) data len s = (Inr [], t) \<and>
      at_rest view t alt (take offset page @ data @ drop (offset + len) page) m"
proof -
  let ?s = "s\<lparr>fx_hw := begin_req data (fx_hw s)\<rparr>"
  note b = request_begins [OF sdk s, of data]
  have f: "glDeviceReady ?s" "glPageBuffer ?s = page" "length page = 256" using s by (auto simp add: at_rest_def)
  have u: "unat (of_nat offset :: u16) = offset" "unat (of_nat len :: u16) = len" using len by (simp_all add: unat_of_nat)
  from send_replies(2) [OF sdk b(1)] obtain t where t: "hwS (CyU3PUsbSendEP0Data sdk (take len (drop offset page))) ?s = (0, t)"
    "replied view t (take len (drop offset page)) alt page m" by blast
  have "CyFxbladeRFApplnUSBSetupCB sdk VENDOR_RQT TARGET_OTHER CMD_READ_PAGE_BUFFER 0 (of_nat offset) (of_nat len) ?s = Some (1, t)"
    using t(1) f len by (simp add: CyFxbladeRFApplnUSBSetupCB_def NuandHandleVendorRequest_def bindF_def send_part_def stall_unless_def u)
  from request_answered [where s = s and begin_req = begin_req and data = data, OF this t(2)]
  show "\<exists>t. fx3_request sdk begin_req view CMD_READ_PAGE_BUFFER 0 (of_nat offset) data len s = (Inr (take len (drop offset page)), t) \<and>
      at_rest view t alt page m" by blast
  assume d: "length data = len"
  obtain h where h: "CyU3PUsbGetEP0Data sdk len (fx_hw ?s) = ((0, take len (env_out (view (fx_hw ?s)))), h)"
    "view h = view (fx_hw ?s)" using app_sdkD(4) [OF sdk] by blast
  have g: "hwS (CyU3PUsbGetEP0Data sdk len) ?s = ((0, data), ?s\<lparr>fx_hw := h\<rparr>)"
    using h(1) d unfolding b(2) by (simp add: hwS_def)
  let ?p = "take offset page @ data @ drop (offset + len) page"
  let ?t = "?s\<lparr>fx_hw := h\<rparr>\<lparr>glPageBuffer := ?p\<rparr>"
  have "CyFxbladeRFApplnUSBSetupCB sdk VENDOR_RQT TARGET_OTHER CMD_WRITE_PAGE_BUFFER 0 (of_nat offset) (of_nat len) ?s = Some (1, ?t)"
    using g f len d by (simp add: CyFxbladeRFApplnUSBSetupCB_def NuandHandleVendorRequest_def bindF_def stall_unless_def u store_page_def)
  note w = this
  have "length ?p = 256" using f(3) d len by simp
  then have "replied view ?t [] alt ?p m"
    using b(1) h(2) by (auto simp add: replied_def at_rest_def)
  from request_answered [where s = s and begin_req = begin_req and data = data, OF w this]
  show "\<exists>t. fx3_request sdk begin_req view CMD_WRITE_PAGE_BUFFER 0 (of_nat offset) data len s = (Inr [], t) \<and>
      at_rest view t alt (take offset page @ data @ drop (offset + len) page) m"
    by blast
qed

lemma request_fpga_status:
  assumes sdk: "app_sdk sdk begin_req view" and s: "at_rest view s alt page m"
  shows "\<exists>t b. fx3_request sdk begin_req view CMD_QUERY_FPGA_STATUS 0 0 data len s = (Inr (put_le32 (if b then 1 else 0)), t) \<and>
      at_rest view t alt page m"
proof -
  let ?s = "s\<lparr>fx_hw := begin_req data (fx_hw s)\<rparr>"
  note b = request_begins [OF sdk s, of data]
  have f: "glDeviceReady ?s" using s by (auto simp add: at_rest_def)
  obtain v h where h: "CyU3PGpioGetValue sdk GPIO_CONFDONE (fx_hw ?s) = ((0, v), h)" "view h = view (fx_hw ?s)"
    using app_sdkD(5) [OF sdk] by blast
  have g: "hwS (CyU3PGpioGetValue sdk GPIO_CONFDONE) ?s = ((0, v), ?s\<lparr>fx_hw := h\<rparr>)" using h(1) by (simp add: hwS_def)
  have "replied view (?s\<lparr>fx_hw := h\<rparr>) [] alt page m" using b(1) h(2) by (auto simp add: replied_def at_rest_def)
  from send_replies(1) [OF sdk this] obtain t where t:
    "CyU3PUsbSendRetCode sdk (if v then 1 else 0) (?s\<lparr>fx_hw := h\<rparr>) = Some ((), t)"
    "replied view t (put_le32 (if v then 1 else 0)) alt page m" by blast
  have "CyFxbladeRFApplnUSBSetupCB sdk VENDOR_RQT TARGET_OTHER CMD_QUERY_FPGA_STATUS 0 0 (of_nat len) ?s = Some (1, t)"
    using g t(1) f by (simp add: CyFxbladeRFApplnUSBSetupCB_def NuandHandleVendorRequest_def bindF_def)
  from request_answered [where s = s and begin_req = begin_req and data = data, OF this t(2)] show ?thesis by blast
qed

section \<open>Changing the setting\<close>

lemma flash_init:
  assumes "app_sdk sdk begin_req view"
  shows "\<exists>h. NuandFlashInit sdk s = Some (0, s\<lparr>fx_hw := h, glAppMode := MODE_FW_CONFIG\<rparr>) \<and> view h = view (fx_hw s)"
    "quietly view (NuandFlashDeinit sdk) ()"
proof -
  have spi: "silent view (CyU3PSpiInit sdk) 0" "silent view (CyU3PSpiSetConfig sdk) 0" "silent view (CyU3PSpiDeInit sdk) 0"
    using app_sdkD(1) [OF assms] unfolding spi_sdk_def silent_def by simp_all
  have "quietly view (liftF (CyFxSpiInit sdk)) 0" unfolding CyFxSpiInit_def lift_bind
    by (rule quietly_bind [OF quietly_hw [OF spi(1)]]) (simp add: quietly_hw [OF spi(2)])
  then have q: "quietly view (seqF (NuandGPIOReconfigure sdk False True) (liftF (CyFxSpiInit sdk))) 0"
    by (rule quietly_bind [OF pins_reconfigured [OF app_sdkD(6) [OF assms]]])
  obtain h where "seqF (NuandGPIOReconfigure sdk False True) (liftF (CyFxSpiInit sdk)) s = Some (0, s\<lparr>fx_hw := h\<rparr>)"
    "view h = view (fx_hw s)" by (rule quietlyE [OF q])
  then show "\<exists>h. NuandFlashInit sdk s = Some (0, s\<lparr>fx_hw := h, glAppMode := MODE_FW_CONFIG\<rparr>) \<and> view h = view (fx_hw s)"
    by (intro exI [of _ h]) (auto simp add: NuandFlashInit_def bindF_def split: option.splits prod.splits)
  show "quietly view (NuandFlashDeinit sdk) ()" unfolding NuandFlashDeinit_def CyFxSpiDeInit_def
    by (rule quietly_bind [OF quietly_hw [OF spi(3)] quietly_return])
qed

lemma flash_init_at_rest:
  assumes sdk: "app_sdk sdk begin_req view" and s: "at_rest view s alt page m"
  shows "\<exists>t. NuandFlashInit sdk s = Some (0, t) \<and> at_rest view t alt page m"
    "\<exists>t. NuandFlashDeinit sdk s = Some ((), t) \<and> at_rest view t alt page m"
proof -
  obtain h where "NuandFlashInit sdk s = Some (0, s\<lparr>fx_hw := h, glAppMode := MODE_FW_CONFIG\<rparr>)" "view h = view (fx_hw s)"
    using flash_init(1) [OF sdk] by blast
  then show "\<exists>t. NuandFlashInit sdk s = Some (0, t) \<and> at_rest view t alt page m" using s by (simp add: at_rest_def)
  obtain k where "NuandFlashDeinit sdk s = Some ((), s\<lparr>fx_hw := k\<rparr>)" "view k = view (fx_hw s)"
    by (rule quietlyE [OF flash_init(2) [OF sdk]])
  then show "\<exists>t. NuandFlashDeinit sdk s = Some ((), t) \<and> at_rest view t alt page m" using s by (simp add: at_rest_def)
qed

lemma app_at_rest:
  assumes "calm view m x" "at_rest view s alt page mem"
  shows "\<exists>t. m s = Some (x, t) \<and> at_rest view t alt page mem"
  by (rule calmE [OF assms(1), of s]) (use assms(2) in \<open>simp add: at_rest_def kept_def\<close>)

lemma setting_changed:
  assumes sdk: "app_sdk sdk begin_req view" and s: "at_rest view s alt page m"
    and n: "n = 1 \<or> n = 2 \<or> n = 3"
  shows "\<exists>t. change_setting (fx3_link bulk sdk begin_req view) n s = (0, t) \<and> at_rest view t (unat n) page m"
proof -
  note a = apps_quiet [OF app_sdkD(6) [OF sdk]]
  let ?old = "if alt = USB_IF_CONFIG then NuandFpgaConfigStop sdk else if alt = USB_IF_RF_LINK then NuandRFLinkStop sdk
    else if alt = USB_IF_SPI_FLASH then NuandFlashDeinit sdk else returnF ()"
  let ?new = "if unat n = USB_IF_CONFIG then NuandFpgaConfigStart sdk else if unat n = USB_IF_RF_LINK then NuandRFLinkStart sdk
    else if unat n = USB_IF_SPI_FLASH then seqF (NuandFlashInit sdk) (returnF ()) else returnF ()"
  have "\<exists>t. ?old s = Some ((), t) \<and> at_rest view t alt page m"
    using app_at_rest [OF a(2) s] app_at_rest [OF a(4) s] flash_init_at_rest(2) [OF sdk s] s by auto
  then obtain t1 where t1: "?old s = Some ((), t1)" "at_rest view t1 alt page m" by blast
  have "\<exists>t. ?new t1 = Some ((), t) \<and> at_rest view t alt page m"
    using app_at_rest [OF a(1) t1(2)] app_at_rest [OF a(3) t1(2)] flash_init_at_rest(1) [OF sdk t1(2)] t1(2)
    by (auto simp add: bindF_def)
  then obtain t2 where t2: "?new t1 = Some ((), t2)" "at_rest view t2 alt page m" by blast
  have g: "glUsbAltInterface s = alt" using s by (simp add: at_rest_def)
  have e: "unat (drop_bit 4 ((ucast n :: u16) AND 0xf0)) = 0" "unat ((ucast n :: u16) AND 0xf) = unat n" using n by auto
  have "CyFxbladeRFApplnUSBEventCB sdk (EVENT_SETINTF (ucast n)) s =
      Some ((), if unat n = alt then s else t2\<lparr>glUsbAltInterface := unat n\<rparr>)"
    using t1(1) t2(1) unfolding CyFxbladeRFApplnUSBEventCB_def usb_event.case Let_def e app_fields
    by (simp add: bindF_def g)
  moreover have "at_rest view (if unat n = alt then s else t2\<lparr>glUsbAltInterface := unat n\<rparr>) (unat n) page m"
    using s t2(2) by (auto simp add: at_rest_def)
  ultimately show ?thesis by (simp add: change_setting_def fx3_link_def usb.defs usb_driver.defs)
qed


section \<open>Pages\<close>

lemma control_requests:
  "fx3_request sdk begin_req view request wvalue windex [] (length buf) s = (Inr reply, t) \<Longrightarrow> length reply = length buf \<Longrightarrow>
     control_in (fx3_link bulk sdk begin_req view) request wvalue windex buf s = ((0, reply), t)"
  "fx3_request sdk begin_req view request wvalue windex buf (length buf) s = (Inr reply, t) \<Longrightarrow>
     control_out (fx3_link bulk sdk begin_req view) request wvalue windex buf s = (0, t)"
  by (simp_all add: fx3_link_def usb.defs usb_driver.defs bindS_apply)

lemma get_put_le32 [simp]: "get_le32 (put_le32 w) = w"
  using get_put_le(2) [of w "[]"] by simp

lemma int_requests:
  assumes "app_sdk sdk begin_req view" "at_rest view s USB_IF_SPI_FLASH page m"
  shows "\<exists>t. int_request (fx3_link bulk sdk begin_req view) CMD_FLASH_READ 0 pg v s = ((0, 0), t) \<and>
      at_rest view t USB_IF_SPI_FLASH (contents m (unat pg * 256) 256) m"
    "\<exists>t. int_request (fx3_link bulk sdk begin_req view) CMD_FLASH_WRITE 0 pg v s = ((0, 0), t) \<and>
      at_rest view t USB_IF_SPI_FLASH page (pages_written (unat pg * 256) page m)"
    "\<exists>t. int_request (fx3_link bulk sdk begin_req view) CMD_FLASH_ERASE 0 pg v s = ((0, 0), t) \<and>
      at_rest view t USB_IF_SPI_FLASH page (blocks_erased (unat (ucast pg :: u8)) 1 m)"
proof -
  have *: "fx3_request sdk begin_req view cmd 0 pg [] (length (put_le32 v)) s = (Inr (put_le32 0), t) \<Longrightarrow>
      int_request (fx3_link bulk sdk begin_req view) cmd 0 pg v s = ((0, 0), t)" for cmd t
    by (subst int_request_def) (simp add: bindS_apply control_requests(1))
  show "\<exists>t. int_request (fx3_link bulk sdk begin_req view) CMD_FLASH_READ 0 pg v s = ((0, 0), t) \<and>
      at_rest view t USB_IF_SPI_FLASH (contents m (unat pg * 256) 256) m"
    using request_flash(1) [OF assms] * by blast
  show "\<exists>t. int_request (fx3_link bulk sdk begin_req view) CMD_FLASH_WRITE 0 pg v s = ((0, 0), t) \<and>
      at_rest view t USB_IF_SPI_FLASH page (pages_written (unat pg * 256) page m)"
    using request_flash(2) [OF assms] * by blast
  show "\<exists>t. int_request (fx3_link bulk sdk begin_req view) CMD_FLASH_ERASE 0 pg v s = ((0, 0), t) \<and>
      at_rest view t USB_IF_SPI_FLASH page (blocks_erased (unat (ucast pg :: u8)) 1 m)"
    using request_flash(3) [OF assms] * by blast
qed

lemma fpga_configured:
  assumes "app_sdk sdk begin_req view" "at_rest view s alt page m"
  shows "\<exists>t b. usb_is_fpga_configured (fx3_link bulk sdk begin_req view) env s = (if b then 1 else 0, t) \<and> at_rest view t alt page m"
proof (cases "BLADERF_FORCE_NO_FPGA_PRESENT env")
  case True
  then show ?thesis using assms(2) by (auto simp add: usb_is_fpga_configured_def)
next
  case False
  obtain t b where t: "fx3_request sdk begin_req view CMD_QUERY_FPGA_STATUS 0 0 [] (length (put_le32 (-1))) s =
      (Inr (put_le32 (if b then 1 else 0)), t)" "at_rest view t alt page m"
    using request_fpga_status [OF assms] by blast
  have "usb_is_fpga_configured (fx3_link bulk sdk begin_req view) env s = (if b then 1 else 0, t)"
    using control_requests(1) [OF t(1)] False
    by (simp add: usb_is_fpga_configured_def vendor_cmd_int_def int_request_def bindS_apply)
  then show ?thesis using t(2) by blast
qed

lemma setting_restored:
  assumes sdk: "app_sdk sdk begin_req view" and s: "at_rest view s alt page m"
  shows "\<exists>t alt. restore_post_flash_setting (fx3_link bulk sdk begin_req view) env s = (0, t) \<and> at_rest view t alt page m"
proof -
  obtain t b where t: "usb_is_fpga_configured (fx3_link bulk sdk begin_req view) env s = (if b then 1 else 0, t)"
    "at_rest view t alt page m" using fpga_configured [OF sdk s] by blast
  show ?thesis using setting_changed [OF sdk t(2), of 1] setting_changed [OF sdk t(2), of 3] t(1)
    by (cases b) (fastforce simp add: restore_post_flash_setting_def bindS_apply)+
qed


text \<open>The chunks of a page, in either direction: what the offsets cover is copied.\<close>

definition covered :: "nat \<Rightarrow> nat list \<Rightarrow> nat \<Rightarrow> bool" where
  "covered len os i \<longleftrightarrow> (\<exists>offset \<in> set os. offset \<le> i \<and> i < offset + len)"

lemma covered_simps [simp]:
  "covered len [] i \<longleftrightarrow> False"
  "covered len (offset # os) i \<longleftrightarrow> offset \<le> i \<and> i < offset + len \<or> covered len os i"
  by (auto simp add: covered_def)

lemma chunks_cover:
  assumes "chunk_size speed = Some len"
  shows "\<forall>offset \<in> set (chunk_offsets len). offset + len \<le> 256" "i < 256 \<Longrightarrow> covered len (chunk_offsets len) i"
proof -
  have "len = 256 \<and> chunk_offsets len = [0] \<or> len = 64 \<and> chunk_offsets len = [0, 64, 128, 192]"
    using assms by (cases speed) (simp_all add: chunk_size_def chunk_offsets_def upt_conv_Cons)
  then show "\<forall>offset \<in> set (chunk_offsets len). offset + len \<le> 256" "i < 256 \<Longrightarrow> covered len (chunk_offsets len) i"
    by auto
qed

lemma patch_nth:
  assumes "length buf = n" "length data = len" "offset + len \<le> n" "i < n"
  shows "(take offset buf @ data @ drop (offset + len) buf) ! i =
    (if offset \<le> i \<and> i < offset + len then data ! (i - offset) else buf ! i)"
  using assms by (auto simp add: nth_append min_def not_less)

lemma chunks_read:
  assumes sdk: "app_sdk sdk begin_req view"
  shows "at_rest view s alt page m \<Longrightarrow> \<forall>offset \<in> set os. offset + len \<le> 256 \<Longrightarrow> length buf = 256 \<Longrightarrow>
    \<exists>t data. read_chunks (fx3_link bulk sdk begin_req view) CMD_READ_PAGE_BUFFER len os buf s = ((0, data), t) \<and>
      at_rest view t alt page m \<and> length data = 256 \<and>
      (\<forall>i < 256. data ! i = (if covered len os i then page ! i else buf ! i))"
proof (induction os arbitrary: buf s)
  case Nil
  then show ?case by simp
next
  case (Cons offset os)
  have p: "length page = 256" using Cons.prems(1) by (simp add: at_rest_def)
  have o: "offset + len \<le> 256" "\<forall>offset \<in> set os. offset + len \<le> 256" using Cons.prems(2) by simp_all
  let ?c = "take len (drop offset buf)" and ?d = "take len (drop offset page)"
  have l: "length ?c = len" "length ?d = len" using o(1) Cons.prems(3) p by simp_all
  obtain t where t: "fx3_request sdk begin_req view CMD_READ_PAGE_BUFFER 0 (of_nat offset) [] (length ?c) s = (Inr ?d, t)"
    "at_rest view t alt page m" using request_page_buffer(1) [OF sdk Cons.prems(1) o(1)] unfolding l(1) by blast
  have c: "control_in (fx3_link bulk sdk begin_req view) CMD_READ_PAGE_BUFFER 0 (of_nat offset) ?c s = ((0, ?d), t)"
    using control_requests(1) [OF t(1)] l by simp
  let ?b = "take offset buf @ ?d @ drop (offset + len) buf"
  have b: "length ?b = 256" using l(2) o(1) Cons.prems(3) by simp
  obtain t' data where t': "read_chunks (fx3_link bulk sdk begin_req view) CMD_READ_PAGE_BUFFER len os ?b t = ((0, data), t')"
    "at_rest view t' alt page m" "length data = 256"
    "\<forall>i < 256. data ! i = (if covered len os i then page ! i else ?b ! i)"
    using Cons.IH [OF t(2) o(2) b] by blast
  have "read_chunks (fx3_link bulk sdk begin_req view) CMD_READ_PAGE_BUFFER len (offset # os) buf s = ((0, data), t')"
    using c t'(1) l(2) by (simp add: bindS_apply Let_def)
  moreover have "data ! i = (if covered len (offset # os) i then page ! i else buf ! i)" if "i < 256" for i
    using t'(4) patch_nth [OF Cons.prems(3) l(2) o(1) that] that p by auto
  ultimately show ?case using t'(2,3) by blast
qed

lemma chunks_written:
  assumes sdk: "app_sdk sdk begin_req view"
  shows "at_rest view s alt page m \<Longrightarrow> \<forall>offset \<in> set os. offset + len \<le> 256 \<Longrightarrow> length buf = 256 \<Longrightarrow>
    \<exists>t page'. write_chunks (fx3_link bulk sdk begin_req view) len os buf s = (0, t) \<and>
      at_rest view t alt page' m \<and>
      (\<forall>i < 256. page' ! i = (if covered len os i then buf ! i else page ! i))"
proof (induction os arbitrary: page s)
  case Nil
  then show ?case by auto
next
  case (Cons offset os)
  have p: "length page = 256" using Cons.prems(1) by (simp add: at_rest_def)
  have o: "offset + len \<le> 256" "\<forall>offset \<in> set os. offset + len \<le> 256" using Cons.prems(2) by simp_all
  let ?c = "take len (drop offset buf)"
  have l: "length ?c = len" using o(1) Cons.prems(3) by simp
  let ?p = "take offset page @ ?c @ drop (offset + len) page"
  obtain t where t: "fx3_request sdk begin_req view CMD_WRITE_PAGE_BUFFER 0 (of_nat offset) ?c (length ?c) s = (Inr [], t)"
    "at_rest view t alt ?p m" using request_page_buffer(2) [OF sdk Cons.prems(1) o(1) l] unfolding l by blast
  have c: "control_out (fx3_link bulk sdk begin_req view) CMD_WRITE_PAGE_BUFFER 0 (of_nat offset) ?c s = (0, t)"
    using control_requests(2) [OF t(1)] by simp
  obtain t' page' where t': "write_chunks (fx3_link bulk sdk begin_req view) len os buf t = (0, t')"
    "at_rest view t' alt page' m" "\<forall>i < 256. page' ! i = (if covered len os i then buf ! i else ?p ! i)"
    using Cons.IH [OF t(2) o(2) Cons.prems(3)] by blast
  have "write_chunks (fx3_link bulk sdk begin_req view) len (offset # os) buf s = (0, t')"
    using c t'(1) by (simp add: bindS_apply)
  moreover have "page' ! i = (if covered len (offset # os) i then buf ! i else page ! i)" if "i < 256" for i
    using t'(3) patch_nth [OF p l o(1) that] that Cons.prems(3) by auto
  ultimately show ?case using t'(2) by blast
qed

lemma page_read:
  assumes sdk: "app_sdk sdk begin_req view" and s: "at_rest view s USB_IF_SPI_FLASH page m"
    and "speed \<noteq> BLADERF_DEVICE_SPEED_UNKNOWN" "length buf = 256"
  shows "\<exists>t page. read_page (fx3_link bulk sdk begin_req view) speed CMD_FLASH_READ pg buf s =
      ((0, contents m (unat pg * 256) 256), t) \<and> at_rest view t USB_IF_SPI_FLASH page m"
proof -
  obtain len where len: "chunk_size speed = Some len" using assms(3) by (cases speed) (simp_all add: chunk_size_def)
  obtain t where t: "int_request (fx3_link bulk sdk begin_req view) CMD_FLASH_READ 0 pg 0 s = ((0, 0), t)"
    "at_rest view t USB_IF_SPI_FLASH (contents m (unat pg * 256) 256) m" using int_requests(1) [OF sdk s] by blast
  obtain t' data where t': "read_chunks (fx3_link bulk sdk begin_req view) CMD_READ_PAGE_BUFFER len (chunk_offsets len) buf t = ((0, data), t')"
    "at_rest view t' USB_IF_SPI_FLASH (contents m (unat pg * 256) 256) m" "length data = 256"
    "\<forall>i < 256. data ! i = (if covered len (chunk_offsets len) i then contents m (unat pg * 256) 256 ! i else buf ! i)"
    using chunks_read [OF sdk t(2) chunks_cover(1) [OF len] assms(4)] by blast
  have "data = contents m (unat pg * 256) 256"
    using t'(3,4) chunks_cover(2) [OF len] by (intro nth_equalityI) auto
  then show ?thesis using t(1) t'(1,2) len by (simp add: read_page_def vendor_cmd_int_windex_def bindS_apply) blast
qed

lemma page_programmed:
  assumes sdk: "app_sdk sdk begin_req view" and s: "at_rest view s USB_IF_SPI_FLASH page m"
    and "speed \<noteq> BLADERF_DEVICE_SPEED_UNKNOWN" "length buf = 256"
  shows "\<exists>t page. write_page (fx3_link bulk sdk begin_req view) speed pg buf s = (0, t) \<and>
      at_rest view t USB_IF_SPI_FLASH page (pages_written (unat pg * 256) buf m)"
proof -
  obtain len where len: "chunk_size speed = Some len" using assms(3) by (cases speed) (simp_all add: chunk_size_def)
  obtain t page' where t: "write_chunks (fx3_link bulk sdk begin_req view) len (chunk_offsets len) buf s = (0, t)"
    "at_rest view t USB_IF_SPI_FLASH page' m" "\<forall>i < 256. page' ! i = (if covered len (chunk_offsets len) i then buf ! i else page ! i)"
    using chunks_written [OF sdk s chunks_cover(1) [OF len] assms(4)] by blast
  have "length page' = 256" using t(2) by (simp add: at_rest_def)
  then have "page' = buf" using t(3) chunks_cover(2) [OF len] assms(4) by (intro nth_equalityI) auto
  then obtain t' where "int_request (fx3_link bulk sdk begin_req view) CMD_FLASH_WRITE 0 pg 0 t = ((0, 0), t')"
    "at_rest view t' USB_IF_SPI_FLASH buf (pages_written (unat pg * 256) buf m)" using int_requests(2) [OF sdk t(2)] by blast
  then show ?thesis using t(1) len by (simp add: write_page_def vendor_cmd_int_windex_def bindS_apply) blast
qed


section \<open>Blocks and ranges of pages\<close>

lemma range_steps:
  "blocks_erased (Suc e) n (blocks_erased e 1 m) = blocks_erased e (Suc n) m"
  "length xs = 256 \<Longrightarrow> pages_written (a + 256) ys (pages_written a xs m) = pages_written a (xs @ ys) m"
  "contents m a (k + l) = contents m a k @ contents m (a + k) l"
  "blocks_erased e 0 m = m" "pages_written a [] m = m" "contents m a 0 = []"
proof -
  show "blocks_erased (Suc e) n (blocks_erased e 1 m) = blocks_erased e (Suc n) m"
    by (rule ext) (auto simp add: blocks_erased_def)
  show "length xs = 256 \<Longrightarrow> pages_written (a + 256) ys (pages_written a xs m) = pages_written a (xs @ ys) m"
    by (rule ext) (auto simp add: pages_written_def nth_append)
  show "contents m a (k + l) = contents m a k @ contents m (a + k) l"
    by (rule nth_equalityI) (auto simp add: contents_def nth_append)
qed (auto simp add: blocks_erased_def pages_written_def contents_def fun_eq_iff)

lemma next_u32: "unat (e :: u32) + 1 < 2 ^ 32 \<Longrightarrow> unat (e + 1) = unat e + 1"
  by (simp add: unat_plus_if_size word_size)

lemma next_u16: "unat (e :: u16) + 1 < 2 ^ 16 \<Longrightarrow> unat (e + 1) = unat e + 1"
  by (simp add: unat_plus_if_size word_size)

lemma erase_blocks_loop:
  assumes sdk: "app_sdk sdk begin_req view"
  shows "at_rest view s USB_IF_SPI_FLASH page m \<Longrightarrow> unat eb + n \<le> 64 \<Longrightarrow>
    \<exists>t. erase_loop (fx3_link bulk sdk begin_req view) eb n s = (0, t) \<and>
      at_rest view t USB_IF_SPI_FLASH page (blocks_erased (unat eb) n m)"
proof (induction n arbitrary: eb s m)
  case 0
  then show ?case by (simp add: range_steps)
next
  case (Suc n)
  have "unat (ucast eb :: u16) = unat eb" using Suc.prems(2) by (simp add: unsigned_ucast_eq take_bit_nat_eq_self)
  then have b: "unat (ucast (ucast eb :: u16) :: u8) = unat eb" using Suc.prems(2)
    by (subst unsigned_ucast_eq) (simp add: take_bit_nat_eq_self)
  obtain t where t: "int_request (fx3_link bulk sdk begin_req view) CMD_FLASH_ERASE 0 (ucast eb) 0 s = ((0, 0), t)"
    "at_rest view t USB_IF_SPI_FLASH page (blocks_erased (unat eb) 1 m)"
    using int_requests(3) [OF sdk Suc.prems(1), of bulk "ucast eb"] unfolding b by blast
  have u: "unat (eb + 1) = unat eb + 1" using Suc.prems(2) by (intro next_u32) simp
  then obtain t' where t': "erase_loop (fx3_link bulk sdk begin_req view) (eb + 1) n t = (0, t')"
    "at_rest view t' USB_IF_SPI_FLASH page (blocks_erased (unat (eb + 1)) n (blocks_erased (unat eb) 1 m))"
    using Suc.IH [OF t(2), of "eb + 1"] Suc.prems(2) by auto
  have "at_rest view t' USB_IF_SPI_FLASH page (blocks_erased (unat eb) (Suc n) m)"
    using t'(2) range_steps(1) [of "unat eb" n m] by (simp add: u)
  then show ?case using t(1) t'(1) by (simp add: perform_erase_def bindS_apply)
qed

lemma read_pages_loop:
  assumes sdk: "app_sdk sdk begin_req view" and sp: "speed \<noteq> BLADERF_DEVICE_SPEED_UNKNOWN"
  shows "at_rest view s USB_IF_SPI_FLASH page m \<Longrightarrow> unat pg + n \<le> 0x4000 \<Longrightarrow> n * 256 \<le> length buf \<Longrightarrow>
    \<exists>t page. read_pages (fx3_link bulk sdk begin_req view) speed pg n buf s =
      ((0, contents m (unat pg * 256) (n * 256) @ drop (n * 256) buf), t) \<and> at_rest view t USB_IF_SPI_FLASH page m"
proof (induction n arbitrary: pg s page buf)
  case 0
  then show ?case by (auto simp add: range_steps)
next
  case (Suc n)
  have l: "length (take 256 buf) = 256" "n * 256 \<le> length (drop 256 buf)" using Suc.prems(3) by simp_all
  obtain t page' where t: "read_page (fx3_link bulk sdk begin_req view) speed CMD_FLASH_READ pg (take 256 buf) s =
      ((0, contents m (unat pg * 256) 256), t)" "at_rest view t USB_IF_SPI_FLASH page' m"
    using page_read [OF sdk Suc.prems(1) sp l(1)] by blast
  have u: "unat (pg + 1) = unat pg + 1" using Suc.prems(2) by (intro next_u16) simp
  then obtain t' page'' where t': "read_pages (fx3_link bulk sdk begin_req view) speed (pg + 1) n (drop 256 buf) t =
      ((0, contents m (unat (pg + 1) * 256) (n * 256) @ drop (n * 256) (drop 256 buf)), t')"
    "at_rest view t' USB_IF_SPI_FLASH page'' m"
    using Suc.IH [OF t(2) _ l(2), of "pg + 1"] Suc.prems(2) by auto
  have "contents m (unat pg * 256) (Suc n * 256) = contents m (unat pg * 256) 256 @ contents m (unat (pg + 1) * 256) (n * 256)"
    using range_steps(3) [of m "unat pg * 256" 256 "n * 256"] unfolding u by (simp add: algebra_simps)
  then show ?case using t(1) t' by (simp add: bindS_apply algebra_simps) blast
qed

lemma write_pages_loop:
  assumes sdk: "app_sdk sdk begin_req view" and sp: "speed \<noteq> BLADERF_DEVICE_SPEED_UNKNOWN"
  shows "at_rest view s USB_IF_SPI_FLASH page m \<Longrightarrow> unat pg + n \<le> 0x4000 \<Longrightarrow> length buf = n * 256 \<Longrightarrow>
    \<exists>t page. write_pages (fx3_link bulk sdk begin_req view) speed pg n buf s = (0, t) \<and>
      at_rest view t USB_IF_SPI_FLASH page (pages_written (unat pg * 256) buf m)"
proof (induction n arbitrary: pg s page buf m)
  case 0
  then show ?case by (auto simp add: range_steps)
next
  case (Suc n)
  have l: "length (take 256 buf) = 256" "length (drop 256 buf) = n * 256" using Suc.prems(3) by simp_all
  obtain t page' where t: "write_page (fx3_link bulk sdk begin_req view) speed pg (take 256 buf) s = (0, t)"
    "at_rest view t USB_IF_SPI_FLASH page' (pages_written (unat pg * 256) (take 256 buf) m)"
    using page_programmed [OF sdk Suc.prems(1) sp l(1)] by blast
  have u: "unat (pg + 1) = unat pg + 1" using Suc.prems(2) by (intro next_u16) simp
  then obtain t' page'' where t': "write_pages (fx3_link bulk sdk begin_req view) speed (pg + 1) n (drop 256 buf) t = (0, t')"
    "at_rest view t' USB_IF_SPI_FLASH page'' (pages_written (unat (pg + 1) * 256) (drop 256 buf) (pages_written (unat pg * 256) (take 256 buf) m))"
    using Suc.IH [OF t(2) _ l(2), of "pg + 1"] Suc.prems(2) by auto
  have "pages_written (unat (pg + 1) * 256) (drop 256 buf) (pages_written (unat pg * 256) (take 256 buf) m) = pages_written (unat pg * 256) buf m"
    using range_steps(2) [OF l(1), of "unat pg * 256" "drop 256 buf" m] unfolding u by (simp add: algebra_simps)
  then show ?case using t(1) t' by (simp add: bindS_apply) blast
qed

section \<open>The link as a flash device\<close>

definition link_mem :: "('h \<Rightarrow> 'p board_env_scheme) \<Rightarrow> 'h fx3_app \<Rightarrow> nat \<Rightarrow> u8" where
  "link_mem view s = part_mem (view (fx_hw s))"

definition link_ok :: "('h \<Rightarrow> 'p board_env_scheme) \<Rightarrow> 'h fx3_app \<Rightarrow> bool" where
  "link_ok view s \<longleftrightarrow> at_rest view s (glUsbAltInterface s) (glPageBuffer s) (link_mem view s)"

lemma link_okI: "at_rest view s alt page m \<Longrightarrow> link_ok view s \<and> link_mem view s = m"
  by (auto simp add: link_ok_def at_rest_def link_mem_def)

lemma link_flash_device:
  assumes sdk: "app_sdk sdk begin_req view"
    and sp: "speed \<noteq> BLADERF_DEVICE_SPEED_UNKNOWN"
  shows "flash_device (usb_flash (fx3_link bulk sdk begin_req view) env speed) (link_mem view) (link_ok view)"
proof
  let ?u = "fx3_link bulk sdk begin_req view"
  fix s and eb :: u32 and ebs :: u16
  assume s: "link_ok view s" "unat eb + unat ebs \<le> 64"
  obtain t1 where t1: "change_setting ?u IF_SPI_FLASH s = (0, t1)" "at_rest view t1 2 (glPageBuffer s) (link_mem view s)"
    using setting_changed [OF sdk _, of s _ _ _ 2] s(1) unfolding link_ok_def by fastforce
  obtain t2 where t2: "erase_loop ?u eb (unat ebs) t1 = (0, t2)"
    "at_rest view t2 2 (glPageBuffer s) (blocks_erased (unat eb) (unat ebs) (link_mem view s))"
    using erase_blocks_loop [OF sdk t1(2) s(2)] by blast
  obtain t3 alt where t3: "restore_post_flash_setting ?u env t2 = (0, t3)"
    "at_rest view t3 alt (glPageBuffer s) (blocks_erased (unat eb) (unat ebs) (link_mem view s))"
    using setting_restored [OF sdk t2(2)] by blast
  show "\<exists>t. erase_flash_blocks (usb_flash ?u env speed) eb ebs s = (0, t) \<and> link_ok view t \<and>
      link_mem view t = blocks_erased (unat eb) (unat ebs) (link_mem view s)"
    using t1(1) t2(1) t3(1) link_okI [OF t3(2)] by (simp add: usb_flash_def usb_erase_flash_blocks_def bindS_apply)
next
  let ?u = "fx3_link bulk sdk begin_req view"
  fix s and page count :: u32 and buf :: bytes
  assume s: "link_ok view s" "unat page + unat count \<le> 0x4000" "length buf = unat count * 256"
  have n: "unat (ucast page :: u16) = unat page" "unat (ucast count :: u16) = unat count"
    using s(2) by (simp_all add: unsigned_ucast_eq take_bit_nat_eq_self)
  obtain t1 where t1: "change_setting ?u IF_SPI_FLASH s = (0, t1)" "at_rest view t1 2 (glPageBuffer s) (link_mem view s)"
    using setting_changed [OF sdk _, of s _ _ _ 2] s(1) unfolding link_ok_def by fastforce
  obtain t2 p where t2: "write_pages ?u speed (ucast page) (unat count) buf t1 = (0, t2)"
    "at_rest view t2 2 p (pages_written (unat page * 256) buf (link_mem view s))"
    using write_pages_loop [OF sdk sp t1(2), of "ucast page" "unat count" buf] s(2,3) unfolding n by blast
  obtain t3 alt where t3: "restore_post_flash_setting ?u env t2 = (0, t3)"
    "at_rest view t3 alt p (pages_written (unat page * 256) buf (link_mem view s))"
    using setting_restored [OF sdk t2(2)] by blast
  show "\<exists>t. write_flash_pages (usb_flash ?u env speed) buf page count s = (0, t) \<and> link_ok view t \<and>
      link_mem view t = pages_written (unat page * 256) buf (link_mem view s)"
    using t1(1) t2(1) t3(1) link_okI [OF t3(2)] by (simp add: usb_flash_def usb_write_flash_pages_def bindS_apply n)
next
  let ?u = "fx3_link bulk sdk begin_req view"
  fix s and page count :: u32 and buf :: bytes
  assume s: "link_ok view s" "unat page + unat count \<le> 0x4000" "unat count * 256 \<le> length buf"
  have n: "unat (ucast page :: u16) = unat page" "unat (ucast count :: u16) = unat count"
    using s(2) by (simp_all add: unsigned_ucast_eq take_bit_nat_eq_self)
  obtain t1 where t1: "change_setting ?u IF_SPI_FLASH s = (0, t1)" "at_rest view t1 2 (glPageBuffer s) (link_mem view s)"
    using setting_changed [OF sdk _, of s _ _ _ 2] s(1) unfolding link_ok_def by fastforce
  obtain t2 p where t2: "read_pages ?u speed (ucast page) (unat count) buf t1 =
      ((0, contents (link_mem view s) (unat page * 256) (unat count * 256) @ drop (unat count * 256) buf), t2)"
    "at_rest view t2 2 p (link_mem view s)"
    using read_pages_loop [OF sdk sp t1(2), of "ucast page" "unat count" buf] s(2,3) unfolding n by blast
  obtain t3 alt where t3: "restore_post_flash_setting ?u env t2 = (0, t3)" "at_rest view t3 alt p (link_mem view s)"
    using setting_restored [OF sdk t2(2)] by blast
  show "\<exists>t. read_flash_pages (usb_flash ?u env speed) buf page count s =
      ((0, contents (link_mem view s) (unat page * 256) (unat count * 256) @ drop (unat count * 256) buf), t) \<and>
      link_ok view t \<and> link_mem view t = link_mem view s"
    using t1(1) t2(1) t3(1) link_okI [OF t3(2)] by (simp add: usb_flash_def usb_read_flash_pages_def bindS_apply n)
qed


section \<open>A board, and updating its firmware\<close>

text \<open>An SDK whose state is the environment itself.\<close>

definition board_sdk :: "board_env fx3_app_sdk" where
  "board_sdk = \<lparr> CyU3PMutexCreate = returnS 0, CyU3PMutexGet = returnS 0, CyU3PMutexPut = returnS 0,
     CY_U3P_ERROR_NOT_SUPPORTED = 0x45, CyU3PSpiInit = returnS 0, CyU3PSpiDeInit = returnS 0,
     CyU3PSpiSetConfig = returnS 0, CyU3PSpiSetSsnLine = (\<lambda>b p. (0, part_ssn b p)),
     CyU3PSpiTransmitWords = (\<lambda>bs p. (0, part_tx bs p)),
     CyU3PSpiReceiveWords = (\<lambda>n p. ((0, part_data n p), part_rx p)),
     CyU3PThreadSleep = (\<lambda>ms p. ((), part_sleep ms p)),
     FIRMWARE_VERSION_MAJOR = 1, FIRMWARE_VERSION_MINOR = 8, FIRMWARE_VERSION = [0x31, 0x2e, 0x38, 0],
     CY_U3P_ERROR_FAILURE = 0x46, CY_U3P_ERROR_BAD_ARGUMENT = 0x40,
     CyU3PUsbSendEP0Data = (\<lambda>data h. (0, env_send data h)),
     CyU3PUsbGetEP0Data = (\<lambda>n h. ((0, take n (env_out h)), h)),
     CyU3PUsbStall = (\<lambda>_ _ _ h. (0, h\<lparr>env_reply := None\<rparr>)), CyU3PUsbAckSetup = returnS (),
     CyU3PDeviceReset = (\<lambda>_. returnS ()), CyU3PGpioGetValue = (\<lambda>_. returnS (0, True)),
     CyU3PGpioSetValue = (\<lambda>_ _. returnS 0), CyU3PGpioInit = returnS 0,
     CyU3PGetTime = (\<lambda>h. (of_nat (env_now h 0), h\<lparr>env_now := (\<lambda>n. env_now h (Suc n))\<rparr>)),
     CyU3PDeviceConfigureIOMatrix = (\<lambda>_. returnS 0), CyU3PDeviceGpioOverride = (\<lambda>_. returnS 0),
     CyU3PGpioSetSimpleConfig = (\<lambda>_ _. returnS 0), CyU3PSpiSetClock = (\<lambda>_. returnS 0),
     CyU3PUsbStart = returnS 0, CyU3PUsbSetDesc = (\<lambda>_. returnS 0), CyU3PConnectState = returnS 0,
     CyU3PUsbGetSpeed = returnS CY_U3P_HIGH_SPEED, CyU3PSetEpConfig = (\<lambda>_ _. returnS 0), CyU3PUsbFlushEp = (\<lambda>_. returnS 0),
     CyU3PUsbResetEp = (\<lambda>_. returnS 0), CyU3PDmaBufferAlloc = (\<lambda>n. returnS (replicate n 0)),
     CyU3PDmaChannelCreate = (\<lambda>_ _ _. returnS 0), CyU3PDmaChannelSetXfer = (\<lambda>_ _. returnS 0),
     CyU3PDmaChannelDestroy = (\<lambda>_. returnS 0), CyU3PDmaChannelGetStatus = (\<lambda>_. returnS 0),
     CyU3PDmaChannelAbort = (\<lambda>_. returnS 0), CyU3PDmaChannelReset = (\<lambda>_. returnS 0),
     CyU3PDmaChannelSetupSendBuffer = (\<lambda>_ data h. (0, h\<lparr>env_sent := env_sent h @ data\<rparr>)),
     CyU3PDmaChannelWaitForCompletion = (\<lambda>_ _. returnS 0),
     CyU3PDmaChannelCommitBuffer = (\<lambda>_ data h. (0, h\<lparr>env_sent := env_sent h @ data\<rparr>)),
     CyU3PUartInit = returnS 0, CyU3PUartSetConfig = returnS 0, CyU3PUartTxSetBlockXfer = (\<lambda>_. returnS 0),
     CyU3PUartRxSetBlockXfer = (\<lambda>_. returnS 0), CyU3PUartDeInit = returnS 0, CyU3PGpifDisable = (\<lambda>_. returnS ()),
     CyU3PPibDeInit = returnS 0, CyU3PPibInit = returnS 0, CyU3PGpifLoad = (\<lambda>_. returnS 0), CyU3PGpifSMStart = (\<lambda>_ _. returnS 0) \<rparr>"

lemma board_laws: "app_sdk board_sdk env_begin (\<lambda>h. h)"
proof -
  have "quiet_sdk board_sdk (\<lambda>h. h)"
    unfolding quiet_sdk_def silent_def by (intro conjI allI) (simp_all add: board_sdk_def)
  moreover have "spi_sdk board_sdk (\<lambda>h. h)"
    unfolding spi_sdk_def by (simp add: board_sdk_def)
  ultimately show ?thesis
    unfolding app_sdk_def by (simp add: board_sdk_def ex_bool_eq)
qed

definition board_link :: "(board_env fx3_app) usb_driver" where
  "board_link = fx3_link \<lparr> usb_out = (\<lambda>_. returnS 0), usb_in = (\<lambda>buf. returnS (0, buf)) \<rparr> board_sdk env_begin (\<lambda>h. h)"

definition board_flash :: "(board_env fx3_app) flash_fns" where
  "board_flash = usb_flash board_link \<lparr> BLADERF_FORCE_NO_FPGA_PRESENT = False, BLADERF_FORCE_LEGACY_NIOS_PKT = False \<rparr>
     BLADERF_DEVICE_SPEED_HIGH"

interpretation board: flash_device board_flash "link_mem (\<lambda>h. h)" "link_ok (\<lambda>h. h)"
  unfolding board_flash_def board_link_def by (intro link_flash_device board_laws) simp


text \<open>C37: Updating the firmware through the whole chain: flash_write_fx3_fw of the host, the USB backend with its
  chunks at either speed, the request handler of the FX3 and its SPI library, down to the flash
  part.  For every image up to 4 MiB and whatever the memory held, the first 192 KiB end up as the image padded with 0xff
  and erased after it, and nothing else changes, but for this: the length is not checked against the firmware's
  region, so the bytes of a longer image are written over what follows, the calibration data first,
  without erasing; the verification notices this exactly when a bit would have had to be set.\<close>

theorem firmware_update:
  assumes "app_sdk sdk begin_req view" "speed \<noteq> BLADERF_DEVICE_SPEED_UNKNOWN" "link_ok view s" "length img \<le> 2 ^ 22"
  shows "\<exists>t. flash_write_fx3_fw (usb_flash (fx3_link bulk sdk begin_req view) env speed) img s =
      Some ((if \<forall>a. 0x30000 \<le> a \<and> a < length (padded_image img) \<longrightarrow> link_mem view s a AND padded_image img ! a = padded_image img ! a
         then 0 else BLADERF_ERR_UNEXPECTED, padded_image img), t) \<and>
    link_mem view t = (\<lambda>a. if a < length (padded_image img)
      then (if a < 0x30000 then padded_image img ! a else link_mem view s a AND padded_image img ! a)
      else if a < 0x30000 then 0xff else link_mem view s a)"
  using flash_device.write_fx3_fw [OF link_flash_device [OF assms(1,2)] assms(3,4)] by blast

definition new_board :: "board_env fx3_app" where
  "new_board = \<lparr> fx_hw = \<lparr> part_mem = (\<lambda>a. of_nat a), part_otp = (\<lambda>_. 0xff), part_secured = False, part_wel = False,
       part_busy = 0, part_prog = False, part_delays = (\<lambda>n. n), part_cmd = None,
       env_out = [], env_reply = None, env_sent = [], env_now = (\<lambda>n. 3 * n) \<rparr>,
     fx_log = new_log, spiFastRead = False, glAppMode = MODE_NO_CONFIG, glUsbConfiguration = 0, glUsbAltInterface = 0,
     glPageBuffer = replicate 256 0, glCalCacheValid = False, glCal = replicate 256 0, glDeviceReady = True,
     glAutoLoadValid = False, glAutoLoad = replicate 256 0, CyFxUSBSerial = replicate 66 0, CyFxUSBVersion = replicate 10 0,
     allow_suspend = True, loopback = 0, loopback_when_created = 0, RF_status_bits = replicate 131 0, first_call = True,
     glDMARxCount = 0, FPGA_status_bits = replicate 3 0, gpif_active = False, pib_active = False \<rparr>"

lemma new_board_ok: "link_ok (\<lambda>h. h) new_board"
  by (simp add: link_ok_def at_rest_def link_mem_def new_board_def)

theorem firmware_update_witness:
  "\<exists>t. flash_write_fx3_fw board_flash [0x43, 0x59, 0x1c] new_board = Some ((0, [0x43, 0x59, 0x1c] @ replicate 253 0xff), t) \<and>
     link_mem (\<lambda>h. h) t 1 = 0x59 \<and> link_mem (\<lambda>h. h) t 0x2ffff = 0xff \<and> link_mem (\<lambda>h. h) t 0x30007 = 0x07"
proof -
  have p: "padded_image [0x43, 0x59, 0x1c] = [0x43, 0x59, 0x1c] @ replicate 253 0xff"
    by (simp add: padded_image_def pad_image_def)
  have "link_mem (\<lambda>h. h) new_board 0x30007 = 0x07" by (simp add: link_mem_def new_board_def)
  moreover obtain t where "flash_write_fx3_fw board_flash [0x43, 0x59, 0x1c] new_board =
      Some ((if \<forall>a. 0x30000 \<le> a \<and> a < length (padded_image [0x43, 0x59, 0x1c]) \<longrightarrow>
          link_mem (\<lambda>h. h) new_board a AND padded_image [0x43, 0x59, 0x1c] ! a = padded_image [0x43, 0x59, 0x1c] ! a
         then 0 else BLADERF_ERR_UNEXPECTED, padded_image [0x43, 0x59, 0x1c]), t)"
    "link_mem (\<lambda>h. h) t = (\<lambda>a. if a < length (padded_image [0x43, 0x59, 0x1c])
      then (if a < 0x30000 then padded_image [0x43, 0x59, 0x1c] ! a
        else link_mem (\<lambda>h. h) new_board a AND padded_image [0x43, 0x59, 0x1c] ! a)
      else if a < 0x30000 then 0xff else link_mem (\<lambda>h. h) new_board a)"
    unfolding board_flash_def board_link_def
    using firmware_update [OF board_laws _ new_board_ok,
        of BLADERF_DEVICE_SPEED_HIGH "[0x43, 0x59, 0x1c]"] by force
  ultimately show ?thesis unfolding p by (intro exI [of _ t]) simp
qed

end
