(* ===== verification/Fx3_Boot.thy ===== *)
theory Fx3_Boot
  imports Fx3_Link
begin

text \<open>
  The start of the board: FpgaBeginProgram and its waiting loops under a running clock, the loading of
  the FPGA from the flash memory, and the whole of bladeRFAppThread_Entry after the host has stored a
  bitstream.
\<close>

unbundle bit_operations_syntax

section \<open>Waiting for the FPGA\<close>

text \<open>The clock gives the times of \<open>env_now\<close> one after the other, in 32 bits; the pins obey and nSTATUS has
  the level \<open>level\<close>.\<close>

definition clock_sdk :: "('h, 'y) fx3_app_sdk_scheme \<Rightarrow> ('h \<Rightarrow> 'p board_env_scheme) \<Rightarrow> bool \<Rightarrow> bool" where
  "clock_sdk sdk view level \<longleftrightarrow>
     (\<forall>h. \<exists>t. CyU3PGetTime sdk h = (of_nat (env_now (view h) 0), t) \<and> view t = (view h)\<lparr>env_now := (\<lambda>n. env_now (view h) (Suc n))\<rparr>) \<and>
     (\<forall>pin v h. \<exists>t. CyU3PGpioSetValue sdk pin v h = (0, t) \<and> view t = view h) \<and>
     (\<forall>h. \<exists>t. CyU3PGpioGetValue sdk GPIO_nSTATUS h = ((0, level), t) \<and> view t = view h)"

definition after :: "nat \<Rightarrow> 'p board_env_scheme \<Rightarrow> 'p board_env_scheme" where
  "after k v = v\<lparr>env_now := (\<lambda>n. env_now v (n + k))\<rparr>"

lemma after_after [simp]: "after j (after k v) = after (j + k) v" "after 0 v = v"
  by (simp_all add: after_def add.assoc)

lemma clock_read:
  assumes "clock_sdk sdk view level"
  shows "\<exists>h. hwS (CyU3PGetTime sdk) s = (of_nat (env_now (view (fx_hw s)) 0), s\<lparr>fx_hw := h\<rparr>) \<and> view h = after 1 (view (fx_hw s))"
proof -
  obtain t where "CyU3PGetTime sdk (fx_hw s) = (of_nat (env_now (view (fx_hw s)) 0), t)"
    "view t = (view (fx_hw s))\<lparr>env_now := (\<lambda>n. env_now (view (fx_hw s)) (Suc n))\<rparr>"
    using assms unfolding clock_sdk_def by metis
  then show ?thesis by (intro exI [of _ t]) (simp add: hwS_def after_def)
qed

lemma pin_set:
  assumes "clock_sdk sdk view level"
  shows "\<exists>h. hwS (CyU3PGpioSetValue sdk pin v) s = (0, s\<lparr>fx_hw := h\<rparr>) \<and> view h = view (fx_hw s)"
proof -
  obtain t where "CyU3PGpioSetValue sdk pin v (fx_hw s) = (0, t)" "view t = view (fx_hw s)"
    using assms unfolding clock_sdk_def by metis
  then show ?thesis by (intro exI [of _ t]) (simp add: hwS_def)
qed

lemma waits_until:
  fixes s :: "('h, 'z) fx3_scheme"
  assumes "clock_sdk sdk view level"
  shows "\<forall>i < n. (of_nat (env_now (view (fx_hw s)) i) :: u32) < tEnd \<Longrightarrow>
      \<not> (of_nat (env_now (view (fx_hw s)) n) :: u32) < tEnd \<Longrightarrow>
    \<exists>h. wait_until sdk tEnd s = Some ((), s\<lparr>fx_hw := h\<rparr>) \<and> view h = after (Suc n) (view (fx_hw s))"
proof (induction n arbitrary: s)
  case 0
  then show ?case using clock_read [OF assms, of s]
    by (subst wait_until.simps) auto
next
  case (Suc n)
  obtain h where h: "hwS (CyU3PGetTime sdk) s = (of_nat (env_now (view (fx_hw s)) 0), s\<lparr>fx_hw := h\<rparr>)"
    "view h = after 1 (view (fx_hw s))" using clock_read [OF assms] by blast
  have "env_now (view h) i = env_now (view (fx_hw s)) (Suc i)" for i by (simp add: h(2) after_def)
  then obtain k where "wait_until sdk tEnd (s\<lparr>fx_hw := h\<rparr>) = Some ((), s\<lparr>fx_hw := k\<rparr>)" "view k = after (Suc n) (view h)"
    using Suc.IH [of "s\<lparr>fx_hw := h\<rparr>"] Suc.prems by force
  then show ?case using h Suc.prems(1) by (subst wait_until.simps) auto
qed

lemma status_rounds:
  assumes "clock_sdk sdk view level"
  shows "\<exists>h. status_round sdk tEnd s =
      (if (of_nat (env_now (view (fx_hw s)) 0) :: u32) > tEnd then Some (-1) else if level then Some 0 else None, s\<lparr>fx_hw := h\<rparr>) \<and>
    view h = after 1 (view (fx_hw s))"
proof -
  obtain t where t: "CyU3PGpioGetValue sdk GPIO_nSTATUS (fx_hw s) = ((0, level), t)" "view t = view (fx_hw s)"
    using assms unfolding clock_sdk_def by metis
  obtain h where "hwS (CyU3PGetTime sdk) (s\<lparr>fx_hw := t\<rparr>) = (of_nat (env_now (view (fx_hw s)) 0), s\<lparr>fx_hw := h\<rparr>)"
    "view h = after 1 (view (fx_hw s))" using clock_read [OF assms, of "s\<lparr>fx_hw := t\<rparr>"] t(2) by auto
  then show ?thesis using t(1) by (intro exI [of _ h]) (simp add: status_round_def bindS_def hwS_def [of "CyU3PGpioGetValue sdk GPIO_nSTATUS"])
qed

lemma waits_nstatus:
  fixes s :: "('h, 'z) fx3_scheme"
  assumes "clock_sdk sdk view level"
  shows "\<forall>i < n. \<not> level \<and> \<not> (of_nat (env_now (view (fx_hw s)) i) :: u32) > tEnd \<Longrightarrow>
      level \<or> (of_nat (env_now (view (fx_hw s)) n) :: u32) > tEnd \<Longrightarrow>
    \<exists>h. wait_nstatus sdk tEnd s = Some (if (of_nat (env_now (view (fx_hw s)) n) :: u32) > tEnd then -1 else 0, s\<lparr>fx_hw := h\<rparr>) \<and>
      view h = after (Suc n) (view (fx_hw s))"
proof (induction n arbitrary: s)
  case 0
  then show ?case using status_rounds [OF assms, of tEnd s]
    by (subst wait_nstatus.simps) auto
next
  case (Suc n)
  obtain h where h: "status_round sdk tEnd s = (None, s\<lparr>fx_hw := h\<rparr>)" "view h = after 1 (view (fx_hw s))"
    using status_rounds [OF assms, of tEnd s] Suc.prems(1) by auto
  have "env_now (view h) i = env_now (view (fx_hw s)) (Suc i)" for i by (simp add: h(2) after_def)
  then obtain k where "wait_nstatus sdk tEnd (s\<lparr>fx_hw := h\<rparr>) =
      Some (if (of_nat (env_now (view (fx_hw s)) (Suc n)) :: u32) > tEnd then -1 else 0, s\<lparr>fx_hw := k\<rparr>)" "view k = after (Suc n) (view h)"
    using Suc.IH [of "s\<lparr>fx_hw := h\<rparr>"] Suc.prems by force
  then show ?case using h by (subst wait_nstatus.simps) auto
qed

text \<open>FpgaBeginProgram reads the clock j times until the first ten milliseconds are over and n times more.\<close>

lemma begin_program:
  fixes s :: "('h, 'z) fx3_scheme"
  assumes "clock_sdk sdk view level" and f: "f = env_now (view (fx_hw s))"
    and "\<forall>i < j. (of_nat (f (Suc i)) :: u32) < of_nat (f 0) + 10" "\<not> (of_nat (f (Suc j)) :: u32) < of_nat (f 0) + 10"
    and "\<forall>i < n. \<not> level \<and> \<not> (of_nat (f (i + j + 3)) :: u32) > of_nat (f (j + 2)) + 1000"
      "level \<or> (of_nat (f (n + j + 3)) :: u32) > of_nat (f (j + 2)) + 1000"
  shows "\<exists>h. FpgaBeginProgram sdk s = Some (if (of_nat (f (n + j + 3)) :: u32) > of_nat (f (j + 2)) + 1000 then -1 else 0, s\<lparr>fx_hw := h\<rparr>) \<and>
    view h = after (n + j + 4) (view (fx_hw s))"
proof -
  obtain h1 where h1: "hwS (CyU3PGpioSetValue sdk GPIO_nCONFIG False) s = (0, s\<lparr>fx_hw := h1\<rparr>)" "view h1 = view (fx_hw s)"
    using pin_set [OF assms(1)] by blast
  obtain h2 where h2: "hwS (CyU3PGetTime sdk) (s\<lparr>fx_hw := h1\<rparr>) = (of_nat (f 0), s\<lparr>fx_hw := h2\<rparr>)" "view h2 = after 1 (view (fx_hw s))"
    using clock_read [OF assms(1), of "s\<lparr>fx_hw := h1\<rparr>"] h1(2) f by auto
  have e2: "env_now (view h2) i = f (Suc i)" for i by (simp add: h2(2) f after_def)
  obtain h3 where h3: "wait_until sdk (of_nat (f 0) + 10) (s\<lparr>fx_hw := h2\<rparr>) = Some ((), s\<lparr>fx_hw := h3\<rparr>)"
    "view h3 = after (Suc j) (view h2)"
    using waits_until [OF assms(1), where n = j and s = "s\<lparr>fx_hw := h2\<rparr>" and tEnd = "of_nat (f 0) + 10"] assms(3,4) e2 by auto
  obtain h4 where h4: "hwS (CyU3PGpioSetValue sdk GPIO_nCONFIG True) (s\<lparr>fx_hw := h3\<rparr>) = (0, s\<lparr>fx_hw := h4\<rparr>)" "view h4 = view h3"
    using pin_set [OF assms(1), of _ _ "s\<lparr>fx_hw := h3\<rparr>"] by auto
  have e4: "env_now (view h4) i = f (i + j + 2)" for i by (simp add: h4(2) h3(2) h2(2) f after_def)
  obtain h5 where h5: "hwS (CyU3PGetTime sdk) (s\<lparr>fx_hw := h4\<rparr>) = (of_nat (f (j + 2)), s\<lparr>fx_hw := h5\<rparr>)"
    "view h5 = after 1 (view h4)"
    using clock_read [OF assms(1), of "s\<lparr>fx_hw := h4\<rparr>"] e4 [of 0] by auto
  have e5: "env_now (view h5) i = f (i + j + 3)" for i using e4 [of "Suc i"] by (simp add: h5(2) after_def numeral_3_eq_3)
  obtain h6 where h6: "wait_nstatus sdk (of_nat (f (j + 2)) + 1000) (s\<lparr>fx_hw := h5\<rparr>) =
      Some (if (of_nat (f (n + j + 3)) :: u32) > of_nat (f (j + 2)) + 1000 then -1 else 0, s\<lparr>fx_hw := h6\<rparr>)"
    "view h6 = after (Suc n) (view h5)"
    using waits_nstatus [OF assms(1), where n = n and s = "s\<lparr>fx_hw := h5\<rparr>" and tEnd = "of_nat (f (j + 2)) + 1000"] assms(5,6)
    by (auto simp add: e5)
  show ?thesis
    using h1(1) h2(1) h3(1) h4(1) h5(1) h6 h5(2) h4(2) h3(2) h2(2)
    by (intro exI [of _ h6]) (simp add: FpgaBeginProgram_def bindF_def eval_nat_numeral)
qed


lemma tick_less:
  "x < 2 ^ 32 \<Longrightarrow> y < 2 ^ 32 \<Longrightarrow> (of_nat x :: u32) < of_nat y \<longleftrightarrow> x < y"
  by (simp add: word_less_nat_alt unat_of_nat)

lemma tick_add:
  "x < 2 ^ 32 \<Longrightarrow> y + numeral k < 2 ^ 32 \<Longrightarrow> (of_nat x :: u32) < of_nat y + numeral k \<longleftrightarrow> x < y + numeral k"
  "x < 2 ^ 32 \<Longrightarrow> y + numeral k < 2 ^ 32 \<Longrightarrow> (of_nat y :: u32) + numeral k < of_nat x \<longleftrightarrow> y + numeral k < x"
  using tick_less [of x "y + numeral k"] tick_less [of "y + numeral k" x] by simp_all

text \<open>The first reading at or after a time, when the readings grow without bound.\<close>

lemma first_reading:
  fixes f :: "nat \<Rightarrow> nat"
  assumes "mono f" "\<forall>T. \<exists>n. T \<le> f n" "\<forall>n. f (Suc n) \<le> f n + step" "f c < T"
  shows "\<exists>n. (\<forall>i < n. f (i + c + 1) < T) \<and> T \<le> f (n + c + 1) \<and> f (n + c + 1) < T + step"
proof -
  obtain k where "T \<le> f k" using assms(2) by blast
  then have "T \<le> f (k + c + 1)" using monoD [OF assms(1), of k "k + c + 1"] by simp
  then obtain n where n: "T \<le> f (n + c + 1)" "\<forall>i < n. \<not> T \<le> f (i + c + 1)"
    using exists_least_iff [of "\<lambda>n. T \<le> f (n + c + 1)"] by blast
  have "f (n + c) < T" using n(2) assms(4) by (cases n) auto
  then have "f (n + c + 1) < T + step" using assms(3) [rule_format, of "n + c"] by simp
  then show ?thesis using n by (auto simp add: not_le)
qed

lemma begins_in_time:
  fixes s :: "('h, 'z) fx3_scheme"
  assumes sdk: "clock_sdk sdk view level" and f: "f = env_now (view (fx_hw s))"
    and c: "mono f" "\<forall>T. \<exists>n. T \<le> f n" "\<forall>n. f (Suc n) \<le> f n + 1000" "f 0 < 2 ^ 31"
  shows "\<exists>h k. FpgaBeginProgram sdk s = Some (if level then 0 else -1, s\<lparr>fx_hw := h\<rparr>) \<and>
    view h = after k (view (fx_hw s)) \<and> f k \<le> f 0 + 6000 \<and> (\<not> level \<longrightarrow> f 0 + 1010 < f (k - 1))"
proof -
  obtain j where j: "\<forall>i < j. f (Suc i) < f 0 + 10" "f 0 + 10 \<le> f (Suc j)" "f (Suc j) < f 0 + 1010"
    using first_reading [OF c(1,2,3), of 0 "f 0 + 10"] by auto
  have st: "f (j + 2) \<le> f (Suc j) + 1000" "f (j + 3) \<le> f (j + 2) + 1000" "f (j + 4) \<le> f (j + 3) + 1000" "f (Suc j) \<le> f (j + 2)"
    using c(3) [rule_format, of "Suc j"] c(3) [rule_format, of "j + 2"] c(3) [rule_format, of "j + 3"] monoD [OF c(1), of "Suc j" "j + 2"]
    by (simp_all add: eval_nat_numeral)
  have b: "f 0 + 10 < 2 ^ 32" "f (Suc j) < 2 ^ 32" "f (j + 2) + 1000 < 2 ^ 32" "f (j + 3) < 2 ^ 32" using st j(3) c(4) by simp_all
  have a: "\<forall>i < j. (of_nat (f (Suc i)) :: u32) < of_nat (f 0) + 10" "\<not> (of_nat (f (Suc j)) :: u32) < of_nat (f 0) + 10"
    using j b(1,2) by (auto simp add: tick_add)
  show ?thesis
  proof (cases level)
    case True
    have l: "\<not> (of_nat (f (j + 3)) :: u32) > of_nat (f (j + 2)) + 1000" using tick_add(2) [OF b(4,3)] st(2) by simp
    obtain h where "FpgaBeginProgram sdk s = Some (0, s\<lparr>fx_hw := h\<rparr>)" "view h = after (j + 4) (view (fx_hw s))"
      using begin_program [OF sdk f a, of 0] True l by auto
    then show ?thesis using True st j(3) by (intro exI [of _ h] exI [of _ "j + 4"]) simp
  next
    case False
    obtain n where n: "\<forall>i < n. f (i + j + 3) < f (j + 2) + 1001" "f (j + 2) + 1001 \<le> f (n + j + 3)" "f (n + j + 3) < f (j + 2) + 2001"
      using first_reading [OF c(1,2,3), of "j + 2" "f (j + 2) + 1001"] by (auto simp add: eval_nat_numeral)
    have m: "\<forall>i < n. f (i + j + 3) < 2 ^ 32" "f (n + j + 3) < 2 ^ 32"
      using n(1,3) b(3) st j(3) c(4) by (simp_all, fastforce)
    have l: "\<forall>i < n. \<not> level \<and> \<not> (of_nat (f (i + j + 3)) :: u32) > of_nat (f (j + 2)) + 1000"
      "(of_nat (f (n + j + 3)) :: u32) > of_nat (f (j + 2)) + 1000"
      using n b(3) m False by (auto simp add: tick_add)
    obtain h where h: "FpgaBeginProgram sdk s = Some (-1, s\<lparr>fx_hw := h\<rparr>)" "view h = after (n + j + 4) (view (fx_hw s))"
      using begin_program [OF sdk f a l(1)] l(2) by auto
    have "f (n + j + 4) \<le> f (n + j + 3) + 1000" using c(3) [rule_format, of "n + j + 3"] by (simp add: eval_nat_numeral)
    then have "f (n + j + 4) \<le> f 0 + 6000" using n(3) st j by simp
    moreover have "f 0 + 1010 < f (n + j + 4 - 1)" using n(2) st j by (simp add: add.commute)
    ultimately show ?thesis using False h by (intro exI [of _ h] exI [of _ "n + j + 4"]) simp
  qed
qed

text \<open>When the counter is about to overflow, the end of the second wait is in the past.\<close>

lemma begin_overflows:
  fixes s :: "('h, 'z) fx3_scheme"
  assumes sdk: "clock_sdk sdk view level" and f: "f = env_now (view (fx_hw s))"
    and c: "mono f" "\<forall>T. \<exists>n. T \<le> f n" "\<forall>n. f (Suc n) \<le> f n + 1" "2 ^ 32 - 1000 \<le> f 0" "f 0 + 20 < 2 ^ 32"
  shows "\<exists>h. FpgaBeginProgram sdk s = Some (-1, s\<lparr>fx_hw := h\<rparr>)"
proof -
  obtain j where j: "\<forall>i < j. f (Suc i) < f 0 + 10" "f 0 + 10 \<le> f (Suc j)" "f (Suc j) < f 0 + 11"
    using first_reading [OF c(1,2,3), of 0 "f 0 + 10"] by auto
  have st: "f (j + 2) \<le> f (Suc j) + 1" "f (j + 3) \<le> f (j + 2) + 1" "f (Suc j) \<le> f (j + 2)" "f (j + 2) \<le> f (j + 3)"
    using c(3) [rule_format, of "Suc j"] c(3) [rule_format, of "j + 2"] monoD [OF c(1), of "Suc j" "j + 2"] monoD [OF c(1), of "j + 2" "j + 3"]
    by (simp_all add: eval_nat_numeral)
  have b: "f 0 + 10 < 2 ^ 32" "f (Suc j) < 2 ^ 32" using j(3) c(5) by simp_all
  have a: "\<forall>i < j. (of_nat (f (Suc i)) :: u32) < of_nat (f 0) + 10" "\<not> (of_nat (f (Suc j)) :: u32) < of_nat (f 0) + 10"
    using j b by (auto simp add: tick_add)
  have "(of_nat (f (j + 2)) :: u32) + 1000 = of_nat (f (j + 2) + 1000)" by simp
  also have "\<dots> = of_nat (f (j + 2) + 1000 - 2 ^ 32)"
    using st j c(4) of_nat_diff [of "2 ^ 32" "f (j + 2) + 1000", where ?'a = "32 word"] by simp
  finally have w2: "(of_nat (f (j + 2)) :: u32) + 1000 = of_nat (f (j + 2) + 1000 - 2 ^ 32)" .
  have l: "(of_nat (f (j + 3)) :: u32) > of_nat (f (j + 2)) + 1000"
    unfolding w2 using tick_less [of "f (j + 2) + 1000 - 2 ^ 32" "f (j + 3)"] st j c(5) by simp
  show ?thesis using begin_program [OF sdk f a, of 0] l by auto
qed


section \<open>Loading the FPGA\<close>

text \<open>What goes to the FPGA for the bytes of a bitstream.\<close>

definition flipped :: "bytes \<Rightarrow> bytes" where
  "flipped bs = concat (map (\<lambda>b. put_le16 (glFlipLut b)) bs)"

lemma flipped_simps [simp]:
  "flipped [] = []" "flipped (b # bs) = put_le16 (glFlipLut b) @ flipped bs" "flipped (bs @ cs) = flipped bs @ flipped cs"
  by (simp_all add: flipped_def)

lemma length_flipped [simp]: "length (flipped bs) = 2 * length bs"
  by (induction bs) simp_all

lemma take_flipped: "take (2 * n) (flipped bs) = flipped (take n bs)"
proof (induction bs arbitrary: n)
  case (Cons b bs)
  then show ?case by (cases n) (simp_all add: put_le16_def)
qed simp

text \<open>The buffer is flipped in place, from its end, so that no byte is overwritten before it is read.\<close>

lemma flip_buffer_in_place:
  "2 * n \<le> length buf \<Longrightarrow> flip_buffer n buf = flipped (take n buf) @ drop (2 * n) buf"
proof (induction n arbitrary: buf)
  case (Suc i)
  let ?w = "put_le16 (glFlipLut (buf ! i))"
  let ?b = "buf[2 * i := ?w ! 0, 2 * i + 1 := ?w ! 1]"
  have w: "?w = [?w ! 0, ?w ! 1]" by (simp add: put_le16_def)
  have "drop (2 * i) ?b = ?w ! 0 # ?w ! 1 # drop (2 * i + 2) buf"
    using Suc.prems Cons_nth_drop_Suc [of "2 * i" buf, symmetric] Cons_nth_drop_Suc [of "Suc (2 * i)" buf, symmetric]
    by (simp add: drop_update_swap)
  then have d: "drop (2 * i) ?b = ?w @ drop (2 * Suc i) buf" using w by (metis append_Cons append_Nil mult_Suc_right add.commute)
  have t: "take i ?b = take i buf" by simp
  have "flip_buffer (Suc i) buf = flip_buffer i ?b" by (simp add: Let_def)
  also have "\<dots> = flipped (take i ?b) @ drop (2 * i) ?b" using Suc.prems by (intro Suc.IH) simp
  also have "\<dots> = flipped (take i buf @ [buf ! i]) @ drop (2 * Suc i) buf" unfolding t d by simp
  also have "take i buf @ [buf ! i] = take (Suc i) buf" using Suc.prems by (simp add: take_Suc_conv_app_nth)
  finally show ?case .
qed simp

definition dma_sdk :: "('h, 'y) fx3_app_sdk_scheme \<Rightarrow> ('h \<Rightarrow> 'p board_env_scheme) \<Rightarrow> bool" where
  "dma_sdk sdk view \<longleftrightarrow>
     (\<forall>n h. \<exists>buf t. CyU3PDmaBufferAlloc sdk n h = (buf, t) \<and> length buf = n \<and> view t = view h) \<and>
     (\<forall>h. \<exists>t. CyU3PDmaChannelGetStatus sdk glChHandlebladeRFUtoP h = (0, t) \<and> view t = view h) \<and>
     (\<forall>h. \<exists>t. CyU3PDmaChannelAbort sdk glChHandlebladeRFUtoP h = (0, t) \<and> view t = view h) \<and>
     (\<forall>h. \<exists>t. CyU3PDmaChannelReset sdk glChHandlebladeRFUtoP h = (0, t) \<and> view t = view h) \<and>
     (\<forall>data h. \<exists>t. CyU3PDmaChannelSetupSendBuffer sdk glChHandlebladeRFUtoP data h = (0, t) \<and> view t = (view h)\<lparr>env_sent := env_sent (view h) @ data\<rparr>) \<and>
     (\<forall>ms h. \<exists>t. CyU3PDmaChannelWaitForCompletion sdk glChHandlebladeRFUtoP ms h = (0, t) \<and> view t = view h) \<and>
     (\<forall>hz h. \<exists>t. CyU3PSpiSetClock sdk hz h = (0, t) \<and> view t = view h)"

lemma dma_sdkD:
  assumes "dma_sdk sdk view"
  shows "\<exists>buf t. CyU3PDmaBufferAlloc sdk n h = (buf, t) \<and> length buf = n \<and> view t = view h"
    "\<exists>t. CyU3PDmaChannelGetStatus sdk glChHandlebladeRFUtoP h = (0, t) \<and> view t = view h"
    "\<exists>t. CyU3PDmaChannelAbort sdk glChHandlebladeRFUtoP h = (0, t) \<and> view t = view h"
    "\<exists>t. CyU3PDmaChannelReset sdk glChHandlebladeRFUtoP h = (0, t) \<and> view t = view h"
    "\<exists>t. CyU3PDmaChannelSetupSendBuffer sdk glChHandlebladeRFUtoP data h = (0, t) \<and> view t = (view h)\<lparr>env_sent := env_sent (view h) @ data\<rparr>"
    "\<exists>t. CyU3PDmaChannelWaitForCompletion sdk glChHandlebladeRFUtoP ms h = (0, t) \<and> view t = view h"
    "\<exists>t. CyU3PSpiSetClock sdk hz h = (0, t) \<and> view t = view h"
  using assms unfolding dma_sdk_def by simp_all

text \<open>\<open>idle v m\<close>: the flash memory holds m and takes commands.\<close>

definition idle :: "'p board_env_scheme \<Rightarrow> (nat \<Rightarrow> u8) \<Rightarrow> bool" where
  "idle v m \<longleftrightarrow> part_busy v = 0 \<and> \<not> part_secured v \<and> part_mem v = m"

lemma fast_read:
  assumes "spi_sdk sdk view" "spiFastRead s" "idle (view (fx_hw s)) m"
  shows "\<exists>h. CyFxSpiTransfer sdk pg 0x100 ptr True s = Some ((0, contents m (unat pg * 256) 256 @ drop 256 ptr), s\<lparr>fx_hw := h\<rparr>) \<and>
    view h = (view (fx_hw s))\<lparr>part_cmd := None\<rparr>"
proof -
  let ?v = "view (fx_hw s)"
  have "acts view True (CyFxSpiTransfer sdk pg 0x100 ptr True)
    (bindS (part_read True (ucast pg * 0x100)) (\<lambda>(status, page).
     if status \<noteq> 0 then returnS (status, page @ drop 0x100 ptr) else
     bindS (returnS True) (\<lambda>fast. bindS (if fast then returnS () else (\<lambda>p. ((), part_sleep 15 p))) (\<lambda>_.
     bindS (returnS (0, drop 0x100 ptr)) (\<lambda>(status, rest). returnS (status, page @ rest))))))"
    unfolding transfer_one transfer_pages.simps by (intro acts_rules acts_sdk [OF assms(1)] acts_read_page [OF assms(1)])
  from actsE [OF this, of s] obtain h where h: "CyFxSpiTransfer sdk pg 0x100 ptr True s =
      Some (fst (bindS (part_read True (ucast pg * 0x100)) (\<lambda>(status, page).
       if status \<noteq> 0 then returnS (status, page @ drop 0x100 ptr) else
       bindS (returnS True) (\<lambda>fast. bindS (if fast then returnS () else (\<lambda>p. ((), part_sleep 15 p))) (\<lambda>_.
       bindS (returnS (0, drop 0x100 ptr)) (\<lambda>(status, rest). returnS (status, page @ rest))))) ?v), s\<lparr>fx_hw := h\<rparr>)"
    "view h = snd (bindS (part_read True (ucast pg * 0x100)) (\<lambda>(status, page).
       if status \<noteq> 0 then returnS (status, page @ drop 0x100 ptr) else
       bindS (returnS True) (\<lambda>fast. bindS (if fast then returnS () else (\<lambda>p. ((), part_sleep 15 p))) (\<lambda>_.
       bindS (returnS (0, drop 0x100 ptr)) (\<lambda>(status, rest). returnS (status, page @ rest))))) ?v)"
    using assms(2) by auto
  have "part_read True (ucast pg * 0x100) ?v = ((0, contents m (unat pg * 256) 256), ?v\<lparr>part_cmd := None\<rparr>)"
    using part_read_idle [of True ?v pg] assms(3) by (simp add: idle_def part_area_def contents_def)
  then show ?thesis using h by (intro exI [of _ h]) (simp add: bindS_apply)
qed


lemma quiet_step:
  assumes "\<And>h. \<exists>t. m h = (x, t) \<and> view t = view h"
  obtains h where "hwS m s = (x, s\<lparr>fx_hw := h\<rparr>)" "view h = view (fx_hw s)"
proof -
  obtain t where t: "m (fx_hw s) = (x, t)" "view t = view (fx_hw s)" using assms by blast
  show ?thesis using t by (intro that [of t]) (simp_all add: hwS_def)
qed

lemma load_count:
  assumes "0 < n"
  shows "load_count (int n) = (if n > 256 then 512 else (n + 2) * 2)"
proof (cases "n > 256")
  case False
  have e: "(int n + 2) * 2 = int ((n + 2) * 2)" "(int n > 256) = False" using False by simp_all
  have "load_count (int n) = unat (of_nat ((n + 2) * 2) :: u16)"
    unfolding load_count_def by (simp only: e if_False of_int_of_nat_eq)
  also have "\<dots> = (n + 2) * 2" using False by (subst unat_of_nat) simp
  finally show ?thesis using False by simp
qed (simp add: load_count_def)

text \<open>One turn of the loop.\<close>

lemma load_turn:
  fixes s :: "('h, 'z) fx3_scheme" and idx :: u16 and ptr :: bytes and m :: "nat \<Rightarrow> u8"
  defines "ptr' \<equiv> flip_buffer 256 (contents m (unat idx * 256) 256 @ drop 256 ptr)"
  assumes spi: "spi_sdk sdk view" and dma: "dma_sdk sdk view" and "spiFastRead s" "idle (view (fx_hw s)) m" "nleft \<noteq> 0"
    and count: "load_count nleft \<le> length ptr'"
  shows "\<exists>h. load_loop sdk nleft idx ptr s =
      (if nleft > 256 then load_loop sdk (nleft - 256) (idx + 1) ptr' else returnF True) (s\<lparr>fx_hw := h\<rparr>) \<and>
    view h = (view (fx_hw s))\<lparr>part_cmd := None,
      env_sent := env_sent (view (fx_hw s)) @ take (load_count nleft) ptr'\<rparr>"
proof -
  note d = dma_sdkD [OF dma]
  obtain h1 where h1: "hwS (CyU3PDmaChannelGetStatus sdk glChHandlebladeRFUtoP) s = (0, s\<lparr>fx_hw := h1\<rparr>)" "view h1 = view (fx_hw s)"
    using quiet_step [OF d(2)] by blast
  obtain h2 where h2: "hwS (CyU3PDmaChannelAbort sdk glChHandlebladeRFUtoP) (s\<lparr>fx_hw := h1\<rparr>) = (0, s\<lparr>fx_hw := h2\<rparr>)" "view h2 = view h1"
    using quiet_step [OF d(3), where s = "s\<lparr>fx_hw := h1\<rparr>"] by auto
  obtain h3 where h3: "hwS (CyU3PDmaChannelGetStatus sdk glChHandlebladeRFUtoP) (s\<lparr>fx_hw := h2\<rparr>) = (0, s\<lparr>fx_hw := h3\<rparr>)" "view h3 = view h2"
    using quiet_step [OF d(2), where s = "s\<lparr>fx_hw := h2\<rparr>"] by auto
  obtain h4 where h4: "hwS (CyU3PDmaChannelReset sdk glChHandlebladeRFUtoP) (s\<lparr>fx_hw := h3\<rparr>) = (0, s\<lparr>fx_hw := h4\<rparr>)" "view h4 = view h3"
    using quiet_step [OF d(4), where s = "s\<lparr>fx_hw := h3\<rparr>"] by auto
  obtain h5 where h5: "hwS (CyU3PDmaChannelGetStatus sdk glChHandlebladeRFUtoP) (s\<lparr>fx_hw := h4\<rparr>) = (0, s\<lparr>fx_hw := h5\<rparr>)" "view h5 = view h4"
    using quiet_step [OF d(2), where s = "s\<lparr>fx_hw := h4\<rparr>"] by auto
  have "spiFastRead (s\<lparr>fx_hw := h5\<rparr>)" "idle (view (fx_hw (s\<lparr>fx_hw := h5\<rparr>))) m" using assms(4,5) h1(2) h2(2) h3(2) h4(2) h5(2) by simp_all
  from fast_read [OF spi this, of idx ptr] obtain h6 where h6: "CyFxSpiTransfer sdk idx 0x100 ptr True (s\<lparr>fx_hw := h5\<rparr>) =
      Some ((0, contents m (unat idx * 256) 256 @ drop 256 ptr), s\<lparr>fx_hw := h6\<rparr>)" "view h6 = (view h5)\<lparr>part_cmd := None\<rparr>" by auto
  let ?data = "take (load_count nleft) ptr'"
  obtain h7 where h7: "CyU3PDmaChannelSetupSendBuffer sdk glChHandlebladeRFUtoP ?data h6 = (0, h7)"
    "view h7 = (view h6)\<lparr>env_sent := env_sent (view h6) @ ?data\<rparr>" using d(5) by blast
  have h7': "hwS (CyU3PDmaChannelSetupSendBuffer sdk glChHandlebladeRFUtoP ?data) (s\<lparr>fx_hw := h6\<rparr>) = (0, s\<lparr>fx_hw := h7\<rparr>)"
    using h7(1) by (simp add: hwS_def)
  obtain h8 where h8: "hwS (CyU3PDmaChannelGetStatus sdk glChHandlebladeRFUtoP) (s\<lparr>fx_hw := h7\<rparr>) = (0, s\<lparr>fx_hw := h8\<rparr>)" "view h8 = view h7"
    using quiet_step [OF d(2), where s = "s\<lparr>fx_hw := h7\<rparr>"] by auto
  obtain h9 where h9: "hwS (CyU3PDmaChannelWaitForCompletion sdk glChHandlebladeRFUtoP 100) (s\<lparr>fx_hw := h8\<rparr>) = (0, s\<lparr>fx_hw := h9\<rparr>)" "view h9 = view h8"
    using quiet_step [where m = "CyU3PDmaChannelWaitForCompletion sdk glChHandlebladeRFUtoP 100", OF d(6), where s = "s\<lparr>fx_hw := h8\<rparr>"] by auto
  obtain h10 where h10: "hwS (CyU3PDmaChannelGetStatus sdk glChHandlebladeRFUtoP) (s\<lparr>fx_hw := h9\<rparr>) = (0, s\<lparr>fx_hw := h10\<rparr>)" "view h10 = view h9"
    using quiet_step [OF d(2), where s = "s\<lparr>fx_hw := h9\<rparr>"] by auto
  note steps = h1(1) h2(1) h3(1) h4(1) h5(1) h6(1) h8(1) h9(1) h10(1)
  have "load_loop sdk nleft idx ptr s =
      (if nleft > 256 then load_loop sdk (nleft - 256) (idx + 1) ptr' else returnF True) (s\<lparr>fx_hw := h10\<rparr>)"
    unfolding load_loop.simps [of sdk nleft] if_not_P [OF assms(6)] okF_def
    using count by (simp add: steps h7' [unfolded ptr'_def] bindF_def Let_def ptr'_def del: load_loop.simps)
  moreover have "view h10 = (view (fx_hw s))\<lparr>part_cmd := None, env_sent := env_sent (view (fx_hw s)) @ ?data\<rparr>"
    using h1(2) h2(2) h3(2) h4(2) h5(2) h6(2) h7(2) h8(2) h9(2) h10(2) by simp
  ultimately show ?thesis by blast
qed


lemma u16_next: "unat (idx :: u16) < 0xffff \<Longrightarrow> unat (idx + 1) = unat idx + 1"
  by (rule next_u16) simp

text \<open>The whole loop: the bytes of the bitstream, and four bytes more.\<close>

lemma load_sends:
  fixes s :: "('h, 'z) fx3_scheme" and idx :: u16 and ptr :: bytes
  assumes spi: "spi_sdk sdk view" and dma: "dma_sdk sdk view"
  shows "spiFastRead s \<Longrightarrow> idle (view (fx_hw s)) m \<Longrightarrow> 0 < n \<Longrightarrow> unat idx + n div 256 < 0xffff \<Longrightarrow> 516 \<le> length ptr \<Longrightarrow>
    \<exists>h tail. load_loop sdk (int n) idx ptr s = Some (True, s\<lparr>fx_hw := h\<rparr>) \<and> length tail = 4 \<and>
      view h = (view (fx_hw s))\<lparr>part_cmd := None,
        env_sent := env_sent (view (fx_hw s)) @ flipped (contents m (unat idx * 256) n) @ tail\<rparr>"
proof (induction n arbitrary: s idx ptr rule: less_induct)
  case (less n)
  let ?page = "contents m (unat idx * 256) 256"
  let ?p = "flip_buffer 256 (?page @ drop 256 ptr)"
  have p: "?p = flipped ?page @ drop 512 (?page @ drop 256 ptr)"
    using flip_buffer_in_place [of 256 "?page @ drop 256 ptr"] less.prems(5) by simp
  then have p: "?p = flipped ?page @ drop 512 ptr" by simp
  have lp: "load_count (int n) \<le> length ?p" unfolding p using less.prems(3,5) by (auto simp add: load_count)
  obtain h where h: "load_loop sdk (int n) idx ptr s =
      (if int n > 256 then load_loop sdk (int n - 256) (idx + 1) ?p else returnF True) (s\<lparr>fx_hw := h\<rparr>)"
    "view h = (view (fx_hw s))\<lparr>part_cmd := None,
      env_sent := env_sent (view (fx_hw s)) @ take (load_count (int n)) ?p\<rparr>"
    using load_turn [OF spi dma less.prems(1,2) _ lp] less.prems(3) by auto
  show ?case
  proof (cases "n > 256")
    case True
    have u: "unat (idx + 1) = unat idx + 1" using less.prems(4) by (intro u16_next) simp
    have q: "n div 256 = Suc ((n - 256) div 256)" using True by (simp add: le_div_geq)
    have "take 512 ?p = flipped ?page" unfolding p by simp
    then have v: "view h = (view (fx_hw s))\<lparr>part_cmd := None, env_sent := env_sent (view (fx_hw s)) @ flipped ?page\<rparr>"
      using h(2) True by (simp add: load_count)
    have i: "idle (view (fx_hw (s\<lparr>fx_hw := h\<rparr>))) m" using less.prems(2) v by (simp add: idle_def)
    have l: "516 \<le> length ?p" unfolding p using less.prems(5) by simp
    obtain k tail where k: "load_loop sdk (int (n - 256)) (idx + 1) ?p (s\<lparr>fx_hw := h\<rparr>) = Some (True, s\<lparr>fx_hw := k\<rparr>)" "length tail = 4"
      "view k = (view h)\<lparr>part_cmd := None, env_sent := env_sent (view h) @ flipped (contents m (unat (idx + 1) * 256) (n - 256)) @ tail\<rparr>"
      using less.IH [of "n - 256" "s\<lparr>fx_hw := h\<rparr>" "idx + 1" ?p] less.prems(1,4) True i l u q by auto
    have "contents m (unat idx * 256) n = ?page @ contents m (unat (idx + 1) * 256) (n - 256)"
      using range_steps(3) [of m "unat idx * 256" 256 "n - 256"] True unfolding u by (simp add: algebra_simps)
    then show ?thesis using h(1) k v True by (intro exI [of _ k] exI [of _ tail]) (simp add: of_nat_diff)
  next
    case False
    let ?tail = "take 4 (drop (2 * n) ?p)"
    have "take (2 * n) ?p = flipped (take n ?page)" unfolding p using False take_flipped [of n ?page] by simp
    also have "take n ?page = contents m (unat idx * 256) n" using False by (simp add: contents_def take_map)
    finally have tk: "take (2 * n) ?p = flipped (contents m (unat idx * 256) n)" .
    have "(n + 2) * 2 = 2 * n + 4" by simp
    then have "take ((n + 2) * 2) ?p = flipped (contents m (unat idx * 256) n) @ ?tail"
      using take_add [of "2 * n" 4 ?p] unfolding tk by (simp only:)
    moreover have "length ?tail = 4" unfolding p using False less.prems(5) by simp
    ultimately show ?thesis using h False by (intro exI [of _ h] exI [of _ ?tail]) (simp add: load_count less.prems(3))
  qed
qed

section \<open>The length in the metadata page\<close>

lemma extract_first:
  assumes "field_ok (name @ d)" "length d \<le> maxlen"
  shows "NuandExtractField (field_bytes (name @ d) @ rest) (Suc len) name val maxlen =
    Some (0, take (length val) (d @ [0] @ drop (length d + 1) val))"
proof -
  let ?s = "name @ d" and ?c = "of_nat (length (name @ d)) :: u8"
  note c = length_byte [OF assms(1)]
  have l: "length ?s < 255" "0 \<notin> set d" using assms(1) by (auto simp add: field_ok_def)
  define crc where "crc = fold crc16_byte (?c # ?s) 0"
  have fb: "field_bytes ?s = ?c # ?s @ put_le16 crc" by (simp only: field_bytes_def crc_def Let_def append_Cons)
  define buf where "buf = field_bytes ?s @ rest"
  have buf: "buf = ?c # ?s @ put_le16 crc @ rest" by (simp add: buf_def fb)
  have at: "byte_at buf 0 = Some ?c" by (simp add: byte_at_def buf)
  have chk: "le16_at buf (0 + unat ?c + 1) = Some crc"
    using le16_at_prefix [of "0 + unat ?c + 1" "?c # ?s" crc rest] unfolding buf c(1) by simp
  have calc: "crc16mp 0 (drop 0 buf) (unat ?c + 1) = Some crc"
    unfolding crc16mp_def c(1) buf by (simp add: crc_def)
  have pre: "has_prefix (drop (0 + 1) buf) name = Some True"
    using has_prefix_append [of name ?s "put_le16 crc @ rest"] by (simp add: buf)
  have "(ucast ?c :: u32) - of_nat (length name) = of_nat (length d)"
  proof -
    have "unat (ucast ?c :: u32) = length ?s" using c(1) by (subst unat_ucast_up) simp_all
    moreover have "unat (of_nat (length ?s) :: u32) = length ?s" using l(1) by (subst unat_of_nat) simp
    ultimately have "(ucast ?c :: u32) = of_nat (length ?s)" by (simp only: word_unat_eq_iff)
    then show ?thesis by simp
  qed
  then have w: "min (unat (ucast ?c - of_nat (length name) :: u32)) maxlen = length d"
    using l(1) assms(2) by (simp add: unat_of_nat)
  have cp: "copy_string (drop (0 + 1 + length name) buf) (length d) = Some d"
    using copy_string_take [OF l(2), of "length d" "put_le16 crc @ rest"] by (simp add: buf)
  have "extract_loop buf (Suc len) 0 name maxlen val = Some (0, take (length val) (d @ [0] @ drop (length d + 1) val))"
    by (subst extract_loop.simps) (simp only: at chk calc pre w cp c(2) Let_def option.case prod.case bool.case if_True if_False
        simp_thms zero_less_Suc option.map diff_self_eq_0 replicate_0 append_Nil)
  then show ?thesis by (simp add: NuandExtractField_def buf_def)
qed

lemma atoi_decimal: "atoi (decimal n @ 0 # zs) = int n"
proof -
  obtain c s where cs: "decimal n = c # s" using decimal_digits(2) by (cases "decimal n") auto
  have c: "0x30 \<le> c" "c \<le> 0x39" using decimal_digits(1) [of n] by (auto simp add: cs)
  have ns: "\<not> is_space c" "c \<noteq> 0x2d" "c \<noteq> 0x2b"
    using c by (auto simp add: is_space_def word_le_nat_alt)
  have "read_digits 10 (decimal n @ 0 # zs) 0 = (n, 0 # zs)"
    unfolding read_decimal by (simp add: digit_value_def)
  then show ?thesis using ns by (simp add: atoi_def cs Let_def)
qed

lemma metadata_length:
  assumes "n < 10 ^ 9"
  shows "\<exists>fpga_len. NuandExtractField (fill_fpga_metadata_page n) 0x100 [0x4c, 0x45, 0x4e] (replicate 11 0) 10 = Some (0, fpga_len) \<and>
    atoi (fpga_len[10 := 0]) = int n"
proof -
  have d: "length (decimal n) \<le> 9" using length_decimal [OF assms] by simp
  have n: "n mod 2 ^ 32 = n" "take 9 (decimal n) = decimal n" using assms d by simp_all
  have "0 \<notin> set (decimal n)" using decimal_digits(1) [of n] by (auto simp add: word_le_nat_alt)
  then have ok: "field_ok ([0x4c, 0x45, 0x4e] @ decimal n)" using d by (auto simp add: field_ok_def)
  have "NuandExtractField (fill_fpga_metadata_page n) (Suc 0xff) [0x4c, 0x45, 0x4e] (replicate 11 0) 10 =
      Some (0, take (length (replicate 11 (0 :: u8))) (decimal n @ [0] @ drop (length (decimal n) + 1) (replicate 11 0)))"
    unfolding metadata_page(1) n by (rule extract_first [OF ok]) (use d in simp)
  moreover have "take (length (replicate 11 (0 :: u8))) (decimal n @ [0] @ drop (length (decimal n) + 1) (replicate 11 0)) =
      decimal n @ 0 # replicate (10 - length (decimal n)) 0" using d by simp
  moreover have z: "(decimal n @ 0 # replicate (10 - length (decimal n)) 0)[10 := 0] = decimal n @ 0 # replicate (10 - length (decimal n)) 0"
    using d by (intro list_eq_iff_nth_eq [THEN iffD2]) (auto simp add: nth_list_update nth_append nth_Cons')
  moreover have "atoi ((decimal n @ 0 # replicate (10 - length (decimal n)) 0)[10 := 0]) = int n"
    unfolding z by (rule atoi_decimal)
  ultimately show ?thesis by (intro exI [of _ "decimal n @ 0 # replicate (10 - length (decimal n)) 0"]) simp
qed

section \<open>The start of the board\<close>

text \<open>What the steps of the start keep: the flash part idle with its contents, what was sent to the FPGA, the clock, and
  the firmware's copy of the metadata page.\<close>

definition boots ::
  "('h \<Rightarrow> 'p board_env_scheme) \<Rightarrow> 'h fx3_app \<Rightarrow> (nat \<Rightarrow> u8) \<Rightarrow> (nat \<Rightarrow> u8) \<Rightarrow> bytes \<Rightarrow> (nat \<Rightarrow> nat) \<Rightarrow> bool" where
  "boots view s m otp sent f \<longleftrightarrow> idle (view (fx_hw s)) m \<and> part_otp (view (fx_hw s)) = otp \<and> env_sent (view (fx_hw s)) = sent \<and>
     env_now (view (fx_hw s)) = f \<and> \<not> spiFastRead s \<and> length (glCal s) = 256 \<and> length (glAutoLoad s) = 256"

lemma boots_keep:
  assumes "boots view s m otp sent f"
  shows "view h = view (fx_hw s) \<Longrightarrow> boots view (s\<lparr>fx_hw := h\<rparr>) m otp sent f"
    "view h = view (fx_hw s) \<Longrightarrow> boots view (s\<lparr>fx_hw := h, glAppMode := mode\<rparr>) m otp sent f"
    "boots view (s\<lparr>glAppMode := mode\<rparr>) m otp sent f"
    "boots view (s\<lparr>CyFxUSBSerial := serial\<rparr>) m otp sent f"
    "length cal = 256 \<Longrightarrow> boots view (s\<lparr>glCal := cal, glCalCacheValid := b\<rparr>) m otp sent f"
    "length auto = 256 \<Longrightarrow> boots view (s\<lparr>glAutoLoad := auto, glAutoLoadValid := b\<rparr>) m otp sent f"
  using assms by (simp_all add: boots_def)

lemma boots_calm:
  assumes "calm view m' x" "boots view s m otp sent f"
  obtains t where "m' s = Some (x, t)" "kept view s t" "boots view t m otp sent f"
proof (rule calmE [OF assms(1)])
  fix t
  assume "m' s = Some (x, t)" "kept view s t"
  then show ?thesis using assms(2) by (intro that [of t]) (simp_all add: boots_def kept_def)
qed

lemma boots_quietly:
  assumes "quietly view m' x" "boots view s m otp sent f"
  obtains h where "m' s = Some (x, s\<lparr>fx_hw := h\<rparr>)" "boots view (s\<lparr>fx_hw := h\<rparr>) m otp sent f"
proof (rule quietlyE [OF assms(1)])
  fix h
  assume "m' s = Some (x, s\<lparr>fx_hw := h\<rparr>)" "view h = view (fx_hw s)"
  then show ?thesis by (intro that boots_keep(1) [OF assms(2)])
qed

lemma acts_ssn:
  assumes "spi_sdk sdk part"
  shows "acts part fast (liftF (ssn_command sdk bs)) (\<lambda>p. (0, (part_exec bs (p\<lparr>part_cmd := Some bs\<rparr>))\<lparr>part_cmd := None\<rparr>))"
proof (rule acts_cong)
  show "acts part fast (liftF (ssn_command sdk bs)) (bindS (\<lambda>p. (0 :: u32, part_ssn False p)) (\<lambda>_.
      bindS (\<lambda>p. (0 :: u32, part_tx bs p)) (\<lambda>_. (\<lambda>p. (0 :: u32, part_ssn True p)))))"
    unfolding ssn_command_def by (intro acts_rules acts_sdk [OF assms])
qed (simp add: bindS_def part_ssn_def part_tx_def)

lemma otp_read:
  assumes "spi_sdk sdk view" "boots view s m otp sent f" "length buf = 256"
  shows "\<exists>h. NuandReadOtp sdk 0 0x100 buf s = Some ((0, contents otp 0 256), s\<lparr>fx_hw := h\<rparr>) \<and>
    boots view (s\<lparr>fx_hw := h\<rparr>) m otp sent f"
proof -
  let ?M = "bindS (\<lambda>p. (0 :: u32, (part_exec [0xb1] (p\<lparr>part_cmd := Some [0xb1]\<rparr>))\<lparr>part_cmd := None\<rparr>)) (\<lambda>_.
     bindS (\<lambda>p. ((0 :: u32, map (\<lambda>i. part_area p (unat (0 :: u16) * 256 + i)) [0..<256]), p\<lparr>part_busy := 0, part_wel := True, part_cmd := None\<rparr>)) (\<lambda>(_, buf).
     bindS (\<lambda>p. (0 :: u32, (part_exec [0xc1] (p\<lparr>part_cmd := Some [0xc1]\<rparr>))\<lparr>part_cmd := None\<rparr>)) (\<lambda>status. returnS (status, buf))))"
  have "acts view False (NuandReadOtp sdk 0 0x100 buf) ?M"
    unfolding NuandReadOtp_def NuandEnso_def NuandExso_def
    by (intro acts_bind acts_prod acts_return acts_ssn [OF assms(1)] acts_read(1) [OF assms(1,3)])
  moreover have "\<not> spiFastRead s" using assms(2) by (simp add: boots_def)
  ultimately obtain h where h: "NuandReadOtp sdk 0 0x100 buf s = Some (fst (?M (view (fx_hw s))), s\<lparr>fx_hw := h\<rparr>)"
    "view h = snd (?M (view (fx_hw s)))" using actsE [of view False _ ?M s] by auto
  have "part_busy (view (fx_hw s)) = 0" "part_otp (view (fx_hw s)) = otp" using assms(2) by (simp_all add: boots_def idle_def)
  then have "fst (?M (view (fx_hw s))) = (0, contents otp 0 256)" "snd (?M (view (fx_hw s))) =
      (view (fx_hw s))\<lparr>part_busy := 0, part_wel := True, part_secured := False, part_cmd := None\<rparr>"
    by (simp_all add: bindS_apply part_exec_def part_area_def contents_def)
  then show ?thesis using h assms(2) by (intro exI [of _ h]) (simp add: boots_def idle_def)
qed

lemma page_loaded:
  assumes "spi_sdk sdk view" "boots view s m otp sent f" "length buf = 256"
  shows "\<exists>h. CyFxSpiTransfer sdk pg 0x100 buf True s = Some ((0, contents m (unat pg * 256) 256), s\<lparr>fx_hw := h\<rparr>) \<and>
    boots view (s\<lparr>fx_hw := h\<rparr>) m otp sent f"
proof -
  have s: "\<not> spiFastRead s" "idle (view (fx_hw s)) m" using assms(2) by (simp_all add: boots_def)
  obtain h where h: "CyFxSpiTransfer sdk pg 0x100 buf True s =
      Some ((0, map (\<lambda>i. part_area (view (fx_hw s)) (unat pg * 256 + i)) [0..<256]), s\<lparr>fx_hw := h\<rparr>)"
      "view h = (view (fx_hw s))\<lparr>part_busy := 0, part_wel := True, part_cmd := None\<rparr>"
    using actsE [OF acts_read(1) [OF assms(1,3)], of s pg] s(1) by auto
  have "map (\<lambda>i. part_area (view (fx_hw s)) (unat pg * 256 + i)) [0..<256] = contents m (unat pg * 256) 256"
    using s(2) by (simp add: contents_def part_area_def idle_def)
  then show ?thesis using h assms(2) by (intro exI [of _ h]) (simp add: boots_def idle_def)
qed

text \<open>The serial number, the calibration data and the metadata are read.\<close>

lemma serial_and_cal:
  fixes s :: "'h fx3_app"
  assumes sdk: "app_sdk sdk begin_req view" and s: "boots view s m otp sent f"
    and otp: "NuandExtractField (contents otp 0 256) 0x100 [0x53] serial_buf 32 \<noteq> None"
  shows "\<exists>t. extractSerialAndCal sdk serial_buf s = Some ((), t) \<and> boots view t m otp sent f \<and>
    glAutoLoadValid t \<and> glAutoLoad t = contents m 0x40000 256"
proof -
  note spi = app_sdkD(1) [OF sdk]
  obtain h1 where h1: "NuandFlashInit sdk s = Some (0, s\<lparr>fx_hw := h1, glAppMode := MODE_FW_CONFIG\<rparr>)" "view h1 = view (fx_hw s)"
    using flash_init(1) [OF sdk] by blast
  let ?s1 = "s\<lparr>fx_hw := h1, glAppMode := MODE_FW_CONFIG\<rparr>"
  have b1: "boots view ?s1 m otp sent f" by (rule boots_keep(2) [OF s h1(2)])
  obtain h2 where h2: "NuandReadOtp sdk 0 0x100 (replicate 256 0) ?s1 = Some ((0, contents otp 0 256), ?s1\<lparr>fx_hw := h2\<rparr>)"
    "boots view (?s1\<lparr>fx_hw := h2\<rparr>) m otp sent f" using otp_read [OF spi b1, of "replicate 256 0"] by auto
  obtain r val where r: "NuandExtractField (contents otp 0 256) 0x100 [0x53] serial_buf 32 = Some (r, val)" using otp by auto
  define s3 where "s3 = (if r = 0 then ?s1\<lparr>fx_hw := h2\<rparr>\<lparr>CyFxUSBSerial :=
    fold (\<lambda>i serial. serial[2 + i * 2 := val ! i]) [0..<32] (CyFxUSBSerial (?s1\<lparr>fx_hw := h2\<rparr>))\<rparr> else ?s1\<lparr>fx_hw := h2\<rparr>)"
  have b3: "boots view s3 m otp sent f" unfolding s3_def using h2(2) boots_keep(4) [OF h2(2)] by (cases "r = 0") (simp_all only: simp_thms if_True if_False)
  have c3: "length (glCal s3) = 256" using b3 by (simp add: boots_def)
  obtain h4 where h4: "CyFxSpiTransfer sdk CAL_PAGE 256 (glCal s3) True s3 = Some ((0, contents m (unat CAL_PAGE * 256) 256), s3\<lparr>fx_hw := h4\<rparr>)"
    "boots view (s3\<lparr>fx_hw := h4\<rparr>) m otp sent f" using page_loaded [OF spi b3 c3, of CAL_PAGE] by auto
  let ?s4 = "s3\<lparr>fx_hw := h4\<rparr>\<lparr>glCal := contents m (unat CAL_PAGE * 256) 256, glCalCacheValid := True\<rparr>"
  have b4: "boots view ?s4 m otp sent f" by (rule boots_keep(5) [OF h4(2)]) simp
  have c4: "length (glAutoLoad ?s4) = 256" using b4 by (simp only: boots_def simp_thms)
  obtain h5 where h5: "CyFxSpiTransfer sdk AUTOLOAD_PAGE 256 (glAutoLoad ?s4) True ?s4 =
      Some ((0, contents m (unat AUTOLOAD_PAGE * 256) 256), ?s4\<lparr>fx_hw := h5\<rparr>)"
    "boots view (?s4\<lparr>fx_hw := h5\<rparr>) m otp sent f" using page_loaded [OF spi b4 c4, of AUTOLOAD_PAGE] by auto
  let ?s5 = "?s4\<lparr>fx_hw := h5\<rparr>\<lparr>glAutoLoad := contents m (unat AUTOLOAD_PAGE * 256) 256, glAutoLoadValid := True\<rparr>"
  have b5: "boots view ?s5 m otp sent f" by (rule boots_keep(6) [OF h5(2)]) simp
  obtain h6 where h6: "NuandFlashDeinit sdk ?s5 = Some ((), ?s5\<lparr>fx_hw := h6\<rparr>)" "boots view (?s5\<lparr>fx_hw := h6\<rparr>) m otp sent f"
    by (rule boots_quietly [OF flash_init(2) [OF sdk] b5])
  have sd: "(case NuandExtractField (contents otp 0 256) 0x100 [0x53] serial_buf 32 of
      None \<Rightarrow> undefinedF
    | Some (r, serial_buf) \<Rightarrow>
        if r = 0 then liftF (modifyS (\<lambda>s. s\<lparr>CyFxUSBSerial := fold (\<lambda>i serial. serial[2 + i * 2 := serial_buf ! i]) [0..<32] (CyFxUSBSerial s)\<rparr>))
        else returnF ()) (?s1\<lparr>fx_hw := h2\<rparr>) = Some ((), s3)"
    unfolding r s3_def by (cases "r = 0") simp_all
  have "extractSerialAndCal sdk serial_buf s = Some ((), ?s5\<lparr>fx_hw := h6\<rparr>)"
    by (simp only: extractSerialAndCal_def NuandReadCalTable_def NuandReadAutoLoad_def bindF_def fw_simps st_simps option.case prod.case
        h1(1) h2(1) sd [unfolded bindF_def] h4(1) h5(1) h6(1) simp_thms)
  then show ?thesis using h6(2) by (intro exI [of _ "?s5\<lparr>fx_hw := h6\<rparr>"]) simp
qed

text \<open>The other functions of the start succeed.\<close>

definition start_sdk :: "('h, 'y) fx3_app_sdk_scheme \<Rightarrow> ('h \<Rightarrow> 'p board_env_scheme) \<Rightarrow> bool" where
  "start_sdk sdk view \<longleftrightarrow>
     silent view (CyU3PGpioInit sdk) CY_U3P_SUCCESS \<and> silent view (CyU3PUsbStart sdk) CY_U3P_SUCCESS \<and>
     (\<forall>d. silent view (CyU3PUsbSetDesc sdk d) CY_U3P_SUCCESS) \<and> silent view (CyU3PConnectState sdk) CY_U3P_SUCCESS"

lemma usb_started:
  assumes "start_sdk sdk view" "boots view s m otp sent f"
  shows "\<exists>h. bladeRFInit sdk s = Some ((), s\<lparr>fx_hw := h, glAppMode := MODE_NO_CONFIG\<rparr>) \<and>
    boots view (s\<lparr>fx_hw := h, glAppMode := MODE_NO_CONFIG\<rparr>) m otp sent f"
proof -
  let ?ms = "map (\<lambda>(line, m). must_at sdk LOGGER_ID_BLADERF_C line m) (usb_start_calls sdk)"
  have "quietly view (steps ?ms) ()"
    by (rule quietly_steps) (use assms(1) in \<open>auto simp add: start_sdk_def usb_start_calls_def intro: quietly_must(2)\<close>)
  then obtain h where h: "steps ?ms s = Some ((), s\<lparr>fx_hw := h\<rparr>)" "view h = view (fx_hw s)" by (rule quietlyE)
  have "bladeRFInit sdk s = Some ((), s\<lparr>fx_hw := h, glAppMode := MODE_NO_CONFIG\<rparr>)"
    using h(1) by (simp only: bladeRFInit_def bindF_def option.case prod.case fw_simps st_simps)
  then show ?thesis using boots_keep(2) [OF assms(2) h(2)] by blast
qed

lemma gpio_started:
  assumes "start_sdk sdk view" "app_sdk sdk begin_req view"
  shows "quietly view (CyFxGpioInit sdk) ()"
proof -
  have "silent view (CyU3PGpioInit sdk) CY_U3P_SUCCESS" using assms(1) by (simp add: start_sdk_def)
  then show ?thesis unfolding CyFxGpioInit_def
    by (intro quietly_bind [OF quietly_must(2) pins_reconfigured [OF app_sdkD(6) [OF assms(2)]]])
qed

text \<open>The clock in what follows: readings at most a second apart, far from the overflow of the counter.\<close>

definition running :: "(nat \<Rightarrow> nat) \<Rightarrow> bool" where
  "running f \<longleftrightarrow> mono f \<and> (\<forall>T. \<exists>n. T \<le> f n) \<and> (\<forall>n. f (Suc n) \<le> f n + 1000)"

lemma running_shift:
  assumes "running f"
  shows "running (\<lambda>n. f (n + k))"
proof -
  have m: "f i \<le> f j" if "i \<le> j" for i j using assms that by (simp add: running_def monoD)
  have "mono (\<lambda>n. f (n + k))" by (intro monoI m) simp
  moreover have "\<exists>n. T \<le> f (n + k)" for T
  proof -
    obtain n where "T \<le> f n" using assms unfolding running_def by blast
    then have "T \<le> f (n + k)" using m [of n "n + k"] by simp
    then show ?thesis ..
  qed
  moreover have "f (Suc n + k) \<le> f (n + k) + 1000" for n using assms by (simp add: running_def)
  ultimately show ?thesis unfolding running_def by blast
qed

lemma fpga_begun:
  assumes sdk: "clock_sdk sdk view True" and s: "boots view s m otp sent f" and "running f" "f 0 < 2 ^ 31"
  shows "\<exists>h k. FpgaBeginProgram sdk s = Some (0, s\<lparr>fx_hw := h\<rparr>) \<and> view h = after k (view (fx_hw s)) \<and> f k \<le> f 0 + 6000"
proof -
  have f: "f = env_now (view (fx_hw s))" using s by (simp add: boots_def)
  obtain h k where "FpgaBeginProgram sdk s = Some (if True then 0 else -1, s\<lparr>fx_hw := h\<rparr>)"
    "view h = after k (view (fx_hw s))" "f k \<le> f 0 + 6000"
    using begins_in_time [OF sdk f] assms(3,4) unfolding running_def by blast
  then show ?thesis by auto
qed

lemma boots_after:
  assumes "boots view s m otp sent f" "view h = after k (view (fx_hw s))"
  shows "boots view (s\<lparr>fx_hw := h\<rparr>) m otp sent (\<lambda>n. f (n + k))"
  using assms by (auto simp add: boots_def idle_def after_def)

lemma fpga_loaded:
  fixes s :: "'h fx3_app"
  assumes sdk: "app_sdk sdk begin_req view" "clock_sdk sdk view True" "dma_sdk sdk view"
    and s: "boots view s m otp sent f" and c: "running f" "f 0 < 2 ^ 31" and n: "0 < n" "n \<le> 0x36ff00"
  shows "\<exists>t tail. NuandLoadFromFlash sdk (int n) s = Some (True, t) \<and> length tail = 4 \<and>
    part_mem (view (fx_hw t)) = m \<and> env_sent (view (fx_hw t)) = sent @ flipped (contents m 0x40100 n) @ tail"
proof -
  note d = dma_sdkD [OF sdk(3)] and spi = app_sdkD(1) [OF sdk(1)]
  have si: "\<exists>t. CyU3PSpiInit sdk h = (0, t) \<and> view t = view h" "\<exists>t. CyU3PSpiSetConfig sdk h = (0, t) \<and> view t = view h"
    "\<exists>t. CyU3PSpiDeInit sdk h = (0, t) \<and> view t = view h" for h
    using spi unfolding spi_sdk_def by simp_all
  note a = apps_quiet [OF app_sdkD(6) [OF sdk(1)]]
  obtain s1 where s1: "NuandFpgaConfigStart sdk s = Some ((), s1)" "boots view s1 m otp sent f"
    using boots_calm [OF a(3) s] by blast
  let ?s = "\<lambda>h. s1\<lparr>fx_hw := h\<rparr>"
  obtain ptr h2 where h2: "CyU3PDmaBufferAlloc sdk 4096 (fx_hw s1) = (ptr, h2)" "length ptr = 4096" "view h2 = view (fx_hw s1)" using d(1) by blast
  obtain h3 where h3: "CyU3PSpiInit sdk h2 = (0, h3)" "view h3 = view h2" using si(1) by blast
  obtain h4 where h4: "CyU3PSpiSetConfig sdk h3 = (0, h4)" "view h4 = view h3" using si(2) by blast
  obtain h5 where h5: "CyU3PSpiSetClock sdk 30000000 h4 = (0, h5)" "view h5 = view h4" using d(7) by blast
  let ?t = "\<lambda>h. s1\<lparr>fx_hw := h, spiFastRead := True\<rparr>"
  have v5: "view h5 = view (fx_hw s1)" using h2(3) h3(2) h4(2) h5(2) by simp
  have f: "f = env_now (view (fx_hw (?t h5)))" using s1(2) v5 by (simp add: boots_def)
  obtain h6 k where h6: "FpgaBeginProgram sdk (?t h5) = Some (if True then 0 else -1, ?t h5\<lparr>fx_hw := h6\<rparr>)"
    "view h6 = after k (view (fx_hw (?t h5)))"
    using begins_in_time [OF sdk(2) f] c unfolding running_def by blast
  have t6: "?t h5\<lparr>fx_hw := h6\<rparr> = ?t h6" by (cases s1) simp
  have i: "spiFastRead (?t h6)" "idle (view (fx_hw (?t h6))) m"
    using s1(2) h6(2) v5 by (simp_all add: boots_def idle_def after_def)
  have "unat (0x401 :: u16) + n div 256 < 0xffff" "516 \<le> length ptr" using n(2) h2(2) by simp_all
  from load_sends [OF spi sdk(3) i n(1) this] obtain h7 tail where h7: "load_loop sdk (int n) 0x401 ptr (?t h6) = Some (True, ?t h6\<lparr>fx_hw := h7\<rparr>)"
    "length tail = 4" "view h7 = (view (fx_hw (?t h6)))\<lparr>part_cmd := None,
        env_sent := env_sent (view (fx_hw (?t h6))) @ flipped (contents m (unat (0x401 :: u16) * 256) n) @ tail\<rparr>" by blast
  have t7: "?t h6\<lparr>fx_hw := h7\<rparr> = ?t h7" by (cases s1) simp
  obtain h8 where h8: "CyU3PSpiDeInit sdk h7 = (0, h8)" "view h8 = view h7" using si(3) by blast
  obtain z where z: "NuandFpgaConfigStop sdk (?t h8\<lparr>spiFastRead := False\<rparr>) = Some ((), z)"
    "kept view (?t h8\<lparr>spiFastRead := False\<rparr>) z" by (rule calmE [OF a(4)])
  have st: "CyFxSpiInit sdk (?s h2) = (0, ?s h4)" using h3(1) h4(1) by (cases s1) (simp add: CyFxSpiInit_def bindS_def hwS_def)
  have al: "hwS (CyU3PDmaBufferAlloc sdk 4096) s1 = (ptr, ?s h2)" using h2(1) by (cases s1) (simp add: hwS_def)
  have ck: "hwS (CyU3PSpiSetClock sdk 30000000) (?t h4) = (0, ?t h5)" using h5(1) by (cases s1) (simp add: hwS_def)
  have de: "hwS (CyU3PSpiDeInit sdk) (?t h7) = (0, ?t h8)" using h8(1) by (cases s1) (simp add: hwS_def)
  have fr: "CyFxSpiFastRead True (?s h4) = ((), ?t h4)" "CyFxSpiFastRead False (?t h8) = ((), ?t h8\<lparr>spiFastRead := False\<rparr>)"
    by (simp_all add: CyFxSpiFastRead_def)
  have "NuandLoadFromFlash sdk (int n) s = Some (True, z)"
    by (simp only: NuandLoadFromFlash_def bindF_def option.case prod.case fw_simps s1(1) al st fr ck
        h6(1) [unfolded t6 if_True] h7(1) [unfolded t7] de z(1) simp_thms if_False)
  moreover have "part_mem (view (fx_hw z)) = m" "env_sent (view (fx_hw z)) = sent @ flipped (contents m 0x40100 n) @ tail"
    using s1(2) z(2) h8(2) h7(3) h6(2) v5 by (simp_all add: boots_def idle_def after_def kept_def)
  ultimately show ?thesis using h7(2) by blast
qed

lemma thread_entry:
  fixes s :: "'h fx3_app"
  assumes sdk: "app_sdk sdk begin_req view" "clock_sdk sdk view True" "dma_sdk sdk view" "start_sdk sdk view"
    and s: "boots view s m otp sent f" and c: "running f" "f 0 < 2 ^ 30"
    and otp: "NuandExtractField (contents otp 0 256) 0x100 [0x53] serial_buf 32 \<noteq> None"
    and n: "0 < n" "n \<le> 0x36ff00" "contents m 0x40000 256 = fill_fpga_metadata_page n"
  shows "\<exists>t tail. bladeRFAppThread_Entry sdk serial_buf s = Some ((), t) \<and> glDeviceReady t \<and> length tail = 4 \<and>
    part_mem (view (fx_hw t)) = m \<and> env_sent (view (fx_hw t)) = sent @ flipped (contents m 0x40100 n) @ tail"
proof -
  obtain h1 where h1: "CyFxGpioInit sdk s = Some ((), s\<lparr>fx_hw := h1\<rparr>)" "boots view (s\<lparr>fx_hw := h1\<rparr>) m otp sent f"
    by (rule boots_quietly [OF gpio_started [OF sdk(4,1)] s])
  obtain s2 where s2: "populateVersionString sdk (s\<lparr>fx_hw := h1\<rparr>) = Some ((), s2)" "boots view s2 m otp sent f"
    using h1(2) by (simp add: populateVersionString_def boots_def)
  obtain t2 where t2: "extractSerialAndCal sdk serial_buf s2 = Some ((), t2)" "boots view t2 m otp sent f"
    "glAutoLoadValid t2" "glAutoLoad t2 = contents m 0x40000 256"
    using serial_and_cal [OF sdk(1) s2(2) otp] by blast
  obtain h3 where h3: "bladeRFInit sdk t2 = Some ((), t2\<lparr>fx_hw := h3, glAppMode := MODE_NO_CONFIG\<rparr>)"
    "boots view (t2\<lparr>fx_hw := h3, glAppMode := MODE_NO_CONFIG\<rparr>) m otp sent f" using usb_started [OF sdk(4) t2(2)] by blast
  let ?s3 = "t2\<lparr>fx_hw := h3, glAppMode := MODE_NO_CONFIG\<rparr>"
  obtain h4 where h4: "CyU3PThreadSleep sdk 800 (fx_hw ?s3) = ((), h4)" "view h4 = part_sleep 800 (view (fx_hw ?s3))"
    using app_sdkD(1) [OF sdk(1)] unfolding spi_sdk_def by blast
  have "view h4 = view (fx_hw ?s3)" using h3(2) h4(2) by (simp add: boots_def idle_def part_sleep_def)
  from boots_keep(1) [OF h3(2) this] have b4: "boots view (?s3\<lparr>fx_hw := h4\<rparr>) m otp sent f" .
  have sl: "hwS (CyU3PThreadSleep sdk 800) ?s3 = ((), ?s3\<lparr>fx_hw := h4\<rparr>)" using h4(1) by (simp only: hwS_def prod.case)
  let ?s4 = "?s3\<lparr>fx_hw := h4\<rparr>"
  have au: "glAutoLoadValid ?s4 = True" "glAutoLoad ?s4 = fill_fpga_metadata_page n" using t2(3,4) n(3) by simp_all
  obtain fpga_len where fl: "NuandExtractField (fill_fpga_metadata_page n) 0x100 [0x4c, 0x45, 0x4e] (replicate 11 0) 10 = Some (0, fpga_len)"
    "atoi (fpga_len[10 := 0]) = int n" using metadata_length [of n] n(2) by auto
  have f0: "f 0 < 2 ^ 31" using c(2) by simp
  obtain h5 k where h5: "FpgaBeginProgram sdk ?s4 = Some (0, ?s4\<lparr>fx_hw := h5\<rparr>)" "view h5 = after k (view (fx_hw ?s4))" "f k \<le> f 0 + 6000"
    using fpga_begun [OF sdk(2) b4 c(1) f0] by blast
  note b5 = boots_after [OF b4 h5(2)]
  have "f (0 + k) < 2 ^ 31" using h5(3) c(2) by simp
  from fpga_loaded [OF sdk(1,2,3) b5 running_shift [OF c(1)] this n(1,2)] obtain t6 tail where t6:
    "NuandLoadFromFlash sdk (int n) (?s4\<lparr>fx_hw := h5\<rparr>) = Some (True, t6)" "length tail = 4"
    "part_mem (view (fx_hw t6)) = m" "env_sent (view (fx_hw t6)) = sent @ flipped (contents m 0x40100 n) @ tail" by blast
  have "bladeRFAppThread_Entry sdk serial_buf s = Some ((), t6\<lparr>glDeviceReady := True\<rparr>)"
    by (simp only: bladeRFAppThread_Entry_def bindF_def fw_simps st_simps option.case prod.case h1(1) s2(1) t2(1) h3(1) sl au fl(1)
        if_True simp_thms h5(1) fl(2) t6(1))
  then show ?thesis using t6(2-4) by (intro exI [of _ "t6\<lparr>glDeviceReady := True\<rparr>"] exI [of _ tail]) simp
qed

section \<open>Properties\<close>

text \<open>C40: The waiting loops of FpgaBeginProgram end with the clock, unlike those of the flash functions.  With readings of the
  millisecond counter that grow, at most a second apart and far from the overflow of the counter, it returns 0 when the FPGA raises
  nSTATUS, and when it never does it gives up with -1, having waited more than 1010 ms.  But when
  the counter is within a second of overflowing, which happens every 49.7 days, the end of the second wait lies in
  the past and a working FPGA is reported as failed.\<close>

theorem fpga_begin_program_ends:
  fixes s :: "('h, 'z) fx3_scheme"
  assumes "clock_sdk sdk view level" "mono f" "\<forall>T. \<exists>n. T \<le> f n" "\<forall>n. f (Suc n) \<le> f n + step"
    "f = env_now (view (fx_hw s))"
  shows "(step \<le> 1000 \<and> f 0 < 2 ^ 31 \<longrightarrow>
      (\<exists>h k. FpgaBeginProgram sdk s = Some (if level then 0 else -1, s\<lparr>fx_hw := h\<rparr>) \<and>
        (\<forall>i. env_now (view h) i = f (i + k)) \<and> f k \<le> f 0 + 6000 \<and> (\<not> level \<longrightarrow> f 0 + 1010 < f (k - 1)))) \<and>
    (step \<le> 1 \<and> 2 ^ 32 - 1000 \<le> f 0 \<and> f 0 + 20 < 2 ^ 32 \<longrightarrow>
      (\<exists>h. FpgaBeginProgram sdk s = Some (-1, s\<lparr>fx_hw := h\<rparr>)))"
proof (intro conjI impI)
  assume a: "step \<le> 1000 \<and> f 0 < 2 ^ 31"
  have "\<forall>n. f (Suc n) \<le> f n + 1000" using assms(4) a by (meson add_le_mono le_refl order_trans)
  then obtain h k where h: "FpgaBeginProgram sdk s = Some (if level then 0 else -1, s\<lparr>fx_hw := h\<rparr>)"
    "view h = after k (view (fx_hw s))" "f k \<le> f 0 + 6000" "\<not> level \<longrightarrow> f 0 + 1010 < f (k - 1)"
    using begins_in_time [OF assms(1,5,2,3)] a by blast
  have "\<forall>i. env_now (view h) i = f (i + k)" using h(2) assms(5) by (simp add: after_def)
  then show "\<exists>h k. FpgaBeginProgram sdk s = Some (if level then 0 else -1, s\<lparr>fx_hw := h\<rparr>) \<and>
      (\<forall>i. env_now (view h) i = f (i + k)) \<and> f k \<le> f 0 + 6000 \<and> (\<not> level \<longrightarrow> f 0 + 1010 < f (k - 1))"
    using h(1,3,4) by blast
next
  assume a: "step \<le> 1 \<and> 2 ^ 32 - 1000 \<le> f 0 \<and> f 0 + 20 < 2 ^ 32"
  have "\<forall>n. f (Suc n) \<le> f n + 1" using assms(4) a by (meson add_le_mono le_refl order_trans)
  then show "\<exists>h. FpgaBeginProgram sdk s = Some (-1, s\<lparr>fx_hw := h\<rparr>)"
    using begin_overflows [OF assms(1,5,2,3)] a by blast
qed

lemma board_starts: "clock_sdk board_sdk (\<lambda>h. h) True" "dma_sdk board_sdk (\<lambda>h. h)" "start_sdk board_sdk (\<lambda>h. h)"
  by (simp_all add: clock_sdk_def dma_sdk_def start_sdk_def silent_def board_sdk_def)

text \<open>A board whose counter shows t milliseconds and goes on in steps.\<close>

definition board_at :: "nat \<Rightarrow> nat \<Rightarrow> board_env fx3_app" where
  "board_at t step = new_board\<lparr>fx_hw := (fx_hw new_board)\<lparr>env_now := (\<lambda>n. t + step * n)\<rparr>\<rparr>"

lemma regular_clock:
  fixes t step :: nat
  assumes "0 < step"
  shows "mono (\<lambda>n. t + step * n)" "\<forall>T. \<exists>n. T \<le> t + step * n" "\<forall>n. t + step * Suc n \<le> t + step * n + step"
proof -
  show "mono (\<lambda>n. t + step * n)" by (rule monoI) simp
  show "\<forall>T. \<exists>n. T \<le> t + step * n"
  proof
    show "\<exists>n. T \<le> t + step * n" for T using assms by (intro exI [of _ T]) (simp add: trans_le_add2)
  qed
qed simp

theorem fpga_begin_program_ends_witness:
  "(\<exists>h. FpgaBeginProgram board_sdk (board_at 100 3) = Some (0, (board_at 100 3)\<lparr>fx_hw := h\<rparr>)) \<and>
   (\<exists>h. FpgaBeginProgram board_sdk (board_at (2 ^ 32 - 500) 1) = Some (-1, (board_at (2 ^ 32 - 500) 1)\<lparr>fx_hw := h\<rparr>))"
proof
  have e: "(\<lambda>n. t + step * n) = env_now (fx_hw (board_at t step))" for t step by (simp add: board_at_def)
  show "\<exists>h. FpgaBeginProgram board_sdk (board_at 100 3) = Some (0, (board_at 100 3)\<lparr>fx_hw := h\<rparr>)"
    using fpga_begin_program_ends [OF board_starts(1) regular_clock [of 3 100] e] by auto
  show "\<exists>h. FpgaBeginProgram board_sdk (board_at (2 ^ 32 - 500) 1) = Some (-1, (board_at (2 ^ 32 - 500) 1)\<lparr>fx_hw := h\<rparr>)"
    using fpga_begin_program_ends [OF board_starts(1) regular_clock [of 1 "2 ^ 32 - 500"] e] by auto
qed


lemma boots_new_board: "boots (\<lambda>h. h) (new_board\<lparr>fx_hw := (fx_hw new_board)\<lparr>part_mem := m\<rparr>\<rparr>) m (\<lambda>_. 0xff) [] (\<lambda>n. 3 * n)"
  by (simp add: boots_def idle_def new_board_def)


end
