(* ===== verification/Fx3_Interfaces.thy ===== *)
theory Fx3_Interfaces
  imports Fx3_Requests
begin

text \<open>
  The alternate settings of the FX3 firmware as a state machine: events of the bus start and stop the applications, which
  create and destroy DMA channels, enable and disable endpoints and claim the UART and the parallel
  interface.  \<open>usb_res\<close> is what the SDK keeps of these resources; the functions of the SDK refuse what
  its documentation says they refuse.  The lemmas follow the resources through the applications; a function that the
  SDK refuses where the firmware does not expect it would end in the error handler, which hangs.
\<close>

section \<open>Resources\<close>

record usb_res =
  res_eps :: "u8 \<Rightarrow> bool"
  res_chans :: "dma_channel \<Rightarrow> bool"
  res_uart :: bool
  res_pib :: bool
  res_gpif :: bool

definition claims :: "('h \<Rightarrow> usb_res) \<Rightarrow> ('h, u32) st \<Rightarrow> (usb_res \<Rightarrow> bool) \<Rightarrow> (usb_res \<Rightarrow> usb_res) \<Rightarrow> bool" where
  "claims view m allowed change \<longleftrightarrow>
     (\<forall>h. \<exists>status t. m h = (status, t) \<and> (allowed (view h) \<longrightarrow> status = CY_U3P_SUCCESS) \<and>
        view t = (if status = CY_U3P_SUCCESS then change (view h) else view h))"

text \<open>Releasing what is not claimed fails and changes nothing, so the effect does not depend on the status.\<close>

definition releases :: "('h \<Rightarrow> usb_res) \<Rightarrow> ('h, 'a) st \<Rightarrow> (usb_res \<Rightarrow> usb_res) \<Rightarrow> bool" where
  "releases view m change \<longleftrightarrow> (\<forall>h. view (snd (m h)) = change (view h))"

definition res_sdk :: "('h, 'y) fx3_app_sdk_scheme \<Rightarrow> ('h \<Rightarrow> usb_res) \<Rightarrow> bool" where
  "res_sdk sdk view \<longleftrightarrow>
     (\<forall>h. fst (CyU3PUsbGetSpeed sdk h) \<noteq> CY_U3P_NOT_CONNECTED) \<and> releases view (CyU3PUsbGetSpeed sdk) id \<and>
     (\<forall>conf. claims view (CyU3PDeviceConfigureIOMatrix sdk conf) (\<lambda>_. True) id) \<and>
     (\<forall>pin. claims view (CyU3PDeviceGpioOverride sdk pin) (\<lambda>_. True) id) \<and>
     (\<forall>pin conf. claims view (CyU3PGpioSetSimpleConfig sdk pin conf) (\<lambda>_. True) id) \<and>
     (\<forall>pin v. releases view (CyU3PGpioSetValue sdk pin v) id) \<and>
     releases view (CyU3PSpiInit sdk) id \<and> releases view (CyU3PSpiSetConfig sdk) id \<and> releases view (CyU3PSpiDeInit sdk) id \<and>
     (\<forall>ep conf. claims view (CyU3PSetEpConfig sdk ep conf) (\<lambda>_. True) (res_eps_update (\<lambda>eps. eps(ep := ep_enable conf)))) \<and>
     (\<forall>ep. releases view (CyU3PUsbFlushEp sdk ep) id) \<and>
     (\<forall>ch ty conf. claims view (CyU3PDmaChannelCreate sdk ch ty conf) (\<lambda>v. \<not> res_chans v ch)
        (res_chans_update (\<lambda>chans. chans(ch := True)))) \<and>
     (\<forall>ch n. claims view (CyU3PDmaChannelSetXfer sdk ch n) (\<lambda>v. res_chans v ch) id) \<and>
     (\<forall>ch. releases view (CyU3PDmaChannelReset sdk ch) id) \<and>
     (\<forall>ch. releases view (CyU3PDmaChannelDestroy sdk ch) (res_chans_update (\<lambda>chans. chans(ch := False)))) \<and>
     claims view (CyU3PUartInit sdk) (\<lambda>v. \<not> res_uart v) (res_uart_update (\<lambda>_. True)) \<and>
     claims view (CyU3PUartSetConfig sdk) res_uart id \<and>
     (\<forall>n. claims view (CyU3PUartTxSetBlockXfer sdk n) res_uart id) \<and>
     (\<forall>n. claims view (CyU3PUartRxSetBlockXfer sdk n) res_uart id) \<and>
     releases view (CyU3PUartDeInit sdk) (res_uart_update (\<lambda>_. False)) \<and>
     (\<forall>b. releases view (CyU3PGpifDisable sdk b) (res_gpif_update (\<lambda>_. False))) \<and>
     claims view (CyU3PPibDeInit sdk) res_pib (res_pib_update (\<lambda>_. False)) \<and>
     claims view (CyU3PPibInit sdk) (\<lambda>v. \<not> res_pib v) (res_pib_update (\<lambda>_. True)) \<and>
     (\<forall>w. claims view (CyU3PGpifLoad sdk w) (\<lambda>v. res_pib v \<and> \<not> res_gpif v) (res_gpif_update (\<lambda>_. True))) \<and>
     (\<forall>i a. claims view (CyU3PGpifSMStart sdk i a) res_gpif id)"

text \<open>What an application holds while it runs; the argument says whether the firmware's loopback was on at its start.\<close>

definition resources :: "app_mode \<Rightarrow> bool \<Rightarrow> usb_res" where
  "resources mode lp =
     (case mode of
        MODE_RF_CONFIG \<Rightarrow> \<lparr> res_eps = (\<lambda>ep. ep \<in> {0x01, 0x81, 0x02, 0x82}),
          res_chans = (\<lambda>ch. ch = glChHandleUtoP \<or> ch = glChHandlePtoU \<and> \<not> lp \<or> ch = glChHandlebladeRFUtoUART \<or> ch = glChHandlebladeRFUARTtoU),
          res_uart = True, res_pib = True, res_gpif = True \<rparr>
      | MODE_FPGA_CONFIG \<Rightarrow> \<lparr> res_eps = (\<lambda>ep. ep = 0x02), res_chans = (\<lambda>ch. ch = glChHandlebladeRFUtoP),
          res_uart = False, res_pib = True, res_gpif = True \<rparr>
      | _ \<Rightarrow> \<lparr> res_eps = (\<lambda>_. False), res_chans = (\<lambda>_. False), res_uart = False, res_pib = False, res_gpif = False \<rparr>)"

section \<open>Following the resources\<close>

record app_abs =
  a_res :: usb_res
  a_mode :: app_mode
  a_alt :: nat
  a_loop :: u16
  a_created :: u16
  a_gpif :: bool
  a_pib :: bool

definition abs_of :: "('h \<Rightarrow> usb_res) \<Rightarrow> ('h, 'z) fx3_app_scheme \<Rightarrow> app_abs" where
  "abs_of view s = \<lparr> a_res = view (fx_hw s), a_mode = glAppMode s, a_alt = glUsbAltInterface s, a_loop = loopback s,
     a_created = loopback_when_created s, a_gpif = gpif_active s, a_pib = pib_active s \<rparr>"

definition moves :: "('h \<Rightarrow> usb_res) \<Rightarrow> app_abs \<Rightarrow> (('h, 'z) fx3_app_scheme, 'a) fw \<Rightarrow> 'a \<Rightarrow> app_abs \<Rightarrow> bool" where
  "moves view a m x b \<longleftrightarrow> (\<forall>s. abs_of view s = a \<longrightarrow> (\<exists>t. m s = Some (x, t) \<and> abs_of view t = b))"

lemma absD:
  assumes "abs_of view s = a"
  shows "a_res a = view (fx_hw s)" "glAppMode s = a_mode a" "glUsbAltInterface s = a_alt a" "loopback s = a_loop a"
    "loopback_when_created s = a_created a" "gpif_active s = a_gpif a" "pib_active s = a_pib a"
  using assms by (auto simp add: abs_of_def)

lemma movesE:
  assumes "moves view (abs_of view s) m x b"
  obtains t where "m s = Some (x, t)" "abs_of view t = b"
  using assms unfolding moves_def by blast

lemma moves_return: "moves view a (returnF x) x a"
  by (simp add: moves_def)

lemma moves_bind:
  fixes m :: "(('h, 'z) fx3_app_scheme, 'a) fw"
  assumes "moves view a m x b" "moves view b (f x) y c"
  shows "moves view a (bindF m f) y c"
  using assms unfolding moves_def bindF_def by fastforce

lemma moves_steps:
  "moves view a (steps []) () a"
  "moves view a m () b \<Longrightarrow> moves view b (steps ms) () c \<Longrightarrow> moves view a (steps (m # ms)) () c"
  by (simp add: moves_return) (simp only: steps.simps, rule moves_bind)

lemma moves_get:
  assumes "\<And>s. abs_of view s = a \<Longrightarrow> f s = x" "moves view a (k x) y b"
  shows "moves view a (bindF (liftF (getS f)) k) y b"
  using assms by (simp add: moves_def)

lemma moves_any: "(\<And>x. moves view a (k x) y b) \<Longrightarrow> moves view a (bindF (liftF (getS f)) k) y b"
  by (simp add: moves_def)

lemma moves_claim:
  fixes k :: "u32 \<Rightarrow> (('h, 'z) fx3_app_scheme, 'a) fw"
  assumes "claims view m allowed change" "allowed (a_res a)" "moves view (a_res_update change a) (k CY_U3P_SUCCESS) y b"
  shows "moves view a (bindF (liftF (hwS m)) k) y b"
  unfolding moves_def
proof (intro allI impI)
  fix s :: "('h, 'z) fx3_app_scheme"
  assume s: "abs_of view s = a"
  then have "allowed (view (fx_hw s))" using assms(2) by (auto simp add: abs_of_def)
  then obtain h where h: "m (fx_hw s) = (CY_U3P_SUCCESS, h)" "view h = change (view (fx_hw s))"
    using assms(1) unfolding claims_def by (metis (mono_tags))
  have "abs_of view (s\<lparr>fx_hw := h\<rparr>) = a_res_update change a" using s h(2) by (auto simp add: abs_of_def)
  then show "\<exists>t. bindF (liftF (hwS m)) k s = Some (y, t) \<and> abs_of view t = b"
    using assms(3) h(1) unfolding moves_def by (simp add: hwS_def)
qed

lemma moves_release:
  fixes k :: "'b \<Rightarrow> (('h, 'z) fx3_app_scheme, 'a) fw"
  assumes "releases view m change" "\<And>x. moves view (a_res_update change a) (k x) y b"
  shows "moves view a (bindF (liftF (hwS m)) k) y b"
  unfolding moves_def
proof (intro allI impI)
  fix s :: "('h, 'z) fx3_app_scheme"
  assume s: "abs_of view s = a"
  obtain x h where h: "m (fx_hw s) = (x, h)" by fastforce
  then have "view h = change (view (fx_hw s))" using assms(1) unfolding releases_def by (metis snd_conv)
  then have "abs_of view (s\<lparr>fx_hw := h\<rparr>) = a_res_update change a" using s by (auto simp add: abs_of_def)
  then show "\<exists>t. bindF (liftF (hwS m)) k s = Some (y, t) \<and> abs_of view t = b"
    using assms(2) h unfolding moves_def by (simp add: hwS_def)
qed

lemma moves_must:
  assumes "claims view m allowed change" "allowed (a_res a)"
  shows "moves view a (must sdk m) () (a_res_update change a)"
    "moves view a (must_at sdk file_id line m) () (a_res_update change a)"
  unfolding must_def must_at_def by (rule moves_claim [OF assms], simp add: moves_return)+

lemma moves_call: "releases view m change \<Longrightarrow> moves view a (call m) () (a_res_update change a)"
  unfolding call_def by (rule moves_release, assumption) (rule moves_return)

lemma moves_cong: "moves view a m x b \<Longrightarrow> b = c \<Longrightarrow> moves view a m x c"
  by simp

lemma moves_set:
  assumes "\<And>s. abs_of view s = a \<Longrightarrow> abs_of view (f s) = b"
  shows "moves view a (liftF (modifyS f)) () b"
  using assms by (simp add: moves_def)

lemma moves_update:
  assumes "\<And>s. abs_of view (f s) = g (abs_of view s)" "b = g a"
  shows "moves view a (liftF (modifyS f)) () b"
  using assms by (simp add: moves_def)

lemma moves_if:
  "(b \<Longrightarrow> moves view a m x c) \<Longrightarrow> (\<not> b \<Longrightarrow> moves view a k x d) \<Longrightarrow> moves view a (if b then m else k) x (if b then c else d)"
  by simp

lemma res_sdkD:
  assumes "res_sdk sdk view"
  shows "fst (CyU3PUsbGetSpeed sdk h) \<noteq> CY_U3P_NOT_CONNECTED" "releases view (CyU3PUsbGetSpeed sdk) id"
    "claims view (CyU3PDeviceConfigureIOMatrix sdk io) (\<lambda>_. True) id"
    "claims view (CyU3PDeviceGpioOverride sdk pin) (\<lambda>_. True) id"
    "claims view (CyU3PGpioSetSimpleConfig sdk pin conf) (\<lambda>_. True) id"
    "releases view (CyU3PSpiInit sdk) id" "releases view (CyU3PSpiSetConfig sdk) id" "releases view (CyU3PSpiDeInit sdk) id"
    "claims view (CyU3PPibDeInit sdk) res_pib (res_pib_update (\<lambda>_. False))"
    "claims view (CyU3PPibInit sdk) (\<lambda>v. \<not> res_pib v) (res_pib_update (\<lambda>_. True))"
    "claims view (CyU3PGpifLoad sdk w) (\<lambda>v. res_pib v \<and> \<not> res_gpif v) (res_gpif_update (\<lambda>_. True))"
    "claims view (CyU3PGpifSMStart sdk i j) res_gpif id"
    "releases view (CyU3PGpifDisable sdk b) (res_gpif_update (\<lambda>_. False))"
    "releases view (CyU3PGpioSetValue sdk pin v) id" "releases view (CyU3PUsbFlushEp sdk ep) id"
    "releases view (CyU3PDmaChannelReset sdk ch) id"
    "releases view (CyU3PDmaChannelDestroy sdk ch) (res_chans_update (\<lambda>chans. chans(ch := False)))"
    "releases view (CyU3PUartDeInit sdk) (res_uart_update (\<lambda>_. False))"
    "claims view (CyU3PSetEpConfig sdk ep epc) (\<lambda>_. True) (res_eps_update (\<lambda>eps. eps(ep := ep_enable epc)))"
    "claims view (CyU3PDmaChannelCreate sdk ch ty dma) (\<lambda>v. \<not> res_chans v ch) (res_chans_update (\<lambda>chans. chans(ch := True)))"
    "claims view (CyU3PDmaChannelSetXfer sdk ch n) (\<lambda>v. res_chans v ch) id"
    "claims view (CyU3PUartInit sdk) (\<lambda>v. \<not> res_uart v) (res_uart_update (\<lambda>_. True))"
    "claims view (CyU3PUartSetConfig sdk) res_uart id"
    "claims view (CyU3PUartTxSetBlockXfer sdk n) res_uart id" "claims view (CyU3PUartRxSetBlockXfer sdk n) res_uart id"
  using assms unfolding res_sdk_def by simp_all

text \<open>The steps of the applications.\<close>

lemma res_moves:
  fixes a :: app_abs
  assumes "res_sdk sdk view"
  shows "moves view a (call (CyU3PGpioSetValue sdk pin v)) () (a_res_update id a)"
    "moves view a (call (CyU3PUsbFlushEp sdk ep)) () (a_res_update id a)"
    "moves view a (call (CyU3PDmaChannelReset sdk ch)) () (a_res_update id a)"
    "moves view a (call (CyU3PDmaChannelDestroy sdk ch)) () (a_res_update (res_chans_update (\<lambda>chans. chans(ch := False))) a)"
    "moves view a (call (CyU3PUartDeInit sdk)) () (a_res_update (res_uart_update (\<lambda>_. False)) a)"
    "moves view a (must_at sdk file_id line (CyU3PSetEpConfig sdk ep epc)) () (a_res_update (res_eps_update (\<lambda>eps. eps(ep := ep_enable epc))) a)"
    "\<not> res_chans (a_res a) ch \<Longrightarrow> moves view a (must_at sdk file_id line (CyU3PDmaChannelCreate sdk ch ty dma)) ()
       (a_res_update (res_chans_update (\<lambda>chans. chans(ch := True))) a)"
    "res_chans (a_res a) ch \<Longrightarrow> moves view a (must_at sdk file_id line (CyU3PDmaChannelSetXfer sdk ch n)) () (a_res_update id a)"
    "\<not> res_uart (a_res a) \<Longrightarrow> moves view a (must sdk (CyU3PUartInit sdk)) () (a_res_update (res_uart_update (\<lambda>_. True)) a)"
    "res_uart (a_res a) \<Longrightarrow> moves view a (must sdk (CyU3PUartSetConfig sdk)) () (a_res_update id a)"
    "res_uart (a_res a) \<Longrightarrow> moves view a (must sdk (CyU3PUartTxSetBlockXfer sdk n)) () (a_res_update id a)"
    "res_uart (a_res a) \<Longrightarrow> moves view a (must sdk (CyU3PUartRxSetBlockXfer sdk n)) () (a_res_update id a)"
  by ((rule moves_call, rule res_sdkD [OF assms]) | (rule moves_must, rule res_sdkD [OF assms], simp))+

lemma a_res_id [simp]: "a_res_update id a = a"
  by (cases a) simp

section \<open>The applications\<close>

definition held :: "app_abs \<Rightarrow> app_mode \<Rightarrow> bool" where
  "held a mode \<longleftrightarrow> a_res a = resources mode (a_created a \<noteq> 0) \<and>
     a_gpif a = (mode = MODE_RF_CONFIG \<or> mode = MODE_FPGA_CONFIG) \<and> a_pib a = a_gpif a"

lemma pins_move:
  assumes "res_sdk sdk view"
  shows "moves view a (configure_pins sdk warm ps) () a" "moves view a (NuandGPIOReconfigure sdk full warm) () a"
proof -
  note m = moves_must(2) [where change = id and allowed = "\<lambda>_. True" and a = a, simplified, OF res_sdkD(4) [OF assms]]
    moves_must(2) [where change = id and allowed = "\<lambda>_. True" and a = a, simplified, OF res_sdkD(5) [OF assms]]
  show p: "moves view a (configure_pins sdk warm ps) () a" for ps
  proof (induction ps)
    case (Cons p ps)
    obtain pin input is_warm where p: "p = (pin, input, is_warm)" by (cases p)
    show ?case unfolding p configure_pins.simps
      using Cons.IH by (cases warm; cases is_warm) (auto intro!: moves_bind [OF m(1)] moves_bind [OF m(2)])
  next
    case Nil
    show ?case unfolding configure_pins.simps by (rule moves_return)
  qed
  show "moves view a (NuandGPIOReconfigure sdk full warm) () a"
    unfolding NuandGPIOReconfigure_def
    by (rule moves_claim [OF res_sdkD(3) [OF assms]]) (simp_all add: p)
qed

text \<open>The parallel interface, restarted or left off.\<close>

lemma moves_lift:
  assumes "moves view a (liftF m :: (('h, 'z) fx3_app_scheme, 'a) fw) x b" "moves view b (liftF (f x)) y c"
  shows "moves view a (liftF (bindS m f)) y c"
  unfolding moves_def
proof (intro allI impI)
  fix s :: "('h, 'z) fx3_app_scheme"
  assume s: "abs_of view s = a"
  obtain t where "m s = (x, t)" "abs_of view t = b"
    using assms(1) s unfolding moves_def liftF_def by (auto split: prod.splits)
  then show "\<exists>t. liftF (bindS m f) s = Some (y, t) \<and> abs_of view t = c"
    using assms(2) unfolding moves_def by (simp add: bindS_def)
qed

lemma moves_lift_return: "moves view a (liftF (returnS x)) x a"
  by (simp add: moves_def)

lemma moves_lift_get: "(\<And>s. abs_of view s = a \<Longrightarrow> f s = x) \<Longrightarrow> moves view a (liftF (getS f)) x a"
  by (simp add: moves_def)

lemma bindF_returnF: "bindF m returnF = m"
  by (rule ext) (simp add: bindF_def returnF_def split: option.splits)

lemma moves_lift_claim:
  assumes "claims view m allowed change" "allowed (a_res a)"
  shows "moves view a (liftF (hwS m)) CY_U3P_SUCCESS (a_res_update change a)"
  by (rule moves_claim [where k = returnF, unfolded bindF_returnF, OF assms moves_return])

definition gpif_set :: "bool \<Rightarrow> app_abs \<Rightarrow> app_abs" where
  "gpif_set b a = a\<lparr>a_res := (a_res a)\<lparr>res_gpif := b, res_pib := b\<rparr>, a_gpif := b, a_pib := b\<rparr>"

lemma gpif_set_fields [simp]:
  "res_eps (a_res (gpif_set b a)) = res_eps (a_res a)" "res_chans (a_res (gpif_set b a)) = res_chans (a_res a)"
  "res_uart (a_res (gpif_set b a)) = res_uart (a_res a)" "res_gpif (a_res (gpif_set b a)) = b" "res_pib (a_res (gpif_set b a)) = b"
  "a_gpif (gpif_set b a) = b" "a_pib (gpif_set b a) = b" "a_mode (gpif_set b a) = a_mode a" "a_alt (gpif_set b a) = a_alt a"
  "a_loop (gpif_set b a) = a_loop a" "a_created (gpif_set b a) = a_created a"
  by (simp_all add: gpif_set_def)

lemma gpif_restart_move:
  fixes a :: app_abs
  assumes "res_sdk sdk view"
  shows "moves view (gpif_set False a) (liftF (gpif_restart sdk w)) CY_U3P_SUCCESS (gpif_set True a)"
proof -
  define a1 where "a1 = a_res_update (res_pib_update (\<lambda>_. True)) (gpif_set False a)"
  define a2 where "a2 = a1\<lparr>a_pib := True\<rparr>"
  define a3 where "a3 = a_res_update (res_gpif_update (\<lambda>_. True)) a2"
  have e: "a3\<lparr>a_gpif := True\<rparr> = gpif_set True a" by (simp add: a3_def a2_def a1_def gpif_set_def)
  have 1: "moves view (gpif_set False a) (liftF (hwS (CyU3PPibInit sdk))) CY_U3P_SUCCESS a1"
    unfolding a1_def by (rule moves_lift_claim [OF res_sdkD(10) [OF assms]]) simp
  have 2: "moves view a1 (liftF (modifyS (\<lambda>s. s\<lparr>pib_active := True\<rparr>))) () a2"
    by (rule moves_update [where g = "a_pib_update (\<lambda>_. True)"]) (simp_all add: a2_def abs_of_def)
  have 3: "moves view a2 (liftF (hwS (CyU3PGpifLoad sdk w))) CY_U3P_SUCCESS a3"
    unfolding a3_def by (rule moves_lift_claim [OF res_sdkD(11) [OF assms]]) (simp add: a2_def a1_def)
  have 4: "moves view a3 (liftF (modifyS (\<lambda>s. s\<lparr>gpif_active := True\<rparr>))) () (gpif_set True a)"
    unfolding e [symmetric] by (rule moves_update [where g = "a_gpif_update (\<lambda>_. True)"]) (simp_all add: abs_of_def)
  have 5: "moves view (gpif_set True a) (liftF (hwS (CyU3PGpifSMStart sdk i j))) CY_U3P_SUCCESS (gpif_set True a)" for i j
    using moves_lift_claim [OF res_sdkD(12) [OF assms], of "gpif_set True a" i j] by simp
  show ?thesis unfolding gpif_restart_def
    apply (rule moves_lift [OF 1], simp only: simp_thms if_False)
    apply (rule moves_lift [OF 2])
    apply (rule moves_lift [OF 3], simp only: simp_thms if_False)
    by (rule moves_lift [OF 4 5])
qed

lemma gpif_move:
  fixes a :: app_abs
  assumes "res_sdk sdk view" and held: "a_gpif a = res_gpif (a_res a)" "a_pib a = res_pib (a_res a)"
  shows "moves view a (configure_gpif_at sdk file_id line config) () (gpif_set (config \<noteq> GPIF_CONFIG_DISABLED) a)"
proof -
  define a1 where "a1 = a\<lparr>a_res := (a_res a)\<lparr>res_gpif := False\<rparr>, a_gpif := False\<rparr>"
  define a2 where "a2 = a_res_update (res_pib_update (\<lambda>_. False)) a1"
  have fields: "a_pib a1 = a_pib a" "res_pib (a_res a1) = a_pib a" by (simp_all add: a1_def held)
  have e: "a2\<lparr>a_pib := False\<rparr> = gpif_set False a" by (simp add: a2_def a1_def gpif_set_def)
  have off: "moves view a (liftF (hwS (CyU3PGpifDisable sdk True))) () (a_res_update (res_gpif_update (\<lambda>_. False)) a)"
    by (rule moves_release [where k = returnF, unfolded bindF_returnF, OF res_sdkD(13) [OF assms(1)]]) (simp add: moves_return)
  have e1: "a1 = (a_res_update (res_gpif_update (\<lambda>_. False)) a)\<lparr>a_gpif := False\<rparr>" by (simp add: a1_def)
  have set1: "moves view (a_res_update (res_gpif_update (\<lambda>_. False)) a) (liftF (modifyS (\<lambda>s. s\<lparr>gpif_active := False\<rparr>))) () a1"
    by (rule moves_update [where g = "a_gpif_update (\<lambda>_. False)"]) (simp_all add: abs_of_def e1)
  have idle1: "a1 = a" if "\<not> a_gpif a" using that held by (cases a, cases "a_res a") (simp add: a1_def)
  have idle2: "a2 = a1" if "\<not> a_pib a" using that fields by (cases a1, cases "a_res a1") (simp add: a2_def)
  have 1: "moves view a (liftF (if a_gpif a then seqS (hwS (CyU3PGpifDisable sdk True)) (modifyS (\<lambda>s. s\<lparr>gpif_active := False\<rparr>))
      else returnS ())) () a1"
    using moves_lift [OF off set1] idle1
    by (cases "a_gpif a") (simp_all only: simp_thms if_True if_False moves_lift_return)
  have 2: "moves view a1 (liftF (if a_pib a then hwS (CyU3PPibDeInit sdk) else returnS CY_U3P_SUCCESS)) CY_U3P_SUCCESS a2"
  proof (cases "a_pib a")
    case True
    then show ?thesis
      unfolding a2_def if_P [OF True] by (intro moves_lift_claim [OF res_sdkD(9) [OF assms(1)]]) (simp add: fields)
  next
    case False
    show ?thesis unfolding if_not_P [OF False] idle2 [OF False] by (rule moves_lift_return)
  qed
  have 3: "moves view a2 (liftF (modifyS (\<lambda>s. s\<lparr>pib_active := False\<rparr>))) () (gpif_set False a)"
    unfolding e [symmetric] by (rule moves_update [where g = "a_pib_update (\<lambda>_. False)"]) (simp_all add: abs_of_def)
  have "moves view a (liftF (NuandConfigureGpif sdk config)) CY_U3P_SUCCESS (gpif_set (config \<noteq> GPIF_CONFIG_DISABLED) a)"
    unfolding NuandConfigureGpif_def
    apply (rule moves_lift [OF moves_lift_get [where x = "a_gpif a"]], erule absD(6))
    apply (rule moves_lift [OF 1])
    apply (rule moves_lift [OF moves_lift_get [where x = "a_pib a"]], drule absD(7), simp only: fields(1))
    apply (rule moves_lift [OF 2], simp only: simp_thms if_False)
    apply (rule moves_lift [OF 3])
    by (cases config) (simp_all add: moves_lift_return gpif_restart_move [OF assms(1)])
  then show ?thesis
    unfolding configure_gpif_at_def by (rule moves_bind) (simp add: moves_return)
qed

lemma moves_speed:
  fixes k :: "usb_speed \<Rightarrow> (('h, 'z) fx3_app_scheme, 'a) fw"
  assumes "res_sdk sdk view" "\<And>speed. speed \<noteq> CY_U3P_NOT_CONNECTED \<Longrightarrow> moves view a (k speed) y b"
  shows "moves view a (bindF (liftF (hwS (CyU3PUsbGetSpeed sdk))) k) y b"
  unfolding moves_def
proof (intro allI impI)
  fix s :: "('h, 'z) fx3_app_scheme"
  assume s: "abs_of view s = a"
  obtain x h where h: "CyU3PUsbGetSpeed sdk (fx_hw s) = (x, h)" by fastforce
  have x: "x \<noteq> CY_U3P_NOT_CONNECTED" using res_sdkD(1) [OF assms(1), of "fx_hw s"] h by simp
  have "view h = view (fx_hw s)"
    using res_sdkD(2) [OF assms(1)] h unfolding releases_def by (metis snd_conv id_apply)
  then have "abs_of view (s\<lparr>fx_hw := h\<rparr>) = a" using s by (auto simp add: abs_of_def)
  then show "\<exists>t. bindF (liftF (hwS (CyU3PUsbGetSpeed sdk))) k s = Some (y, t) \<and> abs_of view t = b"
    using assms(2) [OF x] h unfolding moves_def by (simp add: hwS_def)
qed

lemma moves_packet:
  fixes k :: "u16 \<Rightarrow> (('h, 'z) fx3_app_scheme, 'a) fw"
  assumes "speed \<noteq> CY_U3P_NOT_CONNECTED" "\<And>sz. moves view a (k sz) y b"
  shows "moves view a (bindF (packet_size sdk file_id line speed) k) y b"
proof -
  obtain sz where "(packet_size sdk file_id line speed :: (('h, 'z) fx3_app_scheme, u16) fw) = returnF sz"
    using assms(1) by (cases speed) (auto simp add: packet_size_def)
  then show ?thesis using assms(2) [of sz] by (simp add: moves_def bindF_def)
qed

text \<open>A step that only changes the firmware's variables.\<close>

lemma field_moves:
  "moves view a (NuandAllowSuspend b) () a"
  "moves view a (liftF (modifyS (\<lambda>s. s\<lparr>glAppMode := mode\<rparr>))) () (a_mode_update (\<lambda>_. mode) a)"
  "moves view a (liftF (modifyS (\<lambda>s. s\<lparr>first_call := b\<rparr>))) () a"
  "moves view a (liftF (modifyS (\<lambda>s. s\<lparr>loopback_when_created := loopback s\<rparr>))) () (a\<lparr>a_created := a_loop a\<rparr>)"
  "moves view a (liftF (modifyS (\<lambda>s. s\<lparr>glUsbAltInterface := alt\<rparr>))) () (a_alt_update (\<lambda>_. alt) a)"
  unfolding NuandAllowSuspend_def
  by (rule moves_update [where g = id], simp_all add: abs_of_def)
    (rule moves_update [where g = "a_mode_update (\<lambda>_. mode)"], simp_all add: abs_of_def,
     rule moves_update [where g = id], simp_all add: abs_of_def,
     rule moves_update [where g = "\<lambda>a. a\<lparr>a_created := a_loop a\<rparr>"], simp_all add: abs_of_def,
     rule moves_update [where g = "a_alt_update (\<lambda>_. alt)"], simp_all add: abs_of_def)


lemmas res_steps = res_moves [THEN moves_steps(2)]
lemmas field_steps = field_moves [THEN moves_steps(2)]

text \<open>What starting and stopping do to the resources.  Stopping what has been stopped already does nothing.\<close>

definition started :: "app_mode \<Rightarrow> app_abs \<Rightarrow> app_abs" where
  "started mode a = a\<lparr>a_res := resources mode (a_loop a \<noteq> 0), a_gpif := True, a_pib := True, a_mode := mode,
     a_created := (if mode = MODE_RF_CONFIG then a_loop a else a_created a)\<rparr>"

definition stopped :: "app_abs \<Rightarrow> app_abs" where
  "stopped a = a\<lparr>a_res := resources MODE_NO_CONFIG False, a_gpif := False, a_pib := False, a_mode := MODE_NO_CONFIG\<rparr>"

definition idle :: "app_abs \<Rightarrow> bool" where
  "idle a \<longleftrightarrow> a_res a = resources MODE_NO_CONFIG False \<and> \<not> a_gpif a \<and> \<not> a_pib a"

definition running :: "app_mode \<Rightarrow> app_abs \<Rightarrow> bool" where
  "running mode a \<longleftrightarrow> a_res a = resources mode (a_created a \<noteq> 0) \<and> a_gpif a \<and> a_pib a"

lemma fpga_start_moves:
  fixes a :: app_abs
  assumes sdk: "res_sdk sdk view" and idle: "idle a"
  shows "moves view a (start (NuandFpgaConfig sdk)) () (started MODE_FPGA_CONFIG a)"
proof -
  have g: "a_gpif a = res_gpif (a_res a)" "a_pib a = res_pib (a_res a)" and c: "\<not> res_chans (a_res a) ch" for ch
    using idle by (simp_all add: idle_def resources_def)
  note r = res_steps [OF sdk]
  show ?thesis
    unfolding NuandFpgaConfig_def NuandApplication.simps NuandFpgaConfigStart_def
    apply (rule moves_speed [OF sdk])
    apply (rule moves_bind [OF field_moves(1)])
    apply (rule moves_any)
    apply (rule moves_bind)
     apply (rule moves_steps(2), rule pins_move(2) [OF sdk],
      rule field_steps(3))
     apply (rule moves_steps(2), rule gpif_move [OF sdk g], rule moves_steps(1))
    apply (rule moves_packet, assumption,
      rule r(6),
      rule r(7), simp add: c,
      rule r(2),
      rule r(8), simp,
      rule field_steps(2))
    apply (rule moves_cong [OF moves_steps(1)])
    using idle by (cases a) (simp add: started_def gpif_set_def resources_def idle_def ep_on_def fun_eq_iff)
qed

lemma fpga_stop_moves:
  fixes a :: app_abs
  assumes sdk: "res_sdk sdk view" and a: "running MODE_FPGA_CONFIG a \<or> idle a"
  shows "moves view a (stop (NuandFpgaConfig sdk)) () (stopped a)"
proof -
  have g: "a_gpif a = res_gpif (a_res a)" "a_pib a = res_pib (a_res a)"
    using a by (auto simp add: idle_def running_def resources_def)
  note r = res_steps [OF sdk]
  show ?thesis
    unfolding NuandFpgaConfig_def NuandApplication.simps NuandFpgaConfigStop_def
    apply (rule r(3),
      rule r(2),
      rule r(4),
      rule r(6))
    apply (rule moves_steps(2), rule gpif_move [OF sdk], simp add: g, simp add: g,
      rule field_steps(1),
      rule field_steps(2),
      rule r(1))
    apply (rule moves_cong [OF moves_steps(1)])
    using a
    apply (cases a) apply (auto simp add: stopped_def gpif_set_def resources_def idle_def running_def ep_off_def fun_eq_iff)
    done
qed

lemma uart_start_moves:
  fixes a :: app_abs
  assumes sdk: "res_sdk sdk view"
    and a: "\<not> res_uart (a_res a)" "\<not> res_chans (a_res a) glChHandlebladeRFUtoUART" "\<not> res_chans (a_res a) glChHandlebladeRFUARTtoU"
  shows "moves view a (UartBridgeStart sdk) () (a\<lparr>a_res := (a_res a)\<lparr>res_eps := (res_eps (a_res a))(0x02 := True, 0x82 := True),
    res_chans := (res_chans (a_res a))(glChHandlebladeRFUtoUART := True, glChHandlebladeRFUARTtoU := True), res_uart := True\<rparr>\<rparr>)"
proof -
  note r = res_steps [OF sdk]
  show ?thesis
    unfolding UartBridgeStart_def
    apply (rule moves_speed [OF sdk])
    apply (rule moves_bind,
      rule r(9), rule a(1),
      rule r(10), simp,
      rule r(11), simp,
      rule r(12), simp, rule moves_steps(1))
    apply (rule moves_packet, assumption,
      rule r(6),
      rule r(6),
      rule r(7), simp add: a,
      rule r(7), simp add: a,
      rule r(2),
      rule r(2),
      rule r(8), simp,
      rule r(8), simp,
      rule r(11), simp,
      rule r(12), simp)
    apply (rule moves_cong [OF moves_steps(1)])
    by (cases a, cases "a_res a") (simp add: ep_on_def)
qed

lemma uart_stop_moves:
  fixes a :: app_abs
  assumes sdk: "res_sdk sdk view"
  shows "moves view a (UartBridgeStop sdk) () (a\<lparr>a_res := (a_res a)\<lparr>res_eps := (res_eps (a_res a))(0x02 := False, 0x82 := False),
    res_chans := (res_chans (a_res a))(glChHandlebladeRFUARTtoU := False, glChHandlebladeRFUtoUART := False), res_uart := False\<rparr>\<rparr>)"
proof -
  note r = res_steps [OF sdk]
  show ?thesis
    unfolding UartBridgeStop_def
    apply (rule r(2),
      rule r(2),
      rule r(4),
      rule r(4),
      rule r(6),
      rule r(6),
      rule r(5))
    apply (rule moves_cong [OF moves_steps(1)])
    by (cases a, cases "a_res a") (simp add: ep_off_def)
qed

lemma moves_when:
  assumes "b \<Longrightarrow> moves view a m () (a_res_update f a)"
  shows "moves view a (if b then m else returnF ()) () (a_res_update (\<lambda>r. if b then f r else r) a)"
  using assms by (cases b) (auto intro: moves_cong [OF moves_return])

lemma rf_start_moves:
  fixes a :: app_abs
  assumes sdk: "res_sdk sdk view" and idle: "idle a"
  shows "moves view a (start (NuandRFLink sdk)) () (started MODE_RF_CONFIG a)"
proof -
  have g: "a_gpif a = res_gpif (a_res a)" "a_pib a = res_pib (a_res a)" and u: "\<not> res_uart (a_res a)"
    and c: "\<not> res_chans (a_res a) ch" for ch
    using idle by (simp_all add: idle_def resources_def)
  note r = res_steps [OF sdk] and m = res_moves [OF sdk]
  show ?thesis
    unfolding NuandRFLink_def NuandApplication.simps NuandRFLinkStart_def
    apply (rule moves_speed [OF sdk])
    apply (rule moves_bind)
     apply (rule field_steps(1), rule moves_steps(2), rule pins_move(2) [OF sdk], rule r(1), rule r(1), rule r(1), rule r(1))
     apply (rule moves_steps(2), rule gpif_move [OF sdk], simp add: g, simp add: g, rule moves_steps(1))
    apply (rule moves_packet, assumption)
    unfolding Let_def
    apply (rule moves_bind)
     apply (rule r(6), rule r(6), rule field_steps(4), rule moves_steps(1))
    apply (rule moves_get [where x = "a_loop a"], drule absD(4), simp)
    apply (rule r(7), simp add: c)
    apply (rule moves_steps(2), rule moves_when, rule m(7), simp add: c)
    apply (rule r(2), rule r(2))
    apply (rule r(8), simp)
    apply (rule moves_steps(2), rule moves_when, rule m(8), simp)
    apply (rule moves_steps(2), rule uart_start_moves [OF sdk], simp add: u, simp add: c, simp add: c)
    apply (rule field_steps(2))
    apply (rule moves_cong [OF moves_steps(1)])
    using idle by (cases a) (auto simp add: started_def gpif_set_def resources_def idle_def ep_on_def fun_eq_iff)
qed

lemma rf_stop_moves:
  fixes a :: app_abs
  assumes sdk: "res_sdk sdk view" and a: "running MODE_RF_CONFIG a \<or> idle a"
  shows "moves view a (stop (NuandRFLink sdk)) () (stopped a)"
proof -
  have g: "a_gpif a = res_gpif (a_res a)" "a_pib a = res_pib (a_res a)"
    using a by (auto simp add: idle_def running_def resources_def)
  note r = res_steps [OF sdk] and m = res_moves [OF sdk]
  show ?thesis
    unfolding NuandRFLink_def NuandApplication.simps NuandRFLinkStop_def
    apply (rule moves_get [where x = "a_created a"], drule absD(5), simp)
    apply (rule r(1), rule r(1), rule r(1), rule r(2), rule r(2), rule r(4))
    apply (rule moves_steps(2), rule moves_when, rule m(4))
    apply (rule r(6), rule r(6))
    apply (rule moves_steps(2), rule gpif_move [OF sdk], simp add: g, simp add: g)
    apply (rule moves_steps(2), rule uart_stop_moves [OF sdk])
    apply (rule field_steps(1), rule field_steps(2))
    apply (rule moves_cong [OF moves_steps(1)])
    using a by (cases a) (auto simp add: stopped_def gpif_set_def resources_def idle_def running_def ep_off_def fun_eq_iff)
qed

section \<open>The events of the bus\<close>

text \<open>What the host can do to the alternate settings: the events, and the request that sets the loopback.\<close>

inductive fw_reach ::
  "('h, 'y) fx3_app_sdk_scheme \<Rightarrow> ('h, 'z) fx3_app_scheme \<Rightarrow> ('h, 'z) fx3_app_scheme \<Rightarrow> bool"
  for sdk :: "('h, 'y) fx3_app_sdk_scheme" and init :: "('h, 'z) fx3_app_scheme" where
  power_on: "fw_reach sdk init init"
| usb_event: "fw_reach sdk init s \<Longrightarrow> CyFxbladeRFApplnUSBEventCB sdk evtype s = Some ((), t) \<Longrightarrow> fw_reach sdk init t"
| set_loopback: "fw_reach sdk init s \<Longrightarrow> NuandRFLinkLoopBack lp s = Some ((), t) \<Longrightarrow> fw_reach sdk init t"

definition consistent :: "app_abs \<Rightarrow> bool" where
  "consistent a \<longleftrightarrow>
     (if a_mode a = MODE_RF_CONFIG then running MODE_RF_CONFIG a \<and> a_alt a = USB_IF_RF_LINK
      else if a_mode a = MODE_FPGA_CONFIG then running MODE_FPGA_CONFIG a \<and> a_alt a = USB_IF_CONFIG else idle a)"

lemma released:
  "releases view m id \<Longrightarrow> abs_of view (snd (hwS m s)) = abs_of view s"
  by (auto simp add: hwS_def releases_def abs_of_def split: prod.splits) (metis snd_conv)

lemma flash_moves:
  fixes a :: app_abs and view :: "'h \<Rightarrow> usb_res"
  assumes sdk: "res_sdk sdk view"
  shows "moves view a (seqF (NuandFlashInit sdk) (returnF ()) :: (('h, 'z) fx3_app_scheme, unit) fw) () (a_mode_update (\<lambda>_. MODE_FW_CONFIG) a)"
    "moves view a (NuandFlashDeinit sdk) () a"
proof -
  show "moves view a (NuandFlashDeinit sdk) () a"
    unfolding NuandFlashDeinit_def CyFxSpiDeInit_def
    by (rule moves_release [OF res_sdkD(8) [OF sdk]]) (simp add: moves_return)
  show "moves view a (seqF (NuandFlashInit sdk) (returnF ()) :: (('h, 'z) fx3_app_scheme, unit) fw) () (a_mode_update (\<lambda>_. MODE_FW_CONFIG) a)"
    unfolding moves_def
  proof (intro allI impI)
    fix s :: "('h, 'z) fx3_app_scheme"
    assume "abs_of view s = a"
    then obtain t where t: "NuandGPIOReconfigure sdk False True s = Some ((), t)" "abs_of view t = a"
      using pins_move(2) [OF sdk] unfolding moves_def by blast
    obtain status u where u: "CyFxSpiInit sdk t = (status, u)" by fastforce
    have "abs_of view (snd (CyFxSpiInit sdk t)) = abs_of view t"
      by (simp add: CyFxSpiInit_def bindS_apply released res_sdkD [OF sdk])
    then have "abs_of view (u\<lparr>glAppMode := MODE_FW_CONFIG\<rparr>) = a_mode_update (\<lambda>_. MODE_FW_CONFIG) a"
      using u t(2) by (auto simp add: abs_of_def)
    then show "\<exists>t. seqF (NuandFlashInit sdk) (returnF ()) s = Some ((), t) \<and> abs_of view t = a_mode_update (\<lambda>_. MODE_FW_CONFIG) a"
      using t(1) u by (simp add: NuandFlashInit_def bindF_def)
  qed
qed

text \<open>The alternate setting that an event selects, and the application that belongs to it.\<close>

definition new_alt :: "u16 \<Rightarrow> nat" where "new_alt evdata = unat (evdata AND 0xf)"

definition alt_mode :: "nat \<Rightarrow> app_mode" where
  "alt_mode alt = (if alt = USB_IF_RF_LINK then MODE_RF_CONFIG else if alt = USB_IF_CONFIG then MODE_FPGA_CONFIG else MODE_NO_CONFIG)"


text \<open>The handler of SET_INTERFACE stops what belongs to one setting and starts what belongs to another.\<close>

definition stopped_alt :: "app_abs \<Rightarrow> app_abs" where
  "stopped_alt a = (if a_alt a = USB_IF_CONFIG \<or> a_alt a = USB_IF_RF_LINK then stopped a else a)"

lemma stop_alt_moves:
  fixes a :: app_abs
  assumes sdk: "res_sdk sdk view" and a: "consistent a"
  shows "moves view a (if a_alt a = USB_IF_CONFIG then stop (NuandFpgaConfig sdk)
      else if a_alt a = USB_IF_RF_LINK then stop (NuandRFLink sdk)
      else if a_alt a = USB_IF_SPI_FLASH then NuandFlashDeinit sdk else returnF ()) () (stopped_alt a)"
proof -
  consider "a_alt a = USB_IF_CONFIG" | "a_alt a = USB_IF_RF_LINK" | "a_alt a \<noteq> USB_IF_CONFIG" "a_alt a \<noteq> USB_IF_RF_LINK" by blast
  then show ?thesis
  proof cases
    case 1
    then have "running MODE_FPGA_CONFIG a \<or> idle a" using a by (auto simp add: consistent_def split: if_splits)
    from fpga_stop_moves [OF sdk this] 1 show ?thesis by (simp add: stopped_alt_def)
  next
    case 2
    then have "running MODE_RF_CONFIG a \<or> idle a" using a by (auto simp add: consistent_def split: if_splits)
    from rf_stop_moves [OF sdk this] 2 show ?thesis by (simp add: stopped_alt_def)
  next
    case 3
    then show ?thesis by (simp add: flash_moves(2) [OF sdk] moves_return stopped_alt_def)
  qed
qed

lemma stop_alt_idle:
  assumes "consistent a"
  shows "idle (stopped_alt a)" "consistent (stopped_alt a)" "a_loop (stopped_alt a) = a_loop a" "a_alt (stopped_alt a) = a_alt a"
  using assms by (auto simp add: stopped_alt_def idle_def stopped_def consistent_def split: if_splits)

definition started_alt :: "nat \<Rightarrow> app_abs \<Rightarrow> app_abs" where
  "started_alt alt a = a_alt_update (\<lambda>_. alt)
     (if alt = USB_IF_CONFIG then started MODE_FPGA_CONFIG a else if alt = USB_IF_RF_LINK then started MODE_RF_CONFIG a
      else if alt = USB_IF_SPI_FLASH then a_mode_update (\<lambda>_. MODE_FW_CONFIG) a else a)"

lemma start_alt_moves:
  fixes a :: app_abs
  assumes sdk: "res_sdk sdk view" and a: "idle a"
  shows "moves view a (seqF (if alt = USB_IF_CONFIG then start (NuandFpgaConfig sdk)
        else if alt = USB_IF_RF_LINK then start (NuandRFLink sdk)
        else if alt = USB_IF_SPI_FLASH then seqF (NuandFlashInit sdk) (returnF ()) else returnF ())
      (liftF (modifyS (\<lambda>s. s\<lparr>glUsbAltInterface := alt\<rparr>)))) () (started_alt alt a)"
  unfolding started_alt_def
  by (rule moves_bind [OF _ field_moves(5)])
    (simp add: fpga_start_moves [OF sdk a] rf_start_moves [OF sdk a] flash_moves(1) [OF sdk] moves_return)

lemma start_alt_consistent:
  assumes "idle a" "consistent a"
  shows "consistent (started_alt alt a)" "a_loop (started_alt alt a) = a_loop a" "a_alt (started_alt alt a) = alt"
    "a_res (started_alt alt a) = resources (alt_mode alt) (a_loop a \<noteq> 0)"
  using assms by (auto simp add: started_alt_def started_def consistent_def running_def idle_def resources_def alt_mode_def split: if_splits)

text \<open>What an event does to the state.\<close>

definition next_abs :: "usb_event \<Rightarrow> app_abs \<Rightarrow> app_abs" where
  "next_abs evtype a =
     (case evtype of
        EVENT_SETINTF evdata \<Rightarrow>
          if evdata AND 0xf0 \<noteq> 0 \<or> new_alt evdata = a_alt a then a
          else started_alt (new_alt evdata) (stopped_alt a)
      | EVENT_SETCONF evdata \<Rightarrow> a
      | EVENT_OTHER \<Rightarrow> a
      | _ \<Rightarrow> if a_mode a = MODE_RF_CONFIG \<or> a_mode a = MODE_FPGA_CONFIG then stopped a else a)"

lemma interface_bits: "unat (drop_bit 4 (evdata AND 0xf0)) \<noteq> 0 \<longleftrightarrow> evdata AND 0xf0 \<noteq> 0" for evdata :: u16
proof -
  have "drop_bit 4 (evdata AND 0xf0) = 0 \<longleftrightarrow> evdata AND 0xf0 = 0"
  proof
    assume e: "drop_bit 4 (evdata AND 0xf0) = 0"
    show "evdata AND 0xf0 = 0"
    proof (rule bit_word_eqI)
      fix n assume "n < LENGTH(16)"
      show "bit (evdata AND 0xf0) n = bit (0 :: u16) n"
      proof (cases "n < 4")
        case True
        then have "n = 0 \<or> n = 1 \<or> n = 2 \<or> n = 3" by auto
        then show ?thesis by (auto simp add: bit_simps)
      next
        case False
        have "\<not> bit (drop_bit 4 (evdata AND 0xf0)) (n - 4)" unfolding e by simp
        then have "\<not> bit (evdata AND 0xf0) (4 + (n - 4))" unfolding bit_drop_bit_eq comp_apply .
        moreover have "4 + (n - 4) = n" using False by simp
        ultimately show ?thesis unfolding bit_0_eq by simp
      qed
    qed
  qed simp
  then show ?thesis by (simp add: unat_eq_0)
qed

lemma stop_moves:
  fixes a :: app_abs
  assumes sdk: "res_sdk sdk view" and a: "consistent a"
  shows "moves view a (StopApplication sdk) () (if a_mode a = MODE_RF_CONFIG \<or> a_mode a = MODE_FPGA_CONFIG then stopped a else a)"
  unfolding StopApplication_def
  by (rule moves_get [where x = "a_mode a"], erule absD(2))
    (use a in \<open>auto simp add: consistent_def rf_stop_moves [OF sdk] fpga_stop_moves [OF sdk] moves_return\<close>)

lemma event_moves:
  fixes a :: app_abs
  assumes sdk: "res_sdk sdk view" and a: "consistent a"
  shows "moves view a (CyFxbladeRFApplnUSBEventCB sdk evtype) () (next_abs evtype a)"
proof (cases evtype)
  case (EVENT_SETINTF evdata)
  note idle = stop_alt_idle [OF a]
  show ?thesis
    unfolding EVENT_SETINTF CyFxbladeRFApplnUSBEventCB_def next_abs_def usb_event.case Let_def interface_bits new_alt_def [symmetric]
    apply (rule moves_get [where x = "a_alt a"], erule absD(3))
    apply (rule moves_cong, rule moves_if, rule moves_return)
     apply (rule moves_bind [OF stop_alt_moves [OF sdk a]])
     apply (rule start_alt_moves [OF sdk idle(1)])
    by simp
next
  case EVENT_SETCONF
  show ?thesis unfolding EVENT_SETCONF CyFxbladeRFApplnUSBEventCB_def usb_event.case next_abs_def
    by (rule moves_update [where g = id]) (simp_all add: abs_of_def)
qed (simp_all add: CyFxbladeRFApplnUSBEventCB_def next_abs_def stop_moves [OF sdk a] moves_return)

lemma event_consistent:
  assumes "consistent a"
  shows "consistent (next_abs evtype a)" "a_loop (next_abs evtype a) = a_loop a"
proof -
  note idle = stop_alt_idle [OF assms]
  note alt = start_alt_consistent [OF idle(1,2)]
  have s: "consistent (stopped a)" "a_loop (stopped a) = a_loop a"
    by (simp_all add: stopped_def consistent_def idle_def)
  show "consistent (next_abs evtype a)" "a_loop (next_abs evtype a) = a_loop a"
    unfolding next_abs_def using assms s alt idle(3) by (simp_all split: usb_event.split)
qed

lemma reach_consistent:
  assumes "res_sdk sdk view" "consistent (abs_of view init)" "fw_reach sdk init s"
  shows "consistent (abs_of view s)"
  using assms(3)
proof induction
  case power_on
  show ?case by (rule assms(2))
next
  case (usb_event s evtype t)
  then have "abs_of view t = next_abs evtype (abs_of view s)"
    using event_moves [OF assms(1) usb_event.IH, where evtype = evtype] by (auto simp add: moves_def)
  then show ?case using event_consistent(1) [OF usb_event.IH] by simp
next
  case (set_loopback s lp t)
  then show ?case by (auto simp add: NuandRFLinkLoopBack_def consistent_def running_def idle_def abs_of_def)
qed

lemma next_resources:
  assumes "consistent a"
  shows "case evtype of
       EVENT_SETINTF evdata \<Rightarrow> (evdata AND 0xf0 = 0 \<longrightarrow> a_alt (next_abs evtype a) = new_alt evdata \<and>
         (if new_alt evdata = a_alt a then next_abs evtype a = a
          else a_res (next_abs evtype a) = resources (alt_mode (new_alt evdata)) (a_loop a \<noteq> 0)))
     | EVENT_SETCONF evdata \<Rightarrow> next_abs evtype a = a
     | EVENT_OTHER \<Rightarrow> next_abs evtype a = a
     | _ \<Rightarrow> a_res (next_abs evtype a) = resources MODE_NO_CONFIG False \<and> a_alt (next_abs evtype a) = a_alt a"
proof -
  note idle = stop_alt_idle [OF assms]
  have i: "a_res a = resources MODE_NO_CONFIG False" if "a_mode a \<noteq> MODE_RF_CONFIG" "a_mode a \<noteq> MODE_FPGA_CONFIG"
    using assms that by (simp add: consistent_def idle_def)
  show ?thesis
    using start_alt_consistent [OF idle(1,2)] idle(3) i
    by (auto simp add: next_abs_def stopped_def split: usb_event.split)
qed


text \<open>An SDK whose state is the resources: a claim of what is held, or a use of what is not, fails.\<close>

definition claim :: "bool \<Rightarrow> (usb_res \<Rightarrow> usb_res) \<Rightarrow> (usb_res, u32) st" where
  "claim allowed change v = (if allowed then (0, change v) else (0x42, v))"

definition res_board :: "usb_res fx3_app_sdk" where
  "res_board = \<lparr> CyU3PMutexCreate = returnS 0, CyU3PMutexGet = returnS 0, CyU3PMutexPut = returnS 0,
     CY_U3P_ERROR_NOT_SUPPORTED = 0x45, CyU3PSpiInit = returnS 0, CyU3PSpiDeInit = returnS 0,
     CyU3PSpiSetConfig = returnS 0, CyU3PSpiSetSsnLine = (\<lambda>_. returnS 0), CyU3PSpiTransmitWords = (\<lambda>_. returnS 0),
     CyU3PSpiReceiveWords = (\<lambda>n. returnS (0, replicate n 0)), CyU3PThreadSleep = (\<lambda>_. returnS ()),
     FIRMWARE_VERSION_MAJOR = 1, FIRMWARE_VERSION_MINOR = 8, FIRMWARE_VERSION = [0x31, 0x2e, 0x38, 0],
     CY_U3P_ERROR_FAILURE = 0x46, CY_U3P_ERROR_BAD_ARGUMENT = 0x40,
     CyU3PUsbSendEP0Data = (\<lambda>_. returnS 0), CyU3PUsbGetEP0Data = (\<lambda>n. returnS (0, replicate n 0)),
     CyU3PUsbStall = (\<lambda>_ _ _. returnS 0), CyU3PUsbAckSetup = returnS (),
     CyU3PDeviceReset = (\<lambda>_. returnS ()), CyU3PGpioGetValue = (\<lambda>_. returnS (0, True)),
     CyU3PGpioSetValue = (\<lambda>_ _. returnS 0), CyU3PGpioInit = returnS 0, CyU3PGetTime = returnS 0,
     CyU3PDeviceConfigureIOMatrix = (\<lambda>_. returnS 0), CyU3PDeviceGpioOverride = (\<lambda>_. returnS 0),
     CyU3PGpioSetSimpleConfig = (\<lambda>_ _. returnS 0), CyU3PSpiSetClock = (\<lambda>_. returnS 0),
     CyU3PUsbStart = returnS 0, CyU3PUsbSetDesc = (\<lambda>_. returnS 0), CyU3PConnectState = returnS 0,
     CyU3PUsbGetSpeed = returnS CY_U3P_SUPER_SPEED,
     CyU3PSetEpConfig = (\<lambda>ep conf. claim True (res_eps_update (\<lambda>eps. eps(ep := ep_enable conf)))),
     CyU3PUsbFlushEp = (\<lambda>_. returnS 0), CyU3PUsbResetEp = (\<lambda>_. returnS 0), CyU3PDmaBufferAlloc = (\<lambda>n. returnS (replicate n 0)),
     CyU3PDmaChannelCreate = (\<lambda>ch _ _ v. claim (\<not> res_chans v ch) (res_chans_update (\<lambda>chans. chans(ch := True))) v),
     CyU3PDmaChannelSetXfer = (\<lambda>ch _ v. claim (res_chans v ch) id v),
     CyU3PDmaChannelDestroy = (\<lambda>ch v. (if res_chans v ch then 0 else 0x42, res_chans_update (\<lambda>chans. chans(ch := False)) v)),
     CyU3PDmaChannelGetStatus = (\<lambda>_. returnS 0), CyU3PDmaChannelAbort = (\<lambda>_. returnS 0), CyU3PDmaChannelReset = (\<lambda>_. returnS 0),
     CyU3PDmaChannelSetupSendBuffer = (\<lambda>_ _. returnS 0), CyU3PDmaChannelWaitForCompletion = (\<lambda>_ _. returnS 0),
     CyU3PDmaChannelCommitBuffer = (\<lambda>_ _. returnS 0),
     CyU3PUartInit = (\<lambda>v. claim (\<not> res_uart v) (res_uart_update (\<lambda>_. True)) v), CyU3PUartSetConfig = (\<lambda>v. claim (res_uart v) id v),
     CyU3PUartTxSetBlockXfer = (\<lambda>_ v. claim (res_uart v) id v), CyU3PUartRxSetBlockXfer = (\<lambda>_ v. claim (res_uart v) id v),
     CyU3PUartDeInit = (\<lambda>v. (if res_uart v then 0 else 0x42, res_uart_update (\<lambda>_. False) v)),
     CyU3PGpifDisable = (\<lambda>_ v. ((), res_gpif_update (\<lambda>_. False) v)),
     CyU3PPibDeInit = (\<lambda>v. claim (res_pib v) (res_pib_update (\<lambda>_. False)) v),
     CyU3PPibInit = (\<lambda>v. claim (\<not> res_pib v) (res_pib_update (\<lambda>_. True)) v),
     CyU3PGpifLoad = (\<lambda>_ v. claim (res_pib v \<and> \<not> res_gpif v) (res_gpif_update (\<lambda>_. True)) v),
     CyU3PGpifSMStart = (\<lambda>_ _ v. claim (res_gpif v) id v) \<rparr>"

lemma res_board_laws: "res_sdk res_board (\<lambda>v. v)"
  unfolding res_sdk_def claims_def releases_def
  by (intro conjI allI) (simp_all add: res_board_def claim_def)

definition res_new :: "usb_res fx3_app" where
  "res_new = \<lparr> fx_hw = resources MODE_NO_CONFIG False, fx_log = new_log, spiFastRead = False,
     glAppMode = MODE_NO_CONFIG, glUsbConfiguration = 0, glUsbAltInterface = 0,
     glPageBuffer = replicate 256 0, glCalCacheValid = False, glCal = replicate 256 0, glDeviceReady = True,
     glAutoLoadValid = False, glAutoLoad = replicate 256 0, CyFxUSBSerial = replicate 66 0, CyFxUSBVersion = replicate 10 0,
     allow_suspend = True, loopback = 1, loopback_when_created = 0, RF_status_bits = replicate 131 0, first_call = True,
     glDMARxCount = 0, FPGA_status_bits = replicate 3 0, gpif_active = False, pib_active = False \<rparr>"


end
