(* ===== verification/Spec2Isabelle.thy ===== *)
theory Spec2Isabelle
  imports Lms_Config Link_Retune Link_Radio Dc_Table Image Si5338 Nios_Legacy_Host Fx3_Boot
    Fx3_Interfaces
begin

text \<open>
  The control path of the bladeRF software-defined radio
  (src/lab5_bladeRF_code), from the functions of the host library through the
  control packets and the NIOS II firmware of the FPGA down to the registers of
  the LMS6002D transceiver and of the FPGA's peripherals.

  A host function (nios_access.c, lms.c) packs a sixteen byte request, the USB
  backend carries it, the firmware's main loop looks up the handler of its
  magic byte, the handler reads or writes a device through memory-mapped
  registers and builds the response, which the host unpacks.

  Theories, from the bottom up.

  Prelude: errors and results, bit lists of words, little-endian byte
  lists, the collections of simplification rules.

  Nios_Pkt: the packet formats (nios_pkt_*.h), one pack and one unpack
  function per format and direction; round trips for all of them.

  Lms_Dev: the interface of the RF chip driver to the chip: LMS_READ,
  LMS_WRITE, CONFIG_GPIO_READ, CONFIG_GPIO_WRITE as a record of functions on
  an abstract state. The locale lms_regs has the laws of a register file and
  the lemmas on what a sequence of register writes changes; lms_pll adds the
  comparator bits of the VCO. The same driver source is compiled for host and
  firmware, so both are interpretations.

  Lms_Config, Band_Select: the register setters and getters of lms.c, and
  band_select.c. Lms_Freq: lms_calculate_tuning_params with its
  single-precision VCOCAP estimate, frequencies and the quick tune. Lms_Vco: the
  VCOCAP search. Lms_Tuning: lms_set_precalculated_frequency. Lms_Frame: what
  these leave alone.

  Nios_Devices: devices.c and devices_inline.h on a record of bus
  operations. Nios_Board: the board the firmware runs on (register file behind
  the SPI controller, parallel ports, time tamers from time_tamer.vhd) and the
  interpretations of the locales on it. Nios_Handlers, Nios_Legacy,
  Nios_Retune: the packet handlers. Retune_Queue, Retune_Sched: the ring of
  pending retunes against a bounded FIFO, and the interplay of queue, interrupt
  and time tamer as a step relation. Nios_Main: the main loop and the VCTCXO
  calibration.

  Nios_Host: nios_access.c and capabilities.c on a record of the two USB
  transfers. Nios_Link: host and firmware joined. Link_Access: every access of
  the host carried through pack, dispatch, handler and unpack, and the
  interpretation of lms_regs and lms_pll on the joined system. Link_Tuning,
  Link_Devices, Link_Retune: the properties of the joined system.
\<close>

end
